(* ===== verification/Py_Prelude.thy ===== *)
theory Py_Prelude
  imports Main "HOL-Library.Sublist"
begin

section \<open>Prelude: the Python the components share\<close>

text \<open>
  The test suite is written in Python 2. This theory models what the components use of the
  language and its standard library: exceptions as the left summand of a sum type, byte
  strings (the Python 2 \<open>str\<close>) as \<^typ>\<open>string\<close>, the string methods \<open>startswith\<close>,
  \<open>endswith\<close>, \<open>find\<close>, \<open>split\<close>, \<open>join\<close>, \<open>strip\<close>, \<open>lower\<close> and \<open>splitlines\<close>, list
  indexing with Python's negative indices, and decimal printing.

  The collection \<open>py_str\<close> holds the characterisations of the string predicates, and
  \<open>py_res\<close> the inversion rules of the result type.
\<close>

named_theorems py_str "characterisations of the Python string methods"
named_theorems py_res "inversion rules for computations that may raise"

subsection \<open>Exceptions as values\<close>

text \<open>The built-in exceptions that the modelled code raises.\<close>

datatype py_error =
    TypeError
  | ValueError
  | IndexError
  | KeyError
  | NameError
  | AttributeError
  | IOError
  | RegexError
  | OverflowError
  | ZeroDivisionError

text \<open>Sequencing of computations that may raise: the first exception wins.\<close>

definition bindR :: "'e + 'a \<Rightarrow> ('a \<Rightarrow> 'e + 'b) \<Rightarrow> 'e + 'b" where
  "bindR m f = (case m of Inl e \<Rightarrow> Inl e | Inr x \<Rightarrow> f x)"

lemma bindR_simps [simp]:
  "bindR (Inl e) f = Inl e"
  "bindR (Inr x) f = f x"
  by (simp_all add: bindR_def)

lemma bindR_Inr [py_res]: "bindR m f = Inr y \<longleftrightarrow> (\<exists>x. m = Inr x \<and> f x = Inr y)"
  by (cases m) auto

lemma bindR_Inl [py_res]:
  "bindR m f = Inl e \<longleftrightarrow> m = Inl e \<or> (\<exists>x. m = Inr x \<and> f x = Inl e)"
  by (cases m) auto

lemma bindR_assoc: "bindR (bindR m f) g = bindR m (\<lambda>x. bindR (f x) g)"
  by (cases m) auto

text \<open>A loop whose body may raise: a list comprehension over a raising function.\<close>

fun mapR :: "('a \<Rightarrow> 'e + 'b) \<Rightarrow> 'a list \<Rightarrow> 'e + 'b list" where
  "mapR f [] = Inr []"
| "mapR f (x # xs) = bindR (f x) (\<lambda>y. bindR (mapR f xs) (\<lambda>ys. Inr (y # ys)))"

lemma mapR_Inr_map: "(\<And>x. x \<in> set xs \<Longrightarrow> f x = Inr (g x)) \<Longrightarrow> mapR f xs = Inr (map g xs)"
  by (induction xs) auto

lemma mapR_length: "mapR f xs = Inr ys \<Longrightarrow> length ys = length xs"
  by (induction xs arbitrary: ys) (auto simp: py_res)

text \<open>A loop that updates one value.\<close>

fun foldR :: "('a \<Rightarrow> 'b \<Rightarrow> 'e + 'b) \<Rightarrow> 'a list \<Rightarrow> 'b \<Rightarrow> 'e + 'b" where
  "foldR f [] v = Inr v"
| "foldR f (x # xs) v = bindR (f x v) (foldR f xs)"

lemma foldR_Inr_fold: "(\<And>x v. x \<in> set xs \<Longrightarrow> f x v = Inr (g x v)) \<Longrightarrow> foldR f xs v = Inr (fold g xs v)"
  by (induction xs arbitrary: v) auto

lemma foldR_invariant:
  "foldR f xs v = Inr v' \<Longrightarrow> P v \<Longrightarrow> (\<And>x u u'. x \<in> set xs \<Longrightarrow> P u \<Longrightarrow> f x u = Inr u' \<Longrightarrow> P u') \<Longrightarrow> P v'"
proof (induction xs arbitrary: v)
  case (Cons x xs)
  then obtain u where "f x v = Inr u" "foldR f xs u = Inr v'" by (auto simp: py_res)
  with Cons show ?case by (metis list.set_intros)
qed simp

subsection \<open>Indexing\<close>

text \<open>\<open>xs[i]\<close>: a negative index counts from the end, an index out of range raises.\<close>

definition py_index :: "'a list \<Rightarrow> int \<Rightarrow> py_error + 'a" where
  "py_index xs i =
    (if int (length xs) \<le> i \<or> i < - int (length xs) then Inl IndexError
     else Inr (if i < 0 then rev xs ! nat (- i - 1) else xs ! nat i))"

lemma py_index_nat [simp]: "i < length xs \<Longrightarrow> py_index xs (int i) = Inr (xs ! i)"
  by (simp add: py_index_def)

lemma py_index_ok:
  "i < int (length xs) \<Longrightarrow> - int (length xs) \<le> i \<Longrightarrow> \<exists>c \<in> set xs. py_index xs i = Inr c"
  by (auto simp: py_index_def rev_nth intro!: bexI nth_mem)

subsection \<open>Prefixes and suffixes\<close>

definition startswith :: "string \<Rightarrow> string \<Rightarrow> bool" where
  "startswith s p \<longleftrightarrow> take (length p) s = p"

definition endswith :: "string \<Rightarrow> string \<Rightarrow> bool" where
  "endswith s p \<longleftrightarrow> length p \<le> length s \<and> drop (length s - length p) s = p"

lemma startswith_iff [py_str]: "startswith s p \<longleftrightarrow> (\<exists>t. s = p @ t)"
  unfolding startswith_def by (metis append_eq_conv_conj append_take_drop_id)

lemma endswith_iff [py_str]: "endswith s p \<longleftrightarrow> (\<exists>t. s = t @ p)"
proof
  assume "endswith s p"
  then have "s = take (length s - length p) s @ p"
    unfolding endswith_def by (metis append_take_drop_id)
  then show "\<exists>t. s = t @ p" by blast
qed (auto simp: endswith_def)

lemma startswith_prefix: "startswith s p \<longleftrightarrow> prefix p s"
  by (auto simp: startswith_iff prefix_def)

lemma endswith_suffix: "endswith s p \<longleftrightarrow> suffix p s"
  by (auto simp: endswith_iff suffix_def)

lemma startswith_append [simp]: "startswith (p @ s) p"
  by (auto simp: startswith_iff)

lemma endswith_append [simp]: "endswith (s @ p) p"
  by (auto simp: endswith_iff)

lemma endswith_same_length:
  "length p = length q \<Longrightarrow> endswith s p \<Longrightarrow> endswith s q \<Longrightarrow> p = q"
  by (auto simp: endswith_iff)

subsection \<open>Searching, splitting and joining\<close>

text \<open>\<open>s.find(sub)\<close>: the least index where \<open>sub\<close> occurs; \<^const>\<open>None\<close> for the result -1.\<close>

fun str_find :: "string \<Rightarrow> string \<Rightarrow> nat option" where
  "str_find [] sub = (if sub = [] then Some 0 else None)"
| "str_find (c # cs) sub =
     (if startswith (c # cs) sub then Some 0 else map_option Suc (str_find cs sub))"

lemma str_find_Some:
  "str_find s sub = Some i \<Longrightarrow> s = take i s @ sub @ drop (i + length sub) s"
proof (induction s arbitrary: i)
  case Nil
  then show ?case by (simp split: if_splits)
next
  case (Cons c cs)
  show ?case
  proof (cases "startswith (c # cs) sub")
    case True
    with Cons.prems have "i = 0" by simp
    moreover obtain t where "c # cs = sub @ t"
      using True by (auto simp: startswith_iff)
    ultimately show ?thesis by simp
  next
    case False
    with Cons.prems obtain j where j: "str_find cs sub = Some j" and i: "i = Suc j"
      by auto
    from Cons.IH [OF j] i show ?thesis by simp
  qed
qed

lemma str_find_bound: "str_find s sub = Some i \<Longrightarrow> i + length sub \<le> length s"
proof (induction s arbitrary: i)
  case (Cons c cs)
  show ?case
  proof (cases "startswith (c # cs) sub")
    case True
    with Cons.prems have "i = 0" by simp
    with True show ?thesis by (auto simp: startswith_iff dest!: arg_cong [of _ _ length])
  next
    case False
    with Cons show ?thesis by auto
  qed
qed (simp split: if_splits)

lemma str_find_None: "str_find s sub = None \<Longrightarrow> s \<noteq> u @ sub @ v"
proof (induction s arbitrary: u)
  case Nil
  then show ?case by (auto split: if_splits)
next
  case (Cons c cs)
  then have ns: "\<not> startswith (c # cs) sub" and nf: "str_find cs sub = None"
    by (auto split: if_splits)
  show ?case
  proof (cases u)
    case Nil
    with ns show ?thesis by (auto simp: startswith_iff)
  next
    case (Cons d ds)
    with Cons.IH [OF nf] show ?thesis by auto
  qed
qed

lemma str_find_char_None: "str_find s [c] = None \<longleftrightarrow> c \<notin> set s"
  by (induction s) (auto simp: startswith_def)

lemma str_find_char_take: "str_find s [c] = Some i \<Longrightarrow> c \<notin> set (take i s)"
proof (induction s arbitrary: i)
  case (Cons d ds)
  then show ?case
    by (cases "startswith (d # ds) [c]") (auto simp: startswith_def)
qed simp

text \<open>
  \<open>s.split(sep)\<close> cuts at the occurrences of \<open>sep\<close> from the left; an empty separator raises
  \<open>ValueError\<close>.
\<close>

function split_at :: "string \<Rightarrow> string \<Rightarrow> string list" where
  "split_at sep s =
     (if sep = [] then [s]
      else case str_find s sep of
             None \<Rightarrow> [s]
           | Some i \<Rightarrow> take i s # split_at sep (drop (i + length sep) s))"
  by pat_completeness auto
termination
proof (relation "measure (\<lambda>(sep, s). length s)")
  fix sep s :: string and i
  assume "sep \<noteq> []" and "str_find s sep = Some i"
  then have "0 < length sep" and "i + length sep \<le> length s"
    by (auto dest: str_find_bound)
  then have "length (drop (i + length sep) s) < length s"
    unfolding length_drop by linarith
  then show "((sep, drop (i + length sep) s), (sep, s)) \<in> measure (\<lambda>(sep, s). length s)"
    by simp
qed simp

declare split_at.simps [simp del]

definition str_split :: "string \<Rightarrow> string \<Rightarrow> py_error + string list" where
  "str_split s sep = (if sep = [] then Inl ValueError else Inr (split_at sep s))"

fun str_join :: "string \<Rightarrow> string list \<Rightarrow> string" where
  "str_join sep [] = []"
| "str_join sep [x] = x"
| "str_join sep (x # y # ys) = x @ sep @ str_join sep (y # ys)"

lemma split_at_not_Nil [simp]: "split_at sep s \<noteq> []"
  by (subst split_at.simps) (simp split: option.split)

lemma str_join_Cons: "xs \<noteq> [] \<Longrightarrow> str_join sep (x # xs) = x @ sep @ str_join sep xs"
  by (cases xs) auto

lemma str_join_split: "str_join sep (split_at sep s) = s"
proof (induction sep s rule: split_at.induct)
  case (1 sep s)
  show ?case
  proof (cases "sep = [] \<or> str_find s sep = None")
    case True
    then show ?thesis by (auto simp: split_at.simps [of sep s])
  next
    case False
    then obtain i where i: "str_find s sep = Some i" and ne: "sep \<noteq> []" by auto
    with "1.IH" have "str_join sep (split_at sep (drop (i + length sep) s)) =
        drop (i + length sep) s" by simp
    with i ne show ?thesis
      using str_find_Some [OF i] by (simp add: split_at.simps [of sep s] str_join_Cons)
  qed
qed

lemma split_at_char: "p \<in> set (split_at [c] s) \<Longrightarrow> c \<notin> set p"
proof (induction "[c]" s rule: split_at.induct)
  case (1 s)
  then show ?case
    by (auto simp: split_at.simps [of "[c]" s] str_find_char_None
        dest: str_find_char_take split: option.splits)
qed

lemma split_at_char_plain: "c \<notin> set s \<Longrightarrow> split_at [c] s = [s]"
  by (subst split_at.simps) (simp add: str_find_char_None [THEN iffD2])

lemma str_find_char_append: "c \<notin> set s \<Longrightarrow> str_find (s @ c # t) [c] = Some (length s)"
  by (induction s) (auto simp: startswith_def)

lemma split_at_char_append: "c \<notin> set s \<Longrightarrow> split_at [c] (s @ c # t) = s # split_at [c] t"
  by (subst split_at.simps) (simp add: str_find_char_append)

lemma length_split_at_char: "length (split_at [c] s) = Suc (length (filter ((=) c) s))"
proof (induction "length s" arbitrary: s rule: less_induct)
  case less
  show ?case
  proof (cases "c \<in> set s")
    case True
    then obtain u v where s: "s = u @ c # v" "c \<notin> set u" by (metis split_list_first)
    moreover from s(2) have "filter ((=) c) u = []" by (auto simp: filter_empty_conv)
    moreover from s(1) have "length (split_at [c] v) = Suc (length (filter ((=) c) v))" by (intro less) simp
    ultimately show ?thesis by (simp add: split_at_char_append)
  next
    case False
    then have "filter ((=) c) s = []" by (auto simp: filter_empty_conv)
    with False show ?thesis by (simp add: split_at_char_plain)
  qed
qed

subsection \<open>Paths\<close>

text \<open>\<open>os.path.join\<close>: an absolute component discards what is before it.\<close>

definition path_add :: "string \<Rightarrow> string \<Rightarrow> string" where
  "path_add b path =
     (if startswith b ''/'' then b
      else if path = [] \<or> endswith path ''/'' then path @ b
      else path @ ''/'' @ b)"

definition path_join :: "string list \<Rightarrow> string" where
  "path_join ps = (case ps of [] \<Rightarrow> [] | p # qs \<Rightarrow> fold path_add qs p)"

text \<open>\<open>os.path.basename\<close>: what follows the last slash; \<open>s.replace(old, new)\<close> for a string \<open>old\<close> that is not empty.\<close>

definition basename :: "string \<Rightarrow> string" where
  "basename p = rev (takeWhile (\<lambda>c. c \<noteq> CHR ''/'') (rev p))"

definition str_replace :: "string \<Rightarrow> string \<Rightarrow> string \<Rightarrow> string" where
  "str_replace s old new = str_join new (split_at old s)"

lemma basename_no_slash: "CHR ''/'' \<notin> set (basename p)"
  by (auto simp: basename_def dest: set_takeWhileD)

lemma basename_append: "CHR ''/'' \<notin> set b \<Longrightarrow> basename (d @ ''/'' @ b) = b"
  by (auto simp: basename_def takeWhile_append takeWhile_eq_all_conv [THEN iffD2])

lemma basename_id: "CHR ''/'' \<notin> set b \<Longrightarrow> basename b = b"
proof -
  assume "CHR ''/'' \<notin> set b"
  then have "takeWhile (\<lambda>c. c \<noteq> CHR ''/'') (rev b) = rev b" by (subst takeWhile_eq_all_conv) auto
  then show ?thesis unfolding basename_def by (metis rev_rev_ident)
qed

lemma path_add_plain:
  "d \<noteq> [] \<Longrightarrow> last d \<noteq> CHR ''/'' \<Longrightarrow> CHR ''/'' \<notin> set b \<Longrightarrow> path_add b d = d @ ''/'' @ b"
  by (cases d rule: rev_cases; cases b) (auto simp: path_add_def startswith_def endswith_def)

subsection \<open>Whitespace, case and lines\<close>

definition is_space :: "char \<Rightarrow> bool" where
  "is_space c \<longleftrightarrow> c = CHR '' '' \<or> c = CHR 0x09 \<or> c = CHR 0x0A \<or> c = CHR 0x0B \<or>
     c = CHR 0x0C \<or> c = CHR 0x0D"

definition strip :: "string \<Rightarrow> string" where
  "strip s = rev (dropWhile is_space (rev (dropWhile is_space s)))"

lemma set_strip: "set (strip s) \<subseteq> set s"
  unfolding strip_def by (metis set_dropWhileD set_rev subsetI)

lemma strip_hd: "strip s \<noteq> [] \<Longrightarrow> \<not> is_space (hd (strip s))"
proof -
  assume ne: "strip s \<noteq> []"
  let ?d = "dropWhile is_space s"
  obtain w where w: "?d = strip s @ w"
    unfolding strip_def
    by (metis rev_append rev_rev_ident takeWhile_dropWhile_id)
  with ne have "hd (strip s) = hd ?d" "?d \<noteq> []" by auto
  then show ?thesis using hd_dropWhile [of is_space s] by simp
qed

lemma strip_last: "strip s \<noteq> [] \<Longrightarrow> \<not> is_space (last (strip s))"
  unfolding strip_def using hd_dropWhile [of is_space "rev (dropWhile is_space s)"]
  by (simp add: last_rev)

lemma dropWhile_id: "xs = [] \<or> \<not> P (hd xs) \<Longrightarrow> dropWhile P xs = xs"
  by (cases xs) auto

lemma strip_id: "s = [] \<or> (\<not> is_space (hd s) \<and> \<not> is_space (last s)) \<Longrightarrow> strip s = s"
  by (auto simp: strip_def dropWhile_id hd_rev)

lemma strip_idem [simp]: "strip (strip s) = strip s"
  by (rule strip_id) (use strip_hd strip_last in blast)

text \<open>\<open>s.lower()\<close> on a byte string changes the ASCII capitals only.\<close>

definition lower_char :: "char \<Rightarrow> char" where
  "lower_char c =
     (let n = of_char c :: nat in if 65 \<le> n \<and> n \<le> 90 then char_of (n + 32) else c)"

definition lower :: "string \<Rightarrow> string" where
  "lower s = map lower_char s"

text \<open>
  \<open>s.splitlines(keepends)\<close> of a byte string: a line ends with a line feed, a carriage return, or
  the two together; there is no empty line after a final line end.
\<close>

fun splitlines :: "bool \<Rightarrow> string \<Rightarrow> string \<Rightarrow> string list" where
  "splitlines keep acc [] = (if acc = [] then [] else [rev acc])"
| "splitlines keep acc (c # cs) =
     (if c = CHR 0x0A then rev (if keep then c # acc else acc) # splitlines keep [] cs
      else if c = CHR 0x0D then
        (case cs of
           d # ds \<Rightarrow>
             if d = CHR 0x0A
             then rev (if keep then d # c # acc else acc) # splitlines keep [] ds
             else rev (if keep then c # acc else acc) # splitlines keep [] cs
         | [] \<Rightarrow> [rev (if keep then c # acc else acc)])
      else splitlines keep (c # acc) cs)"

lemma splitlines_keep_concat: "concat (splitlines True acc s) = rev acc @ s"
  by (induction True acc s rule: splitlines.induct) (auto split: list.splits)

lemma splitlines_no_break:
  "CHR 0x0A \<notin> set acc \<Longrightarrow> CHR 0x0D \<notin> set acc \<Longrightarrow>
   \<forall>l \<in> set (splitlines False acc s). CHR 0x0A \<notin> set l \<and> CHR 0x0D \<notin> set l"
proof (induction False acc s rule: splitlines.induct)
  case (2 acc c cs)
  show ?case
  proof (cases "c = CHR 0x0A \<or> c = CHR 0x0D")
    case True
    with 2 show ?thesis by (cases cs) simp_all
  next
    case False
    with 2 show ?thesis by simp
  qed
qed simp

subsection \<open>Decimal printing\<close>

fun digits_of :: "nat \<Rightarrow> string" where
  "digits_of n =
     (if n < 10 then [char_of (48 + n)] else digits_of (n div 10) @ [char_of (48 + n mod 10)])"

declare digits_of.simps [simp del]

definition str_int :: "int \<Rightarrow> string" where
  "str_int i = (if i < 0 then CHR ''-'' # digits_of (nat (- i)) else digits_of (nat i))"

subsection \<open>Lists\<close>

lemma filter_filter_comm: "filter P (filter Q xs) = filter Q (filter P xs)"
  by (induction xs) auto

lemma mset_filter_not_cases:
  "length (filter P xs) + length (filter (\<lambda>x. \<not> P x) xs) = length xs"
  by (induction xs) auto

subsection \<open>Lists and dictionaries\<close>

lemma nth_upd: "xs[i := x] ! j = (if i = j \<and> i < length xs then x else xs ! j)"
  by (cases "i < length xs") (auto simp: nth_list_update list_update_beyond not_less)

text \<open>\<open>d[k] = v\<close> on a dictionary kept as an association list.\<close>

fun dict_set :: "'k \<Rightarrow> 'v \<Rightarrow> ('k \<times> 'v) list \<Rightarrow> ('k \<times> 'v) list" where
  "dict_set k v [] = [(k, v)]"
| "dict_set k v ((k', v') # d) = (if k = k' then (k, v) # d else (k', v') # dict_set k v d)"

lemma map_of_dict_set [simp]: "map_of (dict_set k v d) = (map_of d)(k \<mapsto> v)"
  by (induction d) (auto simp: fun_eq_iff)

lemma set_dict_set: "set (dict_set k v d) \<subseteq> insert (k, v) (set d)"
  by (induction k v d rule: dict_set.induct) auto

lemma keys_dict_set: "fst ` set (dict_set k v d) = insert k (fst ` set d)"
  by (induction k v d rule: dict_set.induct) auto

lemma distinct_dict_set: "distinct (map fst d) \<Longrightarrow> distinct (map fst (dict_set k v d))"
proof (induction d)
  case (Cons x d)
  have "fst ` set (dict_set k v d) = insert k (fst ` set d)" by (rule keys_dict_set)
  with Cons show ?case by (cases x) auto
qed simp

subsection \<open>Parsing integers\<close>

text \<open>\<open>int(s)\<close> on a string: surrounding white space and a sign are accepted.\<close>

definition digit_of :: "char \<Rightarrow> nat option" where
  "digit_of c = (let n = of_char c in if 48 \<le> n \<and> n \<le> 57 then Some (n - 48) else None)"

fun parse_digits :: "nat \<Rightarrow> string \<Rightarrow> nat option" where
  "parse_digits acc [] = Some acc"
| "parse_digits acc (c # cs) = (case digit_of c of None \<Rightarrow> None | Some d \<Rightarrow> parse_digits (10 * acc + d) cs)"

definition parse_nat :: "string \<Rightarrow> py_error + int" where
  "parse_nat s =
     (if s = [] then Inl ValueError
      else case parse_digits 0 s of None \<Rightarrow> Inl ValueError | Some n \<Rightarrow> Inr (int n))"

definition py_int :: "string \<Rightarrow> py_error + int" where
  "py_int s =
     (case strip s of
        c # cs \<Rightarrow> if c = CHR ''-'' then bindR (parse_nat cs) (\<lambda>n. Inr (- n))
                   else if c = CHR ''+'' then parse_nat cs else parse_nat (c # cs)
      | [] \<Rightarrow> Inl ValueError)"

lemma py_int_error: "py_int s = Inl e \<Longrightarrow> e = ValueError"
  by (auto simp: py_int_def parse_nat_def py_res split: list.splits if_splits option.splits)

lemma digit_of_char: "d < 10 \<Longrightarrow> digit_of (char_of (48 + d)) = Some d"
  by (simp add: digit_of_def Let_def)

lemma parse_digits_append:
  "parse_digits acc (xs @ ys) = (case parse_digits acc xs of None \<Rightarrow> None | Some n \<Rightarrow> parse_digits n ys)"
  by (induction acc xs rule: parse_digits.induct) (auto split: option.splits)

lemma parse_digits_of: "parse_digits 0 (digits_of n) = Some n"
proof (induction n rule: digits_of.induct)
  case (1 n)
  then show ?case
    by (subst digits_of.simps) (auto simp: digit_of_char parse_digits_append)
qed

lemma digits_of_chars: "c \<in> set (digits_of n) \<Longrightarrow> \<exists>d < (10 :: nat). c = char_of (48 + d)"
proof (induction n rule: digits_of.induct)
  case (1 n)
  show ?case
  proof (cases "n < 10")
    case True
    with "1.prems" show ?thesis by (auto simp: digits_of.simps [of n])
  next
    case False
    with "1.prems" have "c \<in> set (digits_of (n div 10)) \<or> c = char_of (48 + n mod 10)" by (auto simp: digits_of.simps [of n])
    moreover have "\<exists>d < (10 :: nat). char_of (48 + n mod 10) = (char_of (48 + d) :: char)" by (intro exI [of _ "n mod 10"]) simp
    ultimately show ?thesis using False "1.IH" by blast
  qed
qed

lemma digits_of_not_Nil [simp]: "digits_of n \<noteq> []"
  by (subst digits_of.simps) simp

lemma digit_char_plain:
  assumes "c \<in> set (digits_of n)"
  shows "\<not> is_space c" "c \<noteq> CHR ''-''" "c \<noteq> CHR ''+''"
proof -
  obtain d :: nat where "d < 10" "c = char_of (48 + d)" using digits_of_chars [OF assms] by blast
  then have "of_char c = (48 + d :: nat)" by simp
  then show "\<not> is_space c" "c \<noteq> CHR ''-''" "c \<noteq> CHR ''+''" by (auto simp: is_space_def)
qed

lemma str_int_ends: "str_int i \<noteq> []" "\<not> is_space (hd (str_int i))" "\<not> is_space (last (str_int i))"
proof -
  have "\<not> is_space (hd (digits_of n))" "\<not> is_space (last (digits_of n))" for n
    by (simp_all add: digit_char_plain(1) [of _ n])
  then show "str_int i \<noteq> []" "\<not> is_space (hd (str_int i))" "\<not> is_space (last (str_int i))"
    by (simp_all add: str_int_def is_space_def)
qed

lemma py_int_str_int: "is_space w \<Longrightarrow> py_int (str_int i) = Inr i \<and> py_int (str_int i @ [w]) = Inr i"
proof -
  assume w: "is_space w"
  have strip: "strip (str_int i) = str_int i" by (rule strip_id) (simp add: str_int_ends)
  have "dropWhile is_space (str_int i @ [w]) = str_int i @ [w]" by (rule dropWhile_id) (simp add: str_int_ends)
  moreover have "dropWhile is_space (str_int i) = str_int i" by (rule dropWhile_id) (simp add: str_int_ends)
  ultimately have strip_w: "strip (str_int i @ [w]) = str_int i" using w strip by (simp add: strip_def)
  have "py_int (str_int i) = Inr i"
  proof (cases "i < 0")
    case True
    then show ?thesis unfolding py_int_def strip by (simp add: str_int_def parse_nat_def parse_digits_of)
  next
    case False
    obtain c cs where c: "digits_of (nat i) = c # cs" by (cases "digits_of (nat i)") auto
    then have "c \<noteq> CHR ''-''" "c \<noteq> CHR ''+''" using digit_char_plain [of c "nat i"] by auto
    moreover have "parse_nat (c # cs) = Inr i" using False parse_digits_of [of "nat i"] c by (simp add: parse_nat_def del: parse_digits.simps)
    ultimately show ?thesis unfolding py_int_def strip using False c by (simp add: str_int_def)
  qed
  moreover from this have "py_int (str_int i @ [w]) = Inr i" unfolding py_int_def strip_w strip by simp
  ultimately show ?thesis by blast
qed

end
