(* ===== verification/Signals_Asserts.thy ===== *)
theory Signals_Asserts
  imports Py_Prelude
begin

section \<open>Test signals and assertions (runners/host/signals.py, asserts.py)\<close>

text \<open>
  The exceptions a test can end with. A \<open>TestSignal\<close> carries its details and its extras; the
  extras have to be serializable to JSON, otherwise building the signal raises \<open>TestSignalError\<close>
  instead. The other exceptions are those the test runner tells apart. Python values (extras,
  parameters, table cells) are of type \<open>pyval\<close>; \<open>PObj\<close> stands for an object of some other class.
\<close>

datatype pyval =
    PNone
  | PBool bool
  | PInt int
  | PStr string
  | PList "pyval list"
  | PDict "(string \<times> pyval) list"
  | PObj nat

fun json_serializable :: "pyval \<Rightarrow> bool" where
  "json_serializable (PObj _) = False"
| "json_serializable (PList vs) = (\<forall>v \<in> set vs. json_serializable v)"
| "json_serializable (PDict kvs) = (\<forall>kv \<in> set kvs. json_serializable (snd kv))"
| "json_serializable _ = True"

text \<open>The truth value of a Python value.\<close>

definition truthy :: "pyval \<Rightarrow> bool" where
  "truthy v = (case v of
     PNone \<Rightarrow> False | PBool b \<Rightarrow> b | PInt i \<Rightarrow> i \<noteq> 0 | PStr s \<Rightarrow> s \<noteq> [] | PList l \<Rightarrow> l \<noteq> []
   | PDict d \<Rightarrow> d \<noteq> [] | PObj _ \<Rightarrow> True)"

datatype signal_kind = TestFailure | TestPass | TestSkip | TestSilent | TestAbortClass | TestAbortAll

datatype exc =
    Signal signal_kind string pyval
  | TestSignalError pyval
  | AssertionError string
  | TimeoutError string
  | KeyboardInterrupt
  | AdbError string
  | SystemExit
  | Builtin py_error
  | BaseTestError string
  | USERError string
  | OtherException string

text \<open>\<open>TestSignal.__init__\<close>: what \<open>raise TestX(details, extras)\<close> raises.\<close>

definition raise_signal :: "signal_kind \<Rightarrow> string \<Rightarrow> pyval \<Rightarrow> exc" where
  "raise_signal kind details extras =
     (if json_serializable extras then Signal kind details extras else TestSignalError extras)"

text \<open>
  \<open>GeneratedTest\<close>: the decorated function runs, then \<open>TestSilent\<close> is raised; what the function
  raises goes first.
\<close>

definition GeneratedTest :: "string \<Rightarrow> exc + 'a \<Rightarrow> exc + 'a" where
  "GeneratedTest func_name result =
     bindR result (\<lambda>_. Inl (raise_signal TestSilent
       (''Result reporting for '' @ func_name @ '' is suppressed'') PNone))"

subsection \<open>Assertions\<close>

definition fail :: "string \<Rightarrow> pyval \<Rightarrow> exc + unit" where
  "fail msg extras = Inl (raise_signal TestFailure msg extras)"

definition explicitPass :: "string \<Rightarrow> pyval \<Rightarrow> exc + unit" where
  "explicitPass msg extras = Inl (raise_signal TestPass msg extras)"

definition skip :: "string \<Rightarrow> pyval \<Rightarrow> exc + unit" where
  "skip reason extras = Inl (raise_signal TestSkip reason extras)"

definition skipIf :: "bool \<Rightarrow> string \<Rightarrow> pyval \<Rightarrow> exc + unit" where
  "skipIf expr reason extras = (if expr then skip reason extras else Inr ())"

definition abortClass :: "string \<Rightarrow> pyval \<Rightarrow> exc + unit" where
  "abortClass reason extras = Inl (raise_signal TestAbortClass reason extras)"

definition abortClassIf :: "bool \<Rightarrow> string \<Rightarrow> pyval \<Rightarrow> exc + unit" where
  "abortClassIf expr reason extras = (if expr then abortClass reason extras else Inr ())"

definition abortAll :: "string \<Rightarrow> pyval \<Rightarrow> exc + unit" where
  "abortAll reason extras = Inl (raise_signal TestAbortAll reason extras)"

definition abortAllIf :: "bool \<Rightarrow> string \<Rightarrow> pyval \<Rightarrow> exc + unit" where
  "abortAllIf expr reason extras = (if expr then abortAll reason extras else Inr ())"

definition assertTrue :: "bool \<Rightarrow> string \<Rightarrow> pyval \<Rightarrow> exc + unit" where
  "assertTrue expr msg extras = (if \<not> expr then fail msg extras else Inr ())"

definition assertFalse :: "bool \<Rightarrow> string \<Rightarrow> pyval \<Rightarrow> exc + unit" where
  "assertFalse expr msg extras = (if expr then fail msg extras else Inr ())"

text \<open>
  The comparisons go through \<open>unittest\<close>, whose failure message is the argument \<open>show\<close>; a caller's
  message is appended to it when it is neither \<open>None\<close> nor empty.
\<close>

definition fail_with :: "string \<Rightarrow> string option \<Rightarrow> pyval \<Rightarrow> exc + unit" where
  "fail_with e msg extras =
     fail (case msg of None \<Rightarrow> e | Some m \<Rightarrow> if m = [] then e else e @ '' '' @ m) extras"

definition assertEqual ::
  "('a \<Rightarrow> 'a \<Rightarrow> string) \<Rightarrow> 'a \<Rightarrow> 'a \<Rightarrow> string option \<Rightarrow> pyval \<Rightarrow> exc + unit" where
  "assertEqual show first second msg extras =
     (if first = second then Inr () else fail_with (show first second) msg extras)"

definition assertNotEqual ::
  "('a \<Rightarrow> 'a \<Rightarrow> string) \<Rightarrow> 'a \<Rightarrow> 'a \<Rightarrow> string option \<Rightarrow> pyval \<Rightarrow> exc + unit" where
  "assertNotEqual show first second msg extras =
     (if first \<noteq> second then Inr () else fail_with (show first second) msg extras)"

definition assertLess ::
  "(int \<Rightarrow> int \<Rightarrow> string) \<Rightarrow> int \<Rightarrow> int \<Rightarrow> string option \<Rightarrow> pyval \<Rightarrow> exc + unit" where
  "assertLess show first second msg extras =
     (if first < second then Inr () else fail_with (show first second) msg extras)"

subsection \<open>The context manager of assertRaises and assertRaisesRegex\<close>

text \<open>
  The expected class is its name and its membership test; a regular expression is its pattern and
  its \<open>search\<close> on \<open>str(exc_value)\<close>, which \<open>str_exc\<close> gives.
\<close>

record raises_context =
  expected_name :: string
  expected_class :: "exc \<Rightarrow> bool"
  expected_regexp :: "(string \<times> (string \<Rightarrow> bool)) option"
  ctx_extras :: pyval

definition assertRaises :: "string \<Rightarrow> (exc \<Rightarrow> bool) \<Rightarrow> pyval \<Rightarrow> raises_context" where
  "assertRaises name cls extras =
     \<lparr>expected_name = name, expected_class = cls, expected_regexp = None, ctx_extras = extras\<rparr>"

definition assertRaisesRegex ::
  "string \<Rightarrow> (exc \<Rightarrow> bool) \<Rightarrow> string \<times> (string \<Rightarrow> bool) \<Rightarrow> pyval \<Rightarrow> raises_context" where
  "assertRaisesRegex name cls regex extras =
     \<lparr>expected_name = name, expected_class = cls, expected_regexp = Some regex, ctx_extras = extras\<rparr>"

text \<open>
  \<open>__exit__\<close>: it raises, or returns whether the exception of the body is suppressed.
\<close>

definition raises_exit ::
  "(exc \<Rightarrow> string) \<Rightarrow> raises_context \<Rightarrow> exc option \<Rightarrow> exc + bool" where
  "raises_exit str_exc ctx exc_value =
     (case exc_value of
        None \<Rightarrow> Inl (raise_signal TestFailure (expected_name ctx @ '' not raised'') (ctx_extras ctx))
      | Some e \<Rightarrow>
          if \<not> expected_class ctx e then Inr False
          else (case expected_regexp ctx of
                  None \<Rightarrow> Inr True
                | Some (pattern, search) \<Rightarrow>
                    if \<not> search (str_exc e)
                    then Inl (raise_signal TestFailure
                      (''\"'' @ pattern @ ''\" does not match \"'' @ str_exc e @ ''\"'') (ctx_extras ctx))
                    else Inr True))"

text \<open>The \<open>with\<close> statement over a body that ends normally or with an exception.\<close>

definition with_raises ::
  "(exc \<Rightarrow> string) \<Rightarrow> raises_context \<Rightarrow> exc option \<Rightarrow> exc + unit" where
  "with_raises str_exc ctx body =
     bindR (raises_exit str_exc ctx body) (\<lambda>suppressed.
       case body of None \<Rightarrow> Inr () | Some e \<Rightarrow> if suppressed then Inr () else Inl e)"

subsection \<open>Lemmas\<close>

lemmas assert_defs = fail_def explicitPass_def skip_def skipIf_def abortClass_def abortClassIf_def
  abortAll_def abortAllIf_def assertTrue_def assertFalse_def assertEqual_def assertNotEqual_def
  assertLess_def fail_with_def

lemma raise_signal_serializable [simp]:
  "json_serializable x \<Longrightarrow> raise_signal k d x = Signal k d x"
  by (simp add: raise_signal_def)

text \<open>A block under \<open>assertRaises\<close> or \<open>assertRaisesRegex\<close> passes exactly when its body raises
  an exception of the expected class whose message matches; an exception of another class goes
  through unchanged; a body that raises nothing fails the test.\<close>

theorem with_raises_cases:
  assumes "json_serializable (ctx_extras ctx)"
  shows "case body of
      None \<Rightarrow> with_raises str_exc ctx body =
        Inl (Signal TestFailure (expected_name ctx @ '' not raised'') (ctx_extras ctx))
    | Some e \<Rightarrow>
        if \<not> expected_class ctx e then with_raises str_exc ctx body = Inl e
        else if \<forall>p search. expected_regexp ctx = Some (p, search) \<longrightarrow> search (str_exc e)
        then with_raises str_exc ctx body = Inr ()
        else \<exists>d. with_raises str_exc ctx body = Inl (Signal TestFailure d (ctx_extras ctx))"
  using assms
  by (auto simp: with_raises_def raises_exit_def split: option.splits prod.splits if_splits)

theorem with_raises_cases_witness:
  "with_raises (\<lambda>_. ''boom'') (assertRaises ''AdbError'' (\<lambda>e. e = AdbError ''x'') PNone)
     (Some KeyboardInterrupt) = Inl KeyboardInterrupt \<and>
   with_raises (\<lambda>_. ''boom'') (assertRaises ''AdbError'' (\<lambda>e. e = AdbError ''x'') PNone)
     (Some (AdbError ''x'')) = Inr ()"
proof -
  let ?ctx = "assertRaises ''AdbError'' (\<lambda>e. e = AdbError ''x'') PNone"
  have "json_serializable (ctx_extras ?ctx)" by (simp add: assertRaises_def)
  from with_raises_cases [OF this, where body = "Some KeyboardInterrupt" and str_exc = "\<lambda>_. ''boom''"]
    with_raises_cases [OF this, where body = "Some (AdbError ''x'')" and str_exc = "\<lambda>_. ''boom''"]
  show ?thesis by (simp add: assertRaises_def)
qed

end
