(* ===== verification/Py_Actions.thy ===== *)
theory Py_Actions
  imports Signals_Asserts
begin

section \<open>Actions: code that changes state and may raise\<close>

text \<open>
  A method reads and changes an object's state and ends with a value or an exception. An action is
  such a method: a function from the state to its ending and the new state;
  the changes made before an exception stay. The combinators are Python's sequencing, \<open>try/except\<close>
  and \<open>try/finally\<close>.

  \<open>keeps I a\<close> says that an action preserves a predicate on states however it ends; the collection
  \<open>keeps_rules\<close> holds one rule per combinator, so that preservation is proved by following the code.
\<close>

named_theorems keeps_rules "preservation rules for actions"

type_synonym ('e, 's, 'a) raising = "'s \<Rightarrow> ('e + 'a) \<times> 's"
type_synonym ('s, 'a) action = "(exc, 's, 'a) raising"

definition returnA :: "'a \<Rightarrow> ('e, 's, 'a) raising" where
  "returnA v s = (Inr v, s)"

definition raiseA :: "'e \<Rightarrow> ('e, 's, 'a) raising" where
  "raiseA e s = (Inl e, s)"

definition liftA :: "'e + 'a \<Rightarrow> ('e, 's, 'a) raising" where
  "liftA r s = (r, s)"

definition modifyA :: "('s \<Rightarrow> 's) \<Rightarrow> ('e, 's, unit) raising" where
  "modifyA f s = (Inr (), f s)"

definition getA :: "('s \<Rightarrow> 'b) \<Rightarrow> ('b \<Rightarrow> ('e, 's, 'a) raising) \<Rightarrow> ('e, 's, 'a) raising" where
  "getA g k s = k (g s) s"

definition bindA :: "('e, 's, 'a) raising \<Rightarrow> ('a \<Rightarrow> ('e, 's, 'b) raising) \<Rightarrow> ('e, 's, 'b) raising" where
  "bindA m f s = (case m s of (Inl e, s') \<Rightarrow> (Inl e, s') | (Inr v, s') \<Rightarrow> f v s')"

definition seqA :: "('e, 's, 'a) raising \<Rightarrow> ('e, 's, 'b) raising \<Rightarrow> ('e, 's, 'b) raising" where
  "seqA m k = bindA m (\<lambda>_. k)"

definition catchA :: "('e, 's, 'a) raising \<Rightarrow> ('e \<Rightarrow> ('e, 's, 'a) raising) \<Rightarrow> ('e, 's, 'a) raising" where
  "catchA m h s = (case m s of (Inl e, s') \<Rightarrow> h e s' | (Inr v, s') \<Rightarrow> (Inr v, s'))"

text \<open>An exception of the \<open>finally\<close> block replaces whatever the protected block ended with.\<close>

definition finallyA :: "('e, 's, 'a) raising \<Rightarrow> ('e, 's, 'b) raising \<Rightarrow> ('e, 's, 'a) raising" where
  "finallyA m fin s =
     (let (r, s1) = m s in case fin s1 of (Inl e, s2) \<Rightarrow> (Inl e, s2) | (Inr _, s2) \<Rightarrow> (r, s2))"

fun for_eachA :: "'a list \<Rightarrow> ('a \<Rightarrow> ('e, 's, 'b) raising) \<Rightarrow> ('e, 's, unit) raising" where
  "for_eachA [] f = returnA ()"
| "for_eachA (x # xs) f = seqA (f x) (for_eachA xs f)"

lemmas action_defs = returnA_def raiseA_def liftA_def modifyA_def getA_def bindA_def seqA_def
  catchA_def finallyA_def

lemma bindA_return [simp]: "bindA (returnA v) f = f v"
  by (rule ext) (simp add: action_defs)

lemma bindA_assoc: "bindA (bindA m f) g = bindA m (\<lambda>x. bindA (f x) g)"
  by (rule ext) (auto simp: bindA_def split: prod.split sum.split)

lemma seqA_assoc: "seqA (seqA a b) c = seqA a (seqA b c)"
  by (simp add: seqA_def bindA_assoc)

lemma seqA_bindA: "seqA a (bindA b f) = bindA (seqA a b) f"
  by (simp add: seqA_def bindA_assoc)

lemma seqA_returnA: "seqA (returnA v) k = k"
  by (simp add: seqA_def)

lemma seqA_step: "m s = (Inr v, s') \<Longrightarrow> seqA m k s = k s'"
  by (simp add: seqA_def bindA_def)

lemma bindA_step: "m s = (Inr v, s') \<Longrightarrow> bindA m f s = f v s'"
  by (simp add: bindA_def)

lemma seqA_raise: "m s = (Inl e, s') \<Longrightarrow> seqA m k s = (Inl e, s')"
  by (simp add: seqA_def bindA_def)

lemma bindA_Inr: "bindA m f s = (Inr v, s') \<longleftrightarrow> (\<exists>u s1. m s = (Inr u, s1) \<and> f u s1 = (Inr v, s'))"
  by (auto simp: bindA_def split: prod.splits sum.splits)

lemma seqA_Inr: "seqA m k s = (Inr v, s') \<longleftrightarrow> (\<exists>u s1. m s = (Inr u, s1) \<and> k s1 = (Inr v, s'))"
  by (simp add: seqA_def bindA_Inr)

subsection \<open>Preservation\<close>

text \<open>The result type is arbitrary, so that the parts of a method that return local variables too are
  covered.\<close>

definition keeps :: "('s \<Rightarrow> bool) \<Rightarrow> ('s \<Rightarrow> 'r \<times> 's) \<Rightarrow> bool" where
  "keeps I m \<longleftrightarrow> (\<forall>s. I s \<longrightarrow> I (snd (m s)))"

lemma keepsI: "(\<And>s. I s \<Longrightarrow> I (snd (m s))) \<Longrightarrow> keeps I m"
  by (simp add: keeps_def)

lemma keepsD: "keeps I m \<Longrightarrow> I s \<Longrightarrow> I (snd (m s))"
  by (simp add: keeps_def)

lemma keeps_step: "keeps I m \<Longrightarrow> I s \<Longrightarrow> m s = (r, s') \<Longrightarrow> I s'"
  using keepsD [of I m s] by simp

lemma keeps_pure [keeps_rules]:
  "keeps I (returnA v)" "keeps I (raiseA e)" "keeps I (liftA r)"
  by (simp_all add: keeps_def action_defs)

lemma keeps_modify [keeps_rules]: "(\<And>s. I s \<Longrightarrow> I (f s)) \<Longrightarrow> keeps I (modifyA f)"
  by (simp add: keeps_def modifyA_def)

lemma keeps_get [keeps_rules]: "(\<And>v. keeps I (k v)) \<Longrightarrow> keeps I (getA g k)"
  by (simp add: keeps_def getA_def)

lemma keeps_bind [keeps_rules]: "keeps I m \<Longrightarrow> (\<And>v. keeps I (f v)) \<Longrightarrow> keeps I (bindA m f)"
  unfolding keeps_def bindA_def by (simp split: prod.split sum.split) (metis snd_conv)

lemma keeps_seq [keeps_rules]: "keeps I m \<Longrightarrow> keeps I k \<Longrightarrow> keeps I (seqA m k)"
  unfolding seqA_def by (intro keeps_bind)

lemma keeps_catch [keeps_rules]: "keeps I m \<Longrightarrow> (\<And>e. keeps I (h e)) \<Longrightarrow> keeps I (catchA m h)"
  unfolding keeps_def catchA_def by (simp split: prod.split sum.split) (metis snd_conv)

lemma keeps_finally [keeps_rules]: "keeps I m \<Longrightarrow> keeps I fin \<Longrightarrow> keeps I (finallyA m fin)"
  unfolding keeps_def finallyA_def Let_def by (simp split: prod.split sum.split) (metis snd_conv)

lemma keeps_if [keeps_rules]: "keeps I m \<Longrightarrow> keeps I k \<Longrightarrow> keeps I (if b then m else k)"
  by simp

lemma keeps_case_sum [keeps_rules]:
  "(\<And>e. keeps I (f e)) \<Longrightarrow> (\<And>v. keeps I (g v)) \<Longrightarrow> keeps I (case r of Inl e \<Rightarrow> f e | Inr v \<Rightarrow> g v)"
  by (simp split: sum.split)

lemma keeps_case_option [keeps_rules]:
  "keeps I m \<Longrightarrow> (\<And>v. keeps I (f v)) \<Longrightarrow> keeps I (case x of None \<Rightarrow> m | Some v \<Rightarrow> f v)"
  by (simp split: option.split)

lemma keeps_case_prod [keeps_rules]:
  "(\<And>a b. keeps I (f a b)) \<Longrightarrow> keeps I (case p of (a, b) \<Rightarrow> f a b)"
  by (simp split: prod.split)

lemma keeps_for_each [keeps_rules]: "(\<And>x. x \<in> set xs \<Longrightarrow> keeps I (f x)) \<Longrightarrow> keeps I (for_eachA xs f)"
  by (induction xs) (simp_all add: keeps_pure keeps_seq)

end
