(* ===== verification/List_Utils.thy ===== *)
theory List_Utils
  imports Py_Prelude
begin

section \<open>List helpers (utils/python/common/list\_utils.py)\<close>

text \<open>
  The list helpers that the filters, the reports and the configuration files go through. The
  conversions \<open>str(x)\<close> of arbitrary objects are the argument \<open>str_fn\<close> (the object's own
  method); on byte strings \<open>str\<close> is the identity. The file system of
  \<open>LoadListFromCommentedTextFile\<close> is a map from the paths of regular files to their contents.
\<close>

definition DEFAULT_COMMENT_CHAR :: string where
  "DEFAULT_COMMENT_CHAR = ''#''"

definition ItemsToStr :: "('a \<Rightarrow> string) \<Rightarrow> 'a list option \<Rightarrow> string list option" where
  "ItemsToStr str_fn input_list =
     (case input_list of
        None \<Rightarrow> None
      | Some [] \<Rightarrow> Some []
      | Some xs \<Rightarrow> Some (map str_fn xs))"

definition ExpandItemDelimiters ::
  "string list option \<Rightarrow> string \<Rightarrow> bool \<Rightarrow> bool \<Rightarrow> bool \<Rightarrow> py_error + string list option" where
  "ExpandItemDelimiters input_list delimiter do_strip to_str remove_empty =
     (case input_list of
        None \<Rightarrow> Inr None
      | Some xs \<Rightarrow>
          bindR (mapR (\<lambda>item. str_split item delimiter) xs) (\<lambda>expanded.
            let result = map (\<lambda>s. let t = (if to_str then id s else s)
                                  in if do_strip then strip t else t) (concat expanded)
            in Inr (Some (if remove_empty then filter (\<lambda>s. s \<noteq> []) result else result))))"

text \<open>The comprehension with its \<open>seen\<close> set, in the order of evaluation.\<close>

fun keep_unseen :: "'a set \<Rightarrow> 'a list \<Rightarrow> 'a list" where
  "keep_unseen seen [] = []"
| "keep_unseen seen (x # xs) =
     (if x \<in> seen then keep_unseen seen xs else x # keep_unseen (insert x seen) xs)"

definition MergeUniqueKeepOrder :: "'a list list \<Rightarrow> 'a list" where
  "MergeUniqueKeepOrder seqs = keep_unseen {} (concat seqs)"

definition DeduplicateKeepOrder :: "'a list \<Rightarrow> 'a list" where
  "DeduplicateKeepOrder input = MergeUniqueKeepOrder [input]"

definition RemoveComment :: "string \<Rightarrow> string \<Rightarrow> string" where
  "RemoveComment comment_char line =
     (case str_find line comment_char of None \<Rightarrow> line | Some idx \<Rightarrow> take idx line)"

definition LoadListFromCommentedText ::
  "string \<Rightarrow> bool \<Rightarrow> bool \<Rightarrow> bool \<Rightarrow> bool \<Rightarrow> bool \<Rightarrow> bool \<Rightarrow> bool \<Rightarrow> string \<Rightarrow> string list" where
  "LoadListFromCommentedText text to_str to_strip exclude_empty_line exclude_comment_line
      exclude_trailing_comment remove_duplicates remove_line_breaks comment_char =
     (let lines = splitlines (\<not> remove_line_breaks) [] text;
          lines = (if to_str then map id lines else lines);
          lines = (if exclude_trailing_comment then map (RemoveComment comment_char) lines
                   else lines);
          lines = (if to_strip then map strip lines else lines);
          lines = (if exclude_comment_line
                   then filter (\<lambda>line. \<not> startswith (strip line) comment_char) lines
                   else lines);
          lines = (if exclude_empty_line then filter (\<lambda>line. line \<noteq> []) lines else lines);
          lines = (if remove_duplicates then DeduplicateKeepOrder lines else lines)
      in lines)"

text \<open>
  The module never imports \<open>logging\<close>, so the branch for a missing file raises \<open>NameError\<close> where
  the docstring promises \<open>None\<close>; and the call passes the default comment character, not the
  caller's.
\<close>

definition LoadListFromCommentedTextFile ::
  "(string \<rightharpoonup> string) \<Rightarrow> string \<Rightarrow> bool \<Rightarrow> bool \<Rightarrow> bool \<Rightarrow> bool \<Rightarrow> bool \<Rightarrow> bool \<Rightarrow> bool \<Rightarrow> string \<Rightarrow>
     py_error + string list" where
  "LoadListFromCommentedTextFile fs file_path to_str to_strip exclude_empty_line
      exclude_comment_line exclude_trailing_comment remove_duplicates remove_line_breaks
      comment_char =
     (case fs file_path of
        None \<Rightarrow> Inl NameError
      | Some text \<Rightarrow>
          Inr (LoadListFromCommentedText text to_str to_strip exclude_empty_line
                 exclude_comment_line exclude_trailing_comment remove_duplicates
                 remove_line_breaks DEFAULT_COMMENT_CHAR))"

subsection \<open>Removing duplicates\<close>

lemma set_keep_unseen [simp]: "set (keep_unseen seen xs) = set xs - seen"
  by (induction seen xs rule: keep_unseen.induct) auto

lemma distinct_keep_unseen [simp]: "distinct (keep_unseen seen xs)"
  by (induction seen xs rule: keep_unseen.induct) auto

lemma subseq_keep_unseen: "subseq (keep_unseen seen xs) xs"
  by (induction seen xs rule: keep_unseen.induct) auto

lemma keep_unseen_append:
  "keep_unseen seen (xs @ ys) = keep_unseen seen xs @ keep_unseen (seen \<union> set xs) ys"
  by (induction seen xs rule: keep_unseen.induct) (auto simp: insert_absorb Un_insert_left)

lemma keep_unseen_id: "distinct xs \<Longrightarrow> set xs \<inter> seen = {} \<Longrightarrow> keep_unseen seen xs = xs"
  by (induction seen xs rule: keep_unseen.induct) auto

lemma keep_unseen_Nil: "set xs \<subseteq> seen \<Longrightarrow> keep_unseen seen xs = []"
  by (induction seen xs rule: keep_unseen.induct) auto

lemma keep_unseen_skip: "set xs \<subseteq> seen \<Longrightarrow> keep_unseen seen (xs @ ys) = keep_unseen seen ys"
  by (simp add: keep_unseen_append keep_unseen_Nil Un_absorb2)

text \<open>The reference definition: the library's \<open>remdups\<close>, which keeps last occurrences, mirrored.\<close>

lemma keep_unseen_remdups:
  "keep_unseen seen xs = filter (\<lambda>x. x \<notin> seen) (rev (remdups (rev xs)))"
proof (induction xs rule: rev_induct)
  case (snoc x xs)
  have "keep_unseen seen (xs @ [x]) = keep_unseen seen xs @ keep_unseen (seen \<union> set xs) [x]"
    by (rule keep_unseen_append)
  with snoc show ?case by auto
qed simp

lemma dedup_simps [simp]:
  "set (DeduplicateKeepOrder xs) = set xs"
  "distinct (DeduplicateKeepOrder xs)"
  by (simp_all add: DeduplicateKeepOrder_def MergeUniqueKeepOrder_def)

lemma dedup_id: "distinct xs \<Longrightarrow> DeduplicateKeepOrder xs = xs"
  by (simp add: DeduplicateKeepOrder_def MergeUniqueKeepOrder_def keep_unseen_id)

subsection \<open>Splitting items\<close>

lemma ExpandItemDelimiters_Some:
  assumes "delimiter \<noteq> []"
  shows "ExpandItemDelimiters (Some xs) delimiter do_strip to_str remove_empty =
    Inr (Some (filter (\<lambda>s. remove_empty \<longrightarrow> s \<noteq> [])
      (map (if do_strip then strip else id) (concat (map (split_at delimiter) xs)))))"
proof -
  have "mapR (\<lambda>item. str_split item delimiter) xs = Inr (map (split_at delimiter) xs)"
    using assms by (intro mapR_Inr_map) (simp add: str_split_def)
  then show ?thesis
    by (cases to_str; cases remove_empty) (simp_all add: ExpandItemDelimiters_def id_def)
qed

subsection \<open>Commented text\<close>

lemma RemoveComment_char: "c \<notin> set (RemoveComment [c] l)"
  by (auto simp: RemoveComment_def str_find_char_None dest: str_find_char_take split: option.splits)

lemma set_RemoveComment: "set (RemoveComment cs l) \<subseteq> set l"
  by (auto simp: RemoveComment_def dest: in_set_takeD split: option.splits)

lemma RemoveComment_id: "c \<notin> set l \<Longrightarrow> RemoveComment [c] l = l"
  by (simp add: RemoveComment_def str_find_char_None [symmetric] split: option.splits)

lemma no_comment_startswith: "c \<notin> set l \<Longrightarrow> \<not> startswith (strip l) [c]"
  using set_strip [of l] by (auto simp: startswith_iff)

text \<open>
  With the default flags the pass that drops comment lines has nothing left to do: the lines are
  cut at the comment character, stripped, and the empty ones dropped.
\<close>

lemma load_text_default:
  "LoadListFromCommentedText text True True True True True False True [c] =
     filter (\<lambda>l. l \<noteq> []) (map (\<lambda>l. strip (RemoveComment [c] l)) (splitlines False [] text))"
proof -
  have "\<not> startswith (strip (strip (RemoveComment [c] l))) [c]" for l
    using no_comment_startswith [OF RemoveComment_char, of c l] by simp
  then show ?thesis
    by (simp add: LoadListFromCommentedText_def Let_def comp_def filter_map)
qed

text \<open>A line that the loader gives back unchanged.\<close>

definition clean_line :: "char \<Rightarrow> string \<Rightarrow> bool" where
  "clean_line c l \<longleftrightarrow> l \<noteq> [] \<and> strip l = l \<and> c \<notin> set l \<and> CHR 0x0A \<notin> set l \<and> CHR 0x0D \<notin> set l"

lemma load_text_clean:
  assumes "l \<in> set (LoadListFromCommentedText text True True True True True False True [c])"
  shows "clean_line c l"
proof -
  from assms obtain m where m: "m \<in> set (splitlines False [] text)"
    and l: "l = strip (RemoveComment [c] m)" and ne: "l \<noteq> []"
    by (auto simp: load_text_default)
  from m have "CHR 0x0A \<notin> set m \<and> CHR 0x0D \<notin> set m"
    using splitlines_no_break [of "[]" "text"] by simp
  moreover have "set l \<subseteq> set (RemoveComment [c] m)"
    unfolding l by (rule set_strip)
  ultimately show ?thesis
    using RemoveComment_char [of c m] set_RemoveComment [of "[c]" m] ne
    by (auto simp: clean_line_def l)
qed

lemma splitlines_line:
  "CHR 0x0A \<notin> set l \<Longrightarrow> CHR 0x0D \<notin> set l \<Longrightarrow>
   splitlines k acc (l @ CHR 0x0A # s) = rev (if k then CHR 0x0A # rev l @ acc else rev l @ acc)
     # splitlines k [] s"
  by (induction l arbitrary: acc) auto

lemma splitlines_last:
  "CHR 0x0A \<notin> set l \<Longrightarrow> CHR 0x0D \<notin> set l \<Longrightarrow>
   splitlines k acc l = (if acc = [] \<and> l = [] then [] else [rev acc @ l])"
  by (induction l arbitrary: acc) auto

lemma splitlines_join:
  "\<forall>l \<in> set ls. clean_line c l \<Longrightarrow> splitlines False [] (str_join [CHR 0x0A] ls) = ls"
proof (induction ls rule: induct_list012)
  case (2 l)
  then show ?case by (simp add: clean_line_def splitlines_last)
next
  case (3 l m ms)
  then show ?case by (simp add: clean_line_def splitlines_line)
qed simp

lemma load_text_join:
  assumes "\<forall>l \<in> set ls. clean_line c l"
  shows "LoadListFromCommentedText (str_join [CHR 0x0A] ls) True True True True True False True [c]
    = ls"
proof -
  have "map (\<lambda>l. strip (RemoveComment [c] l)) ls = ls"
    using assms by (intro map_idI) (simp add: clean_line_def RemoveComment_id)
  moreover have "filter (\<lambda>l. l \<noteq> []) ls = ls"
    using assms by (intro filter_True) (simp add: clean_line_def)
  ultimately show ?thesis
    by (simp add: load_text_default splitlines_join [OF assms])
qed

subsection \<open>Properties\<close>

text \<open>Merging keeps the first occurrence of every item, in order: the result is the mirror image of
  dropping all but the last occurrences of the reversed concatenation, so it has no duplicates and the
  same items.\<close>

theorem merge_keeps_first_occurrences:
  "MergeUniqueKeepOrder seqs = rev (remdups (rev (concat seqs))) \<and>
   distinct (MergeUniqueKeepOrder seqs) \<and> set (MergeUniqueKeepOrder seqs) = (\<Union>l \<in> set seqs. set l) \<and>
   subseq (MergeUniqueKeepOrder seqs) (concat seqs)"
  using keep_unseen_remdups [of "{}" "concat seqs"] subseq_keep_unseen [of "{}" "concat seqs"]
  by (simp add: MergeUniqueKeepOrder_def)

text \<open>With the default options a commented text is loaded as clean lines, without comments, line breaks,
  surrounding blanks or empty lines, and loading is stable: the loaded lines joined by line breaks load
  to themselves.\<close>

theorem load_commented_text_stable:
  "let ls = LoadListFromCommentedText input True True True True True False True [c] in
   list_all (clean_line c) ls \<and>
   LoadListFromCommentedText (str_join [CHR 0x0A] ls) True True True True True False True [c] = ls"
proof -
  let ?ls = "LoadListFromCommentedText input True True True True True False True [c]"
  have "\<forall>l \<in> set ?ls. clean_line c l" using load_text_clean by blast
  then show ?thesis using load_text_join [of ?ls c] by (simp add: list_all_iff)
qed

text \<open>Loading from a file ignores the comment character it is given and uses the default one, and for
  a missing file it raises \<open>NameError\<close>, not having imported the logger, where \<open>None\<close> is documented.\<close>

theorem load_file_ignores_comment_char:
  "LoadListFromCommentedTextFile fs path a b d e f g h comment_char =
     (case fs path of
        None \<Rightarrow> Inl NameError
      | Some content \<Rightarrow> Inr (LoadListFromCommentedText content a b d e f g h DEFAULT_COMMENT_CHAR)) \<and>
   LoadListFromCommentedTextFile fs path a b d e f g h comment_char =
     LoadListFromCommentedTextFile fs path a b d e f g h other_char"
  by (simp add: LoadListFromCommentedTextFile_def)

end
