(* ===== verification/Records.thy ===== *)
theory Records
  imports Signals_Asserts List_Utils "HOL-Library.Multiset"
begin

section \<open>Test records and results (runners/host/records.py)\<close>

text \<open>
  \<open>TestResultRecord\<close> and \<open>TestResult\<close>. A record carries the identity of its Python object in the
  field \<open>oid\<close>, because \<open>jsonString\<close> removes duplicates by object identity. The clock is the argument
  \<open>clk\<close>, the reading of the \<open>n\<close>-th call of \<open>utils.get_current_epoch_time\<close>; an operation that reads
  the clock takes the number of readings so far and, when it reads more than once, returns the new
  number. \<open>str(e)\<close> of an exception is the argument \<open>str_exc\<close>.
\<close>

datatype test_outcome =
  TEST_RESULT_PASS | TEST_RESULT_FAIL | TEST_RESULT_SKIP | TEST_RESULT_ERROR

fun outcome_str :: "test_outcome \<Rightarrow> string" where
  "outcome_str TEST_RESULT_PASS = ''PASS''"
| "outcome_str TEST_RESULT_FAIL = ''FAIL''"
| "outcome_str TEST_RESULT_SKIP = ''SKIP''"
| "outcome_str TEST_RESULT_ERROR = ''ERROR''"

subsection \<open>TestResultRecord\<close>

record test_record =
  oid :: nat
  test_name :: string
  test_class :: "string option"
  begin_time :: "int option"
  end_time :: "int option"
  uid :: pyval
  result :: "test_outcome option"
  extras :: pyval
  details :: "string option"
  extra_errors :: "(string \<times> string) list"
  tables :: "(string \<times> pyval) list"

definition TestResultRecord :: "nat \<Rightarrow> string \<Rightarrow> string option \<Rightarrow> test_record" where
  "TestResultRecord i t_name t_class =
     \<lparr>oid = i, test_name = t_name, test_class = t_class, begin_time = None, end_time = None,
      uid = PNone, result = None, extras = PNone, details = None, extra_errors = [], tables = []\<rparr>"

definition fullname :: "test_record \<Rightarrow> string" where
  "fullname r = (case test_class r of None \<Rightarrow> ''None'' | Some c \<Rightarrow> c) @ ''.'' @ test_name r"

definition isSameTestCase :: "test_record \<Rightarrow> test_record \<Rightarrow> bool" where
  "isSameTestCase r r' \<longleftrightarrow> fullname r = fullname r'"

definition testBegin :: "int \<Rightarrow> test_record \<Rightarrow> test_record" where
  "testBegin now r = r\<lparr>begin_time := Some now\<rparr>"

text \<open>What ends a test: nothing, an exception, or a plain string.\<close>

datatype end_cause = NoCause | CauseExc exc | CauseStr string

definition testEnd ::
  "(exc \<Rightarrow> string) \<Rightarrow> int \<Rightarrow> test_outcome \<Rightarrow> end_cause \<Rightarrow> test_record \<Rightarrow> test_record" where
  "testEnd str_exc now res e r =
     (let r = r\<lparr>end_time := Some now, result := Some res\<rparr> in
      case e of
        NoCause \<Rightarrow> r
      | CauseExc (Signal kind d x) \<Rightarrow> r\<lparr>details := Some d, extras := x\<rparr>
      | CauseExc ex \<Rightarrow> r\<lparr>details := Some (str_exc ex)\<rparr>
      | CauseStr s \<Rightarrow> if s \<noteq> [] then r\<lparr>details := Some s\<rparr> else r)"

definition testPass :: "(exc \<Rightarrow> string) \<Rightarrow> int \<Rightarrow> end_cause \<Rightarrow> test_record \<Rightarrow> test_record" where
  "testPass str_exc now e r = testEnd str_exc now TEST_RESULT_PASS e r"

definition testFail :: "(exc \<Rightarrow> string) \<Rightarrow> int \<Rightarrow> end_cause \<Rightarrow> test_record \<Rightarrow> test_record" where
  "testFail str_exc now e r = testEnd str_exc now TEST_RESULT_FAIL e r"

definition testSkip :: "(exc \<Rightarrow> string) \<Rightarrow> int \<Rightarrow> end_cause \<Rightarrow> test_record \<Rightarrow> test_record" where
  "testSkip str_exc now e r = testEnd str_exc now TEST_RESULT_SKIP e r"

definition testError :: "(exc \<Rightarrow> string) \<Rightarrow> int \<Rightarrow> end_cause \<Rightarrow> test_record \<Rightarrow> test_record" where
  "testError str_exc now e r = testEnd str_exc now TEST_RESULT_ERROR e r"

definition addError :: "(exc \<Rightarrow> string) \<Rightarrow> string \<Rightarrow> exc \<Rightarrow> test_record \<Rightarrow> test_record" where
  "addError str_exc tag e r =
     r\<lparr>result := Some TEST_RESULT_ERROR, extra_errors := dict_set tag (str_exc e) (extra_errors r)\<rparr>"

definition addTable :: "string \<Rightarrow> pyval \<Rightarrow> test_record \<Rightarrow> test_record" where
  "addTable name rows r = r\<lparr>tables := dict_set name rows (tables r)\<rparr>"

definition opt_val :: "('a \<Rightarrow> pyval) \<Rightarrow> 'a option \<Rightarrow> pyval" where
  "opt_val f v = (case v of None \<Rightarrow> PNone | Some x \<Rightarrow> f x)"

definition getDict :: "test_record \<Rightarrow> (string \<times> pyval) list" where
  "getDict r =
     [(''Test Name'', PStr (test_name r)),
      (''Test Class'', opt_val PStr (test_class r)),
      (''Begin Time'', opt_val PInt (begin_time r)),
      (''End Time'', opt_val PInt (end_time r)),
      (''Result'', opt_val (PStr \<circ> outcome_str) (result r)),
      (''UID'', uid r),
      (''Extras'', extras r),
      (''Details'', opt_val PStr (details r)),
      (''Extra Errors'', PDict (map (\<lambda>(k, v). (k, PStr v)) (extra_errors r))),
      (''Tables'', PDict (tables r))]"

subsection \<open>TestResult\<close>

record test_result =
  requested :: "test_record list"
  failed :: "test_record list"
  executed :: "test_record list"
  passed :: "test_record list"
  skipped :: "test_record list"
  error :: "test_record list"
  test_module_name :: "string option"
  test_module_timestamp :: "int option"
  class_errors :: "string list"

definition TestResult :: test_result where
  "TestResult = \<lparr>requested = [], failed = [], executed = [], passed = [], skipped = [], error = [],
     test_module_name = None, test_module_timestamp = None, class_errors = []\<rparr>"

definition getNonExecutedRecords :: "test_result \<Rightarrow> test_record list" where
  "getNonExecutedRecords s =
     filter (\<lambda>req. \<not> (\<exists>ex \<in> set (executed s). isSameTestCase req ex)) (requested s)"

definition getNonPassingRecords ::
  "bool \<Rightarrow> bool \<Rightarrow> bool \<Rightarrow> bool \<Rightarrow> test_result \<Rightarrow> test_record list" where
  "getNonPassingRecords non_executed inc_failed inc_skipped inc_error s =
     (if non_executed then getNonExecutedRecords s else []) @
     (if inc_failed then failed s else []) @
     (if inc_skipped then skipped s else []) @
     (if inc_error then error s else [])"

definition NOT_EXECUTED_MSG :: string where
  "NOT_EXECUTED_MSG = ''Unknown error: test case requested but not executed.''"

text \<open>
  The loop over the non-executed records: each is the object in the requested list, so the two
  updates show there too; the updated object is appended to the error list. Every iteration reads
  the clock twice.
\<close>

fun report_loop ::
  "(exc \<Rightarrow> string) \<Rightarrow> (nat \<Rightarrow> int) \<Rightarrow> (test_record \<Rightarrow> bool) \<Rightarrow> nat \<Rightarrow> test_record list \<Rightarrow>
     test_record list \<times> test_record list \<times> nat" where
  "report_loop str_exc clk missing t [] = ([], [], t)"
| "report_loop str_exc clk missing t (r # rs) =
     (if missing r then
        let r' = testError str_exc (clk (t + 1)) (CauseStr NOT_EXECUTED_MSG) (testBegin (clk t) r);
            (reqs, errs, t') = report_loop str_exc clk missing (t + 2) rs
        in (r' # reqs, r' # errs, t')
      else let (reqs, errs, t') = report_loop str_exc clk missing t rs in (r # reqs, errs, t'))"

definition reportNonExecutedRecord ::
  "(exc \<Rightarrow> string) \<Rightarrow> (nat \<Rightarrow> int) \<Rightarrow> nat \<Rightarrow> test_result \<Rightarrow> test_result \<times> nat" where
  "reportNonExecutedRecord str_exc clk t s =
     (let missing = (\<lambda>req. \<not> (\<exists>ex \<in> set (executed s). isSameTestCase req ex));
          (reqs, errs, t') = report_loop str_exc clk missing t (requested s)
      in (s\<lparr>requested := reqs, error := error s @ errs\<rparr>, t'))"

text \<open>\<open>__add__\<close>: merging the module keys raises when the names differ.\<close>

definition merge_name :: "string option \<Rightarrow> string option \<Rightarrow> py_error + string option" where
  "merge_name l r =
     (case (l, r) of
        (None, None) \<Rightarrow> Inr None
      | (None, Some y) \<Rightarrow> Inr (Some y)
      | (Some x, None) \<Rightarrow> Inr (Some x)
      | (Some x, Some y) \<Rightarrow> if x \<noteq> y then Inl TypeError else Inr (Some x))"

definition merge_timestamp :: "int option \<Rightarrow> int option \<Rightarrow> int option" where
  "merge_timestamp l r =
     (case (l, r) of
        (None, None) \<Rightarrow> None
      | (None, Some y) \<Rightarrow> Some y
      | (Some x, None) \<Rightarrow> Some x
      | (Some x, Some y) \<Rightarrow> if x < y then Some x else Some y)"

definition add_results ::
  "(exc \<Rightarrow> string) \<Rightarrow> (nat \<Rightarrow> int) \<Rightarrow> nat \<Rightarrow> test_result \<Rightarrow> test_result \<Rightarrow>
     (py_error + test_result) \<times> test_result \<times> nat" where
  "add_results str_exc clk t s r =
     (let (r, t) = reportNonExecutedRecord str_exc clk t r in
      (bindR (merge_name (test_module_name s) (test_module_name r)) (\<lambda>name.
         Inr \<lparr>requested = requested s @ requested r, failed = failed s @ failed r,
              executed = executed s @ executed r, passed = passed s @ passed r,
              skipped = skipped s @ skipped r, error = error s @ error r,
              test_module_name = name,
              test_module_timestamp =
                merge_timestamp (test_module_timestamp s) (test_module_timestamp r),
              class_errors = class_errors s @ class_errors r\<rparr>),
       r, t))"

text \<open>
  \<open>removeRecord\<close> deletes the matching indices of each list from the last to the first; its
  parameter \<open>remove_requested\<close> is not read by the body.
\<close>

definition match_indices :: "test_record \<Rightarrow> test_record list \<Rightarrow> nat list" where
  "match_indices r l = filter (\<lambda>i. isSameTestCase (l ! i) r) [0..<length l]"

definition del_index :: "nat \<Rightarrow> 'a list \<Rightarrow> 'a list" where
  "del_index i l = take i l @ drop (Suc i) l"

definition remove_matching :: "test_record \<Rightarrow> test_record list \<Rightarrow> test_record list" where
  "remove_matching r l = fold del_index (rev (match_indices r l)) l"

definition removeRecord :: "test_record \<Rightarrow> bool \<Rightarrow> test_result \<Rightarrow> test_result" where
  "removeRecord r remove_requested s =
     s\<lparr>requested := remove_matching r (requested s), failed := remove_matching r (failed s),
       executed := remove_matching r (executed s), passed := remove_matching r (passed s),
       skipped := remove_matching r (skipped s), error := remove_matching r (error s)\<rparr>"

definition addRecord :: "test_record \<Rightarrow> test_result \<Rightarrow> test_result" where
  "addRecord r s =
     (let s = removeRecord r False s; s = s\<lparr>executed := executed s @ [r]\<rparr> in
      if result r = Some TEST_RESULT_FAIL then s\<lparr>failed := failed s @ [r]\<rparr>
      else if result r = Some TEST_RESULT_SKIP then s\<lparr>skipped := skipped s @ [r]\<rparr>
      else if result r = Some TEST_RESULT_PASS then s\<lparr>passed := passed s @ [r]\<rparr>
      else s\<lparr>error := error s @ [r]\<rparr>)"

definition setTestModuleKeys :: "string \<Rightarrow> int \<Rightarrow> test_result \<Rightarrow> test_result" where
  "setTestModuleKeys name start_timestamp s =
     s\<lparr>test_module_name := Some name, test_module_timestamp := Some start_timestamp\<rparr>"

definition failClass :: "(exc \<Rightarrow> string) \<Rightarrow> string \<Rightarrow> exc option \<Rightarrow> test_result \<Rightarrow> test_result" where
  "failClass str_exc class_name e s =
     s\<lparr>class_errors := class_errors s @
         [class_name @ '': '' @ (case e of None \<Rightarrow> ''None'' | Some x \<Rightarrow> str_exc x)]\<rparr>"

definition passClass ::
  "(exc \<Rightarrow> string) \<Rightarrow> (nat \<Rightarrow> int) \<Rightarrow> nat \<Rightarrow> nat \<Rightarrow> string \<Rightarrow> end_cause \<Rightarrow> test_result \<Rightarrow> test_result" where
  "passClass str_exc clk t i class_name e s =
     (let r = testPass str_exc (clk (t + 1)) e
                (testBegin (clk t) (TestResultRecord i ''setup_class'' (Some class_name)))
      in s\<lparr>executed := executed s @ [r], passed := passed s @ [r]\<rparr>)"

definition skipClass ::
  "(exc \<Rightarrow> string) \<Rightarrow> (nat \<Rightarrow> int) \<Rightarrow> nat \<Rightarrow> nat \<Rightarrow> string \<Rightarrow> string \<Rightarrow> test_result \<Rightarrow> test_result" where
  "skipClass str_exc clk t i class_name reason s =
     (let r = testSkip str_exc (clk (t + 1)) (CauseExc (raise_signal TestSkip reason PNone))
                (testBegin (clk t) (TestResultRecord i ''skip_class'' (Some class_name)))
      in s\<lparr>executed := executed s @ [r], skipped := skipped s @ [r]\<rparr>)"

definition summaryDict :: "test_result \<Rightarrow> (string \<times> nat) list" where
  "summaryDict s =
     [(''Requested'', length (requested s)), (''Executed'', length (executed s)),
      (''Passed'', length (passed s)), (''Failed'', length (failed s)),
      (''Skipped'', length (skipped s)), (''Error'', length (error s))]"

definition progressStr :: "test_result \<Rightarrow> string" where
  "progressStr s = str_int (int (length (executed s) + length (skipped s) + 1)) @ ''/'' @
     str_int (int (length (requested s)))"

definition testModuleDict :: "test_result \<Rightarrow> (string \<times> pyval) list" where
  "testModuleDict s = [(''Name'', opt_val PStr (test_module_name s)),
     (''Timestamp'', opt_val PInt (test_module_timestamp s))]"

definition json_records :: "test_result \<Rightarrow> test_record list" where
  "json_records s = MergeUniqueKeepOrder [executed s, failed s, passed s, skipped s, error s]"

text \<open>The value that \<open>jsonString\<close> hands to \<open>json.dumps\<close>, with its keys sorted.\<close>

definition jsonString_value :: "test_result \<Rightarrow> pyval" where
  "jsonString_value s = PDict
     [(''Class Errors'', if class_errors s = [] then PNone
         else PStr (str_join [CHR 0x0A] (class_errors s))),
      (''Results'', PList (map (PDict \<circ> getDict) (json_records s))),
      (''Summary'', PDict (map (\<lambda>(k, n). (k, PInt (int n))) (summaryDict s))),
      (''TestModule'', PDict (testModuleDict s))]"

subsection \<open>Removing records\<close>

lemma del_index_append: "j < length xs \<Longrightarrow> del_index j (xs @ ys) = del_index j xs @ ys"
  by (simp add: del_index_def)

lemma del_index_last: "del_index (length xs) (xs @ [x]) = xs"
  by (simp add: del_index_def)

lemma fold_del_index_append:
  "sorted_wrt (>) js \<Longrightarrow> \<forall>j \<in> set js. j < length xs \<Longrightarrow>
   fold del_index js (xs @ ys) = fold del_index js xs @ ys"
proof (induction js arbitrary: xs)
  case (Cons j js)
  from Cons.prems have "\<forall>i \<in> set js. i < length (del_index j xs)"
    by (auto simp: del_index_def min_def)
  with Cons show ?case by (simp add: del_index_append)
qed simp

lemma fold_del_indices:
  "fold del_index (rev (filter (\<lambda>i. P (l ! i)) [0..<length l])) l = filter (\<lambda>x. \<not> P x) l"
proof (induction l rule: rev_induct)
  case (snoc x xs)
  let ?js = "rev (filter (\<lambda>i. P (xs ! i)) [0..<length xs])"
  have idx: "filter (\<lambda>i. P ((xs @ [x]) ! i)) [0..<length xs] =
      filter (\<lambda>i. P (xs ! i)) [0..<length xs]"
    by (intro filter_cong) (auto simp: nth_append)
  have "sorted_wrt (>) ?js"
    by (simp add: sorted_wrt_rev sorted_wrt_filter)
  moreover have "\<forall>j \<in> set ?js. j < length xs" by simp
  ultimately have "fold del_index ?js (xs @ [x]) = fold del_index ?js xs @ [x]"
    by (rule fold_del_index_append)
  with snoc show ?case
    by (simp add: idx del_index_last)
qed simp

lemma remove_matching_filter [simp]: "remove_matching r l = filter (\<lambda>x. fullname x \<noteq> fullname r) l"
  using fold_del_indices [of "\<lambda>x. isSameTestCase x r" l]
  by (simp add: remove_matching_def match_indices_def isSameTestCase_def)

lemma executed_addRecord [simp]:
  "executed (addRecord r s) = filter (\<lambda>x. fullname x \<noteq> fullname r) (executed s) @ [r]"
  by (simp add: addRecord_def removeRecord_def Let_def)

lemma requested_addRecord [simp]:
  "requested (addRecord r s) = filter (\<lambda>x. fullname x \<noteq> fullname r) (requested s)"
  by (simp add: addRecord_def removeRecord_def Let_def)

lemma class_errors_addRecord [simp]: "class_errors (addRecord r s) = class_errors s"
  by (simp add: addRecord_def removeRecord_def Let_def)

subsection \<open>The partition of the executed records\<close>

text \<open>
  The invariant of a result: the executed records are, as a multiset, the failed, passed, skipped
  and error records together, and each of the four lists holds the records with its verdict only.
\<close>

definition verdict_tags :: "test_result \<Rightarrow> bool" where
  "verdict_tags s \<longleftrightarrow>
     (\<forall>r \<in> set (failed s). result r = Some TEST_RESULT_FAIL) \<and>
     (\<forall>r \<in> set (passed s). result r = Some TEST_RESULT_PASS) \<and>
     (\<forall>r \<in> set (skipped s). result r = Some TEST_RESULT_SKIP) \<and>
     (\<forall>r \<in> set (error s). result r = Some TEST_RESULT_ERROR \<or> result r = None)"

definition results_ok :: "test_result \<Rightarrow> bool" where
  "results_ok s \<longleftrightarrow>
     mset (executed s) = mset (failed s) + mset (passed s) + mset (skipped s) + mset (error s) \<and>
     verdict_tags s"

text \<open>The weaker invariant that also holds once non-executed tests have been reported as errors.\<close>

definition results_cover :: "test_result \<Rightarrow> bool" where
  "results_cover s \<longleftrightarrow>
     mset (executed s) \<subseteq># mset (failed s) + mset (passed s) + mset (skipped s) + mset (error s) \<and>
     verdict_tags s"

lemma results_ok_cover: "results_ok s \<Longrightarrow> results_cover s"
  by (simp add: results_ok_def results_cover_def)

lemma results_ok_empty: "results_ok TestResult"
  by (simp add: results_ok_def verdict_tags_def TestResult_def)

lemma results_ok_remove: "results_ok s \<Longrightarrow> results_ok (removeRecord r b s)"
  unfolding results_ok_def verdict_tags_def removeRecord_def
  by (simp add: mset_filter)

lemma outcome_cases:
  "result r = Some TEST_RESULT_ERROR \<or> result r = None" if "result r \<noteq> Some TEST_RESULT_FAIL"
  "result r \<noteq> Some TEST_RESULT_SKIP" "result r \<noteq> Some TEST_RESULT_PASS"
  using that by (cases "result r") (auto intro: test_outcome.exhaust)

lemma results_ok_addRecord: "results_ok s \<Longrightarrow> results_ok (addRecord r s)"
proof -
  assume "results_ok s"
  then have "results_ok (removeRecord r False s)" by (rule results_ok_remove)
  then show ?thesis
    using outcome_cases [of r]
    by (auto simp: addRecord_def Let_def results_ok_def verdict_tags_def)
qed

lemma result_testEnd [simp]: "result (testEnd str_exc now res e r) = Some res"
  by (simp add: testEnd_def Let_def split: end_cause.split exc.split)

lemma fullname_testEnd [simp]: "fullname (testEnd str_exc now res e r) = fullname r"
  by (simp add: testEnd_def fullname_def Let_def split: end_cause.split exc.split)

lemma begin_testEnd [simp]: "begin_time (testEnd str_exc now res e r) = begin_time r"
  "end_time (testEnd str_exc now res e r) = Some now"
  by (simp_all add: testEnd_def Let_def split: end_cause.split exc.split)

lemma testBegin_simps [simp]:
  "fullname (testBegin now r) = fullname r" "begin_time (testBegin now r) = Some now"
  by (simp_all add: testBegin_def fullname_def)

lemmas test_end_defs = testPass_def testFail_def testSkip_def testError_def

lemma results_ok_passClass: "results_ok s \<Longrightarrow> results_ok (passClass str_exc clk t i c e s)"
  by (simp add: passClass_def results_ok_def verdict_tags_def Let_def testPass_def)

lemma results_ok_skipClass: "results_ok s \<Longrightarrow> results_ok (skipClass str_exc clk t i c reason s)"
  by (simp add: skipClass_def results_ok_def verdict_tags_def Let_def testSkip_def)

lemma results_ok_frame [simp]:
  "results_ok (failClass str_exc c e s) = results_ok s"
  "results_ok (setTestModuleKeys n ts s) = results_ok s"
  "results_ok (s\<lparr>requested := reqs\<rparr>) = results_ok s"
  by (simp_all add: failClass_def setTestModuleKeys_def results_ok_def verdict_tags_def)

subsection \<open>A log with one verdict per test\<close>

text \<open>
  What the runner relies on: adding a record replaces the record of the same test, so after any
  sequence of additions the log has one record per test, the last one added.
\<close>

locale verdict_log =
  fixes add :: "'r \<Rightarrow> 's \<Rightarrow> 's"
    and recs :: "'s \<Rightarrow> 'r list"
    and key :: "'r \<Rightarrow> 'k"
  assumes recs_add: "recs (add r s) = filter (\<lambda>x. key x \<noteq> key r) (recs s) @ [r]"
begin

lemma distinct_add: "distinct (map key (recs s)) \<Longrightarrow> distinct (map key (recs (add r s)))"
  by (auto simp: recs_add distinct_map inj_on_def)

lemma distinct_adds: "distinct (map key (recs s)) \<Longrightarrow> distinct (map key (recs (fold add rs s)))"
  by (induction rs arbitrary: s) (auto simp: distinct_add)

lemma find_add: "find (\<lambda>x. key x = k) (recs (add r s)) =
    (if k = key r then Some r else find (\<lambda>x. key x = k) (recs s))"
proof -
  have "find (\<lambda>x. key x = k) (filter (\<lambda>x. key x \<noteq> key r) xs @ [r]) =
      (if k = key r then Some r else find (\<lambda>x. key x = k) xs)" for xs
    by (induction xs) auto
  then show ?thesis by (simp add: recs_add)
qed

lemma last_wins:
  "find (\<lambda>x. key x = k) (recs (fold add rs s)) =
     (case find (\<lambda>x. key x = k) (rev rs) of
        Some r \<Rightarrow> Some r | None \<Rightarrow> find (\<lambda>x. key x = k) (recs s))"
proof (induction rs rule: rev_induct)
  case (snoc r rs)
  then show ?case by (auto simp: find_add)
qed simp

lemma keys_adds: "set (map key (recs (fold add rs s))) = set (map key (recs s)) \<union> set (map key rs)"
  by (induction rs arbitrary: s) (auto simp: recs_add)

end

interpretation log: verdict_log addRecord executed fullname
  by unfold_locales simp

subsection \<open>Reporting tests that were not executed\<close>

lemma requested_accounted:
  "p \<in> set (requested s) \<Longrightarrow>
   (\<exists>r \<in> set (executed s). fullname r = fullname p) \<or> p \<in> set (getNonExecutedRecords s)"
  by (auto simp: getNonExecutedRecords_def isSameTestCase_def)

text \<open>What a record looks like once it has been reported as not executed.\<close>

definition reported :: "test_record \<Rightarrow> bool" where
  "reported r \<longleftrightarrow> result r = Some TEST_RESULT_ERROR \<and> details r = Some NOT_EXECUTED_MSG \<and>
     begin_time r \<noteq> None \<and> end_time r \<noteq> None"

lemma report_one:
  "reported (testError str_exc t' (CauseStr NOT_EXECUTED_MSG) (testBegin t r))"
  by (simp add: reported_def testError_def) (simp add: testEnd_def NOT_EXECUTED_MSG_def Let_def)

lemma report_loop_spec:
  assumes "report_loop str_exc clk missing t rs = (reqs, errs, t')"
    and "\<And>r r'. fullname r = fullname r' \<Longrightarrow> missing r = missing r'"
  shows "map fullname reqs = map fullname rs \<and>
    map fullname errs = map fullname (filter missing rs) \<and>
    (\<forall>r \<in> set errs. reported r) \<and> t' = t + 2 * length errs \<and>
    filter (\<lambda>r. \<not> missing r) reqs = filter (\<lambda>r. \<not> missing r) rs \<and> set errs \<subseteq> set reqs"
  using assms(1)
proof (induction rs arbitrary: t reqs errs t')
  case (Cons r rs)
  let ?r = "testError str_exc (clk (t + 1)) (CauseStr NOT_EXECUTED_MSG) (testBegin (clk t) r)"
  obtain qs es u where rest: "report_loop str_exc clk missing (if missing r then t + 2 else t) rs =
      (qs, es, u)" by (metis prod_cases3)
  have name: "fullname ?r = fullname r" by (simp add: testError_def)
  then have "missing ?r = missing r" by (rule assms(2))
  then show ?case
    using Cons.prems Cons.IH [OF rest] rest report_one name by (auto simp: Let_def split: if_splits)
qed simp

lemma report_spec:
  assumes "reportNonExecutedRecord str_exc clk t s = (s', t')"
  shows "executed s' = executed s" "failed s' = failed s" "passed s' = passed s"
    "skipped s' = skipped s" "map fullname (requested s') = map fullname (requested s)"
    "test_module_name s' = test_module_name s"
    "test_module_timestamp s' = test_module_timestamp s"
    "\<exists>errs. error s' = error s @ errs \<and> (\<forall>r \<in> set errs. reported r) \<and>
       map fullname errs = map fullname (getNonExecutedRecords s)"
proof -
  let ?missing = "\<lambda>req. \<not> (\<exists>ex \<in> set (executed s). isSameTestCase req ex)"
  obtain reqs errs u where loop: "report_loop str_exc clk ?missing t (requested s) = (reqs, errs, u)"
    by (metis prod_cases3)
  have cong: "\<And>r r'. fullname r = fullname r' \<Longrightarrow> ?missing r = ?missing r'"
    by (simp add: isSameTestCase_def)
  have s': "s' = s\<lparr>requested := reqs, error := error s @ errs\<rparr>"
    using assms loop by (simp add: reportNonExecutedRecord_def Let_def)
  note spec = report_loop_spec [OF loop cong]
  show "executed s' = executed s" "failed s' = failed s" "passed s' = passed s"
    "skipped s' = skipped s" "map fullname (requested s') = map fullname (requested s)"
    "test_module_name s' = test_module_name s" "test_module_timestamp s' = test_module_timestamp s"
    using s' spec by simp_all
  show "\<exists>errs. error s' = error s @ errs \<and> (\<forall>r \<in> set errs. reported r) \<and>
       map fullname errs = map fullname (getNonExecutedRecords s)"
    using s' spec by (auto simp: getNonExecutedRecords_def)
qed

lemma report_cover: "results_cover s \<Longrightarrow> reportNonExecutedRecord str_exc clk t s = (s', t') \<Longrightarrow> results_cover s'"
proof -
  assume cover: "results_cover s" and rep: "reportNonExecutedRecord str_exc clk t s = (s', t')"
  note facts = report_spec [OF rep]
  obtain errs where "error s' = error s @ errs" "\<forall>r \<in> set errs. reported r"
    using facts(8) by blast
  moreover have "mset (executed s) \<subseteq># mset (failed s) + mset (passed s) + mset (skipped s) +
      mset (error s) + mset errs"
    using cover unfolding results_cover_def
    by (blast intro: subset_mset.order_trans mset_subset_eq_add_left)
  ultimately show ?thesis
    using cover facts by (auto simp: results_cover_def verdict_tags_def reported_def add.assoc)
qed

lemma add_cover:
  "results_cover s \<Longrightarrow> results_cover r \<Longrightarrow> fst (add_results str_exc clk t s r) = Inr u \<Longrightarrow> results_cover u"
proof -
  assume s: "results_cover s" and r: "results_cover r"
    and add: "fst (add_results str_exc clk t s r) = Inr u"
  obtain r' t' where rep: "reportNonExecutedRecord str_exc clk t r = (r', t')" by fastforce
  have r': "results_cover r'" using report_cover [OF r rep] .
  have "mset (executed s) + mset (executed r') \<subseteq>#
      (mset (failed s) + mset (passed s) + mset (skipped s) + mset (error s)) +
      (mset (failed r') + mset (passed r') + mset (skipped r') + mset (error r'))"
    using s r' by (intro subset_mset.add_mono) (simp_all add: results_cover_def)
  then show ?thesis
    using add rep s r'
    by (auto simp: add_results_def results_cover_def verdict_tags_def py_res ac_simps)
qed

subsection \<open>The records in the report\<close>

lemma keep_unseen_concat_subset:
  "distinct xs \<Longrightarrow> set ys \<subseteq> set xs \<Longrightarrow> keep_unseen {} (xs @ ys) = xs"
  by (simp add: keep_unseen_append keep_unseen_id keep_unseen_Nil)

lemma json_records_executed:
  assumes "results_ok s" and "distinct (executed s)"
  shows "json_records s = executed s"
proof -
  have "set_mset (mset (executed s)) =
      set_mset (mset (failed s) + mset (passed s) + mset (skipped s) + mset (error s))"
    using assms(1) by (simp add: results_ok_def)
  then have "set (failed s @ passed s @ skipped s @ error s) \<subseteq> set (executed s)" by auto
  from keep_unseen_concat_subset [OF assms(2) this] show ?thesis
    by (simp add: json_records_def MergeUniqueKeepOrder_def)
qed

subsection \<open>Properties\<close>

text \<open>(C31) Whatever sequence of records is added to a result whose lists partition the executed
  records by verdict, the lists still do: the executed records are exactly the failed, passed,
  skipped and error ones together, each under its own verdict, and no test appears twice.\<close>

theorem addRecord_partition:
  assumes "results_ok s" and "distinct (map fullname (executed s))"
  shows "results_ok (fold addRecord rs s) \<and> distinct (map fullname (executed (fold addRecord rs s)))"
proof
  show "results_ok (fold addRecord rs s)"
    using assms(1) by (induction rs arbitrary: s) (auto simp: results_ok_addRecord)
  show "distinct (map fullname (executed (fold addRecord rs s)))"
    by (rule log.distinct_adds [OF assms(2)])
qed

theorem addRecord_partition_witness:
  "results_ok (fold addRecord [TestResultRecord 0 ''testA'' None] TestResult) \<and>
   distinct (map fullname (executed (fold addRecord [TestResultRecord 0 ''testA'' None] TestResult)))"
  by (rule addRecord_partition) (simp_all add: results_ok_empty, simp add: TestResult_def)

text \<open>The last verdict wins: after a sequence of additions the record of a test is the last one
  that was added for it, so a passing retry replaces an earlier failure.\<close>

theorem addRecord_last_wins:
  "find (\<lambda>x. fullname x = k) (executed (fold addRecord rs s)) =
     (case find (\<lambda>x. fullname x = k) (rev rs) of
        Some r \<Rightarrow> Some r | None \<Rightarrow> find (\<lambda>x. fullname x = k) (executed s))"
  by (rule log.last_wins)

text \<open>\<open>addRecord\<close> asks \<open>removeRecord\<close> not to touch the requested list, but the parameter is not
  read: the test disappears from the requested tests when it is executed, so the summary of a result
  counts as requested only the tests that have no record yet.\<close>

theorem addRecord_drops_requested:
  "requested (fold addRecord rs s) = filter (\<lambda>q. fullname q \<notin> fullname ` set rs) (requested s)"
proof (induction rs arbitrary: s)
  case (Cons r rs)
  have "filter (\<lambda>q. fullname q \<notin> fullname ` set rs) (filter (\<lambda>q. fullname q \<noteq> fullname r) (requested s)) =
      filter (\<lambda>q. fullname q \<notin> fullname ` set (r # rs)) (requested s)"
    by (auto intro: filter_cong)
  with Cons [of "addRecord r s"] show ?case by simp
qed simp

text \<open>After \<open>reportNonExecutedRecord\<close> no requested test is unaccounted for: each has a record in the
  executed list or one in the error list with verdict ERROR, its two times and the message that it was
  requested but not executed; the error list gains nothing else and no other list changes.\<close>

theorem report_accounts_for_all:
  assumes "reportNonExecutedRecord str_exc clk t s = (s', t')"
  shows "(\<forall>q \<in> set (requested s').
      (\<exists>r \<in> set (executed s'). fullname r = fullname q) \<or>
      (\<exists>r \<in> set (error s'). fullname r = fullname q \<and> reported r)) \<and>
    executed s' = executed s \<and> failed s' = failed s \<and> passed s' = passed s \<and> skipped s' = skipped s \<and>
    (\<exists>errs. error s' = error s @ errs \<and> map fullname errs = map fullname (getNonExecutedRecords s))"
proof -
  note facts = report_spec [OF assms]
  obtain errs where errs: "error s' = error s @ errs" "\<forall>r \<in> set errs. reported r"
    "map fullname errs = map fullname (getNonExecutedRecords s)" using facts(8) by blast
  have "(\<exists>r \<in> set (executed s'). fullname r = fullname q) \<or>
      (\<exists>r \<in> set (error s'). fullname r = fullname q \<and> reported r)" if "q \<in> set (requested s')" for q
  proof -
    from that have "fullname q \<in> set (map fullname (requested s'))" by simp
    with facts(5) obtain p where "p \<in> set (requested s)" "fullname p = fullname q" by auto
    then have "(\<exists>r \<in> set (executed s). fullname r = fullname q) \<or>
        fullname q \<in> set (map fullname errs)"
      unfolding errs(3) using requested_accounted [of p s] by (metis image_eqI list.set_map)
    with errs(1,2) facts(1) show ?thesis by auto
  qed
  with facts errs show ?thesis by blast
qed

theorem report_accounts_for_all_witness:
  "let s = TestResult\<lparr>requested := [TestResultRecord 0 ''testA'' None]\<rparr>;
       s' = fst (reportNonExecutedRecord (\<lambda>_. []) int 0 s)
   in \<forall>q \<in> set (requested s'). \<exists>r \<in> set (error s'). fullname r = fullname q \<and> reported r"
proof -
  let ?s = "TestResult\<lparr>requested := [TestResultRecord 0 ''testA'' None]\<rparr>"
  obtain s' t' where rep: "reportNonExecutedRecord (\<lambda>_. []) int 0 ?s = (s', t')" by fastforce
  note all = report_accounts_for_all [OF rep]
  then have "executed s' = []" by (simp add: TestResult_def)
  with all show ?thesis unfolding rep Let_def by simp
qed

text \<open>Merging two results (\<open>__add__\<close>) keeps every executed record under a verdict, and fails with
  \<open>TypeError\<close> exactly when both carry a module name and the names differ.\<close>

theorem add_results_ok:
  assumes "results_cover s" and "results_cover r"
  shows "(case fst (add_results str_exc clk t s r) of
      Inl e \<Rightarrow> e = TypeError \<and> (\<exists>x y. test_module_name s = Some x \<and> test_module_name r = Some y \<and> x \<noteq> y)
    | Inr u \<Rightarrow> results_cover u \<and> executed u = executed s @ executed r \<and>
        (\<forall>x y. test_module_name s = Some x \<longrightarrow> test_module_name r = Some y \<longrightarrow> x = y))"
proof (cases "fst (add_results str_exc clk t s r)")
  case (Inl e)
  obtain r' t' where rep: "reportNonExecutedRecord str_exc clk t r = (r', t')" by fastforce
  with Inl report_spec(6) [OF rep] show ?thesis
    by (auto simp: add_results_def merge_name_def split: option.splits if_splits)
next
  case (Inr u)
  obtain r' t' where rep: "reportNonExecutedRecord str_exc clk t r = (r', t')" by fastforce
  have "executed u = executed s @ executed r"
    using Inr rep report_spec(1) [OF rep] by (auto simp: add_results_def py_res)
  moreover have "\<forall>x y. test_module_name s = Some x \<longrightarrow> test_module_name r = Some y \<longrightarrow> x = y"
    using Inr rep report_spec(6) [OF rep]
    by (auto simp: add_results_def merge_name_def split: option.splits if_splits)
  ultimately show ?thesis using Inr add_cover [OF assms Inr] by simp
qed

theorem add_results_ok_witness:
  "\<exists>u. fst (add_results (\<lambda>_. []) int 0 TestResult TestResult) = Inr u \<and> results_cover u"
proof -
  have cov: "results_cover TestResult" by (rule results_ok_cover [OF results_ok_empty])
  obtain u where "fst (add_results (\<lambda>_. []) int 0 TestResult TestResult) = Inr u"
    by (simp add: add_results_def reportNonExecutedRecord_def merge_name_def TestResult_def)
  then show ?thesis using add_results_ok [OF cov cov, of "\<lambda>_. []" int 0] by simp
qed

text \<open>The JSON report lists each executed record once, in execution order: when the verdict lists
  partition the executed records, merging them back in adds nothing.\<close>

theorem json_report_lists_executed:
  assumes "results_ok s" and "distinct (executed s)"
  shows "jsonString_value s = PDict
     [(''Class Errors'', if class_errors s = [] then PNone
         else PStr (str_join [CHR 0x0A] (class_errors s))),
      (''Results'', PList (map (PDict \<circ> getDict) (executed s))),
      (''Summary'', PDict (map (\<lambda>(k, n). (k, PInt (int n))) (summaryDict s))),
      (''TestModule'', PDict (testModuleDict s))]"
  unfolding jsonString_value_def json_records_executed [OF assms] ..

theorem json_report_lists_executed_witness:
  "jsonString_value (addRecord (TestResultRecord 0 ''testA'' None) TestResult) \<noteq> PNone"
proof -
  let ?s = "addRecord (TestResultRecord 0 ''testA'' None) TestResult"
  have "results_ok ?s" by (rule results_ok_addRecord [OF results_ok_empty])
  moreover have "distinct (executed ?s)" by (simp add: TestResult_def)
  ultimately show ?thesis using json_report_lists_executed [of ?s] by simp
qed

end
