(* ===== verification/Test_Filter.thy ===== *)
theory Test_Filter
  imports List_Utils
begin

section \<open>Test name filters (utils/python/common/filter\_utils.py)\<close>

text \<open>
  The class \<open>Filter\<close> and the module functions it uses. Python's \<open>re\<close> engine is the argument
  \<open>E\<close>: which patterns compile and where the match of a pattern at the start of a string ends;
  every theorem holds for every engine.

  A \<open>Filter\<close> keeps references to the include and exclude lists it is given, and
  \<open>add_to_include_filter\<close> extends them in place, so the lists live in an explicit store of
  cells; the two mutable default arguments of the constructor are the cells at the addresses
  \<open>DEFAULT_INCLUDE\<close> and \<open>DEFAULT_EXCLUDE\<close>.
\<close>

subsection \<open>Constants and the regular expression engine\<close>

definition SUFFIX_32BIT :: string where "SUFFIX_32BIT = ''32bit''"
definition SUFFIX_64BIT :: string where "SUFFIX_64BIT = ''64bit''"
definition REGEX_PREFIX :: string where "REGEX_PREFIX = ''r(''"
definition REGEX_SUFFIX :: string where "REGEX_SUFFIX = '')''"
definition REGEX_PREFIX_ESCAPE :: string where "REGEX_PREFIX_ESCAPE = CHR 0x5C # ''r(''"
definition NEGATIVE_PATTERN_PREFIX :: string where "NEGATIVE_PATTERN_PREFIX = ''-''"
definition DEFAULT_EXCLUDE_OVER_INCLUDE :: bool where "DEFAULT_EXCLUDE_OVER_INCLUDE = False"

lemmas filter_consts = SUFFIX_32BIT_def SUFFIX_64BIT_def REGEX_PREFIX_def REGEX_SUFFIX_def
  REGEX_PREFIX_ESCAPE_def NEGATIVE_PATTERN_PREFIX_def DEFAULT_EXCLUDE_OVER_INCLUDE_def

record regex_engine =
  re_compiles :: "string \<Rightarrow> bool"
  re_match_end :: "string \<Rightarrow> string \<Rightarrow> nat option"

subsection \<open>The module functions\<close>

definition has_bitness :: "string \<Rightarrow> bool" where
  "has_bitness item \<longleftrightarrow> endswith item SUFFIX_32BIT \<or> endswith item SUFFIX_64BIT"

fun expand_items :: "string list \<Rightarrow> string list" where
  "expand_items [] = []"
| "expand_items (item # items) =
     (if \<not> has_bitness item
      then item # (item @ ''_'' @ SUFFIX_32BIT) # (item @ ''_'' @ SUFFIX_64BIT) # expand_items items
      else item # expand_items items)"

definition ExpandBitness :: "string list \<Rightarrow> string list" where
  "ExpandBitness input_list = DeduplicateKeepOrder (expand_items input_list)"

definition IsRegexFilter :: "string \<Rightarrow> bool" where
  "IsRegexFilter item \<longleftrightarrow> startswith item REGEX_PREFIX \<and> endswith item REGEX_SUFFIX"

definition appendix_pos :: "string \<Rightarrow> py_error + nat" where
  "appendix_pos item =
     (if has_bitness item then
        let pos = length item - length SUFFIX_32BIT
        in bindR (py_index item (int pos - 1)) (\<lambda>c.
             Inr (if c = CHR ''_'' then pos - 1 else pos))
      else Inr (length item))"

fun ExpandAppendix ::
  "regex_engine \<Rightarrow> string list \<Rightarrow> string list \<Rightarrow> string \<Rightarrow> py_error + string list" where
  "ExpandAppendix E [] appendix_list filter_pattern = Inr []"
| "ExpandAppendix E (item # items) appendix_list filter_pattern =
     bindR (if IsRegexFilter item then Inr [item]
            else if \<not> re_compiles E filter_pattern then Inl RegexError
            else if re_match_end E filter_pattern item \<noteq> None then Inr [item]
            else bindR (appendix_pos item) (\<lambda>pos.
                   Inr (map (\<lambda>appendix. take pos item @ appendix @ drop pos item) appendix_list)))
       (\<lambda>new. bindR (ExpandAppendix E items appendix_list filter_pattern)
         (\<lambda>rest. Inr (new @ rest)))"

text \<open>The slice \<open>item[len(REGEX_PREFIX):-len(REGEX_SUFFIX)]\<close>.\<close>

definition regex_body :: "string \<Rightarrow> string" where
  "regex_body item = take (length item - length REGEX_SUFFIX - length REGEX_PREFIX)
     (drop (length REGEX_PREFIX) item)"

fun SplitFilterList :: "regex_engine \<Rightarrow> string list \<Rightarrow> string list \<times> string list" where
  "SplitFilterList E [] = ([], [])"
| "SplitFilterList E (item # items) =
     (let (exact, regex) = SplitFilterList E items in
      if IsRegexFilter item then
        let regex_item = regex_body item
        in if re_compiles E regex_item then (exact, regex_item # regex) else (exact, regex)
      else if startswith item REGEX_PREFIX_ESCAPE \<and> endswith item REGEX_SUFFIX
      then ((REGEX_PREFIX @ drop (length REGEX_PREFIX_ESCAPE) item) # exact, regex)
      else (item # exact, regex))"

fun SplitNegativePattern :: "string list \<Rightarrow> string list \<times> string list" where
  "SplitNegativePattern [] = ([], [])"
| "SplitNegativePattern (item # items) =
     (let (positive, negative) = SplitNegativePattern items in
      if startswith item NEGATIVE_PATTERN_PREFIX
      then (positive, drop (length NEGATIVE_PATTERN_PREFIX) item # negative)
      else (item # positive, negative))"

fun InRegexList :: "regex_engine \<Rightarrow> string \<Rightarrow> string list \<Rightarrow> py_error + bool" where
  "InRegexList E item [] = Inr False"
| "InRegexList E item (regex # regexes) =
     (if \<not> re_compiles E regex then Inl RegexError
      else if re_match_end E regex item = Some (length item) then Inr True
      else InRegexList E item regexes)"

subsection \<open>The store of lists\<close>

record list_store =
  cells :: "nat \<Rightarrow> string list"
  next_addr :: nat

definition DEFAULT_INCLUDE :: nat where "DEFAULT_INCLUDE = 0"
definition DEFAULT_EXCLUDE :: nat where "DEFAULT_EXCLUDE = 1"

definition module_store :: list_store where
  "module_store = \<lparr>cells = (\<lambda>_. []), next_addr = 2\<rparr>"

definition new_list :: "string list \<Rightarrow> list_store \<Rightarrow> nat \<times> list_store" where
  "new_list xs h =
     (next_addr h, h\<lparr>cells := (cells h)(next_addr h := xs), next_addr := Suc (next_addr h)\<rparr>)"

definition extend_list :: "nat \<Rightarrow> string list \<Rightarrow> list_store \<Rightarrow> list_store" where
  "extend_list a xs h = h\<lparr>cells := (cells h)(a := cells h a @ xs)\<rparr>"

subsection \<open>The class Filter\<close>

record name_filter =
  enable_regex :: bool
  expand_bitness :: bool
  enable_negative_pattern :: bool
  include_ref :: "nat option"
  exclude_ref :: "nat option"
  exclude_over_include :: bool
  enable_module_name_prefix_matching :: bool
  filter_module_name :: "string option"
  include_filter_exact :: "string list"
  include_filter_regex :: "string list"
  exclude_filter_exact :: "string list"
  exclude_filter_regex :: "string list"

definition include_filter :: "list_store \<Rightarrow> name_filter \<Rightarrow> string list" where
  "include_filter h f = (case include_ref f of None \<Rightarrow> [] | Some a \<Rightarrow> cells h a)"

definition exclude_filter :: "list_store \<Rightarrow> name_filter \<Rightarrow> string list" where
  "exclude_filter h f = (case exclude_ref f of None \<Rightarrow> [] | Some a \<Rightarrow> cells h a)"

definition refresh_filter :: "regex_engine \<Rightarrow> list_store \<Rightarrow> name_filter \<Rightarrow> name_filter" where
  "refresh_filter E h f =
     (let (inc, exc) =
            (if enable_negative_pattern f
             then let (inc, neg) = SplitNegativePattern (include_filter h f)
                  in (inc, exclude_filter h f @ neg)
             else (include_filter h f, exclude_filter h f));
          f1 = (if enable_regex f
                then let (ie, ir) = SplitFilterList E inc; (ee, er) = SplitFilterList E exc
                     in f\<lparr>include_filter_exact := ie, include_filter_regex := ir,
                          exclude_filter_exact := ee, exclude_filter_regex := er\<rparr>
                else f\<lparr>include_filter_exact := inc, exclude_filter_exact := exc\<rparr>)
      in if expand_bitness f
         then f1\<lparr>include_filter_exact := ExpandBitness (include_filter_exact f1),
                 exclude_filter_exact := ExpandBitness (exclude_filter_exact f1)\<rparr>
         else f1)"

definition set_include_filter ::
  "regex_engine \<Rightarrow> list_store \<Rightarrow> nat \<Rightarrow> name_filter \<Rightarrow> name_filter" where
  "set_include_filter E h a f = refresh_filter E h (f\<lparr>include_ref := Some a\<rparr>)"

definition set_exclude_filter ::
  "regex_engine \<Rightarrow> list_store \<Rightarrow> nat \<Rightarrow> name_filter \<Rightarrow> name_filter" where
  "set_exclude_filter E h a f = refresh_filter E h (f\<lparr>exclude_ref := Some a\<rparr>)"

text \<open>The object before its constructor has run: the class attributes only.\<close>

definition blank_filter :: "bool \<Rightarrow> bool \<Rightarrow> bool \<Rightarrow> name_filter" where
  "blank_filter regex bitness negative =
     \<lparr>enable_regex = regex, expand_bitness = bitness, enable_negative_pattern = negative,
      include_ref = None, exclude_ref = None, exclude_over_include = False,
      enable_module_name_prefix_matching = False, filter_module_name = None,
      include_filter_exact = [], include_filter_regex = [],
      exclude_filter_exact = [], exclude_filter_regex = []\<rparr>"

definition Filter_init ::
  "regex_engine \<Rightarrow> list_store \<Rightarrow> nat \<Rightarrow> nat \<Rightarrow> bool \<Rightarrow> bool option \<Rightarrow> bool \<Rightarrow> bool \<Rightarrow>
     string option \<Rightarrow> bool \<Rightarrow> name_filter" where
  "Filter_init E h inc exc regex over negative prefix_matching m_name bitness =
     (let f = blank_filter regex bitness negative;
          f = set_include_filter E h inc f;
          f = set_exclude_filter E h exc f
      in f\<lparr>exclude_over_include :=
             (case over of None \<Rightarrow> DEFAULT_EXCLUDE_OVER_INCLUDE | Some b \<Rightarrow> b),
           enable_module_name_prefix_matching := prefix_matching,
           filter_module_name := m_name\<rparr>)"

definition Filter_ExpandBitness :: "name_filter \<Rightarrow> name_filter" where
  "Filter_ExpandBitness f =
     f\<lparr>include_filter_exact := ExpandBitness (include_filter_exact f),
       exclude_filter_exact := ExpandBitness (exclude_filter_exact f),
       expand_bitness := True\<rparr>"

definition IsIncludeFilterEmpty :: "name_filter \<Rightarrow> bool" where
  "IsIncludeFilterEmpty f \<longleftrightarrow> include_filter_exact f = [] \<and> include_filter_regex f = []"

definition Filter_ExpandAppendix ::
  "regex_engine \<Rightarrow> string list \<Rightarrow> string \<Rightarrow> list_store \<times> name_filter \<Rightarrow>
     (py_error \<times> list_store \<times> name_filter) + (list_store \<times> name_filter)" where
  "Filter_ExpandAppendix E appendix_list filter_pattern s =
     (let (h, f) = s in
      case ExpandAppendix E (include_filter h f) appendix_list filter_pattern of
        Inl e \<Rightarrow> Inl (e, h, f)
      | Inr inc \<Rightarrow>
          let (a, h1) = new_list inc h; f1 = set_include_filter E h1 a f in
          (case ExpandAppendix E (exclude_filter h1 f1) appendix_list filter_pattern of
             Inl e \<Rightarrow> Inl (e, h1, f1)
           | Inr exc \<Rightarrow>
               let (b, h2) = new_list exc h1 in Inr (h2, set_exclude_filter E h2 b f1)))"

definition in_include_filter :: "regex_engine \<Rightarrow> name_filter \<Rightarrow> string \<Rightarrow> py_error + bool" where
  "in_include_filter E f item =
     (if item \<in> set (include_filter_exact f) then Inr True
      else InRegexList E item (include_filter_regex f))"

definition in_exclude_filter :: "regex_engine \<Rightarrow> name_filter \<Rightarrow> string \<Rightarrow> py_error + bool" where
  "in_exclude_filter E f item =
     (if item \<in> set (exclude_filter_exact f) then Inr True
      else InRegexList E item (exclude_filter_regex f))"

definition ModuleNamePrefixMatchingCheck ::
  "name_filter \<Rightarrow> string \<Rightarrow> (string \<Rightarrow> py_error + bool) \<Rightarrow> py_error + bool" where
  "ModuleNamePrefixMatchingCheck f item check_function =
     bindR (check_function item) (\<lambda>res.
       if \<not> res \<and> enable_module_name_prefix_matching f
       then (case filter_module_name f of
               None \<Rightarrow> Inr res
             | Some m \<Rightarrow> if m = [] then Inr res else check_function (m @ ''.'' @ item))
       else Inr res)"

definition IsInIncludeFilter :: "regex_engine \<Rightarrow> name_filter \<Rightarrow> string \<Rightarrow> py_error + bool" where
  "IsInIncludeFilter E f item = ModuleNamePrefixMatchingCheck f item (in_include_filter E f)"

definition IsInExcludeFilter :: "regex_engine \<Rightarrow> name_filter \<Rightarrow> string \<Rightarrow> py_error + bool" where
  "IsInExcludeFilter E f item = ModuleNamePrefixMatchingCheck f item (in_exclude_filter E f)"

definition Filter_Filter :: "regex_engine \<Rightarrow> name_filter \<Rightarrow> string \<Rightarrow> py_error + bool" where
  "Filter_Filter E f item =
     (if exclude_over_include f then
        bindR (IsInExcludeFilter E f item) (\<lambda>excluded.
          if excluded then Inr False
          else if \<not> IsIncludeFilterEmpty f then IsInIncludeFilter E f item
          else Inr True)
      else if \<not> IsIncludeFilterEmpty f then IsInIncludeFilter E f item
      else bindR (IsInExcludeFilter E f item) (\<lambda>excluded. Inr (\<not> excluded)))"

text \<open>The patterns to add are already a list: a single string is wrapped by the caller.\<close>

definition add_to_include_filter ::
  "regex_engine \<Rightarrow> string list \<Rightarrow> bool \<Rightarrow> list_store \<times> name_filter \<Rightarrow> list_store \<times> name_filter" where
  "add_to_include_filter E pattern auto_refresh s =
     (let (h, f) = s;
          h' = (case include_ref f of None \<Rightarrow> h | Some a \<Rightarrow> extend_list a pattern h)
      in (h', if auto_refresh then refresh_filter E h' f else f))"

definition add_to_exclude_filter ::
  "regex_engine \<Rightarrow> string list \<Rightarrow> bool \<Rightarrow> list_store \<times> name_filter \<Rightarrow> list_store \<times> name_filter" where
  "add_to_exclude_filter E pattern auto_refresh s =
     (let (h, f) = s;
          h' = (case exclude_ref f of None \<Rightarrow> h | Some a \<Rightarrow> extend_list a pattern h)
      in (h', if auto_refresh then refresh_filter E h' f else f))"

subsection \<open>The list functions\<close>

lemma SplitNegativePattern_eq:
  "SplitNegativePattern xs =
     (filter (\<lambda>x. \<not> startswith x NEGATIVE_PATTERN_PREFIX) xs,
      map (drop (length NEGATIVE_PATTERN_PREFIX))
        (filter (\<lambda>x. startswith x NEGATIVE_PATTERN_PREFIX) xs))"
  by (induction xs) simp_all

text \<open>The name that a pattern without regular expression syntax stands for.\<close>

definition unescape :: "string \<Rightarrow> string" where
  "unescape item =
     (if startswith item REGEX_PREFIX_ESCAPE \<and> endswith item REGEX_SUFFIX
      then REGEX_PREFIX @ drop (length REGEX_PREFIX_ESCAPE) item else item)"

lemma SplitFilterList_eq:
  "SplitFilterList E xs =
     (map unescape (filter (\<lambda>x. \<not> IsRegexFilter x) xs),
      filter (re_compiles E) (map regex_body (filter IsRegexFilter xs)))"
  by (induction xs) (simp_all add: Let_def unescape_def)

lemma InRegexList_valid:
  "\<forall>r \<in> set rs. re_compiles E r \<Longrightarrow>
   InRegexList E item rs = Inr (\<exists>r \<in> set rs. re_match_end E r item = Some (length item))"
  by (induction rs) auto

text \<open>The names an exact item stands for once bitness is expanded.\<close>

definition bitness_names :: "string \<Rightarrow> string set" where
  "bitness_names item =
     (if has_bitness item then {item}
      else {item, item @ ''_'' @ SUFFIX_32BIT, item @ ''_'' @ SUFFIX_64BIT})"

lemma has_bitness_suffixed [simp]:
  "has_bitness (item @ CHR ''_'' # SUFFIX_32BIT)" "has_bitness (item @ CHR ''_'' # SUFFIX_64BIT)"
  using endswith_append [of "item @ ''_''"] by (simp_all add: has_bitness_def)

lemma suffix_distinct [simp]: "SUFFIX_32BIT \<noteq> SUFFIX_64BIT" "SUFFIX_64BIT \<noteq> SUFFIX_32BIT"
  by (simp_all add: filter_consts)

lemma set_expand_items: "set (expand_items xs) = (\<Union>x \<in> set xs. bitness_names x)"
  by (induction xs) (auto simp: bitness_names_def)

lemma set_ExpandBitness: "set (ExpandBitness xs) = (\<Union>x \<in> set xs. bitness_names x)"
  by (simp add: ExpandBitness_def set_expand_items)

lemma bitness_names_not_empty [simp]: "bitness_names x \<noteq> {}"
  by (simp add: bitness_names_def)

lemma ExpandBitness_Nil_iff [simp]: "ExpandBitness xs = [] \<longleftrightarrow> xs = []"
proof -
  have "ExpandBitness xs = [] \<longleftrightarrow> set (ExpandBitness xs) = {}" by simp
  also have "\<dots> \<longleftrightarrow> xs = []" by (simp add: set_ExpandBitness)
  finally show ?thesis .
qed

text \<open>A set of names that holds the two suffixed names with every unsuffixed one.\<close>

definition bitness_closed :: "string set \<Rightarrow> bool" where
  "bitness_closed S \<longleftrightarrow> (\<forall>x \<in> S. bitness_names x \<subseteq> S)"

lemma bitness_closed_insert: "has_bitness x \<Longrightarrow> bitness_closed S \<Longrightarrow> bitness_closed (insert x S)"
  by (auto simp: bitness_closed_def bitness_names_def)

lemma bitness_closed_names: "bitness_closed S \<Longrightarrow> bitness_closed (S \<union> bitness_names x)"
  using has_bitness_suffixed by (fastforce simp: bitness_closed_def bitness_names_def)

lemma expand_items_suffixed: "\<forall>x \<in> set xs. has_bitness x \<Longrightarrow> expand_items (xs @ ys) = xs @ expand_items ys"
  by (induction xs) auto

lemma keep_expand_idem:
  "bitness_closed S \<Longrightarrow>
   keep_unseen S (expand_items (keep_unseen S (expand_items xs))) = keep_unseen S (expand_items xs)"
proof (induction xs arbitrary: S)
  case (Cons x xs)
  let ?a = "x @ ''_'' @ SUFFIX_32BIT" and ?b = "x @ ''_'' @ SUFFIX_64BIT"
  show ?case
  proof (cases "has_bitness x")
    case True
    with Cons show ?thesis by (simp add: bitness_closed_insert)
  next
    case False
    show ?thesis
    proof (cases "x \<in> S")
      case True
      with False Cons.prems have "?a \<in> S" "?b \<in> S"
        by (auto simp: bitness_closed_def bitness_names_def)
      with True False Cons show ?thesis by simp
    next
      case new: False
      let ?S = "insert ?b (insert ?a (insert x S))"
      let ?ab = "keep_unseen (insert x S) [?a, ?b]"
      let ?K = "keep_unseen ?S (expand_items xs)"
      have closed: "bitness_closed ?S"
        using bitness_closed_names [OF Cons.prems, of x] False
        by (simp add: bitness_names_def insert_commute)
      have K: "keep_unseen S (expand_items (x # xs)) = x # ?ab @ ?K"
        using new False keep_unseen_append [of "insert x S" "[?a, ?b]" "expand_items xs"]
        by (simp add: insert_commute)
      have "expand_items (?ab @ ?K) = ?ab @ expand_items ?K"
        by (rule expand_items_suffixed) auto
      then have "keep_unseen S (expand_items (x # ?ab @ ?K)) =
          x # keep_unseen (insert x S) ([?a, ?b] @ ?ab @ expand_items ?K)"
        using new False by simp
      also have "\<dots> = x # ?ab @ keep_unseen ?S (?ab @ expand_items ?K)"
        by (subst keep_unseen_append) (simp add: insert_commute)
      also have "keep_unseen ?S (?ab @ expand_items ?K) = keep_unseen ?S (expand_items ?K)"
        by (rule keep_unseen_skip) auto
      also have "\<dots> = ?K"
        using Cons.IH [OF closed] by simp
      finally show ?thesis using K by simp
    qed
  qed
qed simp

lemma ExpandBitness_twice: "ExpandBitness (ExpandBitness xs) = ExpandBitness xs"
  using keep_expand_idem [of "{}" xs]
  by (simp add: ExpandBitness_def DeduplicateKeepOrder_def MergeUniqueKeepOrder_def bitness_closed_def)

lemma appendix_pos_ok: "\<exists>pos \<le> length item. appendix_pos item = Inr pos"
proof (cases "has_bitness item")
  case True
  then have len: "length SUFFIX_32BIT \<le> length item" and ne: "item \<noteq> []"
    by (auto simp: has_bitness_def endswith_def filter_consts)
  obtain c where "py_index item (int (length item - length SUFFIX_32BIT) - 1) = Inr c"
    using ne len py_index_ok [of "int (length item - length SUFFIX_32BIT) - 1" item]
    by (auto simp: filter_consts)
  with True show ?thesis by (auto simp: appendix_pos_def Let_def)
qed (simp add: appendix_pos_def)

lemma drop_suffix_pos:
  assumes "endswith item sfx" and "pos \<le> length item - length sfx"
  shows "endswith (take pos item @ app @ drop pos item) sfx"
proof -
  obtain t where t: "item = t @ sfx" using assms(1) by (auto simp: endswith_iff)
  with assms(2) have "drop pos item = drop pos t @ sfx" by simp
  then show ?thesis by (auto simp: endswith_iff)
qed

lemma appendix_pos_before_suffix:
  assumes "appendix_pos item = Inr pos" and "endswith item SUFFIX_32BIT \<or> endswith item SUFFIX_64BIT"
  shows "pos \<le> length item - 5"
  using assms by (auto simp: appendix_pos_def has_bitness_def Let_def py_res filter_consts split: if_splits)

lemma ExpandAppendix_mem:
  assumes "ExpandAppendix E items apps pat = Inr out" and "y \<in> set out"
  shows "\<exists>x \<in> set items. y = x \<or>
    (\<exists>pos app. appendix_pos x = Inr pos \<and> app \<in> set apps \<and> y = take pos x @ app @ drop pos x)"
  using assms
proof (induction items arbitrary: out)
  case (Cons x xs)
  then show ?case
    by (fastforce simp: py_res split: if_splits)
qed simp

lemma ExpandAppendix_total:
  "re_compiles E pat \<Longrightarrow> \<exists>out. ExpandAppendix E items apps pat = Inr out"
proof (induction items)
  case (Cons x xs)
  obtain pos where "appendix_pos x = Inr pos" using appendix_pos_ok by blast
  with Cons show ?case by auto
qed simp

subsection \<open>What a pattern list means\<close>

text \<open>
  The meaning of one pattern, without the derived lists: a regular expression in \<open>r(...)\<close> has to
  compile and to match the whole name; any other pattern is a name, unescaped, with its bitness
  variants when these are expanded.
\<close>

definition pattern_matches :: "regex_engine \<Rightarrow> bool \<Rightarrow> bool \<Rightarrow> string \<Rightarrow> string \<Rightarrow> bool" where
  "pattern_matches E regex bitness pat item \<longleftrightarrow>
     (if regex \<and> IsRegexFilter pat
      then re_compiles E (regex_body pat) \<and> re_match_end E (regex_body pat) item = Some (length item)
      else let n = (if regex then unescape pat else pat)
           in item \<in> (if bitness then bitness_names n else {n}))"

definition positive_patterns :: "bool \<Rightarrow> string list \<Rightarrow> string list" where
  "positive_patterns negative inc =
     (if negative then filter (\<lambda>x. \<not> startswith x NEGATIVE_PATTERN_PREFIX) inc else inc)"

definition negative_patterns :: "bool \<Rightarrow> string list \<Rightarrow> string list" where
  "negative_patterns negative inc =
     (if negative then map (drop 1) (filter (\<lambda>x. startswith x NEGATIVE_PATTERN_PREFIX) inc) else [])"

definition any_match :: "regex_engine \<Rightarrow> bool \<Rightarrow> bool \<Rightarrow> string list \<Rightarrow> string \<Rightarrow> bool" where
  "any_match E regex bitness pats item \<longleftrightarrow> (\<exists>pat \<in> set pats. pattern_matches E regex bitness pat item)"

definition all_invalid :: "regex_engine \<Rightarrow> bool \<Rightarrow> string list \<Rightarrow> bool" where
  "all_invalid E regex pats \<longleftrightarrow>
     (\<forall>pat \<in> set pats. regex \<and> IsRegexFilter pat \<and> \<not> re_compiles E (regex_body pat))"

definition with_prefix :: "bool \<Rightarrow> string option \<Rightarrow> (string \<Rightarrow> bool) \<Rightarrow> string \<Rightarrow> bool" where
  "with_prefix matching m P item \<longleftrightarrow>
     P item \<or> (matching \<and> (case m of None \<Rightarrow> False | Some n \<Rightarrow> n \<noteq> [] \<and> P (n @ ''.'' @ item)))"

text \<open>The exact and the regex list that \<open>refresh_filter\<close> derives from a pattern list.\<close>

definition exact_part :: "bool \<Rightarrow> bool \<Rightarrow> string list \<Rightarrow> string list" where
  "exact_part regex bitness pats =
     (let e = (if regex then map unescape (filter (\<lambda>x. \<not> IsRegexFilter x) pats) else pats)
      in if bitness then ExpandBitness e else e)"

definition regex_part :: "regex_engine \<Rightarrow> bool \<Rightarrow> string list \<Rightarrow> string list" where
  "regex_part E regex pats =
     (if regex then filter (re_compiles E) (map regex_body (filter IsRegexFilter pats)) else [])"

lemma derived_lists_match:
  "(if item \<in> set (exact_part regex bitness pats) then Inr True
    else InRegexList E item (regex_part E regex pats)) = Inr (any_match E regex bitness pats item)"
proof -
  have "InRegexList E item (regex_part E regex pats) =
      Inr (\<exists>r \<in> set (regex_part E regex pats). re_match_end E r item = Some (length item))"
    by (rule InRegexList_valid) (simp add: regex_part_def)
  then show ?thesis
    by (auto simp: any_match_def pattern_matches_def exact_part_def regex_part_def Let_def
        set_ExpandBitness split: if_splits)
qed

lemma derived_lists_empty:
  "exact_part regex bitness pats = [] \<and> regex_part E regex pats = [] \<longleftrightarrow> all_invalid E regex pats"
  by (auto simp: exact_part_def regex_part_def all_invalid_def Let_def filter_empty_conv)

lemma refresh_filter_lists:
  assumes "enable_regex f \<or> (include_filter_regex f = [] \<and> exclude_filter_regex f = [])"
  shows "refresh_filter E h f = f\<lparr>
      include_filter_exact := exact_part (enable_regex f) (expand_bitness f)
        (positive_patterns (enable_negative_pattern f) (include_filter h f)),
      include_filter_regex := regex_part E (enable_regex f)
        (positive_patterns (enable_negative_pattern f) (include_filter h f)),
      exclude_filter_exact := exact_part (enable_regex f) (expand_bitness f)
        (exclude_filter h f @ negative_patterns (enable_negative_pattern f) (include_filter h f)),
      exclude_filter_regex := regex_part E (enable_regex f)
        (exclude_filter h f @ negative_patterns (enable_negative_pattern f) (include_filter h f))\<rparr>"
proof -
  let ?inc = "include_filter h f" and ?exc = "exclude_filter h f"
  have neg: "(if enable_negative_pattern f
       then let (inc, neg) = SplitNegativePattern ?inc in (inc, ?exc @ neg) else (?inc, ?exc)) =
     (positive_patterns (enable_negative_pattern f) ?inc,
      ?exc @ negative_patterns (enable_negative_pattern f) ?inc)"
    by (simp add: SplitNegativePattern_eq positive_patterns_def negative_patterns_def
        NEGATIVE_PATTERN_PREFIX_def)
  show ?thesis
    using assms unfolding refresh_filter_def neg
    by (cases f; cases "enable_regex f"; cases "expand_bitness f")
       (simp_all add: SplitFilterList_eq exact_part_def regex_part_def)
qed

lemma Filter_init_lists:
  "Filter_init E h inc exc regex over negative matching m bitness =
     \<lparr>enable_regex = regex, expand_bitness = bitness, enable_negative_pattern = negative,
      include_ref = Some inc, exclude_ref = Some exc,
      exclude_over_include = (case over of None \<Rightarrow> False | Some b \<Rightarrow> b),
      enable_module_name_prefix_matching = matching, filter_module_name = m,
      include_filter_exact = exact_part regex bitness (positive_patterns negative (cells h inc)),
      include_filter_regex = regex_part E regex (positive_patterns negative (cells h inc)),
      exclude_filter_exact = exact_part regex bitness
        (cells h exc @ negative_patterns negative (cells h inc)),
      exclude_filter_regex = regex_part E regex
        (cells h exc @ negative_patterns negative (cells h inc))\<rparr>"
proof (cases regex)
  case True
  then show ?thesis
    by (simp add: Filter_init_def blank_filter_def set_include_filter_def set_exclude_filter_def
        refresh_filter_lists include_filter_def exclude_filter_def DEFAULT_EXCLUDE_OVER_INCLUDE_def
        split: option.split)
next
  case False
  then have "regex_part E regex pats = []" for pats by (simp add: regex_part_def)
  with False show ?thesis
    by (simp add: Filter_init_def blank_filter_def set_include_filter_def set_exclude_filter_def
        refresh_filter_lists include_filter_def exclude_filter_def DEFAULT_EXCLUDE_OVER_INCLUDE_def
        split: option.split)
qed

lemma Filter_init_fields [simp]:
  "exclude_over_include (Filter_init E h inc exc regex over negative matching m bitness)
     \<longleftrightarrow> over = Some True"
  "include_ref (Filter_init E h inc exc regex over negative matching m bitness) = Some inc"
  by (auto simp: Filter_init_lists split: option.split)

lemma prefix_check_total:
  "(\<And>x. chk x = Inr (P x)) \<Longrightarrow>
   ModuleNamePrefixMatchingCheck f item chk =
     Inr (with_prefix (enable_module_name_prefix_matching f) (filter_module_name f) P item)"
  by (auto simp: ModuleNamePrefixMatchingCheck_def with_prefix_def split: option.split)

lemma Filter_init_include:
  "IsInIncludeFilter E (Filter_init E h inc exc regex over negative matching m bitness) item =
     Inr (with_prefix matching m (any_match E regex bitness (positive_patterns negative (cells h inc))) item)"
proof -
  let ?f = "Filter_init E h inc exc regex over negative matching m bitness"
  have "in_include_filter E ?f x =
      Inr (any_match E regex bitness (positive_patterns negative (cells h inc)) x)" for x
    using derived_lists_match [of x regex bitness "positive_patterns negative (cells h inc)" E]
    by (simp add: in_include_filter_def Filter_init_lists split: if_splits)
  from prefix_check_total [of "in_include_filter E ?f", OF this] show ?thesis
    by (simp add: IsInIncludeFilter_def Filter_init_lists)
qed

lemma Filter_init_exclude:
  "IsInExcludeFilter E (Filter_init E h inc exc regex over negative matching m bitness) item =
     Inr (with_prefix matching m
       (any_match E regex bitness (cells h exc @ negative_patterns negative (cells h inc))) item)"
proof -
  let ?f = "Filter_init E h inc exc regex over negative matching m bitness"
  let ?pats = "cells h exc @ negative_patterns negative (cells h inc)"
  have "in_exclude_filter E ?f x = Inr (any_match E regex bitness ?pats x)" for x
    using derived_lists_match [of x regex bitness ?pats E]
    by (simp add: in_exclude_filter_def Filter_init_lists split: if_splits)
  from prefix_check_total [of "in_exclude_filter E ?f", OF this] show ?thesis
    by (simp add: IsInExcludeFilter_def Filter_init_lists)
qed

lemma Filter_init_empty:
  "IsIncludeFilterEmpty (Filter_init E h inc exc regex over negative matching m bitness) \<longleftrightarrow>
     all_invalid E regex (positive_patterns negative (cells h inc))"
  by (simp add: IsIncludeFilterEmpty_def Filter_init_lists derived_lists_empty)

subsection \<open>The life of a filter\<close>

text \<open>
  Every state a \<open>Filter\<close> object can be in: built by the constructor over some store, then changed
  by its own methods, while other holders of the lists change the store arbitrarily.
\<close>

inductive filter_reach :: "regex_engine \<Rightarrow> list_store \<times> name_filter \<Rightarrow> bool" for E where
  reach_init: "filter_reach E (h, Filter_init E h inc exc regex over negative matching m bitness)"
| reach_store: "filter_reach E (h, f) \<Longrightarrow> filter_reach E (h', f)"
| reach_refresh: "filter_reach E (h, f) \<Longrightarrow> filter_reach E (h, refresh_filter E h f)"
| reach_set_include: "filter_reach E (h, f) \<Longrightarrow> filter_reach E (h, set_include_filter E h a f)"
| reach_set_exclude: "filter_reach E (h, f) \<Longrightarrow> filter_reach E (h, set_exclude_filter E h a f)"
| reach_bitness: "filter_reach E (h, f) \<Longrightarrow> filter_reach E (h, Filter_ExpandBitness f)"
| reach_appendix: "filter_reach E s \<Longrightarrow> Filter_ExpandAppendix E apps pat s = Inr s' \<Longrightarrow> filter_reach E s'"
| reach_appendix_raise: "filter_reach E s \<Longrightarrow> Filter_ExpandAppendix E apps pat s = Inl (e, s') \<Longrightarrow>
     filter_reach E s'"
| reach_add_include: "filter_reach E s \<Longrightarrow> filter_reach E (add_to_include_filter E pats auto s)"
| reach_add_exclude: "filter_reach E s \<Longrightarrow> filter_reach E (add_to_exclude_filter E pats auto s)"

text \<open>
  The invariant: the regex lists hold patterns that compile, and they are empty when regular
  expressions are disabled.
\<close>

definition filter_wf :: "regex_engine \<Rightarrow> name_filter \<Rightarrow> bool" where
  "filter_wf E f \<longleftrightarrow>
     (\<forall>r \<in> set (include_filter_regex f) \<union> set (exclude_filter_regex f). re_compiles E r) \<and>
     (enable_regex f \<or> (include_filter_regex f = [] \<and> exclude_filter_regex f = []))"

lemma regex_part_wf [simp]:
  "\<forall>r \<in> set (regex_part E regex pats). re_compiles E r"
  "regex_part E False pats = []"
  by (simp_all add: regex_part_def)

lemma filter_wf_ref [simp]:
  "filter_wf E (f\<lparr>include_ref := a\<rparr>) = filter_wf E f"
  "filter_wf E (f\<lparr>exclude_ref := a\<rparr>) = filter_wf E f"
  by (simp_all add: filter_wf_def)

lemma refresh_wf: "filter_wf E f \<Longrightarrow> filter_wf E (refresh_filter E h f)"
  by (cases "enable_regex f") (simp_all add: filter_wf_def ball_Un refresh_filter_lists)

lemma set_filter_wf:
  "filter_wf E f \<Longrightarrow> filter_wf E (set_include_filter E h a f)"
  "filter_wf E f \<Longrightarrow> filter_wf E (set_exclude_filter E h a f)"
  unfolding set_include_filter_def set_exclude_filter_def
  by (simp_all add: refresh_wf)

lemma init_wf: "filter_wf E (Filter_init E h inc exc regex over negative matching m bitness)"
  by (cases regex) (simp_all add: Filter_init_lists filter_wf_def ball_Un)

lemma add_wf:
  "filter_wf E (snd s) \<Longrightarrow> filter_wf E (snd (add_to_include_filter E pats auto s))"
  "filter_wf E (snd s) \<Longrightarrow> filter_wf E (snd (add_to_exclude_filter E pats auto s))"
  by (auto simp: add_to_include_filter_def add_to_exclude_filter_def refresh_wf Let_def
      split: prod.split)

lemma appendix_wf:
  "Filter_ExpandAppendix E apps pat s = Inr s' \<Longrightarrow> filter_wf E (snd s) \<Longrightarrow> filter_wf E (snd s')"
  "Filter_ExpandAppendix E apps pat s = Inl (e, s') \<Longrightarrow> filter_wf E (snd s) \<Longrightarrow> filter_wf E (snd s')"
  by (auto simp: Filter_ExpandAppendix_def new_list_def set_filter_wf Let_def
      split: prod.splits sum.splits)

lemma filter_reach_wf: "filter_reach E s \<Longrightarrow> filter_wf E (snd s)"
proof (induction rule: filter_reach.induct)
  case (reach_bitness h f)
  then show ?case by (simp add: filter_wf_def Filter_ExpandBitness_def)
qed (simp_all add: init_wf refresh_wf set_filter_wf add_wf appendix_wf)

lemma wf_total:
  assumes "filter_wf E f"
  shows "\<exists>b. in_include_filter E f item = Inr b" "\<exists>b. in_exclude_filter E f item = Inr b"
  using assms InRegexList_valid [of "include_filter_regex f" E]
    InRegexList_valid [of "exclude_filter_regex f" E]
  by (auto simp: filter_wf_def in_include_filter_def in_exclude_filter_def)

lemma prefix_check_ok:
  "(\<And>x. \<exists>b. chk x = Inr b) \<Longrightarrow> \<exists>b. ModuleNamePrefixMatchingCheck f item chk = Inr b"
proof -
  assume "\<And>x. \<exists>b. chk x = Inr b"
  then obtain P where "\<And>x. chk x = Inr (P x)" by metis
  from prefix_check_total [of chk, OF this] show ?thesis by blast
qed

lemma wf_Filter_ok:
  assumes "filter_wf E f"
  shows "\<exists>b. Filter_Filter E f item = Inr b"
proof -
  obtain i x where "IsInIncludeFilter E f item = Inr i" "IsInExcludeFilter E f item = Inr x"
    unfolding IsInIncludeFilter_def IsInExcludeFilter_def
    using prefix_check_ok wf_total [OF assms] by metis
  then show ?thesis by (auto simp: Filter_Filter_def)
qed

subsection \<open>Selecting tests to retry\<close>

text \<open>
  The contract the test runner relies on when it re-runs failed tests: a filter built from a list of
  plain names selects exactly these names, but one built from no name selects everything.
\<close>

locale name_selection =
  fixes build :: "string list \<Rightarrow> 'f"
    and accepts :: "'f \<Rightarrow> string \<Rightarrow> bool"
    and plain :: "string \<Rightarrow> bool"
  assumes accepts_build:
      "names \<noteq> [] \<Longrightarrow> (\<And>n. n \<in> set names \<Longrightarrow> plain n) \<Longrightarrow> accepts (build names) x \<longleftrightarrow> x \<in> set names"
    and accepts_none: "accepts (build []) x"
begin

lemma select_exact:
  assumes "names \<noteq> []" and "\<And>n. n \<in> set names \<Longrightarrow> plain n"
  shows "filter (accepts (build names)) ts = filter (\<lambda>t. t \<in> set names) ts"
  by (rule filter_cong) (simp_all add: accepts_build [OF assms])

lemma select_all: "filter (accepts (build [])) ts = ts"
  by (simp add: accepts_none)

lemma select_mono:
  assumes "names \<noteq> []" and "set names \<subseteq> set names'" and "\<And>n. n \<in> set names' \<Longrightarrow> plain n"
  shows "accepts (build names) x \<Longrightarrow> accepts (build names') x"
proof -
  have "names' \<noteq> []" using assms(1,2) by (cases names) auto
  then show "accepts (build names) x \<Longrightarrow> accepts (build names') x"
    using assms by (simp add: accepts_build subset_iff)
qed

end

definition plain_name :: "string \<Rightarrow> bool" where
  "plain_name n \<longleftrightarrow> \<not> startswith n NEGATIVE_PATTERN_PREFIX \<and> \<not> IsRegexFilter n \<and> unescape n = n"

text \<open>\<open>filter_utils.Filter(include_filter=names)\<close>: every other argument is the default.\<close>

definition retry_filter :: "regex_engine \<Rightarrow> string list \<Rightarrow> name_filter" where
  "retry_filter E names =
     (let (a, h) = new_list names module_store
      in Filter_init E h a DEFAULT_EXCLUDE True None True False None False)"

definition filter_accepts :: "regex_engine \<Rightarrow> name_filter \<Rightarrow> string \<Rightarrow> bool" where
  "filter_accepts E f item \<longleftrightarrow> Filter_Filter E f item = Inr True"

lemma retry_filter_cells:
  "retry_filter E names =
     Filter_init E \<lparr>cells = (\<lambda>_. [])(2 := names), next_addr = 3\<rparr> 2 1 True None True False None False"
  by (simp add: retry_filter_def new_list_def module_store_def DEFAULT_EXCLUDE_def numeral_2_eq_2
      numeral_3_eq_3)

interpretation retry: name_selection "retry_filter E" "filter_accepts E" plain_name for E
proof unfold_locales
  fix names x
  assume ne: "names \<noteq> []" and plain: "\<And>n. n \<in> set names \<Longrightarrow> plain_name n"
  have pos: "positive_patterns True names = names"
    unfolding positive_patterns_def using plain by (simp add: plain_name_def filter_id_conv)
  have "any_match E True False names x \<longleftrightarrow> x \<in> set names"
    using plain by (auto simp: any_match_def pattern_matches_def plain_name_def Let_def)
  moreover have "\<not> all_invalid E True names"
    using ne plain by (cases names) (auto simp: all_invalid_def plain_name_def)
  ultimately show "filter_accepts E (retry_filter E names) x \<longleftrightarrow> x \<in> set names"
    unfolding filter_accepts_def retry_filter_cells Filter_Filter_def Filter_init_include Filter_init_empty
    by (simp add: pos with_prefix_def)
next
  fix x
  show "filter_accepts E (retry_filter E []) x"
    unfolding filter_accepts_def retry_filter_cells Filter_Filter_def Filter_init_include
      Filter_init_exclude Filter_init_empty
    by (simp add: with_prefix_def any_match_def positive_patterns_def
        negative_patterns_def all_invalid_def)
qed

subsection \<open>Properties\<close>

text \<open>(C8) The decision procedure of \<open>Filter.Filter\<close> on a filter built by the constructor is the
  documented rule over the pattern lists themselves: with \<open>exclude_over_include\<close> a name passes iff
  no exclude pattern (the given ones and the negated include ones) matches it and the include list
  is void or matches it; otherwise a non-void include list alone decides, and a void one leaves the
  decision to the exclude list. An include list whose patterns are all invalid regular expressions
  counts as void.\<close>

theorem Filter_decision:
  "Filter_Filter E (Filter_init E h inc exc regex over negative matching m bitness) item =
     Inr (let pos = positive_patterns negative (cells h inc);
              neg = cells h exc @ negative_patterns negative (cells h inc);
              included = with_prefix matching m (any_match E regex bitness pos) item;
              excluded = with_prefix matching m (any_match E regex bitness neg) item;
              void = all_invalid E regex pos
          in if over = Some True then \<not> excluded \<and> (void \<or> included)
             else if void then \<not> excluded else included)"
  by (auto simp: Filter_Filter_def Filter_init_include Filter_init_exclude Filter_init_empty Let_def)

text \<open>In every state a filter object can reach, however its lists are modified meanwhile,
  \<open>Filter\<close> returns a verdict: it never raises on a pattern that does not compile.\<close>

theorem Filter_never_raises: "filter_reach E (h, f) \<Longrightarrow> \<exists>b. Filter_Filter E f item = Inr b"
  using filter_reach_wf [of E "(h, f)"] wf_Filter_ok by simp

definition example_engine :: regex_engine where
  "example_engine = \<lparr>re_compiles = (\<lambda>p. p \<noteq> ''(''), re_match_end = (\<lambda>p s. if p = s then Some (length s) else None)\<rparr>"

theorem Filter_never_raises_witness:
  "filter_reach example_engine
     (module_store, Filter_init example_engine module_store 0 1 True None True False None True) \<and>
   (\<exists>b. Filter_Filter example_engine
     (Filter_init example_engine module_store 0 1 True None True False None True) ''t'' = Inr b)"
proof
  show r: "filter_reach example_engine
     (module_store, Filter_init example_engine module_store 0 1 True None True False None True)"
    by (rule filter_reach.reach_init)
  show "\<exists>b. Filter_Filter example_engine
     (Filter_init example_engine module_store 0 1 True None True False None True) ''t'' = Inr b"
    by (rule Filter_never_raises [OF r])
qed

text \<open>Expanding bitness is safe if called several times: the second call changes nothing, and
  the expanded list holds each item once, with its two suffixed names when it has no bitness.\<close>

theorem ExpandBitness_idempotent:
  "ExpandBitness (ExpandBitness xs) = ExpandBitness xs \<and> distinct (ExpandBitness xs) \<and>
   set (ExpandBitness xs) = (\<Union>x \<in> set xs. bitness_names x)"
  by (simp add: ExpandBitness_twice set_ExpandBitness) (simp add: ExpandBitness_def)

text \<open>\<open>ExpandAppendix\<close> keeps the bitness information at the end: every item it derives from an
  item with a bitness suffix still ends with that suffix, whatever the appendix.\<close>

theorem ExpandAppendix_keeps_bitness:
  assumes "ExpandAppendix E items apps pat = Inr out"
    and "\<And>x. x \<in> set items \<Longrightarrow> endswith x sfx"
    and "sfx = SUFFIX_32BIT \<or> sfx = SUFFIX_64BIT"
    and "y \<in> set out"
  shows "endswith y sfx"
proof -
  obtain x where x: "x \<in> set items" and y: "y = x \<or>
      (\<exists>pos app. appendix_pos x = Inr pos \<and> app \<in> set apps \<and> y = take pos x @ app @ drop pos x)"
    using ExpandAppendix_mem [OF assms(1,4)] by blast
  from x assms(2) have sx: "endswith x sfx" by blast
  have "length sfx = 5" using assms(3) by (auto simp: filter_consts)
  with y sx assms(3) show ?thesis
    using appendix_pos_before_suffix [of x] drop_suffix_pos [OF sx] by metis
qed

theorem ExpandAppendix_keeps_bitness_witness:
  "endswith ''b_test_32bit'' SUFFIX_32BIT"
proof (rule ExpandAppendix_keeps_bitness [of example_engine "[''b_32bit'']" "[''_test'']" "''x''" "[''b_test_32bit'']"])
  show "ExpandAppendix example_engine [''b_32bit''] [''_test''] ''x'' = Inr [''b_test_32bit'']"
    by (simp add: example_engine_def IsRegexFilter_def startswith_def endswith_def filter_consts
        appendix_pos_def has_bitness_def py_index_def)
  show "\<And>x. x \<in> set [''b_32bit''] \<Longrightarrow> endswith x SUFFIX_32BIT"
    by (simp add: endswith_def filter_consts)
qed simp_all

text \<open>Two \<open>Filter\<close> objects built with the default arguments share their include list: a pattern
  added to the first is in the include filter of one built afterwards, which then rejects the names
  the pattern does not match. The default arguments of the constructor are mutable lists.\<close>

theorem default_arguments_shared:
  "let f = Filter_init E module_store DEFAULT_INCLUDE DEFAULT_EXCLUDE True None True False None False;
       (h, f') = add_to_include_filter E [''a''] True (module_store, f);
       g = Filter_init E h DEFAULT_INCLUDE DEFAULT_EXCLUDE True None True False None False
   in include_filter h g = [''a''] \<and> Filter_Filter E g ''b'' = Inr False"
proof -
  have g: "Filter_Filter E (Filter_init E h 0 1 True None True False None False) ''b'' = Inr False"
    if "cells h 0 = [''a'']" "cells h 1 = []" for h
    using that unfolding Filter_Filter_def Filter_init_include Filter_init_empty
    by (auto simp: with_prefix_def any_match_def pattern_matches_def all_invalid_def
        positive_patterns_def negative_patterns_def IsRegexFilter_def unescape_def startswith_def
        filter_consts)
  have "fst (add_to_include_filter E [''a''] True
      (module_store, Filter_init E module_store 0 1 True None True False None False)) =
      extend_list 0 [''a''] module_store"
    by (simp add: add_to_include_filter_def Let_def)
  then show ?thesis
    using g [of "extend_list 0 [''a''] module_store"]
    by (simp add: Let_def split_beta DEFAULT_INCLUDE_def DEFAULT_EXCLUDE_def include_filter_def
        extend_list_def module_store_def)
qed

end
