(* ===== verification/Base_Test.thy ===== *)
theory Base_Test
  imports Py_Actions Records Test_Filter
begin

section \<open>The test class (runners/host/base\_test.py)\<close>

text \<open>
  \<open>BaseTestClass\<close>: parameters, filters, the execution of one test with its set up, tear down and
  procedure functions, generated tests, the class run with its set up retries, and the retry of
  failed tests.

  The object's attributes are the record \<open>base_test\<close>. What a test script or the device layer
  supplies is the record \<open>env\<close>: the hooks a subclass overrides (\<open>setUp\<close>, \<open>tearDown\<close>, \<open>setUpClass\<close>,
  \<open>onFail\<close>, \<dots>), the test functions, the calls of the devices, the web and the systrace features.
  Each is an action on the whole object, so it may change any attribute; \<open>world\<close> is state of its own.
  The records of the tests being executed are objects that a hook can reach through
  \<open>_current_record\<close>, so they live in the store \<open>live\<close> under their identity.
\<close>

subsection \<open>The object and its environment\<close>

record 'w base_test =
  module_nm :: string
  bt_results :: test_result
  live :: "nat \<Rightarrow> test_record"
  current_record :: "nat option"
  next_oid :: nat
  ticks :: nat
  is_final_run :: bool
  test_filter :: name_filter
  test_filter_retry :: "name_filter option"
  reason_to_skip_all_tests :: "string option"
  user_params :: pyval
  abi_bitness :: "string option"
  skip_on_32bit_abi :: bool
  skip_on_64bit_abi :: bool
  run_32bit_on_64bit_abi :: bool
  max_retry_count :: int
  collect_tests_only :: bool
  run_as_vts_self_test :: bool
  bug_report_on_failure :: bool
  logcat_on_failure :: bool
  web_enabled :: bool
  systrace_enabled :: bool
  tests_attr :: "string list"
  world :: 'w

datatype web_code =
    TEST_CASE_RESULT_PASS
  | TEST_CASE_RESULT_FAIL
  | TEST_CASE_RESULT_SKIP
  | TEST_CASE_RESULT_EXCEPTION

type_synonym ('w, 'a) bt_action = "('w base_test, 'a) action"

record 'w env =
  engine :: regex_engine
  str_exc :: "exc \<Rightarrow> string"
  str_val :: "pyval \<Rightarrow> string"
  clk :: "nat \<Rightarrow> int"
  devices :: "nat list"
  h_setUpClass :: "('w, pyval) bt_action"
  h_tearDownClass :: "('w, pyval) bt_action"
  h_setUp :: "('w, pyval) bt_action"
  h_tearDown :: "('w, pyval) bt_action"
  h_onFail :: "string \<Rightarrow> int option \<Rightarrow> ('w, pyval) bt_action"
  h_onPass :: "string \<Rightarrow> int option \<Rightarrow> ('w, pyval) bt_action"
  h_onSkip :: "string \<Rightarrow> int option \<Rightarrow> ('w, pyval) bt_action"
  h_onSilent :: "string \<Rightarrow> int option \<Rightarrow> ('w, pyval) bt_action"
  h_onException :: "string \<Rightarrow> int option \<Rightarrow> ('w, pyval) bt_action"
  h_Heal :: "bool \<Rightarrow> ('w, bool) bt_action"
  h_DumpBugReport :: "string \<Rightarrow> ('w, pyval) bt_action"
  h_DumpLogcat :: "string \<Rightarrow> ('w, pyval) bt_action"
  h_AddTestReport :: "string \<Rightarrow> ('w, pyval) bt_action"
  h_SetTestResult :: "web_code option \<Rightarrow> ('w, pyval) bt_action"
  h_GetTestModuleKeys :: "('w, string \<times> int) bt_action"
  h_StartSystrace :: "('w, pyval) bt_action"
  h_ProcessSystrace :: "string \<Rightarrow> ('w, pyval) bt_action"
  h_resetTimeout :: "('w, pyval) bt_action"
  h_MeetFirstApiLevel :: "('w, bool) bt_action"
  h_CheckFeature :: "nat \<Rightarrow> ('w, bool) bt_action"
  h_device_stop :: "nat \<Rightarrow> bool \<Rightarrow> ('w, pyval) bt_action"
  h_device_start :: "nat \<Rightarrow> ('w, pyval) bt_action"
  h_waitForProcessStop :: "nat \<Rightarrow> pyval \<Rightarrow> ('w, pyval) bt_action"
  h_stopServices :: "nat \<Rightarrow> ('w, pyval) bt_action"
  h_startServices :: "nat \<Rightarrow> ('w, pyval) bt_action"
  h_DisableShell :: "nat \<Rightarrow> ('w, pyval) bt_action"
  h_write_retry_log :: "string list \<Rightarrow> ('w, pyval) bt_action"

subsection \<open>User parameters\<close>

text \<open>\<open>param in obj\<close> and \<open>obj[param]\<close> for a string \<open>param\<close>.\<close>

definition py_contains :: "pyval \<Rightarrow> string \<Rightarrow> py_error + bool" where
  "py_contains obj param = (case obj of
     PDict d \<Rightarrow> Inr (map_of d param \<noteq> None)
   | PList l \<Rightarrow> Inr (PStr param \<in> set l)
   | PStr s \<Rightarrow> Inr (str_find s param \<noteq> None)
   | _ \<Rightarrow> Inl TypeError)"

definition py_getitem :: "pyval \<Rightarrow> string \<Rightarrow> py_error + pyval" where
  "py_getitem obj param = (case obj of
     PDict d \<Rightarrow> (case map_of d param of None \<Rightarrow> Inl KeyError | Some v \<Rightarrow> Inr v)
   | _ \<Rightarrow> Inl TypeError)"

datatype param_name = OneName string | NamePath "string list"

definition missing_param_msg :: "(pyval \<Rightarrow> string) \<Rightarrow> string list \<Rightarrow> pyval \<Rightarrow> string" where
  "missing_param_msg str_fn names params =
     ''Missing user param '' @ [CHR 0x27] @ str_fn (PList (map PStr names)) @ [CHR 0x27] @
     '' in test configuration.'' @ [CHR 0x0A] @ ''User params: '' @ str_fn params"

fun follow_path ::
  "string \<Rightarrow> bool \<Rightarrow> pyval \<Rightarrow> pyval \<Rightarrow> string list \<Rightarrow> exc + pyval" where
  "follow_path msg error_if_not_found default_value curr_obj [] = Inr curr_obj"
| "follow_path msg error_if_not_found default_value curr_obj (param # rest) =
     (case py_contains curr_obj param of
        Inl e \<Rightarrow> Inl (Builtin e)
      | Inr False \<Rightarrow>
          if error_if_not_found then Inl (BaseTestError msg) else Inr default_value
      | Inr True \<Rightarrow>
          (case py_getitem curr_obj param of
             Inl e \<Rightarrow> Inl (Builtin e)
           | Inr next_obj \<Rightarrow> follow_path msg error_if_not_found default_value next_obj rest))"

definition getUserParam ::
  "(pyval \<Rightarrow> string) \<Rightarrow> pyval \<Rightarrow> param_name \<Rightarrow> bool \<Rightarrow> pyval \<Rightarrow> bool \<Rightarrow> exc + pyval" where
  "getUserParam str_fn params param_name error_if_not_found default_value to_str =
     (let ToStr = (\<lambda>v. if to_str \<and> v \<noteq> PNone then PStr (str_fn v) else v);
          names = (case param_name of OneName n \<Rightarrow> [n] | NamePath ns \<Rightarrow> ns) in
      if param_name = OneName [] \<or> param_name = NamePath [] then
        (if error_if_not_found then Inl (BaseTestError ''empty param_name provided'')
         else Inr (ToStr default_value))
      else bindR (follow_path (missing_param_msg str_fn names params) error_if_not_found default_value
                    params names)
             (\<lambda>v. Inr (ToStr v)))"

definition getUserConfig ::
  "(pyval \<Rightarrow> string) \<Rightarrow> pyval \<Rightarrow> string \<Rightarrow> string \<Rightarrow> pyval \<Rightarrow> bool \<Rightarrow> bool \<Rightarrow> exc + pyval" where
  "getUserConfig str_fn params config_type key default_value error_if_not_found to_str =
     bindR (getUserParam str_fn params (OneName config_type) False PNone False) (\<lambda>dic.
       bindR (if dic = PNone then Inr False
              else case py_contains dic key of Inl e \<Rightarrow> Inl (Builtin e) | Inr b \<Rightarrow> Inr b) (\<lambda>found.
         if \<not> found then
           (if error_if_not_found then
              Inl (BaseTestError (''Config key '' @ key @ '' not found in user config type '' @ config_type @
                ''.'' @ [CHR 0x0A] @ ''User params: '' @ str_fn params))
            else Inr default_value)
         else (case py_getitem dic key of
                 Inl e \<Rightarrow> Inl (Builtin e)
               | Inr v \<Rightarrow> Inr (if \<not> to_str then v else PStr (str_fn v)))))"

definition getUserConfigStr :: "(pyval \<Rightarrow> string) \<Rightarrow> pyval \<Rightarrow> string \<Rightarrow> pyval \<Rightarrow> bool \<Rightarrow> exc + pyval" where
  "getUserConfigStr str_fn params key default_value error_if_not_found =
     getUserConfig str_fn params ''CONFIG_STR'' key default_value error_if_not_found True"

definition getUserConfigInt :: "(pyval \<Rightarrow> string) \<Rightarrow> pyval \<Rightarrow> string \<Rightarrow> pyval \<Rightarrow> bool \<Rightarrow> bool \<Rightarrow> exc + pyval" where
  "getUserConfigInt str_fn params key default_value error_if_not_found to_str =
     getUserConfig str_fn params ''CONFIG_INT'' key default_value error_if_not_found to_str"

definition getUserConfigBool :: "(pyval \<Rightarrow> string) \<Rightarrow> pyval \<Rightarrow> string \<Rightarrow> pyval \<Rightarrow> bool \<Rightarrow> bool \<Rightarrow> exc + pyval" where
  "getUserConfigBool str_fn params key default_value error_if_not_found to_str =
     getUserConfig str_fn params ''CONFIG_BOOL'' key default_value error_if_not_found to_str"

text \<open>
  \<open>getUserParams\<close>: the attributes it sets, as a list of assignments in order; they stay set when a
  required parameter is missing.
\<close>

fun required_params ::
  "pyval \<Rightarrow> string list \<Rightarrow> (string \<times> pyval) list \<times> exc option" where
  "required_params params [] = ([], None)"
| "required_params params (name # names) =
     (case py_contains params name of
        Inl e \<Rightarrow> ([], Some (Builtin e))
      | Inr False \<Rightarrow> ([], Some (BaseTestError (''Missing required user param '' @ [CHR 0x27] @ name @
          [CHR 0x27] @ '' in test configuration.'')))
      | Inr True \<Rightarrow>
          (case py_getitem params name of
             Inl e \<Rightarrow> ([], Some (Builtin e))
           | Inr v \<Rightarrow> let (sets, e) = required_params params names in ((name, v) # sets, e)))"

fun optional_params :: "pyval \<Rightarrow> string list \<Rightarrow> (string \<times> pyval) list \<times> exc option" where
  "optional_params params [] = ([], None)"
| "optional_params params (name # names) =
     (case py_contains params name of
        Inl e \<Rightarrow> ([], Some (Builtin e))
      | Inr False \<Rightarrow> optional_params params names
      | Inr True \<Rightarrow>
          (case py_getitem params name of
             Inl e \<Rightarrow> ([], Some (Builtin e))
           | Inr v \<Rightarrow> let (sets, e) = optional_params params names in ((name, v) # sets, e)))"

definition getUserParams ::
  "pyval \<Rightarrow> string list \<Rightarrow> string list \<Rightarrow> (string \<times> pyval) list \<Rightarrow> (string \<times> pyval) list \<times> exc option" where
  "getUserParams params req_param_names opt_param_names kwargs =
     (let (req, e) = required_params params req_param_names in
      case e of
        Some ex \<Rightarrow> (kwargs @ req, Some ex)
      | None \<Rightarrow> let (opt, e) = optional_params params opt_param_names in (kwargs @ req @ opt, e))"

subsection \<open>Skipping all tests\<close>

definition skipAllTests :: "string \<Rightarrow> 'w base_test \<Rightarrow> 'w base_test" where
  "skipAllTests msg s =
     s\<lparr>reason_to_skip_all_tests := Some (if msg = [] then ''No reason provided.'' else msg)\<rparr>"

definition skipAllTestsIf :: "bool \<Rightarrow> string \<Rightarrow> 'w base_test \<Rightarrow> 'w base_test" where
  "skipAllTestsIf condition msg s = (if condition then skipAllTests msg s else s)"

definition getSkipAllTestsReason :: "'w base_test \<Rightarrow> string option" where
  "getSkipAllTestsReason s = reason_to_skip_all_tests s"

definition isSkipAllTests :: "'w base_test \<Rightarrow> bool" where
  "isSkipAllTests s \<longleftrightarrow> getSkipAllTestsReason s \<noteq> None"

subsection \<open>Filtering one test\<close>

definition filterOneTestThroughTestFilter ::
  "'w env \<Rightarrow> string \<Rightarrow> name_filter option \<Rightarrow> 'w base_test \<Rightarrow> exc + unit" where
  "filterOneTestThroughTestFilter env t_name flt s =
     (let f = (case flt of None \<Rightarrow> test_filter s | Some g \<Rightarrow> g) in
      case Filter_Filter (engine env) f t_name of
        Inl e \<Rightarrow> Inl (Builtin e)
      | Inr False \<Rightarrow> Inl (raise_signal TestSilent (''Test case '' @ [CHR 0x27] @ ''%s'' @ [CHR 0x27] @
          '' did not pass filters.'') PNone)
      | Inr True \<Rightarrow>
          (case getSkipAllTestsReason s of
             None \<Rightarrow> Inr ()
           | Some reason \<Rightarrow> Inl (raise_signal TestSkip reason PNone)))"

definition abi_excluded :: "string \<Rightarrow> 'w base_test \<Rightarrow> bool" where
  "abi_excluded t_name s \<longleftrightarrow>
     (let abi = abi_bitness s in
      (abi \<noteq> None \<and> abi \<noteq> Some [] \<and> (skip_on_32bit_abi s \<and> abi = Some ''32'')) \<or>
      (skip_on_64bit_abi s \<and> abi = Some ''64'') \<or>
      (endswith (lower t_name) SUFFIX_32BIT \<and> abi \<noteq> Some ''32'') \<or>
      (endswith (lower t_name) SUFFIX_64BIT \<and> abi \<noteq> Some ''64'' \<and> \<not> run_32bit_on_64bit_abi s))"

definition filterOneTestThroughAbiBitness :: "string \<Rightarrow> 'w base_test \<Rightarrow> exc + unit" where
  "filterOneTestThroughAbiBitness t_name s =
     skipIf (abi_excluded t_name s)
       (''Test case '' @ [CHR 0x27] @ t_name @ [CHR 0x27] @ '' excluded as ABI bitness is '' @
        (case abi_bitness s of None \<Rightarrow> ''None'' | Some b \<Rightarrow> b) @ ''.'') PNone"

text \<open>Whether the retry filter is set and rejects the name.\<close>

definition retry_rejects :: "'w env \<Rightarrow> string \<Rightarrow> 'w base_test \<Rightarrow> exc + bool" where
  "retry_rejects env t_name s =
     (case test_filter_retry s of
        None \<Rightarrow> Inr False
      | Some f \<Rightarrow> (case Filter_Filter (engine env) f t_name of
                    Inl e \<Rightarrow> Inl (Builtin e) | Inr b \<Rightarrow> Inr (\<not> b)))"

definition filterOneTest ::
  "'w env \<Rightarrow> string \<Rightarrow> name_filter option \<Rightarrow> 'w base_test \<Rightarrow> exc + unit" where
  "filterOneTest env t_name flt s =
     bindR (retry_rejects env t_name s) (\<lambda>rejected.
       if rejected
       then Inl (raise_signal TestSkip ''Skipping completed tests in retry run attempt.'' PNone)
       else bindR (filterOneTestThroughTestFilter env t_name flt s) (\<lambda>_.
              filterOneTestThroughAbiBitness t_name s))"

end
