(* ===== verification/Test_Execution.thy ===== *)
theory Test_Execution
  imports Base_Test
begin

section \<open>Executing tests (runners/host/base\_test.py)\<close>

text \<open>
  \<open>execOneTest\<close> with the proxies of the hooks, \<open>runGeneratedTests\<close>, the run of a class with its set
  up retries (\<open>_runTests\<close>), the retry of failed tests (\<open>runTestsWithRetry\<close>) and \<open>run\<close>.
  A test function is an action; calls of the logger and of the instrumentation change nothing here
  and are left out.
\<close>

subsection \<open>Records in use\<close>

definition new_record :: "string \<Rightarrow> 'w base_test \<Rightarrow> nat \<times> 'w base_test" where
  "new_record t_name s =
     (next_oid s,
      s\<lparr>live := (live s)(next_oid s := TestResultRecord (next_oid s) t_name (Some (module_nm s))),
        next_oid := Suc (next_oid s)\<rparr>)"

definition update_record :: "nat \<Rightarrow> (test_record \<Rightarrow> test_record) \<Rightarrow> 'w base_test \<Rightarrow> 'w base_test" where
  "update_record i f s = s\<lparr>live := (live s)(i := f (live s i))\<rparr>"

definition begin_record :: "'w env \<Rightarrow> nat \<Rightarrow> 'w base_test \<Rightarrow> 'w base_test" where
  "begin_record env i s = (update_record i (testBegin (clk env (ticks s))) s)\<lparr>ticks := Suc (ticks s)\<rparr>"

text \<open>\<open>tr_record.testPass(e)\<close>, \<open>testFail(e)\<close>, \<open>testSkip(e)\<close>, \<open>testError(e)\<close>.\<close>

definition end_record :: "'w env \<Rightarrow> nat \<Rightarrow> test_outcome \<Rightarrow> end_cause \<Rightarrow> 'w base_test \<Rightarrow> 'w base_test" where
  "end_record env i res e s =
     (update_record i
        (case res of
           TEST_RESULT_PASS \<Rightarrow> testPass (str_exc env) (clk env (ticks s)) e
         | TEST_RESULT_FAIL \<Rightarrow> testFail (str_exc env) (clk env (ticks s)) e
         | TEST_RESULT_SKIP \<Rightarrow> testSkip (str_exc env) (clk env (ticks s)) e
         | TEST_RESULT_ERROR \<Rightarrow> testError (str_exc env) (clk env (ticks s)) e) s)
     \<lparr>ticks := Suc (ticks s)\<rparr>"

definition addTableToResult :: "string \<Rightarrow> pyval \<Rightarrow> ('w, pyval) bt_action" where
  "addTableToResult name rows s =
     (case current_record s of
        None \<Rightarrow> (Inl (Builtin AttributeError), s)
      | Some i \<Rightarrow> (Inr PNone, update_record i (addTable name rows) s))"

subsection \<open>The proxies\<close>

text \<open>\<open>except Exception\<close> catches everything but \<open>KeyboardInterrupt\<close> and \<open>SystemExit\<close>.\<close>

definition is_Exception :: "exc \<Rightarrow> bool" where
  "is_Exception e \<longleftrightarrow> e \<noteq> KeyboardInterrupt \<and> e \<noteq> SystemExit"

definition is_abort_all :: "exc \<Rightarrow> bool" where
  "is_abort_all e = (case e of Signal TestAbortAll d x \<Rightarrow> True | _ \<Rightarrow> False)"

definition exec_func :: "('w, pyval) bt_action \<Rightarrow> ('w, pyval) bt_action" where
  "exec_func func = catchA func (\<lambda>e. if is_abort_all e then raiseA e else returnA (PBool False))"

definition testEntry :: "'w env \<Rightarrow> nat \<Rightarrow> ('w, pyval) bt_action" where
  "testEntry env i =
     seqA (modifyA (\<lambda>s. s\<lparr>current_record := Some i\<rparr>))
       (getA (\<lambda>s. (web_enabled s, test_name (live s i))) (\<lambda>(enabled, n).
         if enabled then seqA (h_AddTestReport env n) (returnA PNone) else returnA PNone))"

text \<open>
  \<open>_setUp\<close> keeps what \<open>self.setUp()\<close> returned in a local variable and returns \<open>None\<close>.
\<close>

definition setUp_proxy :: "'w env \<Rightarrow> string \<Rightarrow> ('w, pyval) bt_action" where
  "setUp_proxy env t_name =
     bindA (h_Heal env True) (\<lambda>ok.
       seqA (if \<not> ok
             then liftA (fail (''Framework self diagnose didn'' @ [CHR 0x27] @ ''t pass for '' @ t_name @
               ''. Marking test as fail.'') PNone)
             else returnA ())
         (seqA (getA systrace_enabled (\<lambda>b. if b then h_StartSystrace env else returnA PNone))
            (bindA (h_setUp env) (\<lambda>result. returnA PNone))))"

definition testExit :: "('w, pyval) bt_action" where
  "testExit = seqA (modifyA (\<lambda>s. s\<lparr>current_record := None\<rparr>)) (returnA PNone)"

definition tearDown_proxy :: "'w env \<Rightarrow> string \<Rightarrow> ('w, pyval) bt_action" where
  "tearDown_proxy env t_name =
     seqA (getA systrace_enabled (\<lambda>b.
             if b then exec_func (h_ProcessSystrace env t_name) else returnA PNone))
       (seqA (exec_func (h_tearDown env)) (returnA PNone))"

datatype procedure = P_onFail | P_onPass | P_onSkip | P_onSilent | P_onException

fun procedure_name :: "procedure \<Rightarrow> string" where
  "procedure_name P_onFail = ''_onFail''"
| "procedure_name P_onPass = ''_onPass''"
| "procedure_name P_onSkip = ''_onSkip''"
| "procedure_name P_onSilent = ''_onSilent''"
| "procedure_name P_onException = ''_onException''"

text \<open>Each procedure function reads \<open>_current_record\<close> first; a missing record is an attribute error.\<close>

definition with_current ::
  "(test_record \<Rightarrow> ('w, pyval) bt_action) \<Rightarrow> ('w, pyval) bt_action" where
  "with_current k s =
     (case current_record s of None \<Rightarrow> (Inl (Builtin AttributeError), s) | Some i \<Rightarrow> k (live s i) s)"

definition report_web :: "'w env \<Rightarrow> web_code option \<Rightarrow> ('w, pyval) bt_action" where
  "report_web env code = getA web_enabled (\<lambda>b. if b then h_SetTestResult env code else returnA PNone)"

definition onFail_proxy :: "'w env \<Rightarrow> ('w, pyval) bt_action" where
  "onFail_proxy env = with_current (\<lambda>r.
     seqA (report_web env (Some TEST_CASE_RESULT_FAIL))
       (seqA (h_onFail env (test_name r) (begin_time r))
         (seqA (getA bug_report_on_failure (\<lambda>b.
                  if b then h_DumpBugReport env (test_name r) else returnA PNone))
            (getA logcat_on_failure (\<lambda>b.
               if b then h_DumpLogcat env (test_name r) else returnA PNone)))))"

definition onPass_proxy :: "'w env \<Rightarrow> ('w, pyval) bt_action" where
  "onPass_proxy env = with_current (\<lambda>r.
     seqA (report_web env (Some TEST_CASE_RESULT_PASS)) (h_onPass env (test_name r) (begin_time r)))"

definition onSkip_proxy :: "'w env \<Rightarrow> ('w, pyval) bt_action" where
  "onSkip_proxy env = with_current (\<lambda>r.
     seqA (report_web env (Some TEST_CASE_RESULT_SKIP)) (h_onSkip env (test_name r) (begin_time r)))"

definition onSilent_proxy :: "'w env \<Rightarrow> ('w, pyval) bt_action" where
  "onSilent_proxy env = with_current (\<lambda>r.
     seqA (report_web env None) (h_onSilent env (test_name r) (begin_time r)))"

text \<open>
  With bug reports enabled, \<open>_onException\<close> evaluates the undefined name \<open>ecord\<close>.
\<close>

definition onException_proxy :: "'w env \<Rightarrow> ('w, pyval) bt_action" where
  "onException_proxy env = with_current (\<lambda>r.
     seqA (report_web env (Some TEST_CASE_RESULT_EXCEPTION))
       (seqA (h_onException env (test_name r) (begin_time r))
         (seqA (getA bug_report_on_failure (\<lambda>b.
                  if b then raiseA (Builtin NameError) else returnA PNone))
            (getA logcat_on_failure (\<lambda>b.
               if b then h_DumpLogcat env (test_name r) else returnA PNone)))))"

fun run_procedure :: "'w env \<Rightarrow> procedure \<Rightarrow> ('w, pyval) bt_action" where
  "run_procedure env P_onFail = onFail_proxy env"
| "run_procedure env P_onPass = onPass_proxy env"
| "run_procedure env P_onSkip = onSkip_proxy env"
| "run_procedure env P_onSilent = onSilent_proxy env"
| "run_procedure env P_onException = onException_proxy env"

definition exec_procedure_func :: "'w env \<Rightarrow> procedure \<Rightarrow> ('w, pyval) bt_action" where
  "exec_procedure_func env proc =
     getA (\<lambda>s. (current_record s, is_final_run s)) (\<lambda>(rec, final).
       if proc \<notin> {P_onPass, P_onSilent, P_onSkip} \<and> \<not> final then
         (case rec of None \<Rightarrow> raiseA (Builtin AttributeError) | Some i \<Rightarrow> returnA PNone)
       else (case rec of
               None \<Rightarrow> returnA PNone
             | Some i \<Rightarrow>
                 catchA (run_procedure env proc) (\<lambda>e.
                   if is_abort_all e \<or> \<not> is_Exception e then raiseA e
                   else seqA (modifyA (update_record i
                          (addError (str_exc env) (procedure_name proc) e))) (returnA PNone))))"

subsection \<open>execOneTest\<close>

text \<open>
  The local variables \<open>finished\<close> and \<open>is_silenced\<close> decide what the final block does, so the parts of
  the method return them. The inner \<open>try\<close>: set up, the test function, and the tear down as its
  \<open>finally\<close> block; \<open>finished\<close> says whether the test function returned.
\<close>

definition inner_try ::
  "'w env \<Rightarrow> string \<Rightarrow> ('w, pyval) bt_action \<Rightarrow> 'w base_test \<Rightarrow> ((exc + pyval) \<times> bool) \<times> 'w base_test" where
  "inner_try env t_name func s =
     (let (r, s1) =
            bindA (setUp_proxy env t_name) (\<lambda>ret.
              seqA (liftA (assertTrue (ret \<noteq> PBool False) (''Setup for '' @ t_name @ '' failed.'') PNone))
                func) s;
          finished = (case r of Inl _ \<Rightarrow> False | Inr _ \<Rightarrow> True)
      in case tearDown_proxy env t_name s1 of
           (Inl e, s2) \<Rightarrow> ((Inl e, finished), s2)
         | (Inr _, s2) \<Rightarrow> ((r, finished), s2))"

definition test_entry_checks :: "'w env \<Rightarrow> nat \<Rightarrow> string \<Rightarrow> ('w, unit) bt_action" where
  "test_entry_checks env i t_name =
     bindA (testEntry env i) (\<lambda>ret.
       seqA (liftA (assertTrue (ret \<noteq> PBool False) (''Setup test entry for '' @ t_name @ '' failed.'') PNone))
         (seqA (\<lambda>s. (filterOneTest env t_name None s, s))
            (getA collect_tests_only (\<lambda>b.
               if b then liftA (explicitPass ''Collect tests only.'' PNone) else returnA ()))))"

definition outer_try ::
  "'w env \<Rightarrow> nat \<Rightarrow> string \<Rightarrow> ('w, pyval) bt_action \<Rightarrow> 'w base_test \<Rightarrow>
     ((exc + pyval) \<times> bool) \<times> 'w base_test" where
  "outer_try env i t_name func s =
     (case test_entry_checks env i t_name s of
        (Inl e, s1) \<Rightarrow> ((Inl e, False), s1)
      | (Inr _, s1) \<Rightarrow> inner_try env t_name func s1)"

text \<open>A handler whose last statement is \<open>finished = True\<close>.\<close>

definition then_finished ::
  "('w, 'a) bt_action \<Rightarrow> bool \<Rightarrow> bool \<Rightarrow> 'w base_test \<Rightarrow> ((exc + unit) \<times> bool \<times> bool) \<times> 'w base_test" where
  "then_finished act finished silenced s =
     (case act s of
        (Inl e, s') \<Rightarrow> ((Inl e, finished, silenced), s')
      | (Inr _, s') \<Rightarrow> ((Inr (), True, silenced), s'))"

text \<open>A handler that marks the test as failed, makes this run the final one and raises.\<close>

definition abort_with ::
  "'w env \<Rightarrow> nat \<Rightarrow> exc \<Rightarrow> exc \<Rightarrow> 'w base_test \<Rightarrow> ((exc + unit) \<times> bool \<times> bool) \<times> 'w base_test" where
  "abort_with env i e raised s =
     ((Inl raised, True, False), (end_record env i TEST_RESULT_FAIL (CauseExc e) s)\<lparr>is_final_run := True\<rparr>)"

definition mark_and_run ::
  "'w env \<Rightarrow> nat \<Rightarrow> test_outcome \<Rightarrow> end_cause \<Rightarrow> procedure list \<Rightarrow> ('w, unit) bt_action" where
  "mark_and_run env i res cause procs =
     seqA (modifyA (end_record env i res cause)) (for_eachA procs (exec_procedure_func env))"

definition handle_exception ::
  "'w env \<Rightarrow> nat \<Rightarrow> exc \<Rightarrow> bool \<Rightarrow> 'w base_test \<Rightarrow> ((exc + unit) \<times> bool \<times> bool) \<times> 'w base_test" where
  "handle_exception env i e finished s =
     (let abort_all = raise_signal TestAbortAll (str_exc env e) PNone in
      case e of
        Signal TestFailure d x \<Rightarrow>
          then_finished (mark_and_run env i TEST_RESULT_FAIL (CauseExc e) [P_onFail]) finished False s
      | AssertionError m \<Rightarrow>
          then_finished (mark_and_run env i TEST_RESULT_FAIL (CauseExc e) [P_onFail]) finished False s
      | Signal TestSkip d x \<Rightarrow>
          then_finished (mark_and_run env i TEST_RESULT_SKIP (CauseExc e) [P_onSkip]) finished False s
      | Signal TestAbortClass d x \<Rightarrow> abort_with env i e e s
      | Signal TestAbortAll d x \<Rightarrow> abort_with env i e e s
      | TimeoutError m \<Rightarrow> abort_with env i e abort_all s
      | KeyboardInterrupt \<Rightarrow> abort_with env i e e s
      | AdbError m \<Rightarrow>
          (case h_Heal env False s of
             (Inl e', s') \<Rightarrow> ((Inl e', finished, False), s')
           | (Inr healed, s') \<Rightarrow>
               if \<not> healed then abort_with env i e abort_all s'
               else then_finished (mark_and_run env i TEST_RESULT_FAIL (CauseExc e) [P_onFail])
                      finished False s')
      | Signal TestPass d x \<Rightarrow>
          then_finished (mark_and_run env i TEST_RESULT_PASS (CauseExc e) [P_onPass]) finished False s
      | Signal TestSilent d x \<Rightarrow>
          then_finished (seqA (exec_procedure_func env P_onSilent)
            (modifyA (\<lambda>s. s\<lparr>bt_results := removeRecord (live s i) True (bt_results s)\<rparr>)))
            finished True s
      | SystemExit \<Rightarrow> ((Inl e, finished, False), s)
      | _ \<Rightarrow> then_finished (mark_and_run env i TEST_RESULT_ERROR (CauseExc e) [P_onException, P_onFail])
               finished False s)"

text \<open>The \<open>else\<close> branch: a false verdict other than \<open>None\<close> fails the test.\<close>

definition handle_verdict ::
  "'w env \<Rightarrow> nat \<Rightarrow> pyval \<Rightarrow> bool \<Rightarrow> 'w base_test \<Rightarrow> ((exc + unit) \<times> bool \<times> bool) \<times> 'w base_test" where
  "handle_verdict env i verdict finished s =
     (if truthy verdict \<or> verdict = PNone
      then (case mark_and_run env i TEST_RESULT_PASS NoCause [P_onPass] s of
              (r, s') \<Rightarrow> ((r, finished, False), s'))
      else then_finished (mark_and_run env i TEST_RESULT_FAIL NoCause [P_onFail]) finished False s)"

definition final_block :: "'w env \<Rightarrow> nat \<Rightarrow> bool \<Rightarrow> bool \<Rightarrow> ('w, pyval) bt_action" where
  "final_block env i finished silenced =
     seqA (if \<not> finished
           then seqA (for_eachA (devices env) (h_DisableShell env))
                  (mark_and_run env i TEST_RESULT_ERROR NoCause [P_onException, P_onFail])
           else returnA ())
       (seqA (if \<not> silenced
              then modifyA (\<lambda>s. s\<lparr>bt_results := addRecord (live s i) (bt_results s)\<rparr>)
              else returnA ())
          testExit)"

definition exec_recorded ::
  "'w env \<Rightarrow> nat \<Rightarrow> string \<Rightarrow> ('w, pyval) bt_action \<Rightarrow> ('w, unit) bt_action" where
  "exec_recorded env i t_name func s =
     (let ((r, finished), s1) = outer_try env i t_name func s;
          ((r', finished', silenced), s2) =
            (case r of Inl e \<Rightarrow> handle_exception env i e finished s1
                     | Inr verdict \<Rightarrow> handle_verdict env i verdict finished s1)
      in case final_block env i finished' silenced s2 of
           (Inl e, s3) \<Rightarrow> (Inl e, s3)
         | (Inr _, s3) \<Rightarrow> (r', s3))"

definition execOneTest :: "'w env \<Rightarrow> string \<Rightarrow> ('w, pyval) bt_action \<Rightarrow> ('w, unit) bt_action" where
  "execOneTest env t_name func s =
     (case retry_rejects env t_name s of
        Inl e \<Rightarrow> (Inl e, s)
      | Inr True \<Rightarrow> (Inr (), s)
      | Inr False \<Rightarrow>
          (let (i, s1) = new_record t_name s; s2 = begin_record env i s1
           in exec_recorded env i t_name func s2))"

subsection \<open>Generated tests\<close>

definition MAX_FILENAME_LEN :: nat where "MAX_FILENAME_LEN = 255"

definition GenerateTestName :: "string \<Rightarrow> (string \<Rightarrow> exc + string) option \<Rightarrow> string \<Rightarrow> string" where
  "GenerateTestName tag name_func setting =
     (let t_name = tag @ '' '' @ setting;
          t_name = (case name_func of None \<Rightarrow> t_name
                    | Some f \<Rightarrow> (case f setting of Inl _ \<Rightarrow> t_name | Inr n \<Rightarrow> n))
      in take MAX_FILENAME_LEN t_name)"

definition request_test :: "string \<Rightarrow> 'w base_test \<Rightarrow> 'w base_test" where
  "request_test t_name s =
     s\<lparr>bt_results := (bt_results s)\<lparr>requested := requested (bt_results s) @
         [TestResultRecord (next_oid s) t_name (Some (module_nm s))]\<rparr>,
       next_oid := Suc (next_oid s)\<rparr>"

fun run_settings ::
  "'w env \<Rightarrow> (string \<Rightarrow> ('w, pyval) bt_action) \<Rightarrow> (string \<Rightarrow> string) \<Rightarrow> string list \<Rightarrow>
     ('w, string list) bt_action" where
  "run_settings env test_func gen_name [] = returnA []"
| "run_settings env test_func gen_name (setting # settings) =
     getA (\<lambda>s. length (passed (bt_results s))) (\<lambda>previous_success_cnt.
       seqA (execOneTest env (gen_name setting) (test_func setting))
         (getA (\<lambda>s. length (passed (bt_results s))) (\<lambda>success_cnt.
           bindA (run_settings env test_func gen_name settings) (\<lambda>failed_settings.
             returnA (if int success_cnt - int previous_success_cnt \<noteq> 1
                      then setting # failed_settings else failed_settings)))))"

definition runGeneratedTests ::
  "'w env \<Rightarrow> (string \<Rightarrow> ('w, pyval) bt_action) \<Rightarrow> string list \<Rightarrow> string \<Rightarrow>
     (string \<Rightarrow> exc + string) option \<Rightarrow> ('w, string list) bt_action" where
  "runGeneratedTests env test_func settings tag name_func =
     seqA (modifyA (fold (\<lambda>setting. request_test (GenerateTestName tag name_func setting)) settings))
       (run_settings env test_func (GenerateTestName tag name_func) settings)"

subsection \<open>Selecting tests\<close>

definition STR_TEST :: string where "STR_TEST = ''test''"
definition STR_GENERATE :: string where "STR_GENERATE = ''generate''"

text \<open>The attributes of the class as a list of names, with the test function of the callable ones.\<close>

definition get_all_test_names ::
  "(string \<times> ('w, pyval) bt_action option) list \<Rightarrow> string list" where
  "get_all_test_names attrs =
     map fst (filter (\<lambda>(name, f).
       (startswith name STR_TEST \<or> startswith name STR_GENERATE) \<and> f \<noteq> None) attrs)"

fun get_test_funcs ::
  "(string \<times> ('w, pyval) bt_action option) list \<Rightarrow> string list \<Rightarrow>
     exc + (string \<times> ('w, pyval) bt_action option) list" where
  "get_test_funcs attrs [] = Inr []"
| "get_test_funcs attrs (t_name # names) =
     (case map_of attrs t_name of
        None \<Rightarrow> get_test_funcs attrs names
      | Some f \<Rightarrow>
          if startswith t_name STR_TEST \<or> startswith t_name STR_GENERATE
          then bindR (get_test_funcs attrs names) (\<lambda>rest. Inr ((t_name, f) # rest))
          else Inl (USERError (''Test case name '' @ t_name @
            '' does not follow naming convention test*, abort.'')))"

definition getTests ::
  "(string \<times> ('w, pyval) bt_action option) list \<Rightarrow> string list \<Rightarrow> string list \<Rightarrow>
     exc + (string \<times> ('w, pyval) bt_action option) list" where
  "getTests attrs class_tests test_names =
     get_test_funcs attrs
       (if test_names \<noteq> [] then test_names
        else if class_tests \<noteq> [] then class_tests else get_all_test_names attrs)"

subsection \<open>Setting up the class\<close>

definition user_flag :: "'w env \<Rightarrow> string \<Rightarrow> ('w, bool) bt_action" where
  "user_flag env key s =
     (case getUserParam (str_val env) (user_params s) (OneName key) False (PBool False) False of
        Inl e \<Rightarrow> (Inl e, s) | Inr v \<Rightarrow> (Inr (truthy v), s))"

text \<open>\<open>a or b\<close> evaluates \<open>b\<close> only when \<open>a\<close> is false.\<close>

definition either_flag :: "'w env \<Rightarrow> string \<Rightarrow> string \<Rightarrow> ('w, bool) bt_action" where
  "either_flag env key legacy_key =
     bindA (user_flag env key) (\<lambda>b. if b then returnA True else user_flag env legacy_key)"

definition setUpClass_proxy :: "'w env \<Rightarrow> ('w, pyval) bt_action" where
  "setUpClass_proxy env =
     seqA (h_resetTimeout env)
     (seqA (bindA (h_MeetFirstApiLevel env) (\<lambda>ok.
        if ok then returnA () else modifyA (skipAllTests
          (''The device'' @ [CHR 0x27] @ ''s first API level doesn'' @ [CHR 0x27] @ ''t meet the precondition.''))))
     (seqA (for_eachA (devices env) (\<lambda>d. bindA (h_CheckFeature env d) (\<lambda>ok.
        if ok then returnA () else modifyA (skipAllTests ''Precondition feature check fail.''))))
     (seqA (bindA (either_flag env ''DISABLE_FRAMEWORK'' ''binary_test_disable_framework'') (\<lambda>disable.
        if disable
        then bindA (either_flag env ''STOP_NATIVE_SERVERS'' ''binary_test_stop_native_servers'') (\<lambda>stop.
               for_eachA (devices env) (\<lambda>d. h_device_stop env d stop))
        else for_eachA (devices env) (h_device_start env)))
     (seqA (\<lambda>s. (case getUserParam (str_val env) (user_params s) (OneName ''native_server_process_name'')
                       False (PList []) False of
                   Inl e \<Rightarrow> (Inl e, s)
                 | Inr names \<Rightarrow> for_eachA (devices env) (\<lambda>d. h_waitForProcessStop env d names) s))
        (h_setUpClass env)))))"

definition SETUP_RETRY_NUMBER :: nat where "SETUP_RETRY_NUMBER = 5"

definition restart_services :: "'w env \<Rightarrow> ('w, unit) bt_action" where
  "restart_services env =
     for_eachA (devices env) (\<lambda>d. seqA (h_stopServices env d) (h_startServices env d))"

text \<open>
  The set up loop. Its \<open>finally\<close> block leaves with \<open>break\<close> or \<open>return\<close>, which discards an exception
  in flight, so that a \<open>KeyboardInterrupt\<close> of \<open>setUpClass\<close> ends the loop as a failed set up. The
  value says whether the set up succeeded.
\<close>

definition give_up :: "'w env \<Rightarrow> exc option \<Rightarrow> ('w, bool) bt_action" where
  "give_up env caught =
     seqA (modifyA (\<lambda>s. s\<lparr>bt_results := failClass (str_exc env) (module_nm s) caught (bt_results s)\<rparr>))
       (seqA (exec_func (h_tearDownClass env))
          (seqA (modifyA (\<lambda>s. s\<lparr>is_final_run := True\<rparr>)) (returnA False)))"

fun setup_loop :: "'w env \<Rightarrow> nat \<Rightarrow> ('w, bool) bt_action" where
  "setup_loop env 0 s = (Inr True, s)"
| "setup_loop env (Suc attempts_left) s =
     (case setUpClass_proxy env s of
        (Inr v, s1) \<Rightarrow>
          if v \<noteq> PBool False then (Inr True, s1)
          else let e = raise_signal TestFailure (''Failed to setup '' @ module_nm s1 @ ''.'') PNone in
               if attempts_left = 0 then give_up env (Some e) s1
               else seqA (restart_services env) (setup_loop env attempts_left) s1
      | (Inl e, s1) \<Rightarrow>
          if \<not> is_Exception e then give_up env None s1
          else if attempts_left = 0 then give_up env (Some e) s1
          else seqA (restart_services env) (setup_loop env attempts_left) s1)"

subsection \<open>Running the class\<close>

text \<open>A test function that is not callable raises \<open>TypeError\<close> when it is called.\<close>

definition call_func :: "('w, pyval) bt_action option \<Rightarrow> ('w, pyval) bt_action" where
  "call_func f = (case f of None \<Rightarrow> raiseA (Builtin TypeError) | Some g \<Rightarrow> g)"

definition run_one :: "'w env \<Rightarrow> string \<times> ('w, pyval) bt_action option \<Rightarrow> ('w, unit) bt_action" where
  "run_one env t =
     (let (t_name, f) = t in
      if startswith t_name STR_GENERATE then seqA (call_func f) (returnA ())
      else execOneTest env t_name (call_func f))"

definition run_body ::
  "'w env \<Rightarrow> (string \<times> ('w, pyval) bt_action option) list \<Rightarrow> ('w, unit) bt_action" where
  "run_body env tests =
     getA run_as_vts_self_test (\<lambda>self_test.
       if self_test then
         modifyA (\<lambda>s. s\<lparr>bt_results := passClass (str_exc env) (clk env) (ticks s) (next_oid s)
             (module_nm s) NoCause (bt_results s), ticks := ticks s + 2, next_oid := Suc (next_oid s)\<rparr>)
       else seqA (for_eachA tests (run_one env))
              (getA (\<lambda>s. isSkipAllTests s \<and> executed (bt_results s) = []) (\<lambda>skip_all.
                 if skip_all then
                   modifyA (\<lambda>s. s\<lparr>bt_results := skipClass (str_exc env) (clk env) (ticks s) (next_oid s)
                       (module_nm s) ''All test cases skipped; unable to find any test case.''
                       (bt_results s), ticks := ticks s + 2, next_oid := Suc (next_oid s)\<rparr>)
                 else returnA ())))"

text \<open>The handlers of the class run: which exception becomes the class error, and what is raised.\<close>

definition class_handlers ::
  "exc + unit \<Rightarrow> 'w base_test \<Rightarrow> ((exc + unit) \<times> exc option) \<times> 'w base_test" where
  "class_handlers r s =
     (case r of
        Inr u \<Rightarrow> ((Inr u, None), s)
      | Inl e \<Rightarrow>
          (case e of
             Signal TestAbortClass d x \<Rightarrow> ((Inr (), Some e), s\<lparr>is_final_run := True\<rparr>)
           | Signal TestAbortAll d x \<Rightarrow> ((Inl e, Some e), s\<lparr>is_final_run := True\<rparr>)
           | KeyboardInterrupt \<Rightarrow> ((Inl e, Some e), s\<lparr>is_final_run := True\<rparr>)
           | SystemExit \<Rightarrow> ((Inl e, None), s)
           | _ \<Rightarrow> ((Inl e, Some e), s)))"

definition class_final :: "'w env \<Rightarrow> exc option \<Rightarrow> ('w, unit) bt_action" where
  "class_final env class_error =
     seqA (modifyA (\<lambda>s. if getNonPassingRecords True True False True (bt_results s) = []
                        then s\<lparr>is_final_run := True\<rparr> else s))
     (seqA (modifyA (\<lambda>s. if class_error \<noteq> None \<and> is_final_run s
                         then s\<lparr>bt_results := failClass (str_exc env) (module_nm s) class_error
                                  (bt_results s)\<rparr>
                         else s))
     (seqA (exec_func (h_tearDownClass env))
        (getA (\<lambda>s. is_final_run s \<and> web_enabled s) (\<lambda>b.
           if b then bindA (h_GetTestModuleKeys env) (\<lambda>(name, timestamp).
                  modifyA (\<lambda>s. s\<lparr>bt_results := setTestModuleKeys name timestamp (bt_results s)\<rparr>))
           else returnA ()))))"

definition runTests ::
  "'w env \<Rightarrow> (string \<times> ('w, pyval) bt_action option) list \<Rightarrow> ('w, unit) bt_action" where
  "runTests env tests =
     bindA (setup_loop env SETUP_RETRY_NUMBER) (\<lambda>done.
       if \<not> done then returnA ()
       else (\<lambda>s. let (r, s1) = run_body env tests s;
                     ((r', class_error), s2) = class_handlers r s1
                 in case class_final env class_error s2 of
                      (Inl e, s3) \<Rightarrow> (Inl e, s3) | (Inr _, s3) \<Rightarrow> (r', s3)))"

subsection \<open>Retrying failed tests\<close>

definition prepare_retry :: "'w env \<Rightarrow> ('w, bool) bt_action" where
  "prepare_retry env =
     bindA (h_Heal env False) (\<lambda>healed.
       if \<not> healed then returnA False
       else getA (\<lambda>s. map test_name (getNonPassingRecords True True False True (bt_results s)))
              (\<lambda>names. seqA (modifyA (\<lambda>s. s\<lparr>test_filter_retry := Some (retry_filter (engine env) names)\<rparr>))
                 (seqA (h_write_retry_log env names) (returnA True))))"

definition run_attempt ::
  "'w env \<Rightarrow> (string \<times> ('w, pyval) bt_action option) list \<Rightarrow> ('w, unit) bt_action" where
  "run_attempt env tests =
     catchA (runTests env tests) (\<lambda>e. getA is_final_run (\<lambda>final.
       if is_Exception e \<and> \<not> final then returnA () else raiseA e))"

text \<open>The loop \<open>for count in range(self.max_retry_count + 1)\<close>; \<open>n\<close> iterations are left.\<close>

fun retry_loop ::
  "'w env \<Rightarrow> (string \<times> ('w, pyval) bt_action option) list \<Rightarrow> nat \<Rightarrow> int \<Rightarrow> ('w, unit) bt_action" where
  "retry_loop env tests 0 attempt = returnA ()"
| "retry_loop env tests (Suc n) attempt =
     bindA (if attempt \<noteq> 0 then prepare_retry env else returnA True) (\<lambda>go.
       if \<not> go then returnA ()
       else seqA (modifyA (\<lambda>s. s\<lparr>is_final_run := (attempt = max_retry_count s)\<rparr>))
              (seqA (run_attempt env tests)
                 (getA is_final_run (\<lambda>final.
                    if final then returnA () else retry_loop env tests n (attempt + 1)))))"

definition runTestsWithRetry ::
  "'w env \<Rightarrow> (string \<times> ('w, pyval) bt_action option) list \<Rightarrow> ('w, unit) bt_action" where
  "runTestsWithRetry env tests =
     getA max_retry_count (\<lambda>m. retry_loop env tests (nat (m + 1)) 0)"

fun request_tests :: "string list \<Rightarrow> 'w base_test \<Rightarrow> 'w base_test" where
  "request_tests [] s = s"
| "request_tests (n # ns) s = request_tests ns (request_test n s)"

definition run ::
  "'w env \<Rightarrow> (string \<times> ('w, pyval) bt_action option) list \<Rightarrow> string list \<Rightarrow> ('w, test_result) bt_action" where
  "run env attrs test_names s =
     (case getTests attrs (tests_attr s) test_names of
        Inl e \<Rightarrow> (Inl e, s)
      | Inr tests \<Rightarrow>
          (let s1 = (if \<not> run_as_vts_self_test s
                     then request_tests (filter (\<lambda>n. startswith n STR_TEST) (map fst tests))
                            (s\<lparr>bt_results := (bt_results s)\<lparr>requested := []\<rparr>\<rparr>)
                     else s)
           in bindA (runTestsWithRetry env tests) (\<lambda>_. getA bt_results returnA) s1))"

end
