(* ===== verification/Execution_Invariants.thy ===== *)
theory Execution_Invariants
  imports Test_Execution
begin

section \<open>What every test run preserves\<close>

text \<open>
  The contract between the test class and the scripts it runs: if the hooks, the test functions and
  the device layer keep a predicate on the object, and the class's own bookkeeping keeps it too, then
  every method of the class keeps it, whatever the hooks raise. The locale \<open>bt_invariant\<close> states what
  the bookkeeping has to keep; its lemmas follow the methods one by one. It is interpreted for the
  partition of the results by verdict, for the final run flag and for the retry limit.
\<close>

subsection \<open>Hooks that keep a predicate\<close>

definition env_keeps :: "('w base_test \<Rightarrow> bool) \<Rightarrow> 'w env \<Rightarrow> bool" where
  "env_keeps I env \<longleftrightarrow>
     keeps I (h_setUpClass env) \<and> keeps I (h_tearDownClass env) \<and> keeps I (h_setUp env) \<and>
     keeps I (h_tearDown env) \<and> (\<forall>n t. keeps I (h_onFail env n t) \<and> keeps I (h_onPass env n t) \<and>
       keeps I (h_onSkip env n t) \<and> keeps I (h_onSilent env n t) \<and> keeps I (h_onException env n t)) \<and>
     (\<forall>b. keeps I (h_Heal env b)) \<and> (\<forall>n. keeps I (h_DumpBugReport env n) \<and> keeps I (h_DumpLogcat env n) \<and>
       keeps I (h_AddTestReport env n) \<and> keeps I (h_ProcessSystrace env n)) \<and>
     (\<forall>c. keeps I (h_SetTestResult env c)) \<and> keeps I (h_GetTestModuleKeys env) \<and>
     keeps I (h_StartSystrace env) \<and> keeps I (h_resetTimeout env) \<and> keeps I (h_MeetFirstApiLevel env) \<and>
     (\<forall>d. keeps I (h_CheckFeature env d) \<and> keeps I (h_device_start env d) \<and>
       keeps I (h_stopServices env d) \<and> keeps I (h_startServices env d) \<and> keeps I (h_DisableShell env d) \<and>
       (\<forall>b. keeps I (h_device_stop env d b)) \<and> (\<forall>v. keeps I (h_waitForProcessStop env d v))) \<and>
     (\<forall>ns. keeps I (h_write_retry_log env ns))"

lemmas proxy_defs = testEntry_def setUp_proxy_def testExit_def tearDown_proxy_def onFail_proxy_def
  onPass_proxy_def onSkip_proxy_def onSilent_proxy_def onException_proxy_def report_web_def

lemma keeps_with_current [keeps_rules]: "(\<And>r. keeps I (k r)) \<Longrightarrow> keeps I (with_current k)"
  by (simp add: keeps_def with_current_def split: option.split)

lemma keeps_exec_func [keeps_rules]: "keeps I f \<Longrightarrow> keeps I (exec_func f)"
  unfolding exec_func_def by (intro keeps_rules)

lemma keeps_then_finished [keeps_rules]: "keeps I a \<Longrightarrow> keeps I (then_finished a f sil)"
  unfolding keeps_def then_finished_def by (simp split: prod.split sum.split) (metis snd_conv)

lemma keeps_protected:
  assumes "keeps I m" and "keeps I fin"
  shows "keeps I (\<lambda>s. let (r, s1) = m s; b = g r in
    case fin s1 of (Inl e, s2) \<Rightarrow> ((Inl e, b), s2) | (Inr _, s2) \<Rightarrow> ((r, b), s2))"
proof (rule keepsI)
  fix s assume "I s"
  with assms have "I (snd (fin (snd (m s))))" by (simp add: keeps_def)
  then show "I (snd (let (r, s1) = m s; b = g r in
      case fin s1 of (Inl e, s2) \<Rightarrow> ((Inl e, b), s2) | (Inr _, s2) \<Rightarrow> ((r, b), s2)))"
    by (cases "m s"; cases "fst (fin (snd (m s)))") (auto simp: Let_def split: prod.split sum.split)
qed

lemma keeps_const [keeps_rules]: "keeps I (\<lambda>s. (f s, s))"
  by (simp add: keeps_def)

subsection \<open>The contract and its consequences\<close>

locale bt_invariant =
  fixes I :: "'w base_test \<Rightarrow> bool"
  assumes upd_live: "I s \<Longrightarrow> I (s\<lparr>live := l\<rparr>)"
    and upd_current: "I s \<Longrightarrow> I (s\<lparr>current_record := c\<rparr>)"
    and upd_oid: "I s \<Longrightarrow> I (s\<lparr>next_oid := n\<rparr>)"
    and upd_ticks: "I s \<Longrightarrow> I (s\<lparr>ticks := t\<rparr>)"
    and upd_skip: "I s \<Longrightarrow> I (s\<lparr>reason_to_skip_all_tests := sk\<rparr>)"
    and upd_final: "I s \<Longrightarrow> I (s\<lparr>is_final_run := True\<rparr>)"
    and upd_add: "I s \<Longrightarrow> I (s\<lparr>bt_results := addRecord r (bt_results s)\<rparr>)"
    and upd_remove: "I s \<Longrightarrow> I (s\<lparr>bt_results := removeRecord r b (bt_results s)\<rparr>)"
    and upd_request: "I s \<Longrightarrow> I (s\<lparr>bt_results := (bt_results s)\<lparr>requested := q\<rparr>\<rparr>)"
    and upd_failClass: "I s \<Longrightarrow> I (s\<lparr>bt_results := failClass se cn e (bt_results s)\<rparr>)"
    and upd_passClass: "I s \<Longrightarrow> I (s\<lparr>bt_results := passClass se ck t0 i cn ec (bt_results s)\<rparr>)"
    and upd_skipClass: "I s \<Longrightarrow> I (s\<lparr>bt_results := skipClass se ck t0 i cn rs (bt_results s)\<rparr>)"
    and upd_keys: "I s \<Longrightarrow> I (s\<lparr>bt_results := setTestModuleKeys nm ts (bt_results s)\<rparr>)"
begin

lemmas upds = upd_live upd_current upd_oid upd_ticks upd_skip upd_final upd_add upd_remove upd_request
  upd_failClass upd_passClass upd_skipClass upd_keys

lemma keeps_update_record: "I s \<Longrightarrow> I (update_record i f s)"
  by (simp add: update_record_def upd_live)

lemma keeps_end_record: "I s \<Longrightarrow> I (end_record env i res e s)"
  by (simp add: end_record_def upd_ticks keeps_update_record)

lemma keeps_skipAllTests: "I s \<Longrightarrow> I (skipAllTests m s)"
  by (simp add: skipAllTests_def upd_skip)

lemma keeps_run_procedure:
  assumes "env_keeps I env"
  shows "keeps I (run_procedure env proc)"
  by (cases proc) (use assms in \<open>auto simp: proxy_defs env_keeps_def intro!: keeps_rules\<close>)

lemma keeps_exec_procedure_func:
  assumes "env_keeps I env"
  shows "keeps I (exec_procedure_func env proc)"
  unfolding exec_procedure_func_def
  by (intro keeps_rules keeps_run_procedure [OF assms] keeps_update_record)

lemma keeps_mark_and_run:
  assumes "env_keeps I env"
  shows "keeps I (mark_and_run env i res cause procs)"
  unfolding mark_and_run_def
  by (intro keeps_rules keeps_exec_procedure_func [OF assms] keeps_end_record)

lemma keeps_inner_try:
  assumes "env_keeps I env" and "keeps I func"
  shows "keeps I (inner_try env t_name func)"
proof -
  have "keeps I (bindA (setUp_proxy env t_name) (\<lambda>ret.
      seqA (liftA (assertTrue (ret \<noteq> PBool False) (''Setup for '' @ t_name @ '' failed.'') PNone)) func))"
    using assms by (auto simp: setUp_proxy_def env_keeps_def intro!: keeps_rules)
  moreover have "keeps I (tearDown_proxy env t_name)"
    using assms by (auto simp: tearDown_proxy_def env_keeps_def intro!: keeps_rules)
  ultimately show ?thesis
    unfolding inner_try_def [abs_def] by (rule keeps_protected)
qed

lemma keeps_outer_try:
  assumes "env_keeps I env" and "keeps I func"
  shows "keeps I (outer_try env i t_name func)"
proof -
  have "keeps I (test_entry_checks env i t_name)"
    using assms
    by (auto simp: test_entry_checks_def testEntry_def env_keeps_def intro!: keeps_rules upd_current)
  then show ?thesis
    using keeps_inner_try [OF assms, of t_name] unfolding keeps_def outer_try_def
    by (simp split: prod.split sum.split) (metis snd_conv)
qed

lemma keeps_abort_with: "keeps I (abort_with env i e raised)"
  by (simp add: keeps_def abort_with_def upd_final keeps_end_record)

lemma keeps_silent:
  assumes "env_keeps I env"
  shows "keeps I (seqA (exec_procedure_func env P_onSilent)
    (modifyA (\<lambda>s. s\<lparr>bt_results := removeRecord (live s i) True (bt_results s)\<rparr>)))"
  by (intro keeps_rules keeps_exec_procedure_func [OF assms] upd_remove)

lemma keeps_adb_handler:
  assumes "env_keeps I env" and "keeps I f" and "keeps I g"
  shows "keeps I (\<lambda>s. case h_Heal env False s of
      (Inl e', s') \<Rightarrow> ((Inl e', fin, sil), s') | (Inr healed, s') \<Rightarrow> if \<not> healed then f s' else g s')"
proof (rule keepsI)
  fix s assume s: "I s"
  have "keeps I (h_Heal env False)" using assms(1) by (simp add: env_keeps_def)
  then have "I (snd (h_Heal env False s))" using s by (rule keepsD)
  with assms(2,3) show "I (snd (case h_Heal env False s of
      (Inl e', s') \<Rightarrow> ((Inl e', fin, sil), s') | (Inr healed, s') \<Rightarrow> if \<not> healed then f s' else g s'))"
    by (auto simp: keeps_def split: prod.split sum.split)
qed

lemma keeps_handle_exception:
  assumes "env_keeps I env"
  shows "keeps I (handle_exception env i e finished)"
proof -
  note parts = keeps_then_finished keeps_mark_and_run [OF assms] keeps_abort_with
    keeps_silent [OF assms] keeps_adb_handler [OF assms] keeps_const
  show ?thesis
  proof (cases e)
    case (Signal kind d x)
    then show ?thesis
      by (cases kind) (simp_all add: handle_exception_def [abs_def] Let_def parts)
  qed (simp_all add: handle_exception_def [abs_def] Let_def parts)
qed

lemma keeps_handle_verdict:
  assumes "env_keeps I env"
  shows "keeps I (handle_verdict env i v finished)"
proof (rule keepsI)
  fix s assume s: "I s"
  show "I (snd (handle_verdict env i v finished s))"
    using keepsD [OF keeps_then_finished [OF keeps_mark_and_run [OF assms]] s]
      keepsD [OF keeps_mark_and_run [OF assms] s]
    by (simp add: handle_verdict_def split_beta)
qed

lemma keeps_final_block:
  assumes "env_keeps I env"
  shows "keeps I (final_block env i finished silenced)"
  unfolding final_block_def testExit_def
  using assms by (auto simp: env_keeps_def intro!: keeps_rules keeps_mark_and_run [OF assms] upd_add upd_current)

lemma keeps_exec_recorded:
  assumes "env_keeps I env" and "keeps I func"
  shows "keeps I (exec_recorded env i t_name func)"
proof (rule keepsI)
  fix s assume s: "I s"
  obtain r fin s1 where t: "outer_try env i t_name func s = ((r, fin), s1)" by (metis prod.collapse)
  then have s1: "I s1" using keeps_step [OF keeps_outer_try [OF assms] s] by blast
  obtain r' fin' sil s2 where h: "(case r of Inl e \<Rightarrow> handle_exception env i e fin s1
      | Inr verdict \<Rightarrow> handle_verdict env i verdict fin s1) = ((r', fin', sil), s2)"
    by (metis prod.collapse)
  then have "I s2"
    using keeps_step [OF keeps_handle_exception [OF assms(1)] s1]
      keeps_step [OF keeps_handle_verdict [OF assms(1)] s1] by (cases r) auto
  then have "I (snd (final_block env i fin' sil s2))"
    by (rule keepsD [OF keeps_final_block [OF assms(1)]])
  then show "I (snd (exec_recorded env i t_name func s))"
    using t h by (auto simp: exec_recorded_def split: prod.split sum.split)
qed

lemma keeps_execOneTest:
  assumes "env_keeps I env" and "keeps I func"
  shows "keeps I (execOneTest env t_name func)"
proof (rule keepsI)
  fix s assume s: "I s"
  have "I (begin_record env i (snd (new_record t_name s)))" for i
    using s by (simp add: begin_record_def new_record_def upd_ticks keeps_update_record upd_live upd_oid)
  then show "I (snd (execOneTest env t_name func s))"
    using s keepsD [OF keeps_exec_recorded [OF assms]]
    by (auto simp: execOneTest_def new_record_def Let_def split: sum.split bool.split)
qed

lemma keeps_run_settings:
  assumes "env_keeps I env" and "\<And>x. keeps I (f x)"
  shows "keeps I (run_settings env f g settings)"
proof (induction settings)
  case (Cons x xs)
  then show ?case
    by (simp add: keeps_get keeps_seq keeps_bind keeps_pure keeps_execOneTest [OF assms])
qed (simp add: keeps_pure)

lemma keeps_runGeneratedTests:
  assumes "env_keeps I env" and "\<And>x. keeps I (f x)"
  shows "keeps I (runGeneratedTests env f settings tag nf)"
proof -
  have "I s \<Longrightarrow> I (fold (\<lambda>x. request_test (GenerateTestName tag nf x)) settings s)" for s
    by (induction settings arbitrary: s) (simp_all add: request_test_def upd_request upd_oid)
  then show ?thesis
    unfolding runGeneratedTests_def
    by (intro keeps_rules keeps_run_settings [OF assms])
qed

lemma keeps_user_flag: "keeps I (user_flag env k)" "keeps I (either_flag env k k')"
  unfolding either_flag_def by (auto simp: keeps_def user_flag_def bindA_def returnA_def split: sum.split)

lemma keeps_setUpClass_proxy:
  assumes "env_keeps I env"
  shows "keeps I (setUpClass_proxy env)"
proof -
  have "keeps I (\<lambda>s. case getUserParam (str_val env) (user_params s) (OneName ''native_server_process_name'')
        False (PList []) False of
      Inl e \<Rightarrow> (Inl e, s) | Inr names \<Rightarrow> for_eachA (devices env) (\<lambda>d. h_waitForProcessStop env d names) s)"
  proof (rule keepsI)
    fix s assume "I s"
    moreover have "keeps I (for_eachA (devices env) (\<lambda>d. h_waitForProcessStop env d names))" for names
      using assms by (auto simp: env_keeps_def intro!: keeps_rules)
    ultimately show "I (snd (case getUserParam (str_val env) (user_params s)
        (OneName ''native_server_process_name'') False (PList []) False of
      Inl e \<Rightarrow> (Inl e, s) | Inr names \<Rightarrow> for_eachA (devices env) (\<lambda>d. h_waitForProcessStop env d names) s))"
      by (auto dest: keepsD split: sum.split)
  qed
  then show ?thesis
    unfolding setUpClass_proxy_def using assms
    by (auto simp: env_keeps_def intro!: keeps_rules keeps_user_flag keeps_skipAllTests)
qed

lemma keeps_give_up:
  assumes "env_keeps I env"
  shows "keeps I (give_up env caught)"
  unfolding give_up_def
  using assms by (auto simp: env_keeps_def intro!: keeps_rules upd_failClass upd_final)

lemma keeps_setup_loop:
  assumes "env_keeps I env"
  shows "keeps I (setup_loop env n)"
proof (induction n)
  case (Suc n)
  have restart: "keeps I (seqA (restart_services env) (setup_loop env n))"
    unfolding restart_services_def
    using assms Suc by (auto simp: env_keeps_def intro!: keeps_rules)
  show ?case
  proof (rule keepsI)
    fix s assume s: "I s"
    obtain r s1 where p: "setUpClass_proxy env s = (r, s1)" by fastforce
    then have "I s1" using keeps_step [OF keeps_setUpClass_proxy [OF assms] s] by simp
    then show "I (snd (setup_loop env (Suc n) s))"
      using p keepsD [OF restart] keepsD [OF keeps_give_up [OF assms]]
      by (cases r) (auto simp: Let_def)
  qed
qed (simp add: keeps_def)

lemma keeps_run_one:
  assumes "env_keeps I env" and "\<And>g. snd t = Some g \<Longrightarrow> keeps I g"
  shows "keeps I (run_one env t)"
proof -
  have "keeps I (call_func (snd t))"
    using assms(2) by (auto simp: call_func_def keeps_pure split: option.split)
  then show ?thesis
    unfolding run_one_def
    by (auto simp: split_beta intro!: keeps_rules keeps_execOneTest [OF assms(1)])
qed

lemma keeps_run_body:
  assumes "env_keeps I env" and "\<And>t g. t \<in> set tests \<Longrightarrow> snd t = Some g \<Longrightarrow> keeps I g"
  shows "keeps I (run_body env tests)"
  unfolding run_body_def
  by (intro keeps_rules keeps_run_one [OF assms] upd_oid upd_ticks upd_passClass upd_skipClass)

lemma keeps_class_handlers: "keeps I (class_handlers r)"
  by (auto simp: keeps_def class_handlers_def upd_final split: sum.split exc.split signal_kind.split)

lemma keeps_class_final:
  assumes "env_keeps I env"
  shows "keeps I (class_final env ce)"
  unfolding class_final_def
  using assms by (auto simp: env_keeps_def intro!: keeps_rules upd_final upd_failClass upd_keys)

lemma keeps_runTests:
  assumes "env_keeps I env" and "\<And>t g. t \<in> set tests \<Longrightarrow> snd t = Some g \<Longrightarrow> keeps I g"
  shows "keeps I (runTests env tests)"
proof -
  let ?k = "\<lambda>s. let (r, s1) = run_body env tests s; ((r', ce), s2) = class_handlers r s1
      in case class_final env ce s2 of (Inl e, s3) \<Rightarrow> (Inl e, s3) | (Inr _, s3) \<Rightarrow> (r', s3)"
  have "keeps I ?k"
  proof (rule keepsI)
    fix s assume s: "I s"
    obtain r s1 where b: "run_body env tests s = (r, s1)" by fastforce
    obtain r' ce s2 where h: "class_handlers r s1 = ((r', ce), s2)" by (metis prod.collapse)
    have "I s2"
      using keeps_step [OF keeps_class_handlers keeps_step [OF keeps_run_body [OF assms] s b] h] .
    then have "I (snd (class_final env ce s2))" by (rule keepsD [OF keeps_class_final [OF assms(1)]])
    then show "I (snd (?k s))" using b h by (auto split: prod.split sum.split)
  qed
  then show ?thesis
    unfolding runTests_def by (intro keeps_rules keeps_setup_loop [OF assms(1)])
qed

end

text \<open>A predicate that the retry loop's own assignments keep as well.\<close>

locale bt_run_invariant = bt_invariant +
  assumes upd_run: "I s \<Longrightarrow> I (s\<lparr>is_final_run := b\<rparr>)"
    and upd_retry: "I s \<Longrightarrow> I (s\<lparr>test_filter_retry := f\<rparr>)"
begin

lemma keeps_run_attempt:
  assumes "env_keeps I env" and "\<And>t g. t \<in> set tests \<Longrightarrow> snd t = Some g \<Longrightarrow> keeps I g"
  shows "keeps I (run_attempt env tests)"
  unfolding run_attempt_def by (intro keeps_rules keeps_runTests [OF assms])

lemma keeps_retry_loop:
  assumes "env_keeps I env" and "\<And>t g. t \<in> set tests \<Longrightarrow> snd t = Some g \<Longrightarrow> keeps I g"
  shows "keeps I (retry_loop env tests n a)"
proof (induction n arbitrary: a)
  case (Suc n)
  have "keeps I (prepare_retry env)"
    unfolding prepare_retry_def
    using assms(1) by (auto simp: env_keeps_def intro!: keeps_rules upd_retry)
  then show ?case
    by (auto intro!: keeps_rules keeps_run_attempt [OF assms] upd_run Suc)
qed (simp add: keeps_pure)

lemma keeps_run:
  assumes "env_keeps I env" and "\<And>n g. (n, Some g) \<in> set attrs \<Longrightarrow> keeps I g"
  shows "keeps I (run env attrs names)"
proof (rule keepsI)
  fix s assume s: "I s"
  have req: "I u \<Longrightarrow> I (request_tests ns u)" for ns u
    by (induction ns arbitrary: u) (simp_all add: request_test_def upd_oid upd_request)
  show "I (snd (run env attrs names s))"
  proof (cases "getTests attrs (tests_attr s) names")
    case (Inr tests)
    have funcs: "get_test_funcs attrs ns = Inr ts \<Longrightarrow> t \<in> set ts \<Longrightarrow> t \<in> set attrs" for ns ts t
      by (induction ns arbitrary: ts) (auto simp: py_res map_of_SomeD split: option.splits if_splits)
    have "\<And>t g. t \<in> set tests \<Longrightarrow> snd t = Some g \<Longrightarrow> keeps I g"
      using Inr assms(2) funcs unfolding getTests_def by (metis prod.collapse)
    then have "keeps I (bindA (runTestsWithRetry env tests) (\<lambda>_. getA bt_results returnA))"
      unfolding runTestsWithRetry_def by (intro keeps_rules keeps_retry_loop [OF assms(1)])
    with Inr s show ?thesis
      by (auto simp: run_def Let_def upd_request intro!: keepsD [where I = I] req)
  qed (simp add: run_def s)
qed

end

end
