(* ===== verification/Execution_Verdicts.thy ===== *)
theory Execution_Verdicts
  imports Execution_Invariants
begin

section \<open>Verdicts of executed tests\<close>

text \<open>
  The interpretations of the invariant contract, the behaviour of \<open>execOneTest\<close> for scripts that
  change nothing of the object but their own state, and the properties of the retry.
\<close>

interpretation part: bt_run_invariant "\<lambda>s. results_ok (bt_results s)"
  by unfold_locales
     (simp_all add: results_ok_addRecord results_ok_remove results_ok_passClass results_ok_skipClass)

interpretation finality: bt_invariant is_final_run
  by unfold_locales simp_all

interpretation limit: bt_run_invariant "\<lambda>s. max_retry_count s = m" for m
  by unfold_locales simp_all

subsection \<open>Scripts that change only their own state\<close>

definition quiet :: "('w base_test \<Rightarrow> 'r \<times> 'w base_test) \<Rightarrow> bool" where
  "quiet act \<longleftrightarrow> (\<forall>s. \<exists>w. snd (act s) = s\<lparr>world := w\<rparr>)"

text \<open>An action that also returns.\<close>

definition calm :: "('w, 'a) bt_action \<Rightarrow> bool" where
  "calm act \<longleftrightarrow> (\<forall>s. \<exists>v w. act s = (Inr v, s\<lparr>world := w\<rparr>))"

lemma calmE: "calm act \<Longrightarrow> \<exists>v w. act s = (Inr v, s\<lparr>world := w\<rparr>)"
  by (simp add: calm_def)

lemma quietE: "quiet act \<Longrightarrow> \<exists>r w. act s = (r, s\<lparr>world := w\<rparr>)"
  unfolding quiet_def by (metis prod.collapse)

text \<open>
  The environments of the verdict table: the procedure functions, the reports and the device calls
  return and change nothing else, the self diagnosis passes and heals, \<open>setUp\<close> returns some value,
  \<open>tearDown\<close> ends in any way but \<open>TestAbortAll\<close>.
\<close>

definition calm_env :: "'w env \<Rightarrow> bool" where
  "calm_env env \<longleftrightarrow>
     (\<forall>n t. calm (h_onFail env n t) \<and> calm (h_onPass env n t) \<and> calm (h_onSkip env n t) \<and>
        calm (h_onSilent env n t) \<and> calm (h_onException env n t)) \<and>
     (\<forall>n. calm (h_DumpBugReport env n) \<and> calm (h_DumpLogcat env n) \<and> calm (h_AddTestReport env n)) \<and>
     (\<forall>c. calm (h_SetTestResult env c)) \<and> (\<forall>d. calm (h_DisableShell env d)) \<and>
     calm (h_setUp env) \<and> calm (h_StartSystrace env) \<and> (\<forall>n. calm (h_ProcessSystrace env n)) \<and>
     (\<forall>b s. \<exists>w. h_Heal env b s = (Inr True, s\<lparr>world := w\<rparr>)) \<and>
     quiet (h_tearDown env) \<and> (\<forall>s e. fst (h_tearDown env s) = Inl e \<longrightarrow> \<not> is_abort_all e)"

lemma calm_return: "calm (returnA v)"
  unfolding calm_def returnA_def
proof
  fix s :: "'w base_test"
  have "s = s\<lparr>world := world s\<rparr>" by simp
  then show "\<exists>va w. (Inr v, s) = (Inr va, s\<lparr>world := w\<rparr>)" by blast
qed

lemma calm_seq: "calm a \<Longrightarrow> calm b \<Longrightarrow> calm (seqA a b)"
  unfolding calm_def seqA_def bindA_def
proof
  fix s assume a: "\<forall>s. \<exists>v w. a s = (Inr v, s\<lparr>world := w\<rparr>)" and b: "\<forall>s. \<exists>v w. b s = (Inr v, s\<lparr>world := w\<rparr>)"
  obtain v w where 1: "a s = (Inr v, s\<lparr>world := w\<rparr>)" using a by blast
  obtain v' w' where 2: "b (s\<lparr>world := w\<rparr>) = (Inr v', s\<lparr>world := w, world := w'\<rparr>)" using b by blast
  show "\<exists>v w. (case a s of (Inl e, s') \<Rightarrow> (Inl e, s') | (Inr v, s') \<Rightarrow> b s') = (Inr v, s\<lparr>world := w\<rparr>)"
    using 1 2 by auto
qed

lemma calm_get: "(\<And>v. calm (k v)) \<Longrightarrow> calm (getA g k)"
  by (simp add: calm_def getA_def)

lemmas calm_rules = calm_return calm_seq calm_get

lemma calm_exec_func_quiet:
  assumes "quiet a" and "\<And>s e. fst (a s) = Inl e \<Longrightarrow> \<not> is_abort_all e"
  shows "calm (exec_func a)"
  unfolding calm_def
proof
  fix s
  obtain r w where a: "a s = (r, s\<lparr>world := w\<rparr>)" using quietE [OF assms(1)] by blast
  obtain v where "exec_func a s = (Inr v, s\<lparr>world := w\<rparr>)"
  proof (cases r)
    case (Inl e)
    with a assms(2) [of s e] have "exec_func a s = (Inr (PBool False), s\<lparr>world := w\<rparr>)"
      by (simp add: exec_func_def catchA_def returnA_def)
    then show ?thesis by (rule that)
  next
    case (Inr v)
    with a have "exec_func a s = (Inr v, s\<lparr>world := w\<rparr>)" by (simp add: exec_func_def catchA_def)
    then show ?thesis by (rule that)
  qed
  then show "\<exists>v w. exec_func a s = (Inr v, s\<lparr>world := w\<rparr>)" by blast
qed

lemma calm_quiet: "calm a \<Longrightarrow> quiet a" "calm a \<Longrightarrow> fst (a s) \<noteq> Inl e"
  unfolding calm_def quiet_def by (metis snd_conv, metis fst_conv sum.distinct(2))

lemma calm_exec_func: "calm a \<Longrightarrow> calm (exec_func a)"
  using calm_exec_func_quiet [of a] calm_quiet by metis

lemma calm_if: "calm a \<Longrightarrow> calm b \<Longrightarrow> calm (if c then a else b)"
  by simp

lemma calm_tearDown:
  assumes "calm_env env"
  shows "calm (tearDown_proxy env n)"
proof -
  have "calm (exec_func (h_tearDown env))"
    using assms by (intro calm_exec_func_quiet) (auto simp: calm_env_def)
  moreover have "calm (exec_func (h_ProcessSystrace env n))"
    using assms by (intro calm_exec_func) (simp add: calm_env_def)
  ultimately show ?thesis
    unfolding tearDown_proxy_def by (intro calm_rules calm_if)
qed

lemma procedure_calm:
  assumes env: "calm_env env" and cur: "current_record s = Some i"
    and bug: "\<not> bug_report_on_failure s"
  shows "\<exists>v w. run_procedure env proc s = (Inr v, s\<lparr>world := w\<rparr>)"
proof -
  have web: "calm (report_web env c)" for c
    unfolding report_web_def using env by (auto simp: calm_env_def intro!: calm_rules)
  have log: "calm (getA logcat_on_failure (\<lambda>b. if b then h_DumpLogcat env n else returnA PNone))" for n
    using env by (auto simp: calm_env_def intro!: calm_rules)
  have plain: "calm (seqA (report_web env c) (h n t))"
    if "\<forall>n t. calm (h n t)" for c n t and h :: "string \<Rightarrow> int option \<Rightarrow> ('a, pyval) bt_action"
    using web that by (intro calm_rules) auto
  have skipping: "\<exists>v w. seqA (report_web env c) (seqA (h n t)
      (seqA (getA bug_report_on_failure (\<lambda>b. if b then x else returnA PNone))
        (getA logcat_on_failure (\<lambda>b. if b then h_DumpLogcat env n else returnA PNone)))) s =
      (Inr v, s\<lparr>world := w\<rparr>)"
    if hook: "\<forall>n t. calm (h n t)" for c n t and h :: "string \<Rightarrow> int option \<Rightarrow> ('a, pyval) bt_action" and x
  proof -
    obtain v w where 1: "seqA (report_web env c) (h n t) s = (Inr v, s\<lparr>world := w\<rparr>)"
      using calmE [OF plain [OF hook]] by blast
    obtain v' w' where 2: "getA logcat_on_failure (\<lambda>b. if b then h_DumpLogcat env n else returnA PNone)
        (s\<lparr>world := w\<rparr>) = (Inr v', s\<lparr>world := w'\<rparr>)"
      using calmE [OF log, of n "s\<lparr>world := w\<rparr>"] by auto
    have 3: "getA bug_report_on_failure (\<lambda>b. if b then x else returnA PNone) (s\<lparr>world := w\<rparr>) =
        (Inr PNone, s\<lparr>world := w\<rparr>)"
      using bug by (simp add: getA_def returnA_def)
    let ?L = "getA logcat_on_failure (\<lambda>b. if b then h_DumpLogcat env n else returnA PNone)"
    let ?K = "seqA (getA bug_report_on_failure (\<lambda>b. if b then x else returnA PNone)) ?L"
    have "seqA (report_web env c) (seqA (h n t) ?K) s = seqA (seqA (report_web env c) (h n t)) ?K s"
      by (simp only: seqA_assoc)
    also have "\<dots> = ?K (s\<lparr>world := w\<rparr>)" using 1 by (rule seqA_step)
    also have "\<dots> = ?L (s\<lparr>world := w\<rparr>)" using 3 by (rule seqA_step)
    also have "\<dots> = (Inr v', s\<lparr>world := w'\<rparr>)" by (rule 2)
    finally show ?thesis by blast
  qed
  have hooks: "\<forall>n t. calm (h_onFail env n t)" "\<forall>n t. calm (h_onPass env n t)"
    "\<forall>n t. calm (h_onSkip env n t)" "\<forall>n t. calm (h_onSilent env n t)"
    "\<forall>n t. calm (h_onException env n t)"
    using env by (auto simp: calm_env_def)
  show ?thesis
    using calmE [OF plain [OF hooks(2)]] calmE [OF plain [OF hooks(3)]] calmE [OF plain [OF hooks(4)]]
      skipping [OF hooks(1)] skipping [OF hooks(5)]
    by (cases proc)
       (simp_all add: onFail_proxy_def onPass_proxy_def onSkip_proxy_def onSilent_proxy_def
        onException_proxy_def with_current_def cur)
qed

lemma exec_procedure_calm:
  assumes "calm_env env" and "current_record s = Some i" and "\<not> bug_report_on_failure s"
  shows "\<exists>v w. exec_procedure_func env proc s = (Inr v, s\<lparr>world := w\<rparr>)"
proof -
  obtain v w where run: "run_procedure env proc s = (Inr v, s\<lparr>world := w\<rparr>)"
    using procedure_calm [OF assms] by blast
  have "s = s\<lparr>world := world s\<rparr>" by simp
  then have "\<exists>v' w'. (Inr PNone, s) = (Inr v' :: exc + pyval, s\<lparr>world := w'\<rparr>)" by blast
  moreover have "catchA (run_procedure env proc) h s = (Inr v, s\<lparr>world := w\<rparr>)" for h
    using run by (simp add: catchA_def)
  ultimately show ?thesis
    using assms(2) by (auto simp: exec_procedure_func_def getA_def returnA_def)
qed

lemma procedures_calm:
  assumes "calm_env env"
  shows "current_record s = Some i \<Longrightarrow> \<not> bug_report_on_failure s \<Longrightarrow>
    \<exists>w. for_eachA procs (exec_procedure_func env) s = (Inr (), s\<lparr>world := w\<rparr>)"
proof (induction procs arbitrary: s)
  case Nil
  have "s = s\<lparr>world := world s\<rparr>" by simp
  then show ?case unfolding for_eachA.simps returnA_def by blast
next
  case (Cons p ps)
  obtain v w where p: "exec_procedure_func env p s = (Inr v, s\<lparr>world := w\<rparr>)"
    using exec_procedure_calm [OF assms Cons.prems] by blast
  obtain w' where "for_eachA ps (exec_procedure_func env) (s\<lparr>world := w\<rparr>) = (Inr (), s\<lparr>world := w'\<rparr>)"
    using Cons.IH [of "s\<lparr>world := w\<rparr>"] Cons.prems by auto
  with p have "for_eachA (p # ps) (exec_procedure_func env) s = (Inr (), s\<lparr>world := w'\<rparr>)"
    by (simp add: seqA_def bindA_def)
  then show ?case by blast
qed

text \<open>The attributes that decide whether a test is run.\<close>

definition config_of where
  "config_of s = ((module_nm s, test_filter s, test_filter_retry s, reason_to_skip_all_tests s, abi_bitness s),
     (skip_on_32bit_abi s, skip_on_64bit_abi s, run_32bit_on_64bit_abi s), collect_tests_only s,
     bug_report_on_failure s)"

lemma filterOneTest_config:
  assumes "config_of s = config_of s'"
  shows "filterOneTest env n f s = filterOneTest env n f s' \<and> retry_rejects env n s = retry_rejects env n s'"
proof -
  have "filterOneTestThroughTestFilter env n f s = filterOneTestThroughTestFilter env n f s'"
    using assms by (cases f)
      (simp_all add: config_of_def filterOneTestThroughTestFilter_def getSkipAllTestsReason_def
        split: sum.split bool.split)
  moreover have "filterOneTestThroughAbiBitness n s = filterOneTestThroughAbiBitness n s'"
    using assms by (simp add: config_of_def filterOneTestThroughAbiBitness_def abi_excluded_def)
  moreover have "retry_rejects env n s = retry_rejects env n s'"
    using assms by (simp add: config_of_def retry_rejects_def)
  ultimately show ?thesis by (simp add: filterOneTest_def cong: if_cong)
qed

text \<open>The record \<open>i\<close> has got the verdict \<open>v\<close>, and neither the results nor the configuration have
  changed.\<close>

definition marked :: "'w base_test \<Rightarrow> nat \<Rightarrow> test_outcome \<Rightarrow> 'w base_test \<Rightarrow> bool" where
  "marked s i v s' \<longleftrightarrow> bt_results s' = bt_results s \<and> fullname (live s' i) = fullname (live s i) \<and>
     result (live s' i) = Some v \<and> current_record s' = Some i \<and>
     config_of s' = config_of s"

lemma end_record_marked:
  "current_record s = Some i \<Longrightarrow> marked s i v ((end_record env i v e s)\<lparr>world := w\<rparr>)"
  "current_record s = Some i \<Longrightarrow> marked s i v ((end_record env i v e s)\<lparr>is_final_run := b\<rparr>)"
  by (simp_all add: marked_def config_of_def end_record_def update_record_def test_end_defs
      split: test_outcome.split)

lemma mark_and_run_marked:
  assumes "calm_env env" and "current_record s = Some i" and "\<not> bug_report_on_failure s"
  shows "\<exists>s'. mark_and_run env i v e procs s = (Inr (), s') \<and> marked s i v s'"
proof -
  let ?s = "end_record env i v e s"
  have "current_record ?s = Some i" "\<not> bug_report_on_failure ?s"
    using assms(2,3) by (simp_all add: end_record_def update_record_def)
  then obtain w where "for_eachA procs (exec_procedure_func env) ?s = (Inr (), ?s\<lparr>world := w\<rparr>)"
    using procedures_calm [OF assms(1)] by blast
  then have "mark_and_run env i v e procs s = (Inr (), ?s\<lparr>world := w\<rparr>)"
    by (simp add: mark_and_run_def seqA_def bindA_def modifyA_def)
  then show ?thesis using end_record_marked(1) [OF assms(2)] by blast
qed

lemma then_finished_marked:
  assumes "calm_env env" and "current_record s = Some i" and "\<not> bug_report_on_failure s"
  shows "\<exists>s'. then_finished (mark_and_run env i v e procs) fin False s = ((Inr (), True, False), s') \<and>
    marked s i v s'"
proof -
  obtain s' where "mark_and_run env i v e procs s = (Inr (), s')" "marked s i v s'"
    using mark_and_run_marked [OF assms] by blast
  then show ?thesis by (simp add: then_finished_def)
qed

subsection \<open>The verdict table\<close>

text \<open>The verdict that the ending of a test function gets; \<^const>\<open>None\<close> means that it is not reported.\<close>

fun verdict_of :: "exc + pyval \<Rightarrow> test_outcome option" where
  "verdict_of (Inr v) =
     Some (if truthy v \<or> v = PNone then TEST_RESULT_PASS else TEST_RESULT_FAIL)"
| "verdict_of (Inl (Signal TestPass _ _)) = Some TEST_RESULT_PASS"
| "verdict_of (Inl (Signal TestSkip _ _)) = Some TEST_RESULT_SKIP"
| "verdict_of (Inl (Signal TestSilent _ _)) = None"
| "verdict_of (Inl (Signal _ _ _)) = Some TEST_RESULT_FAIL"
| "verdict_of (Inl (AssertionError _)) = Some TEST_RESULT_FAIL"
| "verdict_of (Inl (TimeoutError _)) = Some TEST_RESULT_FAIL"
| "verdict_of (Inl (AdbError _)) = Some TEST_RESULT_FAIL"
| "verdict_of (Inl KeyboardInterrupt) = Some TEST_RESULT_FAIL"
| "verdict_of (Inl _) = Some TEST_RESULT_ERROR"

text \<open>What leaves \<open>execOneTest\<close> for that ending, when the devices can be healed.\<close>

fun raised_by :: "(exc \<Rightarrow> string) \<Rightarrow> exc + pyval \<Rightarrow> exc + unit" where
  "raised_by str_fn (Inl (Signal TestAbortClass d x)) = Inl (Signal TestAbortClass d x)"
| "raised_by str_fn (Inl (Signal TestAbortAll d x)) = Inl (Signal TestAbortAll d x)"
| "raised_by str_fn (Inl (TimeoutError m)) = Inl (Signal TestAbortAll (str_fn (TimeoutError m)) PNone)"
| "raised_by str_fn (Inl KeyboardInterrupt) = Inl KeyboardInterrupt"
| "raised_by str_fn (Inl SystemExit) = Inl SystemExit"
| "raised_by str_fn _ = Inr ()"

lemma handle_exception_marked:
  assumes env: "calm_env env" and cur: "current_record s = Some i" and bug: "\<not> bug_report_on_failure s"
    and v: "verdict_of (Inl e) = Some v" and e: "e \<noteq> SystemExit"
  shows "\<exists>s'. handle_exception env i e fin s = ((raised_by (str_exc env) (Inl e), True, False), s') \<and>
    marked s i v s'"
proof -
  note finished = then_finished_marked [OF env cur bug]
  have abort: "\<exists>s'. abort_with env i e r s = ((Inl r, True, False), s') \<and>
      marked s i TEST_RESULT_FAIL s'" for r
    unfolding abort_with_def using end_record_marked(2) [OF cur] by blast
  obtain w where heal: "h_Heal env False s = (Inr True, s\<lparr>world := w\<rparr>)"
    using env unfolding calm_env_def by blast
  have healed: "\<exists>s'. then_finished (mark_and_run env i v e' procs) fin False (s\<lparr>world := w\<rparr>) =
      ((Inr (), True, False), s') \<and> marked s i v s'" for e' procs
    using then_finished_marked [OF env, of "s\<lparr>world := w\<rparr>" i v e' procs fin] cur bug
    by (simp add: marked_def config_of_def)
  show ?thesis
  proof (cases e)
    case (Signal kind d x)
    then show ?thesis using v finished abort
      by (cases kind) (auto simp: handle_exception_def Let_def)
  next
    case (AdbError m)
    then show ?thesis using v healed by (auto simp: handle_exception_def Let_def heal)
  qed (use v e finished abort in \<open>auto simp: handle_exception_def Let_def\<close>)
qed

lemma handle_verdict_marked:
  assumes "calm_env env" and "current_record s = Some i" and "\<not> bug_report_on_failure s"
    and "verdict_of (Inr x) = Some v"
  shows "\<exists>s'. handle_verdict env i x True s = ((Inr (), True, False), s') \<and> marked s i v s'"
proof (cases "truthy x \<or> x = PNone")
  case True
  obtain s' where "mark_and_run env i TEST_RESULT_PASS NoCause [P_onPass] s = (Inr (), s')"
    "marked s i TEST_RESULT_PASS s'" using mark_and_run_marked [OF assms(1-3)] by blast
  with True assms(4) show ?thesis by (simp add: handle_verdict_def)
next
  case False
  with assms(4) show ?thesis
    using then_finished_marked [OF assms(1-3)] by (auto simp: handle_verdict_def)
qed

subsection \<open>The whole of execOneTest\<close>

lemma testEntry_calm:
  assumes "calm_env env"
  shows "\<exists>w. testEntry env i s = (Inr PNone, s\<lparr>current_record := Some i, world := w\<rparr>)"
proof -
  let ?s = "s\<lparr>current_record := Some i\<rparr>"
  have "calm (h_AddTestReport env n)" for n using assms by (simp add: calm_env_def)
  then obtain v w where "h_AddTestReport env (test_name (live s i)) ?s = (Inr v, ?s\<lparr>world := w\<rparr>)"
    unfolding calm_def by blast
  then have "web_enabled s \<Longrightarrow> testEntry env i s = (Inr PNone, ?s\<lparr>world := w\<rparr>)"
    by (simp add: testEntry_def seqA_def bindA_def modifyA_def getA_def returnA_def)
  moreover have "\<not> web_enabled s \<Longrightarrow> testEntry env i s = (Inr PNone, ?s\<lparr>world := world s\<rparr>)"
    by (simp add: testEntry_def seqA_def bindA_def modifyA_def getA_def returnA_def)
  ultimately show ?thesis by blast
qed

lemma setUp_calm:
  assumes "calm_env env"
  shows "\<exists>w. setUp_proxy env n s = (Inr PNone, s\<lparr>world := w\<rparr>)"
proof -
  obtain w where heal: "h_Heal env True s = (Inr True, s\<lparr>world := w\<rparr>)"
    using assms unfolding calm_env_def by blast
  let ?m = "seqA (getA systrace_enabled (\<lambda>b. if b then h_StartSystrace env else returnA PNone)) (h_setUp env)"
  have "calm ?m" using assms by (auto simp: calm_env_def intro!: calm_rules)
  then obtain v w' where step: "?m (s\<lparr>world := w\<rparr>) = (Inr v, s\<lparr>world := w\<rparr>\<lparr>world := w'\<rparr>)"
    unfolding calm_def by blast
  have "bindA ?m (\<lambda>_. returnA PNone) (s\<lparr>world := w\<rparr>) = (Inr PNone, s\<lparr>world := w'\<rparr>)"
    using step by (simp add: bindA_def returnA_def)
  then have "setUp_proxy env n s = (Inr PNone, s\<lparr>world := w'\<rparr>)"
    unfolding setUp_proxy_def bindA_step [where m = "h_Heal env True", OF heal] seqA_bindA
    by (simp add: seqA_returnA)
  then show ?thesis by blast
qed

lemma outer_try_calm:
  assumes env: "calm_env env" and flt: "filterOneTest env n None s = Inr ()"
    and run: "\<not> collect_tests_only s" and q: "quiet func" and ends: "\<And>s. fst (func s) = r"
  shows "\<exists>w. outer_try env i n func s =
    ((r, case r of Inl _ \<Rightarrow> False | Inr _ \<Rightarrow> True), s\<lparr>current_record := Some i, world := w\<rparr>)"
proof -
  let ?s = "s\<lparr>current_record := Some i\<rparr>"
  obtain w1 where 1: "testEntry env i s = (Inr PNone, ?s\<lparr>world := w1\<rparr>)"
    using testEntry_calm [OF env] by blast
  have checks: "test_entry_checks env i n s = (Inr (), ?s\<lparr>world := w1\<rparr>)"
    using run flt filterOneTest_config [of "?s\<lparr>world := w1\<rparr>" s env n None]
    by (simp add: test_entry_checks_def bindA_def seqA_def 1 liftA_def assertTrue_def getA_def returnA_def
        config_of_def)
  obtain w2 where 2: "setUp_proxy env n (?s\<lparr>world := w1\<rparr>) = (Inr PNone, ?s\<lparr>world := w2\<rparr>)"
    using setUp_calm [OF env, of n "?s\<lparr>world := w1\<rparr>"] by auto
  obtain w3 where 3: "func (?s\<lparr>world := w2\<rparr>) = (r, ?s\<lparr>world := w3\<rparr>)"
    using quietE [OF q, of "?s\<lparr>world := w2\<rparr>"] ends [of "?s\<lparr>world := w2\<rparr>"] by auto
  obtain v w4 where 4: "tearDown_proxy env n (?s\<lparr>world := w3\<rparr>) = (Inr v, ?s\<lparr>world := w4\<rparr>)"
    using calmE [OF calm_tearDown [OF env], of n "?s\<lparr>world := w3\<rparr>"] by auto
  have "inner_try env n func (?s\<lparr>world := w1\<rparr>) =
      ((r, case r of Inl _ \<Rightarrow> False | Inr _ \<Rightarrow> True), ?s\<lparr>world := w4\<rparr>)"
    by (simp add: inner_try_def bindA_def seqA_def liftA_def assertTrue_def 2 3 4 split: sum.split)
  with checks show ?thesis by (auto simp: outer_try_def)
qed

lemma final_block_marked:
  assumes "marked s i v s'"
  shows "\<exists>s2. final_block env i True False s' = (Inr PNone, s2) \<and> current_record s2 = None \<and>
    bt_results s2 = addRecord (live s' i) (bt_results s) \<and> config_of s2 = config_of s"
  using assms
  by (simp add: config_of_def final_block_def seqA_def bindA_def modifyA_def returnA_def testExit_def marked_def)

lemma final_block_unfinished:
  assumes env: "calm_env env" and cur: "current_record s = Some i" and bug: "\<not> bug_report_on_failure s"
  shows "\<exists>s2 rec. final_block env i False False s = (Inr PNone, s2) \<and> current_record s2 = None \<and>
    bt_results s2 = addRecord rec (bt_results s) \<and> fullname rec = fullname (live s i) \<and>
    result rec = Some TEST_RESULT_ERROR \<and> config_of s2 = config_of s"
proof -
  have "calm (for_eachA (devices env) (h_DisableShell env))"
  proof -
    have "calm (for_eachA ds (h_DisableShell env))" for ds
      using env by (induction ds) (auto simp: calm_env_def intro!: calm_rules)
    then show ?thesis .
  qed
  then obtain v w where 1: "for_eachA (devices env) (h_DisableShell env) s = (Inr v, s\<lparr>world := w\<rparr>)"
    unfolding calm_def by blast
  obtain s' where 2: "mark_and_run env i TEST_RESULT_ERROR NoCause [P_onException, P_onFail]
      (s\<lparr>world := w\<rparr>) = (Inr (), s')" and m: "marked (s\<lparr>world := w\<rparr>) i TEST_RESULT_ERROR s'"
    using mark_and_run_marked [OF env, of "s\<lparr>world := w\<rparr>" i TEST_RESULT_ERROR NoCause
        "[P_onException, P_onFail]"] cur bug by auto
  have "final_block env i False False s = final_block env i True False s'"
    using 1 2 by (simp add: final_block_def seqA_def bindA_def returnA_def)
  moreover obtain s2 where "final_block env i True False s' = (Inr PNone, s2)" "current_record s2 = None"
    "bt_results s2 = addRecord (live s' i) (bt_results (s\<lparr>world := w\<rparr>))"
    "config_of s2 = config_of (s\<lparr>world := w\<rparr>)"
    using final_block_marked [OF m] by blast
  ultimately show ?thesis using m by (auto simp: marked_def config_of_def)
qed

lemma exec_recorded_verdict:
  assumes env: "calm_env env" and flt: "filterOneTest env n None s = Inr ()"
    and run: "\<not> collect_tests_only s" and bug: "\<not> bug_report_on_failure s"
    and q: "quiet func" and ends: "\<And>s. fst (func s) = r" and v: "verdict_of r = Some v"
  shows "\<exists>s' rec. exec_recorded env i n func s = (raised_by (str_exc env) r, s') \<and>
    current_record s' = None \<and> bt_results s' = addRecord rec (bt_results s) \<and>
    fullname rec = fullname (live s i) \<and> result rec = Some v \<and> config_of s' = config_of s"
proof -
  obtain w where t: "outer_try env i n func s =
      ((r, case r of Inl _ \<Rightarrow> False | Inr _ \<Rightarrow> True), s\<lparr>current_record := Some i, world := w\<rparr>)"
    using outer_try_calm [OF env flt run q ends] by blast
  let ?s = "s\<lparr>current_record := Some i, world := w\<rparr>"
  have cur: "current_record ?s = Some i" and bg: "\<not> bug_report_on_failure ?s" using bug by simp_all
  show ?thesis
  proof (cases "r = Inl SystemExit")
    case True
    with v have "v = TEST_RESULT_ERROR" by simp
    with True t final_block_unfinished [OF env cur bg] show ?thesis
      by (auto simp: exec_recorded_def handle_exception_def config_of_def)
  next
    case False
    have "\<exists>s2. (case r of Inl e \<Rightarrow> handle_exception env i e False ?s
        | Inr x \<Rightarrow> handle_verdict env i x True ?s) = ((raised_by (str_exc env) r, True, False), s2) \<and>
        marked ?s i v s2"
      using False v handle_exception_marked [OF env cur bg] handle_verdict_marked [OF env cur bg]
      by (cases r) auto
    then obtain s2 where h: "(case r of Inl e \<Rightarrow> handle_exception env i e False ?s
        | Inr x \<Rightarrow> handle_verdict env i x True ?s) = ((raised_by (str_exc env) r, True, False), s2)"
      and m: "marked ?s i v s2" by blast
    obtain s3 where f: "final_block env i True False s2 = (Inr PNone, s3)" "current_record s3 = None"
      "bt_results s3 = addRecord (live s2 i) (bt_results ?s)" "config_of s3 = config_of ?s" using final_block_marked [OF m] by blast
    have "exec_recorded env i n func s = (raised_by (str_exc env) r, s3)"
      using t h f(1) by (cases r) (simp_all add: exec_recorded_def)
    with f m show ?thesis by (auto simp: marked_def config_of_def)
  qed
qed

end
