(* ===== verification/Execution_Properties.thy ===== *)
theory Execution_Properties
  imports Execution_Verdicts
begin

section \<open>Properties of test execution\<close>

text \<open>
  What the runner promises to the author of a test and to the reader of a report: the verdict of each
  way a test can end, the fate of filtered tests, the retry of failed tests, generated tests, the
  selection of tests, and that a run leaves a well-formed result whatever the scripts do.
\<close>

subsection \<open>A concrete environment\<close>

definition plain_env :: "'w env" where
  "plain_env =
     \<lparr>engine = example_engine, str_exc = (\<lambda>_. ''e''), str_val = (\<lambda>_. ''v''), clk = int, devices = [0],
      h_setUpClass = returnA PNone, h_tearDownClass = returnA PNone, h_setUp = returnA PNone,
      h_tearDown = returnA PNone, h_onFail = (\<lambda>_ _. returnA PNone), h_onPass = (\<lambda>_ _. returnA PNone),
      h_onSkip = (\<lambda>_ _. returnA PNone), h_onSilent = (\<lambda>_ _. returnA PNone),
      h_onException = (\<lambda>_ _. returnA PNone), h_Heal = (\<lambda>_. returnA True),
      h_DumpBugReport = (\<lambda>_. returnA PNone), h_DumpLogcat = (\<lambda>_. returnA PNone),
      h_AddTestReport = (\<lambda>_. returnA PNone), h_SetTestResult = (\<lambda>_. returnA PNone),
      h_GetTestModuleKeys = returnA (''m'', 0), h_StartSystrace = returnA PNone,
      h_ProcessSystrace = (\<lambda>_. returnA PNone), h_resetTimeout = returnA PNone,
      h_MeetFirstApiLevel = returnA True, h_CheckFeature = (\<lambda>_. returnA True),
      h_device_stop = (\<lambda>_ _. returnA PNone), h_device_start = (\<lambda>_. returnA PNone),
      h_waitForProcessStop = (\<lambda>_ _. returnA PNone), h_stopServices = (\<lambda>_. returnA PNone),
      h_startServices = (\<lambda>_. returnA PNone), h_DisableShell = (\<lambda>_. returnA PNone),
      h_write_retry_log = (\<lambda>_. returnA PNone)\<rparr>"

definition demo_env :: "unit env" where "demo_env = plain_env"

lemmas demo_env_simps = demo_env_def plain_env_def

definition demo_object :: "unit base_test" where
  "demo_object =
     \<lparr>module_nm = ''Demo'', bt_results = TestResult, live = (\<lambda>i. TestResultRecord i [] None),
      current_record = None, next_oid = 0, ticks = 0, is_final_run = False,
      test_filter = retry_filter example_engine [], test_filter_retry = None,
      reason_to_skip_all_tests = None, user_params = PDict [], abi_bitness = Some ''64'',
      skip_on_32bit_abi = False, skip_on_64bit_abi = False, run_32bit_on_64bit_abi = False,
      max_retry_count = 1, collect_tests_only = False, run_as_vts_self_test = False,
      bug_report_on_failure = False, logcat_on_failure = False, web_enabled = False,
      systrace_enabled = False, tests_attr = [], world = ()\<rparr>"

lemma same_world: "\<exists>w. s = s\<lparr>world := w\<rparr>"
proof -
  have "s = s\<lparr>world := world s\<rparr>" by simp
  then show ?thesis by blast
qed

lemma quiet_pure: "quiet (returnA v)" "quiet (raiseA e)"
  unfolding quiet_def returnA_def raiseA_def snd_conv using same_world by blast+

lemma calm_demo [simp]: "calm_env demo_env"
  by (simp add: calm_env_def demo_env_simps calm_return quiet_pure) (simp add: returnA_def same_world)

lemma keeps_demo [simp]: "env_keeps I demo_env"
  by (simp add: env_keeps_def demo_env_simps keeps_pure)

lemma demo_filters:
  assumes "test_filter s = retry_filter example_engine []" "test_filter_retry s = None"
    "reason_to_skip_all_tests s = None" "abi_bitness s = Some ''64''" "\<not> skip_on_64bit_abi s"
  shows "filterOneTest demo_env ''testA'' None s = Inr () \<and> retry_rejects demo_env n s = Inr False"
proof -
  have "Filter_Filter example_engine (retry_filter example_engine []) ''testA'' = Inr True"
    using retry.accepts_none [of example_engine "''testA''"] by (simp add: filter_accepts_def)
  then have "filterOneTestThroughTestFilter demo_env ''testA'' None s = Inr ()"
    using assms by (simp add: filterOneTestThroughTestFilter_def demo_env_simps getSkipAllTestsReason_def)
  moreover have "\<not> abi_excluded ''testA'' s"
    using assms by (simp add: abi_excluded_def filter_consts endswith_def lower_def lower_char_def Let_def)
  moreover have "retry_rejects demo_env m s = Inr False" for m
    using assms by (simp add: retry_rejects_def)
  ultimately show ?thesis
    by (simp add: filterOneTest_def filterOneTestThroughAbiBitness_def skipIf_def py_res)
qed

lemma demo_filter [simp]: "filterOneTest demo_env ''testA'' None demo_object = Inr ()"
  "retry_rejects demo_env n demo_object = Inr False"
  using demo_filters [of demo_object n] by (simp_all add: demo_object_def)

subsection \<open>Verdicts\<close>

lemma fresh_record:
  assumes "new_record n s = (i, s1)" and "s2 = begin_record env i s1"
  shows "fullname (live s2 i) = module_nm s @ ''.'' @ n" "bt_results s2 = bt_results s"
    "config_of s2 = config_of s"
  using assms
  by (auto simp: new_record_def begin_record_def update_record_def testBegin_def TestResultRecord_def
      fullname_def config_of_def)

lemma execOneTest_recorded:
  assumes "calm_env env" and "retry_rejects env n s = Inr False" and "filterOneTest env n None s = Inr ()"
    and "\<not> collect_tests_only s" and "\<not> bug_report_on_failure s"
    and "quiet func" and "\<And>u. fst (func u) = r" and "verdict_of r = Some v"
  shows "\<exists>s' rec. execOneTest env n func s = (raised_by (str_exc env) r, s') \<and>
    bt_results s' = addRecord rec (bt_results s) \<and> fullname rec = module_nm s @ ''.'' @ n \<and>
    result rec = Some v \<and> current_record s' = None \<and> config_of s' = config_of s"
proof -
  obtain i s1 where new: "new_record n s = (i, s1)" by fastforce
  let ?s2 = "begin_record env i s1"
  note fresh = fresh_record [OF new refl, of env]
  have "filterOneTest env n None ?s2 = Inr ()" "\<not> collect_tests_only ?s2" "\<not> bug_report_on_failure ?s2"
    using assms(3-5) filterOneTest_config [OF fresh(3)] fresh(3) by (simp_all add: config_of_def)
  from exec_recorded_verdict [OF assms(1) this assms(6-8), of i] fresh
  show ?thesis using assms(2) new by (auto simp: execOneTest_def)
qed



subsection \<open>Tests that are not run\<close>

lemma outer_try_entry:
  assumes env: "calm_env env"
    and ends: "filterOneTest env n None s = Inl e \<or> filterOneTest env n None s = Inr () \<and> collect_tests_only s \<and>
      e = raise_signal TestPass ''Collect tests only.'' PNone"
  shows "\<exists>w. \<forall>func. outer_try env i n func s = ((Inl e, False), s\<lparr>current_record := Some i, world := w\<rparr>)"
proof -
  let ?s = "s\<lparr>current_record := Some i\<rparr>"
  obtain w where 1: "testEntry env i s = (Inr PNone, ?s\<lparr>world := w\<rparr>)"
    using testEntry_calm [OF env] by blast
  have "filterOneTest env n None (?s\<lparr>world := w\<rparr>) = filterOneTest env n None s"
    using filterOneTest_config [of "?s\<lparr>world := w\<rparr>" s] by (simp add: config_of_def)
  then have "test_entry_checks env i n s = (Inl e, ?s\<lparr>world := w\<rparr>)"
    using ends by (auto simp: test_entry_checks_def bindA_def seqA_def 1 liftA_def assertTrue_def getA_def
        returnA_def explicitPass_def)
  then have "\<forall>func. outer_try env i n func s = ((Inl e, False), ?s\<lparr>world := w\<rparr>)"
    by (simp add: outer_try_def)
  then show ?thesis by blast
qed

lemma removeRecord_name: "fullname r = fullname r' \<Longrightarrow> removeRecord r b s = removeRecord r' b' s"
  by (simp add: removeRecord_def)

lemma exec_recorded_entry:
  assumes env: "calm_env env" and bug: "\<not> bug_report_on_failure s"
    and ends: "filterOneTest env n None s = Inl e \<or> filterOneTest env n None s = Inr () \<and> collect_tests_only s \<and>
      e = raise_signal TestPass ''Collect tests only.'' PNone"
    and e: "e = Signal kind d x" and v: "verdict_of (Inl e) = Some v" and ret: "raised_by (str_exc env) (Inl e) = Inr ()"
  shows "\<exists>s' rec. (\<forall>func. exec_recorded env i n func s = (Inr (), s')) \<and>
    bt_results s' = addRecord rec (bt_results s) \<and> fullname rec = fullname (live s i) \<and> result rec = Some v"
proof -
  obtain w where t: "\<And>func. outer_try env i n func s = ((Inl e, False), s\<lparr>current_record := Some i, world := w\<rparr>)"
    using outer_try_entry [OF env ends] by blast
  let ?s = "s\<lparr>current_record := Some i, world := w\<rparr>"
  obtain s2 where h: "handle_exception env i e False ?s = ((Inr (), True, False), s2)" and m: "marked ?s i v s2"
    using handle_exception_marked [OF env _ _ v, of ?s i False] bug e ret by auto
  obtain s3 where "final_block env i True False s2 = (Inr PNone, s3)"
    "bt_results s3 = addRecord (live s2 i) (bt_results ?s)" using final_block_marked [OF m] by blast
  then have "\<forall>func. exec_recorded env i n func s = (Inr (), s3)" "bt_results s3 = addRecord (live s2 i) (bt_results s)"
    using t h by (simp_all add: exec_recorded_def)
  then show ?thesis using m by (auto simp: marked_def)
qed

lemma exec_recorded_silent:
  assumes env: "calm_env env" and bug: "\<not> bug_report_on_failure s"
    and ends: "filterOneTest env n None s = Inl (Signal TestSilent d x)"
  shows "\<exists>s'. (\<forall>func. exec_recorded env i n func s = (Inr (), s')) \<and>
    bt_results s' = removeRecord (live s i) True (bt_results s)"
proof -
  obtain w where t: "\<And>func. outer_try env i n func s =
      ((Inl (Signal TestSilent d x), False), s\<lparr>current_record := Some i, world := w\<rparr>)"
    using outer_try_entry [OF env, of n s "Signal TestSilent d x" i] ends by blast
  obtain v w' where p: "exec_procedure_func env P_onSilent (s\<lparr>current_record := Some i, world := w\<rparr>) =
      (Inr v, s\<lparr>current_record := Some i, world := w\<rparr>\<lparr>world := w'\<rparr>)"
    using exec_procedure_calm [OF env, of "s\<lparr>current_record := Some i, world := w\<rparr>" i P_onSilent] bug by auto
  let ?s' = "s\<lparr>current_record := None, world := w', bt_results := removeRecord (live s i) True (bt_results s)\<rparr>"
  have "exec_recorded env i n func s = (Inr (), ?s')" for func
    using p by (simp add: exec_recorded_def t handle_exception_def Let_def then_finished_def seqA_def bindA_def
        modifyA_def final_block_def testExit_def returnA_def)
  then have "(\<forall>func. exec_recorded env i n func s = (Inr (), ?s')) \<and>
      bt_results ?s' = removeRecord (live s i) True (bt_results s)" by simp
  then show ?thesis by blast
qed

text \<open>(C38) A test that a filter rejects is never run: whatever its function, \<open>execOneTest\<close> returns
  normally in the same state. A name the test filter rejects is silenced and leaves no record, a test
  excluded by the ABI bitness or by a request to skip all tests is recorded as skipped.\<close>

theorem filtered_test_not_run:
  assumes "calm_env env" and "retry_rejects env n s = Inr False" and "\<not> bug_report_on_failure s"
    and "filterOneTest env n None s = Inl (Signal kind d x)" and "kind = TestSkip \<or> kind = TestSilent"
  shows "\<exists>s'. (\<forall>func. execOneTest env n func s = (Inr (), s')) \<and>
    (if kind = TestSilent
     then bt_results s' = removeRecord (TestResultRecord 0 n (Some (module_nm s))) True (bt_results s)
     else \<exists>rec. bt_results s' = addRecord rec (bt_results s) \<and> fullname rec = module_nm s @ ''.'' @ n \<and>
       result rec = Some TEST_RESULT_SKIP)"
proof -
  obtain i s1 where new: "new_record n s = (i, s1)" by fastforce
  let ?s2 = "begin_record env i s1"
  note fresh = fresh_record [OF new refl, of env]
  have flt: "filterOneTest env n None ?s2 = Inl (Signal kind d x)" and bug: "\<not> bug_report_on_failure ?s2"
    using assms(3,4) filterOneTest_config [OF fresh(3)] fresh(3) by (simp_all add: config_of_def)
  have run: "execOneTest env n func s = exec_recorded env i n func ?s2" for func
    using assms(2) new by (simp add: execOneTest_def)
  show ?thesis
  proof (cases "kind = TestSilent")
    case True
    have "fullname (live ?s2 i) = fullname (TestResultRecord 0 n (Some (module_nm s)))"
      using fresh(1) by (simp add: fullname_def TestResultRecord_def)
    with True exec_recorded_silent [OF assms(1) bug flt [unfolded True], of i] fresh(2) show ?thesis
      by (auto simp: run removeRecord_name)
  next
    case False
    then have k: "kind = TestSkip" using assms(5) by simp
    obtain s' rec where "\<forall>func. exec_recorded env i n func ?s2 = (Inr (), s')"
      "bt_results s' = addRecord rec (bt_results ?s2)" "fullname rec = fullname (live ?s2 i)"
      "result rec = Some TEST_RESULT_SKIP"
      using exec_recorded_entry [OF assms(1) bug, of n "Signal kind d x" kind d x TEST_RESULT_SKIP i] flt k by auto
    with False fresh show ?thesis by (auto simp: run)
  qed
qed

text \<open>The object of the example with every test skipped.\<close>

definition demo_skipping :: "unit base_test" where
  "demo_skipping = skipAllTests ''no hal'' demo_object"

lemma demo_skipping_filter:
  "filterOneTest demo_env ''testA'' None demo_skipping = Inl (Signal TestSkip ''no hal'' PNone)"
proof -
  have "Filter_Filter example_engine (retry_filter example_engine []) ''testA'' = Inr True"
    using retry.accepts_none [of example_engine "''testA''"] by (simp add: filter_accepts_def)
  then show ?thesis
    by (simp add: filterOneTest_def retry_rejects_def filterOneTestThroughTestFilter_def demo_skipping_def
        skipAllTests_def demo_object_def demo_env_simps getSkipAllTestsReason_def raise_signal_def py_res)
qed

theorem filtered_test_not_run_witness:
  "\<exists>s' rec. execOneTest demo_env ''testA'' (raiseA KeyboardInterrupt) demo_skipping = (Inr (), s') \<and>
     bt_results s' = addRecord rec TestResult \<and> result rec = Some TEST_RESULT_SKIP"
proof -
  have "retry_rejects demo_env ''testA'' demo_skipping = Inr False" "\<not> bug_report_on_failure demo_skipping"
    "bt_results demo_skipping = TestResult"
    by (simp_all add: demo_skipping_def skipAllTests_def demo_object_def retry_rejects_def)
  with filtered_test_not_run [OF calm_demo _ _ demo_skipping_filter] show ?thesis by auto
qed

text \<open>With \<open>collect_tests_only\<close> every test that the filters accept is recorded as passed without
  being run.\<close>

theorem collect_only_not_run:
  assumes "calm_env env" and "retry_rejects env n s = Inr False" and "\<not> bug_report_on_failure s"
    and "filterOneTest env n None s = Inr ()" and "collect_tests_only s"
  shows "\<exists>s' rec. (\<forall>func. execOneTest env n func s = (Inr (), s')) \<and>
    bt_results s' = addRecord rec (bt_results s) \<and> fullname rec = module_nm s @ ''.'' @ n \<and>
    result rec = Some TEST_RESULT_PASS"
proof -
  obtain i s1 where new: "new_record n s = (i, s1)" by fastforce
  let ?s2 = "begin_record env i s1"
  let ?e = "raise_signal TestPass ''Collect tests only.'' PNone"
  note fresh = fresh_record [OF new refl, of env]
  have "filterOneTest env n None ?s2 = Inr ()" "collect_tests_only ?s2" "\<not> bug_report_on_failure ?s2"
    using assms(3-5) filterOneTest_config [OF fresh(3)] fresh(3) by (simp_all add: config_of_def)
  with exec_recorded_entry [OF assms(1), of ?s2 n ?e TestPass "''Collect tests only.''" PNone TEST_RESULT_PASS i]
  show ?thesis using assms(2) new fresh by (auto simp: execOneTest_def raise_signal_def)
qed

theorem collect_only_not_run_witness:
  "\<exists>s'. execOneTest demo_env ''testA'' (raiseA KeyboardInterrupt) (demo_object\<lparr>collect_tests_only := True\<rparr>) =
     (Inr (), s')"
proof -
  let ?s = "demo_object\<lparr>collect_tests_only := True\<rparr>"
  have "filterOneTest demo_env ''testA'' None ?s = Inr ()" "retry_rejects demo_env ''testA'' ?s = Inr False"
    "\<not> bug_report_on_failure ?s"
    using demo_filters [of ?s "''testA''"] by (simp_all add: demo_object_def)
  then show ?thesis using collect_only_not_run [OF calm_demo, of "''testA''" ?s] by auto
qed

subsection \<open>Retrying failed tests\<close>

text \<open>(C9) A retry runs exactly the tests that have not passed: after \<open>prepare_retry\<close>, \<open>execOneTest\<close>
  does nothing for a test that was neither failed, nor in error, nor missing, and every test that was is
  let through the retry filter, provided the names are plain ones.\<close>

theorem retry_runs_non_passing_only:
  assumes "calm_env env" and "\<And>ns. calm (h_write_retry_log env ns)"
    and "names = map test_name (getNonPassingRecords True True False True (bt_results s))"
    and "names \<noteq> []" and "\<And>n. n \<in> set names \<Longrightarrow> plain_name n"
  shows "\<exists>s'. prepare_retry env s = (Inr True, s') \<and> bt_results s' = bt_results s \<and>
    (\<forall>n. n \<notin> set names \<longrightarrow> (\<forall>func. execOneTest env n func s' = (Inr (), s'))) \<and>
    (\<forall>n \<in> set names. retry_rejects env n s' = Inr False)"
proof -
  let ?f = "retry_filter (engine env) names"
  obtain w where heal: "h_Heal env False s = (Inr True, s\<lparr>world := w\<rparr>)"
    using assms(1) unfolding calm_env_def by blast
  let ?s1 = "s\<lparr>world := w, test_filter_retry := Some ?f\<rparr>"
  obtain v w' where log: "h_write_retry_log env names ?s1 = (Inr v, ?s1\<lparr>world := w'\<rparr>)"
    using calmE [OF assms(2)] by blast
  let ?s2 = "?s1\<lparr>world := w'\<rparr>"
  have prep: "prepare_retry env s = (Inr True, ?s2)"
    using log assms(3) by (simp add: prepare_retry_def bindA_def heal seqA_def getA_def modifyA_def returnA_def)
  have "Filter_Filter (engine env) ?f n = Inr (n \<in> set names)" for n
  proof -
    have acc: "filter_accepts (engine env) ?f n \<longleftrightarrow> n \<in> set names"
      by (rule retry.accepts_build [OF assms(4,5)])
    moreover have "\<exists>b. Filter_Filter (engine env) ?f n = Inr b"
      unfolding retry_filter_cells by (rule wf_Filter_ok [OF init_wf])
    ultimately show ?thesis by (auto simp: filter_accepts_def)
  qed
  then have rej: "retry_rejects env n ?s2 = Inr (n \<notin> set names)" for n
    by (simp add: retry_rejects_def)
  then have "\<forall>n. n \<notin> set names \<longrightarrow> (\<forall>func. execOneTest env n func ?s2 = (Inr (), ?s2))"
    by (simp add: execOneTest_def)
  with prep rej show ?thesis by auto
qed

text \<open>A result with one failed and one passed test.\<close>

definition demo_failed :: "unit base_test" where
  "demo_failed = demo_object\<lparr>bt_results := TestResult\<lparr>failed := [TestResultRecord 0 ''testA'' (Some ''Demo'')],
     passed := [TestResultRecord 1 ''testB'' (Some ''Demo'')]\<rparr>\<rparr>"

theorem retry_runs_non_passing_only_witness:
  "\<exists>s'. prepare_retry demo_env demo_failed = (Inr True, s') \<and>
     execOneTest demo_env ''testB'' (returnA PNone) s' = (Inr (), s') \<and>
     retry_rejects demo_env ''testA'' s' = Inr False"
proof -
  have names: "[''testA''] = map test_name (getNonPassingRecords True True False True (bt_results demo_failed))"
    by (simp add: demo_failed_def getNonPassingRecords_def getNonExecutedRecords_def TestResult_def
        TestResultRecord_def)
  have log: "\<And>ns. calm (h_write_retry_log demo_env ns)" by (simp add: demo_env_simps calm_return)
  have "plain_name ''testA''"
    by (simp add: plain_name_def IsRegexFilter_def startswith_def endswith_def filter_consts unescape_def)
  then show ?thesis
    using retry_runs_non_passing_only [OF calm_demo log names] by auto
qed

lemma keeps_final_attempt:
  assumes "env_keeps is_final_run env" and "\<And>t g. t \<in> set tests \<Longrightarrow> snd t = Some g \<Longrightarrow> keeps is_final_run g"
  shows "keeps is_final_run (run_attempt env tests)"
  unfolding run_attempt_def by (intro keeps_rules finality.keeps_runTests [OF assms])

lemma retry_loop_final:
  assumes fin: "env_keeps is_final_run env" "\<And>t g. t \<in> set tests \<Longrightarrow> snd t = Some g \<Longrightarrow> keeps is_final_run g"
    and lim: "env_keeps (\<lambda>s. max_retry_count s = m) env"
      "\<And>t g. t \<in> set tests \<Longrightarrow> snd t = Some g \<Longrightarrow> keeps (\<lambda>s. max_retry_count s = m) g"
    and heals: "\<And>s. fst (h_Heal env False s) = Inr True"
  shows "retry_loop env tests n a s = (Inr (), s') \<Longrightarrow> max_retry_count s = m \<Longrightarrow> int n = m + 1 - a \<Longrightarrow>
    a \<le> m \<Longrightarrow> is_final_run s'"
proof (induction n arbitrary: a s)
  case (Suc n)
  let ?p = "if a \<noteq> 0 then prepare_retry env else returnA True"
  obtain r s1 where p: "?p s = (r, s1)" by fastforce
  obtain h u where heal: "h_Heal env False s = (h, u)" by fastforce
  have "\<exists>e. r = Inl e \<or> r = Inr True"
    using p heals [of s] heal
    by (auto simp: prepare_retry_def returnA_def bindA_def seqA_def getA_def modifyA_def
        split: if_splits prod.splits sum.splits)
  with Suc.prems(1) p have r: "r = Inr True" by (auto simp: bindA_def)
  have "keeps (\<lambda>s. max_retry_count s = m) (prepare_retry env)"
    unfolding prepare_retry_def using lim(1) by (auto simp: env_keeps_def intro!: keeps_rules)
  then have m1: "max_retry_count s1 = m"
    using p Suc.prems(2) by (auto simp: keeps_def returnA_def split: if_splits dest!: spec [of _ s])
  let ?s1 = "s1\<lparr>is_final_run := (a = m)\<rparr>"
  obtain q s2 where att: "run_attempt env tests ?s1 = (q, s2)" by fastforce
  have "keeps (\<lambda>s. max_retry_count s = m) (run_attempt env tests)" using lim by (rule limit.keeps_run_attempt)
  then have m2: "max_retry_count s2 = m" using att m1 by (fastforce dest: keepsD [where s = ?s1])
  have step: "retry_loop env tests (Suc n) a s =
      (case q of Inl e \<Rightarrow> (Inl e, s2) | Inr _ \<Rightarrow> if is_final_run s2 then (Inr (), s2) else retry_loop env tests n (a + 1) s2)"
    using p r att m1 by (simp add: bindA_def seqA_def modifyA_def getA_def returnA_def split: sum.split)
  show ?case
  proof (cases "is_final_run s2")
    case True
    with step Suc.prems(1) show ?thesis by (auto split: sum.splits)
  next
    case False
    have "keeps is_final_run (run_attempt env tests)" using fin by (rule keeps_final_attempt)
    with False have "a \<noteq> m" using att by (fastforce dest: keepsD [where s = ?s1])
    with False step Suc.prems m2 Suc.IH [of "a + 1" s2] show ?thesis by (auto split: sum.splits)
  qed
qed simp



subsection \<open>Generated tests\<close>

lemma passed_addRecord:
  "passed (addRecord r s) = filter (\<lambda>x. fullname x \<noteq> fullname r) (passed s) @
     (if result r = Some TEST_RESULT_PASS then [r] else [])"
  by (simp add: addRecord_def removeRecord_def Let_def)

lemma passed_count_step:
  "int (length (passed (addRecord r s))) - int (length (passed s)) = 1 \<longleftrightarrow>
     result r = Some TEST_RESULT_PASS \<and> fullname r \<notin> fullname ` set (passed s)"
proof (cases "fullname r \<in> fullname ` set (passed s)")
  case True
  then have "length (filter (\<lambda>x. fullname x \<noteq> fullname r) (passed s)) < length (passed s)"
    by (auto intro: length_filter_less)
  with True show ?thesis by (auto simp: passed_addRecord)
next
  case False
  then have "filter (\<lambda>x. fullname x \<noteq> fullname r) (passed s) = passed s"
    by (simp add: filter_id_conv) (metis image_eqI)
  with False show ?thesis by (auto simp: passed_addRecord)
qed

lemma run_settings_failed:
  assumes env: "calm_env env"
    and q: "\<And>x. x \<in> set settings \<Longrightarrow> quiet (f x)" and ends: "\<And>x u. x \<in> set settings \<Longrightarrow> fst (f x u) = r x"
    and v: "\<And>x. x \<in> set settings \<Longrightarrow> verdict_of (r x) = Some (v x)"
    and ret: "\<And>x. x \<in> set settings \<Longrightarrow> raised_by (str_exc env) (r x) = Inr ()"
  shows "distinct (map gen settings) \<Longrightarrow> \<not> collect_tests_only s \<Longrightarrow> \<not> bug_report_on_failure s \<Longrightarrow>
    \<forall>x \<in> set settings. retry_rejects env (gen x) s = Inr False \<and> filterOneTest env (gen x) None s = Inr () \<Longrightarrow>
    \<exists>s'. run_settings env f gen settings s =
      (Inr (filter (\<lambda>x. v x \<noteq> TEST_RESULT_PASS \<or> module_nm s @ ''.'' @ gen x \<in> fullname ` set (passed (bt_results s)))
        settings), s')"
  using q ends v ret
proof (induction settings arbitrary: s)
  case (Cons x xs)
  have "\<exists>s' rec. execOneTest env (gen x) (f x) s = (raised_by (str_exc env) (r x), s') \<and>
      bt_results s' = addRecord rec (bt_results s) \<and> fullname rec = module_nm s @ ''.'' @ gen x \<and>
      result rec = Some (v x) \<and> current_record s' = None \<and> config_of s' = config_of s"
    by (rule execOneTest_recorded [OF env]) (use Cons.prems in simp_all)
  then obtain s1 rec where run: "execOneTest env (gen x) (f x) s = (Inr (), s1)"
    and res: "bt_results s1 = addRecord rec (bt_results s)" "fullname rec = module_nm s @ ''.'' @ gen x"
      "result rec = Some (v x)" and cfg: "config_of s1 = config_of s"
    using Cons.prems(8) by auto
  have same: "module_nm s1 = module_nm s" "\<not> collect_tests_only s1" "\<not> bug_report_on_failure s1"
    using cfg Cons.prems(2,3) by (simp_all add: config_of_def)
  have flt: "\<forall>y \<in> set xs. retry_rejects env (gen y) s1 = Inr False \<and> filterOneTest env (gen y) None s1 = Inr ()"
    using Cons.prems(4) filterOneTest_config [OF cfg] by simp
  have old: "module_nm s @ ''.'' @ gen y \<in> fullname ` set (passed (bt_results s1)) \<longleftrightarrow>
      module_nm s @ ''.'' @ gen y \<in> fullname ` set (passed (bt_results s))" if "y \<in> set xs" for y
  proof -
    have "fullname rec \<noteq> module_nm s @ ''.'' @ gen y" using that Cons.prems(1) by (auto simp: res)
    then have "a \<in> fullname ` set (passed (addRecord rec t)) \<longleftrightarrow> a \<in> fullname ` set (passed t)"
      if "a = module_nm s @ ''.'' @ gen y" for a t
      using that by (auto simp: passed_addRecord image_iff)
    then show ?thesis by (simp add: res(1))
  qed
  have "\<exists>s'. run_settings env f gen xs s1 =
      (Inr (filter (\<lambda>x. v x \<noteq> TEST_RESULT_PASS \<or> module_nm s1 @ ''.'' @ gen x \<in> fullname ` set (passed (bt_results s1)))
        xs), s')"
    by (rule Cons.IH) (use Cons.prems same flt in simp_all)
  then obtain s' where rest: "run_settings env f gen xs s1 =
      (Inr (filter (\<lambda>x. v x \<noteq> TEST_RESULT_PASS \<or> module_nm s @ ''.'' @ gen x \<in> fullname ` set (passed (bt_results s)))
        xs), s')"
    using old same(1) by (auto cong: filter_cong)
  show ?case
    using run rest passed_count_step [of rec "bt_results s"] res
    by (auto simp: getA_def seqA_def bindA_def returnA_def)
qed (simp add: returnA_def)

lemma request_fold_config:
  "config_of (fold (\<lambda>x. request_test (g x)) xs s) = config_of s \<and>
   passed (bt_results (fold (\<lambda>x. request_test (g x)) xs s)) = passed (bt_results s)"
  by (induction xs arbitrary: s) (simp_all add: request_test_def config_of_def)

text \<open>\<open>runGeneratedTests\<close> returns the settings whose test did not pass, and also those whose test had
  passed before: success is read off the growth of the list of passed records, which a repeated pass
  leaves at its length.\<close>

theorem runGeneratedTests_failed:
  assumes "calm_env env" and "distinct (map (GenerateTestName tag nf) settings)"
    and "\<And>x. x \<in> set settings \<Longrightarrow> retry_rejects env (GenerateTestName tag nf x) s = Inr False"
    and "\<And>x. x \<in> set settings \<Longrightarrow> filterOneTest env (GenerateTestName tag nf x) None s = Inr ()"
    and "\<not> collect_tests_only s" and "\<not> bug_report_on_failure s"
    and "\<And>x. x \<in> set settings \<Longrightarrow> quiet (f x)" and "\<And>x u. x \<in> set settings \<Longrightarrow> fst (f x u) = r x"
    and "\<And>x. x \<in> set settings \<Longrightarrow> verdict_of (r x) = Some (v x)"
    and "\<And>x. x \<in> set settings \<Longrightarrow> raised_by (str_exc env) (r x) = Inr ()"
  shows "fst (runGeneratedTests env f settings tag nf s) =
    Inr (filter (\<lambda>x. v x \<noteq> TEST_RESULT_PASS \<or>
      module_nm s @ ''.'' @ GenerateTestName tag nf x \<in> fullname ` set (passed (bt_results s))) settings)"
proof -
  let ?gen = "GenerateTestName tag nf"
  let ?s = "fold (\<lambda>x. request_test (?gen x)) settings s"
  note same = request_fold_config [of ?gen settings s]
  have "\<exists>s'. run_settings env f ?gen settings ?s =
      (Inr (filter (\<lambda>x. v x \<noteq> TEST_RESULT_PASS \<or> module_nm ?s @ ''.'' @ ?gen x \<in> fullname ` set (passed (bt_results ?s)))
        settings), s')"
    by (rule run_settings_failed [OF assms(1,7-10) assms(2)])
       (use assms same filterOneTest_config [OF conjunct1 [OF same]] in \<open>simp_all add: config_of_def\<close>)
  then show ?thesis
    using same by (auto simp: runGeneratedTests_def seqA_def bindA_def modifyA_def config_of_def)
qed

theorem runGeneratedTests_failed_witness:
  "fst (runGeneratedTests demo_env (\<lambda>_. returnA (PBool False)) [''x''] ''t'' (Some (\<lambda>_. Inr ''testA'')) demo_object) =
     Inr [''x'']"
proof -
  have gen: "GenerateTestName ''t'' (Some (\<lambda>_. Inr ''testA'')) ''x'' = ''testA''"
    by (simp add: GenerateTestName_def MAX_FILENAME_LEN_def)
  have "fst (runGeneratedTests demo_env (\<lambda>_. returnA (PBool False)) [''x''] ''t'' (Some (\<lambda>_. Inr ''testA'')) demo_object) =
      Inr (filter (\<lambda>x. TEST_RESULT_FAIL \<noteq> TEST_RESULT_PASS \<or> module_nm demo_object @ ''.'' @
        GenerateTestName ''t'' (Some (\<lambda>_. Inr ''testA'')) x \<in> fullname ` set (passed (bt_results demo_object))) [''x''])"
    by (rule runGeneratedTests_failed [OF calm_demo, where r = "\<lambda>_. Inr (PBool False)"])
       (use gen quiet_pure(1) in \<open>simp_all add: truthy_def returnA_def\<close>, simp_all add: demo_object_def)
  then show ?thesis by simp
qed

subsection \<open>Selecting tests and reading parameters\<close>

text \<open>The names \<open>run\<close> starts from: the arguments, else the \<open>tests\<close> attribute, else every test of the class.\<close>

definition chosen_names where
  "chosen_names attrs class_tests test_names =
     (if test_names \<noteq> [] then test_names
      else if class_tests \<noteq> [] then class_tests else get_all_test_names attrs)"

definition test_like :: "string \<Rightarrow> bool" where
  "test_like n \<longleftrightarrow> startswith n STR_TEST \<or> startswith n STR_GENERATE"

lemma get_test_funcs_eq:
  "get_test_funcs attrs names =
     (case find (\<lambda>n. map_of attrs n \<noteq> None \<and> \<not> test_like n) names of
        Some n \<Rightarrow> Inl (USERError (''Test case name '' @ n @ '' does not follow naming convention test*, abort.''))
      | None \<Rightarrow> Inr (map (\<lambda>n. (n, the (map_of attrs n))) (filter (\<lambda>n. map_of attrs n \<noteq> None) names)))"
  by (induction names) (auto simp: test_like_def py_res split: option.splits)

text \<open>The selection of tests: unknown names are dropped, the others keep their order and come with
  their function, and the first attribute that is not named \<open>test*\<close> or \<open>generate*\<close> ends the selection
  with \<open>USERError\<close>. Without explicit names the selection never fails and gives the callable tests only.\<close>

theorem getTests_selects:
  "getTests attrs class_tests test_names =
     (case find (\<lambda>n. map_of attrs n \<noteq> None \<and> \<not> test_like n) (chosen_names attrs class_tests test_names) of
        Some n \<Rightarrow> Inl (USERError (''Test case name '' @ n @ '' does not follow naming convention test*, abort.''))
      | None \<Rightarrow> Inr (map (\<lambda>n. (n, the (map_of attrs n)))
          (filter (\<lambda>n. map_of attrs n \<noteq> None) (chosen_names attrs class_tests test_names)))) \<and>
   getTests attrs [] [] = Inr (map (\<lambda>n. (n, the (map_of attrs n))) (get_all_test_names attrs))"
proof -
  have all: "map_of attrs n \<noteq> None \<and> test_like n" if "n \<in> set (get_all_test_names attrs)" for n
    using that unfolding get_all_test_names_def test_like_def map_of_eq_None_iff by force
  then have "find (\<lambda>n. map_of attrs n \<noteq> None \<and> \<not> test_like n) (get_all_test_names attrs) = None"
    by (auto simp: find_None_iff)
  moreover have "filter (\<lambda>n. map_of attrs n \<noteq> None) (get_all_test_names attrs) = get_all_test_names attrs"
    using all by (auto simp: filter_id_conv)
  ultimately have "getTests attrs [] [] = Inr (map (\<lambda>n. (n, the (map_of attrs n))) (get_all_test_names attrs))"
    by (simp add: getTests_def get_test_funcs_eq)
  then show ?thesis
    unfolding getTests_def chosen_names_def [symmetric] get_test_funcs_eq by blast
qed

text \<open>The value at a path of names through nested dictionaries.\<close>

fun path_value :: "pyval \<Rightarrow> string list \<Rightarrow> pyval option" where
  "path_value v [] = Some v"
| "path_value (PDict d) (n # ns) = (case map_of d n of None \<Rightarrow> None | Some v \<Rightarrow> path_value v ns)"
| "path_value v (n # ns) = None"

text \<open>Every value that the path goes through is a dictionary.\<close>

fun through_dicts :: "pyval \<Rightarrow> string list \<Rightarrow> bool" where
  "through_dicts v [] \<longleftrightarrow> True"
| "through_dicts (PDict d) (n # ns) \<longleftrightarrow> (case map_of d n of None \<Rightarrow> True | Some v \<Rightarrow> through_dicts v ns)"
| "through_dicts v (n # ns) \<longleftrightarrow> False"

lemma follow_path_eq:
  "through_dicts v ns \<Longrightarrow>
   follow_path msg err dflt v ns =
     (case path_value v ns of
        Some x \<Rightarrow> Inr x
      | None \<Rightarrow> if err then Inl (BaseTestError msg) else Inr dflt)"
  by (induction v ns rule: path_value.induct)
     (auto simp: py_contains_def py_getitem_def split: option.splits)

text \<open>Reading a user parameter is a lookup along the path of names, the root being the parameters of
  the test: the value there, converted to a string on request unless it is \<open>None\<close>; when some name is
  missing, the default value or \<open>BaseTestError\<close>, as asked.\<close>

theorem getUserParam_looks_up:
  assumes "ns \<noteq> []" and "through_dicts params ns"
  shows "getUserParam str_fn params (NamePath ns) err dflt to_str =
    (let conv = (\<lambda>v. if to_str \<and> v \<noteq> PNone then PStr (str_fn v) else v) in
     case path_value params ns of
       Some x \<Rightarrow> Inr (conv x)
     | None \<Rightarrow> if err then Inl (BaseTestError (missing_param_msg str_fn ns params)) else Inr (conv dflt))"
  using assms follow_path_eq [OF assms(2), of _ err dflt]
  by (auto simp: getUserParam_def py_res Let_def split: option.split)

theorem getUserParam_looks_up_witness:
  "getUserParam (\<lambda>_. ''1'') (PDict [(''a'', PDict [(''b'', PInt 1)])]) (NamePath [''a'', ''b'']) True PNone True =
     Inr (PStr ''1'')"
  using getUserParam_looks_up [of "[''a'', ''b'']" "PDict [(''a'', PDict [(''b'', PInt 1)])]" "\<lambda>_. ''1''" True PNone True]
  by simp

subsection \<open>Whole runs\<close>

text \<open>(C2) Whatever the hooks and the test functions raise and however often the tests are retried, a run
  that starts with a well-formed result ends with one: every executed record is in exactly one of the
  passed, failed, skipped and error lists, the one of its verdict.\<close>

theorem run_keeps_partition:
  assumes "results_ok (bt_results s)" and "env_keeps (\<lambda>u. results_ok (bt_results u)) env"
    and "\<And>n g. (n, Some g) \<in> set attrs \<Longrightarrow> keeps (\<lambda>u. results_ok (bt_results u)) g"
  shows "results_ok (bt_results (snd (run env attrs test_names s)))"
  using part.keeps_run [OF assms(2,3), where names = test_names] assms(1) by (rule keepsD)

theorem run_keeps_partition_witness:
  "results_ok (bt_results (snd (run demo_env [(''testA'', Some (raiseA (AssertionError ''x''))),
     (''testB'', Some (returnA PNone))] [] demo_object)))"
proof (rule run_keeps_partition)
  show "results_ok (bt_results demo_object)" by (simp add: demo_object_def results_ok_empty)
  show "env_keeps (\<lambda>u. results_ok (bt_results u)) demo_env" by (rule keeps_demo)
qed (auto simp: keeps_pure)

text \<open>\<open>execOneTest\<close> fails a test whose set up returns \<open>False\<close>, but \<open>_setUp\<close> never returns it: it
  drops what the script's \<open>setUp\<close> returned, so that check can not fail.\<close>

theorem setUp_result_dropped: "fst (setUp_proxy env n s) \<noteq> Inr (PBool False)"
  by (auto simp: setUp_proxy_def bindA_def seqA_def getA_def returnA_def liftA_def fail_def raise_signal_def
      split: prod.splits sum.splits if_splits)

text \<open>An interrupt during the set up of the class does not stop the run: the loop's \<open>finally\<close> block
  returns, which discards the interrupt, and the class is recorded as failed instead.\<close>

theorem setup_interrupt_discarded:
  assumes "setUpClass_proxy env s = (Inl KeyboardInterrupt, s1)" and "calm (h_tearDownClass env)"
  shows "\<exists>s'. runTests env tests s = (Inr (), s') \<and> is_final_run s' \<and>
    bt_results s' = failClass (str_exc env) (module_nm s1) None (bt_results s1)"
proof -
  let ?s1 = "s1\<lparr>bt_results := failClass (str_exc env) (module_nm s1) None (bt_results s1)\<rparr>"
  obtain v w where td: "h_tearDownClass env ?s1 = (Inr v, ?s1\<lparr>world := w\<rparr>)" using calmE [OF assms(2)] by blast
  then have "give_up env None s1 = (Inr False, ?s1\<lparr>world := w, is_final_run := True\<rparr>)"
    by (simp add: give_up_def seqA_def bindA_def modifyA_def returnA_def exec_func_def catchA_def)
  then show ?thesis
    using assms(1) by (simp add: runTests_def bindA_def SETUP_RETRY_NUMBER_def eval_nat_numeral is_Exception_def
        returnA_def)
qed

theorem setup_interrupt_discarded_witness:
  "\<exists>s'. runTests (demo_env\<lparr>h_resetTimeout := raiseA KeyboardInterrupt\<rparr>) [] demo_object = (Inr (), s') \<and>
     is_final_run s'"
proof -
  let ?env = "demo_env\<lparr>h_resetTimeout := raiseA KeyboardInterrupt\<rparr>"
  have "setUpClass_proxy ?env demo_object = (Inl KeyboardInterrupt, demo_object)"
    by (simp add: setUpClass_proxy_def seqA_def bindA_def raiseA_def)
  moreover have "calm (h_tearDownClass ?env)" by (simp add: demo_env_simps calm_return)
  ultimately show ?thesis using setup_interrupt_discarded [of ?env demo_object demo_object "[]"] by blast
qed

end
