(* ===== verification/Py_Bytes.thy ===== *)
theory Py_Bytes
  imports Py_Prelude
begin

section \<open>Bytes and integers\<close>

text \<open>
  A Python 2 byte string as a number, the low byte first, and the bytes of a number: what \<open>struct\<close> and
  \<open>ctypes\<close> do with unsigned integers of a fixed width. The two are inverse to each other.
\<close>

definition le_uint :: "string \<Rightarrow> nat" where
  "le_uint bs = horner_sum of_char 256 bs"

definition le_bytes :: "nat \<Rightarrow> nat \<Rightarrow> string" where
  "le_bytes w n = map (\<lambda>i. char_of (n div 256 ^ i)) [0..<w]"

lemma bytes_value:
  "horner_sum of_char 256 (map (\<lambda>i. char_of (n div 256 ^ i)) [0..<k]) = n mod 256 ^ k" for n :: nat
proof (induction k arbitrary: n)
  case (Suc k)
  have "map (\<lambda>i. char_of (n div 256 ^ i)) [0..<Suc k] =
      char_of n # map (\<lambda>i. char_of (n div 256 div 256 ^ i)) [0..<k]"
    by (simp add: map_upt_Suc div_mult2_eq del: upt_Suc)
  with Suc [of "n div 256"] show ?case
    by (simp add: mod_mult2_eq del: upt_Suc)
qed simp

lemma value_bytes:
  "map (\<lambda>i. char_of (horner_sum of_char 256 cs div (256 :: nat) ^ i)) [0..<length cs] = cs"
proof (induction cs)
  case (Cons c cs)
  let ?h = "horner_sum of_char 256 cs :: nat"
  have c: "(of_char c :: nat) < 256" by simp
  then have "(of_char c + 256 * ?h) div (256 * 256 ^ i) = ?h div 256 ^ i" for i
    by (simp add: div_mult2_eq)
  moreover have "char_of (of_char c + 256 * ?h) = c"
    by (metis char_of_char char_of_mod_256 mod_mult_self2 mult.commute)
  ultimately show ?case using Cons by (simp add: map_upt_Suc del: upt_Suc)
qed simp

lemma value_less: "horner_sum of_char 256 cs < (256 :: nat) ^ length cs"
proof (induction cs)
  case (Cons c cs)
  let ?h = "horner_sum of_char 256 cs :: nat"
  have "(of_char c :: nat) < 256" by simp
  then have "of_char c + 256 * ?h < 256 * Suc ?h"
    by (simp only: mult_Suc_right add_less_cancel_right)
  also have "\<dots> \<le> 256 * 256 ^ length cs" using Cons by (intro mult_le_mono) simp_all
  finally show ?case by simp
qed simp

lemma length_le_bytes [simp]: "length (le_bytes w n) = w"
  by (simp add: le_bytes_def)

lemma le_uint_le_bytes: "le_uint (le_bytes w n) = n mod 256 ^ w"
  by (simp add: le_uint_def le_bytes_def bytes_value)

lemma le_uint_le_bytes_id [simp]: "n < 256 ^ w \<Longrightarrow> le_uint (le_bytes w n) = n"
  by (simp add: le_uint_le_bytes)

lemma le_bytes_le_uint: "le_bytes (length bs) (le_uint bs) = bs"
  by (simp add: le_uint_def le_bytes_def value_bytes)

lemma le_uint_less: "le_uint bs < 256 ^ length bs"
  by (simp add: le_uint_def value_less)

lemma length_concat_le_bytes [simp]: "length (concat (map (le_bytes w) xs)) = w * length xs"
  by (simp add: length_concat comp_def sum_list_triv)

end
