(* ===== verification/Gcov_Stream.thy ===== *)
theory Gcov_Stream
  imports Py_Actions Py_Bytes
begin

section \<open>Reading coverage files (utils/python/coverage/parser.py)\<close>

text \<open>
  \<open>GcovStreamParserUtil\<close>: the header of a .gcno or .gcda file and the words, double words and strings
  it is made of. A file is the list of its bytes that have not been read; \<open>read(n)\<close> takes up to \<open>n\<close> of
  them. A Python 2 string is a byte string, so bytes are characters. The record is extended by the two
  parsers that inherit from the class.
\<close>

unbundle bit_operations_syntax

datatype file_error = FileFormatError string | StructError | Raised py_error

datatype byte_order = LittleEndian | BigEndian

record gcov_stream =
  stream :: string
  fmt :: byte_order
  version :: string
  checksum :: nat

type_synonym ('z, 'a) reader = "(file_error, 'z gcov_stream_scheme, 'a) raising"

subsection \<open>The reader\<close>

definition read_bytes :: "nat \<Rightarrow> ('z, string) reader" where
  "read_bytes n s = (Inr (take n (stream s)), s\<lparr>stream := drop n (stream s)\<rparr>)"

text \<open>The value of bytes read as an unsigned integer, and the four bytes of one.\<close>

definition uint_of :: "byte_order \<Rightarrow> string \<Rightarrow> nat" where
  "uint_of f bs = horner_sum of_char 256 (case f of LittleEndian \<Rightarrow> bs | BigEndian \<Rightarrow> rev bs)"

definition int_bytes :: "byte_order \<Rightarrow> nat \<Rightarrow> string" where
  "int_bytes f n =
     (let bs = map (\<lambda>i. char_of (n div 256 ^ i)) [0..<4]
      in case f of LittleEndian \<Rightarrow> bs | BigEndian \<Rightarrow> rev bs)"

definition CORRUPT :: file_error where "CORRUPT = FileFormatError ''Corrupt file.''"

definition ReadInt :: "('z, nat) reader" where
  "ReadInt = bindA (read_bytes 4) (\<lambda>bs s.
     if length bs = 4 then (Inr (uint_of (fmt s) bs), s) else (Inl CORRUPT, s))"

definition ReadInt64 :: "('z, nat) reader" where
  "ReadInt64 = bindA ReadInt (\<lambda>lo. bindA ReadInt (\<lambda>hi. returnA (push_bit 32 hi OR lo)))"

definition rstrip_nul :: "string \<Rightarrow> string" where
  "rstrip_nul s = rev (dropWhile (\<lambda>c. c = CHR 0x00) (rev s))"

definition ReadString :: "('z, string) reader" where
  "ReadString = bindA ReadInt (\<lambda>words.
     let n = push_bit 2 words in
     if n > 0 then bindA (read_bytes n) (\<lambda>bs.
       if length bs = n then returnA (rstrip_nul bs) else raiseA CORRUPT)
     else returnA [])"

text \<open>
  The constructor. Version and checksum are read before the byte order is known, always as little
  endian.
\<close>

definition GcovStreamParserUtil :: "nat \<Rightarrow> ('z, unit) reader" where
  "GcovStreamParserUtil magic =
     seqA (modifyA (\<lambda>s. s\<lparr>fmt := LittleEndian\<rparr>))
     (bindA ReadInt (\<lambda>tag.
       bindA (read_bytes 4) (\<lambda>v.
         if length v \<noteq> 4 then raiseA StructError
         else seqA (modifyA (\<lambda>s. s\<lparr>version := v\<rparr>))
           (bindA ReadInt (\<lambda>c.
             seqA (modifyA (\<lambda>s. s\<lparr>checksum := c\<rparr>))
               (if tag = magic then returnA ()
                else if uint_of BigEndian (int_bytes LittleEndian tag) = magic
                then modifyA (\<lambda>s. s\<lparr>fmt := BigEndian\<rparr>)
                else raiseA (FileFormatError ''Invalid file format.'')))))))"

subsection \<open>Words\<close>

lemma length_int_bytes [simp]: "length (int_bytes f n) = 4"
  by (simp add: int_bytes_def Let_def split: byte_order.split)

lemma uint_of_int_bytes [simp]: "n < 2 ^ 32 \<Longrightarrow> uint_of f (int_bytes f n) = n"
  using bytes_value [of n 4]
  by (cases f) (simp_all add: uint_of_def int_bytes_def Let_def del: horner_sum_simps)

lemma uint_of_less: "length bs = 4 \<Longrightarrow> uint_of f bs < 2 ^ 32"
  using value_less [of bs] value_less [of "rev bs"] by (cases f) (simp_all add: uint_of_def)

lemma int_bytes_uint_of: "length bs = 4 \<Longrightarrow> int_bytes f (uint_of f bs) = bs"
  using value_bytes [of bs] value_bytes [of "rev bs"]
  by (cases f) (simp_all add: uint_of_def int_bytes_def Let_def)

lemma byte_swap:
  "n < 2 ^ 32 \<Longrightarrow>
   uint_of BigEndian (int_bytes LittleEndian (uint_of LittleEndian (int_bytes BigEndian n))) = n"
  by (simp add: int_bytes_uint_of)

lemma ReadInt_word:
  "n < 2 ^ 32 \<Longrightarrow> stream s = int_bytes (fmt s) n @ rest \<Longrightarrow> ReadInt s = (Inr n, s\<lparr>stream := rest\<rparr>)"
  by (simp add: ReadInt_def bindA_def read_bytes_def)

lemma ReadInt_shrinks:
  "ReadInt s = (Inr n, s') \<Longrightarrow>
   n < 2 ^ 32 \<and> stream s = int_bytes (fmt s) n @ stream s' \<and> s' = s\<lparr>stream := stream s'\<rparr>"
proof -
  assume "ReadInt s = (Inr n, s')"
  then have n: "n = uint_of (fmt s) (take 4 (stream s))" "s' = s\<lparr>stream := drop 4 (stream s)\<rparr>"
    and len: "length (take 4 (stream s)) = 4"
    by (auto simp: ReadInt_def bindA_def read_bytes_def split: if_splits)
  then show ?thesis
    using uint_of_less [OF len] int_bytes_uint_of [OF len] by (simp del: length_take)
qed

lemma ReadInt_cases:
  "(\<exists>n s'. ReadInt s = (Inr n, s') \<and> length (stream s) = 4 + length (stream s')) \<or>
   (ReadInt s = (Inl CORRUPT, s\<lparr>stream := []\<rparr>) \<and> length (stream s) < 4)"
  by (auto simp: ReadInt_def bindA_def read_bytes_def)

text \<open>No reader makes the rest of the file longer.\<close>

abbreviation shrinking :: "('z gcov_stream_scheme \<Rightarrow> 'r \<times> 'z gcov_stream_scheme) \<Rightarrow> bool" where
  "shrinking m \<equiv> (\<forall>k. keeps (\<lambda>s. length (stream s) \<le> k) m)"

lemma shrinkingD: "shrinking m \<Longrightarrow> m s = (r, s') \<Longrightarrow> length (stream s') \<le> length (stream s)"
  using keeps_step [of "\<lambda>s'. length (stream s') \<le> length (stream s)" m s r s'] by blast

lemma keeps_read_bytes [keeps_rules]: "keeps (\<lambda>s. length (stream s) \<le> k) (read_bytes n)"
  by (auto simp: keeps_def read_bytes_def)

lemma keeps_ReadInt [keeps_rules]: "keeps (\<lambda>s. length (stream s) \<le> k) ReadInt"
  by (auto simp: keeps_def ReadInt_def read_bytes_def bindA_def)

lemma keeps_ReadInt64 [keeps_rules]: "keeps (\<lambda>s. length (stream s) \<le> k) ReadInt64"
  unfolding ReadInt64_def by (intro keeps_rules)

lemma keeps_ReadString [keeps_rules]: "keeps (\<lambda>s. length (stream s) \<le> k) ReadString"
  unfolding ReadString_def Let_def by (intro keeps_rules)

subsection \<open>Writing\<close>

text \<open>
  The format of the files: double words low word first, strings as their number of words and their
  bytes padded with at least one NUL.
\<close>

definition int64_bytes :: "byte_order \<Rightarrow> nat \<Rightarrow> string" where
  "int64_bytes f n = int_bytes f (n mod 2 ^ 32) @ int_bytes f (n div 2 ^ 32)"

definition string_words :: "string \<Rightarrow> nat" where
  "string_words t = (length t + 4) div 4"

definition string_bytes :: "byte_order \<Rightarrow> string \<Rightarrow> string" where
  "string_bytes f t =
     int_bytes f (string_words t) @ t @ replicate (4 * string_words t - length t) (CHR 0x00)"

definition plain_string :: "string \<Rightarrow> bool" where
  "plain_string t \<longleftrightarrow> (t \<noteq> [] \<longrightarrow> last t \<noteq> CHR 0x00) \<and> string_words t < 2 ^ 30"

lemma ReadInt64_word:
  assumes "n < 2 ^ 64" and "stream s = int64_bytes (fmt s) n @ rest"
  shows "ReadInt64 s = (Inr n, s\<lparr>stream := rest\<rparr>)"
proof -
  have hi: "n div 2 ^ 32 < 2 ^ 32" using assms(1) by (simp add: less_mult_imp_div_less)
  have "push_bit 32 (n div 2 ^ 32) OR (n mod 2 ^ 32) = n"
    unfolding drop_bit_eq_div [symmetric] take_bit_eq_mod [symmetric]
    by (rule bit_eqI) (auto simp: bit_or_iff bit_push_bit_iff bit_drop_bit_eq bit_take_bit_iff)
  moreover have "ReadInt s = (Inr (n mod 2 ^ 32), s\<lparr>stream := int_bytes (fmt s) (n div 2 ^ 32) @ rest\<rparr>)"
    using assms(2) by (intro ReadInt_word) (simp_all add: int64_bytes_def)
  moreover have "ReadInt (s\<lparr>stream := int_bytes (fmt s) (n div 2 ^ 32) @ rest\<rparr>) =
      (Inr (n div 2 ^ 32), s\<lparr>stream := rest\<rparr>)"
    using hi by (subst ReadInt_word) simp_all
  ultimately show ?thesis by (simp add: ReadInt64_def bindA_def returnA_def)
qed

lemma rstrip_nul_pad: "t = [] \<or> last t \<noteq> CHR 0x00 \<Longrightarrow> rstrip_nul (t @ replicate k (CHR 0x00)) = t"
proof -
  assume t: "t = [] \<or> last t \<noteq> CHR 0x00"
  have "dropWhile (\<lambda>c. c = CHR 0x00) (replicate k (CHR 0x00) @ rev t) = rev t"
    using t by (induction k) (cases t rule: rev_cases; auto)+
  then show ?thesis by (simp add: rstrip_nul_def)
qed

lemma ReadString_word:
  assumes "plain_string t" and "stream s = string_bytes (fmt s) t @ rest"
  shows "ReadString s = (Inr t, s\<lparr>stream := rest\<rparr>)"
proof -
  let ?w = "string_words t"
  let ?pad = "replicate (4 * ?w - length t) (CHR 0x00)"
  have w: "0 < ?w" "length t \<le> 4 * ?w" unfolding string_words_def by presburger+
  then have "length (t @ ?pad) = 4 * ?w" by simp
  moreover have "rstrip_nul (t @ ?pad) = t"
    using assms(1) by (intro rstrip_nul_pad) (auto simp: plain_string_def)
  moreover have "ReadInt s = (Inr ?w, s\<lparr>stream := (t @ ?pad) @ rest\<rparr>)"
    using assms by (intro ReadInt_word) (simp_all add: plain_string_def string_bytes_def)
  ultimately show ?thesis
    using w(1) by (simp add: ReadString_def bindA_def read_bytes_def returnA_def push_bit_eq_mult Let_def
        mult.commute)
qed

subsection \<open>The header\<close>

lemma header_read:
  assumes "magic < 2 ^ 32" and "uint_of LittleEndian (int_bytes BigEndian magic) \<noteq> magic"
    and "length v = 4" and "length c = 4" and "stream s = int_bytes f magic @ v @ c @ rest"
  shows "GcovStreamParserUtil magic s =
    (Inr (), s\<lparr>stream := rest, fmt := f, version := v, checksum := uint_of LittleEndian c\<rparr>)"
proof -
  have "uint_of LittleEndian (int_bytes f magic) = (case f of LittleEndian \<Rightarrow> magic
      | BigEndian \<Rightarrow> uint_of LittleEndian (int_bytes BigEndian magic))"
    using assms(1) by (simp split: byte_order.split)
  then show ?thesis
    using assms byte_swap [OF assms(1)]
    by (cases f) (simp_all add: GcovStreamParserUtil_def seqA_def bindA_def modifyA_def ReadInt_def read_bytes_def
        returnA_def)
qed

subsection \<open>Properties\<close>

datatype stream_item = Word nat | DoubleWord nat | Text string

fun item_ok :: "stream_item \<Rightarrow> bool" where
  "item_ok (Word n) \<longleftrightarrow> n < 2 ^ 32"
| "item_ok (DoubleWord n) \<longleftrightarrow> n < 2 ^ 64"
| "item_ok (Text t) \<longleftrightarrow> plain_string t"

fun item_bytes :: "byte_order \<Rightarrow> stream_item \<Rightarrow> string" where
  "item_bytes f (Word n) = int_bytes f n"
| "item_bytes f (DoubleWord n) = int64_bytes f n"
| "item_bytes f (Text t) = string_bytes f t"

text \<open>Reading items of given kinds one after the other.\<close>

fun read_items :: "stream_item list \<Rightarrow> ('z, stream_item list) reader" where
  "read_items [] = returnA []"
| "read_items (k # ks) =
     bindA (case k of Word _ \<Rightarrow> bindA ReadInt (\<lambda>n. returnA (Word n))
                    | DoubleWord _ \<Rightarrow> bindA ReadInt64 (\<lambda>n. returnA (DoubleWord n))
                    | Text _ \<Rightarrow> bindA ReadString (\<lambda>t. returnA (Text t)))
       (\<lambda>x. bindA (read_items ks) (\<lambda>xs. returnA (x # xs)))"

text \<open>What is written in the coverage file format is read back: for either byte order, any sequence of
  words, double words and strings is recovered in order and exactly its bytes are consumed.\<close>

theorem read_items_round_trip:
  assumes "\<forall>x \<in> set xs. item_ok x" and "stream s = concat (map (item_bytes (fmt s)) xs) @ rest"
  shows "read_items xs s = (Inr xs, s\<lparr>stream := rest\<rparr>)"
  using assms
proof (induction xs arbitrary: s)
  case (Cons x xs)
  let ?s' = "s\<lparr>stream := concat (map (item_bytes (fmt s)) xs) @ rest\<rparr>"
  have "read_items xs ?s' = (Inr xs, ?s'\<lparr>stream := rest\<rparr>)"
    using Cons.prems by (intro Cons.IH) simp_all
  then show ?case
    using Cons.prems ReadInt_word [of _ s] ReadInt64_word [of _ s] ReadString_word [of _ s]
    by (cases x) (auto simp: bindA_def returnA_def)
qed (simp add: returnA_def)

theorem read_items_round_trip_witness:
  "read_items [Word 5, Text ''a.c'']
     \<lparr>stream = concat (map (item_bytes BigEndian) [Word 5, Text ''a.c'']), fmt = BigEndian, version = [], checksum = 0\<rparr> =
   (Inr [Word 5, Text ''a.c''], \<lparr>stream = [], fmt = BigEndian, version = [], checksum = 0\<rparr>)"
  using read_items_round_trip [of "[Word 5, Text ''a.c'']"
      "\<lparr>stream = concat (map (item_bytes BigEndian) [Word 5, Text ''a.c'']), fmt = BigEndian, version = [], checksum = 0\<rparr>" "[]"]
  by (simp add: plain_string_def string_words_def)

text \<open>The header decides the byte order: a file that starts with the magic number in either order is
  accepted and read in that order from then on. The checksum, however, has already been read as little
  endian, so in a big endian file it comes out with its bytes swapped.\<close>

theorem header_byte_order:
  assumes "magic < 2 ^ 32" and "uint_of LittleEndian (int_bytes BigEndian magic) \<noteq> magic"
    and "length v = 4" and "length c = 4" and "stream s = int_bytes f magic @ v @ c @ rest"
  shows "GcovStreamParserUtil magic s =
    (Inr (), s\<lparr>stream := rest, fmt := f, version := v, checksum := uint_of LittleEndian c\<rparr>)"
  using assms by (rule header_read)

theorem header_byte_order_witness:
  "GcovStreamParserUtil 0x67636e6f \<lparr>stream = int_bytes BigEndian 0x67636e6f @ ''408*'' @ int_bytes BigEndian 1,
      fmt = LittleEndian, version = [], checksum = 0\<rparr> =
   (Inr (), \<lparr>stream = [], fmt = BigEndian, version = ''408*'', checksum = 16777216\<rparr>)"
proof -
  have "uint_of LittleEndian (int_bytes BigEndian 0x67636e6f) \<noteq> 0x67636e6f"
    "uint_of LittleEndian (int_bytes BigEndian 1) = 16777216"
    by (simp_all add: uint_of_def int_bytes_def upt_rec Let_def)
  then show ?thesis
    using header_byte_order [of "0x67636e6f" "''408*''" "int_bytes BigEndian 1"
      "\<lparr>stream = int_bytes BigEndian 0x67636e6f @ ''408*'' @ int_bytes BigEndian 1,
      fmt = LittleEndian, version = [], checksum = 0\<rparr>" BigEndian "[]"] by simp
qed

end
