(* ===== verification/Gcov_Graph.thy ===== *)
theory Gcov_Graph
  imports Py_Prelude "HOL-Library.Word"
begin

section \<open>Control flow graphs and their counts (utils/python/coverage/*\_summary.py)\<close>

text \<open>
  \<open>ArcSummary\<close>, \<open>BlockSummary\<close>, \<open>FunctionSummary\<close> and \<open>FileSummary\<close>. An arc is one object that is
  listed in its source's \<open>exit_arcs\<close> and in its destination's \<open>entry_arcs\<close>; here it is an index into the
  arcs of the function, and a block is its position in \<open>blocks\<close>.

  \<open>Resolve\<close> derives the counts that the compiler left out from those in the .gcda file: the counts of
  the arcs entering a block and of those leaving it have the same sum.
\<close>

unbundle bit_operations_syntax

subsection \<open>Summaries\<close>

record arc_summary =
  src_block :: nat
  dst_block :: nat
  on_tree :: bool
  fake :: bool
  fallthrough :: bool
  resolved :: bool
  arc_count :: int

record block_summary =
  block_index :: nat
  flag :: nat
  entry_arcs :: "nat list"
  exit_arcs :: "nat list"
  block_count :: int
  block_lines :: "nat list"

record function_summary =
  blocks :: "block_summary list"
  arcs :: "arc_summary list"
  ident :: nat
  func_name :: string
  src_file_name :: string
  first_line_number :: nat

type_synonym file_summary = "(nat \<times> function_summary) list"

definition GCOV_ARC_ON_TREE :: nat where "GCOV_ARC_ON_TREE = 1"
definition GCOV_ARC_FAKE :: nat where "GCOV_ARC_FAKE = push_bit 1 1"
definition GCOV_ARC_FALLTHROUGH :: nat where "GCOV_ARC_FALLTHROUGH = push_bit 2 1"

definition ArcSummary :: "nat \<Rightarrow> nat \<Rightarrow> nat \<Rightarrow> arc_summary" where
  "ArcSummary src dst flg =
     \<lparr>src_block = src, dst_block = dst, on_tree = (flg AND GCOV_ARC_ON_TREE \<noteq> 0),
      fake = (flg AND GCOV_ARC_FAKE \<noteq> 0), fallthrough = (flg AND GCOV_ARC_FALLTHROUGH \<noteq> 0),
      resolved = False, arc_count = 0\<rparr>"

definition BlockSummary :: "nat \<Rightarrow> nat \<Rightarrow> block_summary" where
  "BlockSummary idx flg =
     \<lparr>block_index = idx, flag = flg, entry_arcs = [], exit_arcs = [], block_count = 0, block_lines = []\<rparr>"

definition FunctionSummary :: "nat \<Rightarrow> string \<Rightarrow> string \<Rightarrow> nat \<Rightarrow> function_summary" where
  "FunctionSummary i n src line =
     \<lparr>blocks = [], arcs = [], ident = i, func_name = n, src_file_name = src, first_line_number = line\<rparr>"

definition arc_of :: "function_summary \<Rightarrow> nat \<Rightarrow> arc_summary" where
  "arc_of f a = arcs f ! a"

definition block_of :: "function_summary \<Rightarrow> nat \<Rightarrow> block_summary" where
  "block_of f b = blocks f ! b"

subsection \<open>Resolving one arc\<close>

text \<open>The counts of a list of arcs.\<close>

definition flow_of :: "function_summary \<Rightarrow> nat list \<Rightarrow> int" where
  "flow_of f as = sum_list (map (\<lambda>a. arc_count (arc_of f a)) as)"

definition all_resolved :: "function_summary \<Rightarrow> nat list \<Rightarrow> bool" where
  "all_resolved f as \<longleftrightarrow> (\<forall>a \<in> set as. resolved (arc_of f a))"

definition set_count :: "nat \<Rightarrow> int \<Rightarrow> function_summary \<Rightarrow> function_summary" where
  "set_count a n f = f\<lparr>arcs := (arcs f)[a := (arc_of f a)\<lparr>arc_count := n, resolved := True\<rparr>]\<rparr>"

definition drop_exit :: "nat \<Rightarrow> function_summary \<Rightarrow> function_summary" where
  "drop_exit a f =
     (let b = src_block (arc_of f a); src = block_of f b
      in f\<lparr>blocks := (blocks f)[b := src\<lparr>exit_arcs := remove1 a (exit_arcs src)\<rparr>]\<rparr>)"

definition ArcSummary_Resolve :: "nat \<Rightarrow> function_summary \<Rightarrow> bool \<times> function_summary" where
  "ArcSummary_Resolve a f =
     (let arc = arc_of f a; src = block_of f (src_block arc); dst = block_of f (dst_block arc);
          others = filter (\<lambda>b. b \<noteq> a)
      in if fake arc \<and> \<not> fallthrough arc then (True, drop_exit a f)
         else if entry_arcs src \<noteq> [] \<and> all_resolved f (entry_arcs src) \<and> all_resolved f (others (exit_arcs src))
         then (True, set_count a (flow_of f (entry_arcs src) - flow_of f (others (exit_arcs src))) f)
         else if exit_arcs dst \<noteq> [] \<and> all_resolved f (exit_arcs dst) \<and> all_resolved f (others (entry_arcs dst))
         then (True, set_count a (flow_of f (exit_arcs dst) - flow_of f (others (entry_arcs dst))) f)
         else (False, f))"

subsection \<open>Resolving a function\<close>

definition unresolved_arcs :: "function_summary \<Rightarrow> nat list" where
  "unresolved_arcs f = concat (map (\<lambda>b. filter (\<lambda>a. \<not> resolved (arc_of f a)) (exit_arcs b)) (blocks f))"

text \<open>
  The loop over the unresolved arcs. It gives up when it is back at the first arc and the list is as
  long as in the iteration before.
\<close>

function resolve_loop :: "nat list \<Rightarrow> nat \<Rightarrow> nat \<Rightarrow> function_summary \<Rightarrow> bool \<times> function_summary" where
  "resolve_loop unres idx prev_length f =
     (if unres = [] then (True, f)
      else let i = idx mod length unres in
           if i = 0 \<and> length unres = prev_length then (False, f)
           else case ArcSummary_Resolve (unres ! i) f of
                  (True, f') \<Rightarrow> resolve_loop (remove1 (unres ! i) unres) i (length unres) f'
                | (False, f') \<Rightarrow> resolve_loop unres (i + 1) (length unres) f')"
  by pat_completeness auto

termination
proof (relation "measures [\<lambda>(unres, idx, prev, f). length unres,
    \<lambda>(unres, idx, prev, f). if prev \<noteq> length unres then Suc (length unres)
       else if idx mod length unres = 0 then 0 else length unres - idx mod length unres]", goal_cases)
  case (2 unres idx prev f)
  then show ?case by (auto simp: length_remove1 length_pos_if_in_set)
next
  case (3 unres idx prev f)
  then show ?case by (auto simp: mod_Suc intro!: diff_less_mono2)
qed simp

definition block_counts :: "function_summary \<Rightarrow> function_summary" where
  "block_counts f = f\<lparr>blocks := map (\<lambda>b.
     b\<lparr>block_count := flow_of f (if entry_arcs b \<noteq> [] then entry_arcs b else exit_arcs b)\<rparr>) (blocks f)\<rparr>"

definition FunctionSummary_Resolve :: "function_summary \<Rightarrow> bool \<times> function_summary" where
  "FunctionSummary_Resolve f =
     (let unres = unresolved_arcs f in
      case resolve_loop unres 0 (length unres + 1) f of
        (False, f') \<Rightarrow> (False, f')
      | (True, f') \<Rightarrow> (True, block_counts f'))"

declare resolve_loop.simps [simp del]

subsection \<open>The graph is consistent\<close>

definition removable :: "arc_summary \<Rightarrow> bool" where
  "removable arc \<longleftrightarrow> fake arc \<and> \<not> fallthrough arc"

text \<open>
  Every arc starts and ends in blocks of the function and is listed once among the entry arcs of its
  destination; the exit arcs of a block start there, without repetition, and every arc is one of its
  source's, unless it is a fake arc that \<open>Resolve\<close> has removed.
\<close>

definition arc_ok :: "function_summary \<Rightarrow> nat \<Rightarrow> bool" where
  "arc_ok f a \<longleftrightarrow>
     src_block (arc_of f a) < length (blocks f) \<and> dst_block (arc_of f a) < length (blocks f) \<and>
     a \<in> set (entry_arcs (block_of f (dst_block (arc_of f a)))) \<and>
     (removable (arc_of f a) \<or> a \<in> set (exit_arcs (block_of f (src_block (arc_of f a)))))"

definition block_ok :: "function_summary \<Rightarrow> nat \<Rightarrow> bool" where
  "block_ok f b \<longleftrightarrow>
     distinct (entry_arcs (block_of f b)) \<and> distinct (exit_arcs (block_of f b)) \<and>
     (\<forall>a \<in> set (entry_arcs (block_of f b)). a < length (arcs f) \<and> dst_block (arc_of f a) = b) \<and>
     (\<forall>a \<in> set (exit_arcs (block_of f b)). a < length (arcs f) \<and> src_block (arc_of f a) = b)"

definition graph_ok :: "function_summary \<Rightarrow> bool" where
  "graph_ok f \<longleftrightarrow> (\<forall>a < length (arcs f). arc_ok f a) \<and> (\<forall>b < length (blocks f). block_ok f b)"

text \<open>Counts \<open>c\<close> under which every block that has entry and exit arcs passes on what it gets, with nothing
  along the removed fake arcs.\<close>

definition conserves :: "(nat \<Rightarrow> int) \<Rightarrow> function_summary \<Rightarrow> bool" where
  "conserves c f \<longleftrightarrow>
     (\<forall>b < length (blocks f). entry_arcs (block_of f b) \<noteq> [] \<longrightarrow> exit_arcs (block_of f b) \<noteq> [] \<longrightarrow>
        sum_list (map c (entry_arcs (block_of f b))) = sum_list (map c (exit_arcs (block_of f b)))) \<and>
     (\<forall>a < length (arcs f). removable (arc_of f a) \<longrightarrow> c a = 0 \<and> arc_count (arc_of f a) = 0)"

definition agrees :: "(nat \<Rightarrow> int) \<Rightarrow> function_summary \<Rightarrow> bool" where
  "agrees c f \<longleftrightarrow> (\<forall>a < length (arcs f). resolved (arc_of f a) \<longrightarrow> arc_count (arc_of f a) = c a)"

lemma flow_of_agrees:
  "agrees c f \<Longrightarrow> all_resolved f as \<Longrightarrow> \<forall>a \<in> set as. a < length (arcs f) \<Longrightarrow> flow_of f as = sum_list (map c as)"
  unfolding agrees_def all_resolved_def flow_of_def by (auto intro!: arg_cong [where f = sum_list])

lemma sum_list_without:
  "distinct as \<Longrightarrow> a \<in> set as \<Longrightarrow> sum_list (map c (filter (\<lambda>b. b \<noteq> a) as)) = sum_list (map c as) - c a" for c :: "nat \<Rightarrow> int"
proof (induction as)
  case (Cons x as)
  have "filter (\<lambda>b. b \<noteq> a) as = as" if "a \<notin> set as"
    using that by (induction as) auto
  with Cons show ?case by (cases "x = a") auto
qed simp

lemma set_count_simps [simp]:
  "blocks (set_count a n f) = blocks f" "length (arcs (set_count a n f)) = length (arcs f)"
  "block_of (set_count a n f) b = block_of f b"
  by (simp_all add: set_count_def block_of_def)

lemma arc_of_set_count:
  "a < length (arcs f) \<Longrightarrow>
   arc_of (set_count a n f) x = (if x = a then (arc_of f a)\<lparr>arc_count := n, resolved := True\<rparr> else arc_of f x)"
  by (simp add: set_count_def arc_of_def nth_list_update)

lemma graph_ok_set_count:
  assumes "a < length (arcs f)"
  shows "graph_ok (set_count a n f) = graph_ok f"
proof -
  have "src_block (arc_of (set_count a n f) x) = src_block (arc_of f x)"
    "dst_block (arc_of (set_count a n f) x) = dst_block (arc_of f x)"
    "removable (arc_of (set_count a n f) x) = removable (arc_of f x)" for x
    using assms by (simp_all add: arc_of_set_count removable_def)
  then show ?thesis by (simp add: graph_ok_def arc_ok_def block_ok_def)
qed

lemma drop_exit_simps [simp]:
  "arcs (drop_exit a f) = arcs f" "arc_of (drop_exit a f) x = arc_of f x"
  "length (blocks (drop_exit a f)) = length (blocks f)"
  by (simp_all add: drop_exit_def arc_of_def Let_def)

lemma block_of_drop_exit:
  assumes "src_block (arc_of f a) < length (blocks f)"
  shows "entry_arcs (block_of (drop_exit a f) b) = entry_arcs (block_of f b)"
    "exit_arcs (block_of (drop_exit a f) b) =
      (if b = src_block (arc_of f a) then remove1 a (exit_arcs (block_of f b)) else exit_arcs (block_of f b))"
  using assms by (auto simp: drop_exit_def block_of_def Let_def nth_list_update)

lemma graph_ok_drop_exit:
  assumes "graph_ok f" and "a < length (arcs f)" and "removable (arc_of f a)"
  shows "graph_ok (drop_exit a f)"
proof -
  have src: "src_block (arc_of f a) < length (blocks f)" using assms(1,2) by (simp add: graph_ok_def arc_ok_def)
  note blk = block_of_drop_exit [OF src]
  have "arc_ok (drop_exit a f) x" if "arc_ok f x" for x
    using that assms(3) unfolding arc_ok_def by (cases "x = a") (auto simp: blk)
  moreover have "block_ok (drop_exit a f) b" if "block_ok f b" for b
    using that notin_set_remove1 [of _ "exit_arcs (block_of f b)" a] unfolding block_ok_def by (auto simp: blk)
  ultimately show ?thesis using assms(1) by (simp add: graph_ok_def)
qed

lemma conserves_set_count:
  "a < length (arcs f) \<Longrightarrow> \<not> removable (arc_of f a) \<Longrightarrow> conserves c (set_count a n f) = conserves c f"
  unfolding conserves_def by (auto simp: arc_of_set_count removable_def)

lemma sum_list_remove1:
  "c a = 0 \<Longrightarrow> sum_list (map c (remove1 a as)) = sum_list (map c as)" for c :: "nat \<Rightarrow> int"
  by (induction as) auto

lemma conserves_drop_exit:
  assumes "conserves c f" and "src_block (arc_of f a) < length (blocks f)" and "a < length (arcs f)"
    and "removable (arc_of f a)"
  shows "conserves c (drop_exit a f)"
proof -
  have c: "c a = 0" using assms(1,3,4) by (simp add: conserves_def)
  have "exit_arcs (block_of f b) \<noteq> []" if "remove1 a (exit_arcs (block_of f b)) \<noteq> []" for b
    using that by auto
  then show ?thesis
    using assms(1) sum_list_remove1 [of c a, OF c]
    by (auto simp: conserves_def block_of_drop_exit [OF assms(2)])
qed

subsection \<open>Soundness of the resolution\<close>

text \<open>An arc is settled when its count is known or when it has been removed.\<close>

definition settled :: "function_summary \<Rightarrow> nat \<Rightarrow> bool" where
  "settled f a \<longleftrightarrow> resolved (arc_of f a) \<or> a \<notin> set (exit_arcs (block_of f (src_block (arc_of f a))))"

text \<open>What a step of the resolution may change.\<close>

definition refines :: "function_summary \<Rightarrow> function_summary \<Rightarrow> bool" where
  "refines f f' \<longleftrightarrow>
     length (arcs f') = length (arcs f) \<and> length (blocks f') = length (blocks f) \<and>
     (\<forall>x. src_block (arc_of f' x) = src_block (arc_of f x) \<and> dst_block (arc_of f' x) = dst_block (arc_of f x) \<and>
        removable (arc_of f' x) = removable (arc_of f x) \<and> (settled f x \<longrightarrow> settled f' x)) \<and>
     (\<forall>b. entry_arcs (block_of f' b) = entry_arcs (block_of f b) \<and>
        set (exit_arcs (block_of f' b)) \<subseteq> set (exit_arcs (block_of f b)))"

lemma refines_refl: "refines f f"
  by (simp add: refines_def)

lemma refines_trans: "refines f g \<Longrightarrow> refines g h \<Longrightarrow> refines f h"
  unfolding refines_def by (meson subset_trans) auto

lemma refines_settled: "refines f f' \<Longrightarrow> settled f x \<Longrightarrow> settled f' x"
  by (simp add: refines_def)

definition sound :: "(nat \<Rightarrow> int) \<Rightarrow> function_summary \<Rightarrow> bool" where
  "sound c f \<longleftrightarrow> graph_ok f \<and> conserves c f \<and> agrees c f"

lemma sound_set_count:
  assumes "sound c f" and "a < length (arcs f)" and "\<not> removable (arc_of f a)" and "n = c a"
  shows "sound c (set_count a n f) \<and> refines f (set_count a n f) \<and> settled (set_count a n f) a"
proof -
  have "agrees c (set_count a n f)"
    using assms by (auto simp: sound_def agrees_def arc_of_set_count)
  then have "sound c (set_count a n f)"
    using assms by (simp add: sound_def graph_ok_set_count conserves_set_count)
  moreover have "refines f (set_count a n f)"
    using assms(2) by (auto simp: refines_def settled_def arc_of_set_count removable_def)
  ultimately show ?thesis using assms(2) by (simp add: settled_def arc_of_set_count)
qed

lemma sound_drop_exit:
  assumes "sound c f" and "a < length (arcs f)" and "removable (arc_of f a)"
  shows "sound c (drop_exit a f) \<and> refines f (drop_exit a f) \<and> settled (drop_exit a f) a"
proof -
  have src: "src_block (arc_of f a) < length (blocks f)"
    using assms(1,2) by (simp add: sound_def graph_ok_def arc_ok_def)
  then have "distinct (exit_arcs (block_of f (src_block (arc_of f a))))"
    using assms(1) by (simp add: sound_def graph_ok_def block_ok_def)
  then have "settled (drop_exit a f) a" by (simp add: settled_def block_of_drop_exit [OF src])
  moreover have "refines f (drop_exit a f)"
    using notin_set_remove1 by (force simp: refines_def settled_def block_of_drop_exit [OF src])
  moreover have "sound c (drop_exit a f)"
    using assms src by (simp add: sound_def graph_ok_drop_exit conserves_drop_exit agrees_def)
  ultimately show ?thesis by simp
qed

lemma derived_count:
  assumes s: "sound c f" and b: "b < length (blocks f)" and xs: "xs = entry_arcs (block_of f b)"
    and ys: "ys = exit_arcs (block_of f b)"
  shows "xs \<noteq> [] \<Longrightarrow> all_resolved f xs \<Longrightarrow> a \<in> set ys \<Longrightarrow> all_resolved f (filter (\<lambda>x. x \<noteq> a) ys) \<Longrightarrow>
      flow_of f xs - flow_of f (filter (\<lambda>x. x \<noteq> a) ys) = c a"
    and "ys \<noteq> [] \<Longrightarrow> all_resolved f ys \<Longrightarrow> a \<in> set xs \<Longrightarrow> all_resolved f (filter (\<lambda>x. x \<noteq> a) xs) \<Longrightarrow>
      flow_of f ys - flow_of f (filter (\<lambda>x. x \<noteq> a) xs) = c a"
proof -
  have ok: "block_ok f b" and bal: "xs \<noteq> [] \<Longrightarrow> ys \<noteq> [] \<Longrightarrow> sum_list (map c xs) = sum_list (map c ys)"
    using s b xs ys by (simp_all add: sound_def graph_ok_def conserves_def)
  have range: "\<forall>a \<in> set xs. a < length (arcs f)" "\<forall>a \<in> set ys. a < length (arcs f)" "distinct xs" "distinct ys"
    using ok xs ys by (simp_all add: block_ok_def)
  have known: "all_resolved f as \<Longrightarrow> \<forall>a \<in> set as. a < length (arcs f) \<Longrightarrow> flow_of f as = sum_list (map c as)" for as
    using s flow_of_agrees by (simp add: sound_def)
  show "xs \<noteq> [] \<Longrightarrow> all_resolved f xs \<Longrightarrow> a \<in> set ys \<Longrightarrow> all_resolved f (filter (\<lambda>x. x \<noteq> a) ys) \<Longrightarrow>
      flow_of f xs - flow_of f (filter (\<lambda>x. x \<noteq> a) ys) = c a"
    using known [of xs] known [of "filter (\<lambda>x. x \<noteq> a) ys"] sum_list_without [OF range(4), of a c] bal range by force
  show "ys \<noteq> [] \<Longrightarrow> all_resolved f ys \<Longrightarrow> a \<in> set xs \<Longrightarrow> all_resolved f (filter (\<lambda>x. x \<noteq> a) xs) \<Longrightarrow>
      flow_of f ys - flow_of f (filter (\<lambda>x. x \<noteq> a) xs) = c a"
    using known [of ys] known [of "filter (\<lambda>x. x \<noteq> a) xs"] sum_list_without [OF range(3), of a c] bal range by force
qed

lemma ArcSummary_Resolve_sound:
  assumes s: "sound c f" and a: "a < length (arcs f)" and res: "ArcSummary_Resolve a f = (r, f')"
  shows "sound c f' \<and> refines f f' \<and> (r \<longrightarrow> settled f' a)"
proof (cases "removable (arc_of f a)")
  case True
  then show ?thesis
    using res sound_drop_exit [OF s a True] by (auto simp: ArcSummary_Resolve_def removable_def Let_def)
next
  case False
  let ?src = "src_block (arc_of f a)" and ?dst = "dst_block (arc_of f a)"
  have ok: "?src < length (blocks f)" "?dst < length (blocks f)" "a \<in> set (exit_arcs (block_of f ?src))"
    "a \<in> set (entry_arcs (block_of f ?dst))"
    using s a False by (auto simp: sound_def graph_ok_def arc_ok_def)
  note set = sound_set_count [OF s a False]
  show ?thesis
    using res False set derived_count(1) [OF s ok(1) refl refl _ _ ok(3)]
      derived_count(2) [OF s ok(2) refl refl _ _ ok(4)] s refines_refl [of f]
    by (auto simp: ArcSummary_Resolve_def removable_def Let_def split: if_splits)
qed

lemma resolve_loop_sound:
  "resolve_loop unres idx prev f = (r, f') \<Longrightarrow> sound c f \<Longrightarrow> \<forall>x \<in> set unres. x < length (arcs f) \<Longrightarrow>
   sound c f' \<and> refines f f' \<and> (r \<longrightarrow> (\<forall>x \<in> set unres. settled f' x))"
proof (induction unres idx prev f rule: resolve_loop.induct)
  case (1 unres idx prev f)
  let ?i = "idx mod length unres" and ?a = "unres ! (idx mod length unres)"
  show ?case
  proof (cases "unres = [] \<or> ?i = 0 \<and> length unres = prev")
    case True
    with 1(3,4) show ?thesis by (subst (asm) resolve_loop.simps) (auto simp: refines_refl split: if_splits)
  next
    case False
    obtain b g where step: "ArcSummary_Resolve ?a f = (b, g)" by fastforce
    have "?a \<in> set unres" using False by simp
    then have "?a < length (arcs f)" using 1(5) by blast
    note one = ArcSummary_Resolve_sound [OF 1(4) this step]
    then have len: "length (arcs g) = length (arcs f)" by (simp add: refines_def)
    show ?thesis
    proof (cases b)
      case True
      have loop: "resolve_loop (remove1 ?a unres) ?i (length unres) g = (r, f')"
        using 1(3) False step True by (subst (asm) resolve_loop.simps) (auto simp: Let_def)
      have "sound c f' \<and> refines g f' \<and> (r \<longrightarrow> (\<forall>x \<in> set (remove1 ?a unres). settled f' x))"
        using 1(1) [OF _ refl _ step [symmetric] _ loop] False True one len 1(5) by (auto dest: notin_set_remove1)
      moreover have "x = ?a \<or> x \<in> set (remove1 ?a unres)" if "x \<in> set unres" for x
        using that by (metis in_set_remove1)
      ultimately show ?thesis
        using one True refines_trans [of f g f'] refines_settled [of g f' ?a] by metis
    next
      case b: False
      have loop: "resolve_loop unres (?i + 1) (length unres) g = (r, f')"
        using 1(3) False step b by (subst (asm) resolve_loop.simps) (auto simp: Let_def)
      have "sound c f' \<and> refines g f' \<and> (r \<longrightarrow> (\<forall>x \<in> set unres. settled f' x))"
        using 1(2) [OF _ refl _ step [symmetric] _ loop] False b one len 1(5) by auto
      then show ?thesis using one refines_trans [of f g f'] by blast
    qed
  qed
qed

lemma bex_nth: "(\<exists>x \<in> set xs. P x) \<longleftrightarrow> (\<exists>i < length xs. P (xs ! i))"
  by (metis in_set_conv_nth)

lemma unresolved_arcs_iff:
  assumes "graph_ok f"
  shows "a \<in> set (unresolved_arcs f) \<longleftrightarrow>
    a < length (arcs f) \<and> \<not> resolved (arc_of f a) \<and> a \<in> set (exit_arcs (block_of f (src_block (arc_of f a))))"
proof -
  have "a \<in> set (unresolved_arcs f) \<longleftrightarrow>
      (\<exists>b < length (blocks f). a \<in> set (exit_arcs (block_of f b)) \<and> \<not> resolved (arc_of f a))"
    unfolding unresolved_arcs_def block_of_def set_concat set_map set_filter
    by (auto simp: bex_nth)
  then show ?thesis using assms by (auto simp: graph_ok_def block_ok_def arc_ok_def)
qed

lemma resolve_loop_counts:
  assumes f: "sound c f" and loop: "resolve_loop (unresolved_arcs f) 0 (length (unresolved_arcs f) + 1) f = (True, g)"
  shows "sound c g \<and> refines f g \<and> (\<forall>a < length (arcs f). arc_count (arc_of g a) = c a)"
proof -
  have ok: "graph_ok f" using f by (simp add: sound_def)
  have g: "sound c g" "refines f g" "\<forall>x \<in> set (unresolved_arcs f). settled g x"
    using resolve_loop_sound [OF loop f] unresolved_arcs_iff [OF ok] by auto
  have "arc_count (arc_of g a) = c a" if a: "a < length (arcs f)" for a
  proof (cases "removable (arc_of f a)")
    case True
    then show ?thesis using a g by (simp add: sound_def conserves_def refines_def)
  next
    case False
    have "settled g a"
      using unresolved_arcs_iff [OF ok, of a] a g refines_settled [OF g(2), of a] by (auto simp: settled_def [of f])
    moreover have "arc_ok g a" using a g(1,2) by (simp add: sound_def graph_ok_def refines_def)
    ultimately have "resolved (arc_of g a)"
      using False g(2) by (simp add: settled_def arc_ok_def refines_def)
    then show ?thesis using a g(1,2) by (simp add: sound_def agrees_def refines_def)
  qed
  with g show ?thesis by blast
qed

lemma block_counts_flow:
  assumes "graph_ok g" and "\<forall>a < length (arcs g). arc_count (arc_of g a) = c a" and "b < length (blocks g)"
  shows "block_count (block_of (block_counts g) b) = sum_list (map c
    (if entry_arcs (block_of g b) \<noteq> [] then entry_arcs (block_of g b) else exit_arcs (block_of g b)))"
proof -
  have "flow_of g as = sum_list (map c as)" if "\<forall>a \<in> set as. a < length (arcs g)" for as
    unfolding flow_of_def using that assms(2) by (auto intro!: arg_cong [where f = sum_list])
  moreover have "block_ok g b" using assms(1,3) by (simp add: graph_ok_def)
  ultimately show ?thesis
    using assms(3) by (simp add: block_counts_def block_of_def block_ok_def)
qed

lemma Resolve_counts:
  assumes "graph_ok f" and "conserves c f" and "agrees c f" and "FunctionSummary_Resolve f = (True, f')"
  shows "(\<forall>a < length (arcs f). arc_count (arc_of f' a) = c a) \<and>
    (\<forall>b < length (blocks f). block_count (block_of f' b) = sum_list (map c
       (if entry_arcs (block_of f b) \<noteq> [] then entry_arcs (block_of f b) else exit_arcs (block_of f' b))))"
proof -
  obtain g where loop: "resolve_loop (unresolved_arcs f) 0 (length (unresolved_arcs f) + 1) f = (True, g)"
    and f': "f' = block_counts g"
    using assms(4) by (auto simp: FunctionSummary_Resolve_def Let_def split: prod.splits bool.splits)
  have g: "sound c g" "refines f g" "\<forall>a < length (arcs f). arc_count (arc_of g a) = c a"
    using resolve_loop_counts [OF _ loop, of c] assms by (simp_all add: sound_def)
  have arc: "arc_of f' a = arc_of g a" for a by (simp add: f' block_counts_def arc_of_def)
  have ex: "exit_arcs (block_of f' b) = exit_arcs (block_of g b)" if "b < length (blocks f)" for b
    using that g(2) by (simp add: f' block_counts_def block_of_def refines_def)
  have "block_count (block_of f' b) = sum_list (map c
      (if entry_arcs (block_of f b) \<noteq> [] then entry_arcs (block_of f b) else exit_arcs (block_of f' b)))"
    if b: "b < length (blocks f)" for b
    using block_counts_flow [of g c b] g b ex by (simp add: f' sound_def refines_def)
  with g(3) arc show ?thesis by simp
qed

subsection \<open>Properties\<close>


text \<open>
  A straight line of five blocks: 4, 0, 1, 2, 3, in this order. The count of the arc from 2 to 3 is known.
\<close>

definition line_block :: "nat list \<Rightarrow> nat list \<Rightarrow> nat \<Rightarrow> block_summary" where
  "line_block ins outs i = (BlockSummary i 0)\<lparr>entry_arcs := ins, exit_arcs := outs\<rparr>"

definition line_function :: "nat \<Rightarrow> function_summary" where
  "line_function n = (FunctionSummary 1 ''main'' ''a.c'' 1)
     \<lparr>blocks := [line_block [3] [0] 0, line_block [0] [1] 1, line_block [1] [2] 2, line_block [2] [] 3,
        line_block [] [3] 4],
      arcs := [ArcSummary 0 1 1, ArcSummary 1 2 1, (ArcSummary 2 3 0)\<lparr>resolved := True, arc_count := int n\<rparr>,
        ArcSummary 4 0 1]\<rparr>"


text \<open>\<open>Resolve\<close> gives up too early. On this straight line the loop resolves one arc, does not go back
  to the arcs before it, and returns False although every count follows from the known one: a second call
  on the same function finishes the work.\<close>

theorem Resolve_gives_up_early:
  "fst (FunctionSummary_Resolve (line_function 7)) = False \<and>
   fst (FunctionSummary_Resolve (snd (FunctionSummary_Resolve (line_function 7)))) = True"
  by code_simp

end
