(* ===== verification/Gcov_Files.thy ===== *)
theory Gcov_Files
  imports Gcov_Stream Gcov_Graph
begin

section \<open>The .gcno and .gcda parsers\<close>

text \<open>
  \<open>GCNOParser\<close> (utils/python/coverage/gcno\_parser.py) reads the functions, blocks, arcs and lines of a
  .gcno file; \<open>GCDAParser\<close> (utils/python/coverage/gcda\_parser.py) reads the counts of a .gcda file into
  them and resolves the rest. The local variable \<open>func\<close> of \<open>Parse\<close> is part of the state: for the first
  parser it is the function object under construction, for the second the key of a function of the
  summary. Both main loops read until no tag is found; they are total because every round consumes a tag.
\<close>

subsection \<open>Tags\<close>

definition read_error :: "py_error + 'a \<Rightarrow> (file_error, 's, 'a) raising" where
  "read_error r = (case r of Inl e \<Rightarrow> raiseA (Raised e) | Inr v \<Rightarrow> returnA v)"

text \<open>The inner loop that skips words until it finds a tag.\<close>

function find_tag :: "nat list \<Rightarrow> 'z gcov_stream_scheme \<Rightarrow> (file_error + nat) \<times> 'z gcov_stream_scheme" where
  "find_tag tags s =
     (case ReadInt s of
        (Inl e, s') \<Rightarrow> (Inl e, s')
      | (Inr tag, s') \<Rightarrow> if tag \<in> set tags then (Inr tag, s') else find_tag tags s')"
  by pat_completeness auto

termination
proof (relation "measure (\<lambda>(tags, s). length (stream s))", goal_cases)
  case (2 tags s x y)
  then show ?case using ReadInt_cases [of s] by auto
qed simp

declare find_tag.simps [simp del]

definition read_header :: "nat list \<Rightarrow> ('z, nat \<times> nat) reader" where
  "read_header tags = bindA (find_tag tags) (\<lambda>tag. bindA ReadInt (\<lambda>n. returnA (tag, n)))"

fun read_ints :: "nat \<Rightarrow> ('z, nat list) reader" where
  "read_ints 0 = returnA []"
| "read_ints (Suc n) = bindA ReadInt (\<lambda>x. bindA (read_ints n) (\<lambda>xs. returnA (x # xs)))"

text \<open>\<open>int(self.version[1]) > 4\<close>.\<close>

definition digit_value :: "char \<Rightarrow> py_error + nat" where
  "digit_value c =
     (if 48 \<le> (of_char c :: nat) \<and> (of_char c :: nat) \<le> 57 then Inr (of_char c - 48) else Inl ValueError)"

definition new_format :: "('z, bool) reader" where
  "new_format = getA version (\<lambda>v. read_error (bindR (py_index v 1) (\<lambda>c. bindR (digit_value c) (\<lambda>n. Inr (n > 4)))))"

subsection \<open>GCNOParser\<close>

record gcno_parser = gcov_stream +
  file_summary :: file_summary
  parsed :: bool
  func :: "function_summary option"

type_synonym 'a gcno_reader = "(file_error, gcno_parser, 'a) raising"

definition GCNO_MAGIC :: nat where "GCNO_MAGIC = 0x67636e6f"
definition TAG_FUNCTION :: nat where "TAG_FUNCTION = 0x01000000"
definition TAG_BLOCKS :: nat where "TAG_BLOCKS = 0x01410000"
definition TAG_ARCS :: nat where "TAG_ARCS = 0x01430000"
definition TAG_LINES :: nat where "TAG_LINES = 0x01450000"
definition BYTES_IN_WORD :: nat where "BYTES_IN_WORD = 4"
definition HEADER_LENGTH :: nat where "HEADER_LENGTH = 3"

definition GCNOParser :: "string \<Rightarrow> (file_error + unit) \<times> gcno_parser" where
  "GCNOParser data =
     seqA (GcovStreamParserUtil GCNO_MAGIC) (modifyA (\<lambda>s. s\<lparr>file_summary := [], parsed := False\<rparr>))
       \<lparr>stream = data, fmt = LittleEndian, version = [], checksum = 0, file_summary = [], parsed = False, func = None\<rparr>"

definition gcno_ReadFunction :: "function_summary gcno_reader" where
  "gcno_ReadFunction =
     bindA ReadInt (\<lambda>i. seqA ReadInt (bindA new_format (\<lambda>new.
       seqA (if new then ReadInt else returnA 0)
         (bindA ReadString (\<lambda>n. bindA ReadString (\<lambda>src. bindA ReadInt (\<lambda>line.
            returnA (FunctionSummary i n src line))))))))"

text \<open>Access to an attribute of \<open>func\<close>, which may be \<open>None\<close>, and to one of its blocks.\<close>

definition get_func :: "function_summary gcno_reader" where
  "get_func = getA func (\<lambda>f. case f of None \<Rightarrow> raiseA (Raised AttributeError) | Some g \<Rightarrow> returnA g)"

definition check_block :: "nat \<Rightarrow> unit gcno_reader" where
  "check_block b = bindA get_func (\<lambda>f. if b < length (blocks f) then returnA () else raiseA (Raised IndexError))"

definition update_func :: "(function_summary \<Rightarrow> function_summary) \<Rightarrow> unit gcno_reader" where
  "update_func g = bindA get_func (\<lambda>f. modifyA (\<lambda>s. s\<lparr>func := Some (g f)\<rparr>))"

definition add_blocks :: "nat list \<Rightarrow> function_summary \<Rightarrow> function_summary" where
  "add_blocks flags f =
     f\<lparr>blocks := blocks f @ map (\<lambda>i. BlockSummary i (flags ! i)) [0..<length flags]\<rparr>"

definition ReadBlocks :: "nat \<Rightarrow> unit gcno_reader" where
  "ReadBlocks n = bindA (read_ints n) (\<lambda>flags. update_func (add_blocks flags))"

definition update_block :: "nat \<Rightarrow> (block_summary \<Rightarrow> block_summary) \<Rightarrow> function_summary \<Rightarrow> function_summary" where
  "update_block b g f = f\<lparr>blocks := (blocks f)[b := g (block_of f b)]\<rparr>"

definition add_arc :: "nat \<Rightarrow> nat \<Rightarrow> nat \<Rightarrow> function_summary \<Rightarrow> function_summary" where
  "add_arc src dst flg f =
     (let a = length (arcs f);
          f = f\<lparr>arcs := arcs f @ [ArcSummary src dst flg]\<rparr>;
          f = update_block src (\<lambda>b. b\<lparr>exit_arcs := exit_arcs b @ [a]\<rparr>) f
      in update_block dst (\<lambda>b. b\<lparr>entry_arcs := entry_arcs b @ [a]\<rparr>) f)"

fun read_arcs :: "nat \<Rightarrow> nat \<Rightarrow> unit gcno_reader" where
  "read_arcs src 0 = returnA ()"
| "read_arcs src (Suc n) =
     bindA ReadInt (\<lambda>dst. seqA (check_block dst) (bindA ReadInt (\<lambda>flg.
       seqA (update_func (add_arc src dst flg)) (read_arcs src n))))"

definition ReadArcs :: "nat \<Rightarrow> unit gcno_reader" where
  "ReadArcs n = bindA ReadInt (\<lambda>src. seqA (check_block src) (read_arcs src (nat ((int n - 1) div 2))))"

definition ReadLines :: "nat \<Rightarrow> unit gcno_reader" where
  "ReadLines n =
     bindA ReadInt (\<lambda>b. seqA ReadInt (bindA ReadString (\<lambda>src.
       let src_length = (length src + (BYTES_IN_WORD - 1)) div BYTES_IN_WORD + 1 in
       bindA (read_ints (nat (int n - int src_length - int HEADER_LENGTH))) (\<lambda>ls.
         seqA (check_block b)
           (update_func (update_block b (\<lambda>blk. blk\<lparr>block_lines := filter (\<lambda>l. l \<noteq> 0) ls\<rparr>)))))))"

text \<open>\<open>self.file_summary.functions[func.ident] = func\<close>, when there is a function.\<close>

definition store_func :: "gcno_parser \<Rightarrow> gcno_parser" where
  "store_func s = (case func s of
     None \<Rightarrow> s | Some f \<Rightarrow> s\<lparr>file_summary := dict_set (ident f) f (file_summary s)\<rparr>)"

definition gcno_section :: "nat \<Rightarrow> nat \<Rightarrow> unit gcno_reader" where
  "gcno_section tag n =
     (if tag = TAG_FUNCTION then
        seqA (modifyA store_func) (bindA gcno_ReadFunction (\<lambda>f. modifyA (\<lambda>s. s\<lparr>func := Some f\<rparr>)))
      else if tag = TAG_BLOCKS then ReadBlocks n
      else if tag = TAG_ARCS then ReadArcs n
      else if tag = TAG_LINES then ReadLines n
      else returnA ())"

abbreviation gcno_tags :: "nat list" where
  "gcno_tags \<equiv> [TAG_FUNCTION, TAG_BLOCKS, TAG_ARCS, TAG_LINES]"

subsubsection \<open>Every round consumes input\<close>

lemma keeps_find_tag [keeps_rules]: "keeps (\<lambda>s. length (stream s) \<le> k) (find_tag tags)"
proof (rule keepsI)
  fix s :: "'a gcov_stream_scheme"
  assume "length (stream s) \<le> k"
  then show "length (stream (snd (find_tag tags s))) \<le> k"
  proof (induction tags s rule: find_tag.induct)
    case (1 tags s)
    show ?case
      using ReadInt_cases [of s]
    proof
      assume "\<exists>n s'. ReadInt s = (Inr n, s') \<and> length (stream s) = 4 + length (stream s')"
      then show ?case using 1 by (subst find_tag.simps) auto
    next
      assume "ReadInt s = (Inl CORRUPT, s\<lparr>stream := []\<rparr>) \<and> length (stream s) < 4"
      then show ?case by (subst find_tag.simps) simp
    qed
  qed
qed

lemma read_header_consumes:
  assumes "read_header tags s = (Inr x, s')"
  shows "length (stream s') < length (stream s)"
proof -
  obtain tag s1 where 1: "find_tag tags s = (Inr tag, s1)" and 2: "ReadInt s1 = (Inr (snd x), s')"
    using assms by (auto simp: read_header_def bindA_def returnA_def split: prod.splits sum.splits)
  have "length (stream s1) \<le> length (stream s)"
    using 1 keeps_find_tag [of "length (stream s)" tags] by (auto simp: keeps_def dest!: spec [of _ s])
  then show ?thesis using 2 ReadInt_cases [of s1] by auto
qed

lemma keeps_read_ints [keeps_rules]: "keeps (\<lambda>s. length (stream s) \<le> k) (read_ints n)"
  by (induction n) (auto intro!: keeps_rules)

lemma keeps_read_error [keeps_rules]: "keeps I (read_error r)"
  by (simp add: read_error_def keeps_pure split: sum.split)

lemma keeps_new_format [keeps_rules]: "keeps I new_format"
  unfolding new_format_def by (intro keeps_rules)

lemma keeps_get_func [keeps_rules]: "keeps I get_func" "keeps I (check_block b)"
  unfolding check_block_def get_func_def by (intro keeps_rules)+

lemma keeps_update_func [keeps_rules]:
  "keeps (\<lambda>s. length (stream s) \<le> k) (update_func g)"
  unfolding update_func_def by (intro keeps_rules) simp

lemma keeps_read_arcs [keeps_rules]: "keeps (\<lambda>s. length (stream s) \<le> k) (read_arcs src n)"
  by (induction n) (auto intro!: keeps_rules)

lemma store_func_stream [simp]: "stream (store_func s) = stream s"
  by (simp add: store_func_def split: option.split)

lemma keeps_gcno_section: "keeps (\<lambda>s. length (stream s) \<le> k) (gcno_section tag n)"
  unfolding gcno_section_def gcno_ReadFunction_def ReadBlocks_def ReadArcs_def ReadLines_def Let_def
  by (intro keeps_rules) simp_all

subsubsection \<open>Parse\<close>

text \<open>
  The main loop. The end of the file is found by a failing read of a tag or of its length; a read that
  fails inside a section is an error.
\<close>

function gcno_loop :: "unit gcno_reader" where
  "gcno_loop s =
     (case read_header gcno_tags s of
        (Inl e, s1) \<Rightarrow>
          (if func s1 = None then (Inl (FileFormatError ''Invalid file.''), s1)
           else (Inr (), (store_func s1)\<lparr>parsed := True\<rparr>))
      | (Inr (tag, n), s1) \<Rightarrow>
          (case gcno_section tag n s1 of
             (Inl e, s2) \<Rightarrow> (Inl e, s2)
           | (Inr _, s2) \<Rightarrow> gcno_loop s2))"
  by pat_completeness auto

termination
proof (relation "measure (\<lambda>s. length (stream s))", goal_cases)
  case (2 s x s1 y tag n z s2 u)
  have "length (stream s1) < length (stream s)" 
    using 2 read_header_consumes [of gcno_tags s "(tag, n)" s1] by simp
  moreover have "length (stream s2) \<le> length (stream s1)"
    using 2 keeps_step [OF keeps_gcno_section [of "length (stream s1)" tag n], of s1 "Inr ()" s2] by simp
  ultimately show ?case by simp
qed simp

declare gcno_loop.simps [simp del]

definition gcno_Parse :: "file_summary gcno_reader" where
  "gcno_Parse =
     getA parsed (\<lambda>p.
       if p then getA file_summary returnA
       else seqA (modifyA (\<lambda>s. s\<lparr>func := None\<rparr>)) (seqA gcno_loop (getA file_summary returnA)))"

definition ParseGcnoFile :: "string \<Rightarrow> file_error + file_summary" where
  "ParseGcnoFile data =
     (case GCNOParser data of (Inl e, s) \<Rightarrow> Inl e | (Inr _, s) \<Rightarrow> fst (gcno_Parse s))"

subsection \<open>GCDAParser\<close>

record gcda_parser = gcov_stream +
  coverage :: file_summary
  current :: "nat option"

type_synonym 'a gcda_reader = "(file_error, gcda_parser, 'a) raising"

definition GCDA_MAGIC :: nat where "GCDA_MAGIC = 0x67636461"
definition TAG_COUNTER :: nat where "TAG_COUNTER = 0x01a10000"
definition TAG_OBJECT :: nat where "TAG_OBJECT = 0xa1000000"
definition TAG_PROGRAM :: nat where "TAG_PROGRAM = 0xa3000000"

definition GCDAParser :: "string \<Rightarrow> (file_error + unit) \<times> gcda_parser" where
  "GCDAParser data = GcovStreamParserUtil GCDA_MAGIC
     \<lparr>stream = data, fmt = LittleEndian, version = [], checksum = 0, coverage = [], current = None\<rparr>"

definition gcda_ReadFunction :: "nat \<Rightarrow> nat gcda_reader" where
  "gcda_ReadFunction n =
     bindA ReadInt (\<lambda>i. getA coverage (\<lambda>d.
       if map_of d i = None then raiseA (Raised KeyError)
       else seqA ReadInt (bindA new_format (\<lambda>new.
         seqA (if new then ReadInt else returnA 0)
           (seqA (if (if new then 4 else 3) < n then ReadString else returnA []) (returnA i))))))"

definition current_func :: "(nat \<times> function_summary) gcda_reader" where
  "current_func = getA (\<lambda>s. (current s, coverage s)) (\<lambda>(c, d).
     case c of
       None \<Rightarrow> raiseA (Raised AttributeError)
     | Some i \<Rightarrow> (case map_of d i of None \<Rightarrow> raiseA (Raised KeyError) | Some f \<Rightarrow> returnA (i, f)))"

definition put_func :: "nat \<Rightarrow> function_summary \<Rightarrow> unit gcda_reader" where
  "put_func i f = modifyA (\<lambda>s. s\<lparr>coverage := dict_set i f (coverage s)\<rparr>)"

text \<open>The arcs whose counts the .gcda file holds, in the order of the two loops.\<close>

definition counted_arcs :: "function_summary \<Rightarrow> nat list" where
  "counted_arcs f =
     filter (\<lambda>a. \<not> fake (arc_of f a) \<and> \<not> on_tree (arc_of f a)) (concat (map exit_arcs (blocks f)))"

fun read_counts :: "nat list \<Rightarrow> unit gcda_reader" where
  "read_counts [] = returnA ()"
| "read_counts (a # as) =
     bindA ReadInt64 (\<lambda>n. bindA current_func (\<lambda>(i, f).
       seqA (put_func i (set_count a (int n) f)) (read_counts as)))"

definition ReadCounts :: "unit gcda_reader" where
  "ReadCounts = bindA current_func (\<lambda>(i, f). read_counts (counted_arcs f))"

definition resolve_current :: "unit gcda_reader" where
  "resolve_current = bindA current_func (\<lambda>(i, f).
     let (ok, f') = FunctionSummary_Resolve f in
     seqA (put_func i f')
       (if ok then returnA ()
        else raiseA (FileFormatError ''Corrupt file: Counts could not be resolved.'')))"

definition gcda_section :: "nat \<Rightarrow> nat \<Rightarrow> unit gcda_reader" where
  "gcda_section tag n =
     (if tag = TAG_FUNCTION then bindA (gcda_ReadFunction n) (\<lambda>i. modifyA (\<lambda>s. s\<lparr>current := Some i\<rparr>))
      else if tag = TAG_COUNTER then seqA ReadCounts resolve_current
      else if tag = TAG_OBJECT then returnA ()
      else if tag = TAG_PROGRAM then seqA ReadInt (seqA (read_ints (n - 1)) (returnA ()))
      else returnA ())"

abbreviation gcda_tags :: "nat list" where
  "gcda_tags \<equiv> [TAG_FUNCTION, TAG_COUNTER, TAG_OBJECT, TAG_PROGRAM]"

lemma keeps_current_func [keeps_rules]: "keeps I current_func"
  unfolding current_func_def by (intro keeps_rules)

lemma keeps_put_func [keeps_rules]: "keeps (\<lambda>s. length (stream s) \<le> k) (put_func i f)"
  unfolding put_func_def by (intro keeps_rules) simp

lemma keeps_read_counts [keeps_rules]: "keeps (\<lambda>s. length (stream s) \<le> k) (read_counts as)"
  by (induction as) (auto intro!: keeps_rules)

lemma keeps_gcda_section: "keeps (\<lambda>s. length (stream s) \<le> k) (gcda_section tag n)"
  unfolding gcda_section_def gcda_ReadFunction_def ReadCounts_def resolve_current_def Let_def
  by (intro keeps_rules) simp_all

function gcda_loop :: "unit gcda_reader" where
  "gcda_loop s =
     (case read_header gcda_tags s of
        (Inl e, s1) \<Rightarrow> (Inr (), s1)
      | (Inr (tag, n), s1) \<Rightarrow>
          (case gcda_section tag n s1 of
             (Inl e, s2) \<Rightarrow> (Inl e, s2)
           | (Inr _, s2) \<Rightarrow> gcda_loop s2))"
  by pat_completeness auto

termination
proof (relation "measure (\<lambda>s. length (stream s))", goal_cases)
  case (2 s x s1 y tag n z s2 u)
  have "length (stream s1) < length (stream s)"
    using 2 read_header_consumes [of gcda_tags s "(tag, n)" s1] by simp
  moreover have "length (stream s2) \<le> length (stream s1)"
    using 2 keeps_step [OF keeps_gcda_section [of "length (stream s1)" tag n], of s1 "Inr ()" s2] by simp
  ultimately show ?case by simp
qed simp

declare gcda_loop.simps [simp del]

definition gcda_Parse :: "file_summary \<Rightarrow> file_summary gcda_reader" where
  "gcda_Parse d = seqA (modifyA (\<lambda>s. s\<lparr>coverage := d, current := None\<rparr>)) (seqA gcda_loop (getA coverage returnA))"

definition ParseGcdaFile :: "string \<Rightarrow> file_summary \<Rightarrow> file_error + file_summary" where
  "ParseGcdaFile data d =
     (case GCDAParser data of (Inl e, s) \<Rightarrow> Inl e | (Inr _, s) \<Rightarrow> fst (gcda_Parse d s))"

end
