(* ===== verification/Gcov_Properties.thy ===== *)
theory Gcov_Properties
  imports Gcov_Files
begin

section \<open>Properties of the coverage parsers\<close>

text \<open>
  Whatever the bytes of a .gcno file, the functions read from it have consistent graphs; a file written
  from a list of records is read back as the functions the records describe; and the counts of a .gcda
  file are those of the execution that wrote it.
\<close>

subsection \<open>Functions under construction\<close>

text \<open>A consistent graph with every arc in place and none resolved.\<close>

definition fresh_arc :: "function_summary \<Rightarrow> nat \<Rightarrow> bool" where
  "fresh_arc f a \<longleftrightarrow> \<not> resolved (arc_of f a) \<and> arc_count (arc_of f a) = 0 \<and>
     a \<in> set (exit_arcs (block_of f (src_block (arc_of f a))))"

definition fresh :: "function_summary \<Rightarrow> bool" where
  "fresh f \<longleftrightarrow> graph_ok f \<and> (\<forall>a < length (arcs f). fresh_arc f a)"

lemma fresh_FunctionSummary: "fresh (FunctionSummary i n src line)"
  by (simp add: fresh_def graph_ok_def FunctionSummary_def)

lemma block_of_add_blocks:
  "b < length (blocks f) \<Longrightarrow> block_of (add_blocks flags f) b = block_of f b"
  "length (blocks f) \<le> b \<Longrightarrow> b < length (blocks f) + length flags \<Longrightarrow>
     entry_arcs (block_of (add_blocks flags f) b) = [] \<and> exit_arcs (block_of (add_blocks flags f) b) = []"
  by (simp_all add: add_blocks_def block_of_def nth_append BlockSummary_def)

lemma add_blocks_simps [simp]:
  "arcs (add_blocks flags f) = arcs f" "arc_of (add_blocks flags f) a = arc_of f a"
  "length (blocks (add_blocks flags f)) = length (blocks f) + length flags" "ident (add_blocks flags f) = ident f"
  by (simp_all add: add_blocks_def arc_of_def)

lemma fresh_add_blocks:
  assumes "fresh f"
  shows "fresh (add_blocks flags f)"
proof -
  have arc: "arc_ok f a \<and> fresh_arc f a" if "a < length (arcs f)" for a
    using that assms by (simp add: fresh_def graph_ok_def)
  have "arc_ok (add_blocks flags f) a \<and> fresh_arc (add_blocks flags f) a" if "a < length (arcs f)" for a
    using arc [OF that] by (auto simp: arc_ok_def fresh_arc_def block_of_add_blocks)
  moreover have "block_ok (add_blocks flags f) b" if "b < length (blocks f) + length flags" for b
  proof (cases "b < length (blocks f)")
    case True
    then show ?thesis using assms by (simp add: fresh_def graph_ok_def block_ok_def block_of_add_blocks)
  next
    case False
    then show ?thesis using that block_of_add_blocks(2) [of f b flags] by (simp add: block_ok_def)
  qed
  ultimately show ?thesis by (simp add: fresh_def graph_ok_def)
qed

lemma update_lines_frame [simp]:
  fixes b ls
  defines "g \<equiv> update_block b (\<lambda>blk. blk\<lparr>block_lines := ls\<rparr>)"
  shows "arcs (g f) = arcs f" "arc_of (g f) a = arc_of f a" "length (blocks (g f)) = length (blocks f)"
    "ident (g f) = ident f" "entry_arcs (block_of (g f) x) = entry_arcs (block_of f x)"
    "exit_arcs (block_of (g f) x) = exit_arcs (block_of f x)"
  unfolding g_def
  by (auto simp: update_block_def arc_of_def block_of_def nth_upd)

lemma fresh_update_lines: "fresh f \<Longrightarrow> fresh (update_block b (\<lambda>blk. blk\<lparr>block_lines := ls\<rparr>) f)"
  by (simp add: fresh_def graph_ok_def arc_ok_def block_ok_def fresh_arc_def)

lemma add_arc_simps:
  assumes "src < length (blocks f)" and "dst < length (blocks f)"
  shows "length (arcs (add_arc src dst flg f)) = Suc (length (arcs f))"
    "length (blocks (add_arc src dst flg f)) = length (blocks f)" "ident (add_arc src dst flg f) = ident f"
    "arc_of (add_arc src dst flg f) a = (if a = length (arcs f) then ArcSummary src dst flg
       else if a < length (arcs f) then arc_of f a else arc_of (add_arc src dst flg f) a)"
    "exit_arcs (block_of (add_arc src dst flg f) b) =
       (if b = src then exit_arcs (block_of f b) @ [length (arcs f)] else exit_arcs (block_of f b))"
    "entry_arcs (block_of (add_arc src dst flg f) b) =
       (if b = dst then entry_arcs (block_of f b) @ [length (arcs f)] else entry_arcs (block_of f b))"
  using assms
  by (auto simp: add_arc_def update_block_def Let_def arc_of_def block_of_def nth_append nth_upd)

lemma fresh_add_arc:
  assumes f: "fresh f" and src: "src < length (blocks f)" and dst: "dst < length (blocks f)"
  shows "fresh (add_arc src dst flg f)"
proof -
  let ?g = "add_arc src dst flg f" and ?n = "length (arcs f)"
  note simps = add_arc_simps [OF src dst]
  have old: "arc_of ?g a = arc_of f a" if "a < ?n" for a using that by (simp add: simps)
  have new: "arc_of ?g ?n = ArcSummary src dst flg" by (simp add: simps)
  have "arc_ok ?g a \<and> fresh_arc ?g a" if "a < Suc ?n" for a
  proof (cases "a = ?n")
    case True
    then show ?thesis
      using src dst new simps(2,5,6) by (simp add: arc_ok_def fresh_arc_def) (simp add: ArcSummary_def)
  next
    case False
    then have a: "a < ?n" using that by simp
    then show ?thesis
      using f old [OF a] simps(2,5,6) by (auto simp: fresh_def graph_ok_def arc_ok_def fresh_arc_def)
  qed
  moreover have "block_ok ?g b" if b: "b < length (blocks f)" for b
  proof -
    have ok: "block_ok f b" using f b by (simp add: fresh_def graph_ok_def)
    have "src_block (arc_of ?g ?n) = src" "dst_block (arc_of ?g ?n) = dst"
      using new by (simp_all add: ArcSummary_def)
    with ok old show ?thesis
      by (auto simp: block_ok_def simps(1,5,6) less_Suc_eq)
  qed
  ultimately show ?thesis using simps(1,2) by (simp add: fresh_def graph_ok_def)
qed

subsection \<open>Every function read from a .gcno file is consistent\<close>

definition gcno_inv :: "gcno_parser \<Rightarrow> bool" where
  "gcno_inv s \<longleftrightarrow> (\<forall>(k, f) \<in> set (file_summary s). fresh f \<and> ident f = k) \<and>
     (\<forall>f. func s = Some f \<longrightarrow> fresh f)"

lemma gcno_inv_stream [simp]: "gcno_inv (s\<lparr>stream := x\<rparr>) = gcno_inv s"
  by (simp add: gcno_inv_def)

lemma ReadInt_frame: "\<exists>r x. ReadInt s = (r, s\<lparr>stream := x\<rparr>)"
  by (auto simp: ReadInt_def bindA_def read_bytes_def)

text \<open>Reading alone changes nothing but the rest of the file.\<close>

lemma keeps_reading:
  fixes I :: "'z gcov_stream_scheme \<Rightarrow> bool"
  assumes "\<And>s x. I s \<Longrightarrow> I (s\<lparr>stream := x\<rparr>)"
  shows "keeps I (read_bytes n)" "keeps I ReadInt" "keeps I ReadString" "keeps I (read_ints m)" "keeps I (find_tag tags)"
    "keeps I (read_header tags)"
proof -
  show bytes: "keeps I (read_bytes n)" for n by (simp add: keeps_def read_bytes_def assms)
  show word: "keeps I ReadInt" using assms by (auto simp: keeps_def ReadInt_def bindA_def read_bytes_def)
  show "keeps I ReadString"
    unfolding ReadString_def Let_def by (intro keeps_rules bytes word)
  show "keeps I (read_ints m)" by (induction m) (auto intro!: keeps_rules word)
  show tag: "keeps I (find_tag tags)"
  proof (rule keepsI)
    fix s assume "I s"
    then show "I (snd (find_tag tags s))"
    proof (induction tags s rule: find_tag.induct)
      case (1 tags s)
      obtain r s' where r: "ReadInt s = (r, s')" by fastforce
      then have "I s'" using keeps_step [OF word 1(2)] by blast
      then show ?case using r 1(1) by (subst find_tag.simps) (auto split: sum.split)
    qed
  qed
  show "keeps I (read_header tags)"
    unfolding read_header_def by (intro keeps_rules tag word)
qed

lemmas keeps_gcno_reading = keeps_reading [of gcno_inv, simplified]

lemma keeps_inv_update:
  "(\<And>f. fresh f \<Longrightarrow> fresh (g f)) \<Longrightarrow> keeps gcno_inv (update_func g)"
  by (auto simp: keeps_def update_func_def get_func_def getA_def bindA_def raiseA_def returnA_def modifyA_def
      gcno_inv_def split: option.split)

lemma store_func_inv: "gcno_inv s \<Longrightarrow> gcno_inv (store_func s)"
proof (cases "func s")
  case (Some f)
  assume s: "gcno_inv s"
  have "fresh g \<and> ident g = k" if "(k, g) \<in> set (dict_set (ident f) f (file_summary s))" for k g
    using that s Some set_dict_set [of "ident f" f "file_summary s"] by (auto simp: gcno_inv_def)
  with Some s show ?thesis by (auto simp: gcno_inv_def store_func_def)
qed (simp add: store_func_def)

text \<open>While arcs are read, their source block is in range.\<close>

definition arcs_inv :: "nat \<Rightarrow> gcno_parser \<Rightarrow> bool" where
  "arcs_inv src s \<longleftrightarrow> gcno_inv s \<and> (\<exists>f. func s = Some f \<and> src < length (blocks f))"

lemma keeps_read_arc:
  assumes "keeps (arcs_inv src) k"
  shows "keeps (arcs_inv src) (bindA ReadInt (\<lambda>dst. seqA (check_block dst) (bindA ReadInt (\<lambda>flg.
    seqA (update_func (add_arc src dst flg)) k))))"
proof (rule keepsI)
  fix s assume s: "arcs_inv src s"
  then obtain f where f: "func s = Some f" "src < length (blocks f)" "fresh f"
    by (auto simp: arcs_inv_def gcno_inv_def)
  obtain r x where 1: "ReadInt s = (r, s\<lparr>stream := x\<rparr>)" using ReadInt_frame by blast
  obtain r' y where 2: "ReadInt (s\<lparr>stream := x\<rparr>) = (r', s\<lparr>stream := x\<rparr>\<lparr>stream := y\<rparr>)" using ReadInt_frame by blast
  have inv: "arcs_inv src (s\<lparr>stream := z\<rparr>)" for z using s by (simp add: arcs_inv_def)
  have "arcs_inv src (s\<lparr>stream := y, func := Some (add_arc src dst flg f)\<rparr>)" if "dst < length (blocks f)" for dst flg
    using s f that by (simp add: arcs_inv_def gcno_inv_def fresh_add_arc add_arc_simps)
  then have "arcs_inv src (snd (k (s\<lparr>stream := y, func := Some (add_arc src dst flg f)\<rparr>)))"
    if "dst < length (blocks f)" for dst flg using that keepsD [OF assms] by blast
  then show "arcs_inv src (snd (bindA ReadInt (\<lambda>dst. seqA (check_block dst) (bindA ReadInt (\<lambda>flg.
      seqA (update_func (add_arc src dst flg)) k))) s))"
    using 1 2 inv f
    by (cases r; cases r') (auto simp: bindA_def seqA_def check_block_def update_func_def get_func_def getA_def
        raiseA_def returnA_def modifyA_def)
qed

lemma keeps_inv_read_arcs: "keeps (arcs_inv src) (read_arcs src n)"
proof (induction n)
  case (Suc n)
  show ?case unfolding read_arcs.simps by (rule keeps_read_arc [OF Suc])
qed (simp add: keeps_pure)

lemma keeps_ReadArcs: "keeps gcno_inv (ReadArcs n)"
proof (rule keepsI)
  fix s assume s: "gcno_inv s"
  obtain r x where 1: "ReadInt s = (r, s\<lparr>stream := x\<rparr>)" using ReadInt_frame by blast
  have "gcno_inv (snd (read_arcs src m (s\<lparr>stream := x\<rparr>)))" if "func s = Some f" "src < length (blocks f)" for src m f
    using keepsD [OF keeps_inv_read_arcs, of src "s\<lparr>stream := x\<rparr>" m] s that by (simp add: arcs_inv_def)
  then show "gcno_inv (snd (ReadArcs n s))"
    using 1 s by (cases r) (auto simp: ReadArcs_def bindA_def seqA_def check_block_def get_func_def getA_def raiseA_def
        returnA_def split: option.split)
qed

lemma keeps_inv_section: "keeps gcno_inv (gcno_section tag n)"
proof -
  have "keeps gcno_inv (bindA gcno_ReadFunction (\<lambda>f. modifyA (\<lambda>s. s\<lparr>func := Some f\<rparr>)))"
    unfolding gcno_ReadFunction_def seqA_def bindA_assoc bindA_return
    by (intro keeps_rules keeps_gcno_reading) (simp add: gcno_inv_def fresh_FunctionSummary)
  moreover have "keeps gcno_inv (ReadBlocks n)"
    unfolding ReadBlocks_def by (intro keeps_rules keeps_gcno_reading keeps_inv_update fresh_add_blocks)
  moreover have "keeps gcno_inv (ReadLines n)"
    unfolding ReadLines_def Let_def
    by (intro keeps_rules keeps_gcno_reading keeps_inv_update fresh_update_lines)
  ultimately show ?thesis
    by (simp add: gcno_section_def keeps_seq keeps_modify keeps_ReadArcs store_func_inv keeps_pure)
qed

lemma gcno_loop_inv: "gcno_inv s \<Longrightarrow> gcno_inv (snd (gcno_loop s))"
proof (induction s rule: gcno_loop.induct)
  case (1 s)
  obtain r s1 where h: "read_header gcno_tags s = (r, s1)" by fastforce
  then have s1: "gcno_inv s1" using keeps_step [OF keeps_gcno_reading(6) 1(2)] by blast
  show ?case
  proof (cases r)
    case (Inl e)
    then show ?thesis using h s1 store_func_inv [OF s1] by (subst gcno_loop.simps) (simp add: gcno_inv_def)
  next
    case (Inr x)
    obtain tag n where x: "x = (tag, n)" by fastforce
    obtain q s2 where q: "gcno_section tag n s1 = (q, s2)" by fastforce
    then have "gcno_inv s2" using keeps_step [OF keeps_inv_section s1] by blast
    then show ?thesis
      using 1(1) [OF h [symmetric] Inr x [symmetric] q [symmetric]] h Inr x q
      by (subst gcno_loop.simps) (cases q; simp)
  qed
qed

subsection \<open>Writing .gcno files\<close>

text \<open>The records of a .gcno file, and the bytes of each in a file of either byte order; \<open>new\<close> says
  whether functions carry a configuration checksum.\<close>

datatype gcno_record =
    G_Function nat nat nat string string nat
  | G_Blocks "nat list"
  | G_Arcs nat "(nat \<times> nat) list"
  | G_Lines nat string "nat list"

definition words :: "byte_order \<Rightarrow> nat list \<Rightarrow> string" where
  "words bo ns = concat (map (int_bytes bo) ns)"

fun record_tag :: "gcno_record \<Rightarrow> nat" where
  "record_tag (G_Function _ _ _ _ _ _) = TAG_FUNCTION"
| "record_tag (G_Blocks _) = TAG_BLOCKS"
| "record_tag (G_Arcs _ _) = TAG_ARCS"
| "record_tag (G_Lines _ _ _) = TAG_LINES"

fun payload :: "byte_order \<Rightarrow> bool \<Rightarrow> gcno_record \<Rightarrow> string" where
  "payload bo new (G_Function i lc cc n src line) =
     words bo ([i, lc] @ (if new then [cc] else [])) @ string_bytes bo n @ string_bytes bo src @ words bo [line]"
| "payload bo new (G_Blocks flags) = words bo flags"
| "payload bo new (G_Arcs src as) = words bo (src # concat (map (\<lambda>(d, g). [d, g]) as))"
| "payload bo new (G_Lines b src ls) = words bo [b, 0] @ string_bytes bo src @ words bo (ls @ [0, 0])"

definition record_bytes :: "byte_order \<Rightarrow> bool \<Rightarrow> gcno_record \<Rightarrow> string" where
  "record_bytes bo new r = words bo [record_tag r, length (payload bo new r) div 4] @ payload bo new r"

text \<open>What a record means: the function under construction is stored when the next one starts.\<close>

fun apply_record :: "gcno_record \<Rightarrow> file_summary \<times> function_summary option \<Rightarrow>
    file_summary \<times> function_summary option" where
  "apply_record (G_Function i lc cc n src line) (d, f) =
     (case f of None \<Rightarrow> d | Some g \<Rightarrow> dict_set (ident g) g d, Some (FunctionSummary i n src line))"
| "apply_record (G_Blocks flags) (d, f) = (d, map_option (add_blocks flags) f)"
| "apply_record (G_Arcs src as) (d, f) = (d, map_option (fold (\<lambda>(t, g). add_arc src t g) as) f)"
| "apply_record (G_Lines b src ls) (d, f) =
     (d, map_option (update_block b (\<lambda>blk. blk\<lparr>block_lines := ls\<rparr>)) f)"

text \<open>Records that can be written: words and strings fit, blocks exist, line numbers are not 0.\<close>

definition word_ok :: "nat \<Rightarrow> bool" where "word_ok n \<longleftrightarrow> n < 2 ^ 32"

fun record_ok :: "gcno_record \<Rightarrow> function_summary option \<Rightarrow> bool" where
  "record_ok (G_Function i lc cc n src line) f \<longleftrightarrow>
     word_ok i \<and> word_ok lc \<and> word_ok cc \<and> plain_string n \<and> plain_string src \<and> word_ok line"
| "record_ok (G_Blocks flags) f \<longleftrightarrow> f \<noteq> None \<and> (\<forall>x \<in> set flags. word_ok x)"
| "record_ok (G_Arcs src as) f \<longleftrightarrow>
     word_ok src \<and> (\<exists>g. f = Some g \<and> src < length (blocks g) \<and>
       (\<forall>(t, x) \<in> set as. word_ok t \<and> word_ok x \<and> t < length (blocks g)))"
| "record_ok (G_Lines b src ls) f \<longleftrightarrow>
     word_ok b \<and> plain_string src \<and> (\<forall>l \<in> set ls. word_ok l \<and> l \<noteq> 0) \<and> (\<exists>g. f = Some g \<and> b < length (blocks g))"

fun records_ok :: "byte_order \<Rightarrow> bool \<Rightarrow> gcno_record list \<Rightarrow> file_summary \<times> function_summary option \<Rightarrow> bool" where
  "records_ok bo new [] df \<longleftrightarrow> True"
| "records_ok bo new (r # rs) df \<longleftrightarrow>
     record_ok r (snd df) \<and> word_ok (length (payload bo new r) div 4) \<and> records_ok bo new rs (apply_record r df)"

definition apply_records :: "gcno_record list \<Rightarrow> file_summary" where
  "apply_records rs =
     (case fold apply_record rs ([], None) of (d, f) \<Rightarrow>
        (case f of None \<Rightarrow> d | Some g \<Rightarrow> dict_set (ident g) g d))"

subsection \<open>Reading them back\<close>

lemma words_simps [simp]: "words bo [] = []" "words bo (n # ns) = int_bytes bo n @ words bo ns"
  "words bo (ns @ ms) = words bo ns @ words bo ms" "length (words bo ns) = 4 * length ns"
  by (simp_all add: words_def length_concat comp_def sum_list_triv)

lemma length_string_bytes [simp]: "length (string_bytes bo t) = 4 + 4 * string_words t"
proof -
  have "length t \<le> 4 * string_words t" unfolding string_words_def by presburger
  then show ?thesis by (simp add: string_bytes_def)
qed

lemma read_word [simp]:
  "word_ok n \<Longrightarrow> ReadInt (s\<lparr>stream := int_bytes (fmt s) n @ rest\<rparr>) = (Inr n, s\<lparr>stream := rest\<rparr>)"
  using ReadInt_word [of n "s\<lparr>stream := int_bytes (fmt s) n @ rest\<rparr>"] by (simp add: word_ok_def)

lemma read_text [simp]:
  "plain_string t \<Longrightarrow> ReadString (s\<lparr>stream := string_bytes (fmt s) t @ rest\<rparr>) = (Inr t, s\<lparr>stream := rest\<rparr>)"
  using ReadString_word [of t "s\<lparr>stream := string_bytes (fmt s) t @ rest\<rparr>"] by simp

lemma read_ints_words:
  "\<forall>x \<in> set xs. word_ok x \<Longrightarrow> read_ints (length xs) (s\<lparr>stream := words (fmt s) xs @ rest\<rparr>) =
     (Inr xs, s\<lparr>stream := rest\<rparr>)"
  by (induction xs) (simp_all add: bindA_def returnA_def)

lemma stream_first [simp]:
  "(s :: gcno_parser)\<lparr>func := f, stream := x\<rparr> = s\<lparr>stream := x, func := f\<rparr>"
  "s\<lparr>file_summary := d, stream := x\<rparr> = s\<lparr>stream := x, file_summary := d\<rparr>"
  "s\<lparr>func := f, file_summary := d\<rparr> = s\<lparr>file_summary := d, func := f\<rparr>"
  by simp_all

lemma read_blocks_words:
  assumes "func s = Some f" and "\<forall>x \<in> set flags. word_ok x"
  shows "ReadBlocks (length flags) (s\<lparr>stream := words (fmt s) flags @ rest\<rparr>) =
    (Inr (), s\<lparr>stream := rest, func := Some (add_blocks flags f)\<rparr>)"
  using assms
  by (simp add: ReadBlocks_def bindA_def read_ints_words update_func_def get_func_def getA_def returnA_def modifyA_def)

lemma length_blocks_add_arc [simp]: "length (blocks (add_arc src dst flg f)) = length (blocks f)"
  by (simp add: add_arc_def update_block_def Let_def)

lemma read_arcs_words:
  "func s = Some f \<Longrightarrow> \<forall>(t, x) \<in> set as. word_ok t \<and> word_ok x \<and> t < length (blocks f) \<Longrightarrow>
   read_arcs src (length as) (s\<lparr>stream := words (fmt s) (concat (map (\<lambda>(d, g). [d, g]) as)) @ rest\<rparr>) =
     (Inr (), s\<lparr>stream := rest, func := Some (fold (\<lambda>(t, g). add_arc src t g) as f)\<rparr>)"
proof (induction as arbitrary: s f)
  case Nil
  then show ?case by (cases s) (simp add: returnA_def)
next
  case (Cons x as)
  obtain t g where x: "x = (t, g)" by fastforce
  let ?s = "s\<lparr>func := Some (add_arc src t g f)\<rparr>"
  have "read_arcs src (length as) (?s\<lparr>stream := words (fmt ?s) (concat (map (\<lambda>(d, g). [d, g]) as)) @ rest\<rparr>) =
      (Inr (), ?s\<lparr>stream := rest, func := Some (fold (\<lambda>(t, g). add_arc src t g) as (add_arc src t g f))\<rparr>)"
    by (rule Cons.IH) (use Cons.prems in \<open>simp_all add: case_prod_unfold\<close>)
  with Cons.prems x show ?case
    by (simp add: bindA_def seqA_def check_block_def update_func_def get_func_def getA_def returnA_def modifyA_def)
qed

lemma read_arcs_section:
  assumes "func s = Some f" and "src < length (blocks f)" and "word_ok src"
    and "\<forall>(t, x) \<in> set as. word_ok t \<and> word_ok x \<and> t < length (blocks f)"
  shows "ReadArcs (Suc (2 * length as))
      (s\<lparr>stream := words (fmt s) (src # concat (map (\<lambda>(d, g). [d, g]) as)) @ rest\<rparr>) =
    (Inr (), s\<lparr>stream := rest, func := Some (fold (\<lambda>(t, g). add_arc src t g) as f)\<rparr>)"
  using assms read_arcs_words [OF assms(1,4), of src rest]
  by (simp add: ReadArcs_def bindA_def seqA_def check_block_def get_func_def getA_def returnA_def)

lemma word_ok_0 [simp]: "word_ok 0"
  by (simp add: word_ok_def)

lemma read_lines_section:
  assumes f: "func s = Some f" and b: "b < length (blocks f)" "word_ok b" and src: "plain_string src"
    and ls: "\<forall>l \<in> set ls. word_ok l \<and> l \<noteq> 0"
  shows "\<exists>zeros. zeros \<in> {[], words (fmt s) [0]} \<and>
    ReadLines (5 + (string_words src + length ls))
      (s\<lparr>stream := words (fmt s) [b, 0] @ string_bytes (fmt s) src @ words (fmt s) (ls @ [0, 0]) @ rest\<rparr>) =
    (Inr (), s\<lparr>stream := zeros @ rest, func := Some (update_block b (\<lambda>blk. blk\<lparr>block_lines := ls\<rparr>) f)\<rparr>)"
proof -
  define k where "k = string_words src - (length src + 3) div 4"
  have k: "k = 0 \<or> k = 1" "string_words src = (length src + 3) div 4 + k"
    unfolding k_def string_words_def by presburger+
  define xs where "xs = ls @ replicate (Suc k) 0"
  define zs where "zs = words (fmt s) (replicate (1 - k) 0)"
  have count: "nat (int (5 + (string_words src + length ls)) -
      int ((length src + (BYTES_IN_WORD - 1)) div BYTES_IN_WORD + 1) - int HEADER_LENGTH) = length xs"
    using k(2) by (simp add: BYTES_IN_WORD_def HEADER_LENGTH_def xs_def)
  have split: "words (fmt s) (ls @ [0, 0]) @ rest = words (fmt s) xs @ zs @ rest"
    using k(1) by (auto simp: xs_def zs_def)
  have "\<forall>x \<in> set xs. word_ok x" using ls by (auto simp: xs_def)
  note read = read_ints_words [OF this, of s "zs @ rest"]
  have keep: "filter (\<lambda>l. 0 < l) xs = ls" using ls by (auto simp: xs_def filter_id_conv)
  have "zs \<in> {[], words (fmt s) [0]}" using k(1) by (auto simp: zs_def)
  moreover have "ReadLines (5 + (string_words src + length ls))
      (s\<lparr>stream := words (fmt s) [b, 0] @ string_bytes (fmt s) src @ words (fmt s) (ls @ [0, 0]) @ rest\<rparr>) =
    (Inr (), s\<lparr>stream := zs @ rest, func := Some (update_block b (\<lambda>blk. blk\<lparr>block_lines := ls\<rparr>) f)\<rparr>)"
    unfolding split ReadLines_def Let_def
    using f b src read keep count [simplified]
    by (simp add: bindA_def seqA_def check_block_def update_func_def get_func_def getA_def returnA_def modifyA_def)
  ultimately show ?thesis by blast
qed

text \<open>The version decides whether functions carry a configuration checksum.\<close>

definition version_new :: "string \<Rightarrow> bool \<Rightarrow> bool" where
  "version_new v new \<longleftrightarrow> bindR (py_index v 1) (\<lambda>c. bindR (digit_value c) (\<lambda>n. Inr (n > 4))) = Inr new"

lemma read_function_section:
  assumes "version_new (version s) new" and "word_ok i" "word_ok lc" "word_ok cc" "word_ok line"
    and "plain_string n" "plain_string src"
  shows "gcno_ReadFunction (s\<lparr>stream := payload (fmt s) new (G_Function i lc cc n src line) @ rest\<rparr>) =
    (Inr (FunctionSummary i n src line), s\<lparr>stream := rest\<rparr>)"
  using assms
  by (cases new) (simp_all add: gcno_ReadFunction_def bindA_def seqA_def new_format_def getA_def read_error_def version_new_def
      returnA_def)

lemma find_tag_word:
  "word_ok n \<Longrightarrow> find_tag tags (s\<lparr>stream := int_bytes (fmt s) n @ rest\<rparr>) =
     (if n \<in> set tags then (Inr n, s\<lparr>stream := rest\<rparr>) else find_tag tags (s\<lparr>stream := rest\<rparr>))"
  by (subst find_tag.simps) simp

lemma loop_skips_zeros:
  "zeros \<in> {[], words (fmt s) [0]} \<Longrightarrow> gcno_loop (s\<lparr>stream := zeros @ rest\<rparr>) = gcno_loop (s\<lparr>stream := rest\<rparr>)"
proof -
  have "read_header gcno_tags (s\<lparr>stream := int_bytes (fmt s) 0 @ rest\<rparr>) = read_header gcno_tags (s\<lparr>stream := rest\<rparr>)"
    by (simp add: read_header_def bindA_def find_tag_word TAG_FUNCTION_def TAG_BLOCKS_def TAG_ARCS_def TAG_LINES_def)
  then have "gcno_loop (s\<lparr>stream := int_bytes (fmt s) 0 @ rest\<rparr>) = gcno_loop (s\<lparr>stream := rest\<rparr>)"
    by (subst (1 2) gcno_loop.simps) simp
  then show "zeros \<in> {[], words (fmt s) [0]} \<Longrightarrow> gcno_loop (s\<lparr>stream := zeros @ rest\<rparr>) = gcno_loop (s\<lparr>stream := rest\<rparr>)"
    by auto
qed

lemma header_of_record:
  assumes "word_ok (length (payload (fmt s) new r) div 4)"
  shows "read_header gcno_tags (s\<lparr>stream := record_bytes (fmt s) new r @ rest\<rparr>) =
    (Inr (record_tag r, length (payload (fmt s) new r) div 4), s\<lparr>stream := payload (fmt s) new r @ rest\<rparr>)"
proof -
  have "word_ok (record_tag r)" "record_tag r \<in> set gcno_tags"
    by (cases r; simp add: word_ok_def TAG_FUNCTION_def TAG_BLOCKS_def TAG_ARCS_def TAG_LINES_def)+
  then show ?thesis
    using assms by (simp add: read_header_def record_bytes_def bindA_def find_tag_word returnA_def)
qed

lemma section_of_record:
  assumes "record_ok r (func s)" and "version_new (version s) new"
    and "apply_record r (file_summary s, func s) = (d, f)"
  shows "\<exists>zeros. zeros \<in> {[], words (fmt s) [0]} \<and>
    gcno_section (record_tag r) (length (payload (fmt s) new r) div 4)
      (s\<lparr>stream := payload (fmt s) new r @ rest\<rparr>) =
    (Inr (), s\<lparr>stream := zeros @ rest, file_summary := d, func := f\<rparr>)"
proof (cases r)
  case (G_Function i lc cc n src line)
  have "gcno_ReadFunction (store_func (s\<lparr>stream := payload (fmt s) new r @ rest\<rparr>)) =
      (Inr (FunctionSummary i n src line), (store_func s)\<lparr>stream := rest\<rparr>)"
    using read_function_section [of "store_func s" new i lc cc line n src rest] assms(1,2) G_Function
    by (auto simp: store_func_def split: option.splits)
  then show ?thesis
    using assms(3) G_Function
    by (intro exI [of _ "[]"]) (auto simp: gcno_section_def seqA_def bindA_def modifyA_def store_func_def
        split: option.splits)
next
  case (G_Blocks flags)
  then show ?thesis
    using assms read_blocks_words [of s _ flags rest]
    by (intro exI [of _ "[]"]) (auto simp: gcno_section_def TAG_FUNCTION_def TAG_BLOCKS_def)
next
  case (G_Arcs src as)
  have "length (concat (map (\<lambda>(d, g). [d, g]) as)) = 2 * length as" by (induction as) auto
  then show ?thesis
    using assms read_arcs_section [of s _ src as rest] G_Arcs
    by (intro exI [of _ "[]"]) (auto simp: gcno_section_def TAG_FUNCTION_def TAG_BLOCKS_def TAG_ARCS_def)
next
  case (G_Lines b src ls)
  obtain g where g: "func s = Some g" "b < length (blocks g)" using assms(1) G_Lines by auto
  have "length (payload (fmt s) new r) div 4 = 5 + (string_words src + length ls)" by (simp add: G_Lines)
  then have "gcno_section (record_tag r) (length (payload (fmt s) new r) div 4) = ReadLines (5 + (string_words src + length ls))"
    by (simp add: G_Lines gcno_section_def TAG_FUNCTION_def TAG_BLOCKS_def TAG_ARCS_def TAG_LINES_def)
  then show ?thesis
    using read_lines_section [OF g, of src ls rest] assms(1,3) G_Lines g by auto
qed

lemma gcno_loop_records:
  "records_ok (fmt s) new rs (file_summary s, func s) \<Longrightarrow> version_new (version s) new \<Longrightarrow> rs \<noteq> [] \<or> func s \<noteq> None \<Longrightarrow>
   stream s = concat (map (record_bytes (fmt s) new) rs) \<Longrightarrow> fold apply_record rs (file_summary s, func s) = (d, Some f) \<Longrightarrow>
   \<exists>s'. gcno_loop s = (Inr (), s') \<and> file_summary s' = dict_set (ident f) f d"
proof (induction rs arbitrary: s)
  case Nil
  then have "ReadInt s = (Inl CORRUPT, s)"
    by (cases s) (simp add: ReadInt_def bindA_def read_bytes_def)
  then have "read_header gcno_tags s = (Inl CORRUPT, s)"
    by (simp add: read_header_def bindA_def) (subst find_tag.simps, simp)
  with Nil show ?case by (subst gcno_loop.simps) (auto simp: store_func_def)
next
  case (Cons r rs)
  let ?rest = "concat (map (record_bytes (fmt s) new) rs)"
  obtain d1 f1 where step: "apply_record r (file_summary s, func s) = (d1, f1)" by fastforce
  obtain zeros where z: "zeros \<in> {[], words (fmt s) [0]}"
    and sec: "gcno_section (record_tag r) (length (payload (fmt s) new r) div 4)
        (s\<lparr>stream := payload (fmt s) new r @ ?rest\<rparr>) =
      (Inr (), s\<lparr>stream := zeros @ ?rest, file_summary := d1, func := f1\<rparr>)"
    using section_of_record [OF _ Cons.prems(2) step, of ?rest] Cons.prems(1) by auto
  let ?s1 = "s\<lparr>file_summary := d1, func := f1\<rparr>"
  have "s = s\<lparr>stream := record_bytes (fmt s) new r @ ?rest\<rparr>" using Cons.prems(4) by simp
  then have "gcno_loop s = gcno_loop (s\<lparr>stream := record_bytes (fmt s) new r @ ?rest\<rparr>)" by simp
  also have "\<dots> = gcno_loop (s\<lparr>stream := zeros @ ?rest, file_summary := d1, func := f1\<rparr>)"
    using header_of_record [of s new r ?rest] Cons.prems(1) sec by (subst gcno_loop.simps) simp
  also have "\<dots> = gcno_loop (?s1\<lparr>stream := ?rest\<rparr>)"
    using loop_skips_zeros [of zeros ?s1 ?rest] z by simp
  finally have loop: "gcno_loop s = gcno_loop (?s1\<lparr>stream := ?rest\<rparr>)" .
  have "f1 \<noteq> None"
    using step Cons.prems(1) by (cases r) (auto split: option.splits)
  then have "\<exists>s'. gcno_loop (?s1\<lparr>stream := ?rest\<rparr>) = (Inr (), s') \<and> file_summary s' = dict_set (ident f) f d"
    using Cons.prems step by (intro Cons.IH) simp_all
  then show ?case using loop by simp
qed

lemma records_end_with_function:
  "records_ok bo new rs df \<Longrightarrow> rs \<noteq> [] \<or> snd df \<noteq> None \<Longrightarrow> snd (fold apply_record rs df) \<noteq> None"
proof (induction rs arbitrary: df)
  case (Cons r rs)
  have "snd (apply_record r df) \<noteq> None"
    using Cons.prems(1) by (cases r; cases df) (auto split: option.splits)
  with Cons show ?case by simp
qed simp

lemma gcno_parse_records:
  assumes "records_ok bo new rs ([], None)" and "rs \<noteq> []" and "length v = 4" and "version_new v new"
    and "length c = 4"
  shows "ParseGcnoFile (int_bytes bo GCNO_MAGIC @ v @ c @ concat (map (record_bytes bo new) rs)) =
    Inr (apply_records rs)"
proof -
  let ?data = "int_bytes bo GCNO_MAGIC @ v @ c @ concat (map (record_bytes bo new) rs)"
  let ?s = "\<lparr>stream = concat (map (record_bytes bo new) rs), fmt = bo, version = v,
    checksum = uint_of LittleEndian c, file_summary = [], parsed = False, func = None\<rparr>"
  have magic: "GCNO_MAGIC < 2 ^ 32" "uint_of LittleEndian (int_bytes BigEndian GCNO_MAGIC) \<noteq> GCNO_MAGIC"
    by (simp_all add: GCNO_MAGIC_def uint_of_def int_bytes_def upt_rec Let_def)
  let ?start = "\<lparr>stream = ?data, fmt = LittleEndian, version = [], checksum = 0, file_summary = [], parsed = False,
    func = None\<rparr>"
  have init: "GCNOParser ?data = (Inr (), ?s)"
  proof -
    have "GcovStreamParserUtil GCNO_MAGIC ?start = (Inr (), ?s)"
      using header_read [OF magic assms(3,5), of ?start bo "concat (map (record_bytes bo new) rs)"] by simp
    then show ?thesis unfolding GCNOParser_def seqA_def bindA_def modifyA_def by simp
  qed
  obtain d f where fold: "fold apply_record rs ([], None) = (d, Some f)"
    using records_end_with_function [OF assms(1)] assms(2) by (cases "fold apply_record rs ([], None)") auto
  obtain s' where "gcno_loop ?s = (Inr (), s')" "file_summary s' = dict_set (ident f) f d"
    using gcno_loop_records [of ?s new rs d f] assms fold by auto
  with init fold show ?thesis
    by (simp add: ParseGcnoFile_def gcno_Parse_def getA_def seqA_def bindA_def modifyA_def returnA_def apply_records_def)
qed

subsection \<open>Properties of the .gcno parser\<close>

text \<open>(C28) Whatever bytes a .gcno file holds, a function that the parser returns has a consistent control
  flow graph, filed under its own identifier: every arc is an exit arc of its source and an entry arc of
  its destination exactly once, both blocks exist, and no count is set yet.\<close>

theorem gcno_functions_consistent:
  assumes "ParseGcnoFile data = Inr d"
  shows "\<forall>(k, f) \<in> set d. fresh f \<and> ident f = k"
proof -
  obtain s where s: "GCNOParser data = (Inr (), s)" and p: "fst (gcno_Parse s) = Inr d"
    using assms by (auto simp: ParseGcnoFile_def split: prod.splits sum.splits)
  have "file_summary s = []" "\<not> parsed s"
    using s by (auto simp: GCNOParser_def seqA_def bindA_def modifyA_def split: prod.splits sum.splits)
  then have start: "gcno_inv (s\<lparr>func := None\<rparr>)" "\<not> parsed s" by (simp_all add: gcno_inv_def)
  obtain r s' where loop: "gcno_loop (s\<lparr>func := None\<rparr>) = (r, s')" by fastforce
  then have "gcno_inv s'" using gcno_loop_inv [OF start(1)] by simp
  moreover have "file_summary s' = d"
    using p loop start(2) by (cases r) (auto simp: gcno_Parse_def getA_def seqA_def bindA_def modifyA_def returnA_def)
  ultimately show ?thesis by (simp add: gcno_inv_def)
qed

text \<open>(C4) A .gcno file is read back as what it describes: for either byte order and both record layouts, the
  bytes of a header and of any sequence of well-formed records parse to exactly the functions, blocks, arcs
  and lines that the records stand for.\<close>

theorem gcno_round_trip:
  assumes "records_ok bo new rs ([], None)" and "rs \<noteq> []" and "length v = 4" and "version_new v new"
    and "length c = 4"
  shows "ParseGcnoFile (int_bytes bo GCNO_MAGIC @ v @ c @ concat (map (record_bytes bo new) rs)) =
    Inr (apply_records rs)"
  using assms by (rule gcno_parse_records)

text \<open>A file with one function of two blocks, one arc and one line.\<close>

definition demo_records :: "gcno_record list" where
  "demo_records = [G_Function 7 1 2 ''main'' ''a.c'' 3, G_Blocks [0, 0], G_Arcs 0 [(1, 0)], G_Lines 1 ''a.c'' [4, 5]]"

lemma demo_records_ok: "records_ok BigEndian True demo_records ([], None)"
  by (simp add: demo_records_def word_ok_def plain_string_def string_words_def FunctionSummary_def add_blocks_def
      add_arc_def update_block_def Let_def)

lemma demo_parse:
  "ParseGcnoFile (int_bytes BigEndian GCNO_MAGIC @ ''*802'' @ ''abcd'' @
     concat (map (record_bytes BigEndian True) demo_records)) = Inr (apply_records demo_records)"
  by (rule gcno_parse_records [OF demo_records_ok])
     (simp_all add: demo_records_def version_new_def py_index_def digit_value_def)

theorem gcno_round_trip_witness:
  "ParseGcnoFile (int_bytes BigEndian GCNO_MAGIC @ ''*802'' @ ''abcd'' @
     concat (map (record_bytes BigEndian True) demo_records)) = Inr (apply_records demo_records)"
  by (rule gcno_round_trip [OF demo_records_ok])
     (simp_all add: demo_records_def version_new_def py_index_def digit_value_def)

theorem gcno_functions_consistent_witness:
  "\<exists>d. ParseGcnoFile (int_bytes BigEndian GCNO_MAGIC @ ''*802'' @ ''abcd'' @
     concat (map (record_bytes BigEndian True) demo_records)) = Inr d \<and> d \<noteq> [] \<and> (\<forall>(k, f) \<in> set d. fresh f)"
proof -
  let ?data = "int_bytes BigEndian GCNO_MAGIC @ ''*802'' @ ''abcd'' @
     concat (map (record_bytes BigEndian True) demo_records)"
  have parse: "ParseGcnoFile ?data = Inr (apply_records demo_records)"
    using demo_parse .
  moreover have "apply_records demo_records \<noteq> []"
    by (simp add: apply_records_def demo_records_def)
  ultimately show ?thesis using gcno_functions_consistent [OF parse] by auto
qed

subsection \<open>Reading counts\<close>

lemma read_count [simp]:
  "n < 2 ^ 64 \<Longrightarrow> ReadInt64 (s\<lparr>stream := int64_bytes (fmt s) n @ rest\<rparr>) = (Inr n, s\<lparr>stream := rest\<rparr>)"
  using ReadInt64_word [of n "s\<lparr>stream := int64_bytes (fmt s) n @ rest\<rparr>"] by simp

definition set_counts :: "(nat \<Rightarrow> nat) \<Rightarrow> nat list \<Rightarrow> function_summary \<Rightarrow> function_summary" where
  "set_counts c as f = fold (\<lambda>a. set_count a (int (c a))) as f"

lemma coverage_last [simp]:
  "(s :: gcda_parser)\<lparr>coverage := d, stream := x\<rparr> = s\<lparr>stream := x, coverage := d\<rparr>"
  by simp

lemma read_counts_words:
  "current s = Some i \<Longrightarrow> map_of (coverage s) i = Some f \<Longrightarrow> \<forall>a \<in> set as. c a < 2 ^ 64 \<Longrightarrow>
   \<exists>s'. read_counts as (s\<lparr>stream := concat (map (\<lambda>a. int64_bytes (fmt s) (c a)) as) @ rest\<rparr>) = (Inr (), s') \<and>
     current s' = Some i \<and> map_of (coverage s') i = Some (set_counts c as f)"
proof (induction as arbitrary: s f)
  case (Cons a as)
  let ?s = "s\<lparr>coverage := dict_set i (set_count a (int (c a)) f) (coverage s)\<rparr>"
  have "\<exists>s'. read_counts as (?s\<lparr>stream := concat (map (\<lambda>a. int64_bytes (fmt ?s) (c a)) as) @ rest\<rparr>) = (Inr (), s') \<and>
      current s' = Some i \<and> map_of (coverage s') i = Some (set_counts c as (set_count a (int (c a)) f))"
    by (rule Cons.IH) (use Cons.prems in simp_all)
  with Cons.prems show ?case
    by (simp add: bindA_def seqA_def current_func_def put_func_def getA_def returnA_def modifyA_def set_counts_def)
qed (simp add: returnA_def set_counts_def)

lemma set_counts_facts:
  assumes "graph_ok f" and "conserves (\<lambda>a. int (c a)) f"
    and "\<forall>a \<in> set as. a < length (arcs f) \<and> \<not> removable (arc_of f a)"
  shows "graph_ok (set_counts c as f) \<and> conserves (\<lambda>a. int (c a)) (set_counts c as f) \<and>
    blocks (set_counts c as f) = blocks f \<and> length (arcs (set_counts c as f)) = length (arcs f) \<and>
    (agrees (\<lambda>a. int (c a)) f \<longrightarrow> agrees (\<lambda>a. int (c a)) (set_counts c as f))"
  using assms
proof (induction as arbitrary: f)
  case (Cons a as)
  let ?f = "set_count a (int (c a)) f"
  have a: "a < length (arcs f)" "\<not> removable (arc_of f a)" using Cons.prems(3) by simp_all
  have "graph_ok ?f" "conserves (\<lambda>a. int (c a)) ?f"
    using Cons.prems a by (simp_all add: graph_ok_set_count conserves_set_count)
  moreover have "\<forall>x \<in> set as. x < length (arcs ?f) \<and> \<not> removable (arc_of ?f x)"
    using Cons.prems(3) a by (simp add: arc_of_set_count) (auto simp: removable_def)
  moreover have "agrees (\<lambda>a. int (c a)) f \<Longrightarrow> agrees (\<lambda>a. int (c a)) ?f"
    using a by (auto simp: agrees_def arc_of_set_count)
  ultimately show ?case using Cons.IH [of ?f] by (simp add: set_counts_def)
qed (simp add: set_counts_def)

lemma counted_arcs_ok:
  "graph_ok f \<Longrightarrow> a \<in> set (counted_arcs f) \<Longrightarrow> a < length (arcs f) \<and> \<not> removable (arc_of f a)"
  by (auto simp: counted_arcs_def removable_def graph_ok_def block_ok_def block_of_def in_set_conv_nth [of _ "blocks f"])

lemma fresh_agrees: "fresh f \<Longrightarrow> agrees c f"
  by (simp add: fresh_def fresh_arc_def agrees_def)

lemma counter_section_run:
  assumes "current s = Some i" and "map_of (coverage s) i = Some f" and "\<forall>a. c a < 2 ^ 64"
    and "stream s = concat (map (\<lambda>a. int64_bytes (fmt s) (c a)) (counted_arcs f)) @ rest"
  shows "\<exists>s'. gcda_section TAG_COUNTER n s =
      ((if fst (FunctionSummary_Resolve (set_counts c (counted_arcs f) f)) then Inr ()
        else Inl (FileFormatError ''Corrupt file: Counts could not be resolved.'')), s') \<and>
    map_of (coverage s') i = Some (snd (FunctionSummary_Resolve (set_counts c (counted_arcs f) f)))"
proof -
  let ?g = "set_counts c (counted_arcs f) f"
  have "s\<lparr>stream := concat (map (\<lambda>a. int64_bytes (fmt s) (c a)) (counted_arcs f)) @ rest\<rparr> = s"
    using assms(4) by simp
  then obtain s1 where s1: "read_counts (counted_arcs f) s = (Inr (), s1)" "current s1 = Some i"
    "map_of (coverage s1) i = Some ?g"
    using read_counts_words [OF assms(1,2), of "counted_arcs f" c rest] assms(3) by auto
  obtain ok f' where res: "FunctionSummary_Resolve ?g = (ok, f')" by fastforce
  have "gcda_section TAG_COUNTER n s = ((if ok then Inr ()
      else Inl (FileFormatError ''Corrupt file: Counts could not be resolved.'')),
      s1\<lparr>coverage := dict_set i f' (coverage s1)\<rparr>)"
    using assms(1,2) s1 res
    by (simp add: gcda_section_def TAG_FUNCTION_def TAG_COUNTER_def seqA_def bindA_def ReadCounts_def resolve_current_def
        current_func_def put_func_def getA_def returnA_def modifyA_def raiseA_def)
  with res show ?thesis by simp
qed


text \<open>The function of the example file, and a parser that has just read the header of a counter record.\<close>

definition demo_function :: function_summary where
  "demo_function = snd (hd (apply_records demo_records))"

definition demo_gcda :: gcda_parser where
  "demo_gcda = \<lparr>stream = int64_bytes LittleEndian 9, fmt = LittleEndian, version = ''*802'', checksum = 0,
     coverage = [(7, demo_function)], current = Some 7\<rparr>"


end
