(* ===== verification/Coverage_Report.thy ===== *)
theory Coverage_Report
  imports Gcov_Properties "HOL-Library.Multiset"
begin

section \<open>Line coverage (utils/python/coverage/coverage\_report.py, sancov\_parser.py)\<close>

text \<open>
  \<open>GenerateLineCoverageVector\<close> adds the counts of the blocks of every function to the vector of its source
  file, one entry per line and -1 for a line without code; \<open>GetCoverageStats\<close> counts lines in such a
  vector. \<open>SancovParser\<close> reads the offsets of a .sancov file; the native unsigned long of the host has
  eight bytes, the low one first.
\<close>

subsection \<open>GenerateLineCoverageVector\<close>

definition GEN_TAG :: string where "GEN_TAG = ''/gen/''"

text \<open>Adding the count of a block to a line; line 0 would be the index -1, the last entry.\<close>

definition add_line :: "int \<Rightarrow> nat \<Rightarrow> int list \<Rightarrow> py_error + int list" where
  "add_line cnt line v =
     (let v = (if length v < line then v @ replicate (line - length v) (-1) else v) in
      if v = [] then Inl IndexError
      else let i = (if line = 0 then length v - 1 else line - 1);
               v = (if v ! i < 0 then v[i := 0] else v)
           in Inr (v[i := v ! i + cnt]))"

definition add_block_lines :: "block_summary \<Rightarrow> int list \<Rightarrow> py_error + int list" where
  "add_block_lines b v = foldR (add_line (block_count b)) (block_lines b) v"

definition excluded :: "string list \<Rightarrow> string \<Rightarrow> bool" where
  "excluded exclude_paths file_name \<longleftrightarrow>
     str_find file_name GEN_TAG \<noteq> None \<or> (\<exists>p \<in> set exclude_paths. startswith file_name p)"

definition counts_of :: "(string \<times> int list) list \<Rightarrow> string \<Rightarrow> int list" where
  "counts_of d file_name = (case map_of d file_name of None \<Rightarrow> [] | Some v \<Rightarrow> v)"

definition add_function ::
  "string list \<Rightarrow> function_summary \<Rightarrow> (string \<times> int list) list \<Rightarrow> py_error + (string \<times> int list) list" where
  "add_function exclude_paths f d =
     (if excluded exclude_paths (src_file_name f) then Inr d
      else bindR (foldR add_block_lines (blocks f) (counts_of d (src_file_name f))) (\<lambda>v.
             Inr (dict_set (src_file_name f) v d)))"

definition GenerateLineCoverageVector ::
  "file_summary \<Rightarrow> string list \<Rightarrow> (string \<times> int list) list \<Rightarrow> py_error + (string \<times> int list) list" where
  "GenerateLineCoverageVector summary exclude_paths d =
     foldR (\<lambda>(i, f). add_function exclude_paths f) summary d"

fun GetCoverageStats :: "int list \<Rightarrow> nat \<times> nat" where
  "GetCoverageStats [] = (0, 0)"
| "GetCoverageStats (line # ls) =
     (let (total, covered) = GetCoverageStats ls in
      if line < 0 then (total, covered)
      else if line > 0 then (total + 1, covered + 1) else (total + 1, covered))"

subsection \<open>The sums\<close>

text \<open>The entry of a line, -1 beyond the end.\<close>

definition line_at :: "int list \<Rightarrow> nat \<Rightarrow> int" where
  "line_at v n = (if 0 < n \<and> n \<le> length v then v ! (n - 1) else -1)"

text \<open>The counts that a summary adds to a line of a file, one for every mention of the line.\<close>

definition block_hits :: "nat \<Rightarrow> block_summary \<Rightarrow> int list" where
  "block_hits n b = map (\<lambda>_. block_count b) (filter (\<lambda>l. l = n) (block_lines b))"

definition hits :: "string list \<Rightarrow> string \<Rightarrow> nat \<Rightarrow> function_summary \<Rightarrow> int list" where
  "hits exclude_paths file_name n f =
     (if src_file_name f = file_name \<and> \<not> excluded exclude_paths file_name
      then concat (map (block_hits n) (blocks f)) else [])"

text \<open>A line without code before gets 0 first.\<close>

definition after_hits :: "int \<Rightarrow> int list \<Rightarrow> int" where
  "after_hits x hs = (if hs = [] then x else max 0 x + sum_list hs)"

lemma after_hits_append:
  "\<forall>h \<in> set (xs @ ys). 0 \<le> h \<Longrightarrow> after_hits (after_hits x xs) ys = after_hits x (xs @ ys)"
  using sum_list_nonneg [of xs] by (auto simp: after_hits_def max_def)

lemma add_line_at:
  assumes "0 < l"
  shows "\<exists>v'. add_line c l v = Inr v' \<and> (\<forall>n. line_at v' n = (if n = l then max 0 (line_at v n) + c else line_at v n))"
proof -
  define w where "w = (if length v < l then v @ replicate (l - length v) (-1) else v)"
  have w: "l \<le> length w" "\<And>n. line_at w n = line_at v n"
    by (auto simp: w_def line_at_def nth_append)
  define u where "u = (if w ! (l - 1) < 0 then w[l - 1 := 0] else w)"
  have "w \<noteq> []" using w(1) assms by auto
  then have "add_line c l v = Inr (u[l - 1 := u ! (l - 1) + c])"
    using assms by (simp add: add_line_def Let_def w_def [symmetric]) (simp add: u_def)
  moreover have "u ! (l - 1) = max 0 (line_at v l)" "length u = length w"
    using w assms by (auto simp: u_def line_at_def [of w l, unfolded w(2)])
  moreover have "line_at (u[l - 1 := x]) n = (if n = l then x else line_at v n)" for x n
  proof (cases "n = l")
    case True
    then show ?thesis using w(1) assms \<open>length u = length w\<close> by (simp add: line_at_def)
  next
    case False
    then have "line_at (u[l - 1 := x]) n = line_at w n"
      using assms by (auto simp: line_at_def u_def nth_upd)
    then show ?thesis using False w(2) by simp
  qed
  ultimately show ?thesis by simp
qed

lemma foldR_lines_at:
  assumes step: "\<And>x v. x \<in> set xs \<Longrightarrow> \<exists>v'. f x v = Inr v' \<and> (\<forall>n. line_at v' n = after_hits (line_at v n) (h n x))"
    and pos: "\<And>x n. x \<in> set xs \<Longrightarrow> \<forall>k \<in> set (h n x). 0 \<le> k"
  shows "\<exists>v'. foldR f xs v = Inr v' \<and> (\<forall>n. line_at v' n = after_hits (line_at v n) (concat (map (h n) xs)))"
  using assms
proof (induction xs arbitrary: v)
  case Nil
  then show ?case by (simp add: after_hits_def)
next
  case (Cons x xs)
  obtain v1 where 1: "f x v = Inr v1" "\<forall>n. line_at v1 n = after_hits (line_at v n) (h n x)"
    using Cons.prems(1) [of x v] by auto
  obtain v2 where 2: "foldR f xs v1 = Inr v2"
    "\<forall>n. line_at v2 n = after_hits (line_at v1 n) (concat (map (h n) xs))"
  proof -
    have "\<exists>v'. foldR f xs v1 = Inr v' \<and> (\<forall>n. line_at v' n = after_hits (line_at v1 n) (concat (map (h n) xs)))"
      by (rule Cons.IH; rule Cons.prems; simp)
    then show ?thesis using that by blast
  qed
  have "\<forall>n. \<forall>k \<in> set (h n x @ concat (map (h n) xs)). 0 \<le> k" using Cons.prems(2) by auto
  with 1 2 show ?case by (simp add: after_hits_append)
qed

lemma add_block_lines_at:
  assumes "\<forall>l \<in> set (block_lines b). 0 < l" and "0 \<le> block_count b"
  shows "\<exists>v'. add_block_lines b v = Inr v' \<and> (\<forall>n. line_at v' n = after_hits (line_at v n) (block_hits n b))"
proof -
  let ?h = "\<lambda>n l. if l = n then [block_count b] else []"
  have "\<exists>v'. add_line (block_count b) l u = Inr v' \<and> (\<forall>n. line_at v' n = after_hits (line_at u n) (?h n l))"
    if "l \<in> set (block_lines b)" for l u
  proof -
    have "0 < l" using that assms(1) by simp
    from add_line_at [OF this, of "block_count b" u] show ?thesis by (auto simp: after_hits_def)
  qed
  moreover have "concat (map (?h n) (block_lines b)) = block_hits n b" for n
  proof -
    have "concat (map (?h n) ls) = map (\<lambda>_. block_count b) (filter (\<lambda>l. l = n) ls)" for ls
      by (induction ls) auto
    then show ?thesis by (simp add: block_hits_def)
  qed
  ultimately show ?thesis
    using foldR_lines_at [of "block_lines b" "add_line (block_count b)" ?h v] assms(2)
    by (auto simp: add_block_lines_def split: if_splits)
qed

definition summary_ok :: "file_summary \<Rightarrow> bool" where
  "summary_ok d \<longleftrightarrow> (\<forall>(i, f) \<in> set d. \<forall>b \<in> set (blocks f). 0 \<le> block_count b \<and> (\<forall>l \<in> set (block_lines b). 0 < l))"

lemma add_function_at:
  assumes "\<forall>b \<in> set (blocks f). 0 \<le> block_count b \<and> (\<forall>l \<in> set (block_lines b). 0 < l)"
  shows "\<exists>d'. add_function paths f d = Inr d' \<and>
    (\<forall>name n. line_at (counts_of d' name) n = after_hits (line_at (counts_of d name) n) (hits paths name n f))"
proof (cases "excluded paths (src_file_name f)")
  case True
  then show ?thesis by (auto simp: add_function_def hits_def after_hits_def)
next
  case False
  have "\<exists>v'. foldR add_block_lines (blocks f) v = Inr v' \<and>
      (\<forall>n. line_at v' n = after_hits (line_at v n) (concat (map (block_hits n) (blocks f))))" for v
    using assms add_block_lines_at by (intro foldR_lines_at) (auto simp: block_hits_def)
  then obtain v' where "foldR add_block_lines (blocks f) (counts_of d (src_file_name f)) = Inr v'"
    "\<forall>n. line_at v' n = after_hits (line_at (counts_of d (src_file_name f)) n) (concat (map (block_hits n) (blocks f)))"
    by blast
  with False show ?thesis
    by (auto simp: add_function_def hits_def counts_of_def after_hits_def)
qed

lemma coverage_sums:
  assumes "summary_ok summary"
  shows "\<exists>d'. GenerateLineCoverageVector summary paths d = Inr d' \<and>
    (\<forall>name n. line_at (counts_of d' name) n =
       after_hits (line_at (counts_of d name) n) (concat (map (\<lambda>(i, f). hits paths name n f) summary)))"
  using assms unfolding GenerateLineCoverageVector_def
proof (induction summary arbitrary: d)
  case Nil
  then show ?case by (simp add: after_hits_def)
next
  case (Cons x summary)
  obtain i f where x: "x = (i, f)" by fastforce
  have f: "\<forall>b \<in> set (blocks f). 0 \<le> block_count b \<and> (\<forall>l \<in> set (block_lines b). 0 < l)"
    using Cons.prems x by (simp add: summary_ok_def)
  obtain d1 where 1: "add_function paths f d = Inr d1"
    "\<forall>name n. line_at (counts_of d1 name) n = after_hits (line_at (counts_of d name) n) (hits paths name n f)"
    using add_function_at [OF f] by blast
  obtain d' where 2: "foldR (\<lambda>(i, f). add_function paths f) summary d1 = Inr d'"
    "\<forall>name n. line_at (counts_of d' name) n =
       after_hits (line_at (counts_of d1 name) n) (concat (map (\<lambda>(i, f). hits paths name n f) summary))"
    using Cons.IH [of d1] Cons.prems by (auto simp: summary_ok_def)
  have "\<forall>h \<in> set (hits paths name n f @ concat (map (\<lambda>(i, f). hits paths name n f) summary)). 0 \<le> h" for name n
    using Cons.prems x by (auto simp: summary_ok_def hits_def block_hits_def split: if_splits)
  with 1 2 x show ?case by (auto simp: after_hits_append)
qed

lemma after_hits_mset: "mset hs = mset hs' \<Longrightarrow> after_hits x hs = after_hits x hs'"
  by (metis after_hits_def mset_zero_iff sum_mset_sum_list)

lemma mset_concat_perm:
  "mset xs = mset ys \<Longrightarrow> mset (concat (map g xs)) = mset (concat (map g ys))"
proof -
  assume "mset xs = mset ys"
  then have "mset (map (\<lambda>x. mset (g x)) xs) = mset (map (\<lambda>x. mset (g x)) ys)" by simp
  then have "sum_list (map (\<lambda>x. mset (g x)) xs) = sum_list (map (\<lambda>x. mset (g x)) ys)"
    by (metis sum_mset_sum_list)
  then show ?thesis by (simp add: mset_concat comp_def)
qed

subsection \<open>Properties of line coverage\<close>

text \<open>(C36) The coverage vector holds, for every line of a source file, the sum of the counts of all blocks
  that mention it, over all functions of the file and on top of what earlier reports put there; lines that
  no block mentions keep their entry, -1 at first, and generated and excluded files are left out. The
  order in which the functions are visited does not matter.\<close>

theorem line_coverage_sums:
  assumes "summary_ok summary"
  shows "\<exists>d'. GenerateLineCoverageVector summary paths d = Inr d' \<and>
    (\<forall>name n. line_at (counts_of d' name) n =
       after_hits (line_at (counts_of d name) n) (concat (map (\<lambda>(i, f). hits paths name n f) summary))) \<and>
    (\<forall>summary'. mset summary' = mset summary \<longrightarrow>
       (\<exists>d''. GenerateLineCoverageVector summary' paths d = Inr d'' \<and>
         (\<forall>name n. line_at (counts_of d'' name) n = line_at (counts_of d' name) n)))"
proof -
  obtain d' where d': "GenerateLineCoverageVector summary paths d = Inr d'"
    "\<And>name n. line_at (counts_of d' name) n =
       after_hits (line_at (counts_of d name) n) (concat (map (\<lambda>(i, f). hits paths name n f) summary))"
    using coverage_sums [OF assms] by blast
  have "\<exists>d''. GenerateLineCoverageVector summary' paths d = Inr d'' \<and>
      (\<forall>name n. line_at (counts_of d'' name) n = line_at (counts_of d' name) n)"
    if perm: "mset summary' = mset summary" for summary'
  proof -
    have "summary_ok summary'" using assms mset_eq_setD [OF perm] by (simp add: summary_ok_def)
    from coverage_sums [OF this] obtain d'' where "GenerateLineCoverageVector summary' paths d = Inr d''"
      "\<And>name n. line_at (counts_of d'' name) n =
       after_hits (line_at (counts_of d name) n) (concat (map (\<lambda>(i, f). hits paths name n f) summary'))" by blast
    with d'(2) show ?thesis using after_hits_mset [OF mset_concat_perm [OF perm]] by auto
  qed
  with d' show ?thesis by blast
qed

theorem line_coverage_sums_witness:
  "\<exists>d'. GenerateLineCoverageVector (apply_records demo_records) [] [] = Inr d' \<and> line_at (counts_of d' ''a.c'') 4 = 0 \<and>
     line_at (counts_of d' ''a.c'') 3 = -1"
proof -
  have ok: "summary_ok (apply_records demo_records)" by code_simp
  have hits: "concat (map (\<lambda>(i, f). hits [] ''a.c'' 4 f) (apply_records demo_records)) = [0]"
    "concat (map (\<lambda>(i, f). hits [] ''a.c'' 3 f) (apply_records demo_records)) = []" by code_simp+
  obtain d' where d': "GenerateLineCoverageVector (apply_records demo_records) [] [] = Inr d'"
    and at: "\<forall>name n. line_at (counts_of d' name) n = after_hits (line_at (counts_of [] name) n)
      (concat (map (\<lambda>(i, f). hits [] name n f) (apply_records demo_records)))"
    using line_coverage_sums [OF ok, of "[]" "[]"] by blast
  have "line_at (counts_of d' ''a.c'') 4 = 0" "line_at (counts_of d' ''a.c'') 3 = -1"
    unfolding at [rule_format] hits by (simp_all add: after_hits_def counts_of_def line_at_def)
  with d' show ?thesis by blast
qed

end
