(* ===== verification/Sancov.thy ===== *)
theory Sancov
  imports Gcov_Stream
begin

section \<open>Sanitizer coverage files (utils/python/coverage/sancov\_parser.py)\<close>

text \<open>
  \<open>SancovParser\<close> reads a .sancov file: an eight byte magic number that gives the width of the offsets, and
  the offsets. The formats \<open>L\<close> and \<open>I\<close> are native: eight and four bytes, the low one first, on the
  64-bit hosts the suite runs on.
\<close>

record sancov_parser =
  sancov_file :: string
  file_pos :: nat
  bitness :: int
  entry_type :: "char option"
  payload_size :: int

definition MAGIC32 :: nat where "MAGIC32 = 0xC0BFFFFFFFFFFF32"
definition MAGIC64 :: nat where "MAGIC64 = 0xC0BFFFFFFFFFFF64"

definition SancovParser :: "string \<Rightarrow> sancov_parser" where
  "SancovParser data = \<lparr>sancov_file = data, file_pos = 0, bitness = -1, entry_type = None, payload_size = 0\<rparr>"

definition native_uint :: "string \<Rightarrow> nat" where
  "native_uint bs = le_uint bs"

definition GetBitness :: "(file_error, sancov_parser, int) raising" where
  "GetBitness s =
     (if bitness s > 0 then (Inr (bitness s), s)
      else let s = s\<lparr>payload_size := int (length (sancov_file s)) - 8, file_pos := 0\<rparr> in
        if payload_size s < 0 then (Inl (FileFormatError ''Empty file.''), s)
        else let magic = native_uint (take 8 (sancov_file s)); s = s\<lparr>file_pos := 8\<rparr> in
          if magic = MAGIC64 then (Inr 64, s\<lparr>entry_type := Some (CHR ''L''), bitness := 64\<rparr>)
          else if magic = MAGIC32 then (Inr 32, s\<lparr>entry_type := Some (CHR ''I''), bitness := 32\<rparr>)
          else (Inl (FileFormatError ''Invalid magic.''), s))"

text \<open>\<open>struct.unpack_from\<close>: the first entries of a buffer, which may be longer.\<close>

fun unpack_entries :: "nat \<Rightarrow> nat \<Rightarrow> string \<Rightarrow> nat list" where
  "unpack_entries width 0 buf = []"
| "unpack_entries width (Suc n) buf = native_uint (take width buf) # unpack_entries width n (drop width buf)"

definition entry_width :: "char option \<Rightarrow> nat" where
  "entry_width t = (if t = Some (CHR ''L'') then 8 else 4)"

definition sancov_Parse :: "(file_error, sancov_parser, nat list) raising" where
  "sancov_Parse = bindA GetBitness (\<lambda>_ s.
     let n = nat (payload_size s * 8 div bitness s); width = entry_width (entry_type s);
         buf = take (nat (payload_size s)) (drop (file_pos s) (sancov_file s));
         s = s\<lparr>file_pos := file_pos s + length buf\<rparr>
     in if length buf < n * width then (Inl StructError, s) else (Inr (unpack_entries width n buf), s))"

definition ParseSancovFile :: "string \<Rightarrow> file_error + int \<times> nat list" where
  "ParseSancovFile data =
     (case sancov_Parse (SancovParser data) of
        (Inl e, s) \<Rightarrow> Inl e | (Inr offsets, s) \<Rightarrow> Inr (bitness s, offsets))"

subsection \<open>Entries\<close>

lemma native_uint_entry [simp]: "n < 256 ^ w \<Longrightarrow> native_uint (le_bytes w n) = n"
  by (simp add: native_uint_def)

lemma unpack_entries_bytes:
  "\<forall>x \<in> set xs. x < 256 ^ w \<Longrightarrow> unpack_entries w (length xs) (concat (map (le_bytes w) xs) @ rest) = xs"
  by (induction xs) simp_all

definition magic_of :: "nat \<Rightarrow> nat" where
  "magic_of w = (if w = 8 then MAGIC64 else MAGIC32)"

lemma ParseSancovFile_eq:
  "ParseSancovFile data =
     (if length data < 8 then Inl (FileFormatError ''Empty file.'')
      else let magic = native_uint (take 8 data) in
        if magic = MAGIC64 then Inr (64, unpack_entries 8 ((length data - 8) div 8) (drop 8 data))
        else if magic = MAGIC32 then Inr (32, unpack_entries 4 ((length data - 8) div 4) (drop 8 data))
        else Inl (FileFormatError ''Invalid magic.''))"
proof (cases "length data < 8")
  case False
  define k where "k = length data - 8"
  have "int (length data) - 8 = int k" using False by (simp add: k_def)
  moreover have "int k * 8 div 64 = int (k div 8)" "int k * 8 div 32 = int (k div 4)"
    by (simp_all add: zdiv_int)
  moreover have "k div 8 * 8 \<le> k" "k div 4 * 4 \<le> k" by presburger+
  ultimately show ?thesis
    using False
    by (auto simp: ParseSancovFile_def sancov_Parse_def SancovParser_def GetBitness_def bindA_def entry_width_def Let_def
        k_def [symmetric])
qed (simp add: ParseSancovFile_def sancov_Parse_def SancovParser_def GetBitness_def bindA_def)

subsection \<open>Properties\<close>

text \<open>A .sancov file is read back: the magic number of a width, offsets of that width and a rest too
  short for another one give the bitness and exactly these offsets. A file shorter than the magic number
  or with another one is rejected with \<open>FileFormatError\<close>, and there is no other way to fail.\<close>

theorem sancov_round_trip:
  "(\<forall>w xs rest. w \<in> {4, 8} \<longrightarrow> (\<forall>x \<in> set xs. x < 256 ^ w) \<longrightarrow> length rest < w \<longrightarrow>
      ParseSancovFile (le_bytes 8 (magic_of w) @ concat (map (le_bytes w) xs) @ rest) = Inr (8 * int w, xs)) \<and>
   (\<forall>data e. ParseSancovFile data = Inl e \<longrightarrow>
      length data < 8 \<and> e = FileFormatError ''Empty file.'' \<or>
      native_uint (take 8 data) \<notin> {MAGIC32, MAGIC64} \<and> e = FileFormatError ''Invalid magic.'')"
proof (intro conjI allI impI)
  fix w :: nat and xs :: "nat list" and rest :: string
  assume w: "w \<in> {4, 8}" and xs: "\<forall>x \<in> set xs. x < 256 ^ w" and rest: "length rest < w"
  have "native_uint (le_bytes 8 (magic_of w)) = magic_of w"
    by (rule native_uint_entry) (simp add: magic_of_def MAGIC32_def MAGIC64_def)
  moreover have "(w * length xs + length rest) div w = length xs" using w rest by auto
  ultimately show "ParseSancovFile (le_bytes 8 (magic_of w) @ concat (map (le_bytes w) xs) @ rest) = Inr (8 * int w, xs)"
    using w unpack_entries_bytes [OF xs, of rest]
    by (auto simp: ParseSancovFile_eq magic_of_def MAGIC32_def MAGIC64_def)
qed (auto simp: ParseSancovFile_eq Let_def split: if_splits)

theorem sancov_round_trip_witness:
  "ParseSancovFile (le_bytes 8 (magic_of 4) @ concat (map (le_bytes 4) [16, 32]) @ ''x'') = Inr (32, [16, 32])"
  using conjunct1 [OF sancov_round_trip, rule_format, of 4 "[16, 32]" "''x''"] by force

end
