(* ===== verification/Elf_Structs.thy ===== *)
theory Elf_Structs
  imports Py_Bytes
begin

section \<open>ELF constants and structures (utils/python/library/elf)\<close>

text \<open>
  The constants of consts.py that the readers use and the structures of structs.py. A structure is the
  list of its fields as the source gives it to \<open>ctypes\<close>: names with types. \<open>ctypes\<close> places every field at
  the next multiple of its alignment (its size, for the types used here) and pads the end; reading takes
  the bytes of each field, the low one first. The 32 and 64 bit structures of one kind have the same field
  names, so their values are one record type.
\<close>

unbundle bit_operations_syntax

subsection \<open>Constants\<close>

definition EI_CLASS :: nat where "EI_CLASS = 4"
definition EI_DATA :: nat where "EI_DATA = 5"
definition EI_NIDENT :: nat where "EI_NIDENT = 16"
definition ELFCLASS32 :: nat where "ELFCLASS32 = 1"
definition ELFCLASS64 :: nat where "ELFCLASS64 = 2"
definition ELFDATA2LSB :: nat where "ELFDATA2LSB = 1"
definition ET_EXEC :: nat where "ET_EXEC = 2"
definition ET_DYN :: nat where "ET_DYN = 3"
definition EM_386 :: nat where "EM_386 = 3"
definition EM_X86_64 :: nat where "EM_X86_64 = 62"
definition EM_MIPS :: nat where "EM_MIPS = 8"
definition EM_ARM :: nat where "EM_ARM = 40"
definition EM_AARCH64 :: nat where "EM_AARCH64 = 183"
definition R_ARM_ABS32 :: nat where "R_ARM_ABS32 = 0x02"
definition R_ARM_RELATIVE :: nat where "R_ARM_RELATIVE = 0x17"
definition R_AARCH64_ABS64 :: nat where "R_AARCH64_ABS64 = 0x101"
definition R_AARCH64_RELATIVE :: nat where "R_AARCH64_RELATIVE = 0x403"
definition R_386_32 :: nat where "R_386_32 = 1"
definition R_386_RELATIVE :: nat where "R_386_RELATIVE = 8"
definition R_X86_64_64 :: nat where "R_X86_64_64 = 1"
definition R_X86_64_RELATIVE :: nat where "R_X86_64_RELATIVE = 8"
definition SHT_RELA :: nat where "SHT_RELA = 4"
definition SHT_DYNAMIC :: nat where "SHT_DYNAMIC = 6"
definition SHT_NOBITS :: nat where "SHT_NOBITS = 8"
definition SHT_REL :: nat where "SHT_REL = 9"
definition SHT_RELR :: nat where "SHT_RELR = 19"
definition SHT_LOOS :: nat where "SHT_LOOS = 0x60000000"
definition SHT_ANDROID_REL :: nat where "SHT_ANDROID_REL = SHT_LOOS + 1"
definition SHT_ANDROID_RELA :: nat where "SHT_ANDROID_RELA = SHT_LOOS + 2"
definition SHT_ANDROID_RELR :: nat where "SHT_ANDROID_RELR = SHT_LOOS + 0xfffff00"
definition SHN_UNDEF :: nat where "SHN_UNDEF = 0"
definition STB_GLOBAL :: nat where "STB_GLOBAL = 1"
definition STB_WEAK :: nat where "STB_WEAK = 2"
definition STT_NOTYPE :: nat where "STT_NOTYPE = 0"
definition STT_OBJECT :: nat where "STT_OBJECT = 1"
definition STT_FUNC :: nat where "STT_FUNC = 2"
definition PT_INTERP :: nat where "PT_INTERP = 3"
definition DT_NULL :: int where "DT_NULL = 0"
definition DT_NEEDED :: int where "DT_NEEDED = 1"
definition DT_STRTAB :: int where "DT_STRTAB = 5"
definition RELOCATION_GROUPED_BY_INFO_FLAG :: int where "RELOCATION_GROUPED_BY_INFO_FLAG = 1"
definition RELOCATION_GROUPED_BY_OFFSET_DELTA_FLAG :: int where "RELOCATION_GROUPED_BY_OFFSET_DELTA_FLAG = 2"
definition RELOCATION_GROUPED_BY_ADDEND_FLAG :: int where "RELOCATION_GROUPED_BY_ADDEND_FLAG = 4"
definition RELOCATION_GROUP_HAS_ADDEND_FLAG :: int where "RELOCATION_GROUP_HAS_ADDEND_FLAG = 8"
definition SYMTAB :: string where "SYMTAB = ''.symtab''"
definition STRTAB :: string where "STRTAB = ''.strtab''"
definition DYNSYM :: string where "DYNSYM = ''.dynsym''"
definition DYNSTR :: string where "DYNSTR = ''.dynstr''"
definition ELF_MAGIC_NUMBER :: string where "ELF_MAGIC_NUMBER = CHR 0x7F # ''ELF''"

lemmas elf_consts =
  EI_CLASS_def EI_DATA_def EI_NIDENT_def ELFCLASS32_def ELFCLASS64_def ELFDATA2LSB_def
  ET_EXEC_def ET_DYN_def EM_386_def EM_X86_64_def EM_MIPS_def EM_ARM_def
  EM_AARCH64_def R_ARM_ABS32_def R_ARM_RELATIVE_def R_AARCH64_ABS64_def R_AARCH64_RELATIVE_def R_386_32_def
  R_386_RELATIVE_def R_X86_64_64_def R_X86_64_RELATIVE_def SHT_RELA_def SHT_DYNAMIC_def SHT_NOBITS_def
  SHT_REL_def SHT_RELR_def SHT_LOOS_def SHT_ANDROID_REL_def SHT_ANDROID_RELA_def SHT_ANDROID_RELR_def
  SHN_UNDEF_def STB_GLOBAL_def STB_WEAK_def STT_NOTYPE_def STT_OBJECT_def STT_FUNC_def
  PT_INTERP_def DT_NULL_def DT_NEEDED_def DT_STRTAB_def RELOCATION_GROUPED_BY_INFO_FLAG_def RELOCATION_GROUPED_BY_OFFSET_DELTA_FLAG_def
  RELOCATION_GROUPED_BY_ADDEND_FLAG_def RELOCATION_GROUP_HAS_ADDEND_FLAG_def SYMTAB_def STRTAB_def DYNSYM_def DYNSTR_def
  ELF_MAGIC_NUMBER_def

subsection \<open>C types\<close>

text \<open>
  Unsigned and signed integers of a number of bytes, an array of unsigned integers of a size, and a union of
  two unsigned integers of given sizes.
\<close>

datatype ctype = C_uint nat | C_int nat | C_array nat nat | C_union nat nat

abbreviation C_uint8 :: ctype where "C_uint8 \<equiv> C_uint 1"
abbreviation C_uint16 :: ctype where "C_uint16 \<equiv> C_uint 2"
abbreviation C_uint32 :: ctype where "C_uint32 \<equiv> C_uint 4"
abbreviation C_uint64 :: ctype where "C_uint64 \<equiv> C_uint 8"
abbreviation C_int32 :: ctype where "C_int32 \<equiv> C_int 4"
abbreviation C_int64 :: ctype where "C_int64 \<equiv> C_int 8"

fun ctype_size :: "ctype \<Rightarrow> nat" where
  "ctype_size (C_uint w) = w"
| "ctype_size (C_int w) = w"
| "ctype_size (C_array w n) = w * n"
| "ctype_size (C_union v w) = max v w"

fun ctype_align :: "ctype \<Rightarrow> nat" where
  "ctype_align (C_uint w) = w"
| "ctype_align (C_int w) = w"
| "ctype_align (C_array w n) = w"
| "ctype_align (C_union v w) = max v w"

definition Elf32_Addr :: ctype where "Elf32_Addr = C_uint32"
definition Elf32_Off :: ctype where "Elf32_Off = C_uint32"
definition Elf32_Half :: ctype where "Elf32_Half = C_uint16"
definition Elf32_Word :: ctype where "Elf32_Word = C_uint32"
definition Elf32_Sword :: ctype where "Elf32_Sword = C_int32"
definition Elf64_Addr :: ctype where "Elf64_Addr = C_uint64"
definition Elf64_Off :: ctype where "Elf64_Off = C_uint64"
definition Elf64_Half :: ctype where "Elf64_Half = C_uint16"
definition Elf64_Word :: ctype where "Elf64_Word = C_uint32"
definition Elf64_Sword :: ctype where "Elf64_Sword = C_int32"
definition Elf64_Xword :: ctype where "Elf64_Xword = C_uint64"
definition Elf64_Sxword :: ctype where "Elf64_Sxword = C_int64"

lemmas elf_types =
  Elf32_Addr_def Elf32_Off_def Elf32_Half_def Elf32_Word_def Elf32_Sword_def Elf64_Addr_def
  Elf64_Off_def Elf64_Half_def Elf64_Word_def Elf64_Sword_def Elf64_Xword_def Elf64_Sxword_def

text \<open>The value of a field: one number, those of the elements of an array, or those of the members of a union.\<close>

definition sint_of :: "nat \<Rightarrow> nat \<Rightarrow> int" where
  "sint_of w n = (if 2 * n < 256 ^ w then int n else int n - 256 ^ w)"

fun cvalue :: "ctype \<Rightarrow> string \<Rightarrow> int list" where
  "cvalue (C_uint w) bs = [int (le_uint (take w bs))]"
| "cvalue (C_int w) bs = [sint_of w (le_uint (take w bs))]"
| "cvalue (C_array w n) bs = map (\<lambda>i. int (le_uint (take w (drop (i * w) bs)))) [0..<n]"
| "cvalue (C_union v w) bs = [int (le_uint (take v bs)), int (le_uint (take w bs))]"

text \<open>What a field holds after an integer is assigned to it: \<open>ctypes\<close> keeps the low bits.\<close>

fun cstore :: "ctype \<Rightarrow> int \<Rightarrow> int" where
  "cstore (C_int w) v = sint_of w (nat (v mod 256 ^ w))"
| "cstore t v = v mod 256 ^ ctype_size t"

subsection \<open>Structures\<close>

type_synonym cfields = "(string \<times> ctype) list"
type_synonym cstruct = "(string \<times> int list) list"

definition align_up :: "nat \<Rightarrow> nat \<Rightarrow> nat" where
  "align_up a n = (n + a - 1) div a * a"

fun layout :: "nat \<Rightarrow> cfields \<Rightarrow> (string \<times> ctype \<times> nat) list" where
  "layout pos [] = []"
| "layout pos ((f, t) # fs) =
     (let p = align_up (ctype_align t) pos in (f, t, p) # layout (p + ctype_size t) fs)"

fun layout_end :: "nat \<Rightarrow> cfields \<Rightarrow> nat" where
  "layout_end pos [] = pos"
| "layout_end pos ((f, t) # fs) = layout_end (align_up (ctype_align t) pos + ctype_size t) fs"

definition sizeof :: "cfields \<Rightarrow> nat" where
  "sizeof fs = align_up (fold (\<lambda>(f, t). max (ctype_align t)) fs 1) (layout_end 0 fs)"

definition from_buffer_copy :: "cfields \<Rightarrow> string \<Rightarrow> py_error + cstruct" where
  "from_buffer_copy fs bs =
     (if length bs < sizeof fs then Inl ValueError
      else Inr (map (\<lambda>(f, t, p). (f, cvalue t (drop p bs))) (layout 0 fs)))"

definition attrs :: "cstruct \<Rightarrow> string \<Rightarrow> int list" where
  "attrs s f = (case map_of s f of Some v \<Rightarrow> v | None \<Rightarrow> [])"

definition attr :: "cstruct \<Rightarrow> string \<Rightarrow> nat" where
  "attr s f = (case attrs s f of v # vs \<Rightarrow> nat v | [] \<Rightarrow> 0)"

definition sattr :: "cstruct \<Rightarrow> string \<Rightarrow> int" where
  "sattr s f = (case attrs s f of v # vs \<Rightarrow> v | [] \<Rightarrow> 0)"

definition Elf32_Ehdr :: cfields where
  "Elf32_Ehdr =
     [(''e_ident'', C_array (ctype_size C_uint8) EI_NIDENT), (''e_type'', Elf32_Half), (''e_machine'', Elf32_Half),
      (''e_version'', Elf32_Word), (''e_entry'', Elf32_Addr), (''e_phoff'', Elf32_Off),
      (''e_shoff'', Elf32_Off), (''e_flags'', Elf32_Word), (''e_ehsize'', Elf32_Half),
      (''e_phentsize'', Elf32_Half), (''e_phnum'', Elf32_Half), (''e_shentsize'', Elf32_Half),
      (''e_shnum'', Elf32_Half), (''e_shstrndx'', Elf32_Half)]"

definition Elf64_Ehdr :: cfields where
  "Elf64_Ehdr =
     [(''e_ident'', C_array (ctype_size C_uint8) EI_NIDENT), (''e_type'', Elf64_Half), (''e_machine'', Elf64_Half),
      (''e_version'', Elf64_Word), (''e_entry'', Elf64_Addr), (''e_phoff'', Elf64_Off),
      (''e_shoff'', Elf64_Off), (''e_flags'', Elf64_Word), (''e_ehsize'', Elf64_Half),
      (''e_phentsize'', Elf64_Half), (''e_phnum'', Elf64_Half), (''e_shentsize'', Elf64_Half),
      (''e_shnum'', Elf64_Half), (''e_shstrndx'', Elf64_Half)]"

definition Elf32_Shdr :: cfields where
  "Elf32_Shdr =
     [(''sh_name'', Elf32_Word), (''sh_type'', Elf32_Word), (''sh_flags'', Elf32_Word),
      (''sh_addr'', Elf32_Addr), (''sh_offset'', Elf32_Off), (''sh_size'', Elf32_Word),
      (''sh_link'', Elf32_Word), (''sh_info'', Elf32_Word), (''sh_addralign'', Elf32_Word),
      (''sh_entsize'', Elf32_Word)]"

definition Elf64_Shdr :: cfields where
  "Elf64_Shdr =
     [(''sh_name'', Elf64_Word), (''sh_type'', Elf64_Word), (''sh_flags'', Elf64_Xword),
      (''sh_addr'', Elf64_Addr), (''sh_offset'', Elf64_Off), (''sh_size'', Elf64_Xword),
      (''sh_link'', Elf64_Word), (''sh_info'', Elf64_Word), (''sh_addralign'', Elf64_Xword),
      (''sh_entsize'', Elf64_Xword)]"

text \<open>The union \<open>d_un\<close> of a dynamic entry with its members \<open>d_val\<close> and \<open>d_ptr\<close>.\<close>

definition Elf32_Dyn_d_un :: ctype where "Elf32_Dyn_d_un = C_union (ctype_size Elf32_Word) (ctype_size Elf32_Addr)"
definition Elf64_Dyn_d_un :: ctype where "Elf64_Dyn_d_un = C_union (ctype_size Elf64_Xword) (ctype_size Elf64_Addr)"

definition Elf32_Dyn :: cfields where
  "Elf32_Dyn =
     [(''d_tag'', Elf32_Sword), (''d_un'', Elf32_Dyn_d_un)]"

definition Elf64_Dyn :: cfields where
  "Elf64_Dyn =
     [(''d_tag'', Elf64_Sxword), (''d_un'', Elf64_Dyn_d_un)]"

definition Elf32_Sym :: cfields where
  "Elf32_Sym =
     [(''st_name'', Elf32_Word), (''st_value'', Elf32_Addr), (''st_size'', Elf32_Word),
      (''st_info'', C_uint8), (''st_other'', C_uint8), (''st_shndx'', Elf32_Half)]"

definition Elf64_Sym :: cfields where
  "Elf64_Sym =
     [(''st_name'', Elf64_Word), (''st_info'', C_uint8), (''st_other'', C_uint8),
      (''st_shndx'', Elf64_Half), (''st_value'', Elf64_Addr), (''st_size'', Elf64_Xword)]"

definition Elf32_Rel :: cfields where
  "Elf32_Rel =
     [(''r_offset'', Elf32_Addr), (''r_info'', Elf32_Word)]"

definition Elf32_Rela :: cfields where
  "Elf32_Rela =
     [(''r_offset'', Elf32_Addr), (''r_info'', Elf32_Word), (''r_addend'', Elf32_Sword)]"

definition Elf64_Rel :: cfields where
  "Elf64_Rel =
     [(''r_offset'', Elf64_Addr), (''r_info'', Elf64_Xword)]"

definition Elf64_Rela :: cfields where
  "Elf64_Rela =
     [(''r_offset'', Elf64_Addr), (''r_info'', Elf64_Xword), (''r_addend'', Elf64_Sxword)]"

definition Elf32_Phdr :: cfields where
  "Elf32_Phdr =
     [(''p_type'', Elf32_Word), (''p_offset'', Elf32_Off), (''p_vaddr'', Elf32_Addr),
      (''p_paddr'', Elf32_Addr), (''p_filesz'', Elf32_Word), (''p_memsz'', Elf32_Word),
      (''p_flags'', Elf32_Word), (''p_align'', Elf32_Word)]"

definition Elf64_Phdr :: cfields where
  "Elf64_Phdr =
     [(''p_type'', Elf64_Word), (''p_flags'', Elf64_Word), (''p_offset'', Elf64_Off),
      (''p_vaddr'', Elf64_Addr), (''p_paddr'', Elf64_Addr), (''p_filesz'', Elf64_Xword),
      (''p_memsz'', Elf64_Xword), (''p_align'', Elf64_Xword)]"

definition Elf32_Nhdr :: cfields where
  "Elf32_Nhdr =
     [(''n_namesz'', Elf32_Word), (''n_descsz'', Elf32_Word), (''n_type'', Elf32_Word)]"

definition Elf64_Nhdr :: cfields where
  "Elf64_Nhdr =
     [(''n_namesz'', Elf64_Word), (''n_descsz'', Elf64_Word), (''n_type'', Elf64_Word)]"

subsection \<open>Values of the structures\<close>

record elf_ehdr =
  e_ident :: "nat list"
  e_type :: nat
  e_machine :: nat
  e_version :: nat
  e_entry :: nat
  e_phoff :: nat
  e_shoff :: nat
  e_flags :: nat
  e_ehsize :: nat
  e_phentsize :: nat
  e_phnum :: nat
  e_shentsize :: nat
  e_shnum :: nat
  e_shstrndx :: nat

definition ehdr_of :: "cstruct \<Rightarrow> elf_ehdr" where
  "ehdr_of s =
     \<lparr>e_ident = map nat (attrs s ''e_ident''), e_type = attr s ''e_type'', e_machine = attr s ''e_machine'',
      e_version = attr s ''e_version'', e_entry = attr s ''e_entry'', e_phoff = attr s ''e_phoff'',
      e_shoff = attr s ''e_shoff'', e_flags = attr s ''e_flags'', e_ehsize = attr s ''e_ehsize'',
      e_phentsize = attr s ''e_phentsize'', e_phnum = attr s ''e_phnum'',
      e_shentsize = attr s ''e_shentsize'', e_shnum = attr s ''e_shnum'', e_shstrndx = attr s ''e_shstrndx''\<rparr>"

definition GetFileClass :: "elf_ehdr \<Rightarrow> py_error + nat" where
  "GetFileClass h = py_index (e_ident h) (int EI_CLASS)"

definition GetDataEncoding :: "elf_ehdr \<Rightarrow> py_error + nat" where
  "GetDataEncoding h = py_index (e_ident h) (int EI_DATA)"

record elf_shdr =
  sh_name :: nat
  sh_type :: nat
  sh_flags :: nat
  sh_addr :: nat
  sh_offset :: nat
  sh_size :: nat
  sh_link :: nat
  sh_info :: nat
  sh_addralign :: nat
  sh_entsize :: nat

definition shdr_of :: "cstruct \<Rightarrow> elf_shdr" where
  "shdr_of s =
     \<lparr>sh_name = attr s ''sh_name'', sh_type = attr s ''sh_type'', sh_flags = attr s ''sh_flags'',
      sh_addr = attr s ''sh_addr'', sh_offset = attr s ''sh_offset'', sh_size = attr s ''sh_size'',
      sh_link = attr s ''sh_link'', sh_info = attr s ''sh_info'', sh_addralign = attr s ''sh_addralign'',
      sh_entsize = attr s ''sh_entsize''\<rparr>"

record elf_dyn =
  d_tag :: int
  d_val :: nat
  d_ptr :: nat

definition dyn_of :: "cstruct \<Rightarrow> elf_dyn" where
  "dyn_of s = \<lparr>d_tag = sattr s ''d_tag'', d_val = nat (attrs s ''d_un'' ! 0), d_ptr = nat (attrs s ''d_un'' ! 1)\<rparr>"

record elf_sym =
  st_name :: nat
  st_value :: nat
  st_size :: nat
  st_info :: nat
  st_other :: nat
  st_shndx :: nat

definition sym_of :: "cstruct \<Rightarrow> elf_sym" where
  "sym_of s =
     \<lparr>st_name = attr s ''st_name'', st_value = attr s ''st_value'', st_size = attr s ''st_size'',
      st_info = attr s ''st_info'', st_other = attr s ''st_other'', st_shndx = attr s ''st_shndx''\<rparr>"

definition sym_GetBinding :: "elf_sym \<Rightarrow> nat" where
  "sym_GetBinding s = drop_bit 4 (st_info s)"

definition sym_GetType :: "elf_sym \<Rightarrow> nat" where
  "sym_GetType s = st_info s AND 0xF"

text \<open>
  \<open>SetBinding\<close> and \<open>SetType\<close> call \<open>SetSymbolAndType\<close>, a method of the relocation classes that the symbol
  class does not have.
\<close>

definition sym_SetBinding :: "int \<Rightarrow> elf_sym \<Rightarrow> py_error + elf_sym" where
  "sym_SetBinding binding s = Inl AttributeError"

definition sym_SetType :: "int \<Rightarrow> elf_sym \<Rightarrow> py_error + elf_sym" where
  "sym_SetType typ s = Inl AttributeError"

definition sym_SetBindingAndType :: "int \<Rightarrow> int \<Rightarrow> elf_sym \<Rightarrow> elf_sym" where
  "sym_SetBindingAndType binding typ s =
     s\<lparr>st_info := nat (cstore C_uint8 (push_bit 4 binding OR (typ AND 0xF)))\<rparr>"

text \<open>
  A relocation; \<open>r_addend\<close> is \<^const>\<open>None\<close> for the structures without that field. \<open>rel_bits\<close> is 32 or 64, the
  class of the structure.
\<close>

record elf_rel =
  rel_bits :: nat
  r_offset :: nat
  r_info :: nat
  r_addend :: "int option"

definition rel_of :: "nat \<Rightarrow> cstruct \<Rightarrow> elf_rel" where
  "rel_of b s = \<lparr>rel_bits = b, r_offset = attr s ''r_offset'', r_info = attr s ''r_info'', r_addend = None\<rparr>"

definition rela_of :: "nat \<Rightarrow> cstruct \<Rightarrow> elf_rel" where
  "rela_of b s =
     \<lparr>rel_bits = b, r_offset = attr s ''r_offset'', r_info = attr s ''r_info'',
      r_addend = Some (sattr s ''r_addend'')\<rparr>"

text \<open>The number of bits of the relocation type and the type of \<open>r_info\<close>.\<close>

definition rel_shift :: "elf_rel \<Rightarrow> nat" where
  "rel_shift r = (if rel_bits r = 32 then 8 else 32)"

definition rel_mask :: "elf_rel \<Rightarrow> int" where
  "rel_mask r = (if rel_bits r = 32 then 0xFF else 0xFFFFFFFF)"

definition rel_GetSymbol :: "elf_rel \<Rightarrow> nat" where
  "rel_GetSymbol r = drop_bit (rel_shift r) (r_info r)"

definition rel_GetType :: "elf_rel \<Rightarrow> nat" where
  "rel_GetType r = nat (int (r_info r) AND rel_mask r)"

definition rel_SetSymbolAndType :: "int \<Rightarrow> int \<Rightarrow> elf_rel \<Rightarrow> elf_rel" where
  "rel_SetSymbolAndType symndx typ r =
     r\<lparr>r_info := nat (cstore (if rel_bits r = 32 then Elf32_Word else Elf64_Xword)
        (push_bit (rel_shift r) symndx OR (typ AND rel_mask r)))\<rparr>"

definition rel_SetSymbol :: "int \<Rightarrow> elf_rel \<Rightarrow> elf_rel" where
  "rel_SetSymbol symndx r = rel_SetSymbolAndType symndx (int (rel_GetType r)) r"

definition rel_SetType :: "int \<Rightarrow> elf_rel \<Rightarrow> elf_rel" where
  "rel_SetType typ r = rel_SetSymbolAndType (int (rel_GetSymbol r)) typ r"

record elf_phdr =
  p_type :: nat
  p_offset :: nat
  p_vaddr :: nat
  p_paddr :: nat
  p_filesz :: nat
  p_memsz :: nat
  p_flags :: nat
  p_align :: nat

definition phdr_of :: "cstruct \<Rightarrow> elf_phdr" where
  "phdr_of s =
     \<lparr>p_type = attr s ''p_type'', p_offset = attr s ''p_offset'', p_vaddr = attr s ''p_vaddr'',
      p_paddr = attr s ''p_paddr'', p_filesz = attr s ''p_filesz'', p_memsz = attr s ''p_memsz'',
      p_flags = attr s ''p_flags'', p_align = attr s ''p_align''\<rparr>"

record elf_nhdr =
  n_namesz :: nat
  n_descsz :: nat
  n_type :: nat

definition nhdr_of :: "cstruct \<Rightarrow> elf_nhdr" where
  "nhdr_of s = \<lparr>n_namesz = attr s ''n_namesz'', n_descsz = attr s ''n_descsz'', n_type = attr s ''n_type''\<rparr>"

subsection \<open>Sizes\<close>

text \<open>The alignment leaves no gaps; the sizes are those of the ELF specification.\<close>

lemma sizeof_elf [simp]:
  "sizeof Elf32_Ehdr = 52" "sizeof Elf64_Ehdr = 64" "sizeof Elf32_Shdr = 40" "sizeof Elf64_Shdr = 64"
  "sizeof Elf32_Dyn = 8" "sizeof Elf64_Dyn = 16" "sizeof Elf32_Sym = 16" "sizeof Elf64_Sym = 24"
  "sizeof Elf32_Rel = 8" "sizeof Elf64_Rel = 16" "sizeof Elf32_Rela = 12" "sizeof Elf64_Rela = 24"
  "sizeof Elf32_Phdr = 32" "sizeof Elf64_Phdr = 56" "sizeof Elf32_Nhdr = 12" "sizeof Elf64_Nhdr = 12"
  by (simp_all add: sizeof_def align_up_def elf_types Elf32_Ehdr_def Elf64_Ehdr_def Elf32_Shdr_def Elf64_Shdr_def
      Elf32_Dyn_def Elf64_Dyn_def Elf32_Dyn_d_un_def Elf64_Dyn_d_un_def Elf32_Sym_def Elf64_Sym_def Elf32_Rel_def
      Elf64_Rel_def Elf32_Rela_def Elf64_Rela_def Elf32_Phdr_def Elf64_Phdr_def Elf32_Nhdr_def Elf64_Nhdr_def
      EI_NIDENT_def)

subsection \<open>Writing structures\<close>

text \<open>The bytes of a value, and of a structure with its padding, given the values of its fields in order.\<close>

fun cbytes :: "ctype \<Rightarrow> int list \<Rightarrow> string" where
  "cbytes (C_uint w) vs = le_bytes w (nat (hd vs))"
| "cbytes (C_int w) vs = le_bytes w (nat (hd vs mod 256 ^ w))"
| "cbytes (C_array w n) vs = concat (map (\<lambda>v. le_bytes w (nat v)) vs)"
| "cbytes (C_union v w) vs = le_bytes (max v w) (nat (hd vs))"

text \<open>The values a field can hold.\<close>

fun cvalue_ok :: "ctype \<Rightarrow> int list \<Rightarrow> bool" where
  "cvalue_ok (C_uint w) vs \<longleftrightarrow> length vs = 1 \<and> 0 \<le> hd vs \<and> hd vs < 256 ^ w"
| "cvalue_ok (C_int w) vs \<longleftrightarrow> length vs = 1 \<and> - (256 ^ w) \<le> 2 * hd vs \<and> 2 * hd vs < 256 ^ w"
| "cvalue_ok (C_array w n) vs \<longleftrightarrow> length vs = n \<and> (\<forall>v \<in> set vs. 0 \<le> v \<and> v < 256 ^ w)"
| "cvalue_ok (C_union v w) vs \<longleftrightarrow> v = w \<and> length vs = 2 \<and> vs ! 0 = vs ! 1 \<and> 0 \<le> hd vs \<and> hd vs < 256 ^ w"

fun struct_bytes :: "nat \<Rightarrow> cfields \<Rightarrow> int list list \<Rightarrow> string" where
  "struct_bytes pos ((f, t) # fs) (v # vs) =
     (let p = align_up (ctype_align t) pos
      in replicate (p - pos) (CHR 0x00) @ cbytes t v @ struct_bytes (p + ctype_size t) fs vs)"
| "struct_bytes pos _ _ = []"

definition struct_ok :: "cfields \<Rightarrow> int list list \<Rightarrow> bool" where
  "struct_ok fs vs \<longleftrightarrow> list_all2 (\<lambda>(f, t) v. 0 < ctype_align t \<and> cvalue_ok t v) fs vs"

lemma length_cbytes [simp]: "cvalue_ok t v \<Longrightarrow> length (cbytes t v) = ctype_size t"
  by (cases t) (simp_all add: length_concat comp_def sum_list_triv)

lemma int_le_uint: "0 \<le> v \<Longrightarrow> v < 256 ^ w \<Longrightarrow> int (le_uint (le_bytes w (nat v))) = v"
  by (simp add: nat_less_iff)

lemma sint_of_mod:
  assumes "- (256 ^ w) \<le> 2 * v" and "2 * v < 256 ^ w"
  shows "sint_of w (nat (v mod 256 ^ w)) = v"
proof (cases "0 \<le> v")
  case True
  then have "v mod 256 ^ w = v" using assms by (intro mod_pos_pos_trivial) simp_all
  moreover have "int (2 * nat v) < int (256 ^ w)" using True assms(2) by simp
  then have "2 * nat v < 256 ^ w" by (simp only: of_nat_less_iff)
  ultimately show ?thesis using True by (simp add: sint_of_def)
next
  case False
  then have "(v + 256 ^ w) mod 256 ^ w = v + 256 ^ w" using assms by (intro mod_pos_pos_trivial) simp_all
  then have m: "v mod 256 ^ w = v + 256 ^ w" by simp
  have "0 < (256 :: int) ^ w" by simp
  then have "int (256 ^ w) \<le> int (2 * nat (v + 256 ^ w))" using assms(1) by simp
  then have "\<not> 2 * nat (v + 256 ^ w) < 256 ^ w" by (simp only: of_nat_le_iff not_less)
  then show ?thesis using m assms False by (simp add: sint_of_def)
qed

lemma array_bytes:
  "i < length vs \<Longrightarrow>
   take w (drop (i * w) (concat (map (\<lambda>v. le_bytes w (nat v)) vs) @ rest)) = le_bytes w (nat (vs ! i))"
proof (induction vs arbitrary: i)
  case (Cons v vs)
  then show ?case by (cases i) simp_all
qed simp

lemma cvalue_cbytes [simp]: "cvalue_ok t v \<Longrightarrow> cvalue t (cbytes t v @ rest) = v"
proof (cases t)
  case (C_uint w)
  assume "cvalue_ok t v"
  with C_uint show ?thesis by (cases v) (simp_all add: int_le_uint)
next
  case (C_int w)
  assume "cvalue_ok t v"
  with C_int show ?thesis by (cases v) (simp_all add: sint_of_mod nat_less_iff)
next
  case (C_array w n)
  assume "cvalue_ok t v"
  with C_array show ?thesis
    by (intro nth_equalityI) (simp_all add: array_bytes int_le_uint nat_less_iff del: take_append drop_append)
next
  case (C_union u w)
  assume "cvalue_ok t v"
  with C_union show ?thesis
    by (cases v; cases "tl v") (simp_all add: int_le_uint)
qed

lemma align_up_ge: "0 < a \<Longrightarrow> n \<le> align_up a n"
proof -
  assume "0 < a"
  then have "n + a - 1 < (n + a - 1) div a * a + a" using div_mult_mod_eq [of "n + a - 1" a] mod_less_divisor [of a "n + a - 1"] by linarith
  then show ?thesis by (simp add: align_up_def)
qed

lemma struct_fields_read:
  assumes "list_all2 (\<lambda>(f, t) v. 0 < ctype_align t \<and> cvalue_ok t v) fs vs" and "length pre = pos"
  shows "map (\<lambda>(f, t, p). (f, cvalue t (drop p (pre @ struct_bytes pos fs vs @ rest)))) (layout pos fs) =
    zip (map fst fs) vs \<and> length (pre @ struct_bytes pos fs vs) = layout_end pos fs"
  using assms
proof (induction pos fs vs arbitrary: pre rule: struct_bytes.induct)
  case (1 pos f t fs v vs)
  define p where "p = align_up (ctype_align t) pos"
  define q where "q = p + ctype_size t"
  define pre' where "pre' = pre @ replicate (p - pos) (CHR 0x00)"
  have ok: "cvalue_ok t v" and "pos \<le> p" using "1.prems"(1) align_up_ge by (simp_all add: p_def)
  then have len: "length pre' = p" using "1.prems"(2) by (simp add: pre'_def)
  have "map (\<lambda>(f, t, p). (f, cvalue t (drop p ((pre' @ cbytes t\<^sub>0 v) @ struct_bytes q fs vs @ rest)))) (layout q fs) =
      zip (map fst fs) vs \<and> length ((pre' @ cbytes t\<^sub>0 v) @ struct_bytes q fs vs) = layout_end q fs" if "t\<^sub>0 = t" for t\<^sub>0
    using "1.prems" len ok that unfolding p_def q_def by (intro "1.IH") simp_all
  then have IH: "map (\<lambda>(f, t', p). (f, cvalue t' (drop p (pre' @ cbytes t v @ struct_bytes q fs vs @ rest)))) (layout q fs) =
      zip (map fst fs) vs" "length (pre' @ cbytes t v @ struct_bytes q fs vs) = layout_end q fs"
    by simp_all
  have bytes: "pre @ struct_bytes pos ((f, t) # fs) (v # vs) @ rest' = pre' @ cbytes t v @ struct_bytes q fs vs @ rest'" for rest'
    by (simp add: Let_def p_def q_def pre'_def)
  have "drop p (pre' @ cbytes t v @ struct_bytes q fs vs @ rest) = cbytes t v @ struct_bytes q fs vs @ rest"
    using len by simp
  moreover have "length (pre @ struct_bytes pos ((f, t) # fs) (v # vs)) = layout_end q fs"
    using IH(2) bytes [of "[]"] by (simp only: append_Nil2)
  ultimately show ?case using ok IH(1) unfolding bytes
    by (simp add: Let_def p_def [symmetric] q_def [symmetric] del: struct_bytes.simps length_append drop_append)
qed auto

text \<open>
  A structure that is written field by field, padded to its size, is read back, whatever follows it.
\<close>

lemma from_buffer_copy_struct:
  assumes "struct_ok fs vs" and "sizeof fs \<le> length (struct_bytes 0 fs vs @ rest)"
  shows "from_buffer_copy fs (struct_bytes 0 fs vs @ rest) = Inr (zip (map fst fs) vs)"
  using assms struct_fields_read [of fs vs "[]" 0 rest]
  by (simp add: from_buffer_copy_def struct_ok_def del: drop_append)

lemma length_struct_bytes: "struct_ok fs vs \<Longrightarrow> length (struct_bytes 0 fs vs) = layout_end 0 fs"
  using struct_fields_read [of fs vs "[]" 0] by (simp add: struct_ok_def)

text \<open>Whatever the bytes, the fields hold values of their types.\<close>

lemma signed_range:
  "0 < m \<Longrightarrow> 0 \<le> i \<Longrightarrow> i < m \<Longrightarrow>
   - m \<le> 2 * (if 2 * i < m then i else i - m) \<and> 2 * (if 2 * i < m then i else i - m) < (m :: int)"
  by auto

lemma sint_of_range: "n < 256 ^ w \<Longrightarrow> - (256 ^ w) \<le> 2 * sint_of w n \<and> 2 * sint_of w n < 256 ^ w"
proof -
  assume "n < 256 ^ w"
  then have lt: "int n < 256 ^ w" by (metis of_nat_less_iff of_nat_numeral of_nat_power)
  have "2 * n < 256 ^ w \<longleftrightarrow> 2 * int n < 256 ^ w"
    by (metis of_nat_less_iff of_nat_mult of_nat_numeral of_nat_power)
  then have "sint_of w n = (if 2 * int n < 256 ^ w then int n else int n - 256 ^ w)"
    by (simp only: sint_of_def)
  moreover have "0 < (256 :: int) ^ w" "0 \<le> int n" by simp_all
  ultimately show ?thesis using lt signed_range [of "256 ^ w" "int n"] by (simp only: simp_thms)
qed

lemma le_uint_take_less: "le_uint (take w bs) < 256 ^ w"
proof -
  have "le_uint (take w bs) < 256 ^ length (take w bs)" by (rule le_uint_less)
  also have "\<dots> \<le> 256 ^ w" by (intro power_increasing) simp_all
  finally show ?thesis .
qed

lemma int_le_uint_take_less: "int (le_uint (take w bs)) < 256 ^ w"
proof -
  have "int (le_uint (take w bs)) < int (256 ^ w)" by (simp only: of_nat_less_iff le_uint_take_less)
  then show ?thesis by simp
qed

fun union_even :: "ctype \<Rightarrow> bool" where
  "union_even (C_union v w) \<longleftrightarrow> v = w"
| "union_even _ \<longleftrightarrow> True"

lemma cvalue_ok_cvalue: "union_even t \<Longrightarrow> cvalue_ok t (cvalue t bs)"
  by (cases t) (auto simp: int_le_uint_take_less sint_of_range le_uint_take_less)

lemma cstore_ok: "cvalue_ok (C_uint w) [cstore (C_uint w) v]" "cvalue_ok (C_int w) [cstore (C_int w) v]"
proof -
  have "nat (v mod 256 ^ w) < 256 ^ w" by (simp add: nat_less_iff)
  then show "cvalue_ok (C_int w) [cstore (C_int w) v]" by (simp add: sint_of_range)
qed simp

subsection \<open>Packed fields\<close>

lemma mask_int: "(0xF :: int) = mask 4" "(0xFF :: int) = mask 8" "(0xFFFFFFFF :: int) = mask 32"
  by (simp_all add: mask_eq_exp_minus_1)

lemma or_low_bits: "(push_bit k a OR take_bit k b) = a * 2 ^ k + take_bit k (b :: int)"
proof -
  have "push_bit k a AND take_bit k b = 0"
    by (rule bit_eqI) (auto simp: bit_simps)
  then have "push_bit k a OR take_bit k b = push_bit k a + take_bit k b"
    by (simp add: disjunctive_add_eq_or)
  then show ?thesis by (simp add: push_bit_eq_mult)
qed

lemma packed_parts:
  "(a * 2 ^ k + take_bit k b) mod 2 ^ (k + n) div 2 ^ k = a mod 2 ^ n"
  "(a * 2 ^ k + take_bit k b) mod 2 ^ (k + n) mod 2 ^ k = take_bit k (b :: int)"
proof -
  have b: "0 \<le> take_bit k b" "take_bit k b < 2 ^ k" by simp_all
  have "(a * 2 ^ k + take_bit k b) mod 2 ^ (k + n) = a mod 2 ^ n * 2 ^ k + take_bit k b"
  proof -
    have "(a * 2 ^ k + take_bit k b) mod (2 ^ k * 2 ^ n) =
        2 ^ k * ((a * 2 ^ k + take_bit k b) div 2 ^ k mod 2 ^ n) + (a * 2 ^ k + take_bit k b) mod 2 ^ k"
      by (rule zmod_zmult2_eq) simp
    with b show ?thesis by (simp add: power_add mult.commute)
  qed
  then show "(a * 2 ^ k + take_bit k b) mod 2 ^ (k + n) div 2 ^ k = a mod 2 ^ n"
    "(a * 2 ^ k + take_bit k b) mod 2 ^ (k + n) mod 2 ^ k = take_bit k b"
    using b by simp_all
qed

end
