(* ===== verification/Elf_Parser.thy ===== *)
theory Elf_Parser
  imports Elf_Structs
begin

section \<open>Reading ELF files (utils/python/library/elf\_parser.py)\<close>

text \<open>
  \<open>ElfParser\<close>. The file is its content; every read seeks first, so the position is no state. \<open>_begin_offset\<close> is the
  place of the object in an archive. The class attributes \<open>Elf_Ehdr\<close>, \<open>Elf_Shdr\<close>, \<dots> are functions of the
  bitness. A method that yields values is a generator: the values it yields before it ends and the exception it
  ends with, if any. The lists that \<open>range\<close> builds are taken to fit into memory.
\<close>

subsection \<open>Exceptions and generators\<close>

text \<open>
  \<open>ElfErrorOf\<close> and \<open>ArErrorOf\<close> wrap a caught exception; \<open>UnpackError\<close> is \<open>struct.error\<close>.
\<close>

datatype lib_error =
    ElfError string
  | ElfErrorOf py_error
  | VtableError string
  | ArError string
  | ArErrorOf py_error
  | UnpackError
  | PyError py_error

definition liftP :: "py_error + 'a \<Rightarrow> lib_error + 'a" where
  "liftP r = (case r of Inl e \<Rightarrow> Inl (PyError e) | Inr v \<Rightarrow> Inr v)"

lemma liftP_simps [simp]: "liftP (Inl e) = Inl (PyError e)" "liftP (Inr v) = Inr v"
  by (simp_all add: liftP_def)

type_synonym 'a gen = "'a list \<times> lib_error option"

definition gen_raise :: "lib_error \<Rightarrow> 'a gen" where
  "gen_raise e = ([], Some e)"

definition gen_append :: "'a list \<Rightarrow> 'a gen \<Rightarrow> 'a gen" where
  "gen_append xs g = (xs @ fst g, snd g)"

text \<open>A generator expression over a list, and one that yields the elements that pass a test.\<close>

fun gen_map :: "('a \<Rightarrow> lib_error + 'b) \<Rightarrow> 'a list \<Rightarrow> 'b gen" where
  "gen_map f [] = ([], None)"
| "gen_map f (x # xs) = (case f x of Inl e \<Rightarrow> gen_raise e | Inr y \<Rightarrow> gen_append [y] (gen_map f xs))"

fun gen_filter :: "('a \<Rightarrow> lib_error + bool) \<Rightarrow> 'a list \<Rightarrow> 'a gen" where
  "gen_filter f [] = ([], None)"
| "gen_filter f (x # xs) =
     (case f x of Inl e \<Rightarrow> gen_raise e | Inr b \<Rightarrow> gen_append (if b then [x] else []) (gen_filter f xs))"

text \<open>A \<open>for\<close> loop over a generator: an exception of the body comes before one of the generator.\<close>

definition gen_for :: "'a gen \<Rightarrow> ('a \<Rightarrow> 'b \<Rightarrow> lib_error + 'b) \<Rightarrow> 'b \<Rightarrow> lib_error + 'b" where
  "gen_for g f v = bindR (foldR f (fst g) v) (\<lambda>v. case snd g of None \<Rightarrow> Inr v | Some e \<Rightarrow> Inl e)"

lemma gen_map_Inr: "(\<And>x. x \<in> set xs \<Longrightarrow> f x = Inr (g x)) \<Longrightarrow> gen_map f xs = (map g xs, None)"
  by (induction xs) (simp_all add: gen_append_def)

lemma gen_filter_Inr: "(\<And>x. x \<in> set xs \<Longrightarrow> f x = Inr (g x)) \<Longrightarrow> gen_filter f xs = (filter g xs, None)"
  by (induction xs) (simp_all add: gen_append_def)

lemma gen_for_done [simp]: "gen_for (xs, None) f v = foldR f xs v"
  by (cases "foldR f xs v") (simp_all add: gen_for_def)

lemma gen_for_invariant:
  "gen_for g f v = Inr v' \<Longrightarrow> P v \<Longrightarrow> (\<And>x u u'. x \<in> set (fst g) \<Longrightarrow> P u \<Longrightarrow> f x u = Inr u' \<Longrightarrow> P u') \<Longrightarrow> P v'"
  by (auto simp: gen_for_def py_res split: option.splits elim: foldR_invariant)

subsection \<open>DecodeSLEB128 (utils/python/library/elf/utils.py)\<close>

function sleb_loop :: "string \<Rightarrow> nat \<Rightarrow> int \<Rightarrow> nat \<Rightarrow> py_error + int \<times> nat" where
  "sleb_loop data cur val shift =
     (if cur < length data then
        let byte = of_char (data ! cur) :: int;
            val = val OR push_bit shift (byte AND 0x7F);
            shift = shift + 7
        in if byte AND 0x80 = 0
           then Inr (if byte AND 0x40 \<noteq> 0 then val OR push_bit shift (- 1) else val, cur + 1)
           else sleb_loop data (cur + 1) val shift
      else Inl IndexError)"
  by pat_completeness auto
termination by (relation "measure (\<lambda>(data, cur, _). length data - cur)") auto

declare sleb_loop.simps [simp del]

definition DecodeSLEB128 :: "string \<Rightarrow> nat \<Rightarrow> py_error + int \<times> nat" where
  "DecodeSLEB128 data begin_offset =
     bindR (sleb_loop data begin_offset 0 0) (\<lambda>(val, cur). Inr (val, cur - begin_offset))"

subsection \<open>Raw reads\<close>

record elf_file =
  elf_content :: string
  elf_open :: bool
  begin_offset :: nat
  file_size :: nat

record elf_parser = elf_file +
  bitness :: nat
  Ehdr :: elf_ehdr
  Shdr :: "elf_shdr list"

definition elf_Close :: "'z elf_file_scheme \<Rightarrow> 'z elf_file_scheme" where
  "elf_Close p = p\<lparr>elf_open := False\<rparr>"

text \<open>A file position is a C \<open>long long\<close>; a greater number raises \<open>OverflowError\<close>.\<close>

definition seek_limit :: nat where "seek_limit = 2 ^ 63"

definition elf_seek :: "'z elf_file_scheme \<Rightarrow> nat \<Rightarrow> lib_error + string" where
  "elf_seek p offset =
     (if \<not> elf_open p then Inl (PyError ValueError)
      else if begin_offset p + offset \<ge> seek_limit then Inl (PyError OverflowError)
      else Inr (drop (begin_offset p + offset) (elf_content p)))"

definition SeekRead :: "'z elf_file_scheme \<Rightarrow> nat \<Rightarrow> nat \<Rightarrow> lib_error + string" where
  "SeekRead p offset read_size =
     (if offset + read_size > file_size p then Inl (ElfError ''Read beyond end of file.'')
      else bindR (elf_seek p offset) (\<lambda>rest. Inr (take read_size rest)))"

text \<open>\<open>struct.unpack\<close> of one unsigned integer: the number of bytes has to be right.\<close>

definition unpack_uint :: "nat \<Rightarrow> string \<Rightarrow> lib_error + nat" where
  "unpack_uint w bs = (if length bs = w then Inr (le_uint bs) else Inl UnpackError)"

definition SeekRead8 :: "'z elf_file_scheme \<Rightarrow> nat \<Rightarrow> lib_error + nat" where
  "SeekRead8 p offset = bindR (SeekRead p offset 1) (unpack_uint 1)"

definition SeekRead16 :: "'z elf_file_scheme \<Rightarrow> nat \<Rightarrow> lib_error + nat" where
  "SeekRead16 p offset = bindR (SeekRead p offset 2) (unpack_uint 2)"

definition SeekRead32 :: "'z elf_file_scheme \<Rightarrow> nat \<Rightarrow> lib_error + nat" where
  "SeekRead32 p offset = bindR (SeekRead p offset 4) (unpack_uint 4)"

definition SeekRead64 :: "'z elf_file_scheme \<Rightarrow> nat \<Rightarrow> lib_error + nat" where
  "SeekRead64 p offset = bindR (SeekRead p offset 8) (unpack_uint 8)"

text \<open>The loop reads 16 bytes at a time from the rest of the file.\<close>

function read_string_loop :: "string \<Rightarrow> string \<Rightarrow> lib_error + string" where
  "read_string_loop rest ret =
     (let buf = take 16 rest in
      case str_find buf [CHR 0x00] of
        Some end_index \<Rightarrow> Inr (ret @ take end_index buf)
      | None \<Rightarrow>
          if length buf \<noteq> 16 then Inl (ElfError ''Null-terminated string reaches end of file.'')
          else read_string_loop (drop 16 rest) (ret @ buf))"
  by pat_completeness auto
termination by (relation "measure (\<lambda>(rest, _). length rest)") auto

declare read_string_loop.simps [simp del]

definition SeekReadString :: "'z elf_file_scheme \<Rightarrow> nat \<Rightarrow> lib_error + string" where
  "SeekReadString p offset = bindR (elf_seek p offset) (\<lambda>rest. read_string_loop rest [])"

definition SeekReadStruct :: "'z elf_file_scheme \<Rightarrow> nat \<Rightarrow> cfields \<Rightarrow> lib_error + cstruct" where
  "SeekReadStruct p offset struct_type =
     bindR (SeekRead p offset (sizeof struct_type)) (\<lambda>raw_bytes.
       case from_buffer_copy struct_type raw_bytes of Inl e \<Rightarrow> Inl (ElfErrorOf e) | Inr s \<Rightarrow> Inr s)"

subsection \<open>The constructor\<close>

text \<open>The structure classes of a bitness.\<close>

definition Elf_Addr :: "nat \<Rightarrow> ctype" where "Elf_Addr b = (if b = 32 then Elf32_Addr else Elf64_Addr)"
definition Elf_Ehdr :: "nat \<Rightarrow> cfields" where "Elf_Ehdr b = (if b = 32 then Elf32_Ehdr else Elf64_Ehdr)"
definition Elf_Shdr :: "nat \<Rightarrow> cfields" where "Elf_Shdr b = (if b = 32 then Elf32_Shdr else Elf64_Shdr)"
definition Elf_Dyn :: "nat \<Rightarrow> cfields" where "Elf_Dyn b = (if b = 32 then Elf32_Dyn else Elf64_Dyn)"
definition Elf_Sym :: "nat \<Rightarrow> cfields" where "Elf_Sym b = (if b = 32 then Elf32_Sym else Elf64_Sym)"
definition Elf_Rel :: "nat \<Rightarrow> cfields" where "Elf_Rel b = (if b = 32 then Elf32_Rel else Elf64_Rel)"
definition Elf_Rela :: "nat \<Rightarrow> cfields" where "Elf_Rela b = (if b = 32 then Elf32_Rela else Elf64_Rela)"
definition Elf_Phdr :: "nat \<Rightarrow> cfields" where "Elf_Phdr b = (if b = 32 then Elf32_Phdr else Elf64_Phdr)"
definition Elf_Nhdr :: "nat \<Rightarrow> cfields" where "Elf_Nhdr b = (if b = 32 then Elf32_Nhdr else Elf64_Nhdr)"

definition read_shdr :: "nat \<Rightarrow> 'z elf_file_scheme \<Rightarrow> elf_ehdr \<Rightarrow> nat \<Rightarrow> lib_error + elf_shdr" where
  "read_shdr b f h i =
     bindR (SeekReadStruct f (e_shoff h + i * e_shentsize h) (Elf_Shdr b)) (\<lambda>s. Inr (shdr_of s))"

text \<open>The identification bytes: magic number, class and data encoding; the result is the bitness.\<close>

definition check_ident :: "string \<Rightarrow> lib_error + nat" where
  "check_ident ident =
     (if take 4 ident \<noteq> ELF_MAGIC_NUMBER
      then Inl (ElfError (''Unexpected magic bytes: '' @ take 4 ident))
      else bindR (liftP (py_index ident (int EI_CLASS))) (\<lambda>c.
        if of_char c \<notin> {ELFCLASS32, ELFCLASS64} then Inl (ElfError (''Unexpected file class: '' @ [c]))
        else bindR (liftP (py_index ident (int EI_DATA))) (\<lambda>d.
          if of_char d \<noteq> ELFDATA2LSB then Inl (ElfError (''Unexpected data encoding: '' @ [d]))
          else Inr (if of_char c = ELFCLASS32 then 32 else 64))))"

definition ElfParser :: "(string \<rightharpoonup> string) \<Rightarrow> string \<Rightarrow> nat \<Rightarrow> lib_error + elf_parser" where
  "ElfParser files file_path begin_off =
     (case files file_path of
        None \<Rightarrow> Inl (ElfErrorOf IOError)
      | Some data \<Rightarrow>
          let f = \<lparr>elf_content = data, elf_open = True, begin_offset = begin_off, file_size = length data\<rparr>
          in bindR (SeekRead f 0 EI_NIDENT) (\<lambda>ident.
             bindR (check_ident ident) (\<lambda>b.
               bindR (SeekReadStruct f 0 (Elf_Ehdr b)) (\<lambda>s.
                 let h = ehdr_of s
                 in bindR (mapR (read_shdr b f h) [0..<e_shnum h]) (\<lambda>shs.
                      Inr \<lparr>elf_content = data, elf_open = True, begin_offset = begin_off,
                        file_size = length data, bitness = b, Ehdr = h, Shdr = shs\<rparr>)))))"

subsection \<open>Sections, dynamic entries and symbols\<close>

definition GetString :: "elf_parser \<Rightarrow> elf_shdr \<Rightarrow> nat \<Rightarrow> lib_error + string" where
  "GetString p strtab offset = SeekReadString p (sh_offset strtab + offset)"

definition GetSectionName :: "elf_parser \<Rightarrow> elf_shdr \<Rightarrow> lib_error + string" where
  "GetSectionName p sh =
     bindR (liftP (py_index (Shdr p) (int (e_shstrndx (Ehdr p))))) (\<lambda>strtab. GetString p strtab (sh_name sh))"

definition GetSectionsByName :: "elf_parser \<Rightarrow> string \<Rightarrow> elf_shdr gen" where
  "GetSectionsByName p name =
     gen_filter (\<lambda>sh. bindR (GetSectionName p sh) (\<lambda>n. Inr (name = n))) (Shdr p)"

definition GetSectionByName :: "elf_parser \<Rightarrow> string \<Rightarrow> lib_error + elf_shdr option" where
  "GetSectionByName p name =
     (case GetSectionsByName p name of
        (sh # _, _) \<Rightarrow> Inr (Some sh) | ([], None) \<Rightarrow> Inr None | ([], Some e) \<Rightarrow> Inl e)"

definition GetDyn :: "elf_parser \<Rightarrow> nat \<Rightarrow> lib_error + elf_dyn" where
  "GetDyn p off = bindR (SeekReadStruct p off (Elf_Dyn (bitness p))) (\<lambda>s. Inr (dyn_of s))"

fun dynamic_loop :: "elf_parser \<Rightarrow> nat \<Rightarrow> nat \<Rightarrow> nat \<Rightarrow> elf_dyn gen" where
  "dynamic_loop p entsize 0 off = ([], None)"
| "dynamic_loop p entsize (Suc num) off =
     (case GetDyn p off of
        Inl e \<Rightarrow> gen_raise e
      | Inr dyn \<Rightarrow>
          gen_append [dyn]
            (if d_tag dyn = DT_NULL then ([], None) else dynamic_loop p entsize num (off + entsize)))"

definition GetDynamic :: "elf_parser \<Rightarrow> elf_shdr \<Rightarrow> elf_dyn gen" where
  "GetDynamic p dynamic =
     (if sh_entsize dynamic = 0 then gen_raise (PyError ZeroDivisionError)
      else dynamic_loop p (sh_entsize dynamic) (sh_size dynamic div sh_entsize dynamic) (sh_offset dynamic))"

definition GetSymbol :: "elf_parser \<Rightarrow> elf_shdr \<Rightarrow> nat \<Rightarrow> lib_error + elf_sym" where
  "GetSymbol p symtab idx =
     bindR (SeekReadStruct p (sh_offset symtab + idx * sh_entsize symtab) (Elf_Sym (bitness p)))
       (\<lambda>s. Inr (sym_of s))"

definition GetSymbols :: "elf_parser \<Rightarrow> elf_shdr \<Rightarrow> elf_sym gen" where
  "GetSymbols p symtab =
     (if sh_entsize symtab = 0 then gen_raise (PyError ZeroDivisionError)
      else gen_map (GetSymbol p symtab) [0..<sh_size symtab div sh_entsize symtab])"

definition GetRelocationSymbol :: "elf_parser \<Rightarrow> elf_shdr \<Rightarrow> elf_rel \<Rightarrow> lib_error + elf_sym" where
  "GetRelocationSymbol p symtab rel = GetSymbol p symtab (rel_GetSymbol rel)"

end
