(* ===== verification/Elf_Relocations.thy ===== *)
theory Elf_Relocations
  imports Elf_Parser
begin

section \<open>Relocations and queries of ELF files (utils/python/library/elf\_parser.py)\<close>

text \<open>
  The relocation tables of \<open>ElfParser\<close>: plain, packed (\<open>SHT_ANDROID_REL\<close>, \<open>SHT_ANDROID_RELA\<close>) and bitmap
  encoded (\<open>SHT_RELR\<close>), and the queries about symbols, dependencies and the interpreter.
\<close>

unbundle bit_operations_syntax

subsection \<open>Relocation entries\<close>

definition info_type :: "nat \<Rightarrow> ctype" where
  "info_type b = (if b = 32 then Elf32_Word else Elf64_Xword)"

definition addend_type :: "nat \<Rightarrow> ctype" where
  "addend_type b = (if b = 32 then Elf32_Sword else Elf64_Sxword)"

text \<open>New entries: \<open>ctypes\<close> keeps the low bits of the numbers.\<close>

definition CreateElfRel :: "nat \<Rightarrow> int \<Rightarrow> int \<Rightarrow> elf_rel" where
  "CreateElfRel b offset info =
     \<lparr>rel_bits = b, r_offset = nat (cstore (Elf_Addr b) offset), r_info = nat (cstore (info_type b) info),
      r_addend = None\<rparr>"

definition CreateElfRela :: "nat \<Rightarrow> int \<Rightarrow> int \<Rightarrow> int \<Rightarrow> elf_rel" where
  "CreateElfRela b offset info addend =
     (CreateElfRel b offset info)\<lparr>r_addend := Some (cstore (addend_type b) addend)\<rparr>"

definition GetRelocation :: "elf_parser \<Rightarrow> elf_shdr \<Rightarrow> nat \<Rightarrow> lib_error + elf_rel" where
  "GetRelocation p rel idx =
     (let off = sh_offset rel + idx * sh_entsize rel; b = bitness p in
      if sh_type rel = SHT_RELA then bindR (SeekReadStruct p off (Elf_Rela b)) (\<lambda>s. Inr (rela_of b s))
      else bindR (SeekReadStruct p off (Elf_Rel b)) (\<lambda>s. Inr (rel_of b s)))"

subsection \<open>Bitmap encoded tables\<close>

definition addr_size :: "elf_parser \<Rightarrow> nat" where
  "addr_size p = (if bitness p = 32 then 4 else 8)"

definition seek_read_entry :: "elf_parser \<Rightarrow> nat \<Rightarrow> lib_error + nat" where
  "seek_read_entry p = (if bitness p = 32 then SeekRead32 p else SeekRead64 p)"

text \<open>\<open>range(a, b, step)\<close> for a positive step.\<close>

definition range_step :: "nat \<Rightarrow> nat \<Rightarrow> nat \<Rightarrow> nat list" where
  "range_step a b step = map (\<lambda>i. a + i * step) [0..<(b - a + step - 1) div step]"

text \<open>A bitmap: the entries for its bits and the offset after the last one.\<close>

fun relr_bitmap :: "elf_parser \<Rightarrow> nat \<Rightarrow> nat list \<Rightarrow> nat \<Rightarrow> elf_rel list \<times> nat" where
  "relr_bitmap p entry [] rel_offset = ([], rel_offset)"
| "relr_bitmap p entry (bit_idx # idxs) rel_offset =
     (let (rels, off) = relr_bitmap p entry idxs (rel_offset + addr_size p)
      in (if drop_bit bit_idx entry AND 1 \<noteq> 0
          then CreateElfRel (bitness p) (int rel_offset) 0 # rels else rels, off))"

fun relr_loop :: "elf_parser \<Rightarrow> nat \<Rightarrow> nat list \<Rightarrow> nat \<Rightarrow> elf_rel gen" where
  "relr_loop p entsize [] rel_offset = ([], None)"
| "relr_loop p entsize (ent_offset # offs) rel_offset =
     (case seek_read_entry p ent_offset of
        Inl e \<Rightarrow> gen_raise e
      | Inr relr_entry \<Rightarrow>
          if relr_entry AND 1 = 0
          then gen_append [CreateElfRel (bitness p) (int relr_entry) 0]
                 (relr_loop p entsize offs (relr_entry + addr_size p))
          else let (rels, off) = relr_bitmap p relr_entry [1..<entsize * 8] rel_offset
               in gen_append rels (relr_loop p entsize offs off))"

definition DecodeAndroidRelr :: "elf_parser \<Rightarrow> elf_shdr \<Rightarrow> elf_rel gen" where
  "DecodeAndroidRelr p rel =
     (if sh_entsize rel = 0 then gen_raise (PyError ValueError)
      else relr_loop p (sh_entsize rel)
             (range_step (sh_offset rel) (sh_offset rel + sh_size rel) (sh_entsize rel)) 0)"

subsection \<open>Packed tables\<close>

definition PASS_END :: lib_error where
  "PASS_END = ElfError ''Decoding pass end of section.''"

text \<open>
  \<open>_PopWord\<close>: the next word of the stream that starts at \<open>cur\<close>, and the position after it.
\<close>

definition PopWord :: "string \<Rightarrow> nat \<Rightarrow> lib_error + int \<times> nat" where
  "PopWord data cur =
     (if cur < length data
      then case DecodeSLEB128 data cur of Inl e \<Rightarrow> Inl PASS_END | Inr (val, num) \<Rightarrow> Inr (val, cur + num)
      else Inl PASS_END)"

text \<open>
  The local variables of the decoder. \<open>info\<close> has no value before the first group; every entry finds it set by
  its group or sets it first.
\<close>

record rela_state =
  rs_cur :: nat
  rs_offset :: int
  rs_info :: int
  rs_addend :: int

record rela_group =
  by_info :: bool
  by_delta :: bool
  by_addend :: bool
  has_addend :: bool
  offset_delta :: int

definition pop_if :: "bool \<Rightarrow> string \<Rightarrow> int \<Rightarrow> nat \<Rightarrow> lib_error + int \<times> nat" where
  "pop_if c data dflt cur = (if c then PopWord data cur else Inr (dflt, cur))"

definition group_flags :: "int \<Rightarrow> rela_group" where
  "group_flags flags =
     \<lparr>by_info = (flags AND RELOCATION_GROUPED_BY_INFO_FLAG \<noteq> 0),
      by_delta = (flags AND RELOCATION_GROUPED_BY_OFFSET_DELTA_FLAG \<noteq> 0),
      by_addend = (flags AND RELOCATION_GROUPED_BY_ADDEND_FLAG \<noteq> 0),
      has_addend = (flags AND RELOCATION_GROUP_HAS_ADDEND_FLAG \<noteq> 0), offset_delta = 0\<rparr>"

definition group_header :: "string \<Rightarrow> rela_state \<Rightarrow> lib_error + int \<times> rela_group \<times> rela_state" where
  "group_header data st =
     bindR (PopWord data (rs_cur st)) (\<lambda>(group_size, cur).
     bindR (PopWord data cur) (\<lambda>(flags, cur).
       let g = group_flags flags in
       bindR (pop_if (by_delta g) data 0 cur) (\<lambda>(delta, cur).
       bindR (pop_if (by_info g) data (rs_info st) cur) (\<lambda>(info, cur).
       bindR (pop_if (has_addend g \<and> by_addend g) data 0 cur) (\<lambda>(d, cur).
         Inr (group_size, g\<lparr>offset_delta := delta\<rparr>,
           \<lparr>rs_cur = cur, rs_offset = rs_offset st, rs_info = info,
            rs_addend = (if has_addend g then rs_addend st + d else 0)\<rparr>))))))"

definition group_entry :: "string \<Rightarrow> rela_group \<Rightarrow> rela_state \<Rightarrow> lib_error + rela_state" where
  "group_entry data g st =
     bindR (pop_if (\<not> by_delta g) data (offset_delta g) (rs_cur st)) (\<lambda>(delta, cur).
     bindR (pop_if (\<not> by_info g) data (rs_info st) cur) (\<lambda>(info, cur).
     bindR (pop_if (has_addend g \<and> \<not> by_addend g) data 0 cur) (\<lambda>(d, cur).
       Inr \<lparr>rs_cur = cur, rs_offset = rs_offset st + delta, rs_info = info, rs_addend = rs_addend st + d\<rparr>)))"

text \<open>The entries of a group: what is yielded, and the state after the group or the exception.\<close>

fun group_loop :: "nat \<Rightarrow> string \<Rightarrow> rela_group \<Rightarrow> nat \<Rightarrow> rela_state \<Rightarrow> elf_rel list \<times> (lib_error + rela_state)" where
  "group_loop b data g 0 st = ([], Inr st)"
| "group_loop b data g (Suc n) st =
     (case group_entry data g st of
        Inl e \<Rightarrow> ([], Inl e)
      | Inr st' \<Rightarrow>
          let (rels, r) = group_loop b data g n st'
          in (CreateElfRela b (rs_offset st') (rs_info st') (rs_addend st') # rels, r))"

lemma sleb_loop_advances:
  "sleb_loop data cur v k = Inr (w, cur') \<Longrightarrow> cur < cur' \<and> cur' \<le> length data"
proof (induction data cur v k rule: sleb_loop.induct)
  case (1 data cur v k)
  from "1.prems" have lt: "cur < length data"
    by (subst (asm) sleb_loop.simps) (simp split: if_splits)
  show ?case
  proof (cases "(of_char (data ! cur) :: int) AND 0x80 = 0")
    case True
    with "1.prems" lt show ?thesis by (subst (asm) sleb_loop.simps) (simp add: Let_def)
  next
    case False
    with "1.prems" lt have "sleb_loop data (cur + 1) (v OR push_bit k (of_char (data ! cur) AND 0x7F)) (k + 7) = Inr (w, cur')"
      by (subst (asm) sleb_loop.simps) (simp add: Let_def)
    from "1.IH" [OF lt refl refl refl False this] show ?thesis by simp
  qed
qed

lemma PopWord_advances: "PopWord data cur = Inr (v, cur') \<Longrightarrow> cur < cur' \<and> cur' \<le> length data"
  using sleb_loop_advances [of data cur 0 0]
  by (fastforce simp: PopWord_def DecodeSLEB128_def py_res split: if_splits sum.splits)

lemma pop_if_advances: "pop_if c data d cur = Inr (v, cur') \<Longrightarrow> cur \<le> length data \<Longrightarrow> cur \<le> cur' \<and> cur' \<le> length data"
  using PopWord_advances [of data cur v cur'] by (auto simp: pop_if_def split: if_splits)

lemma group_header_advances:
  "group_header data st = Inr (n, g, st') \<Longrightarrow> rs_cur st < rs_cur st' \<and> rs_cur st' \<le> length data"
  by (auto simp: group_header_def Let_def py_res dest!: PopWord_advances pop_if_advances)

lemma group_entry_advances:
  "group_entry data g st = Inr st' \<Longrightarrow> rs_cur st \<le> length data \<Longrightarrow> rs_cur st \<le> rs_cur st' \<and> rs_cur st' \<le> length data"
  by (fastforce simp: group_entry_def py_res dest: pop_if_advances)

lemma group_loop_advances:
  "group_loop b data g n st = (rels, Inr st') \<Longrightarrow> rs_cur st \<le> length data \<Longrightarrow>
   rs_cur st \<le> rs_cur st' \<and> rs_cur st' \<le> length data"
proof (induction b data g n st arbitrary: rels rule: group_loop.induct)
  case (2 b data g n st)
  from "2.prems"(1) obtain st1 where st1: "group_entry data g st = Inr st1"
    by (simp split: sum.splits)
  moreover from this "2.prems"(1) obtain rels' where "group_loop b data g n st1 = (rels', Inr st')"
    by (auto simp: Let_def split: prod.splits)
  ultimately show ?case
    using "2.IH" [OF st1] group_entry_advances [OF st1] "2.prems"(2) by fastforce
qed simp

text \<open>
  The main loop: every round takes at least the two words of a group header, so it ends even if group sizes
  are zero or negative.
\<close>

function unpack_groups :: "nat \<Rightarrow> string \<Rightarrow> int \<Rightarrow> int \<Rightarrow> rela_state \<Rightarrow> elf_rel gen" where
  "unpack_groups b data total_count current_count st =
     (if current_count < total_count then
        case group_header data st of
          Inl e \<Rightarrow> gen_raise e
        | Inr (group_size, g, st') \<Rightarrow>
            (case group_loop b data g (nat group_size) st' of
               (rels, Inl e) \<Rightarrow> (rels, Some e)
             | (rels, Inr st'') \<Rightarrow>
                 gen_append rels (unpack_groups b data total_count (current_count + group_size) st''))
      else ([], None))"
  by pat_completeness auto
termination
  by (relation "measure (\<lambda>(b, data, total, n, st). length data - rs_cur st)")
     (auto dest!: group_header_advances group_loop_advances [OF sym])

declare unpack_groups.simps [simp del]

definition UnpackAndroidRela :: "elf_parser \<Rightarrow> elf_shdr \<Rightarrow> elf_rel gen" where
  "UnpackAndroidRela p android_rela =
     (case SeekRead p (sh_offset android_rela) (sh_size android_rela) of
        Inl e \<Rightarrow> gen_raise e
      | Inr data \<Rightarrow>
          if length data < 4 \<or> take 4 data \<noteq> ''APS2''
          then gen_raise (ElfError (''Unexpected SHT_ANDROID_RELA header: '' @ take 4 data))
          else case bindR (PopWord data 4) (\<lambda>(total_count, cur).
                      bindR (PopWord data cur) (\<lambda>(offset, cur). Inr (total_count, offset, cur))) of
                 Inl e \<Rightarrow> gen_raise e
               | Inr (total_count, offset, cur) \<Rightarrow>
                   unpack_groups (bitness p) data total_count 0
                     \<lparr>rs_cur = cur, rs_offset = offset, rs_info = 0, rs_addend = 0\<rparr>)"

definition GetRelocations :: "elf_parser \<Rightarrow> elf_shdr \<Rightarrow> elf_rel gen" where
  "GetRelocations p rel =
     (if sh_type rel \<in> {SHT_ANDROID_REL, SHT_ANDROID_RELA} then
        let (relocations, e) = UnpackAndroidRela p rel
        in (if sh_type rel = SHT_ANDROID_REL
            then map (\<lambda>rela. CreateElfRel (bitness p) (int (r_offset rela)) (int (r_info rela))) relocations
            else relocations, e)
      else if sh_type rel \<in> {SHT_RELR, SHT_ANDROID_RELR} then DecodeAndroidRelr p rel
      else if sh_entsize rel = 0 then gen_raise (PyError ZeroDivisionError)
      else gen_map (GetRelocation p rel) [0..<sh_size rel div sh_entsize rel])"

subsection \<open>Queries\<close>

text \<open>The offsets of the needed names and the address of the string table, collected from the dynamic array.\<close>

definition collect_dyn :: "elf_dyn \<Rightarrow> nat list \<times> nat option \<Rightarrow> nat list \<times> nat option" where
  "collect_dyn dyn acc =
     (if d_tag dyn = DT_NEEDED then (fst acc @ [d_val dyn], snd acc)
      else if d_tag dyn = DT_STRTAB then (fst acc, Some (d_ptr dyn)) else acc)"

definition LoadDtNeeded :: "elf_parser \<Rightarrow> elf_shdr \<Rightarrow> lib_error + string list" where
  "LoadDtNeeded p dynamic =
     bindR (gen_for (GetDynamic p dynamic) (\<lambda>dyn acc. Inr (collect_dyn dyn acc)) ([], None))
       (\<lambda>(name_offsets, strtab_addr).
         case strtab_addr of
           None \<Rightarrow> Inl (ElfError ''Cannot find string table address in dynamic section.'')
         | Some addr \<Rightarrow>
             (case find (\<lambda>sh. sh_addr sh = addr) (Shdr p) of
                None \<Rightarrow> Inl (ElfError ''Cannot find dynamic string table.'')
              | Some strtab \<Rightarrow> mapR (GetString p strtab) name_offsets))"

definition IsExecutable :: "elf_parser \<Rightarrow> bool" where
  "IsExecutable p \<longleftrightarrow> e_type (Ehdr p) = ET_EXEC"

definition IsSharedObject :: "elf_parser \<Rightarrow> bool" where
  "IsSharedObject p \<longleftrightarrow> e_type (Ehdr p) = ET_DYN"

definition is_android_note :: "elf_parser \<Rightarrow> elf_shdr \<Rightarrow> lib_error + bool" where
  "is_android_note p sh =
     bindR (SeekReadStruct p (sh_offset sh) (Elf_Nhdr (bitness p))) (\<lambda>s.
     bindR (SeekRead p (sh_offset sh + sizeof (Elf_Nhdr (bitness p))) (n_namesz (nhdr_of s))) (\<lambda>name.
       Inr (name = ''Android'' @ [CHR 0x00])))"

text \<open>The first section that has the note ends the search.\<close>

fun any_android_note :: "elf_parser \<Rightarrow> elf_shdr list \<Rightarrow> lib_error option \<Rightarrow> lib_error + bool" where
  "any_android_note p [] ending = (case ending of None \<Rightarrow> Inr False | Some e \<Rightarrow> Inl e)"
| "any_android_note p (sh # shs) ending =
     bindR (is_android_note p sh) (\<lambda>b. if b then Inr True else any_android_note p shs ending)"

definition HasAndroidIdent :: "elf_parser \<Rightarrow> lib_error + bool" where
  "HasAndroidIdent p =
     (let (shs, ending) = GetSectionsByName p ''.note.android.ident'' in any_android_note p shs ending)"

definition ABI_MACHINES :: "(string \<times> nat) list" where
  "ABI_MACHINES =
     [(''arm64'', EM_AARCH64), (''arm'', EM_ARM), (''mips64'', EM_MIPS), (''mips'', EM_MIPS),
      (''x86_64'', EM_X86_64), (''x86'', EM_386)]"

definition MatchCpuAbi :: "elf_parser \<Rightarrow> string \<Rightarrow> bool" where
  "MatchCpuAbi p abi =
     (case find (\<lambda>(abi_prefix, machine). startswith abi abi_prefix) ABI_MACHINES of
        None \<Rightarrow> False | Some (abi_prefix, machine) \<Rightarrow> e_machine (Ehdr p) = machine)"

definition ListDependencies :: "elf_parser \<Rightarrow> lib_error + string list" where
  "ListDependencies p =
     foldR (\<lambda>sh deps. if sh_type sh = SHT_DYNAMIC
                       then bindR (LoadDtNeeded p sh) (\<lambda>l. Inr (deps @ l)) else Inr deps) (Shdr p) []"

definition symbol_listed :: "bool \<Rightarrow> elf_sym \<Rightarrow> bool" where
  "symbol_listed include_weak sm \<longleftrightarrow>
     sym_GetType sm \<noteq> STT_NOTYPE \<and>
     sym_GetBinding sm \<in> set (STB_GLOBAL # (if include_weak then [STB_WEAK] else [])) \<and>
     st_shndx sm \<noteq> SHN_UNDEF"

definition ListGlobalSymbols :: "elf_parser \<Rightarrow> bool \<Rightarrow> string \<Rightarrow> string \<Rightarrow> lib_error + string list" where
  "ListGlobalSymbols p include_weak symtab_name strtab_name =
     bindR (GetSectionByName p symtab_name) (\<lambda>symtab.
     bindR (GetSectionByName p strtab_name) (\<lambda>strtab.
       case (symtab, strtab) of
         (Some symtab, Some strtab) \<Rightarrow>
           if sh_size symtab = 0 then Inl (ElfError ''Cannot find symbol table.'')
           else gen_for (GetSymbols p symtab) (\<lambda>sm sym_names.
                  if \<not> symbol_listed include_weak sm then Inr sym_names
                  else bindR (GetString p strtab (st_name sm)) (\<lambda>n. Inr (sym_names @ [n]))) []
       | _ \<Rightarrow> Inl (ElfError ''Cannot find symbol table.'')))"

definition ListGlobalDynamicSymbols :: "elf_parser \<Rightarrow> bool \<Rightarrow> lib_error + string list" where
  "ListGlobalDynamicSymbols p include_weak = ListGlobalSymbols p include_weak DYNSYM DYNSTR"

fun interpreter_loop :: "elf_parser \<Rightarrow> nat list \<Rightarrow> lib_error + string option" where
  "interpreter_loop p [] = Inr None"
| "interpreter_loop p (ph_index # idxs) =
     bindR (SeekReadStruct p (e_phoff (Ehdr p) + ph_index * e_phentsize (Ehdr p)) (Elf_Phdr (bitness p))) (\<lambda>s.
       let ph = phdr_of s in
       if p_type ph = PT_INTERP then bindR (SeekReadString p (p_offset ph)) (\<lambda>n. Inr (Some n))
       else interpreter_loop p idxs)"

definition GetProgramInterpreter :: "elf_parser \<Rightarrow> lib_error + string option" where
  "GetProgramInterpreter p = interpreter_loop p [0..<e_phnum (Ehdr p)]"

end
