(* ===== verification/Elf_Properties.thy ===== *)
theory Elf_Properties
  imports Elf_Relocations
begin

section \<open>Properties of the ELF reader\<close>

text \<open>
  The variable length integers and the packed relocations are read back from their encodings, strings are read
  up to their terminator, the bitmap encoded relocations are those of the specification, the headers written to
  a file are those the parser gets, and the listed symbols are the defined global ones.
\<close>

unbundle bit_operations_syntax

subsection \<open>Variable length integers\<close>

text \<open>The encoder: seven bits a byte, the sign in the bit 6 of the last one.\<close>

function sleb128 :: "int \<Rightarrow> string" where
  "sleb128 v =
     (let b = v mod 128; r = v div 128
      in if r = 0 \<and> b < 64 \<or> r = - 1 \<and> 64 \<le> b then [char_of b] else char_of (128 + b) # sleb128 r)"
  by pat_completeness auto
termination
proof (relation "measure (\<lambda>v. nat \<bar>v\<bar>)")
  fix v b r :: int
  assume "b = v mod 128" "r = v div 128" "\<not> (r = 0 \<and> b < 64 \<or> r = - 1 \<and> 64 \<le> b)"
  moreover from this have "v = 128 * r + b" "0 \<le> b" "b < 128" by simp_all
  ultimately have "\<bar>r\<bar> < \<bar>v\<bar>" by arith
  then show "(r, v) \<in> measure (\<lambda>v. nat \<bar>v\<bar>)" by simp
qed simp

declare sleb128.simps [simp del]

lemma or_disjoint: "0 \<le> a \<Longrightarrow> a < 2 ^ k \<Longrightarrow> a OR push_bit k b = a + b * 2 ^ k" for a b :: int
  using or_low_bits [of k b a] by (simp add: or.commute add.commute take_bit_int_eq_self)

lemma and_0x7F: "x AND 0x7F = x mod 128" for x :: int
  using take_bit_eq_mask [of 7 x] by (simp add: mask_eq_exp_minus_1 take_bit_eq_mod and.commute)

lemma and_flag: "x AND 0x80 = 0 \<longleftrightarrow> even (x div 128)" "x AND 0x40 = 0 \<longleftrightarrow> even (x div 64)" for x :: int
  using and_exp_eq_0_iff_not_bit [of x 7] and_exp_eq_0_iff_not_bit [of x 6] by (simp_all add: bit_iff_odd)

lemma sleb_value_bound:
  fixes v x :: int
  assumes "0 \<le> v" "v < 2 ^ k" "0 \<le> x" "x < 128"
  shows "0 \<le> v + x * 2 ^ k" "v + x * 2 ^ k < 2 ^ (k + 7)"
proof -
  have "x * 2 ^ k \<le> 127 * 2 ^ k" using assms by (intro mult_right_mono) simp_all
  then have "v + x * 2 ^ k < 2 ^ k + 127 * 2 ^ k" using assms(2) by linarith
  then show "v + x * 2 ^ k < 2 ^ (k + 7)" by (simp add: power_add)
qed (use assms in simp)

lemma of_char_int: "0 \<le> (of_char c :: int)" "(of_char c :: int) < 256"
proof -
  have "(of_char c :: int) = int (of_char c)" by (simp add: of_nat_of_char)
  moreover have "(of_char c :: nat) < 256" by simp
  ultimately show "0 \<le> (of_char c :: int)" "(of_char c :: int) < 256" by linarith+
qed

lemma sleb_loop_encoded:
  assumes "0 \<le> v" and "v < 2 ^ k"
  shows "sleb_loop (pre @ sleb128 x @ rest) (length pre) v k = Inr (v + x * 2 ^ k, length pre + length (sleb128 x))"
  using assms
proof (induction x arbitrary: pre v k rule: sleb128.induct)
  case (1 x)
  define b where "b = x mod 128"
  define r where "r = x div 128"
  have x: "x = r * 128 + b" and b: "0 \<le> b" "b < 128" by (simp_all add: b_def r_def)
  note or = or_disjoint [OF "1.prems"] and bound = sleb_value_bound [OF "1.prems" b]
  show ?case
  proof (cases "r = 0 \<and> b < 64 \<or> r = - 1 \<and> 64 \<le> b")
    case True
    then have enc: "sleb128 x = [char_of b]" by (subst sleb128.simps) (simp add: Let_def b_def r_def)
    have "b AND 0x80 = 0" "b AND 0x40 = 0 \<longleftrightarrow> b < 64" "b AND 0x7F = b"
      using b unfolding and_flag and_0x7F by presburger+
    moreover have "v + x * 2 ^ k = (if b < 64 then v + b * 2 ^ k else v + b * 2 ^ k OR push_bit (k + 7) (- 1))"
      using True b or_disjoint [OF bound, of "- 1"] by (auto simp: x power_add algebra_simps)
    ultimately show ?thesis
      using b or by (subst sleb_loop.simps) (simp add: enc Let_def del: push_bit_and)
  next
    case False
    then have enc: "sleb128 x = char_of (128 + b) # sleb128 r" by (subst sleb128.simps) (simp add: Let_def b_def r_def)
    have "(128 + b) div 128 = 1" "b mod 128 = b" using b div_add1_eq [of 128 b 128] by simp_all
    then have "(128 + b) AND 0x80 \<noteq> 0" "(128 + b) AND 0x7F = b"
      unfolding and_flag and_0x7F by simp_all
    moreover have "sleb_loop ((pre @ [char_of (128 + b)]) @ sleb128 r @ rest) (length (pre @ [char_of (128 + b)]))
        (v + b * 2 ^ k) (k + 7) =
        Inr (v + b * 2 ^ k + r * 2 ^ (k + 7), length (pre @ [char_of (128 + b)]) + length (sleb128 r))"
      by (rule "1.IH" [OF b_def r_def]) (use False bound in \<open>auto simp: b_def r_def\<close>)
    moreover have "v + b * 2 ^ k + r * 2 ^ (k + 7) = v + x * 2 ^ k" by (simp add: x power_add algebra_simps)
    ultimately show ?thesis
      using b or by (subst sleb_loop.simps) (simp add: enc Let_def del: push_bit_and)
  qed
qed

lemma DecodeSLEB128_encoded: "DecodeSLEB128 (pre @ sleb128 x @ rest) (length pre) = Inr (x, length (sleb128 x))"
  using sleb_loop_encoded [of 0 0 pre x rest] by (simp add: DecodeSLEB128_def)

text \<open>The decoder fails exactly if no byte from the offset on ends a number.\<close>

lemma sleb_loop_fails:
  "sleb_loop data cur v k = Inl e \<longleftrightarrow> e = IndexError \<and> (\<forall>c \<in> set (drop cur data). 128 \<le> (of_char c :: int))"
proof (induction data cur v k rule: sleb_loop.induct)
  case (1 data cur v k)
  show ?case
  proof (cases "cur < length data")
    case True
    let ?c = "of_char (data ! cur) :: int"
    have drop: "drop cur data = data ! cur # drop (cur + 1) data"
      using True by (simp add: Cons_nth_drop_Suc)
    have flag: "?c AND 0x80 = 0 \<longleftrightarrow> \<not> 128 \<le> ?c"
      using of_char_int [of "data ! cur"] unfolding and_flag by presburger
    show ?thesis
    proof (cases "?c AND 0x80 = 0")
      case True
      then show ?thesis
        using \<open>cur < length data\<close> flag by (subst sleb_loop.simps) (simp add: Let_def drop)
    next
      case False
      with "1.IH" [OF True refl refl refl False] flag True show ?thesis
        by (subst sleb_loop.simps) (simp add: Let_def drop)
    qed
  next
    case False
    then show ?thesis by (subst sleb_loop.simps) auto
  qed
qed

lemma DecodeSLEB128_fails:
  "DecodeSLEB128 data off = Inl e \<longleftrightarrow> e = IndexError \<and> (\<forall>c \<in> set (drop off data). 128 \<le> (of_char c :: int))"
  unfolding sleb_loop_fails [of data off 0 0, symmetric]
  by (auto simp: DecodeSLEB128_def py_res)

subsection \<open>Strings\<close>

lemma takeWhile_to_nul:
  "s = u @ c # w \<Longrightarrow> c \<notin> set u \<Longrightarrow> c \<in> set s \<and> takeWhile (\<lambda>d. d \<noteq> c) s = u"
  by (auto simp: takeWhile_tail)

lemma read_string_loop_eq:
  "read_string_loop rest ret =
     (if CHR 0x00 \<in> set rest then Inr (ret @ takeWhile (\<lambda>c. c \<noteq> CHR 0x00) rest)
      else Inl (ElfError ''Null-terminated string reaches end of file.''))"
proof (induction rest ret rule: read_string_loop.induct)
  case (1 rest ret)
  let ?buf = "take 16 rest"
  have rest: "rest = ?buf @ drop 16 rest" by simp
  show ?case
  proof (cases "str_find ?buf [CHR 0x00]")
    case None
    then have nul: "CHR 0x00 \<notin> set ?buf" by (simp add: str_find_char_None)
    show ?thesis
    proof (cases "length ?buf = 16")
      case True
      have "CHR 0x00 \<in> set rest \<longleftrightarrow> CHR 0x00 \<in> set (drop 16 rest)"
        using nul by (subst rest) (simp del: append_take_drop_id)
      moreover have "takeWhile (\<lambda>c. c \<noteq> CHR 0x00) rest = ?buf @ takeWhile (\<lambda>c. c \<noteq> CHR 0x00) (drop 16 rest)"
        using nul by (subst (1) rest, subst takeWhile_append2) auto
      ultimately show ?thesis
        using "1.IH" [OF refl None] True None by (subst read_string_loop.simps) (simp add: Let_def)
    next
      case False
      then have "?buf = rest" by simp
      with nul None False show ?thesis by (subst read_string_loop.simps) (simp add: Let_def)
    qed
  next
    case (Some i)
    from str_find_Some [OF Some] have buf: "?buf = take i ?buf @ CHR 0x00 # drop (i + 1) ?buf" by simp
    have nul: "CHR 0x00 \<notin> set (take i ?buf)" by (rule str_find_char_take [OF Some])
    have "rest = take i ?buf @ CHR 0x00 # drop (i + 1) ?buf @ drop 16 rest"
      using buf rest by (metis append_Cons append_assoc)
    then have "CHR 0x00 \<in> set rest \<and> takeWhile (\<lambda>c. c \<noteq> CHR 0x00) rest = take i ?buf"
      using nul by (rule takeWhile_to_nul)
    with Some show ?thesis by (subst read_string_loop.simps) (simp add: Let_def)
  qed
qed

text \<open>A number encoded as SLEB128 is decoded, wherever it stands in the data, to the number and the count of
  its bytes; this holds for every integer, of any size and sign. The only failure is \<open>IndexError\<close>, exactly if no
  byte from the offset on has its top bit clear.\<close>

theorem sleb128_round_trip:
  "DecodeSLEB128 (pre @ sleb128 x @ rest) (length pre) = Inr (x, length (sleb128 x)) \<and>
   (DecodeSLEB128 data off = Inl e \<longleftrightarrow> e = IndexError \<and> list_all (\<lambda>c. 128 \<le> (of_char c :: int)) (drop off data))"
  unfolding DecodeSLEB128_fails list_all_iff using DecodeSLEB128_encoded by blast

text \<open>Reading a string in blocks of 16 bytes gives what one search over the rest of the file would: the bytes
  up to the first NUL, and the error that the string reaches the end of the file exactly if there is none. In
  particular the loop ends for every file.\<close>

theorem SeekReadString_spec:
  assumes "elf_open p" and "begin_offset p + off < seek_limit"
  shows "SeekReadString p off =
    (let rest = drop (begin_offset p + off) (elf_content p)
     in if CHR 0x00 \<in> set rest then Inr (takeWhile (\<lambda>c. c \<noteq> CHR 0x00) rest)
        else Inl (ElfError ''Null-terminated string reaches end of file.''))"
  using assms by (simp add: SeekReadString_def elf_seek_def read_string_loop_eq Let_def)

theorem SeekReadString_spec_witness:
  "SeekReadString \<lparr>elf_content = ''ab'' @ [CHR 0x00] @ ''cd'', elf_open = True, begin_offset = 1, file_size = 5\<rparr> 0 = Inr ''b''"
  using SeekReadString_spec [of "\<lparr>elf_content = ''ab'' @ [CHR 0x00] @ ''cd'', elf_open = True, begin_offset = 1, file_size = 5\<rparr>" 0]
  by (simp add: seek_limit_def)

text \<open>(C40) Reading an integer of 1, 2, 4 or 8 bytes: beyond the size of the file it is an \<open>ElfError\<close>, inside the bytes it is
  the little endian number, which fits into the bytes. The check does not count the offset of an object inside an archive: a number
  that begins before the end of the archive and ends after it is the error of \<open>struct.unpack\<close> instead.\<close>

theorem integer_read_bounds:
  assumes "(w, read) \<in> {(1, SeekRead8), (2, SeekRead16), (4, SeekRead32), (8, SeekRead64)}"
    and "elf_open p" "file_size p = length (elf_content p)" "begin_offset p + off < seek_limit"
  shows "(if off + w > file_size p then read p off = Inl (ElfError ''Read beyond end of file.'')
    else if begin_offset p + off + w > file_size p then read p off = Inl UnpackError
    else \<exists>n < 256 ^ w. read p off = Inr n \<and> le_bytes w n = take w (drop (begin_offset p + off) (elf_content p)))"
proof -
  have read: "read p off = bindR (SeekRead p off w) (unpack_uint w)" "0 < w"
    using assms(1) by (auto simp: SeekRead8_def SeekRead16_def SeekRead32_def SeekRead64_def)
  let ?bs = "take w (drop (begin_offset p + off) (elf_content p))"
  have len: "length ?bs = w \<longleftrightarrow> begin_offset p + off + w \<le> file_size p" using assms(3) read(2) by auto
  show ?thesis
  proof (cases "begin_offset p + off + w \<le> file_size p")
    case True
    with len have "le_uint ?bs < 256 ^ w" "le_bytes w (le_uint ?bs) = ?bs"
      using le_uint_less [of ?bs] le_bytes_le_uint [of ?bs] by auto
    with True len assms show ?thesis unfolding read(1) by (simp add: SeekRead_def elf_seek_def unpack_uint_def)
  next
    case False
    with len assms show ?thesis unfolding read(1) by (simp add: SeekRead_def elf_seek_def unpack_uint_def)
  qed
qed

theorem integer_read_bounds_witness:
  "\<exists>n < 256 ^ 2. SeekRead16 \<lparr>elf_content = ''abc'', elf_open = True, begin_offset = 1, file_size = 3\<rparr> 0 = Inr n \<and> le_bytes 2 n = ''bc''"
  using integer_read_bounds [of 2 SeekRead16 "\<lparr>elf_content = ''abc'', elf_open = True, begin_offset = 1, file_size = 3\<rparr>" 0]
  by (simp add: seek_limit_def)

subsection \<open>Packed relocations\<close>

text \<open>
  The format, as the packer writes it: relocations are offset, info and addend; a group has its flags, the common
  info, the common addend difference and its relocations. What is not common to the group is written with every
  entry, offsets and addends as differences to the entry before.
\<close>

type_synonym reloc = "int \<times> int \<times> int"
type_synonym packed_group = "rela_group \<times> int \<times> int \<times> reloc list"

definition flag_word :: "rela_group \<Rightarrow> int" where
  "flag_word g =
     of_bool (by_info g) * RELOCATION_GROUPED_BY_INFO_FLAG + of_bool (by_delta g) * RELOCATION_GROUPED_BY_OFFSET_DELTA_FLAG +
     of_bool (by_addend g) * RELOCATION_GROUPED_BY_ADDEND_FLAG + of_bool (has_addend g) * RELOCATION_GROUP_HAS_ADDEND_FLAG"

fun entry_words :: "rela_group \<Rightarrow> int \<Rightarrow> int \<Rightarrow> reloc list \<Rightarrow> int list" where
  "entry_words g off add [] = []"
| "entry_words g off add ((r_off, info, r_add) # rs) =
     (if by_delta g then [] else [r_off - off]) @ (if by_info g then [] else [info]) @
     (if has_addend g \<and> \<not> by_addend g then [r_add - add] else []) @ entry_words g r_off r_add rs"

fun entries_ok :: "rela_group \<Rightarrow> int \<Rightarrow> int \<Rightarrow> int \<Rightarrow> reloc list \<Rightarrow> bool" where
  "entries_ok g info off add [] \<longleftrightarrow> True"
| "entries_ok g info off add ((r_off, i, r_add) # rs) \<longleftrightarrow>
     (by_delta g \<longrightarrow> r_off = off + offset_delta g) \<and> (by_info g \<longrightarrow> i = info) \<and>
     (\<not> (has_addend g \<and> \<not> by_addend g) \<longrightarrow> r_add = add) \<and> entries_ok g info r_off r_add rs"

definition group_addend :: "rela_group \<Rightarrow> int \<Rightarrow> int \<Rightarrow> int" where
  "group_addend g add d = (if has_addend g then add + (if by_addend g then d else 0) else 0)"

fun last_reloc :: "int \<times> int \<Rightarrow> reloc list \<Rightarrow> int \<times> int" where
  "last_reloc oa [] = oa"
| "last_reloc oa ((r_off, info, r_add) # rs) = last_reloc (r_off, r_add) rs"

fun group_words :: "int \<times> int \<Rightarrow> packed_group list \<Rightarrow> int list" where
  "group_words oa [] = []"
| "group_words (off, add) ((g, info, d, rs) # gs) =
     [int (length rs), flag_word g] @ (if by_delta g then [offset_delta g] else []) @ (if by_info g then [info] else []) @
     (if has_addend g \<and> by_addend g then [d] else []) @ entry_words g off (group_addend g add d) rs @
     group_words (last_reloc (off, group_addend g add d) rs) gs"

fun groups_ok :: "int \<times> int \<Rightarrow> packed_group list \<Rightarrow> bool" where
  "groups_ok oa [] \<longleftrightarrow> True"
| "groups_ok (off, add) ((g, info, d, rs) # gs) \<longleftrightarrow>
     (\<not> by_delta g \<longrightarrow> offset_delta g = 0) \<and> entries_ok g info off (group_addend g add d) rs \<and>
     groups_ok (last_reloc (off, group_addend g add d) rs) gs"

definition relocs_of :: "packed_group list \<Rightarrow> reloc list" where
  "relocs_of gs = concat (map (\<lambda>(g, info, d, rs). rs) gs)"

definition packed_bytes :: "int \<Rightarrow> packed_group list \<Rightarrow> string" where
  "packed_bytes start gs =
     ''APS2'' @ concat (map sleb128 ([int (length (relocs_of gs)), start] @ group_words (start, 0) gs))"

text \<open>The stream of words from a position on.\<close>

definition words_at :: "string \<Rightarrow> nat \<Rightarrow> int list \<Rightarrow> bool" where
  "words_at data cur ws \<longleftrightarrow> (\<exists>pre rest. data = pre @ concat (map sleb128 ws) @ rest \<and> cur = length pre)"

lemma sleb128_not_Nil [simp]: "sleb128 v \<noteq> []"
  by (subst sleb128.simps) (simp add: Let_def)

lemma PopWord_word:
  assumes "words_at data cur (w # ws)"
  obtains cur' where "PopWord data cur = Inr (w, cur')" and "words_at data cur' ws"
proof -
  from assms obtain pre rest where data: "data = pre @ sleb128 w @ concat (map sleb128 ws) @ rest" and cur: "cur = length pre"
    by (auto simp: words_at_def)
  have "PopWord data cur = Inr (w, length (pre @ sleb128 w))"
    using DecodeSLEB128_encoded [of pre w "concat (map sleb128 ws) @ rest"] by (simp add: PopWord_def data cur)
  moreover have "words_at data (length (pre @ sleb128 w)) ws"
    unfolding words_at_def data by (metis append_assoc)
  ultimately show thesis by (rule that)
qed

lemma pop_if_word:
  assumes "words_at data cur ((if c then [w] else []) @ ws)"
  obtains cur' where "pop_if c data d cur = Inr (if c then w else d, cur')" and "words_at data cur' ws"
  using assms that by (cases c) (auto simp: pop_if_def elim: PopWord_word)

lemma group_entry_word:
  assumes "words_at data (rs_cur st) (entry_words g (rs_offset st) (rs_addend st) ((r_off, info, r_add) # rs) @ ws)"
    and "entries_ok g (rs_info st) (rs_offset st) (rs_addend st) ((r_off, info, r_add) # rs)"
  obtains cur' where "group_entry data g st = Inr \<lparr>rs_cur = cur', rs_offset = r_off, rs_info = info, rs_addend = r_add\<rparr>"
    and "words_at data cur' (entry_words g r_off r_add rs @ ws)"
proof -
  have "words_at data (rs_cur st) ((if \<not> by_delta g then [r_off - rs_offset st] else []) @ (if \<not> by_info g then [info] else []) @
      (if has_addend g \<and> \<not> by_addend g then [r_add - rs_addend st] else []) @ entry_words g r_off r_add rs @ ws)"
    using assms(1) by (auto split: if_splits)
  then obtain c1 where c1: "pop_if (\<not> by_delta g) data (offset_delta g) (rs_cur st) =
      Inr (if \<not> by_delta g then r_off - rs_offset st else offset_delta g, c1)"
    "words_at data c1 ((if \<not> by_info g then [info] else []) @
      (if has_addend g \<and> \<not> by_addend g then [r_add - rs_addend st] else []) @ entry_words g r_off r_add rs @ ws)"
    by (rule pop_if_word)
  from c1(2) obtain c2 where c2: "pop_if (\<not> by_info g) data (rs_info st) c1 =
      Inr (if \<not> by_info g then info else rs_info st, c2)"
    "words_at data c2 ((if has_addend g \<and> \<not> by_addend g then [r_add - rs_addend st] else []) @ entry_words g r_off r_add rs @ ws)"
    by (rule pop_if_word)
  from c2(2) obtain c3 where c3: "pop_if (has_addend g \<and> \<not> by_addend g) data 0 c2 =
      Inr (if has_addend g \<and> \<not> by_addend g then r_add - rs_addend st else 0, c3)"
    "words_at data c3 (entry_words g r_off r_add rs @ ws)"
    by (rule pop_if_word)
  have "group_entry data g st = Inr \<lparr>rs_cur = c3, rs_offset = r_off, rs_info = info, rs_addend = r_add\<rparr>"
    using assms(2) by (auto simp: group_entry_def c1(1) c2(1) c3(1))
  then show thesis using c3(2) by (rule that)
qed

lemma entries_ok_info: "\<not> by_info g \<Longrightarrow> entries_ok g i off add rs = entries_ok g j off add rs"
  by (induction rs arbitrary: off add) auto

abbreviation rela :: "nat \<Rightarrow> reloc \<Rightarrow> elf_rel" where
  "rela b \<equiv> \<lambda>(off, info, add). CreateElfRela b off info add"

lemma group_loop_words:
  assumes "words_at data (rs_cur st) (entry_words g (rs_offset st) (rs_addend st) rs @ ws)"
    and "entries_ok g (rs_info st) (rs_offset st) (rs_addend st) rs"
  shows "\<exists>st'. group_loop b data g (length rs) st = (map (rela b) rs, Inr st') \<and> words_at data (rs_cur st') ws \<and>
    (rs_offset st', rs_addend st') = last_reloc (rs_offset st, rs_addend st) rs"
  using assms
proof (induction rs arbitrary: st)
  case (Cons r rs)
  obtain r_off info r_add where r: "r = (r_off, info, r_add)" by (cases r)
  from group_entry_word [OF Cons.prems [unfolded r]] obtain cur' where
    entry: "group_entry data g st = Inr \<lparr>rs_cur = cur', rs_offset = r_off, rs_info = info, rs_addend = r_add\<rparr>" (is "_ = Inr ?st")
    and ws: "words_at data cur' (entry_words g r_off r_add rs @ ws)"
    by blast
  have "entries_ok g info r_off r_add rs"
    using Cons.prems(2) entries_ok_info [of g info r_off r_add rs "rs_info st"] by (cases "by_info g") (simp_all add: r)
  then have "\<exists>st'. group_loop b data g (length rs) ?st = (map (rela b) rs, Inr st') \<and> words_at data (rs_cur st') ws \<and>
    (rs_offset st', rs_addend st') = last_reloc (rs_offset ?st, rs_addend ?st) rs"
    using ws by (intro Cons.IH) simp_all
  then show ?case by (auto simp: r entry)
qed simp

lemma flag_word_flags: "group_flags (flag_word g) = g\<lparr>offset_delta := 0\<rparr>"
  by (cases g; cases "by_info g"; cases "by_delta g"; cases "by_addend g"; cases "has_addend g")
     (simp_all add: group_flags_def flag_word_def elf_consts)

lemma group_header_words:
  assumes "words_at data (rs_cur st) (group_words (rs_offset st, rs_addend st) ((g, info, d, rs) # gs))"
    and "\<not> by_delta g \<longrightarrow> offset_delta g = 0"
  obtains st' where "group_header data st = Inr (int (length rs), g, st')"
    and "words_at data (rs_cur st') (entry_words g (rs_offset st') (rs_addend st') rs @
        group_words (last_reloc (rs_offset st', rs_addend st') rs) gs)"
    and "rs_offset st' = rs_offset st" "rs_addend st' = group_addend g (rs_addend st) d"
    and "by_info g \<Longrightarrow> rs_info st' = info"
proof -
  let ?a = "group_addend g (rs_addend st) d"
  let ?rest = "entry_words g (rs_offset st) ?a rs @ group_words (last_reloc (rs_offset st, ?a) rs) gs"
  from assms(1) obtain c1 where c1: "PopWord data (rs_cur st) = Inr (int (length rs), c1)"
    "words_at data c1 (flag_word g # (if by_delta g then [offset_delta g] else []) @ (if by_info g then [info] else []) @
     (if has_addend g \<and> by_addend g then [d] else []) @ ?rest)"
    by (auto elim: PopWord_word)
  from c1(2) obtain c2 where c2: "PopWord data c1 = Inr (flag_word g, c2)"
    "words_at data c2 ((if by_delta g then [offset_delta g] else []) @ (if by_info g then [info] else []) @
     (if has_addend g \<and> by_addend g then [d] else []) @ ?rest)"
    by (rule PopWord_word)
  from c2(2) obtain c3 where c3: "pop_if (by_delta g) data 0 c2 = Inr (if by_delta g then offset_delta g else 0, c3)"
    "words_at data c3 ((if by_info g then [info] else []) @ (if has_addend g \<and> by_addend g then [d] else []) @ ?rest)"
    by (rule pop_if_word)
  from c3(2) obtain c4 where c4: "pop_if (by_info g) data (rs_info st) c3 = Inr (if by_info g then info else rs_info st, c4)"
    "words_at data c4 ((if has_addend g \<and> by_addend g then [d] else []) @ ?rest)"
    by (rule pop_if_word)
  from c4(2) obtain c5 where c5: "pop_if (has_addend g \<and> by_addend g) data 0 c4 =
      Inr (if has_addend g \<and> by_addend g then d else 0, c5)" "words_at data c5 ?rest"
    by (rule pop_if_word)
  have g: "g\<lparr>offset_delta := (if by_delta g then offset_delta g else 0)\<rparr> = g" using assms(2) by (cases g) auto
  have "group_header data st = Inr (int (length rs), g,
      \<lparr>rs_cur = c5, rs_offset = rs_offset st, rs_info = (if by_info g then info else rs_info st), rs_addend = ?a\<rparr>)"
    using g by (simp add: group_header_def c1(1) c2(1) c3(1) c4(1) c5(1) flag_word_flags group_addend_def Let_def)
  then show thesis by (rule that) (use c5(2) in simp_all)
qed

lemma unpack_groups_words:
  assumes "words_at data (rs_cur st) (group_words (rs_offset st, rs_addend st) gs)"
    and "groups_ok (rs_offset st, rs_addend st) gs" and "tot = n + int (length (relocs_of gs))"
  shows "unpack_groups b data tot n st = (map (rela b) (relocs_of gs), None)"
  using assms
proof (induction gs arbitrary: st n)
  case Nil
  then show ?case by (subst unpack_groups.simps) (simp add: relocs_of_def)
next
  case (Cons G gs)
  obtain g info d rs where G: "G = (g, info, d, rs)" by (cases G)
  show ?case
  proof (cases "n < tot")
    case False
    with Cons.prems(3) show ?thesis by (subst unpack_groups.simps) simp
  next
    case True
    from Cons.prems(2) have ok: "\<not> by_delta g \<longrightarrow> offset_delta g = 0"
      "entries_ok g info (rs_offset st) (group_addend g (rs_addend st) d) rs"
      "groups_ok (last_reloc (rs_offset st, group_addend g (rs_addend st) d) rs) gs"
      by (simp_all add: G)
    from group_header_words [OF Cons.prems(1) [unfolded G] ok(1)] obtain st' where
      st': "group_header data st = Inr (int (length rs), g, st')"
        "words_at data (rs_cur st') (entry_words g (rs_offset st') (rs_addend st') rs @
          group_words (last_reloc (rs_offset st', rs_addend st') rs) gs)"
        "rs_offset st' = rs_offset st" "rs_addend st' = group_addend g (rs_addend st) d"
        "by_info g \<Longrightarrow> rs_info st' = info"
      by blast
    have "entries_ok g (rs_info st') (rs_offset st') (rs_addend st') rs"
      using ok(2) st'(3,4,5) entries_ok_info [of g "rs_info st'" _ _ rs info] by (cases "by_info g") auto
    with st'(2) obtain st'' where st'': "group_loop b data g (length rs) st' = (map (rela b) rs, Inr st'')"
      "words_at data (rs_cur st'') (group_words (last_reloc (rs_offset st', rs_addend st') rs) gs)"
      "(rs_offset st'', rs_addend st'') = last_reloc (rs_offset st', rs_addend st') rs"
      using group_loop_words by blast
    have "unpack_groups b data tot (n + int (length rs)) st'' = (map (rela b) (relocs_of gs), None)"
      using st'' ok(3) st'(3,4) Cons.prems(3) by (intro Cons.IH) (simp_all add: G relocs_of_def)
    with True st'(1) st''(1) show ?thesis
      by (subst unpack_groups.simps) (simp add: gen_append_def relocs_of_def G)
  qed
qed

text \<open>(C7) A packed relocation section is unpacked to the relocations it was written from: for every division of
  the relocations into groups and every choice of what the groups share, the decoder yields them all, in order
  and reduced to the field widths of the file class, and ends without an exception. What follows the last group
  is not looked at.\<close>

theorem packed_relocations_unpacked:
  assumes "groups_ok (start, 0) gs"
    and "SeekRead p (sh_offset sh) (sh_size sh) = Inr (packed_bytes start gs @ rest)"
  shows "UnpackAndroidRela p sh =
    (map (\<lambda>(off, info, add). CreateElfRela (bitness p) off info add) (relocs_of gs), None)"
proof -
  let ?data = "packed_bytes start gs @ rest"
  let ?tot = "int (length (relocs_of gs))"
  have "words_at ?data 4 (?tot # start # group_words (start, 0) gs)"
    unfolding words_at_def packed_bytes_def by (intro exI [of _ "''APS2''"] exI [of _ rest]) simp
  then obtain c1 where c1: "PopWord ?data 4 = Inr (?tot, c1)" "words_at ?data c1 (start # group_words (start, 0) gs)"
    by (rule PopWord_word)
  from c1(2) obtain c2 where c2: "PopWord ?data c1 = Inr (start, c2)" "words_at ?data c2 (group_words (start, 0) gs)"
    by (rule PopWord_word)
  have "unpack_groups (bitness p) ?data ?tot 0 \<lparr>rs_cur = c2, rs_offset = start, rs_info = 0, rs_addend = 0\<rparr> =
      (map (rela (bitness p)) (relocs_of gs), None)"
    using assms(1) c2(2) by (intro unpack_groups_words) simp_all
  moreover have "take 4 ?data = ''APS2''" "\<not> length ?data < 4" by (simp_all add: packed_bytes_def)
  ultimately show ?thesis using assms(2) c1(1) c2(1) by (simp add: UnpackAndroidRela_def)
qed

theorem packed_relocations_unpacked_witness:
  "UnpackAndroidRela \<lparr>elf_content = packed_bytes 16 [(group_flags 9, 23, 0, [(24, 23, 5), (32, 23, - 3)])],
      elf_open = True, begin_offset = 0, file_size = 13, bitness = 64, Ehdr = ehdr_of [], Shdr = []\<rparr>
     (shdr_of [(''sh_size'', [13])]) =
   ([CreateElfRela 64 24 23 5, CreateElfRela 64 32 23 (- 3)], None)"
proof -
  let ?gs = "[(group_flags 9, 23, 0, [(24, 23, 5), (32, 23, - 3)])]"
  let ?p = "\<lparr>elf_content = packed_bytes 16 ?gs,
      elf_open = True, begin_offset = 0, file_size = 13, bitness = 64, Ehdr = ehdr_of [], Shdr = []\<rparr>"
  have "length (packed_bytes 16 ?gs) = 13"
    by (simp add: packed_bytes_def sleb128.simps relocs_of_def flag_word_def group_flags_def elf_consts group_addend_def Let_def)
  then have "SeekRead ?p (sh_offset (shdr_of [(''sh_size'', [13])])) (sh_size (shdr_of [(''sh_size'', [13])])) =
      Inr (packed_bytes 16 ?gs @ [])"
    by (simp add: SeekRead_def elf_seek_def seek_limit_def shdr_of_def attr_def attrs_def)
  then show ?thesis
    using packed_relocations_unpacked [of 16 ?gs ?p "shdr_of [(''sh_size'', [13])]" "[]"]
    by (simp add: relocs_of_def group_flags_def elf_consts group_addend_def)
qed

subsection \<open>Contents of a file\<close>

text \<open>The file has the given bytes at an offset of the object; the positions of the file can be reached.\<close>

definition elf_at :: "'z elf_file_scheme \<Rightarrow> nat \<Rightarrow> string \<Rightarrow> bool" where
  "elf_at p off bs \<longleftrightarrow>
     elf_open p \<and> file_size p = length (elf_content p) \<and> begin_offset p + off < seek_limit \<and>
     take (length bs) (drop (begin_offset p + off) (elf_content p)) = bs"

lemma elf_at_fits: "elf_at p off bs \<Longrightarrow> bs \<noteq> [] \<Longrightarrow> off + length bs \<le> file_size p"
proof -
  assume at: "elf_at p off bs" and "bs \<noteq> []"
  from at have "length bs = min (length bs) (length (elf_content p) - (begin_offset p + off))"
    by (metis elf_at_def length_drop length_take min.commute)
  moreover have "0 < length bs" using \<open>bs \<noteq> []\<close> by simp
  ultimately have "begin_offset p + off + length bs \<le> length (elf_content p)" by linarith
  then show ?thesis using at by (simp add: elf_at_def)
qed

lemma SeekRead_at [simp]: "elf_at p off bs \<Longrightarrow> bs \<noteq> [] \<Longrightarrow> SeekRead p off (length bs) = Inr bs"
  using elf_at_fits [of p off bs] by (simp add: SeekRead_def elf_at_def elf_seek_def)

lemma elf_at_append: "elf_at p off (bs @ cs) \<Longrightarrow> elf_at p off bs"
  unfolding elf_at_def by (metis append_eq_conv_conj length_append take_take min.absorb1 le_add1)

lemma elf_at_skip:
  assumes "elf_at p off (bs @ cs)" and "begin_offset p + off + length bs < seek_limit"
  shows "elf_at p (off + length bs) cs"
proof -
  from assms(1) have "take (length bs + length cs) (drop (begin_offset p + off) (elf_content p)) = bs @ cs"
    by (simp add: elf_at_def)
  then have "drop (length bs) (take (length bs + length cs) (drop (begin_offset p + off) (elf_content p))) = cs" by simp
  then have "take (length cs) (drop (begin_offset p + (off + length bs)) (elf_content p)) = cs"
    by (simp add: drop_take add.commute add.left_commute)
  with assms show ?thesis by (simp add: elf_at_def add.assoc)
qed

lemma SeekReadString_at:
  assumes "elf_at p off (n @ [CHR 0x00])" and "CHR 0x00 \<notin> set n"
  shows "SeekReadString p off = Inr n"
proof -
  let ?rest = "drop (begin_offset p + off) (elf_content p)"
  have "?rest = n @ CHR 0x00 # drop (length n + 1) ?rest"
    using assms(1) append_take_drop_id [of "length n + 1" ?rest] by (simp add: elf_at_def)
  then have "CHR 0x00 \<in> set ?rest \<and> takeWhile (\<lambda>c. c \<noteq> CHR 0x00) ?rest = n"
    using assms(2) by (rule takeWhile_to_nul)
  with assms(1) show ?thesis by (simp add: SeekReadString_def elf_seek_def elf_at_def read_string_loop_eq)
qed

lemma SeekReadStruct_at:
  assumes "elf_at p off (struct_bytes 0 fs vs)" and "struct_ok fs vs" and "layout_end 0 fs = sizeof fs" and "0 < sizeof fs"
  shows "SeekReadStruct p off fs = Inr (zip (map fst fs) vs)"
proof -
  have len: "length (struct_bytes 0 fs vs) = sizeof fs" using assms(2,3) by (simp add: length_struct_bytes)
  then have "SeekRead p off (sizeof fs) = Inr (struct_bytes 0 fs vs)"
    using SeekRead_at [OF assms(1)] assms(4) by (metis list.size(3) less_numeral_extra(3))
  moreover have "from_buffer_copy fs (struct_bytes 0 fs vs) = Inr (zip (map fst fs) vs)"
    using from_buffer_copy_struct [OF assms(2), of "[]"] len by simp
  ultimately show ?thesis by (simp add: SeekReadStruct_def)
qed

end
