(* ===== verification/Elf_Images.thy ===== *)
theory Elf_Images
  imports Elf_Properties
begin

section \<open>ELF images and what the parser sees of them\<close>

text \<open>
  Headers, section headers and symbols written as the ELF structures are the ones that \<open>ElfParser\<close> gets; the
  symbols it lists are a function of an abstract view of the file (named sections, named symbols); a bitmap encoded
  relocation table gives the addresses its format stands for.
\<close>

unbundle bit_operations_syntax

subsection \<open>Writing headers and symbols\<close>

definition ehdr_values :: "elf_ehdr \<Rightarrow> int list list" where
  "ehdr_values h =
     [map int (e_ident h), [int (e_type h)], [int (e_machine h)], [int (e_version h)], [int (e_entry h)],
      [int (e_phoff h)], [int (e_shoff h)], [int (e_flags h)], [int (e_ehsize h)], [int (e_phentsize h)],
      [int (e_phnum h)], [int (e_shentsize h)], [int (e_shnum h)], [int (e_shstrndx h)]]"

definition shdr_values :: "elf_shdr \<Rightarrow> int list list" where
  "shdr_values sh =
     [[int (sh_name sh)], [int (sh_type sh)], [int (sh_flags sh)], [int (sh_addr sh)], [int (sh_offset sh)],
      [int (sh_size sh)], [int (sh_link sh)], [int (sh_info sh)], [int (sh_addralign sh)], [int (sh_entsize sh)]]"

definition sym_values :: "nat \<Rightarrow> elf_sym \<Rightarrow> int list list" where
  "sym_values b s =
     (if b = 32
      then [[int (st_name s)], [int (st_value s)], [int (st_size s)], [int (st_info s)], [int (st_other s)], [int (st_shndx s)]]
      else [[int (st_name s)], [int (st_info s)], [int (st_other s)], [int (st_shndx s)], [int (st_value s)], [int (st_size s)]])"

definition ehdr_bytes :: "nat \<Rightarrow> elf_ehdr \<Rightarrow> string" where
  "ehdr_bytes b h = struct_bytes 0 (Elf_Ehdr b) (ehdr_values h)"

definition shdr_bytes :: "nat \<Rightarrow> elf_shdr \<Rightarrow> string" where
  "shdr_bytes b sh = struct_bytes 0 (Elf_Shdr b) (shdr_values sh)"

definition sym_bytes :: "nat \<Rightarrow> elf_sym \<Rightarrow> string" where
  "sym_bytes b s = struct_bytes 0 (Elf_Sym b) (sym_values b s)"

lemmas ehdr_layouts = Elf_Ehdr_def Elf32_Ehdr_def Elf64_Ehdr_def elf_types EI_NIDENT_def
lemmas shdr_layouts = Elf_Shdr_def Elf32_Shdr_def Elf64_Shdr_def elf_types
lemmas sym_layouts = Elf_Sym_def Elf32_Sym_def Elf64_Sym_def elf_types

lemma ehdr_of_values: "ehdr_of (zip (map fst (Elf_Ehdr b)) (ehdr_values h)) = h"
  by (cases h) (simp add: ehdr_layouts ehdr_values_def ehdr_of_def attr_def attrs_def comp_def)

lemma shdr_of_values: "shdr_of (zip (map fst (Elf_Shdr b)) (shdr_values sh)) = sh"
  by (cases sh) (simp add: shdr_layouts shdr_values_def shdr_of_def attr_def attrs_def)

lemma sym_of_values: "sym_of (zip (map fst (Elf_Sym b)) (sym_values b s)) = s"
  by (cases s) (simp add: sym_layouts sym_values_def sym_of_def attr_def attrs_def)

lemma layout_ends:
  "layout_end 0 (Elf_Ehdr b) = sizeof (Elf_Ehdr b)" "layout_end 0 (Elf_Shdr b) = sizeof (Elf_Shdr b)"
  "layout_end 0 (Elf_Sym b) = sizeof (Elf_Sym b)"
  "0 < sizeof (Elf_Ehdr b)" "0 < sizeof (Elf_Shdr b)" "0 < sizeof (Elf_Sym b)"
  by (simp_all add: ehdr_layouts shdr_layouts sym_layouts sizeof_def align_up_def)

lemma read_ehdr_at:
  "elf_at f off (ehdr_bytes b h) \<Longrightarrow> struct_ok (Elf_Ehdr b) (ehdr_values h) \<Longrightarrow>
   bindR (SeekReadStruct f off (Elf_Ehdr b)) (\<lambda>s. Inr (ehdr_of s)) = Inr h"
  using SeekReadStruct_at [of f off "Elf_Ehdr b" "ehdr_values h"] by (simp add: ehdr_bytes_def layout_ends ehdr_of_values)

lemma read_shdr_at:
  "elf_at f (e_shoff h + i * e_shentsize h) (shdr_bytes b sh) \<Longrightarrow> struct_ok (Elf_Shdr b) (shdr_values sh) \<Longrightarrow>
   read_shdr b f h i = Inr sh"
  using SeekReadStruct_at [of f _ "Elf_Shdr b" "shdr_values sh"]
  by (simp add: shdr_bytes_def layout_ends shdr_of_values read_shdr_def)

lemma GetSymbol_at:
  "elf_at p (sh_offset st + i * sh_entsize st) (sym_bytes (bitness p) sm) \<Longrightarrow>
   struct_ok (Elf_Sym (bitness p)) (sym_values (bitness p) sm) \<Longrightarrow> GetSymbol p st i = Inr sm"
  using SeekReadStruct_at [of p _ "Elf_Sym (bitness p)" "sym_values (bitness p) sm"]
  by (simp add: sym_bytes_def layout_ends sym_of_values GetSymbol_def)

subsection \<open>The constructor\<close>

definition ident_ok :: "nat \<Rightarrow> nat list \<Rightarrow> bool" where
  "ident_ok b ident \<longleftrightarrow>
     length ident = EI_NIDENT \<and> take 4 ident = map of_char ELF_MAGIC_NUMBER \<and>
     ident ! EI_CLASS = (if b = 32 then ELFCLASS32 else ELFCLASS64) \<and> ident ! EI_DATA = ELFDATA2LSB"

lemma check_ident_ok:
  assumes "ident_ok b ident" and "b \<in> {32, 64}"
  shows "check_ident (map char_of ident) = Inr b"
proof -
  have len: "length ident = 16" using assms(1) by (simp add: ident_ok_def EI_NIDENT_def)
  have "take 4 (map char_of ident) = map char_of (map (of_char :: char \<Rightarrow> nat) ELF_MAGIC_NUMBER)"
    using assms(1) by (simp add: ident_ok_def take_map)
  then have magic: "take 4 (map char_of ident) = ELF_MAGIC_NUMBER" by (simp add: comp_def)
  have "py_index (map char_of ident) (int EI_CLASS) = Inr (char_of (ident ! EI_CLASS) :: char)"
    "py_index (map char_of ident) (int EI_DATA) = Inr (char_of (ident ! EI_DATA) :: char)"
    using len by (subst py_index_nat; simp add: EI_CLASS_def EI_DATA_def)+
  then show ?thesis
    using assms magic by (auto simp: check_ident_def ident_ok_def ELFCLASS32_def ELFCLASS64_def ELFDATA2LSB_def)
qed

lemma ident_bytes:
  assumes "length (e_ident h) = 16" and "\<forall>v \<in> set (e_ident h). v < 256"
  shows "\<exists>rest. ehdr_bytes b h = map char_of (e_ident h) @ rest"
proof -
  have "concat (map (\<lambda>v. le_bytes 1 (nat v)) (map int xs)) = map char_of xs" for xs
    by (induction xs) (simp_all add: le_bytes_def)
  then show ?thesis
    by (auto simp: ehdr_bytes_def ehdr_values_def ehdr_layouts align_up_def Let_def comp_def)
qed

lemma ElfParser_reads:
  assumes "files path = Some data" and "b \<in> {32, 64}" and "ident_ok b (e_ident h)"
    and "struct_ok (Elf_Ehdr b) (ehdr_values h)" and "length shs = e_shnum h"
    and "list_all (\<lambda>sh. struct_ok (Elf_Shdr b) (shdr_values sh)) shs"
    and f: "f = \<lparr>elf_content = data, elf_open = True, begin_offset = off, file_size = length data\<rparr>"
    and "elf_at f 0 (ehdr_bytes b h)"
    and "list_all (\<lambda>i. elf_at f (e_shoff h + i * e_shentsize h) (shdr_bytes b (shs ! i))) [0..<e_shnum h]"
  shows "ElfParser files path off =
    Inr \<lparr>elf_content = data, elf_open = True, begin_offset = off, file_size = length data, bitness = b, Ehdr = h, Shdr = shs\<rparr>"
proof -
  have "length (e_ident h) = 16" "\<forall>v \<in> set (e_ident h). v < 256"
    using assms(2,4) by (auto simp: struct_ok_def ehdr_values_def ehdr_layouts)
  then obtain rest where rest: "ehdr_bytes b h = map char_of (e_ident h) @ rest" and len: "length (e_ident h) = 16"
    using ident_bytes by blast
  with assms(8) have "elf_at f 0 (map char_of (e_ident h))" by (metis elf_at_append)
  then have "SeekRead f 0 EI_NIDENT = Inr (map char_of (e_ident h))"
    using SeekRead_at [of f 0 "map char_of (e_ident h)"] len by (cases "e_ident h") (auto simp: EI_NIDENT_def)
  moreover have "check_ident (map char_of (e_ident h)) = Inr b" using assms(2,3) by (intro check_ident_ok)
  moreover obtain s where "SeekReadStruct f 0 (Elf_Ehdr b) = Inr s" "ehdr_of s = h"
    using read_ehdr_at [OF assms(8,4)] by (auto simp: py_res)
  moreover have "mapR (read_shdr b f h) [0..<e_shnum h] = Inr (map (\<lambda>i. shs ! i) [0..<e_shnum h])"
    using assms(5,6,9) by (intro mapR_Inr_map read_shdr_at) (auto simp: list_all_iff)
  moreover have "map (\<lambda>i. shs ! i) [0..<e_shnum h] = shs" using assms(5) map_nth [of shs] by simp
  ultimately show ?thesis using assms(1) by (simp add: ElfParser_def f Let_def)
qed

subsection \<open>An abstract view\<close>

text \<open>
  What a reader wants to know of a file: its sections with their names and, for a symbol and a string table, the
  symbols with their names. \<open>represents\<close> says that the bytes of the file are this view.
\<close>

type_synonym section_view = "(string \<times> elf_shdr) list"
type_synonym symbol_view = "(elf_sym \<times> string) list"

definition named_at :: "elf_parser \<Rightarrow> nat \<Rightarrow> string \<Rightarrow> bool" where
  "named_at p off n \<longleftrightarrow> CHR 0x00 \<notin> set n \<and> elf_at p off (n @ [CHR 0x00])"

definition represents_sections :: "elf_parser \<Rightarrow> section_view \<Rightarrow> bool" where
  "represents_sections p secs \<longleftrightarrow>
     Shdr p = map snd secs \<and> e_shstrndx (Ehdr p) < length secs \<and>
     list_all (\<lambda>(n, sh). named_at p (sh_offset (snd (secs ! e_shstrndx (Ehdr p))) + sh_name sh) n) secs"

definition represents_symbols :: "elf_parser \<Rightarrow> elf_shdr \<Rightarrow> elf_shdr \<Rightarrow> symbol_view \<Rightarrow> bool" where
  "represents_symbols p symtab strtab syms \<longleftrightarrow>
     0 < sh_entsize symtab \<and> sh_size symtab div sh_entsize symtab = length syms \<and>
     list_all (\<lambda>i. elf_at p (sh_offset symtab + i * sh_entsize symtab) (sym_bytes (bitness p) (fst (syms ! i))) \<and>
       struct_ok (Elf_Sym (bitness p)) (sym_values (bitness p) (fst (syms ! i)))) [0..<length syms] \<and>
     list_all (\<lambda>(sm, n). named_at p (sh_offset strtab + st_name sm) n) syms"

text \<open>The specification: the names of the defined global symbols (and the weak ones, if asked for).\<close>

definition exported :: "bool \<Rightarrow> elf_sym \<Rightarrow> bool" where
  "exported include_weak sm \<longleftrightarrow>
     st_info sm mod 16 \<noteq> 0 \<and> (st_info sm div 16 = 1 \<or> include_weak \<and> st_info sm div 16 = 2) \<and> st_shndx sm \<noteq> 0"

lemma symbol_listed_exported: "symbol_listed include_weak sm = exported include_weak sm"
proof -
  have "st_info sm AND 0xF = st_info sm mod 16" using take_bit_eq_mask [of 4 "st_info sm"] by (simp add: take_bit_eq_mod mask_numeral mask_eq_exp_minus_1)
  moreover have "drop_bit 4 (st_info sm) = st_info sm div 16" by (simp add: drop_bit_eq_div)
  ultimately show ?thesis by (auto simp: symbol_listed_def exported_def sym_GetType_def sym_GetBinding_def elf_consts)
qed

definition view_symbols :: "section_view \<Rightarrow> symbol_view \<Rightarrow> bool \<Rightarrow> string \<Rightarrow> string \<Rightarrow> string list option" where
  "view_symbols secs syms include_weak symtab_name strtab_name =
     (case (map_of secs symtab_name, map_of secs strtab_name) of
        (Some symtab, Some strtab) \<Rightarrow>
          if sh_size symtab = 0 then None else Some (map snd (filter (\<lambda>(sm, n). exported include_weak sm) syms))
      | _ \<Rightarrow> None)"

lemma GetString_named: "named_at p (sh_offset strtab + off) n \<Longrightarrow> GetString p strtab off = Inr n"
  by (simp add: GetString_def named_at_def SeekReadString_at)

lemma GetSectionName_view:
  assumes "represents_sections p secs" and "(n, sh) \<in> set secs"
  shows "GetSectionName p sh = Inr n"
proof -
  have "py_index (Shdr p) (int (e_shstrndx (Ehdr p))) = Inr (snd (secs ! e_shstrndx (Ehdr p)))"
    using assms(1) by (simp add: represents_sections_def)
  moreover have "named_at p (sh_offset (snd (secs ! e_shstrndx (Ehdr p))) + sh_name sh) n"
    using assms by (auto simp: represents_sections_def list_all_iff)
  ultimately show ?thesis by (simp add: GetSectionName_def GetString_named)
qed

lemma gen_filter_names:
  assumes "\<And>n sh. (n, sh) \<in> set secs \<Longrightarrow> GetSectionName p sh = Inr n"
  shows "gen_filter (\<lambda>sh. bindR (GetSectionName p sh) (\<lambda>n. Inr (name = n))) (map snd secs) =
    (map snd (filter (\<lambda>(n, sh). name = n) secs), None)"
  using assms
proof (induction secs)
  case (Cons x secs)
  have x: "GetSectionName p (snd x) = Inr (fst x)" using Cons.prems [of "fst x" "snd x"] by simp
  have "gen_filter (\<lambda>sh. bindR (GetSectionName p sh) (\<lambda>n. Inr (name = n))) (map snd secs) =
      (map snd (filter (\<lambda>(n, sh). name = n) secs), None)"
    using Cons.prems by (intro Cons.IH) simp
  with x show ?case by (cases x) (simp add: gen_append_def)
qed simp

lemma map_of_filter_hd:
  "map_of secs name = (case map snd (filter (\<lambda>(n, sh). name = n) secs) of [] \<Rightarrow> None | sh # shs \<Rightarrow> Some sh)"
  by (induction secs) auto

lemma GetSectionByName_view:
  assumes "represents_sections p secs"
  shows "GetSectionByName p name = Inr (map_of secs name)"
proof -
  have "GetSectionsByName p name = (map snd (filter (\<lambda>(n, sh). name = n) secs), None)"
    using gen_filter_names [of secs p name] GetSectionName_view [OF assms] assms
    by (simp add: GetSectionsByName_def represents_sections_def)
  then show ?thesis by (simp add: GetSectionByName_def map_of_filter_hd split: list.split)
qed

lemma GetSymbols_view: "represents_symbols p symtab strtab syms \<Longrightarrow> GetSymbols p symtab = (map fst syms, None)"
proof -
  assume r: "represents_symbols p symtab strtab syms"
  have "gen_map (GetSymbol p symtab) [0..<length syms] = (map (\<lambda>i. fst (syms ! i)) [0..<length syms], None)"
    using r by (intro gen_map_Inr GetSymbol_at) (auto simp: represents_symbols_def list_all_iff)
  moreover have "map (\<lambda>i. fst (syms ! i)) [0..<length syms] = map fst syms"
    by (rule nth_equalityI) simp_all
  ultimately show ?thesis using r by (simp add: GetSymbols_def represents_symbols_def)
qed

lemma collect_names:
  assumes "\<And>sm n. (sm, n) \<in> set syms \<Longrightarrow> GetString p strtab (st_name sm) = Inr n"
  shows "foldR (\<lambda>sm names. if \<not> symbol_listed weak sm then Inr names
      else bindR (GetString p strtab (st_name sm)) (\<lambda>n. Inr (names @ [n]))) (map fst syms) acc =
    Inr (acc @ map snd (filter (\<lambda>(sm, n). symbol_listed weak sm) syms))"
  using assms
proof (induction syms arbitrary: acc)
  case (Cons x syms)
  have x: "GetString p strtab (st_name (fst x)) = Inr (snd x)" using Cons.prems [of "fst x" "snd x"] by simp
  note IH = Cons.IH [OF Cons.prems]
  show ?case using x IH [of acc] IH [of "acc @ [snd x]"] by (cases x) simp
qed simp

subsection \<open>Bitmap encoded relocations\<close>

text \<open>
  The meaning of a table of words: an even word is an address; an odd one has a bit for each of the places after
  the last address or bitmap.
\<close>

fun relr_addresses :: "nat \<Rightarrow> nat \<Rightarrow> nat list \<Rightarrow> nat list" where
  "relr_addresses w base [] = []"
| "relr_addresses w base (e # es) =
     (if even e then e # relr_addresses w (e + w) es
      else map (\<lambda>i. base + (i - 1) * w) (filter (bit e) [1..<8 * w]) @ relr_addresses w (base + (8 * w - 1) * w) es)"

lemma relr_bitmap_eq:
  "relr_bitmap p e [k..<n] off =
     (map (\<lambda>i. CreateElfRel (bitness p) (int (off + (i - k) * addr_size p)) 0) (filter (bit e) [k..<n]),
      off + (n - k) * addr_size p)"
proof (induction "n - k" arbitrary: k off)
  case (Suc m)
  then have k: "k < n" by simp
  have IH: "relr_bitmap p e [Suc k..<n] (off + addr_size p) =
     (map (\<lambda>i. CreateElfRel (bitness p) (int (off + addr_size p + (i - Suc k) * addr_size p)) 0) (filter (bit e) [Suc k..<n]),
      off + addr_size p + (n - Suc k) * addr_size p)"
    using Suc by (intro Suc.hyps) simp
  have eq: "off + addr_size p + (i - Suc k) * addr_size p = off + (i - k) * addr_size p" if "Suc k \<le> i" for i
    using that by (subst Suc_diff_Suc [of k i, symmetric]) simp_all
  have "map (\<lambda>i. CreateElfRel (bitness p) (int (off + addr_size p + (i - Suc k) * addr_size p)) 0) (filter (bit e) [Suc k..<n]) =
      map (\<lambda>i. CreateElfRel (bitness p) (int (off + (i - k) * addr_size p)) 0) (filter (bit e) [Suc k..<n])"
    by (rule map_cong [OF refl]) (simp only: eq set_filter set_upt mem_Collect_eq atLeastLessThan_iff)
  moreover have "off + addr_size p + (n - Suc k) * addr_size p = off + (n - k) * addr_size p"
    by (subst Suc_diff_Suc [OF k, symmetric]) simp
  moreover have "drop_bit k e AND 1 \<noteq> 0 \<longleftrightarrow> bit e k"
    by (simp add: and_one_eq bit_iff_odd_drop_bit odd_iff_mod_2_eq_one)
  ultimately show ?case
    by (subst (1 2) upt_conv_Cons [OF k]) (simp add: IH)
qed simp

lemma relr_loop_eq:
  assumes "map (seek_read_entry p) offs = map Inr es"
  shows "relr_loop p (addr_size p) offs off =
    (map (\<lambda>a. CreateElfRel (bitness p) (int a) 0) (relr_addresses (addr_size p) off es), None)"
  using assms
proof (induction es arbitrary: offs off)
  case (Cons e es)
  then obtain x xs where offs: "offs = x # xs" "seek_read_entry p x = Inr e" "map (seek_read_entry p) xs = map Inr es"
    by auto
  have "e AND 1 = 0 \<longleftrightarrow> even e" by (simp add: and_one_eq mod_2_eq_odd)
  then show ?case
    using Cons.IH [OF offs(3)] by (simp add: offs gen_append_def relr_bitmap_eq mult.commute [of 8] comp_def)
qed simp

lemma seek_read_entry_at:
  assumes "elf_at p off (le_bytes (addr_size p) e)" and "e < 256 ^ addr_size p"
  shows "seek_read_entry p off = Inr e"
proof -
  have "le_bytes (addr_size p) e \<noteq> []"
    by (metis addr_size_def length_le_bytes list.size(3) zero_neq_numeral)
  then have "SeekRead p off (addr_size p) = Inr (le_bytes (addr_size p) e)"
    using SeekRead_at [OF assms(1)] by simp
  with assms(2) show ?thesis
    by (auto simp: seek_read_entry_def addr_size_def SeekRead32_def SeekRead64_def unpack_uint_def split: if_splits)
qed

lemma table_offsets:
  "0 < w \<Longrightarrow> range_step a (a + w * n) w = map (\<lambda>i. a + i * w) [0..<n]"
proof -
  assume w: "0 < w"
  have "(w * n + w - 1) div w = n"
    using w by (intro div_nat_eqI) (simp_all add: algebra_simps)
  then show ?thesis by (simp add: range_step_def)
qed

lemma elf_at_entries:
  assumes "elf_at p off (concat (map (le_bytes w) es))" and "i < length es"
    and "begin_offset p + off + w * length es < seek_limit"
  shows "elf_at p (off + i * w) (le_bytes w (es ! i))"
proof -
  have "es = take i es @ es ! i # drop (Suc i) es" using assms(2) by (rule id_take_nth_drop)
  then have "concat (map (le_bytes w) es) =
      concat (map (le_bytes w) (take i es)) @ le_bytes w (es ! i) @ concat (map (le_bytes w) (drop (Suc i) es))"
    by (metis concat.simps(2) concat_append list.simps(9) map_append)
  moreover have "w * i \<le> w * length es" using assms(2) by simp
  then have "begin_offset p + off + i * w < seek_limit" using assms(3) mult.commute [of i w] by linarith
  ultimately have "elf_at p (off + i * w) (le_bytes w (es ! i) @ concat (map (le_bytes w) (drop (Suc i) es)))"
    using elf_at_skip [of p off "concat (map (le_bytes w) (take i es))"] assms by (simp add: mult.commute)
  then show ?thesis by (rule elf_at_append)
qed

subsection \<open>Properties\<close>

text \<open>An ELF file is read back: for both file classes, an image whose header and section headers are at the
  places the header says gives a parser object with exactly this header and these section headers, also when the
  image is inside an archive. The alignment of the structures, the widths and the byte order are those of the
  ELF specification.\<close>

theorem elf_headers_round_trip:
  assumes "files path = Some data" and "b \<in> {32, 64}" and "ident_ok b (e_ident h)"
    and "struct_ok (Elf_Ehdr b) (ehdr_values h)" and "length shs = e_shnum h"
    and "list_all (\<lambda>sh. struct_ok (Elf_Shdr b) (shdr_values sh)) shs"
    and "f = \<lparr>elf_content = data, elf_open = True, begin_offset = off, file_size = length data\<rparr>"
    and "elf_at f 0 (ehdr_bytes b h)"
    and "list_all (\<lambda>i. elf_at f (e_shoff h + i * e_shentsize h) (shdr_bytes b (shs ! i))) [0..<e_shnum h]"
  shows "ElfParser files path off =
    Inr \<lparr>elf_content = data, elf_open = True, begin_offset = off, file_size = length data, bitness = b, Ehdr = h, Shdr = shs\<rparr>"
  using assms by (rule ElfParser_reads)

text \<open>(C6) Listing symbols refines its specification: on a file whose bytes represent a view, named sections and named
  symbols, \<open>ListGlobalSymbols\<close> returns the names of the defined global symbols (and of the weak ones if asked) in
  the order of the table, and raises \<open>ElfError\<close> exactly if one of the tables is missing or the symbol table is
  empty.\<close>

theorem ListGlobalSymbols_refines:
  assumes "represents_sections p secs"
    and "\<And>symtab strtab. map_of secs symtab_name = Some symtab \<Longrightarrow> map_of secs strtab_name = Some strtab \<Longrightarrow>
      sh_size symtab \<noteq> 0 \<Longrightarrow> represents_symbols p symtab strtab syms"
  shows "ListGlobalSymbols p include_weak symtab_name strtab_name =
    (case view_symbols secs syms include_weak symtab_name strtab_name of
       None \<Rightarrow> Inl (ElfError ''Cannot find symbol table.'') | Some names \<Rightarrow> Inr names)"
proof (cases "map_of secs symtab_name = None \<or> map_of secs strtab_name = None \<or>
    (\<exists>symtab. map_of secs symtab_name = Some symtab \<and> sh_size symtab = 0)")
  case True
  then show ?thesis
    by (auto simp: ListGlobalSymbols_def view_symbols_def symbol_listed_exported GetSectionByName_view [OF assms(1)] split: option.split)
next
  case False
  then obtain symtab strtab where tabs: "map_of secs symtab_name = Some symtab" "map_of secs strtab_name = Some strtab"
    and ne: "sh_size symtab \<noteq> 0"
    by auto
  from assms(2) [OF this] have r: "represents_symbols p symtab strtab syms" .
  have "GetString p strtab (st_name sm) = Inr n" if "(sm, n) \<in> set syms" for sm n
    using that r by (intro GetString_named) (auto simp: represents_symbols_def list_all_iff)
  from collect_names [OF this] show ?thesis
    using tabs ne by (simp add: ListGlobalSymbols_def view_symbols_def symbol_listed_exported GetSectionByName_view [OF assms(1)] GetSymbols_view [OF r])
qed

text \<open>(C35) A bitmap encoded relocation table (\<open>SHT_RELR\<close>) is decoded to the addresses its words stand for: an even
  word is an address, an odd one marks the addresses that follow the last word; there is one relocation for each,
  in order, and no exception.\<close>

theorem relr_table_decoded:
  assumes "elf_at p (sh_offset sh) (concat (map (le_bytes (addr_size p)) es))"
    and "list_all (\<lambda>e. e < 256 ^ addr_size p) es"
    and "sh_entsize sh = addr_size p" and "sh_size sh = addr_size p * length es"
    and "begin_offset p + sh_offset sh + sh_size sh < seek_limit"
  shows "DecodeAndroidRelr p sh =
    (map (\<lambda>a. CreateElfRel (bitness p) (int a) 0) (relr_addresses (addr_size p) 0 es), None)"
proof -
  have w: "0 < addr_size p" by (simp add: addr_size_def)
  have "map (seek_read_entry p) (map (\<lambda>i. sh_offset sh + i * addr_size p) [0..<length es]) = map Inr es"
  proof (rule nth_equalityI)
    fix i assume "i < length (map (seek_read_entry p) (map (\<lambda>i. sh_offset sh + i * addr_size p) [0..<length es]))"
    then have i: "i < length es" by simp
    have "elf_at p (sh_offset sh + i * addr_size p) (le_bytes (addr_size p) (es ! i))"
      using assms(1,4,5) i by (intro elf_at_entries) simp_all
    then have "seek_read_entry p (sh_offset sh + i * addr_size p) = Inr (es ! i)"
      using assms(2) i by (intro seek_read_entry_at) (simp_all add: list_all_length)
    with i show "map (seek_read_entry p) (map (\<lambda>i. sh_offset sh + i * addr_size p) [0..<length es]) ! i = map Inr es ! i"
      by simp
  qed simp
  from relr_loop_eq [OF this] w show ?thesis
    using assms(3,4) table_offsets [OF w] by (simp add: DecodeAndroidRelr_def)
qed

text \<open>Small files for the witnesses: a 32 bit header with one section header, and tables of strings, symbols and words.\<close>

definition demo_ehdr :: elf_ehdr where
  "demo_ehdr = (ehdr_of [])\<lparr>e_ident := [0x7F, 69, 76, 70, 1, 1, 1, 0, 0, 0, 0, 0, 0, 0, 0, 0], e_type := 3,
     e_shoff := 52, e_shentsize := 40, e_shnum := 1\<rparr>"

definition demo_shdr :: elf_shdr where
  "demo_shdr = (shdr_of [])\<lparr>sh_name := 1, sh_type := 3, sh_offset := 92, sh_size := 2\<rparr>"

lemma length_header_bytes: "struct_ok (Elf_Ehdr b) (ehdr_values h) \<Longrightarrow> length (ehdr_bytes b h) = sizeof (Elf_Ehdr b)"
  "struct_ok (Elf_Shdr b) (shdr_values sh) \<Longrightarrow> length (shdr_bytes b sh) = sizeof (Elf_Shdr b)"
  "struct_ok (Elf_Sym b) (sym_values b sm) \<Longrightarrow> length (sym_bytes b sm) = sizeof (Elf_Sym b)"
  by (simp_all add: ehdr_bytes_def shdr_bytes_def sym_bytes_def length_struct_bytes layout_ends)

lemma demo_headers_ok: "struct_ok (Elf_Ehdr 32) (ehdr_values demo_ehdr)" "struct_ok (Elf_Shdr 32) (shdr_values demo_shdr)"
  by (simp_all add: struct_ok_def ehdr_layouts shdr_layouts ehdr_values_def shdr_values_def demo_ehdr_def demo_shdr_def
      ehdr_of_def shdr_of_def attr_def attrs_def)

theorem elf_headers_round_trip_witness:
  "ElfParser [''f'' \<mapsto> ehdr_bytes 32 demo_ehdr @ shdr_bytes 32 demo_shdr] ''f'' 0 =
   Inr \<lparr>elf_content = ehdr_bytes 32 demo_ehdr @ shdr_bytes 32 demo_shdr, elf_open = True, begin_offset = 0, file_size = 92,
     bitness = 32, Ehdr = demo_ehdr, Shdr = [demo_shdr]\<rparr>"
proof -
  let ?data = "ehdr_bytes 32 demo_ehdr @ shdr_bytes 32 demo_shdr"
  let ?f = "\<lparr>elf_content = ?data, elf_open = True, begin_offset = 0, file_size = length ?data\<rparr>"
  have len: "length (ehdr_bytes 32 demo_ehdr) = 52" "length (shdr_bytes 32 demo_shdr) = 40"
    using length_header_bytes demo_headers_ok by (simp_all add: Elf_Ehdr_def Elf_Shdr_def)
  have h: "e_shnum demo_ehdr = 1" "e_shoff demo_ehdr = 52" "e_shentsize demo_ehdr = 40" "ident_ok 32 (e_ident demo_ehdr)"
    by (simp_all add: demo_ehdr_def ident_ok_def elf_consts)
  show ?thesis
    using elf_headers_round_trip [of "[''f'' \<mapsto> ?data]" "''f''" ?data 32 demo_ehdr "[demo_shdr]" ?f 0] len h demo_headers_ok
    by (simp add: elf_at_def seek_limit_def)
qed

definition demo_sym1 :: elf_sym where "demo_sym1 = (sym_of [])\<lparr>st_info := 18, st_shndx := 1, st_name := 17\<rparr>"
definition demo_sym2 :: elf_sym where "demo_sym2 = (sym_of [])\<lparr>st_info := 18, st_name := 19\<rparr>"

definition demo_sections :: section_view where
  "demo_sections = [(''.symtab'', (shdr_of [])\<lparr>sh_offset := 22, sh_size := 32, sh_entsize := 16\<rparr>), (''.strtab'', (shdr_of [])\<lparr>sh_name := 8\<rparr>)]"

definition demo_symbol_file :: elf_parser where
  "demo_symbol_file =
     \<lparr>elf_content = ''.symtab'' @ [CHR 0x00] @ ''.strtab'' @ [CHR 0x00] @ [CHR 0x00] @ ''f'' @ [CHR 0x00] @ ''g'' @ [CHR 0x00, CHR 0x00] @
        sym_bytes 32 demo_sym1 @ sym_bytes 32 demo_sym2,
      elf_open = True, begin_offset = 0, file_size = 54, bitness = 32, Ehdr = (ehdr_of [])\<lparr>e_shstrndx := 1\<rparr>, Shdr = map snd demo_sections\<rparr>"

lemma demo_syms_ok: "struct_ok (Elf_Sym 32) (sym_values 32 demo_sym1)" "struct_ok (Elf_Sym 32) (sym_values 32 demo_sym2)"
  by (simp_all add: struct_ok_def sym_layouts sym_values_def demo_sym1_def demo_sym2_def sym_of_def attr_def attrs_def)

lemma demo_syms_length [simp]: "length (sym_bytes 32 demo_sym1) = 16" "length (sym_bytes 32 demo_sym2) = 16"
  using length_header_bytes(3) [OF demo_syms_ok(1)] length_header_bytes(3) [OF demo_syms_ok(2)] by (simp_all add: Elf_Sym_def)

lemma demo_sections_represented: "represents_sections demo_symbol_file demo_sections"
  by (simp add: represents_sections_def demo_symbol_file_def demo_sections_def named_at_def elf_at_def seek_limit_def
      shdr_of_def attr_def attrs_def)

lemma demo_symbols_represented:
  "represents_symbols demo_symbol_file (snd (demo_sections ! 0)) (snd (demo_sections ! 1)) [(demo_sym1, ''f''), (demo_sym2, ''g'')]"
proof -
  have "st_name demo_sym1 = 17" "st_name demo_sym2 = 19" by (simp_all add: demo_sym1_def demo_sym2_def)
  moreover have "elf_at demo_symbol_file 22 (sym_bytes 32 demo_sym1)" "elf_at demo_symbol_file 38 (sym_bytes 32 demo_sym2)"
    "named_at demo_symbol_file 17 ''f''" "named_at demo_symbol_file 19 ''g''"
    by (simp_all add: elf_at_def named_at_def demo_symbol_file_def seek_limit_def)
  moreover have "bitness demo_symbol_file = 32" by (simp add: demo_symbol_file_def)
  ultimately show ?thesis
    using demo_syms_ok
    by (simp add: represents_symbols_def demo_sections_def shdr_of_def attr_def attrs_def upt_rec)
qed

theorem ListGlobalSymbols_refines_witness: "ListGlobalSymbols demo_symbol_file False SYMTAB STRTAB = Inr [''f'']"
proof -
  have "ListGlobalSymbols demo_symbol_file False SYMTAB STRTAB =
    (case view_symbols demo_sections [(demo_sym1, ''f''), (demo_sym2, ''g'')] False SYMTAB STRTAB of
       None \<Rightarrow> Inl (ElfError ''Cannot find symbol table.'') | Some names \<Rightarrow> Inr names)"
    using demo_symbols_represented
    by (intro ListGlobalSymbols_refines demo_sections_represented) (auto simp: demo_sections_def SYMTAB_def STRTAB_def)
  also have "\<dots> = Inr [''f'']"
    by (simp add: view_symbols_def demo_sections_def demo_sym1_def demo_sym2_def exported_def elf_consts sym_GetType_def sym_GetBinding_def
        drop_bit_eq_div sym_of_def attr_def attrs_def)
  finally show ?thesis .
qed

theorem relr_table_decoded_witness:
  "DecodeAndroidRelr \<lparr>elf_content = concat (map (le_bytes 4) [16, 5]), elf_open = True, begin_offset = 0, file_size = 8,
      bitness = 32, Ehdr = ehdr_of [], Shdr = []\<rparr> ((shdr_of [])\<lparr>sh_entsize := 4, sh_size := 8\<rparr>) =
   ([CreateElfRel 32 16 0, CreateElfRel 32 24 0], None)"
proof -
  let ?p = "\<lparr>elf_content = concat (map (le_bytes 4) [16, 5]), elf_open = True, begin_offset = 0, file_size = 8,
      bitness = 32, Ehdr = ehdr_of [], Shdr = []\<rparr>"
  have "relr_addresses 4 0 [16, 5] = [16, 24]" by (simp add: upt_rec bit_iff_odd)
  then show ?thesis
    using relr_table_decoded [of ?p "(shdr_of [])\<lparr>sh_entsize := 4, sh_size := 8\<rparr>" "[16, 5]"]
    by (simp add: addr_size_def elf_at_def seek_limit_def shdr_of_def attr_def attrs_def del: relr_addresses.simps)
qed

end
