(* ===== verification/Vtable_Dumper.thy ===== *)
theory Vtable_Dumper
  imports Elf_Images "HOL-Library.Char_ord" "HOL-Library.List_Lexorder"
begin

section \<open>Virtual tables (utils/python/library/vtable/vtable\_dumper.py)\<close>

text \<open>
  \<open>VtableDumper\<close> finds the virtual tables of a library by their symbols and fills them from the relocations that
  lie inside them. A table that the code gets from the list and changes is its index here. Python's \<open>sort\<close> is
  stable, as is \<^const>\<open>sort_key\<close>; byte strings are ordered lexicographically.
\<close>

record vtable_entry =
  ve_offset :: nat
  ve_names :: "string list"
  ve_value :: int
  is_undefined :: bool

record vtable =
  vt_name :: string
  begin_addr :: nat
  end_addr :: nat
  entries :: "vtable_entry list"

definition Vtable :: "string \<Rightarrow> nat \<Rightarrow> nat \<Rightarrow> vtable" where
  "Vtable name b e = \<lparr>vt_name = name, begin_addr = b, end_addr = e, entries = []\<rparr>"

text \<open>\<open>{:#x}\<close>\<close>

definition hex_digit :: "nat \<Rightarrow> char" where
  "hex_digit d = (if d < 10 then char_of (48 + d) else char_of (87 + d))"

fun hex_digits :: "nat \<Rightarrow> string" where
  "hex_digits n = (if n < 16 then [hex_digit n] else hex_digits (n div 16) @ [hex_digit (n mod 16)])"

declare hex_digits.simps [simp del]

definition hex_str :: "int \<Rightarrow> string" where
  "hex_str i = (if i < 0 then ''-'' else []) @ ''0x'' @ hex_digits (nat \<bar>i\<bar>)"

text \<open>\<open>repr\<close> of a list of strings is the argument \<open>repr_fn\<close>.\<close>

definition vtable_str :: "(string list \<Rightarrow> string) \<Rightarrow> vtable \<Rightarrow> string" where
  "vtable_str repr_fn v =
     ''vtable '' @ vt_name v @ '' '' @ str_int (int (length (entries v))) @ '' entries begin_addr='' @
     hex_str (int (begin_addr v)) @ '' size='' @ hex_str (int (end_addr v) - int (begin_addr v)) @
     concat (map (\<lambda>e. CHR 0x0A # hex_str (int (ve_offset e)) @ '' '' @
       (if is_undefined e then ''True'' else ''False'') @ '' '' @ hex_str (ve_value e) @ '' '' @ repr_fn (ve_names e)) (entries v))"

subsection \<open>The tables and the names of addresses\<close>

definition SYMTAB_NAMES :: "string list" where
  "SYMTAB_NAMES = [''.symtab'', ''.dynsym'']"

definition VTABLE_PREFIX :: string where "VTABLE_PREFIX = ''_ZTV''"

definition Shdr_at :: "elf_parser \<Rightarrow> nat \<Rightarrow> lib_error + elf_shdr" where
  "Shdr_at p i = liftP (py_index (Shdr p) (int i))"

text \<open>Running a loop body for every symbol of the tables that exist, with the string table of each.\<close>

definition for_symbols ::
  "elf_parser \<Rightarrow> (elf_shdr \<Rightarrow> elf_sym \<Rightarrow> 'a \<Rightarrow> lib_error + 'a) \<Rightarrow> 'a \<Rightarrow> lib_error + 'a" where
  "for_symbols p body v =
     foldR (\<lambda>symtab_name v. bindR (GetSectionByName p symtab_name) (\<lambda>symtab.
       case symtab of
         None \<Rightarrow> Inr v
       | Some symtab \<Rightarrow>
           bindR (Shdr_at p (sh_link symtab)) (\<lambda>strtab. gen_for (GetSymbols p symtab) (body strtab) v))) SYMTAB_NAMES v"

definition prepare_symbol ::
  "elf_parser \<Rightarrow> elf_shdr \<Rightarrow> elf_sym \<Rightarrow> vtable list \<times> string set \<Rightarrow> lib_error + vtable list \<times> string set" where
  "prepare_symbol p strtab sm acc =
     (if st_shndx sm = SHN_UNDEF then Inr acc
      else bindR (GetString p strtab (st_name sm)) (\<lambda>sym_name.
        if startswith sym_name VTABLE_PREFIX \<and> sym_name \<notin> snd acc
        then Inr (fst acc @ [Vtable sym_name (st_value sm) (st_value sm + st_size sm)], insert sym_name (snd acc))
        else Inr acc))"

definition PrepareVtables :: "elf_parser \<Rightarrow> lib_error + vtable list" where
  "PrepareVtables p =
     bindR (for_symbols p (prepare_symbol p) ([], {})) (\<lambda>(vtables, vtable_names). Inr (sort_key begin_addr vtables))"

type_synonym inv_table = "(int \<times> string list) list"

definition names_at :: "inv_table \<Rightarrow> int \<Rightarrow> string list option" where
  "names_at t addr = map_of t addr"

definition inverse_symbol ::
  "elf_parser \<Rightarrow> elf_shdr \<Rightarrow> elf_sym \<Rightarrow> inv_table \<Rightarrow> lib_error + inv_table" where
  "inverse_symbol p strtab sm t =
     (if sym_GetType sm \<in> {STT_OBJECT, STT_FUNC} \<and> st_shndx sm \<noteq> SHN_UNDEF
      then bindR (GetString p strtab (st_name sm)) (\<lambda>sym_name.
        Inr (dict_set (int (st_value sm))
          (case names_at t (int (st_value sm)) of None \<Rightarrow> [sym_name] | Some ns \<Rightarrow> ns @ [sym_name]) t))
      else Inr t)"

definition FunctionSymbolInverseTable :: "elf_parser \<Rightarrow> lib_error + inv_table" where
  "FunctionSymbolInverseTable p =
     bindR (for_symbols p (inverse_symbol p) []) (\<lambda>t. Inr (map (\<lambda>(k, ns). (k, sort (remdups ns))) t))"

subsection \<open>Finding the table of an address\<close>

text \<open>\<open>bisect.bisect\<close>: an address is compared with the beginning of a table.\<close>

function bisect :: "vtable list \<Rightarrow> nat \<Rightarrow> nat \<Rightarrow> nat \<Rightarrow> nat" where
  "bisect vs x lo hi =
     (if lo < hi then
        let mid = (lo + hi) div 2
        in if x < begin_addr (vs ! mid) then bisect vs x lo mid else bisect vs x (mid + 1) hi
      else lo)"
  by pat_completeness auto
termination by (relation "measure (\<lambda>(vs, x, lo, hi). hi - lo)") auto

declare bisect.simps [simp del]

definition LocateVtable :: "vtable list \<Rightarrow> nat \<Rightarrow> nat option" where
  "LocateVtable vtables offset =
     (let idx = bisect vtables offset 0 (length vtables) in
      if idx \<le> 0 then None
      else let v = vtables ! (idx - 1)
           in if begin_addr v \<le> offset \<and> offset < end_addr v then Some (idx - 1) else None)"

subsection \<open>Relocations in tables\<close>

definition read_addr :: "elf_parser \<Rightarrow> nat \<Rightarrow> lib_error + int" where
  "read_addr p offset =
     (let w = ctype_size (Elf_Addr (bitness p)) in
      bindR (SeekRead p offset w) (\<lambda>bs.
        if length bs < w then Inl (ElfErrorOf ValueError) else Inr (int (le_uint bs))))"

fun addend_loop :: "elf_parser \<Rightarrow> elf_rel \<Rightarrow> elf_shdr list \<Rightarrow> lib_error + int" where
  "addend_loop p reloc [] =
     Inl (VtableError (''Invalid relocation: Cannot find relocation target section r_offset = '' @
       hex_str (int (r_offset reloc)) @ '', r_info = '' @ hex_str (int (r_info reloc))))"
| "addend_loop p reloc (sh # shs) =
     (if sh_addr sh \<le> r_offset reloc \<and> r_offset reloc < sh_addr sh + sh_size sh then
        if sh_type sh = SHT_NOBITS then Inr 0
        else read_addr p (r_offset reloc - sh_addr sh + sh_offset sh)
      else addend_loop p reloc shs)"

definition ReadRelocationAddend :: "elf_parser \<Rightarrow> elf_rel \<Rightarrow> lib_error + int" where
  "ReadRelocationAddend p reloc = addend_loop p reloc (Shdr p)"

definition RelocationSections :: "elf_parser \<Rightarrow> elf_shdr list" where
  "RelocationSections p =
     filter (\<lambda>sh. sh_type sh \<in> {SHT_REL, SHT_RELA, SHT_RELR, SHT_ANDROID_REL, SHT_ANDROID_RELA, SHT_ANDROID_RELR}) (Shdr p)"

definition MACHINE_RELOCATIONS :: "(nat \<times> nat \<times> nat) list" where
  "MACHINE_RELOCATIONS =
     [(EM_ARM, R_ARM_ABS32, R_ARM_RELATIVE), (EM_AARCH64, R_AARCH64_ABS64, R_AARCH64_RELATIVE),
      (EM_386, R_386_32, R_386_RELATIVE), (EM_X86_64, R_X86_64_64, R_X86_64_RELATIVE)]"

text \<open>The value of a relocation, the names for it and whether its symbol is undefined.\<close>

definition entry_value ::
  "elf_parser \<Rightarrow> inv_table \<Rightarrow> elf_shdr \<Rightarrow> elf_shdr \<Rightarrow> bool \<Rightarrow> elf_rel \<Rightarrow> int \<Rightarrow> lib_error + int \<times> string list \<times> bool" where
  "entry_value p itab symtab strtab is_absolute reloc addend =
     (if is_absolute then
        bindR (GetRelocationSymbol p symtab reloc) (\<lambda>sm.
          let reloc_value = int (st_value sm) + addend; undef = (st_shndx sm = SHN_UNDEF)
          in case names_at itab reloc_value of
               Some ns \<Rightarrow> Inr (reloc_value, ns, undef)
             | None \<Rightarrow> bindR (GetString p strtab (st_name sm)) (\<lambda>sym_name. Inr (reloc_value, [sym_name], undef)))
      else Inr (addend, case names_at itab addend of Some ns \<Rightarrow> ns | None \<Rightarrow> [], False))"

definition add_entry :: "nat \<Rightarrow> vtable_entry \<Rightarrow> vtable list \<Rightarrow> vtable list" where
  "add_entry i e vs = vs[i := (vs ! i)\<lparr>entries := entries (vs ! i) @ [e]\<rparr>]"

text \<open>The entry for a relocation inside the table at an index.\<close>

definition relocate_in ::
  "elf_parser \<Rightarrow> inv_table \<Rightarrow> elf_shdr \<Rightarrow> elf_shdr \<Rightarrow> bool \<Rightarrow> bool \<Rightarrow> elf_rel \<Rightarrow> nat \<Rightarrow> vtable list \<Rightarrow>
     lib_error + vtable list" where
  "relocate_in p itab symtab strtab is_rela is_absolute reloc i vtables =
     bindR (if is_rela then (case r_addend reloc of None \<Rightarrow> Inl (PyError AttributeError) | Some a \<Rightarrow> Inr a)
            else ReadRelocationAddend p reloc) (\<lambda>addend.
     bindR (entry_value p itab symtab strtab is_absolute reloc addend) (\<lambda>(reloc_value, names, undef).
       Inr (add_entry i \<lparr>ve_offset = r_offset reloc - begin_addr (vtables ! i), ve_names = names,
         ve_value = reloc_value, is_undefined = undef\<rparr> vtables)))"

definition relocate ::
  "elf_parser \<Rightarrow> nat \<times> nat \<Rightarrow> inv_table \<Rightarrow> elf_shdr \<Rightarrow> elf_shdr \<Rightarrow> elf_shdr \<Rightarrow> elf_rel \<Rightarrow> vtable list \<Rightarrow>
     lib_error + vtable list" where
  "relocate p rel_types itab rel_sh symtab strtab reloc vtables =
     (let is_rela = sh_type rel_sh \<in> {SHT_RELA, SHT_ANDROID_RELA};
          is_relr = sh_type rel_sh \<in> {SHT_RELR, SHT_ANDROID_RELR};
          is_absolute = (\<not> is_relr \<and> rel_GetType reloc = fst rel_types);
          is_relative = (is_relr \<or> rel_GetType reloc = snd rel_types)
      in if \<not> is_absolute \<and> \<not> is_relative then Inr vtables
         else case LocateVtable vtables (r_offset reloc) of
                None \<Rightarrow> Inr vtables
              | Some i \<Rightarrow> relocate_in p itab symtab strtab is_rela is_absolute reloc i vtables)"

definition relocate_section ::
  "elf_parser \<Rightarrow> nat \<times> nat \<Rightarrow> inv_table \<Rightarrow> elf_shdr \<Rightarrow> vtable list \<Rightarrow> lib_error + vtable list" where
  "relocate_section p rel_types itab rel_sh vtables =
     bindR (Shdr_at p (sh_link rel_sh)) (\<lambda>symtab.
     bindR (Shdr_at p (sh_link symtab)) (\<lambda>strtab.
       gen_for (GetRelocations p rel_sh) (relocate p rel_types itab rel_sh symtab strtab) vtables))"

definition sort_entries :: "vtable \<Rightarrow> vtable" where
  "sort_entries v = v\<lparr>entries := sort_key ve_offset (entries v)\<rparr>"

definition DumpVtables :: "elf_parser \<Rightarrow> lib_error + vtable list" where
  "DumpVtables p =
     (case map_of MACHINE_RELOCATIONS (e_machine (Ehdr p)) of
        None \<Rightarrow> Inl (VtableError (''Unexpected machine type: '' @ str_int (int (e_machine (Ehdr p)))))
      | Some rel_types \<Rightarrow>
          bindR (PrepareVtables p) (\<lambda>vtables.
          bindR (FunctionSymbolInverseTable p) (\<lambda>itab.
          bindR (foldR (relocate_section p rel_types itab) (RelocationSections p) vtables) (\<lambda>vtables.
            Inr (map sort_entries vtables)))))"

subsection \<open>The search\<close>

definition by_address :: "vtable list \<Rightarrow> bool" where
  "by_address vs \<longleftrightarrow> sorted (map begin_addr vs)"

lemma by_addressD: "by_address vs \<Longrightarrow> i \<le> j \<Longrightarrow> j < length vs \<Longrightarrow> begin_addr (vs ! i) \<le> begin_addr (vs ! j)"
  unfolding by_address_def using sorted_nth_mono [of "map begin_addr vs" i j] by simp

lemma bisect_splits:
  assumes "by_address vs" and "lo \<le> hi" and "hi \<le> length vs"
    and "\<forall>i < lo. begin_addr (vs ! i) \<le> x" and "\<forall>i. hi \<le> i \<and> i < length vs \<longrightarrow> x < begin_addr (vs ! i)"
  shows "bisect vs x lo hi \<le> length vs \<and> (\<forall>i < bisect vs x lo hi. begin_addr (vs ! i) \<le> x) \<and>
    (\<forall>i. bisect vs x lo hi \<le> i \<and> i < length vs \<longrightarrow> x < begin_addr (vs ! i))"
  using assms
proof (induction vs x lo hi rule: bisect.induct)
  case (1 vs x lo hi)
  show ?case
  proof (cases "lo < hi")
    case False
    then have "bisect vs x lo hi = lo" by (subst bisect.simps) simp
    with False "1.prems" show ?thesis by simp
  next
    case True
    define mid where "mid = (lo + hi) div 2"
    have mid: "lo \<le> mid" "mid < hi" using True by (simp_all add: mid_def)
    show ?thesis
    proof (cases "x < begin_addr (vs ! mid)")
      case less: True
      have "\<forall>i. mid \<le> i \<and> i < length vs \<longrightarrow> x < begin_addr (vs ! i)"
        using less by_addressD [OF "1.prems"(1)] by (meson less_le_trans)
      with "1.IH"(1) [OF True mid_def less] less True mid "1.prems" show ?thesis
        by (simp add: bisect.simps [of vs x lo hi] mid_def [symmetric])
    next
      case ge: False
      have "begin_addr (vs ! i) \<le> x" if "i < mid + 1" for i
        using that ge by_addressD [OF "1.prems"(1), of i mid] mid "1.prems"(3) by simp
      with "1.IH"(2) [OF True mid_def ge] ge True mid "1.prems" show ?thesis
        by (simp add: bisect.simps [of vs x lo hi] mid_def [symmetric])
    qed
  qed
qed

lemma LocateVtable_Some:
  assumes "by_address vs" and "LocateVtable vs off = Some i"
  shows "i < length vs \<and> begin_addr (vs ! i) \<le> off \<and> off < end_addr (vs ! i)"
  using assms bisect_splits [of vs 0 "length vs" off]
  by (auto simp: LocateVtable_def Let_def split: if_splits)

text \<open>The tables do not overlap.\<close>

definition apart :: "vtable list \<Rightarrow> bool" where
  "apart vs \<longleftrightarrow> (\<forall>j < length vs. \<forall>i < j. end_addr (vs ! i) \<le> begin_addr (vs ! j))"

lemma LocateVtable_complete:
  assumes "by_address vs" and "apart vs" and "i < length vs" and "begin_addr (vs ! i) \<le> off" and "off < end_addr (vs ! i)"
  shows "LocateVtable vs off = Some i"
proof -
  let ?k = "bisect vs off 0 (length vs)"
  have k: "?k \<le> length vs" "\<forall>i < ?k. begin_addr (vs ! i) \<le> off" "\<forall>i. ?k \<le> i \<and> i < length vs \<longrightarrow> off < begin_addr (vs ! i)"
    using bisect_splits [of vs 0 "length vs" off] assms(1) by auto
  have "i < ?k" using k(3) assms(3,4) by (meson not_less)
  moreover have "\<not> i < ?k - 1"
  proof
    assume less: "i < ?k - 1"
    moreover from less k(1) have "?k - 1 < length vs" by linarith
    ultimately have "end_addr (vs ! i) \<le> begin_addr (vs ! (?k - 1))"
      using assms(2) unfolding apart_def by blast
    moreover have "begin_addr (vs ! (?k - 1)) \<le> off" using less k(2) by simp
    ultimately show False using assms(5) by simp
  qed
  ultimately have "?k = Suc i" by simp
  then show ?thesis using assms(4,5) by (simp add: LocateVtable_def)
qed

subsection \<open>Well-formed tables\<close>

definition entry_ok :: "vtable \<Rightarrow> vtable_entry \<Rightarrow> bool" where
  "entry_ok v e \<longleftrightarrow> begin_addr v + ve_offset e < end_addr v"

definition vtables_ok :: "vtable list \<Rightarrow> bool" where
  "vtables_ok vs \<longleftrightarrow>
     by_address vs \<and> distinct (map vt_name vs) \<and>
     list_all (\<lambda>v. startswith (vt_name v) VTABLE_PREFIX \<and> list_all (entry_ok v) (entries v)) vs"

definition prepared_ok :: "vtable list \<times> string set \<Rightarrow> bool" where
  "prepared_ok acc \<longleftrightarrow>
     snd acc = set (map vt_name (fst acc)) \<and> distinct (map vt_name (fst acc)) \<and>
     list_all (\<lambda>v. startswith (vt_name v) VTABLE_PREFIX \<and> entries v = []) (fst acc)"

lemma prepare_symbol_ok: "prepared_ok acc \<Longrightarrow> prepare_symbol p strtab sm acc = Inr acc' \<Longrightarrow> prepared_ok acc'"
  by (auto simp: prepare_symbol_def prepared_ok_def Vtable_def py_res split: if_splits)

lemma for_symbols_invariant:
  assumes "for_symbols p body v = Inr v'" and "P v" and "\<And>strtab sm u u'. P u \<Longrightarrow> body strtab sm u = Inr u' \<Longrightarrow> P u'"
  shows "P v'"
  using assms(1) unfolding for_symbols_def
proof (rule foldR_invariant [where P = P])
  fix n u u'
  assume "P u" and "bindR (GetSectionByName p n) (\<lambda>symtab. case symtab of None \<Rightarrow> Inr u
      | Some symtab \<Rightarrow> bindR (Shdr_at p (sh_link symtab)) (\<lambda>strtab. gen_for (GetSymbols p symtab) (body strtab) u)) = Inr u'"
  then show "P u'"
    by (auto simp: py_res split: option.splits elim!: gen_for_invariant [where P = P] intro: assms(3))
qed (rule assms(2))

lemma PrepareVtables_ok: "PrepareVtables p = Inr vs \<Longrightarrow> vtables_ok vs"
proof -
  assume "PrepareVtables p = Inr vs"
  then obtain acc where acc: "for_symbols p (prepare_symbol p) ([], {}) = Inr acc" and vs: "vs = sort_key begin_addr (fst acc)"
    by (auto simp: PrepareVtables_def py_res)
  from acc have "prepared_ok acc"
    by (rule for_symbols_invariant) (auto simp: prepared_ok_def [of "([], {})"] intro: prepare_symbol_ok)
  then show ?thesis
    by (auto simp: vs prepared_ok_def vtables_ok_def by_address_def list_all_iff distinct_map intro: inj_on_subset)
qed

lemma map_add_entry [simp]:
  "map begin_addr (add_entry i e vs) = map begin_addr vs" "map vt_name (add_entry i e vs) = map vt_name vs"
  by (rule nth_equalityI; simp add: add_entry_def nth_upd)+

lemma add_entry_ok:
  assumes "vtables_ok vs" and "i < length vs" and "entry_ok (vs ! i) e"
  shows "vtables_ok (add_entry i e vs)"
proof -
  have "startswith (vt_name v) VTABLE_PREFIX \<and> list_all (entry_ok v) (entries v)" if "v \<in> set (add_entry i e vs)" for v
  proof -
    have "v = (vs ! i)\<lparr>entries := entries (vs ! i) @ [e]\<rparr> \<or> v \<in> set vs"
      using that set_update_subset_insert [of vs i] by (auto simp: add_entry_def)
    then show ?thesis using assms by (auto simp: vtables_ok_def list_all_iff entry_ok_def)
  qed
  with assms(1) show ?thesis by (simp add: vtables_ok_def by_address_def list_all_iff)
qed

lemma relocate_in_ok:
  assumes "vtables_ok vs" and "LocateVtable vs (r_offset reloc) = Some i"
    and "relocate_in p itab symtab strtab is_rela is_absolute reloc i vs = Inr vs'"
  shows "vtables_ok vs'"
proof -
  from assms(3) obtain e where e: "vs' = add_entry i e vs" "ve_offset e = r_offset reloc - begin_addr (vs ! i)"
    by (auto simp: relocate_in_def py_res)
  have "i < length vs \<and> begin_addr (vs ! i) \<le> r_offset reloc \<and> r_offset reloc < end_addr (vs ! i)"
    using assms(1) by (intro LocateVtable_Some assms(2)) (simp add: vtables_ok_def)
  then show ?thesis unfolding e(1) by (intro add_entry_ok assms(1)) (simp_all add: entry_ok_def e(2))
qed

lemma relocate_ok: "vtables_ok vs \<Longrightarrow> relocate p ts itab sh symtab strtab reloc vs = Inr vs' \<Longrightarrow> vtables_ok vs'"
  unfolding relocate_def Let_def
  by (cases "LocateVtable vs (r_offset reloc)") (simp_all only: option.case sum.inject split: if_split_asm, blast intro: relocate_in_ok)

lemma relocate_section_ok: "vtables_ok vs \<Longrightarrow> relocate_section p ts itab sh vs = Inr vs' \<Longrightarrow> vtables_ok vs'"
  by (auto simp: relocate_section_def py_res elim!: gen_for_invariant [where P = vtables_ok] intro: relocate_ok)

lemma sort_entries_ok: "vtables_ok vs \<Longrightarrow> vtables_ok (map sort_entries vs)"
  by (simp add: vtables_ok_def by_address_def sort_entries_def comp_def list_all_iff entry_ok_def)

subsection \<open>Properties\<close>



text \<open>(C34) Whatever the file, the tables that \<open>DumpVtables\<close> returns are sorted by address with distinct names of virtual
  tables, and the entries of each table are sorted by offset and lie inside it.\<close>

theorem DumpVtables_well_formed:
  assumes "DumpVtables p = Inr vs"
  shows "vtables_ok vs \<and> list_all (\<lambda>v. sorted (map ve_offset (entries v))) vs"
proof -
  from assms obtain ts vs0 itab vs1 where
    prep: "PrepareVtables p = Inr vs0" and fold: "foldR (relocate_section p ts itab) (RelocationSections p) vs0 = Inr vs1"
    and vs: "vs = map sort_entries vs1"
    by (auto simp: DumpVtables_def py_res split: option.splits)
  from fold have "vtables_ok vs1"
    by (rule foldR_invariant [where P = vtables_ok]) (use PrepareVtables_ok [OF prep] relocate_section_ok in auto)
  then show ?thesis by (simp add: vs sort_entries_ok list_all_iff sort_entries_def)
qed

text \<open>A library for the witness: one table at the address 16, and a relocation of its first entry in an RELR section.\<close>

definition demo_vsym :: elf_sym where
  "demo_vsym = (sym_of [])\<lparr>st_info := 17, st_shndx := 1, st_name := 17, st_value := 16, st_size := 8\<rparr>"

definition demo_vsections :: section_view where
  "demo_vsections =
     [(''.symtab'', (shdr_of [])\<lparr>sh_offset := 24, sh_size := 16, sh_entsize := 16, sh_link := 1\<rparr>),
      (''.strtab'', (shdr_of [])\<lparr>sh_name := 8\<rparr>),
      ([], (shdr_of [])\<lparr>sh_name := 16, sh_type := SHT_RELR, sh_offset := 40, sh_size := 4, sh_entsize := 4\<rparr>),
      ([], (shdr_of [])\<lparr>sh_name := 16, sh_type := SHT_NOBITS, sh_addr := 16, sh_size := 8\<rparr>)]"

definition demo_library :: elf_parser where
  "demo_library =
     \<lparr>elf_content = ''.symtab'' @ [CHR 0x00] @ ''.strtab'' @ [CHR 0x00] @ [CHR 0x00] @ ''_ZTV1A'' @ [CHR 0x00] @
        sym_bytes 32 demo_vsym @ le_bytes 4 16,
      elf_open = True, begin_offset = 0, file_size = 44, bitness = 32,
      Ehdr = (ehdr_of [])\<lparr>e_shstrndx := 1, e_machine := EM_ARM\<rparr>, Shdr = map snd demo_vsections\<rparr>"

lemma demo_vsym_length [simp]: "length (sym_bytes 32 demo_vsym) = 16"
  and demo_vsym_ok: "struct_ok (Elf_Sym 32) (sym_values 32 demo_vsym)"
proof -
  show ok: "struct_ok (Elf_Sym 32) (sym_values 32 demo_vsym)"
    by (simp add: struct_ok_def sym_layouts sym_values_def demo_vsym_def sym_of_def attr_def attrs_def)
  show "length (sym_bytes 32 demo_vsym) = 16" using length_header_bytes(3) [OF ok] by (simp add: Elf_Sym_def)
qed

lemma demo_library_sections: "represents_sections demo_library demo_vsections"
  by (simp add: represents_sections_def demo_library_def demo_vsections_def named_at_def elf_at_def seek_limit_def
      shdr_of_def attr_def attrs_def)

lemma demo_library_symbols: "GetSymbols demo_library (snd (demo_vsections ! 0)) = ([demo_vsym], None)"
  "GetString demo_library (snd (demo_vsections ! 1)) 17 = Inr ''_ZTV1A''"
proof -
  have at: "elf_at demo_library 24 (sym_bytes 32 demo_vsym)" and n: "named_at demo_library 17 ''_ZTV1A''"
    by (simp_all add: elf_at_def named_at_def demo_library_def seek_limit_def)
  have "bitness demo_library = 32" "st_name demo_vsym = 17" by (simp_all add: demo_library_def demo_vsym_def)
  with at n demo_vsym_ok have "represents_symbols demo_library (snd (demo_vsections ! 0)) (snd (demo_vsections ! 1)) [(demo_vsym, ''_ZTV1A'')]"
    by (simp add: represents_symbols_def demo_vsections_def shdr_of_def attr_def attrs_def)
  from GetSymbols_view [OF this] show "GetSymbols demo_library (snd (demo_vsections ! 0)) = ([demo_vsym], None)" by simp
  show "GetString demo_library (snd (demo_vsections ! 1)) 17 = Inr ''_ZTV1A''"
    using n by (intro GetString_named) (simp add: demo_vsections_def shdr_of_def attr_def attrs_def)
qed

lemma demo_library_links: "Shdr_at demo_library 1 = Inr (snd (demo_vsections ! 1))" "Shdr_at demo_library 0 = Inr (snd (demo_vsections ! 0))"
  by (simp_all add: Shdr_at_def demo_library_def demo_vsections_def py_index_def)

lemmas demo_facts = demo_library_symbols [simplified] demo_library_links [simplified]

lemma demo_for_symbols: "for_symbols demo_library body v = body (snd (demo_vsections ! 1)) demo_vsym v"
proof -
  have "GetSectionByName demo_library ''.symtab'' = Inr (Some (snd (demo_vsections ! 0)))"
    "GetSectionByName demo_library ''.dynsym'' = Inr None"
    using GetSectionByName_view [OF demo_library_sections] by (simp_all add: demo_vsections_def)
  moreover have "sh_link (snd (demo_vsections ! 0)) = 1" by (simp add: demo_vsections_def)
  ultimately show ?thesis
    by (cases "body (snd (demo_vsections ! 1)) demo_vsym v")
       (simp_all add: for_symbols_def SYMTAB_NAMES_def demo_facts)
qed

lemma demo_relocations: "GetRelocations demo_library (snd (demo_vsections ! 2)) = ([CreateElfRel 32 16 0], None)"
proof -
  have at: "elf_at demo_library 40 (concat (map (le_bytes 4) [16]))"
    by (simp add: elf_at_def demo_library_def seek_limit_def)
  have w: "addr_size demo_library = 4" "bitness demo_library = 32" "begin_offset demo_library = 0"
    by (simp_all add: addr_size_def demo_library_def)
  let ?sh = "(shdr_of [])\<lparr>sh_name := 16, sh_type := SHT_RELR, sh_offset := 40, sh_size := 4, sh_entsize := 4\<rparr>"
  have "map (seek_read_entry demo_library) [40] = map Inr [16]"
    using seek_read_entry_at [of demo_library 40 16] at w by simp
  from relr_loop_eq [OF this, of 0] w have "DecodeAndroidRelr demo_library ?sh = ([CreateElfRel 32 16 0], None)"
    by (simp add: DecodeAndroidRelr_def range_step_def)
  then show ?thesis by (simp add: GetRelocations_def demo_vsections_def elf_consts)
qed

theorem DumpVtables_well_formed_witness:
  "\<exists>v. DumpVtables demo_library = Inr [v] \<and> vt_name v = ''_ZTV1A'' \<and> map ve_offset (entries v) = [0] \<and> vtables_ok [v]"
proof -
  have vsym: "st_shndx demo_vsym = 1" "st_name demo_vsym = 17" "st_value demo_vsym = 16" "st_size demo_vsym = 8" "sym_GetType demo_vsym = 1"
    by (simp_all add: demo_vsym_def sym_of_def attr_def attrs_def sym_GetType_def)
  have prep: "PrepareVtables demo_library = Inr [Vtable ''_ZTV1A'' 16 24]"
    by (simp add: PrepareVtables_def demo_for_symbols prepare_symbol_def vsym demo_facts SHN_UNDEF_def VTABLE_PREFIX_def startswith_def)
  have itab: "FunctionSymbolInverseTable demo_library = Inr [(16, [''_ZTV1A''])]"
    by (simp add: FunctionSymbolInverseTable_def demo_for_symbols inverse_symbol_def vsym demo_facts names_at_def elf_consts)
  have "RelocationSections demo_library = [snd (demo_vsections ! 2)]"
    by (simp add: RelocationSections_def demo_library_def demo_vsections_def elf_consts shdr_of_def attr_def attrs_def)
  moreover have "ReadRelocationAddend demo_library (CreateElfRel 32 16 0) = Inr 0"
    by (simp add: ReadRelocationAddend_def demo_library_def demo_vsections_def CreateElfRel_def Elf_Addr_def elf_types shdr_of_def attr_def attrs_def)
  moreover have "r_offset (CreateElfRel 32 16 0) = 16" by (simp add: CreateElfRel_def Elf_Addr_def elf_types)
  moreover have "sh_link (snd (demo_vsections ! 2)) = 0" "sh_type (snd (demo_vsections ! 2)) = SHT_RELR" "sh_link (snd (demo_vsections ! 0)) = 1"
    by (simp_all add: demo_vsections_def shdr_of_def attr_def attrs_def)
  moreover have "LocateVtable [Vtable ''_ZTV1A'' 16 24] 16 = Some 0"
    by (simp add: LocateVtable_def bisect.simps Vtable_def)
  moreover have "e_machine (Ehdr demo_library) = EM_ARM" by (simp add: demo_library_def)
  ultimately have "DumpVtables demo_library = Inr [sort_entries ((Vtable ''_ZTV1A'' 16 24)\<lparr>entries := [\<lparr>ve_offset = 0, ve_names = [], ve_value = 0, is_undefined = False\<rparr>]\<rparr>)]"
    by (simp add: DumpVtables_def MACHINE_RELOCATIONS_def prep itab relocate_section_def demo_facts demo_relocations
        relocate_def relocate_in_def entry_value_def names_at_def add_entry_def Vtable_def SHT_RELR_def SHT_RELA_def SHT_ANDROID_RELA_def SHT_LOOS_def)
  then show ?thesis
    using DumpVtables_well_formed [of demo_library] by (simp add: sort_entries_def Vtable_def)
qed

end
