(* ===== verification/Archives.thy ===== *)
theory Archives
  imports Elf_Relocations
begin

section \<open>Unix archives (utils/python/archive/archive\_parser.py, utils/python/library/ar\_parser.py)\<close>

text \<open>
  \<open>Archive\<close> keeps the members of an archive by name; \<open>_IterateArchive\<close> yields the offsets of its ELF objects. Both
  take the size of a member from a text field with \<open>int\<close>, which accepts a sign: after a negative size the cursor
  moves back, so the loops need not end and are partial functions, \<^const>\<open>None\<close> for a loop that does not end.
\<close>

subsection \<open>Slices\<close>

definition slice_pos :: "nat \<Rightarrow> int \<Rightarrow> nat" where
  "slice_pos len i = (if i < 0 then nat (i + int len) else min (nat i) len)"

definition py_slice :: "string \<Rightarrow> int \<Rightarrow> int \<Rightarrow> string" where
  "py_slice s a b =
     (let i = slice_pos (length s) a; j = slice_pos (length s) b in take (j - i) (drop i s))"

lemma py_slice_nat: "a + n \<le> length s \<Longrightarrow> py_slice s (int a) (int a + int n) = take n (drop a s)"
  by (simp add: py_slice_def slice_pos_def Let_def nat_add_distrib)

subsection \<open>The class Archive\<close>

definition GLOBAL_SIG :: string where "GLOBAL_SIG = ''!<arch>'' @ [CHR 0x0A]"
definition STRING_TABLE_ID :: string where "STRING_TABLE_ID = ''//''"
definition STRING_TABLE_TERMINATOR :: string where "STRING_TABLE_TERMINATOR = ''/'' @ [CHR 0x0A]"
definition SYM_TABLE_ID :: string where "SYM_TABLE_ID = ''__.SYMDEF''"
definition FILE_ID_LENGTH :: nat where "FILE_ID_LENGTH = 16"
definition FILE_ID_TERMINATOR :: string where "FILE_ID_TERMINATOR = ''/''"
definition FILE_TIMESTAMP_LENGTH :: nat where "FILE_TIMESTAMP_LENGTH = 12"
definition OWNER_ID_LENGTH :: nat where "OWNER_ID_LENGTH = 6"
definition GROUP_ID_LENGTH :: nat where "GROUP_ID_LENGTH = 6"
definition FILE_MODE_LENGTH :: nat where "FILE_MODE_LENGTH = 8"
definition CONTENT_SIZE_LENGTH :: nat where "CONTENT_SIZE_LENGTH = 10"
definition END_TAG :: string where "END_TAG = ''`'' @ [CHR 0x0A]"

lemmas archive_consts = GLOBAL_SIG_def STRING_TABLE_ID_def STRING_TABLE_TERMINATOR_def SYM_TABLE_ID_def
  FILE_ID_LENGTH_def FILE_ID_TERMINATOR_def FILE_TIMESTAMP_LENGTH_def OWNER_ID_LENGTH_def GROUP_ID_LENGTH_def
  FILE_MODE_LENGTH_def CONTENT_SIZE_LENGTH_def END_TAG_def

record archive =
  ar_files :: "(string \<times> string) list"
  ar_content :: string
  ar_cursor :: int
  string_table :: "(int \<times> string) list"

type_synonym 'a ar_result = "py_error + 'a \<times> archive"

definition Archive :: "string \<Rightarrow> archive" where
  "Archive file_content = \<lparr>ar_files = [], ar_content = file_content, ar_cursor = 0, string_table = []\<rparr>"

definition ReadBytes :: "int \<Rightarrow> archive \<Rightarrow> string ar_result" where
  "ReadBytes n s =
     (if ar_cursor s + n > int (length (ar_content s)) then Inl ValueError
      else Inr (py_slice (ar_content s) (ar_cursor s) (ar_cursor s + n), s\<lparr>ar_cursor := ar_cursor s + n\<rparr>))"

fun table_names :: "int \<Rightarrow> string list \<Rightarrow> (int \<times> string) list \<Rightarrow> (int \<times> string) list" where
  "table_names acc [] t = t"
| "table_names acc (n # ns) t =
     table_names (acc + int (length n) + int (length STRING_TABLE_TERMINATOR)) ns (dict_set acc n t)"

definition member_key :: "string \<Rightarrow> archive \<Rightarrow> py_error + string" where
  "member_key name s =
     (if endswith name FILE_ID_TERMINATOR then Inr (take (length name - length FILE_ID_TERMINATOR) name)
      else if startswith name FILE_ID_TERMINATOR then
        bindR (py_int (drop (length FILE_ID_TERMINATOR) name)) (\<lambda>offset.
          case map_of (string_table s) offset of None \<Rightarrow> Inl ValueError | Some n \<Rightarrow> Inr n)
      else Inr name)"

definition store_member :: "string \<Rightarrow> string \<Rightarrow> archive \<Rightarrow> py_error + archive" where
  "store_member name content s =
     (if name = STRING_TABLE_ID then
        bindR (str_split content STRING_TABLE_TERMINATOR) (\<lambda>names.
          Inr (s\<lparr>string_table := table_names 0 names (string_table s)\<rparr>))
      else if name \<noteq> SYM_TABLE_ID then
        bindR (member_key name s) (\<lambda>key. Inr (s\<lparr>ar_files := dict_set key content (ar_files s)\<rparr>))
      else Inr s)"

definition ReadFile :: "archive \<Rightarrow> py_error + archive" where
  "ReadFile s =
     bindR (ReadBytes (int FILE_ID_LENGTH) s) (\<lambda>(name, s).
     bindR (ReadBytes (int FILE_TIMESTAMP_LENGTH) s) (\<lambda>(_, s).
     bindR (ReadBytes (int OWNER_ID_LENGTH) s) (\<lambda>(_, s).
     bindR (ReadBytes (int GROUP_ID_LENGTH) s) (\<lambda>(_, s).
     bindR (ReadBytes (int FILE_MODE_LENGTH) s) (\<lambda>(_, s).
     bindR (ReadBytes (int CONTENT_SIZE_LENGTH) s) (\<lambda>(sz, s).
     bindR (py_int sz) (\<lambda>content_size.
     bindR (ReadBytes (int (length END_TAG)) s) (\<lambda>(tag, s).
       if tag \<noteq> END_TAG then Inl ValueError
       else bindR (ReadBytes content_size s) (\<lambda>(content, s). store_member (strip name) content s)))))))))"

partial_function (option) read_files :: "archive \<Rightarrow> (py_error + archive) option" where
  "read_files s =
     (if ar_cursor s < int (length (ar_content s))
      then case ReadFile s of Inl e \<Rightarrow> Some (Inl e) | Inr s' \<Rightarrow> read_files s'
      else Some (Inr s))"

definition archive_Parse :: "archive \<Rightarrow> (py_error + archive) option" where
  "archive_Parse s =
     (case ReadBytes (int (length GLOBAL_SIG)) s of
        Inl e \<Rightarrow> Some (Inl e)
      | Inr (sig, s) \<Rightarrow> if sig \<noteq> GLOBAL_SIG then Some (Inl ValueError) else read_files s)"

subsection \<open>The functions of ar\_parser\<close>

definition rstrip_blank :: "string \<Rightarrow> string" where
  "rstrip_blank s = rev (dropWhile (\<lambda>c. c = CHR '' '') (rev s))"

text \<open>
  One round of the generator at a file position: \<^const>\<open>None\<close> at the end of the archive, otherwise whether the member
  is an object, its offset, and the position of the next header. \<open>int\<close> may raise \<open>ValueError\<close>, which is not
  caught; seeking to a negative position raises \<open>IOError\<close>.
\<close>

definition ar_round :: "string \<Rightarrow> int \<Rightarrow> lib_error + (bool \<times> nat \<times> int) option" where
  "ar_round data pos =
     (if pos < 0 then Inl (ArErrorOf IOError)
      else let header = take 60 (drop (nat pos) data) in
        if length header \<noteq> 60 then Inr None
        else let obj_name = rstrip_blank (take 16 header) in
          bindR (liftP (py_int (rstrip_blank (take 10 (drop 48 header))))) (\<lambda>obj_size.
            let obj_offset = nat pos + 60; end_offset = int obj_offset + obj_size
            in Inr (Some (obj_name \<notin> {''/'', ''//'', ''/SYM64/''}, obj_offset, end_offset + end_offset mod 2))))"

text \<open>A \<open>for\<close> loop over the generator.\<close>

partial_function (option) ar_for ::
  "string \<Rightarrow> (nat \<Rightarrow> 'a \<Rightarrow> lib_error + 'a) \<Rightarrow> int \<Rightarrow> 'a \<Rightarrow> (lib_error + 'a) option" where
  "ar_for data body pos v =
     (case ar_round data pos of
        Inl e \<Rightarrow> Some (Inl e)
      | Inr None \<Rightarrow> Some (Inr v)
      | Inr (Some (is_object, obj_offset, next_pos)) \<Rightarrow>
          (case (if is_object then body obj_offset v else Inr v) of
             Inl e \<Rightarrow> Some (Inl e)
           | Inr v' \<Rightarrow> ar_for data body next_pos v'))"

definition IterateArchive ::
  "(string \<rightharpoonup> string) \<Rightarrow> string \<Rightarrow> (nat \<Rightarrow> 'a \<Rightarrow> lib_error + 'a) \<Rightarrow> 'a \<Rightarrow> (lib_error + 'a) option" where
  "IterateArchive files archive_path body v =
     (case files archive_path of
        None \<Rightarrow> Some (Inl (ArErrorOf IOError))
      | Some data \<Rightarrow>
          if take 8 data \<noteq> ''!<arch>'' @ [CHR 0x0A] then Some (Inl (ArError ''Wrong magic string.''))
          else ar_for data body 8 v)"

definition ar_ListGlobalSymbols :: "(string \<rightharpoonup> string) \<Rightarrow> string \<Rightarrow> (lib_error + string list) option" where
  "ar_ListGlobalSymbols files archive_path =
     IterateArchive files archive_path (\<lambda>offset symbols.
       bindR (ElfParser files archive_path offset) (\<lambda>parser.
       bindR (ListGlobalSymbols parser False SYMTAB STRTAB) (\<lambda>l. Inr (symbols @ l)))) []"

subsection \<open>One member\<close>

lemma py_int_then_fail: "bindR (py_int t) (\<lambda>n. Inl ValueError) = Inl ValueError"
  using py_int_error [of t] by (cases "py_int t") auto

text \<open>A read at a position inside the content.\<close>

definition at_pos :: "nat \<Rightarrow> archive \<Rightarrow> archive" where
  "at_pos c s = s\<lparr>ar_cursor := int c\<rparr>"

lemma at_pos_self: "ar_cursor s = int c \<Longrightarrow> at_pos c s = s"
  by (simp add: at_pos_def)

lemma ReadBytes_at:
  "ReadBytes (int n) (at_pos c s) =
     (if c + n \<le> length (ar_content s) then Inr (take n (drop c (ar_content s)), at_pos (c + n) s) else Inl ValueError)"
  using py_slice_nat [of c n "ar_content s"] by (auto simp: ReadBytes_def at_pos_def)

lemma ReadFile_eq:
  fixes c s
  defines "r \<equiv> drop c (ar_content s)"
  shows "ReadFile (at_pos c s) =
    (if length r < 60 then Inl ValueError
     else bindR (py_int (take 10 (drop 48 r))) (\<lambda>n.
       if take 2 (drop 58 r) \<noteq> END_TAG then Inl ValueError
       else bindR (ReadBytes n (at_pos (c + 60) s)) (\<lambda>(content, s). store_member (strip (take 16 r)) content s)))"
proof (cases "length r < 60")
  case False
  let ?L = "length (ar_content s)"
  have L: "c + FILE_ID_LENGTH \<le> ?L" "c + FILE_ID_LENGTH + FILE_TIMESTAMP_LENGTH \<le> ?L"
    "c + FILE_ID_LENGTH + FILE_TIMESTAMP_LENGTH + OWNER_ID_LENGTH \<le> ?L"
    "c + FILE_ID_LENGTH + FILE_TIMESTAMP_LENGTH + OWNER_ID_LENGTH + GROUP_ID_LENGTH \<le> ?L"
    "c + FILE_ID_LENGTH + FILE_TIMESTAMP_LENGTH + OWNER_ID_LENGTH + GROUP_ID_LENGTH + FILE_MODE_LENGTH \<le> ?L"
    "c + FILE_ID_LENGTH + FILE_TIMESTAMP_LENGTH + OWNER_ID_LENGTH + GROUP_ID_LENGTH + FILE_MODE_LENGTH + CONTENT_SIZE_LENGTH \<le> ?L"
    "c + FILE_ID_LENGTH + FILE_TIMESTAMP_LENGTH + OWNER_ID_LENGTH + GROUP_ID_LENGTH + FILE_MODE_LENGTH + CONTENT_SIZE_LENGTH + length END_TAG \<le> ?L"
    using False by (simp_all add: archive_consts r_def)
  have pos: "c + FILE_ID_LENGTH + FILE_TIMESTAMP_LENGTH + OWNER_ID_LENGTH + GROUP_ID_LENGTH + FILE_MODE_LENGTH = c + 48"
    "c + 48 + CONTENT_SIZE_LENGTH = c + 58" "c + 58 + length END_TAG = c + 60"
    by (simp_all add: archive_consts)
  have "take 10 (drop 48 r) = take CONTENT_SIZE_LENGTH (drop (c + 48) (ar_content s))"
    "take 2 (drop 58 r) = take (length END_TAG) (drop (c + 58) (ar_content s))"
    "take 16 r = take FILE_ID_LENGTH (drop c (ar_content s))"
    by (simp_all add: r_def archive_consts add.commute numeral_2_eq_2)
  then show ?thesis
    using False L unfolding ReadFile_def
    by (simp only: ReadBytes_at L if_True if_False bindR_simps prod.case pos)
next
  case True
  let ?L = "length (ar_content s)"
  have "?L < c + FILE_ID_LENGTH + FILE_TIMESTAMP_LENGTH + OWNER_ID_LENGTH + GROUP_ID_LENGTH + FILE_MODE_LENGTH + CONTENT_SIZE_LENGTH + length END_TAG"
    using True by (simp add: r_def archive_consts)
  with True show ?thesis
    unfolding ReadFile_def by (simp add: ReadBytes_at not_le py_int_then_fail split: if_splits)
qed

subsection \<open>Archives as they are written\<close>

text \<open>
  A member has its name field, the fields for time, owner, group and mode, its size field and its data. The
  archive format pads data of odd length with a line feed, so that every header is at an even offset.
\<close>

record ar_member =
  am_name :: string
  am_meta :: string
  am_size :: string
  am_data :: string

definition header_bytes :: "ar_member \<Rightarrow> string" where
  "header_bytes m = am_name m @ am_meta m @ am_size m @ END_TAG"

definition member_bytes :: "ar_member \<Rightarrow> string" where
  "member_bytes m = header_bytes m @ am_data m @ (if odd (length (am_data m)) then [CHR 0x0A] else [])"

definition archive_bytes :: "ar_member list \<Rightarrow> string" where
  "archive_bytes ms = GLOBAL_SIG @ concat (map member_bytes ms)"

definition member_ok :: "ar_member \<Rightarrow> bool" where
  "member_ok m \<longleftrightarrow>
     length (am_name m) = 16 \<and> length (am_meta m) = 32 \<and> length (am_size m) = 10 \<and>
     CHR 0x60 \<notin> set (am_size m) \<and> py_int (am_size m) = Inr (int (length (am_data m)))"

definition member_name :: "ar_member \<Rightarrow> string" where
  "member_name m = butlast (strip (am_name m))"

text \<open>A name in the usual form, ended by a slash.\<close>

definition plain_member :: "ar_member \<Rightarrow> bool" where
  "plain_member m \<longleftrightarrow> strip (am_name m) = member_name m @ ''/'' \<and> member_name m \<noteq> ''/''"

lemma length_header [simp]: "member_ok m \<Longrightarrow> length (header_bytes m) = 60"
  by (simp add: member_ok_def header_bytes_def END_TAG_def)

lemma header_fields:
  assumes "member_ok m"
  shows "take 16 (header_bytes m @ rest) = am_name m" "take 10 (drop 48 (header_bytes m @ rest)) = am_size m"
    "take 2 (drop 58 (header_bytes m @ rest)) = END_TAG"
  using assms by (simp_all add: member_ok_def header_bytes_def END_TAG_def)

lemma store_plain:
  "plain_member m \<Longrightarrow>
   store_member (strip (am_name m)) d s = Inr (s\<lparr>ar_files := dict_set (member_name m) d (ar_files s)\<rparr>)"
proof -
  assume p: "plain_member m"
  have "strip (am_name m) \<noteq> STRING_TABLE_ID" "strip (am_name m) \<noteq> SYM_TABLE_ID"
  proof -
    have "last (strip (am_name m)) = CHR ''/''" using p by (metis last_snoc plain_member_def)
    then show "strip (am_name m) \<noteq> STRING_TABLE_ID" "strip (am_name m) \<noteq> SYM_TABLE_ID"
      using p by (auto simp: archive_consts plain_member_def)
  qed
  moreover have "member_key (strip (am_name m)) s = Inr (member_name m)"
    using p by (simp add: member_key_def plain_member_def archive_consts)
  ultimately show ?thesis by (simp add: store_member_def)
qed

lemma ReadFile_member:
  assumes "member_ok m" and "plain_member m" and "drop c (ar_content s) = header_bytes m @ am_data m @ rest"
  shows "ReadFile (at_pos c s) =
    Inr (at_pos (c + 60 + length (am_data m)) (s\<lparr>ar_files := dict_set (member_name m) (am_data m) (ar_files s)\<rparr>))"
proof -
  have size: "py_int (am_size m) = Inr (int (length (am_data m)))" using assms(1) by (simp add: member_ok_def)
  have "length (drop c (ar_content s)) = 60 + length (am_data m) + length rest" using assms by simp
  then have le: "c + 60 + length (am_data m) \<le> length (ar_content s)" by simp
  have "drop (c + 60) (ar_content s) = drop 60 (drop c (ar_content s))" by (simp add: add.commute)
  also have "\<dots> = am_data m @ rest" using assms(1) by (simp add: assms(3))
  finally have "ReadBytes (int (length (am_data m))) (at_pos (c + 60) s) = Inr (am_data m, at_pos (c + 60 + length (am_data m)) s)"
    using le by (simp add: ReadBytes_at)
  moreover have "\<not> length (header_bytes m @ am_data m @ rest) < 60" using assms(1) by simp
  ultimately show ?thesis
    unfolding ReadFile_eq assms(3) header_fields [OF assms(1)] size
    by (simp add: store_plain [OF assms(2)]) (simp add: at_pos_def)
qed

lemma read_files_even:
  assumes "list_all (\<lambda>m. member_ok m \<and> plain_member m \<and> even (length (am_data m))) ms"
    and "drop c (ar_content s) = concat (map member_bytes ms) @ rest" and "c \<le> length (ar_content s)"
  shows "read_files (at_pos c s) =
    read_files (at_pos (c + length (concat (map member_bytes ms)))
      (s\<lparr>ar_files := fold (\<lambda>m. dict_set (member_name m) (am_data m)) ms (ar_files s)\<rparr>))"
  using assms
proof (induction ms arbitrary: c s)
  case (Cons m ms)
  have ok: "member_ok m" "plain_member m" and even: "even (length (am_data m))" using Cons.prems(1) by simp_all
  have bytes: "member_bytes m = header_bytes m @ am_data m" using even by (simp add: member_bytes_def)
  let ?s = "s\<lparr>ar_files := dict_set (member_name m) (am_data m) (ar_files s)\<rparr>"
  let ?c = "c + 60 + length (am_data m)"
  have d: "drop c (ar_content s) = header_bytes m @ am_data m @ concat (map member_bytes ms) @ rest"
    using Cons.prems(2) bytes by simp
  have "length (drop c (ar_content s)) = 60 + length (am_data m) + length (concat (map member_bytes ms) @ rest)"
    unfolding d using ok(1) by simp
  then have c: "c < length (ar_content s)" "?c \<le> length (ar_content s)" by simp_all
  have "drop ?c (ar_content s) = drop (60 + length (am_data m)) (drop c (ar_content s))" by (simp add: ac_simps)
  also have "\<dots> = concat (map member_bytes ms) @ rest" unfolding d using ok(1) by simp
  finally have "read_files (at_pos ?c ?s) =
    read_files (at_pos (?c + length (concat (map member_bytes ms)))
      (?s\<lparr>ar_files := fold (\<lambda>m. dict_set (member_name m) (am_data m)) ms (ar_files ?s)\<rparr>))"
    using Cons.prems(1) c(2) by (intro Cons.IH) simp_all
  moreover have "read_files (at_pos c s) = read_files (at_pos ?c ?s)"
    using c(1) ReadFile_member [OF ok d] by (subst read_files.simps) (simp add: at_pos_def)
  ultimately show ?case using ok(1) by (simp add: bytes ac_simps)
qed simp

subsection \<open>Trailing blanks\<close>

lemma strip_append_space: "list_all is_space b \<Longrightarrow> strip (r @ b) = strip r"
proof (cases "list_all is_space r")
  case True
  assume "list_all is_space b"
  with True have "dropWhile is_space (r @ b) = []" "dropWhile is_space r = []" by (simp_all add: list_all_iff ball_Un)
  then show ?thesis by (simp only: strip_def)
next
  case False
  assume b: "list_all is_space b"
  have "dropWhile is_space (r @ b) = dropWhile is_space r @ b"
    using False by (auto simp: dropWhile_append list_all_iff)
  moreover have "dropWhile is_space (rev b @ xs) = dropWhile is_space xs" for xs
    using b by (simp add: dropWhile_append list_all_iff)
  ultimately show ?thesis by (simp add: strip_def)
qed

lemma strip_rstrip_blank: "strip (rstrip_blank s) = strip s"
proof -
  let ?b = "rev (takeWhile (\<lambda>c. c = CHR '' '') (rev s))"
  have "s = rstrip_blank s @ ?b"
    unfolding rstrip_blank_def by (metis rev_append rev_rev_ident takeWhile_dropWhile_id)
  moreover have "list_all is_space ?b"
    by (auto simp: list_all_iff is_space_def dest: set_takeWhileD)
  ultimately show ?thesis by (metis strip_append_space)
qed

lemma py_int_rstrip_blank: "py_int (rstrip_blank s) = py_int s"
  by (simp add: py_int_def strip_rstrip_blank)

subsection \<open>The generator\<close>

fun object_offsets :: "nat \<Rightarrow> ar_member list \<Rightarrow> nat list" where
  "object_offsets c [] = []"
| "object_offsets c (m # ms) =
     (if rstrip_blank (am_name m) \<notin> {''/'', ''//'', ''/SYM64/''} then [c + 60] else []) @
     object_offsets (c + length (member_bytes m)) ms"

lemma length_member_bytes: "member_ok m \<Longrightarrow> length (member_bytes m) = 60 + length (am_data m) + length (am_data m) mod 2"
  by (simp add: member_bytes_def mod_2_eq_odd)

lemma ar_round_member:
  assumes "member_ok m" and "even c" and "drop c data = member_bytes m @ rest"
  shows "ar_round data (int c) =
    Inr (Some (rstrip_blank (am_name m) \<notin> {''/'', ''//'', ''/SYM64/''}, c + 60, int (c + length (member_bytes m))))"
proof -
  have d: "drop c data = header_bytes m @ am_data m @ (if odd (length (am_data m)) then [CHR 0x0A] else []) @ rest"
    using assms(3) by (simp add: member_bytes_def)
  have "py_int (rstrip_blank (am_size m)) = Inr (int (length (am_data m)))"
    using assms(1) by (simp add: py_int_rstrip_blank member_ok_def)
  moreover have "(int c + 60 + int (length (am_data m))) mod 2 = int (length (am_data m) mod 2)"
    using assms(2) by (simp add: zmod_int mod_2_eq_odd)
  ultimately show ?thesis
    using assms(1) header_fields [OF assms(1), of "[]"] length_member_bytes [OF assms(1)]
    by (simp add: ar_round_def d Let_def take_map)
qed

lemma ar_for_members:
  assumes "list_all member_ok ms" and "even c" and "drop c data = concat (map member_bytes ms)"
  shows "ar_for data body (int c) v = Some (foldR body (object_offsets c ms) v)"
  using assms
proof (induction ms arbitrary: c v)
  case Nil
  then show ?case by (subst ar_for.simps) (simp add: ar_round_def)
next
  case (Cons m ms)
  have ok: "member_ok m" using Cons.prems(1) by simp
  have "drop c data = member_bytes m @ concat (map member_bytes ms)" using Cons.prems(3) by simp
  then have d: "drop (c + length (member_bytes m)) data = concat (map member_bytes ms)"
    by (metis add.commute append_eq_conv_conj drop_drop)
  have even: "even (c + length (member_bytes m))"
    using Cons.prems(2) by (simp add: length_member_bytes [OF ok] mod_2_eq_odd)
  have IH: "ar_for data body (int (c + length (member_bytes m))) u = Some (foldR body (object_offsets (c + length (member_bytes m)) ms) u)" for u
    using Cons.prems(1) even d by (intro Cons.IH) simp_all
  have round: "ar_round data (int c) =
    Inr (Some (rstrip_blank (am_name m) \<notin> {''/'', ''//'', ''/SYM64/''}, c + 60, int (c + length (member_bytes m))))"
    using ok Cons.prems by (intro ar_round_member) simp_all
  show ?case
    by (subst ar_for.simps, subst round) (simp add: IH [unfolded of_nat_add] bindR_def split: sum.split)
qed

subsection \<open>Properties\<close>

lemma length_GLOBAL_SIG: "length GLOBAL_SIG = 8"
  by (simp add: GLOBAL_SIG_def)

lemma Parse_sig:
  "archive_Parse (Archive (GLOBAL_SIG @ rest)) = read_files (at_pos 8 (Archive (GLOBAL_SIG @ rest)))"
proof -
  let ?s = "Archive (GLOBAL_SIG @ rest)"
  have "at_pos 0 ?s = ?s" "ar_content ?s = GLOBAL_SIG @ rest" by (simp_all add: at_pos_def Archive_def)
  then have "ReadBytes (int (length GLOBAL_SIG)) ?s = Inr (GLOBAL_SIG, at_pos 8 ?s)"
    using ReadBytes_at [of "length GLOBAL_SIG" 0 ?s] by (simp add: length_GLOBAL_SIG)
  then show ?thesis by (simp add: archive_Parse_def)
qed

text \<open>An archive of members of even size is read back: \<open>Parse\<close> ends, without an exception, with the data of every
  member under its name; a later member replaces an earlier one of the same name.\<close>

theorem archive_round_trip:
  assumes "list_all (\<lambda>m. member_ok m \<and> plain_member m \<and> even (length (am_data m))) ms"
  shows "\<exists>s. archive_Parse (Archive (archive_bytes ms)) = Some (Inr s) \<and>
    map_of (ar_files s) = map_of (rev (map (\<lambda>m. (member_name m, am_data m)) ms))"
proof -
  let ?s = "Archive (archive_bytes ms)"
  have "drop 8 (ar_content ?s) = concat (map member_bytes ms) @ []" "8 \<le> length (ar_content ?s)"
    by (simp_all add: Archive_def archive_bytes_def GLOBAL_SIG_def)
  from read_files_even [OF assms this] have "read_files (at_pos 8 ?s) =
      Some (Inr (at_pos (8 + length (concat (map member_bytes ms)))
        (?s\<lparr>ar_files := fold (\<lambda>m. dict_set (member_name m) (am_data m)) ms []\<rparr>)))"
    by (subst (asm) (2) read_files.simps) (simp add: at_pos_def Archive_def archive_bytes_def GLOBAL_SIG_def)
  moreover have "map_of (fold (\<lambda>m. dict_set (member_name m) (am_data m)) ms t) =
      map_of (rev (map (\<lambda>m. (member_name m, am_data m)) ms) @ t)" for t
    by (induction ms arbitrary: t) (simp_all add: map_of_append)
  ultimately show ?thesis by (simp add: archive_bytes_def Parse_sig at_pos_def)
qed

definition demo_member :: "string \<Rightarrow> string \<Rightarrow> string \<Rightarrow> ar_member" where
  "demo_member name sz data = \<lparr>am_name = name @ replicate (16 - length name) (CHR '' ''), am_meta = replicate 32 (CHR ''0''),
     am_size = sz @ replicate (10 - length sz) (CHR '' ''), am_data = data\<rparr>"

lemmas demo_member_eval = demo_member_def member_ok_def plain_member_def member_name_def strip_def is_space_def py_int_def
  parse_nat_def digit_of_def eval_nat_numeral

theorem archive_round_trip_witness:
  "\<exists>s. archive_Parse (Archive (archive_bytes [demo_member ''a/'' ''2'' ''xy'']))= Some (Inr s) \<and>
    map_of (ar_files s) = [''a'' \<mapsto> ''xy'']"
  using archive_round_trip [of "[demo_member ''a/'' ''2'' ''xy'']"] by (simp add: demo_member_eval)

text \<open>The padding of the archive format is not skipped: an archive with a member of odd size, padded with a line
  feed as the format demands, is always rejected with \<open>ValueError\<close>, whether the member is the last one or not.\<close>

theorem odd_member_rejected:
  assumes "list_all (\<lambda>m. member_ok m \<and> plain_member m \<and> even (length (am_data m))) ms1"
    and "member_ok m" and "plain_member m" and "odd (length (am_data m))" and "list_all member_ok ms2"
  shows "archive_Parse (Archive (archive_bytes (ms1 @ m # ms2))) = Some (Inl ValueError)"
proof -
  let ?s = "Archive (archive_bytes (ms1 @ m # ms2))"
  let ?c = "8 + length (concat (map member_bytes ms1))"
  let ?s1 = "?s\<lparr>ar_files := fold (\<lambda>m. dict_set (member_name m) (am_data m)) ms1 (ar_files ?s)\<rparr>"
  let ?rest = "CHR 0x0A # concat (map member_bytes ms2)"
  have content: "ar_content ?s1 = (GLOBAL_SIG @ concat (map member_bytes ms1)) @ header_bytes m @ am_data m @ ?rest"
    using assms(4) by (simp add: Archive_def archive_bytes_def member_bytes_def)
  have len: "length (GLOBAL_SIG @ concat (map member_bytes ms1)) = ?c" by (simp add: GLOBAL_SIG_def)
  have "drop 8 (ar_content ?s) = concat (map member_bytes ms1) @ concat (map member_bytes (m # ms2))" "8 \<le> length (ar_content ?s)"
    by (simp_all add: Archive_def archive_bytes_def GLOBAL_SIG_def)
  from read_files_even [OF assms(1) this] have r1: "read_files (at_pos 8 ?s) = read_files (at_pos ?c ?s1)" .
  have d1: "drop ?c (ar_content ?s1) = header_bytes m @ am_data m @ ?rest" unfolding content len [symmetric] by simp
  define c2 where "c2 = ?c + 60 + length (am_data m)"
  define s2 where "s2 = ?s1\<lparr>ar_files := dict_set (member_name m) (am_data m) (ar_files ?s1)\<rparr>"
  have "length (ar_content ?s1) = c2 + length ?rest"
    unfolding content c2_def using assms(2) by (simp add: GLOBAL_SIG_def)
  then have lens: "?c < length (ar_content ?s1)" "c2 < length (ar_content s2)" by (simp_all add: c2_def s2_def)
  have r2: "read_files (at_pos ?c ?s1) = read_files (at_pos c2 s2)"
    using lens(1) ReadFile_member [OF assms(2,3) d1] by (subst read_files.simps) (simp add: at_pos_def c2_def s2_def)
  have "drop c2 (ar_content s2) = drop (60 + length (am_data m)) (drop ?c (ar_content ?s1))"
    by (simp add: c2_def s2_def ac_simps)
  also have "\<dots> = ?rest" unfolding d1 using assms(2) by simp
  finally have d2: "drop c2 (ar_content s2) = ?rest" .
  have "ReadFile (at_pos c2 s2) = Inl ValueError"
  proof (cases ms2)
    case Nil
    then show ?thesis by (simp add: ReadFile_eq d2)
  next
    case (Cons m2 ms)
    then have ok: "member_ok m2" using assms(5) by simp
    have "take 2 (drop 58 ?rest) = take 2 (drop 57 (header_bytes m2 @ am_data m2))"
      using ok by (simp add: Cons member_bytes_def)
    also have "\<dots> = [last (am_size m2), CHR 0x60]"
    proof -
      obtain z c where z: "am_size m2 = z @ [c]" "length z = 9"
        using ok by (cases "am_size m2" rule: rev_cases) (simp_all add: member_ok_def)
      then show ?thesis using ok by (simp add: header_bytes_def member_ok_def END_TAG_def)
    qed
    finally have "take 2 (drop 58 ?rest) \<noteq> END_TAG" using ok by (auto simp: END_TAG_def member_ok_def)
    then show ?thesis by (simp add: ReadFile_eq d2 py_int_then_fail del: drop_Suc_Cons take_Suc_Cons)
  qed
  then have "read_files (at_pos c2 s2) = Some (Inl ValueError)"
    using lens(2) by (subst read_files.simps) (simp add: at_pos_def)
  then show ?thesis using r1 r2 by (simp add: archive_bytes_def Parse_sig)
qed

theorem odd_member_rejected_witness:
  "archive_Parse (Archive (archive_bytes ([] @ demo_member ''a/'' ''1'' ''x'' # []))) = Some (Inl ValueError)"
  by (rule odd_member_rejected) (simp_all add: demo_member_eval)

text \<open>The generator of \<open>ar_parser\<close> yields, for every well-formed archive, exactly the offsets where the data of its
  members start, in order, without the symbol and string tables, and ends; members of odd size included. A loop over
  it is the loop over these offsets, with the exception of the body if it raises one.\<close>

theorem IterateArchive_offsets:
  assumes "files path = Some (archive_bytes ms)" and "list_all member_ok ms"
  shows "IterateArchive files path body v = Some (foldR body (object_offsets 8 ms) v)"
proof -
  have "drop 8 (archive_bytes ms) = concat (map member_bytes ms)" "take 8 (archive_bytes ms) = ''!<arch>'' @ [CHR 0x0A]"
    by (simp_all add: archive_bytes_def GLOBAL_SIG_def)
  with ar_for_members [OF assms(2), of 8 "archive_bytes ms" body v] assms(1) show ?thesis
    by (simp add: IterateArchive_def)
qed

theorem IterateArchive_offsets_witness:
  "IterateArchive [''l.a'' \<mapsto> archive_bytes [demo_member ''/'' ''0'' [], demo_member ''a/'' ''1'' ''x'', demo_member ''b/'' ''2'' ''yz'']]
     ''l.a'' (\<lambda>off offs. Inr (offs @ [off])) [] = Some (Inr [128, 190])"
proof -
  let ?ms = "[demo_member ''/'' ''0'' [], demo_member ''a/'' ''1'' ''x'', demo_member ''b/'' ''2'' ''yz'']"
  have ok: "list_all member_ok ?ms" by (simp add: demo_member_eval)
  then have "map (\<lambda>m. length (member_bytes m)) ?ms = [60, 62, 62]"
    by (simp add: length_member_bytes) (simp add: demo_member_def)
  moreover have "rstrip_blank (am_name (demo_member ''/'' ''0'' [])) = ''/''"
    "rstrip_blank (am_name (demo_member ''a/'' ''1'' ''x'')) = ''a/''" "rstrip_blank (am_name (demo_member ''b/'' ''2'' ''yz'')) = ''b/''"
    by (simp_all add: demo_member_def rstrip_blank_def eval_nat_numeral)
  ultimately show ?thesis
    using IterateArchive_offsets [of "[''l.a'' \<mapsto> archive_bytes ?ms]" "''l.a''" ?ms "\<lambda>off offs. Inr (offs @ [off])" "[]"] ok
    by simp
qed

text \<open>A member whose reading leads back to the same state keeps the loop going for ever.\<close>

lemma read_files_diverges:
  assumes "ReadFile s = Inr s" and "ar_cursor s < int (length (ar_content s))"
  shows "read_files s = None"
proof (rule ccontr)
  assume "read_files s \<noteq> None"
  then obtain y where "read_files s = Some y" by blast
  then have "s \<noteq> s"
  proof (rule read_files.raw_induct [where P = "\<lambda>x y. x \<noteq> s", rotated])
    fix rf x y
    assume IH: "\<And>x y. rf x = Some y \<Longrightarrow> x \<noteq> s"
      and "(if ar_cursor x < int (length (ar_content x)) then
          case ReadFile x of Inl e \<Rightarrow> Some (Inl e) | Inr s' \<Rightarrow> rf s' else Some (Inr x)) = Some y"
    then show "x \<noteq> s" using assms IH [of s y] by (auto split: if_splits)
  qed
  then show False by simp
qed

definition looping_archive :: string where
  "looping_archive = GLOBAL_SIG @ header_bytes (demo_member ''a/'' ''-60'' [])"

text \<open>\<open>Parse\<close> need not end: the size field of a member is read with \<open>int\<close> and may be negative, which moves the cursor
  back; for an archive of one header with the size -60 the loop reads this header for ever.\<close>

theorem archive_Parse_diverges: "archive_Parse (Archive looping_archive) = None"
proof -
  let ?m = "demo_member ''a/'' ''-60'' []" and ?s = "Archive looping_archive"
  have h: "take 16 (header_bytes ?m) = am_name ?m" "take 10 (drop 48 (header_bytes ?m)) = am_size ?m"
    "take 2 (drop 58 (header_bytes ?m)) = END_TAG" "length (header_bytes ?m) = 60"
    by (simp_all add: header_bytes_def demo_member_def END_TAG_def)
  have size: "py_int (am_size ?m) = Inr (- 60)" and name: "strip (am_name ?m) = ''a/''"
    by (simp_all add: demo_member_eval)
  have step: "ReadFile (at_pos 8 t) = Inr (at_pos 8 (t\<lparr>ar_files := dict_set ''a'' [] (ar_files t)\<rparr>))"
    if t: "ar_content t = looping_archive" for t
  proof -
    have d: "drop 8 (ar_content t) = header_bytes ?m" and l: "length (ar_content t) = 68"
      using h(4) by (simp_all add: t looping_archive_def GLOBAL_SIG_def)
    have "ReadBytes (- 60) (at_pos 68 t) = Inr ([], at_pos 8 t)"
      using l by (simp add: ReadBytes_def at_pos_def py_slice_def slice_pos_def)
    moreover have "store_member ''a/'' [] u = Inr (u\<lparr>ar_files := dict_set ''a'' [] (ar_files u)\<rparr>)" for u
      by (simp add: store_member_def archive_consts member_key_def endswith_def)
    ultimately show ?thesis
      unfolding ReadFile_eq d h(1-3) size name using h(4) by (simp add: at_pos_def)
  qed
  let ?s1 = "at_pos 8 (?s\<lparr>ar_files := dict_set ''a'' [] (ar_files ?s)\<rparr>)"
  have content: "ar_content ?s = looping_archive" "length looping_archive = 68" "at_pos 8 ?s1 = ?s1"
    using h(4) by (simp_all add: Archive_def looping_archive_def GLOBAL_SIG_def at_pos_def)
  have "read_files ?s1 = None"
  proof (rule read_files_diverges)
    show "ReadFile ?s1 = Inr ?s1"
      using step [of ?s1] content by (simp add: at_pos_def Archive_def)
    show "ar_cursor ?s1 < int (length (ar_content ?s1))" using content by (simp add: at_pos_def)
  qed
  moreover have "read_files (at_pos 8 ?s) = read_files ?s1"
    using step [OF content(1)] content by (subst read_files.simps) (simp add: at_pos_def)
  ultimately show ?thesis using Parse_sig by (metis looping_archive_def)
qed

end
