(* ===== verification/Instrumentation.thy ===== *)
theory Instrumentation
  imports Py_Actions
begin

section \<open>Instrumentation of the framework (utils/python/instrumentation)\<close>

text \<open>
  Events that mark the beginning and the end of phases of the framework. An event is an object that the stack of
  running events, the list of finished events and the caller share, so events live in a store under their identity;
  the two lists are module variables. The clocks \<open>time.clock\<close> and \<open>time.time\<close> are the arguments \<open>cpu\<close> and \<open>wall\<close>, the
  readings of the \<open>n\<close>-th call, in units of the clock; the log is the list of the lines written.
\<close>

subsection \<open>Events\<close>

definition LOGGING_PREFIX :: string where "LOGGING_PREFIX = ''[Instrumentation]''"
definition ILLEGAL_CHARS :: string where "ILLEGAL_CHARS = [CHR '':'', CHR 0x09, CHR 0x0D, CHR 0x0A]"

definition logging_line :: "string \<Rightarrow> string \<Rightarrow> string \<Rightarrow> string" where
  "logging_line category name status = LOGGING_PREFIX @ '' '' @ category @ '': '' @ name @ '' '' @ status"

text \<open>The regular expression is an alternative of single characters.\<close>

definition replace_illegal :: "string \<Rightarrow> string" where
  "replace_illegal s = map (\<lambda>c. if c \<in> set ILLEGAL_CHARS then CHR ''_'' else c) s"

definition NormalizeNameCategory :: "string \<Rightarrow> string \<Rightarrow> string \<times> string" where
  "NormalizeNameCategory name category =
     (if list_ex (\<lambda>c. c \<in> set ILLEGAL_CHARS) (category @ name)
      then (replace_illegal name, replace_illegal category) else (name, category))"

record event =
  ev_category :: string
  ev_name :: string
  ev_status :: nat
  ev_error :: "string option"
  enable_log :: bool
  disable_subevent_log :: bool
  begin_cpu :: int
  begin_wall :: int
  end_cpu :: int
  end_wall :: int

datatype log_line = Debug string | Warning string string | ErrorLine string nat | NotFound string string

record clocks =
  cpu :: "nat \<Rightarrow> int"
  wall :: "nat \<Rightarrow> int"

record instr =
  events :: "nat \<Rightarrow> event"
  next_event :: nat
  event_stack :: "nat list"
  event_data :: "nat list"
  counts :: "((string \<times> string) \<times> int list) list"
  readings :: nat
  log_lines :: "log_line list"

type_synonym 'a instr_action = "(py_error, instr, 'a) raising"

definition upd_event :: "nat \<Rightarrow> (event \<Rightarrow> event) \<Rightarrow> instr \<Rightarrow> instr" where
  "upd_event i f s = s\<lparr>events := (events s)(i := f (events s i))\<rparr>"

definition event_Log :: "nat \<Rightarrow> log_line \<Rightarrow> instr \<Rightarrow> instr" where
  "event_Log i l s = (if enable_log (events s i) then s\<lparr>log_lines := log_lines s @ [l]\<rparr> else s)"

definition new_event :: "string \<Rightarrow> string \<Rightarrow> event" where
  "new_event name category =
     \<lparr>ev_category = snd (NormalizeNameCategory name category), ev_name = fst (NormalizeNameCategory name category),
      ev_status = 0, ev_error = None, enable_log = False, disable_subevent_log = False,
      begin_cpu = - 1, begin_wall = - 1, end_cpu = - 1, end_wall = - 1\<rparr>"

definition Event_init :: "string \<Rightarrow> string \<Rightarrow> instr \<Rightarrow> nat \<times> instr" where
  "Event_init name category s =
     (let i = next_event s;
          s = s\<lparr>events := (events s)(i := new_event name category), next_event := Suc i\<rparr>
      in (i, if (name, category) \<noteq> NormalizeNameCategory name category
             then event_Log i (Warning name category) s else s))"

definition event_Match :: "event \<Rightarrow> string \<Rightarrow> string \<Rightarrow> bool" where
  "event_Match e name category \<longleftrightarrow> category = ev_category e \<and> name = ev_name e"

text \<open>A call that is skipped: the error is logged and recorded.\<close>

definition skip_event :: "nat \<Rightarrow> string \<Rightarrow> string \<Rightarrow> unit instr_action" where
  "skip_event i msg err s = (Inr (), upd_event i (\<lambda>e. e\<lparr>ev_error := Some err\<rparr>) (event_Log i (ErrorLine msg i) s))"

definition set_logging :: "nat \<Rightarrow> bool option \<Rightarrow> bool \<Rightarrow> instr \<Rightarrow> instr" where
  "set_logging i enable_logging disable_subevent_logging s =
     (if event_stack s \<noteq> [] \<and> disable_subevent_log (events s (last (event_stack s)))
      then upd_event i (\<lambda>e. e\<lparr>enable_log := False, disable_subevent_log := True\<rparr>) s
      else upd_event i (\<lambda>e. e\<lparr>enable_log := (case enable_logging of None \<Rightarrow> enable_log e | Some b \<Rightarrow> b),
        disable_subevent_log := disable_subevent_logging\<rparr>) s)"

definition event_Begin :: "clocks \<Rightarrow> nat \<Rightarrow> bool option \<Rightarrow> bool \<Rightarrow> unit instr_action" where
  "event_Begin clk i enable_logging disable_subevent_logging s0 =
     (let n = readings s0;
          s = set_logging i enable_logging disable_subevent_logging (s0\<lparr>readings := Suc n\<rparr>);
          e = events s i
      in if ev_status e = 1 then skip_event i ''has already began. Skipping Begin.'' ''Tried to Begin but already began'' s
         else if ev_status e = 2 then skip_event i ''has already ended. Skipping Begin.'' ''Tried to Begin but already ended'' s
         else if ev_status e = 3
         then skip_event i ''has already been removed. Skipping Begin.'' ''Tried to Begin but already been removed'' s
         else let s = event_Log i (Debug (logging_line (ev_category e) (ev_name e) ''BEGIN'')) s
              in (Inr (), (upd_event i (\<lambda>e. e\<lparr>ev_status := 1, begin_cpu := cpu clk n, begin_wall := wall clk n\<rparr>) s)
                    \<lparr>event_stack := event_stack s @ [i]\<rparr>))"

text \<open>\<open>event_stack.remove(self)\<close>\<close>

definition stack_remove :: "nat \<Rightarrow> unit instr_action" where
  "stack_remove i s =
     (if i \<in> set (event_stack s) then (Inr (), s\<lparr>event_stack := remove1 i (event_stack s)\<rparr>) else (Inl ValueError, s))"

definition event_End :: "clocks \<Rightarrow> nat \<Rightarrow> unit instr_action" where
  "event_End clk i s0 =
     (let n = readings s0; s = s0\<lparr>readings := Suc n\<rparr>; e = events s i
      in if ev_status e = 0 then skip_event i ''has not yet began. Skipping End.'' ''Tried to End but have not began'' s
         else if ev_status e = 2 then skip_event i ''has already ended. Skipping End.'' ''Tried to End but already ended'' s
         else if ev_status e = 3
         then skip_event i ''has already been removed. Skipping End.'' ''Tried to End but already been removed'' s
         else let s = event_Log i (Debug (logging_line (ev_category e) (ev_name e) ''END'')) s;
                  s = upd_event i (\<lambda>e. e\<lparr>ev_status := 2, end_cpu := cpu clk n, end_wall := wall clk n\<rparr>) s
              in stack_remove i (s\<lparr>event_data := event_data s @ [i]\<rparr>))"

definition event_Remove :: "nat \<Rightarrow> string \<Rightarrow> unit instr_action" where
  "event_Remove i remove_reason s =
     (let e = events s i in
      if ev_status e = 3 then (Inr (), s)
      else let s = event_Log i (Debug (logging_line (ev_category e) (ev_name e) ''REMOVE'' @ '' | Reason: '' @ remove_reason)) s
           in stack_remove i (upd_event i (\<lambda>e. e\<lparr>ev_error := Some remove_reason, ev_status := 3\<rparr>) s))"

definition event_CheckEnded :: "nat \<Rightarrow> string \<Rightarrow> unit instr_action" where
  "event_CheckEnded i remove_reason s =
     (if ev_status (events s i) < 2 then event_Remove i remove_reason s else (Inr (), s))"

text \<open>\<open>str(event)\<close>; \<open>num\<close> prints a time.\<close>

definition event_str :: "(int \<Rightarrow> string) \<Rightarrow> event \<Rightarrow> string" where
  "event_str num e =
     (let nl = [CHR 0x0A] in
      ''Event object: @'' @ ev_category e @ '' #'' @ ev_name e @
      nl @ ''  Begin timestamp(CPU): '' @ num (begin_cpu e) @ nl @ ''  End timestamp(CPU): '' @ num (end_cpu e) @
      nl @ ''  Begin timestamp(wall): '' @ num (begin_wall e) @ nl @ ''  End timestamp(wall): '' @ num (end_wall e) @
      nl @ ''  Status: '' @ str_int (int (ev_status e)) @
      nl @ ''  Duration(CPU): '' @ num (end_cpu e - begin_cpu e) @
      nl @ ''  Duration(wall): '' @ num (end_wall e - begin_wall e))"

subsection \<open>The module functions\<close>

definition DEFAULT_CATEGORY :: string where "DEFAULT_CATEGORY = ''Misc''"

definition instr_Begin :: "clocks \<Rightarrow> string \<Rightarrow> string \<Rightarrow> bool option \<Rightarrow> bool \<Rightarrow> nat instr_action" where
  "instr_Begin clk name category enable_logging disable_subevent_logging s =
     (let (i, s) = Event_init name category s
      in seqA (event_Begin clk i enable_logging disable_subevent_logging) (returnA i) s)"

definition FindEvent :: "string \<Rightarrow> string \<Rightarrow> instr \<Rightarrow> nat option" where
  "FindEvent name category s = find (\<lambda>i. event_Match (events s i) name category) (rev (event_stack s))"

definition instr_End :: "clocks \<Rightarrow> string \<Rightarrow> string \<Rightarrow> nat option instr_action" where
  "instr_End clk name category s =
     (case FindEvent name category s of
        None \<Rightarrow> (Inr None, s\<lparr>log_lines := log_lines s @ [NotFound name category]\<rparr>)
      | Some i \<Rightarrow> seqA (event_End clk i) (returnA (Some i)) s)"

definition instr_Count :: "clocks \<Rightarrow> string \<Rightarrow> string \<Rightarrow> unit instr_action" where
  "instr_Count clk name category s =
     (let key = NormalizeNameCategory name category; t = wall clk (readings s);
          times = (case map_of (counts s) key of None \<Rightarrow> [t] | Some ts \<Rightarrow> ts @ [t])
      in (Inr (), s\<lparr>counts := dict_set key times (counts s), readings := Suc (readings s)\<rparr>))"

record event_item =
  item_name :: string
  item_category :: string
  time_cpu :: int
  time_wall :: int
  is_begin :: bool
  duration :: int

definition begin_item :: "event \<Rightarrow> event_item" where
  "begin_item e = \<lparr>item_name = ev_name e, item_category = ev_category e, time_cpu = begin_cpu e, time_wall = begin_wall e,
     is_begin = True, duration = - 1\<rparr>"

definition end_item :: "event \<Rightarrow> event_item" where
  "end_item e = \<lparr>item_name = ev_name e, item_category = ev_category e, time_cpu = end_cpu e, time_wall = end_wall e,
     is_begin = False, duration = end_wall e - begin_wall e\<rparr>"

definition report_items :: "event list \<Rightarrow> event_item list" where
  "report_items es = sort_key time_cpu (map begin_item es @ map end_item es)"

definition indent :: "int \<Rightarrow> string" where
  "indent level = concat (replicate (nat level) ''    '')"

text \<open>\<open>date\<close> prints a time of day and \<open>secs\<close> a duration with four decimals.\<close>

fun text_report_loop :: "(int \<Rightarrow> string) \<Rightarrow> (int \<Rightarrow> string) \<Rightarrow> int \<Rightarrow> event_item list \<Rightarrow> string" where
  "text_report_loop date secs level [] = []"
| "text_report_loop date secs level (e # es) =
     (if is_begin e
      then indent level @ ''Begin ['' @ item_name e @ '' @ '' @ item_category e @ ''] '' @ date (time_wall e) @ [CHR 0x0A] @
        text_report_loop date secs (level + 1) es
      else indent (level - 1) @ ''End   ['' @ item_name e @ '' @ '' @ item_category e @ ''] '' @ date (time_wall e) @ [CHR 0x0A] @
        indent (level - 1) @ secs (duration e) @ [CHR 0x0A] @ text_report_loop date secs (level - 1) es)"

definition GenerateTextReport :: "(int \<Rightarrow> string) \<Rightarrow> (int \<Rightarrow> string) \<Rightarrow> instr \<Rightarrow> string" where
  "GenerateTextReport date secs s = text_report_loop date secs 0 (report_items (map (events s) (event_data s)))"

subsection \<open>Categories\<close>

text \<open>The attributes of the categories object and \<open>Add\<close>; a name starts with an ASCII letter.\<close>

definition CATEGORIES :: "(string \<times> string) list" where
  "CATEGORIES =
     [(''FRAMEWORK_SETUP'', ''Framework setUp''), (''FRAMEWORK_TEARDOWN'', ''Framework tearDown''),
      (''TEST_MODULE_SETUP'', ''Test module setUp''), (''TEST_MODULE_TEARDOWN'', ''Test module tearDown''),
      (''TEST_CLASS_SETUP'', ''Test class setUp''), (''TEST_CLASS_TEARDOWN'', ''Test class tearDown''),
      (''TEST_CASE_SETUP'', ''Test case setUp''), (''TEST_CASE_TEARDOWN'', ''Test case tearDown''),
      (''DEVICE_SETUP'', ''Device setUp''), (''DEVICE_CLEANUP'', ''Device cleanUp''),
      (''FAILED_TEST_CASE_PROCESSING'', ''Failed test case processing''), (''TEST_CASE_EXECUTION'', ''Test case execution''),
      (''RESULT_PROCESSING'', ''Result processing''), (''WAITING_FOR_DEVICE_RESPOND'', ''Waiting for device respond'')]"

definition is_alpha :: "char \<Rightarrow> bool" where
  "is_alpha c = (let n = of_char c :: nat in 65 \<le> n \<and> n \<le> 90 \<or> 97 \<le> n \<and> n \<le> 122)"

definition categories_Add :: "string \<Rightarrow> string \<Rightarrow> (string \<times> string) list \<Rightarrow> bool \<times> (string \<times> string) list" where
  "categories_Add key val cats =
     (case key of [] \<Rightarrow> (False, cats) | c # cs \<Rightarrow> if \<not> is_alpha c then (False, cats) else (True, dict_set key val cats))"

subsection \<open>The life of an event\<close>

text \<open>Every sequence of calls, on any events and whatever the calls raise.\<close>

definition instr_init :: instr where
  "instr_init = \<lparr>events = (\<lambda>_. new_event [] []), next_event = 0, event_stack = [], event_data = [], counts = [], readings = 0, log_lines = []\<rparr>"

inductive instr_reach :: "clocks \<Rightarrow> instr \<Rightarrow> bool" for clk where
  reach_init: "instr_reach clk instr_init"
| reach_create: "instr_reach clk s \<Longrightarrow> instr_reach clk (snd (Event_init n c s))"
| reach_begin: "instr_reach clk s \<Longrightarrow> i < next_event s \<Longrightarrow> instr_reach clk (snd (event_Begin clk i el ds s))"
| reach_end: "instr_reach clk s \<Longrightarrow> i < next_event s \<Longrightarrow> instr_reach clk (snd (event_End clk i s))"
| reach_remove: "instr_reach clk s \<Longrightarrow> i < next_event s \<Longrightarrow> instr_reach clk (snd (event_Remove i r s))"
| reach_check: "instr_reach clk s \<Longrightarrow> i < next_event s \<Longrightarrow> instr_reach clk (snd (event_CheckEnded i r s))"
| reach_Begin: "instr_reach clk s \<Longrightarrow> instr_reach clk (snd (instr_Begin clk n c el ds s))"
| reach_End: "instr_reach clk s \<Longrightarrow> instr_reach clk (snd (instr_End clk n c s))"
| reach_Count: "instr_reach clk s \<Longrightarrow> instr_reach clk (snd (instr_Count clk n c s))"

text \<open>What the calls do to the status of the events and to the lists; names, categories and the rest do not matter.\<close>

definition status :: "instr \<Rightarrow> nat \<Rightarrow> nat" where
  "status s i = ev_status (events s i)"

text \<open>The part of the state that the invariant speaks about.\<close>

definition core :: "instr \<Rightarrow> nat \<times> (nat \<Rightarrow> nat) \<times> nat list \<times> nat list" where
  "core s = (next_event s, status s, event_stack s, event_data s)"

definition core_ok :: "nat \<times> (nat \<Rightarrow> nat) \<times> nat list \<times> nat list \<Rightarrow> bool" where
  "core_ok = (\<lambda>(n, st, stack, data).
     distinct stack \<and> set stack = {i. i < n \<and> st i = 1} \<and> distinct data \<and>
     {i. i < n \<and> st i = 2} \<subseteq> set data \<and> set data \<subseteq> {i. i < n \<and> (st i = 2 \<or> st i = 3)} \<and> (\<forall>i. st i \<le> 3))"

definition instr_ok :: "instr \<Rightarrow> bool" where
  "instr_ok s \<longleftrightarrow> core_ok (core s)"

lemma fold_status [simp]: "ev_status (events s i) = status s i"
  by (simp add: status_def)

lemma status_upd [simp]: "status (upd_event i f s) = (status s)(i := ev_status (f (events s i)))"
  "event_stack (upd_event i f s) = event_stack s" "event_data (upd_event i f s) = event_data s"
  "next_event (upd_event i f s) = next_event s" "events (upd_event i f s) i = f (events s i)"
  by (simp_all add: status_def upd_event_def fun_eq_iff del: fold_status)

lemma status_log [simp]: "status (event_Log i l s) = status s" "events (event_Log i l s) = events s"
  "event_stack (event_Log i l s) = event_stack s" "event_data (event_Log i l s) = event_data s"
  "next_event (event_Log i l s) = next_event s"
  by (simp_all add: event_Log_def status_def fun_eq_iff del: fold_status)

lemma status_fields [simp]: "status (s\<lparr>readings := n\<rparr>) = status s" "status (s\<lparr>event_stack := xs\<rparr>) = status s"
  "status (s\<lparr>event_data := xs\<rparr>) = status s" "status (s\<lparr>log_lines := ls\<rparr>) = status s"
  "status (s\<lparr>counts := d\<rparr>) = status s"
  by (simp_all add: status_def fun_eq_iff del: fold_status)

lemma status_set_logging [simp]: "status (set_logging i el ds s) = status s" "event_stack (set_logging i el ds s) = event_stack s"
  "event_data (set_logging i el ds s) = event_data s" "next_event (set_logging i el ds s) = next_event s"
  by (simp_all add: set_logging_def)

lemma core_skip [simp]: "fst (skip_event i m e s) = Inr ()" "core (snd (skip_event i m e s)) = core s"
  by (simp_all add: skip_event_def core_def)

lemma core_create: "core (snd (Event_init n c s)) = (Suc (next_event s), (status s)(next_event s := 0), event_stack s, event_data s)"
  "fst (Event_init n c s) = next_event s"
  by (simp_all add: Event_init_def Let_def core_def) (auto simp: status_def new_event_def fun_eq_iff simp del: fold_status)

lemma core_begin:
  "core (snd (event_Begin clk i el ds s)) =
     (if status s i \<in> {1, 2, 3} then core s
      else (next_event s, (status s)(i := 1), event_stack s @ [i], event_data s))"
  "fst (event_Begin clk i el ds s) = Inr ()"
proof -
  let ?s = "set_logging i el ds (s\<lparr>readings := Suc (readings s)\<rparr>)"
  have "core ?s = core s" by (simp add: core_def)
  then show "core (snd (event_Begin clk i el ds s)) =
     (if status s i \<in> {1, 2, 3} then core s
      else (next_event s, (status s)(i := 1), event_stack s @ [i], event_data s))"
    by (simp add: event_Begin_def Let_def) (simp add: core_def)
  show "fst (event_Begin clk i el ds s) = Inr ()" by (simp add: event_Begin_def Let_def)
qed

lemma core_remove1: "stack_remove i s =
   (if i \<in> set (event_stack s) then (Inr (), s\<lparr>event_stack := remove1 i (event_stack s)\<rparr>) else (Inl ValueError, s))"
  by (simp add: stack_remove_def)

lemma core_end:
  "core (snd (event_End clk i s)) =
     (if status s i \<in> {0, 2, 3} then core s
      else (next_event s, (status s)(i := 2), remove1 i (event_stack s), event_data s @ [i]))"
  "fst (event_End clk i s) = (if status s i \<in> {0, 2, 3} \<or> i \<in> set (event_stack s) then Inr () else Inl ValueError)"
proof -
  show "core (snd (event_End clk i s)) =
     (if status s i \<in> {0, 2, 3} then core s
      else (next_event s, (status s)(i := 2), remove1 i (event_stack s), event_data s @ [i]))"
    by (simp add: event_End_def Let_def stack_remove_def) (simp add: core_def remove1_idem)
  show "fst (event_End clk i s) = (if status s i \<in> {0, 2, 3} \<or> i \<in> set (event_stack s) then Inr () else Inl ValueError)"
    by (simp add: event_End_def Let_def stack_remove_def)
qed

lemma core_remove:
  "core (snd (event_Remove i r s)) =
     (if status s i = 3 then core s else (next_event s, (status s)(i := 3), remove1 i (event_stack s), event_data s))"
  "fst (event_Remove i r s) = (if status s i = 3 \<or> i \<in> set (event_stack s) then Inr () else Inl ValueError)"
  by (simp_all add: event_Remove_def Let_def stack_remove_def) (simp add: core_def remove1_idem)

subsection \<open>Every step keeps the invariant\<close>

lemma core_ok_create: "core_ok (n, st, stack, data) \<Longrightarrow> core_ok (Suc n, st(n := 0), stack, data)"
  by (auto simp: core_ok_def less_Suc_eq)

lemma core_ok_begin: "core_ok (n, st, stack, data) \<Longrightarrow> i < n \<Longrightarrow> st i = 0 \<Longrightarrow> core_ok (n, st(i := 1), stack @ [i], data)"
  by (auto simp: core_ok_def)

lemma core_ok_end: "core_ok (n, st, stack, data) \<Longrightarrow> i < n \<Longrightarrow> st i = 1 \<Longrightarrow> core_ok (n, st(i := 2), remove1 i stack, data @ [i])"
  by (auto simp: core_ok_def)

lemma core_ok_remove: "core_ok (n, st, stack, data) \<Longrightarrow> i < n \<Longrightarrow> core_ok (n, st(i := 3), remove1 i stack, data)"
  by (auto simp: core_ok_def)

lemma instr_ok_simps: "instr_ok s \<longleftrightarrow> core_ok (next_event s, status s, event_stack s, event_data s)"
  by (simp add: instr_ok_def core_def)

lemma instr_ok_create: "instr_ok s \<Longrightarrow> instr_ok (snd (Event_init n c s))"
  by (simp add: instr_ok_def core_create(1)) (simp add: core_def core_ok_create)

lemma status_le: "instr_ok s \<Longrightarrow> status s i \<le> 3"
  by (auto simp: instr_ok_simps core_ok_def)

lemma instr_ok_begin: "instr_ok s \<Longrightarrow> i < next_event s \<Longrightarrow> instr_ok (snd (event_Begin clk i el ds s))"
proof -
  assume ok: "instr_ok s" and i: "i < next_event s"
  show ?thesis
  proof (cases "status s i \<in> {1, 2, 3}")
    case True
    with ok show ?thesis by (simp only: instr_ok_def core_begin if_True)
  next
    case False
    with status_le [OF ok, of i] have "status s i = 0" by auto
    with ok i have "core_ok (next_event s, (status s)(i := 1), event_stack s @ [i], event_data s)"
      by (intro core_ok_begin) (simp_all add: instr_ok_simps)
    with False show ?thesis by (simp only: instr_ok_def core_begin if_False)
  qed
qed

lemma instr_ok_end: "instr_ok s \<Longrightarrow> i < next_event s \<Longrightarrow> instr_ok (snd (event_End clk i s))"
proof -
  assume ok: "instr_ok s" and i: "i < next_event s"
  show ?thesis
  proof (cases "status s i \<in> {0, 2, 3}")
    case True
    with ok show ?thesis by (simp only: instr_ok_def core_end if_True)
  next
    case False
    with status_le [OF ok, of i] have "status s i = 1" by auto
    with ok i have "core_ok (next_event s, (status s)(i := 2), remove1 i (event_stack s), event_data s @ [i])"
      by (intro core_ok_end) (simp_all add: instr_ok_simps)
    with False show ?thesis by (simp only: instr_ok_def core_end if_False)
  qed
qed

lemma instr_ok_remove: "instr_ok s \<Longrightarrow> i < next_event s \<Longrightarrow> instr_ok (snd (event_Remove i r s))"
  by (auto simp: instr_ok_def core_remove) (auto simp: core_def intro!: core_ok_remove)

lemma FindEvent_Some:
  "FindEvent n c s = Some i \<Longrightarrow> i \<in> set (event_stack s) \<and> event_Match (events s i) n c"
  unfolding FindEvent_def by (metis find_Some_iff nth_mem set_rev)

lemma stack_facts:
  assumes "instr_ok s" and "i \<in> set (event_stack s)"
  shows "i < next_event s" "status s i = 1"
  using assms by (auto simp: instr_ok_simps core_ok_def)

lemma next_create: "next_event (snd (Event_init n c s)) = Suc (next_event s)"
  using core_create(1) [of n c s] by (simp add: core_def)

lemma instr_ok_Begin: "instr_ok s \<Longrightarrow> instr_ok (snd (instr_Begin clk n c el ds s))"
proof -
  assume "instr_ok s"
  obtain i s1 where s1: "Event_init n c s = (i, s1)" by fastforce
  with core_create(2) [of n c s] next_create [of n c s] have "i < next_event s1" by simp
  moreover have "instr_ok s1" using instr_ok_create [OF \<open>instr_ok s\<close>, of n c] s1 by simp
  ultimately have "instr_ok (snd (event_Begin clk i el ds s1))" by (intro instr_ok_begin)
  then show ?thesis
    using core_begin(2) [of clk i el ds s1]
    by (cases "event_Begin clk i el ds s1") (simp add: instr_Begin_def s1 seqA_def bindA_def returnA_def)
qed

lemma instr_End_found:
  assumes "FindEvent n c s = Some i" and "instr_ok s"
  shows "instr_End clk n c s = (Inr (Some i), snd (event_End clk i s))"
proof -
  have "fst (event_End clk i s) = Inr ()" using FindEvent_Some [OF assms(1)] by (simp add: core_end)
  then show ?thesis
    using assms(1) by (cases "event_End clk i s") (simp add: instr_End_def seqA_def bindA_def returnA_def)
qed

lemma instr_ok_End: "instr_ok s \<Longrightarrow> instr_ok (snd (instr_End clk n c s))"
proof (cases "FindEvent n c s")
  case None
  assume "instr_ok s"
  with None show ?thesis by (simp add: instr_End_def instr_ok_simps)
next
  case (Some i)
  assume ok: "instr_ok s"
  with Some stack_facts(1) FindEvent_Some have "i < next_event s" by blast
  with ok Some show ?thesis by (simp add: instr_End_found instr_ok_end)
qed

subsection \<open>Properties\<close>



text \<open>Ending an event by name ends the right one: in every reachable state \<open>End\<close> never raises; it returns \<open>None\<close> and
  changes no event if no running event has this name and category, and otherwise ends the one that began last
  among them: it leaves the stack, joins the finished events and no other event changes its status.\<close>

theorem End_ends_latest:
  assumes "instr_ok s"
  shows "(case instr_End clk n c s of
      (Inl e, s') \<Rightarrow> False
    | (Inr None, s') \<Rightarrow> \<not> list_ex (\<lambda>i. event_Match (events s i) n c) (event_stack s) \<and> core s' = core s
    | (Inr (Some i), s') \<Rightarrow> \<exists>older newer. event_stack s = older @ i # newer \<and> event_Match (events s i) n c \<and>
        \<not> list_ex (\<lambda>j. event_Match (events s j) n c) newer \<and>
        core s' = (next_event s, (status s)(i := 2), older @ newer, event_data s @ [i]))"
proof (cases "FindEvent n c s")
  case None
  then have "\<not> list_ex (\<lambda>i. event_Match (events s i) n c) (event_stack s)"
    by (auto simp: FindEvent_def find_None_iff list_ex_iff)
  with None show ?thesis by (simp add: instr_End_def core_def)
next
  case (Some i)
  note found = FindEvent_Some [OF Some] and st = stack_facts [OF assms]
  from Some obtain newer older where split: "rev (event_stack s) = newer @ i # older"
    and "\<not> list_ex (\<lambda>j. event_Match (events s j) n c) newer"
    unfolding FindEvent_def find_Some_iff list_ex_iff
    by (metis id_take_nth_drop in_set_conv_nth length_take less_imp_le_nat min.absorb2 nth_take)
  moreover from split have "event_stack s = rev older @ i # rev newer" by (metis rev_rev_ident rev_append rev.simps(2) append_assoc append_Cons append_Nil)
  moreover from this have "remove1 i (event_stack s) = rev older @ rev newer"
    using assms by (auto simp: instr_ok_simps core_ok_def remove1_append)
  moreover have "core (snd (event_End clk i s)) = (next_event s, (status s)(i := 2), remove1 i (event_stack s), event_data s @ [i])"
    using st(2) found by (simp add: core_end)
  ultimately show ?thesis
    using found unfolding instr_End_found [OF Some assms] prod.case sum.case option.case
    by (intro exI [of _ "rev older"] exI [of _ "rev newer"]) (simp add: list_ex_iff)
qed

lemma begun_event:
  "let s = snd (instr_Begin clk n c el ds instr_init)
   in event_stack s = [0] \<and> next_event s = 1 \<and> event_data s = [] \<and>
      ev_name (events s 0) = fst (NormalizeNameCategory n c) \<and> ev_category (events s 0) = snd (NormalizeNameCategory n c)"
  by (simp add: instr_Begin_def Event_init_def event_Begin_def instr_init_def new_event_def Let_def event_Log_def set_logging_def
      upd_event_def seqA_def bindA_def returnA_def status_def del: fold_status)

theorem End_ends_latest_witness:
  "\<exists>s'. instr_End \<lparr>cpu = int, wall = int\<rparr> ''b'' ''Misc'' (snd (instr_Begin \<lparr>cpu = int, wall = int\<rparr> ''b'' ''Misc'' None False instr_init)) =
     (Inr (Some 0), s') \<and> event_stack s' = [] \<and> event_data s' = [0]"
proof -
  let ?clk = "\<lparr>cpu = int, wall = int\<rparr>"
  let ?s = "snd (instr_Begin ?clk ''b'' ''Misc'' None False instr_init)"
  have ok: "instr_ok ?s"
    by (intro instr_ok_Begin) (simp add: instr_ok_simps core_ok_def instr_init_def status_def new_event_def del: fold_status)
  have s: "event_stack ?s = [0]" "event_data ?s = []" "event_Match (events ?s 0) ''b'' ''Misc''"
    using begun_event [of ?clk "''b''" "''Misc''" None False]
    by (simp_all add: Let_def event_Match_def NormalizeNameCategory_def ILLEGAL_CHARS_def)
  then have "FindEvent ''b'' ''Misc'' ?s = Some 0" by (simp add: FindEvent_def)
  from instr_End_found [OF this ok] End_ends_latest [where clk = ?clk and n = "''b''" and c = "''Misc''", OF ok] s show ?thesis
    by (auto simp: core_def Cons_eq_append_conv)
qed

text \<open>Removing is not safe in general although the documentation allows it to be repeated: on an event that has not
  begun or has already ended, \<open>Remove\<close> marks the event as removed and then raises \<open>ValueError\<close>, since the event is not
  on the stack; on a running or removed event it succeeds.\<close>

theorem Remove_raises:
  assumes "instr_ok s" and "i < next_event s"
  shows "fst (event_Remove i r s) = (if status s i \<in> {0, 2} then Inl ValueError else Inr ()) \<and>
    status (snd (event_Remove i r s)) i = 3"
proof -
  have "i \<in> set (event_stack s) \<longleftrightarrow> status s i = 1" "status s i \<le> 3"
    using assms by (auto simp: instr_ok_simps core_ok_def)
  moreover have "status s i = 0 \<or> status s i = 1 \<or> status s i = 2 \<or> status s i = 3" if "status s i \<le> 3" using that by arith
  ultimately have "fst (event_Remove i r s) = (if status s i \<in> {0, 2} then Inl ValueError else Inr ())"
    by (auto simp: core_remove)
  moreover have "status (snd (event_Remove i r s)) i = 3"
    using core_remove(1) [of i r s] by (auto simp: core_def split: if_splits)
  ultimately show ?thesis by simp
qed

theorem Remove_raises_witness:
  "fst (event_Remove 0 ''late'' (snd (Event_init ''a'' ''Misc'' instr_init))) = Inl ValueError"
proof -
  let ?s = "snd (Event_init ''a'' ''Misc'' instr_init)"
  have "instr_ok ?s" by (intro instr_ok_create) (simp add: instr_ok_simps core_ok_def instr_init_def status_def new_event_def del: fold_status)
  moreover have "next_event ?s = 1" "status ?s 0 = 0"
    using core_create(1) [of "''a''" "''Misc''" instr_init] by (simp_all add: core_def instr_init_def)
  ultimately show ?thesis using Remove_raises [of ?s 0 "''late''"] by simp
qed

text \<open>
  An event whose name has an illegal character is kept under the replaced name, and \<open>End\<close> compares with the name as
  given: it can not be ended by its name.
\<close>

definition legal :: "string \<Rightarrow> bool" where
  "legal s \<longleftrightarrow> \<not> list_ex (\<lambda>c. c \<in> set ILLEGAL_CHARS) s"

lemma legal_replaced: "legal (replace_illegal s)"
  by (auto simp: legal_def replace_illegal_def ILLEGAL_CHARS_def list_ex_iff)

lemma legal_normalized: "legal (fst (NormalizeNameCategory n c))" "legal (snd (NormalizeNameCategory n c))"
  using legal_replaced by (auto simp: NormalizeNameCategory_def legal_def list_ex_iff)

lemma End_misses_illegal:
  assumes "\<not> legal (n @ c)"
  shows "fst (instr_End clk n c (snd (instr_Begin clk n c el ds instr_init))) = Inr None"
proof -
  let ?s = "snd (instr_Begin clk n c el ds instr_init)"
  have "\<not> event_Match (events ?s 0) n c"
    using assms legal_normalized [of n c] begun_event [of clk n c el ds]
    by (auto simp: event_Match_def Let_def legal_def)
  then have "FindEvent n c ?s = None"
    using begun_event [of clk n c el ds] by (simp add: FindEvent_def Let_def)
  then show ?thesis by (simp add: instr_End_def)
qed

end
