(* ===== verification/Vts_Spec.thy ===== *)
theory Vts_Spec
  imports Py_Prelude "HOL-Library.Char_ord" "HOL-Library.List_Lexorder" "HOL-Library.Product_Lexorder"
begin

section \<open>Interface specifications (utils/python/common/vts\_spec\_utils.py)\<close>

text \<open>
  \<open>VtsSpecParser\<close> finds the specification files of a HAL and the HALs that they import. The file system and the
  parser of protocol buffer texts are parameters: a record with the listing of a directory, the contents of a file, the
  parser and the field \<open>import\<close> of a message; \<^const>\<open>None\<close> stands for the \<open>OSError\<close>, \<open>IOError\<close> or \<open>ParseError\<close> that the
  call raises. A HAL is the pair of its name and version. A Python set that is only tested and sorted is a list without
  repetitions; tuples of strings are ordered lexicographically.
\<close>

type_synonym hal = "string \<times> string"

datatype spec_error = OSError | ParseError | PyError py_error

record 'm spec_env =
  listdir :: "string \<Rightarrow> string list option"
  read_text :: "string \<Rightarrow> string option"
  text_format_Merge :: "string \<Rightarrow> 'm option"
  import_field :: "'m \<Rightarrow> string list"

definition or_raise :: "'e \<Rightarrow> 'a option \<Rightarrow> 'e + 'a" where
  "or_raise e x = (case x of None \<Rightarrow> Inl e | Some y \<Rightarrow> Inr y)"

lemma or_raise_simps [simp]: "or_raise e None = Inl e" "or_raise e (Some y) = Inr y"
  by (simp_all add: or_raise_def)

subsection \<open>Names, versions and directories\<close>

definition HAL_PREFIX :: string where "HAL_PREFIX = ''android.hardware.''"

definition HalPackageToNameAndVersion :: "string \<Rightarrow> py_error + hal" where
  "HalPackageToNameAndVersion hal_package =
     (case split_at ''@'' (drop (length HAL_PREFIX) hal_package) of
        [hal_name, hal_version] \<Rightarrow> Inr (hal_name, hal_version)
      | _ \<Rightarrow> Inl ValueError)"

definition replace_char :: "char \<Rightarrow> char \<Rightarrow> string \<Rightarrow> string" where
  "replace_char a b s = map (\<lambda>c. if c = a then b else c) s"

definition HalNameDir :: "string \<Rightarrow> string" where
  "HalNameDir hal_name = replace_char CHR ''.'' CHR ''/'' hal_name"

definition HalVerDir :: "string \<Rightarrow> string" where
  "HalVerDir hal_version = ''V'' @ replace_char CHR ''.'' CHR ''_'' hal_version"

definition VtsSpecDir :: "string \<Rightarrow> hal \<Rightarrow> string" where
  "VtsSpecDir data_file_path = (\<lambda>(hal_name, hal_version).
     path_join [data_file_path, ''spec'', ''hardware'', ''interfaces'', replace_char CHR ''.'' CHR ''/'' hal_name, hal_version, ''vts''])"

subsection \<open>Reading the specifications\<close>

definition VtsSpecNames :: "'m spec_env \<Rightarrow> string \<Rightarrow> hal \<Rightarrow> spec_error + string list" where
  "VtsSpecNames env dir h =
     bindR (or_raise OSError (listdir env (VtsSpecDir dir h))) (\<lambda>names.
       Inr (sort (filter (\<lambda>x. endswith x ''.vts'') names)))"

text \<open>\<open>VtsSpecProto\<close> with a name, and without one.\<close>

definition VtsSpecProto_named :: "'m spec_env \<Rightarrow> string \<Rightarrow> hal \<Rightarrow> string \<Rightarrow> spec_error + 'm option" where
  "VtsSpecProto_named env dir h vts_spec_name =
     bindR (VtsSpecNames env dir h) (\<lambda>names.
       if vts_spec_name \<in> set names
       then bindR (or_raise (PyError IOError) (read_text env (path_join [VtsSpecDir dir h, vts_spec_name]))) (\<lambda>vts_spec_string.
            bindR (or_raise ParseError (text_format_Merge env vts_spec_string)) (\<lambda>vts_spec_proto. Inr (Some vts_spec_proto)))
       else Inr None)"

definition VtsSpecProto :: "'m spec_env \<Rightarrow> string \<Rightarrow> hal \<Rightarrow> spec_error + 'm option list" where
  "VtsSpecProto env dir h = bindR (VtsSpecNames env dir h) (mapR (VtsSpecProto_named env dir h))"

text \<open>The body of the loop over the imported packages; \<open>split\<close> cuts off the type, as in \<open>android.hardware.foo@1.0::types\<close>.\<close>

definition add_package :: "string \<Rightarrow> hal list \<Rightarrow> spec_error + hal list" where
  "add_package package hals =
     (if startswith package ''android.hardware.''
      then case HalPackageToNameAndVersion (hd (split_at ''::'' package)) of
             Inl e \<Rightarrow> Inl (PyError e)
           | Inr h \<Rightarrow> Inr (List.insert h hals)
      else Inr hals)"

definition package_imports :: "'m spec_env \<Rightarrow> 'm option \<Rightarrow> string list" where
  "package_imports env vts_spec = (case vts_spec of None \<Rightarrow> [] | Some m \<Rightarrow> import_field env m)"

definition ImportedHals :: "'m spec_env \<Rightarrow> string \<Rightarrow> hal \<Rightarrow> spec_error + hal list" where
  "ImportedHals env dir this_hal =
     bindR (VtsSpecProto env dir this_hal) (\<lambda>vts_spec_protos.
     bindR (foldR (\<lambda>vts_spec. foldR add_package (package_imports env vts_spec)) vts_spec_protos []) (\<lambda>imported_hals.
       Inr (sort (removeAll this_hal imported_hals))))"

subsection \<open>The transitive imports\<close>

text \<open>
  The loop runs over a list that its body extends. It may run forever if there are infinitely many HALs, so that it is a
  partial function; not returning is \<^const>\<open>None\<close>.
\<close>

definition append_new :: "'a list \<Rightarrow> 'a list \<Rightarrow> 'a list" where
  "append_new = fold (\<lambda>discovery hals. if discovery \<in> set hals then hals else hals @ [discovery])"

partial_function (option) indirect_loop :: "('a \<Rightarrow> 'e + 'a list) \<Rightarrow> nat \<Rightarrow> 'a list \<Rightarrow> ('e + 'a list) option" where
  "indirect_loop imported i hals =
     (if i < length hals
      then case imported (hals ! i) of
             Inl e \<Rightarrow> Some (Inl e)
           | Inr discoveries \<Rightarrow> indirect_loop imported (Suc i) (append_new discoveries hals)
      else Some (Inr hals))"

declare indirect_loop.simps [code]

definition IndirectImportedHals :: "'m spec_env \<Rightarrow> string \<Rightarrow> hal \<Rightarrow> (spec_error + hal list) option" where
  "IndirectImportedHals env dir this_hal =
     map_option (\<lambda>r. bindR r (\<lambda>imported_hals. Inr (sort (remove1 this_hal imported_hals))))
       (indirect_loop (ImportedHals env dir) 0 [this_hal])"

subsection \<open>Package names\<close>

text \<open>A package name splits into exactly the HAL name and the version it was made from, and
  \<open>HalPackageToNameAndVersion\<close> raises exactly for the names that do not have one \<open>@\<close> after the prefix.\<close>

theorem package_name_round_trip:
  "(CHR ''@'' \<notin> set n \<and> CHR ''@'' \<notin> set v \<longrightarrow> HalPackageToNameAndVersion (HAL_PREFIX @ n @ ''@'' @ v) = Inr (n, v)) \<and>
   (HalPackageToNameAndVersion (HAL_PREFIX @ s) = Inl ValueError \<longleftrightarrow> length (filter ((=) CHR ''@'') s) \<noteq> 1) \<and>
   (HalPackageToNameAndVersion (HAL_PREFIX @ s) = Inr (n, v) \<longrightarrow> s = n @ ''@'' @ v)"
proof (intro conjI impI)
  have two: "(case xs of [a, b] \<Rightarrow> Inr (a, b) | _ \<Rightarrow> Inl ValueError) = Inl ValueError \<longleftrightarrow> length xs \<noteq> 2" for xs :: "string list"
    by (auto split: list.splits)
  show "HalPackageToNameAndVersion (HAL_PREFIX @ s) = Inl ValueError \<longleftrightarrow> length (filter ((=) CHR ''@'') s) \<noteq> 1"
    using two [of "split_at ''@'' s"] length_split_at_char [of "CHR ''@''" s] by (simp add: HalPackageToNameAndVersion_def)
  show "s = n @ ''@'' @ v" if "HalPackageToNameAndVersion (HAL_PREFIX @ s) = Inr (n, v)"
    using that str_join_split [of "''@''" s] by (auto simp: HalPackageToNameAndVersion_def split: list.splits)
qed (simp add: HalPackageToNameAndVersion_def split_at_char_append split_at_char_plain)

theorem package_name_round_trip_witness:
  "HalPackageToNameAndVersion ''android.hardware.vibrator@1.0'' = Inr (''vibrator'', ''1.0'')"
  using package_name_round_trip [of "''vibrator''" "''1.0''" "[]"] by (simp add: HAL_PREFIX_def)

subsection \<open>The loop visits the closure\<close>

lemma set_append_new [simp]: "set (append_new ds hals) = set ds \<union> set hals"
  unfolding append_new_def by (induction ds arbitrary: hals) auto

lemma distinct_append_new: "distinct hals \<Longrightarrow> distinct (append_new ds hals)"
  unfolding append_new_def by (induction ds arbitrary: hals) auto

lemma append_new_extends: "\<exists>zs. append_new ds hals = hals @ zs"
  unfolding append_new_def by (induction ds arbitrary: hals) (auto, metis append_assoc)

text \<open>The HALs that a HAL imports directly, and the relation.\<close>

definition imports_of :: "('a \<Rightarrow> 'e + 'a list) \<Rightarrow> ('a \<times> 'a) set" where
  "imports_of imported = {(h, d). \<exists>ds. imported h = Inr ds \<and> d \<in> set ds}"

definition worklist_ok :: "('a \<Rightarrow> 'e + 'a list) \<Rightarrow> 'a \<Rightarrow> nat \<Rightarrow> 'a list \<Rightarrow> bool" where
  "worklist_ok imported h i hals \<longleftrightarrow>
     i \<le> length hals \<and> distinct hals \<and> h \<in> set hals \<and> (\<forall>x \<in> set hals. (h, x) \<in> (imports_of imported)\<^sup>*) \<and>
     (\<forall>j < i. \<exists>ds. imported (hals ! j) = Inr ds \<and> set ds \<subseteq> set hals)"

lemma worklist_step:
  assumes "worklist_ok imported h i hals" "i < length hals" "imported (hals ! i) = Inr ds"
  shows "worklist_ok imported h (Suc i) (append_new ds hals)"
proof -
  obtain zs where zs: "append_new ds hals = hals @ zs" using append_new_extends by blast
  have "(h, d) \<in> (imports_of imported)\<^sup>*" if "d \<in> set ds" for d
  proof (rule rtrancl_into_rtrancl)
    show "(h, hals ! i) \<in> (imports_of imported)\<^sup>*" using assms(1,2) by (simp add: worklist_ok_def)
    show "(hals ! i, d) \<in> imports_of imported" using assms(3) that by (simp add: imports_of_def)
  qed
  moreover have "\<exists>ds'. imported (append_new ds hals ! j) = Inr ds' \<and> set ds' \<subseteq> set (append_new ds hals)" if "j < Suc i" for j
  proof (cases "j = i")
    case True
    with assms(2,3) zs have "append_new ds hals ! j = hals ! i" by (simp add: nth_append)
    with assms(3) show ?thesis by simp
  next
    case False
    with that assms(1) obtain ds' where "j < i" "imported (hals ! j) = Inr ds'" "set ds' \<subseteq> set hals"
      by (auto simp: worklist_ok_def less_Suc_eq)
    with assms(2) zs show ?thesis by (auto simp: nth_append simp del: set_append_new)
  qed
  moreover have "Suc i \<le> length (append_new ds hals)" using assms(2) by (simp add: zs)
  ultimately show ?thesis using assms(1) by (auto simp: worklist_ok_def distinct_append_new)
qed

lemma worklist_done:
  assumes "worklist_ok imported h (length hals) hals"
  shows "set hals = (imports_of imported)\<^sup>* `` {h} \<and> (\<forall>x \<in> set hals. \<exists>ds. imported x = Inr ds)"
proof -
  have closed: "\<exists>ds. imported x = Inr ds \<and> set ds \<subseteq> set hals" if "x \<in> set hals" for x
    using assms that by (metis in_set_conv_nth worklist_ok_def)
  have "x \<in> set hals" if "(h, x) \<in> (imports_of imported)\<^sup>*" for x
    using that
  proof (induction rule: rtrancl_induct)
    case base
    then show ?case using assms by (simp add: worklist_ok_def)
  next
    case (step y z)
    then obtain ds where "imported y = Inr ds" "z \<in> set ds" by (auto simp: imports_of_def)
    with closed [OF step.IH] show ?case by auto
  qed
  then have "(imports_of imported)\<^sup>* `` {h} \<subseteq> set hals" by auto
  moreover have "set hals \<subseteq> (imports_of imported)\<^sup>* `` {h}" using assms by (auto simp: worklist_ok_def)
  ultimately show ?thesis using closed by blast
qed

lemma indirect_loop_returns:
  assumes "finite ((imports_of imported)\<^sup>* `` {h})" and "worklist_ok imported h i hals"
  shows "\<exists>r. indirect_loop imported i hals = Some r \<and>
    (case r of
       Inl e \<Rightarrow> \<exists>x. (h, x) \<in> (imports_of imported)\<^sup>* \<and> imported x = Inl e
     | Inr hs \<Rightarrow> worklist_ok imported h (length hs) hs)"
  using assms(2)
proof (induction "card ((imports_of imported)\<^sup>* `` {h}) - i" arbitrary: i hals rule: less_induct)
  case less
  let ?R = "(imports_of imported)\<^sup>* `` {h}"
  show ?case
  proof (cases "i < length hals")
    case False
    with less.prems have "i = length hals" by (simp add: worklist_ok_def)
    moreover from False have "indirect_loop imported i hals = Some (Inr hals)" by (simp add: indirect_loop.simps)
    ultimately show ?thesis using less.prems by simp
  next
    case True
    have "length hals = card (set hals)" "set hals \<subseteq> ?R"
      using less.prems by (auto simp: worklist_ok_def distinct_card)
    with True assms(1) have bound: "i < card ?R" by (metis card_mono order.strict_trans2)
    show ?thesis
    proof (cases "imported (hals ! i)")
      case (Inl e)
      with True less.prems show ?thesis by (auto simp: indirect_loop.simps [of _ i] worklist_ok_def)
    next
      case (Inr ds)
      from less.hyps [OF _ worklist_step [OF less.prems True Inr]] bound True Inr show ?thesis
        by (simp add: indirect_loop.simps [of _ i])
    qed
  qed
qed

lemma sorted_remove1: "distinct xs \<Longrightarrow> sort (remove1 x xs) = sorted_list_of_set (set xs - {x})"
  by (metis distinct_remove1 set_remove1_eq sorted_list_of_set_sort_remdups distinct_remdups_id)

text \<open>(C30) The search for indirect imports ends and finds the transitive imports: if a finite set of HALs contains the
  given one and all HALs that its members import, then \<open>IndirectImportedHals\<close> returns; the result is the sorted list of all HALs
  reachable by imports without the given one, or the error of reading one reachable HAL. No list is returned when
  a reachable HAL can not be read.\<close>

theorem IndirectImportedHals_closure:
  assumes "finite H" and "this_hal \<in> H"
    and "\<And>h d. h \<in> H \<Longrightarrow> (h, d) \<in> imports_of (ImportedHals env dir) \<Longrightarrow> d \<in> H"
  shows "\<exists>r. IndirectImportedHals env dir this_hal = Some r \<and>
    (case r of
       Inl e \<Rightarrow> \<exists>h. (this_hal, h) \<in> (imports_of (ImportedHals env dir))\<^sup>* \<and> ImportedHals env dir h = Inl e
     | Inr hals \<Rightarrow>
         hals = sorted_list_of_set ((imports_of (ImportedHals env dir))\<^sup>* `` {this_hal} - {this_hal}) \<and>
         (\<forall>h \<in> insert this_hal (set hals). \<exists>ds. ImportedHals env dir h = Inr ds))"
proof -
  let ?imp = "ImportedHals env dir"
  have "(this_hal, x) \<in> (imports_of ?imp)\<^sup>* \<Longrightarrow> x \<in> H" for x
    by (induction rule: rtrancl_induct) (use assms in auto)
  then have "(imports_of ?imp)\<^sup>* `` {this_hal} \<subseteq> H" by blast
  then have fin: "finite ((imports_of ?imp)\<^sup>* `` {this_hal})" using assms(1) by (rule finite_subset)
  have "worklist_ok ?imp this_hal 0 [this_hal]" by (simp add: worklist_ok_def)
  from indirect_loop_returns [OF fin this] obtain r where r: "indirect_loop ?imp 0 [this_hal] = Some r"
    "case r of Inl e \<Rightarrow> \<exists>x. (this_hal, x) \<in> (imports_of ?imp)\<^sup>* \<and> ?imp x = Inl e
     | Inr hs \<Rightarrow> worklist_ok ?imp this_hal (length hs) hs" by blast
  show ?thesis
  proof (cases r)
    case (Inl e)
    with r show ?thesis by (simp add: IndirectImportedHals_def)
  next
    case (Inr hs)
    with r have ok: "worklist_ok ?imp this_hal (length hs) hs" by simp
    from worklist_done [OF this] fin ok have "finite (set hs)" "sort (remove1 this_hal hs) =
        sorted_list_of_set ((imports_of ?imp)\<^sup>* `` {this_hal} - {this_hal})"
      by (auto simp: worklist_ok_def sorted_remove1)
    with r Inr worklist_done [OF ok] fin show ?thesis by (auto simp: IndirectImportedHals_def)
  qed
qed

text \<open>An example: two HALs that import each other; one of them also imports its own types.\<close>

definition example_env :: "string list spec_env" where
  "example_env = \<lparr>listdir = (\<lambda>d. Some [''a.vts'', ''README'']),
     read_text = (\<lambda>p. Some (if p = ''/spec/hardware/interfaces/a/1.0/vts/a.vts'' then ''a'' else ''b'')),
     text_format_Merge = (\<lambda>t. Some (if t = ''a'' then [''android.hardware.b@2.0::types'', ''android.hidl.base@1.0''] else [''android.hardware.a@1.0''])),
     import_field = id\<rparr>"

theorem IndirectImportedHals_closure_witness:
  "IndirectImportedHals example_env ''/'' (''a'', ''1.0'') = Some (Inr [(''b'', ''2.0'')])"
proof -
  let ?a = "(''a'', ''1.0'')" and ?b = "(''b'', ''2.0'')"
  let ?imp = "ImportedHals example_env ''/''"
  have imp: "?imp ?a = Inr [?b]" "?imp ?b = Inr [?a]" by code_simp+
  have closed: "(h, d) \<in> imports_of ?imp \<Longrightarrow> h \<in> {?a, ?b} \<Longrightarrow> d \<in> {?a, ?b}" for h d
    using imp by (auto simp: imports_of_def)
  have "(?a, x) \<in> (imports_of ?imp)\<^sup>* \<longleftrightarrow> x \<in> {?a, ?b}" for x
  proof
    show "(?a, x) \<in> (imports_of ?imp)\<^sup>* \<Longrightarrow> x \<in> {?a, ?b}" by (induction rule: rtrancl_induct) (use closed in blast)+
    have "(?a, ?b) \<in> imports_of ?imp" using imp by (simp add: imports_of_def)
    then show "x \<in> {?a, ?b} \<Longrightarrow> (?a, x) \<in> (imports_of ?imp)\<^sup>*" by auto
  qed
  then have R: "(imports_of ?imp)\<^sup>* `` {?a} = {?a, ?b}" by blast
  then have "(imports_of ?imp)\<^sup>* `` {?a} - {?a} = {?b}" by simp
  moreover have no_error: "\<not> ((?a, h) \<in> (imports_of ?imp)\<^sup>* \<and> ?imp h = Inl e)" for h e
  proof
    assume *: "(?a, h) \<in> (imports_of ?imp)\<^sup>* \<and> ?imp h = Inl e"
    then have "h = ?a \<or> h = ?b" using R by blast
    with * imp show False by (elim disjE) simp_all
  qed
  moreover obtain r where r: "IndirectImportedHals example_env ''/'' ?a = Some r" "case r of
       Inl e \<Rightarrow> \<exists>h. (?a, h) \<in> (imports_of ?imp)\<^sup>* \<and> ?imp h = Inl e
     | Inr hals \<Rightarrow> hals = sorted_list_of_set ((imports_of ?imp)\<^sup>* `` {?a} - {?a}) \<and>
         (\<forall>h \<in> insert ?a (set hals). \<exists>ds. ?imp h = Inr ds)"
    using IndirectImportedHals_closure [of "{?a, ?b}" ?a example_env "''/''"] closed by blast
  ultimately show ?thesis
  proof (cases r)
    case (Inl e)
    with r(2) no_error show ?thesis by simp
  next
    case (Inr hals)
    with r \<open>(imports_of ?imp)\<^sup>* `` {?a} - {?a} = {?b}\<close> show ?thesis by simp
  qed
qed

end
