(* ===== verification/Hal_Names.thy ===== *)
theory Hal_Names
  imports Signals_Asserts "HOL-Library.Char_ord" "HOL-Library.List_Lexorder"
begin

section \<open>Command results and HAL service names\<close>

text \<open>
  \<open>CmdResult\<close> (utils/python/common/cmd\_result.py) collects the results of shell commands;
  utils/python/hal/hal\_service\_name\_utils.py asks the device which instances of a HAL service are registered and
  combines the instances of several services. The shell and the JSON parser are parameters, as is the order in
  which Python runs through a set of names. A list that a function takes apart is returned as it is left.
\<close>

subsection \<open>Results of commands\<close>

record cmd_result =
  stdouts :: "string list"
  stderrs :: "string list"
  returncodes :: "int list"
  cmds :: "string option list"
  cmd_exceptions :: "string option list"

definition STDOUT :: string where "STDOUT = ''stdouts''"
definition STDERR :: string where "STDERR = ''stderrs''"
definition EXIT_CODE :: string where "EXIT_CODE = ''return_codes''"

definition AddResult :: "string \<Rightarrow> string \<Rightarrow> int \<Rightarrow> string option \<Rightarrow> string option \<Rightarrow> cmd_result \<Rightarrow> cmd_result" where
  "AddResult out err code command ex r =
     \<lparr>stdouts = stdouts r @ [out], stderrs = stderrs r @ [err], returncodes = returncodes r @ [code],
      cmds = cmds r @ [command], cmd_exceptions = cmd_exceptions r @ [ex]\<rparr>"

definition CmdResult :: "string \<Rightarrow> string \<Rightarrow> int \<Rightarrow> string option \<Rightarrow> string option \<Rightarrow> cmd_result" where
  "CmdResult out err code command ex =
     AddResult out err code command ex \<lparr>stdouts = [], stderrs = [], returncodes = [], cmds = [], cmd_exceptions = []\<rparr>"

definition result_stdout :: "cmd_result \<Rightarrow> py_error + string" where
  "result_stdout r = py_index (stdouts r) (- 1)"

definition result_stderr :: "cmd_result \<Rightarrow> py_error + string" where
  "result_stderr r = py_index (stderrs r) (- 1)"

definition result_returncode :: "cmd_result \<Rightarrow> py_error + int" where
  "result_returncode r = py_index (returncodes r) (- 1)"

definition result_cmd :: "cmd_result \<Rightarrow> py_error + string option" where
  "result_cmd r = py_index (cmds r) (- 1)"

definition result_exception :: "cmd_result \<Rightarrow> py_error + string option" where
  "result_exception r = py_index (cmd_exceptions r) (- 1)"

datatype result_column = StrColumn "string list" | IntColumn "int list"

definition result_getitem :: "cmd_result \<Rightarrow> string \<Rightarrow> py_error + result_column" where
  "result_getitem r key =
     (if key = STDOUT then Inr (StrColumn (stdouts r))
      else if key = STDERR then Inr (StrColumn (stderrs r))
      else if key = EXIT_CODE then Inr (IntColumn (returncodes r))
      else Inl KeyError)"

text \<open>The columns of a result have the same length, and the properties read the last row.\<close>

definition cmd_result_ok :: "cmd_result \<Rightarrow> bool" where
  "cmd_result_ok r \<longleftrightarrow> stdouts r \<noteq> [] \<and> length (stderrs r) = length (stdouts r) \<and> length (returncodes r) = length (stdouts r) \<and>
     length (cmds r) = length (stdouts r) \<and> length (cmd_exceptions r) = length (stdouts r)"

lemma CmdResult_ok: "cmd_result_ok (CmdResult out err code command ex)"
  by (simp add: CmdResult_def AddResult_def cmd_result_ok_def)

lemma AddResult_ok: "cmd_result_ok r \<Longrightarrow> cmd_result_ok (AddResult out err code command ex r)"
  by (simp add: AddResult_def cmd_result_ok_def)

lemma py_index_last: "py_index (xs @ [x]) (- 1) = Inr x"
  by (simp add: py_index_def)

lemma last_row:
  "result_stdout (AddResult out err code command ex r) = Inr out"
  "result_stderr (AddResult out err code command ex r) = Inr err"
  "result_returncode (AddResult out err code command ex r) = Inr code"
  "result_cmd (AddResult out err code command ex r) = Inr command"
  "result_exception (AddResult out err code command ex r) = Inr ex"
  by (simp_all add: result_stdout_def result_stderr_def result_returncode_def result_cmd_def result_exception_def AddResult_def py_index_last)

subsection \<open>Asking the device\<close>

definition VTS_TESTABILITY_CHECKER_32 :: string where
  "VTS_TESTABILITY_CHECKER_32 = ''/data/local/tmp/vts_testability_checker32''"

definition VTS_TESTABILITY_CHECKER_64 :: string where
  "VTS_TESTABILITY_CHECKER_64 = ''/data/local/tmp/vts_testability_checker64''"

text \<open>
  The reply of the checker: \<open>str\<close> of the entry \<open>Testable\<close> and the list \<open>instances\<close>, if the dictionary has them. The shell
  gives a result for the commands it has been sent, the last one last.
\<close>

record checker_reply =
  Testable :: "string option"
  instances :: "string list option"

record checker_env =
  Execute :: "string list \<Rightarrow> cmd_result"
  json_loads :: "string \<Rightarrow> py_error + checker_reply"

definition liftE :: "py_error + 'a \<Rightarrow> exc + 'a" where
  "liftE r = (case r of Inl e \<Rightarrow> Inl (Builtin e) | Inr x \<Rightarrow> Inr x)"

definition checker_binary :: "string \<Rightarrow> string" where
  "checker_binary bitness = (if bitness = ''32'' then VTS_TESTABILITY_CHECKER_32 else VTS_TESTABILITY_CHECKER_64)"

definition checker_cmd :: "string \<Rightarrow> string \<Rightarrow> bool \<Rightarrow> string" where
  "checker_cmd hal bitness run_as_compliance_test =
     checker_binary bitness @ (if run_as_compliance_test then '' -c '' else []) @ '' -b '' @ bitness @ '' '' @ hal"

definition GetHalServiceName :: "checker_env \<Rightarrow> string \<Rightarrow> string \<Rightarrow> bool \<Rightarrow> exc + bool \<times> string set" where
  "GetHalServiceName env hal bitness run_as_compliance_test =
     (let chmod = ''chmod 755 '' @ checker_binary bitness;
          cmd_results = Execute env [chmod, checker_cmd hal bitness run_as_compliance_test] in
      bindR (liftE (py_index (returncodes cmd_results) 0)) (\<lambda>code.
      bindR (liftE (py_index (stdouts cmd_results) 0)) (\<lambda>out.
      bindR (liftE (py_index (stderrs cmd_results) 0)) (\<lambda>err.
      bindR (assertFalse (list_ex (\<lambda>c. c \<noteq> 0) (returncodes cmd_results))
              (''Failed to run vts_testability_checker. ErrorCode: '' @ str_int code @ [CHR 0x0A] @ '' STDOUT: '' @ out @ [CHR 0x0A] @
               '' STDERR: '' @ err @ [CHR 0x0A]) PNone) (\<lambda>_.
      bindR (liftE (json_loads env out)) (\<lambda>result.
        case Testable result of
          None \<Rightarrow> Inl (Builtin KeyError)
        | Some t \<Rightarrow>
            if lower t = ''true''
            then case instances result of None \<Rightarrow> Inl (Builtin KeyError) | Some xs \<Rightarrow> Inr (True, set xs)
            else Inr (False, {})))))))"

subsection \<open>Combinations of instances\<close>

datatype comb_mode = FULL_PERMUTATION | NAME_MATCH | NO_COMBINATION

type_synonym service_instances = "string \<rightharpoonup> string list"

definition instance_name :: "string \<Rightarrow> string \<Rightarrow> string" where
  "instance_name service name = service @ ''/'' @ name"

definition registered :: "service_instances \<Rightarrow> string \<Rightarrow> bool" where
  "registered inst service \<longleftrightarrow> (case inst service of None \<Rightarrow> False | Some names \<Rightarrow> names \<noteq> [])"

definition names_of :: "service_instances \<Rightarrow> string \<Rightarrow> string list" where
  "names_of inst service = (case inst service of None \<Rightarrow> [] | Some names \<Rightarrow> names)"

text \<open>
  The argument \<open>service_instances\<close> is \<^const>\<open>None\<close> for a value that is true and not a dictionary. The recursive call goes
  through \<open>GetServiceInstancesCombinations\<close> with the default mode, which is this function.
\<close>

function GetServiceInstancesFullCombinations ::
  "string list \<Rightarrow> service_instances option \<Rightarrow> string list list \<times> string list" where
  "GetServiceInstancesFullCombinations services service_instances =
     (case service_instances of
        None \<Rightarrow> ([], services)
      | Some inst \<Rightarrow>
          if services = [] then ([], services)
          else
            let service = last services;
                (pre_instance_combs, services) = GetServiceInstancesFullCombinations (butlast services) service_instances in
            if \<not> registered inst service then (pre_instance_combs, services)
            else
              (concat (map (\<lambda>name.
                 if pre_instance_combs = [] then [[instance_name service name]]
                 else map (\<lambda>instance_comb. instance_name service name # instance_comb) pre_instance_combs)
                 (names_of inst service)), services))"
  by pat_completeness auto
termination by (relation "measure (length \<circ> fst)") auto

declare GetServiceInstancesFullCombinations.simps [simp del]

text \<open>The names are a set; \<open>order\<close> is the order in which Python runs through it.\<close>

fun common_names :: "service_instances \<Rightarrow> string list \<Rightarrow> string set \<Rightarrow> string set option" where
  "common_names inst [] instance_names = Some instance_names"
| "common_names inst (service # services) instance_names =
     (if \<not> registered inst service then None
      else if instance_names = {} then common_names inst services (set (names_of inst service))
      else common_names inst services (instance_names \<inter> set (names_of inst service)))"

definition GetServiceInstancesNameMatchCombinations ::
  "(string set \<Rightarrow> string list) \<Rightarrow> string list \<Rightarrow> service_instances \<Rightarrow> string list list" where
  "GetServiceInstancesNameMatchCombinations order services inst =
     (case common_names inst services {} of
        None \<Rightarrow> []
      | Some instance_names \<Rightarrow> map (\<lambda>name. map (\<lambda>service. instance_name service name) services) (order instance_names))"

text \<open>The mode \<open>NO_COMBINATION\<close> is treated as an unknown mode.\<close>

definition GetServiceInstancesCombinations ::
  "(string set \<Rightarrow> string list) \<Rightarrow> string list \<Rightarrow> service_instances \<Rightarrow> comb_mode \<Rightarrow> string list list \<times> string list" where
  "GetServiceInstancesCombinations order services inst mode =
     (case mode of
        FULL_PERMUTATION \<Rightarrow> GetServiceInstancesFullCombinations services (Some inst)
      | NAME_MATCH \<Rightarrow> (GetServiceInstancesNameMatchCombinations order services inst, services)
      | NO_COMBINATION \<Rightarrow> GetServiceInstancesFullCombinations services (Some inst))"

subsection \<open>What the combinations are\<close>

definition choices :: "service_instances \<Rightarrow> string list \<Rightarrow> string list list" where
  "choices inst services = map (\<lambda>service. map (instance_name service) (names_of inst service)) (filter (registered inst) services)"

lemma product_lists_not_Nil: "(\<forall>xs \<in> set xss. xs \<noteq> []) \<Longrightarrow> product_lists xss \<noteq> []"
  by (induction xss) auto

lemma choices_not_Nil: "xs \<in> set (choices inst services) \<Longrightarrow> xs \<noteq> []"
  by (auto simp: choices_def registered_def names_of_def split: option.splits)

lemma full_combinations_snoc:
  "GetServiceInstancesFullCombinations (services @ [service]) (Some inst) =
     (let (pre, rest) = GetServiceInstancesFullCombinations services (Some inst) in
      if \<not> registered inst service then (pre, rest)
      else (concat (map (\<lambda>name. map ((#) (instance_name service name)) (if pre = [] then [[]] else pre)) (names_of inst service)), rest))"
  by (subst GetServiceInstancesFullCombinations.simps) (simp add: Let_def split_def cong: if_cong)

text \<open>In full mode the combinations are the Cartesian product of the instances of the services that have
  instances, the last service varying slowest, and no combination at all if no service has instances. Every
  combination names the services in reverse order. The list of services that the caller passes is emptied.\<close>

theorem full_combinations_product:
  "GetServiceInstancesFullCombinations services (Some inst) =
     (if list_ex (registered inst) services then product_lists (choices inst (rev services)) else [], [])"
proof (induction services rule: rev_induct)
  case Nil
  show ?case by (simp add: GetServiceInstancesFullCombinations.simps)
next
  case (snoc service services)
  have ne: "product_lists (choices inst (rev services)) \<noteq> []"
    by (intro product_lists_not_Nil) (auto dest: choices_not_Nil)
  have none: "\<not> list_ex (registered inst) services \<Longrightarrow> choices inst (rev services) = []"
    by (auto simp: choices_def list_ex_iff filter_empty_conv)
  have more: "registered inst service \<Longrightarrow> choices inst (service # rev services) =
      map (instance_name service) (names_of inst service) # choices inst (rev services)"
    and less: "\<not> registered inst service \<Longrightarrow> choices inst (service # rev services) = choices inst (rev services)"
    by (simp_all add: choices_def)
  show ?case
    using ne none more less
    by (cases "registered inst service"; cases "list_ex (registered inst) services")
      (simp_all add: full_combinations_snoc snoc.IH comp_def)
qed

text \<open>
  Matching by name keeps the names common to the services as long as there is one; when no name is left,
  the next service starts again with all its names.
\<close>

lemma common_names_inter:
  assumes "\<forall>service \<in> set services. registered inst service" and "A \<inter> (\<Inter>s \<in> set services. set (names_of inst s)) \<noteq> {}"
  shows "common_names inst services A = Some (A \<inter> (\<Inter>s \<in> set services. set (names_of inst s)))"
  using assms
proof (induction services arbitrary: A)
  case (Cons service services)
  then have "A \<noteq> {}" by auto
  with Cons.IH [of "A \<inter> set (names_of inst service)"] Cons.prems show ?case by (auto simp: Int_assoc)
qed simp

text \<open>Matching by name: if every service has instances and some name is common to all of them, there is one combination
  for each common name, with every service in order, and the caller's list is kept; if a service has no
  instance, there is none.\<close>

theorem name_match_common:
  assumes "\<And>A. finite A \<Longrightarrow> set (order A) = A"
  shows "(services \<noteq> [] \<longrightarrow> (\<forall>s \<in> set services. registered inst s) \<longrightarrow> (\<Inter>s \<in> set services. set (names_of inst s)) \<noteq> {} \<longrightarrow>
      set (fst (GetServiceInstancesCombinations order services inst NAME_MATCH)) =
        (\<lambda>name. map (\<lambda>s. instance_name s name) services) ` (\<Inter>s \<in> set services. set (names_of inst s))) \<and>
    (\<not> (\<forall>s \<in> set services. registered inst s) \<longrightarrow> fst (GetServiceInstancesCombinations order services inst NAME_MATCH) = []) \<and>
    snd (GetServiceInstancesCombinations order services inst NAME_MATCH) = services"
proof (intro conjI impI)
  assume ne: "services \<noteq> []" and reg: "\<forall>s \<in> set services. registered inst s"
    and common: "(\<Inter>s \<in> set services. set (names_of inst s)) \<noteq> {}"
  from ne obtain s ss where ss: "services = s # ss" by (cases services) auto
  with reg common common_names_inter [of ss inst "set (names_of inst s)"]
  have "common_names inst services {} = Some (\<Inter>s \<in> set services. set (names_of inst s))" by simp
  moreover have "finite (\<Inter>s \<in> set services. set (names_of inst s))" using ss by simp
  ultimately show "set (fst (GetServiceInstancesCombinations order services inst NAME_MATCH)) =
      (\<lambda>name. map (\<lambda>s. instance_name s name) services) ` (\<Inter>s \<in> set services. set (names_of inst s))"
    by (simp add: GetServiceInstancesCombinations_def GetServiceInstancesNameMatchCombinations_def assms)
next
  have "common_names inst services A = None" if "\<not> (\<forall>s \<in> set services. registered inst s)" for A
    using that by (induction services arbitrary: A) auto
  then show "fst (GetServiceInstancesCombinations order services inst NAME_MATCH) = []" if "\<not> (\<forall>s \<in> set services. registered inst s)"
    using that by (simp add: GetServiceInstancesCombinations_def GetServiceInstancesNameMatchCombinations_def)
qed (simp add: GetServiceInstancesCombinations_def)

theorem name_match_common_witness:
  "set (fst (GetServiceInstancesCombinations sorted_list_of_set [''s'', ''t''] [''s'' \<mapsto> [''n'', ''m''], ''t'' \<mapsto> [''m'', ''k'']] NAME_MATCH)) =
     {[''s/m'', ''t/m'']}"
proof -
  let ?inst = "[''s'' \<mapsto> [''n'', ''m''], ''t'' \<mapsto> [''m'', ''k'']]"
  have "(\<Inter>s \<in> set [''s'', ''t'']. set (names_of ?inst s)) = {''m''}" by (auto simp: names_of_def)
  moreover have "\<forall>s \<in> set [''s'', ''t'']. registered ?inst s" by (simp add: registered_def)
  ultimately show ?thesis
    using name_match_common [of sorted_list_of_set "[''s'', ''t'']" ?inst, OF set_sorted_list_of_set]
    by (simp only: image_insert image_empty list.map instance_name_def) simp
qed

text \<open>Matching by name fails when the names run out: with three services whose instances have no name in common, the
  one combination returned names instances of the first two services that are not registered.\<close>

theorem name_match_unregistered:
  "GetServiceInstancesNameMatchCombinations order [''a'', ''b'', ''c''] [''a'' \<mapsto> [''x''], ''b'' \<mapsto> [''y''], ''c'' \<mapsto> [''z'']] =
     map (\<lambda>name. [''a/'' @ name, ''b/'' @ name, ''c/'' @ name]) (order {''z''})"
  by (simp add: GetServiceInstancesNameMatchCombinations_def registered_def names_of_def instance_name_def)

end
