(* ===== verification/Cpu_Scaling.thy ===== *)
theory Cpu_Scaling
  imports Hal_Names Py_Actions
begin

section \<open>CPU frequency scaling (utils/python/cpu/cpu\_frequency\_scaling.py)\<close>

text \<open>
  The controller reads and writes the files of \<open>cpufreq\<close> on a device through its shell. The shell is a parameter: it takes a list of
  commands to their results and a new state of the device, as is what happens to the device while the host sleeps. The
  state of an operation is the controller with the device.
\<close>

record 'd cpu_env =
  cpu_Execute :: "string list \<Rightarrow> 'd \<Rightarrow> cmd_result \<times> 'd"
  cpu_sleep :: "int \<Rightarrow> 'd \<Rightarrow> 'd"
  show_unequal :: "int \<Rightarrow> int \<Rightarrow> string"

record 'd cpu_controller =
  dut :: 'd
  initialized :: bool
  min_cpu_number :: int
  max_cpu_number :: int
  theoretical_max_frequency :: "(int \<times> int) list"
  perf_override :: bool
  saved_governors :: "string list option"

type_synonym ('d, 'a) cpu_action = "('d cpu_controller, 'a) action"

definition CpuFrequencyScalingController :: "'d \<Rightarrow> 'd cpu_controller" where
  "CpuFrequencyScalingController d = \<lparr>dut = d, initialized = False, min_cpu_number = 0, max_cpu_number = 0,
     theoretical_max_frequency = [], perf_override = False, saved_governors = None\<rparr>"

definition ExecuteA :: "'d cpu_env \<Rightarrow> string list \<Rightarrow> ('d, cmd_result) cpu_action" where
  "ExecuteA env cs s = (let (r, d) = cpu_Execute env cs (dut s) in (Inr r, s\<lparr>dut := d\<rparr>))"

definition assert_lengths :: "'d cpu_env \<Rightarrow> int \<Rightarrow> int \<Rightarrow> ('d, unit) cpu_action" where
  "assert_lengths env a b = liftA (assertEqual (show_unequal env) a b None PNone)"

text \<open>\<open>split()\<close> without an argument, and \<open>rstrip()\<close>.\<close>

fun split_words :: "string \<Rightarrow> string \<Rightarrow> string list" where
  "split_words acc [] = (if acc = [] then [] else [rev acc])"
| "split_words acc (c # cs) =
     (if is_space c then (if acc = [] then split_words [] cs else rev acc # split_words [] cs)
      else split_words (c # acc) cs)"

definition rstrip :: "string \<Rightarrow> string" where
  "rstrip s = rev (dropWhile is_space (rev s))"

subsection \<open>The operations\<close>

definition PRESENT_CMD :: string where "PRESENT_CMD = ''cat /sys/devices/system/cpu/present''"

definition LoadMinAndMaxCpuNo :: "'d cpu_env \<Rightarrow> ('d, int \<times> int) cpu_action" where
  "LoadMinAndMaxCpuNo env =
     bindA (ExecuteA env [PRESENT_CMD]) (\<lambda>results.
     seqA (assert_lengths env (int (length (stdouts results))) 1)
     (bindA (liftA (liftE (py_index (stdouts results) 0))) (\<lambda>out.
      let stdout_split = split_at ''-'' (hd (split_at [CHR 0x0A] out)) in
      seqA (liftA (assertLess (show_unequal env) (int (length stdout_split)) 3 None PNone))
      (let low = hd stdout_split; high = (if length stdout_split = 2 then stdout_split ! 1 else low) in
       bindA (liftA (liftE (py_int low))) (\<lambda>l.
       bindA (liftA (liftE (py_int high))) (\<lambda>h. returnA (l, h + 1)))))))"

definition Init :: "'d cpu_env \<Rightarrow> ('d, unit) cpu_action" where
  "Init env = getA initialized (\<lambda>i.
     if i then returnA ()
     else bindA (LoadMinAndMaxCpuNo env) (\<lambda>(low, high).
       modifyA (\<lambda>s. s\<lparr>min_cpu_number := low, max_cpu_number := high, theoretical_max_frequency := [],
         perf_override := False, saved_governors := None, initialized := True\<rparr>)))"

definition GetMinAndMaxCpuNo :: "'d cpu_controller \<Rightarrow> int \<times> int" where
  "GetMinAndMaxCpuNo s = (min_cpu_number s, max_cpu_number s)"

definition cpu_range :: "'d cpu_controller \<Rightarrow> int list" where
  "cpu_range s = [min_cpu_number s .. max_cpu_number s - 1]"

definition cpufreq_path :: "string \<Rightarrow> int \<Rightarrow> string" where
  "cpufreq_path file cpu_no = ''/sys/devices/system/cpu/cpu'' @ str_int cpu_no @ ''/cpufreq/'' @ file"

definition frequencies_cmd :: "int \<Rightarrow> string" where
  "frequencies_cmd cpu_no = ''cat '' @ cpufreq_path ''scaling_available_frequencies'' cpu_no"

definition cat_governor :: "int \<Rightarrow> string" where
  "cat_governor cpu_no = ''cat '' @ cpufreq_path ''scaling_governor'' cpu_no"

definition echo_governor :: "string \<Rightarrow> int \<Rightarrow> string" where
  "echo_governor mode cpu_no = ''echo '' @ mode @ '' > '' @ cpufreq_path ''scaling_governor'' cpu_no"

definition GetTheoreticalMaxFrequency :: "'d cpu_env \<Rightarrow> int \<Rightarrow> ('d, int option) cpu_action" where
  "GetTheoreticalMaxFrequency env cpu_no =
     getA (\<lambda>s. map_of (theoretical_max_frequency s) cpu_no) (\<lambda>cached.
       case cached of
         Some f \<Rightarrow> returnA (Some f)
       | None \<Rightarrow>
           bindA (ExecuteA env [frequencies_cmd cpu_no]) (\<lambda>results.
           seqA (assert_lengths env 1 (int (length (returncodes results))))
           (bindA (liftA (liftE (py_index (returncodes results) 0))) (\<lambda>code.
            if code = 0
            then bindA (liftA (liftE (py_index (stdouts results) 0))) (\<lambda>out.
                 bindA (liftA (liftE (mapR py_int (split_words [] out)))) (\<lambda>freq.
                 if freq = [] then raiseA (Builtin ValueError)
                 else seqA (modifyA (\<lambda>s. s\<lparr>theoretical_max_frequency :=
                        dict_set cpu_no (Max (set freq)) (theoretical_max_frequency s)\<rparr>))
                      (returnA (Some (Max (set freq))))))
            else returnA None))))"

text \<open>Both uses of a CPU number as an index are those of the code: of a list of results, and of the list of modes.\<close>

definition ChangeCpuGovernor :: "'d cpu_env \<Rightarrow> string list \<Rightarrow> ('d, string list option) cpu_action" where
  "ChangeCpuGovernor env modes =
     seqA (Init env)
     (getA (\<lambda>s. (max_cpu_number s - min_cpu_number s, cpu_range s)) (\<lambda>(n, cpus).
      seqA (assert_lengths env n (int (length modes)))
      (bindA (ExecuteA env (map cat_governor cpus)) (\<lambda>results.
       seqA (assert_lengths env n (int (length (stdouts results))))
       (if list_ex (\<lambda>c. c \<noteq> 0) (returncodes results) then returnA None
        else
          bindA (liftA (liftE (mapR (\<lambda>cpu_no. bindR (py_index (stdouts results) cpu_no) (\<lambda>out. Inr (rstrip out))) cpus))) (\<lambda>prev_govs.
          bindA (liftA (liftE (mapR (\<lambda>cpu_no. bindR (py_index modes cpu_no) (\<lambda>mode. Inr (echo_governor mode cpu_no))) cpus))) (\<lambda>target_cmd.
          bindA (ExecuteA env target_cmd) (\<lambda>results.
          seqA (assert_lengths env n (int (length (stdouts results))))
          (if list_ex (\<lambda>c. c \<noteq> 0) (returncodes results) then returnA None
           else returnA (Some prev_govs))))))))))"

definition DisableCpuScaling :: "'d cpu_env \<Rightarrow> ('d, unit) cpu_action" where
  "DisableCpuScaling env =
     seqA (Init env)
     (getA perf_override (\<lambda>override.
      if override then returnA ()
      else getA cpu_range (\<lambda>cpus.
        bindA (ChangeCpuGovernor env (map (\<lambda>_. ''performance'') cpus)) (\<lambda>prev_govs.
          case prev_govs of
            None \<Rightarrow> returnA ()
          | Some govs \<Rightarrow> modifyA (\<lambda>s. s\<lparr>saved_governors := Some govs, perf_override := True\<rparr>)))))"

definition EnableCpuScaling :: "'d cpu_env \<Rightarrow> ('d, unit) cpu_action" where
  "EnableCpuScaling env =
     seqA (Init env)
     (getA (\<lambda>s. (perf_override s, saved_governors s)) (\<lambda>(override, saved).
      if \<not> override then returnA ()
      else case saved of
             None \<Rightarrow> returnA ()
           | Some govs \<Rightarrow> seqA (ChangeCpuGovernor env govs) (modifyA (\<lambda>s. s\<lparr>perf_override := False\<rparr>))))"

text \<open>The two frequencies are compared as strings.\<close>

definition cpu_throttled :: "'d cpu_env \<Rightarrow> int \<Rightarrow> ('d, bool option) cpu_action" where
  "cpu_throttled env cpu_no =
     bindA (ExecuteA env [''cat '' @ cpufreq_path ''scaling_max_freq'' cpu_no, ''cat '' @ cpufreq_path ''scaling_cur_freq'' cpu_no]) (\<lambda>results.
     seqA (assert_lengths env 2 (int (length (stdouts results))))
     (if list_ex (\<lambda>c. c \<noteq> 0) (returncodes results)
      then seqA (liftA (liftE (py_index (stderrs results) 0))) (seqA (liftA (liftE (py_index (stderrs results) 1))) (returnA (Some False)))
      else
        bindA (liftA (liftE (py_index (stdouts results) 0))) (\<lambda>out0.
        bindA (liftA (liftE (py_index (stdouts results) 1))) (\<lambda>out1.
        if strip out0 > strip out1 then returnA (Some True)
        else bindA (GetTheoreticalMaxFrequency env cpu_no) (\<lambda>freq.
          case freq of
            None \<Rightarrow> returnA None
          | Some f \<Rightarrow> bindA (liftA (liftE (py_int (strip out1)))) (\<lambda>current.
              returnA (if f > current then Some True else None)))))))"

fun throttling_loop :: "'d cpu_env \<Rightarrow> int list \<Rightarrow> ('d, bool) cpu_action" where
  "throttling_loop env [] = returnA False"
| "throttling_loop env (cpu_no # cpus) =
     bindA (cpu_throttled env cpu_no) (\<lambda>r. case r of Some b \<Rightarrow> returnA b | None \<Rightarrow> throttling_loop env cpus)"

definition IsUnderThermalThrottling :: "'d cpu_env \<Rightarrow> ('d, bool) cpu_action" where
  "IsUnderThermalThrottling env = seqA (Init env) (getA cpu_range (throttling_loop env))"

definition SkipIfThermalThrottling :: "'d cpu_env \<Rightarrow> int \<Rightarrow> ('d, unit) cpu_action" where
  "SkipIfThermalThrottling env retry_delay_secs =
     bindA (IsUnderThermalThrottling env) (\<lambda>throttling.
     bindA (if throttling \<and> retry_delay_secs > 0
            then seqA (modifyA (\<lambda>s. s\<lparr>dut := cpu_sleep env retry_delay_secs (dut s)\<rparr>)) (IsUnderThermalThrottling env)
            else returnA throttling) (\<lambda>throttling.
       liftA (skipIf throttling ''Thermal throttling'' PNone)))"

subsection \<open>Reading the CPU numbers\<close>

lemma str_int_no_dash: "0 \<le> i \<Longrightarrow> CHR ''-'' \<notin> set (str_int i)" "CHR 0x0A \<notin> set (str_int i)"
  using digit_char_plain [of "CHR ''-''"] digit_char_plain(1) [of "CHR 0x0A"] by (auto simp: str_int_def is_space_def)

text \<open>\<open>Init\<close> understands the file \<open>present\<close>: from a range or a single number it sets the first CPU number and the one after the
  last, and clears the other fields; a second call changes nothing.\<close>

theorem Init_reads_present:
  assumes "0 \<le> lo" "0 \<le> hi" "\<not> initialized s" and "cpu_Execute env [PRESENT_CMD] (dut s) = (r, d)"
    and "stdouts r = [str_int lo @ (if single then [] else ''-'' @ str_int hi) @ [CHR 0x0A]]"
  shows "\<exists>s'. Init env s = (Inr (), s') \<and> GetMinAndMaxCpuNo s' = (lo, (if single then lo else hi) + 1) \<and>
    initialized s' \<and> \<not> perf_override s' \<and> saved_governors s' = None \<and> dut s' = d \<and> Init env s' = (Inr (), s')"
proof -
  have nl: "split_at [CHR 0x0A] (t @ [CHR 0x0A]) = t # split_at [CHR 0x0A] []" if "CHR 0x0A \<notin> set t" for t
    using split_at_char_append [OF that, of "[]"] by simp
  have line: "hd (split_at [CHR 0x0A] (str_int lo @ (if single then [] else ''-'' @ str_int hi) @ [CHR 0x0A])) =
      str_int lo @ (if single then [] else ''-'' @ str_int hi)"
    using nl [of "str_int lo @ (if single then [] else ''-'' @ str_int hi)"] str_int_no_dash(2) [of lo] str_int_no_dash(2) [of hi]
    by (simp split: if_splits)
  have parts: "split_at ''-'' (str_int lo @ (if single then [] else ''-'' @ str_int hi)) = str_int lo # (if single then [] else [str_int hi])"
    using assms(1,2) by (simp add: split_at_char_append split_at_char_plain str_int_no_dash)
  have num: "py_int (str_int i) = Inr i" for i using py_int_str_int [of "CHR 0x0A" i] by (simp add: is_space_def)
  have index: "py_index [x] 0 = Inr x" for x :: string by (simp add: py_index_def)
  obtain out where out: "stdouts r = [out]"
    and split: "split_at ''-'' (hd (split_at [CHR 0x0A] out)) = str_int lo # (if single then [] else [str_int hi])"
    using assms(5) line parts by simp
  have "LoadMinAndMaxCpuNo env s = (Inr (lo, (if single then lo else hi) + 1), s\<lparr>dut := d\<rparr>)"
    using assms(4) unfolding LoadMinAndMaxCpuNo_def
    by (simp add: action_defs ExecuteA_def assert_lengths_def assertEqual_def assertLess_def out split index liftE_def num)
  then show ?thesis using assms(3)
    by (simp add: Init_def action_defs GetMinAndMaxCpuNo_def)
qed

theorem Init_reads_present_witness:
  "\<exists>s'. Init \<lparr>cpu_Execute = (\<lambda>cs d. (CmdResult (''0-7'' @ [CHR 0x0A]) [] 0 None None, d)), cpu_sleep = (\<lambda>_ d. d), show_unequal = (\<lambda>_ _. [])\<rparr>
     (CpuFrequencyScalingController ()) = (Inr (), s') \<and> GetMinAndMaxCpuNo s' = (0, 8)"
proof -
  let ?r = "CmdResult (''0-7'' @ [CHR 0x0A]) [] 0 None None"
  let ?env = "\<lparr>cpu_Execute = (\<lambda>cs d. (?r, d)), cpu_sleep = (\<lambda>_ d. d), show_unequal = (\<lambda>_ _. [])\<rparr>"
  have "str_int 0 = ''0''" "str_int 7 = ''7''" by code_simp+
  then have "stdouts ?r = [str_int 0 @ (if False then [] else ''-'' @ str_int 7) @ [CHR 0x0A]]"
    by (simp add: CmdResult_def AddResult_def)
  with Init_reads_present [of 0 7 "CpuFrequencyScalingController ()" ?env ?r "()" False] show ?thesis
    by (simp add: CpuFrequencyScalingController_def) blast
qed

subsection \<open>Governors\<close>

definition plain_word :: "string \<Rightarrow> bool" where
  "plain_word g \<longleftrightarrow> list_all (\<lambda>c. \<not> is_space c) g"

lemma rstrip_line: "plain_word g \<Longrightarrow> rstrip (g @ [CHR 0x0A]) = g"
proof -
  assume "plain_word g"
  then have "dropWhile is_space (rev g) = rev g"
    by (intro dropWhile_id) (cases "rev g", auto simp: plain_word_def list_all_iff dest: arg_cong [of _ _ set])
  then show ?thesis by (simp add: rstrip_def is_space_def)
qed

text \<open>
  What a device with \<open>n\<close> CPUs promises of its governor files: reading them gives the governors, one per line, and changes none;
  writing them sets them.
\<close>

definition governor_files :: "'d cpu_env \<Rightarrow> ('d \<Rightarrow> string list) \<Rightarrow> nat \<Rightarrow> bool" where
  "governor_files env gov n \<longleftrightarrow>
     (\<forall>d r d'. cpu_Execute env (map cat_governor [0 .. int n - 1]) d = (r, d') \<longrightarrow>
        length (gov d) = n \<and> list_all plain_word (gov d) \<and> gov d' = gov d \<and> returncodes r = replicate n 0 \<and>
        stdouts r = map (\<lambda>g. g @ [CHR 0x0A]) (gov d)) \<and>
     (\<forall>d modes r d'. length modes = n \<longrightarrow> list_all plain_word modes \<longrightarrow>
        cpu_Execute env (map2 echo_governor modes [0 .. int n - 1]) d = (r, d') \<longrightarrow>
        gov d' = modes \<and> returncodes r = replicate n 0 \<and> length (stdouts r) = n)"

definition cpus_known :: "nat \<Rightarrow> 'd cpu_controller \<Rightarrow> bool" where
  "cpus_known n s \<longleftrightarrow> initialized s \<and> min_cpu_number s = 0 \<and> max_cpu_number s = int n"

lemma mapR_index:
  assumes "length xs = n"
  shows "mapR (\<lambda>i. bindR (py_index xs i) (\<lambda>x. Inr (f x i))) [0 .. int n - 1] = Inr (map2 f xs [0 .. int n - 1])"
proof -
  have "mapR (\<lambda>i. bindR (py_index xs i) (\<lambda>x. Inr (f x i))) [0 .. int n - 1] = Inr (map (\<lambda>i. f (xs ! nat i) i) [0 .. int n - 1])"
    using assms by (intro mapR_Inr_map) (simp add: py_index_def)
  also have "map (\<lambda>i. f (xs ! nat i) i) [0 .. int n - 1] = map2 f xs [0 .. int n - 1]"
    using assms by (intro nth_equalityI) simp_all
  finally show ?thesis .
qed

lemma any_nonzero_replicate [simp]: "\<not> list_ex (\<lambda>c. c \<noteq> 0) (replicate n (0 :: int))"
  by (simp add: list_ex_iff)

lemma Init_done: "initialized s \<Longrightarrow> Init env s = (Inr (), s)"
  by (simp add: Init_def action_defs)

lemma cpus_known_simps: "cpus_known n s \<Longrightarrow> initialized s" "cpus_known n s \<Longrightarrow> cpu_range s = [0 .. int n - 1]"
  by (simp_all add: cpus_known_def cpu_range_def)

lemma ChangeCpuGovernor_sets:
  assumes "governor_files env gov n" "cpus_known n s" "length modes = n" "list_all plain_word modes"
  shows "\<exists>d. ChangeCpuGovernor env modes s = (Inr (Some (gov (dut s))), s\<lparr>dut := d\<rparr>) \<and> gov d = modes"
proof -
  obtain r1 d1 where e1: "cpu_Execute env (map cat_governor [0 .. int n - 1]) (dut s) = (r1, d1)" by fastforce
  with assms(1) have r1: "length (gov (dut s)) = n" "list_all plain_word (gov (dut s))" "returncodes r1 = replicate n 0"
    "stdouts r1 = map (\<lambda>g. g @ [CHR 0x0A]) (gov (dut s))" unfolding governor_files_def by blast+
  obtain r2 d2 where e2: "cpu_Execute env (map2 echo_governor modes [0 .. int n - 1]) d1 = (r2, d2)" by fastforce
  with assms have r2: "gov d2 = modes" "returncodes r2 = replicate n 0" "length (stdouts r2) = n" unfolding governor_files_def by blast+
  have "mapR (\<lambda>i. bindR (py_index (stdouts r1) i) (\<lambda>out. Inr (rstrip out))) [0 .. int n - 1] =
      Inr (map2 (\<lambda>x i. rstrip x) (stdouts r1) [0 .. int n - 1])"
    using r1 by (intro mapR_index [where f = "\<lambda>x i. rstrip x"]) simp
  also have "map2 (\<lambda>x i. rstrip x) (stdouts r1) [0 .. int n - 1] = gov (dut s)"
    using r1 by (intro nth_equalityI) (auto simp: rstrip_line list_all_length)
  finally have prev: "mapR (\<lambda>i. bindR (py_index (stdouts r1) i) (\<lambda>out. Inr (rstrip out))) [0 .. int n - 1] = Inr (gov (dut s))" .
  have target: "mapR (\<lambda>i. bindR (py_index modes i) (\<lambda>mode. Inr (echo_governor mode i))) [0 .. int n - 1] =
      Inr (map2 echo_governor modes [0 .. int n - 1])"
    using mapR_index [OF assms(3), of echo_governor] .
  have "ChangeCpuGovernor env modes s = (Inr (Some (gov (dut s))), s\<lparr>dut := d2\<rparr>)"
    unfolding ChangeCpuGovernor_def seqA_step [where m = "Init env", OF Init_done [OF cpus_known_simps(1) [OF assms(2)]]]
    using assms(2,3) r1 r2 e1 e2 prev target
    by (simp add: action_defs cpus_known_def cpu_range_def assert_lengths_def assertEqual_def ExecuteA_def liftE_def)
  with r2 show ?thesis by blast
qed

text \<open>(C39) Disabling and enabling the scaling restores the device: with governor files that behave, numbered from 0, \<open>DisableCpuScaling\<close>
  sets every CPU to the performance governor and \<open>EnableCpuScaling\<close> brings every governor back.\<close>

theorem scaling_round_trip:
  assumes "governor_files env gov n" and "cpus_known n s" and "\<not> perf_override s"
  shows "\<exists>s1 s2. DisableCpuScaling env s = (Inr (), s1) \<and> gov (dut s1) = replicate n ''performance'' \<and> perf_override s1 \<and>
    EnableCpuScaling env s1 = (Inr (), s2) \<and> gov (dut s2) = gov (dut s) \<and> \<not> perf_override s2"
proof -
  let ?modes = "map (\<lambda>_. ''performance'') (cpu_range s)"
  have modes: "?modes = replicate n ''performance''" using assms(2) by (simp add: cpus_known_simps map_replicate_const)
  then have "length ?modes = n" "list_all plain_word ?modes" by (simp_all add: plain_word_def is_space_def list_all_iff)
  from ChangeCpuGovernor_sets [OF assms(1,2) this] obtain d where
    change: "ChangeCpuGovernor env ?modes s = (Inr (Some (gov (dut s))), s\<lparr>dut := d\<rparr>)" and d: "gov d = ?modes" by blast
  let ?s1 = "s\<lparr>dut := d, saved_governors := Some (gov (dut s)), perf_override := True\<rparr>"
  have disable: "DisableCpuScaling env s = (Inr (), ?s1)"
    unfolding DisableCpuScaling_def seqA_step [where m = "Init env", OF Init_done [OF cpus_known_simps(1) [OF assms(2)]]]
    using assms(3) change by (simp add: getA_def bindA_def modifyA_def)
  obtain r d' where "cpu_Execute env (map cat_governor [0 .. int n - 1]) (dut s) = (r, d')" by fastforce
  with assms(1) have govs: "length (gov (dut s)) = n" "list_all plain_word (gov (dut s))" unfolding governor_files_def by blast+
  have known: "cpus_known n ?s1" using assms(2) by (simp add: cpus_known_def)
  from ChangeCpuGovernor_sets [OF assms(1) this govs] obtain d2 where
    "ChangeCpuGovernor env (gov (dut s)) ?s1 = (Inr (Some (gov (dut ?s1))), ?s1\<lparr>dut := d2\<rparr>)" and d2: "gov d2 = gov (dut s)" by blast
  then have "EnableCpuScaling env ?s1 = (Inr (), ?s1\<lparr>dut := d2, perf_override := False\<rparr>)"
    unfolding EnableCpuScaling_def seqA_step [where m = "Init env", OF Init_done [OF cpus_known_simps(1) [OF known]]]
    by (simp add: getA_def seqA_def bindA_def modifyA_def)
  with disable d d2 modes show ?thesis
    by (intro exI [of _ ?s1] exI [of _ "?s1\<lparr>dut := d2, perf_override := False\<rparr>"]) simp
qed

text \<open>An example device with two CPUs: its state is the two governors, and commands other than the reading ones write.\<close>

definition example_gov :: "string \<times> string \<Rightarrow> string list" where
  "example_gov = (\<lambda>(a, b). map (\<lambda>g. if plain_word g then g else []) [a, b])"

definition example_governors :: "(string \<times> string) cpu_env" where
  "example_governors = \<lparr>
     cpu_Execute = (\<lambda>cs d.
       if cs = map cat_governor [0 .. 1]
       then (\<lparr>stdouts = map (\<lambda>g. g @ [CHR 0x0A]) (example_gov d), stderrs = [[], []], returncodes = [0, 0], cmds = [], cmd_exceptions = []\<rparr>, d)
       else (\<lparr>stdouts = [[], []], stderrs = [[], []], returncodes = [0, 0], cmds = [], cmd_exceptions = []\<rparr>,
             let written = (\<lambda>c. takeWhile (\<lambda>x. x \<noteq> CHR '' '') (drop 5 c)) in (written (cs ! 0), written (cs ! 1)))),
     cpu_sleep = (\<lambda>_ d. d), show_unequal = (\<lambda>_ _. [])\<rparr>"

lemma written_governor: "plain_word g \<Longrightarrow> takeWhile (\<lambda>x. x \<noteq> CHR '' '') (drop 5 (echo_governor g i)) = g"
proof -
  assume "plain_word g"
  then have "\<forall>c \<in> set g. c \<noteq> CHR '' ''" by (auto simp: plain_word_def list_all_iff is_space_def)
  then show ?thesis by (simp add: echo_governor_def)
qed

lemma example_governor_files: "governor_files example_governors example_gov 2"
proof -
  have two: "[0 .. int 2 - 1] = [0, 1]" "[0 .. 1] = [0, 1 :: int]" by (simp_all add: upto.simps)
  have cat: "plain_word []" by (simp add: plain_word_def)
  have echo: "echo_governor g i \<noteq> cat_governor j" for g i j by (simp add: echo_governor_def cat_governor_def)
  have "example_gov d' = modes \<and> returncodes r = replicate 2 0 \<and> length (stdouts r) = 2"
    if "length modes = 2" "list_all plain_word modes" "cpu_Execute example_governors (map2 echo_governor modes [0, 1]) d = (r, d')"
    for d modes r d'
  proof -
    from that(1) obtain a b where "modes = [a, b]" by (auto simp: numeral_2_eq_2 length_Suc_conv)
    with that(2,3) show ?thesis
      by (auto simp: example_governors_def two echo written_governor example_gov_def numeral_2_eq_2 Let_def)
  qed
  then show ?thesis unfolding governor_files_def two(1)
    by (auto simp: example_governors_def two example_gov_def cat numeral_2_eq_2)
qed

theorem scaling_round_trip_witness:
  "\<exists>s1 s2. DisableCpuScaling example_governors ((CpuFrequencyScalingController (''schedutil'', ''powersave''))\<lparr>initialized := True, max_cpu_number := 2\<rparr>) = (Inr (), s1) \<and>
     example_gov (dut s1) = [''performance'', ''performance''] \<and>
     EnableCpuScaling example_governors s1 = (Inr (), s2) \<and> example_gov (dut s2) = [''schedutil'', ''powersave'']"
proof -
  let ?s = "(CpuFrequencyScalingController (''schedutil'', ''powersave''))\<lparr>initialized := True, max_cpu_number := 2\<rparr>"
  have "cpus_known 2 ?s" "\<not> perf_override ?s" by (simp_all add: cpus_known_def CpuFrequencyScalingController_def)
  from scaling_round_trip [OF example_governor_files this] obtain s1 s2 where
    "DisableCpuScaling example_governors ?s = (Inr (), s1)" "example_gov (dut s1) = replicate 2 ''performance''"
    "EnableCpuScaling example_governors s1 = (Inr (), s2)" "example_gov (dut s2) = example_gov (dut ?s)" by blast
  moreover have "example_gov (dut ?s) = [''schedutil'', ''powersave'']"
    by (simp add: example_gov_def CpuFrequencyScalingController_def plain_word_def is_space_def)
  ultimately show ?thesis by (simp add: numeral_2_eq_2)
qed

text \<open>CPU numbers are used as list indices: on a device whose first CPU number is not 0, \<open>ChangeCpuGovernor\<close> raises
  \<open>IndexError\<close> although the commands it needs succeed, and no governor is written.\<close>

theorem cpu_numbers_as_indices:
  assumes "initialized s" "0 < min_cpu_number s" "min_cpu_number s < max_cpu_number s"
    and "int (length modes) = max_cpu_number s - min_cpu_number s"
    and "cpu_Execute env (map cat_governor (cpu_range s)) (dut s) = (r, d)"
    and "returncodes r = replicate (length modes) 0" "length (stdouts r) = length modes"
  shows "ChangeCpuGovernor env modes s = (Inl (Builtin IndexError), s\<lparr>dut := d\<rparr>)"
proof -
  have raises: "mapR f xs = Inl e" if "\<forall>x \<in> set xs. f x = Inl e \<or> (\<exists>y. f x = Inr y)" "\<exists>x \<in> set xs. f x = Inl e"
    for f :: "int \<Rightarrow> py_error + string" and xs e
    using that
  proof (induction xs)
    case (Cons x xs)
    then show ?case by (cases "f x"; cases "\<exists>x \<in> set xs. f x = Inl e") auto
  qed simp
  let ?read = "\<lambda>cpu_no. bindR (py_index (stdouts r) cpu_no) (\<lambda>out. Inr (rstrip out))"
  have cpus: "set (cpu_range s) = {min_cpu_number s .. max_cpu_number s - 1}" by (simp add: cpu_range_def)
  have "mapR ?read (cpu_range s) = Inl IndexError"
  proof (rule raises)
    show "\<forall>x \<in> set (cpu_range s). ?read x = Inl IndexError \<or> (\<exists>y. ?read x = Inr y)" by (auto simp: py_index_def)
    have "?read (max_cpu_number s - 1) = Inl IndexError" using assms by (simp add: py_index_def)
    then show "\<exists>x \<in> set (cpu_range s). ?read x = Inl IndexError"
      using assms(3) unfolding cpus by (intro bexI [of _ "max_cpu_number s - 1"]) auto
  qed
  then show ?thesis
    unfolding ChangeCpuGovernor_def seqA_step [where m = "Init env", OF Init_done [OF assms(1)]]
    using assms by (simp add: action_defs assert_lengths_def assertEqual_def ExecuteA_def liftE_def)
qed

theorem cpu_numbers_as_indices_witness:
  "fst (ChangeCpuGovernor \<lparr>cpu_Execute = (\<lambda>cs d. (CmdResult ''schedutil'' [] 0 None None, d)), cpu_sleep = (\<lambda>_ d. d), show_unequal = (\<lambda>_ _. [])\<rparr>
     [''performance''] ((CpuFrequencyScalingController ())\<lparr>initialized := True, min_cpu_number := 4, max_cpu_number := 5\<rparr>)) = Inl (Builtin IndexError)"
  by (subst cpu_numbers_as_indices [where r = "CmdResult ''schedutil'' [] 0 None None" and d = "()"])
    (simp_all add: CpuFrequencyScalingController_def CmdResult_def AddResult_def cpu_range_def)

text \<open>A device with one CPU that runs below its maximum and has no list of available frequencies.\<close>

definition example_frequencies :: "unit cpu_env" where
  "example_frequencies = \<lparr>
     cpu_Execute = (\<lambda>cs d.
       (if length cs = 2
        then \<lparr>stdouts = [''1000000'' @ [CHR 0x0A], ''998400'' @ [CHR 0x0A]], stderrs = [[], []], returncodes = [0, 0], cmds = [], cmd_exceptions = []\<rparr>
        else CmdResult [] ''No such file'' 1 None None, d)),
     cpu_sleep = (\<lambda>_ d. d), show_unequal = (\<lambda>_ _. [])\<rparr>"

text \<open>Frequencies are compared as strings: a CPU that runs at 998400 below its maximum of 1000000 is not reported as throttled when
  the list of available frequencies can not be read, since the text of the maximum is the smaller one.\<close>

theorem throttling_missed:
  "fst (IsUnderThermalThrottling example_frequencies ((CpuFrequencyScalingController ())\<lparr>initialized := True, max_cpu_number := 1\<rparr>)) = Inr False"
proof -
  let ?s = "(CpuFrequencyScalingController ())\<lparr>initialized := True, max_cpu_number := 1\<rparr>"
  have strip: "strip (''1000000'' @ [CHR 0x0A]) = ''1000000''" "strip (''998400'' @ [CHR 0x0A]) = ''998400''"
    by (simp_all add: strip_def is_space_def)
  have less: "\<not> ''998400'' < ''1000000''" by (simp add: less_char_def)
  have "GetTheoreticalMaxFrequency example_frequencies 0 ?s = (Inr None, ?s)"
    by (simp add: GetTheoreticalMaxFrequency_def action_defs ExecuteA_def example_frequencies_def assert_lengths_def assertEqual_def
        CpuFrequencyScalingController_def CmdResult_def AddResult_def py_index_def liftE_def)
  moreover have "ExecuteA example_frequencies [c1, c2] ?s = (Inr \<lparr>stdouts = [''1000000'' @ [CHR 0x0A], ''998400'' @ [CHR 0x0A]],
      stderrs = [[], []], returncodes = [0, 0], cmds = [], cmd_exceptions = []\<rparr>, ?s)" for c1 c2
    by (simp add: ExecuteA_def example_frequencies_def)
  ultimately have "cpu_throttled example_frequencies 0 ?s = (Inr None, ?s)"
    unfolding cpu_throttled_def
    by (simp add: action_defs assert_lengths_def assertEqual_def py_index_def liftE_def strip less del: append.simps)
  moreover have "cpu_range ?s = [0]" by (simp add: cpu_range_def CpuFrequencyScalingController_def)
  moreover have "initialized ?s" by simp
  ultimately show ?thesis
    by (simp add: IsUnderThermalThrottling_def seqA_step [OF Init_done] getA_def bindA_def returnA_def)
qed

end
