(* ===== verification/Proto_Values.thy ===== *)
theory Proto_Values
  imports Py_Prelude
begin

section \<open>Python values and interface messages (utils/python/mirror/py2pb.py, pb2py.py)\<close>

text \<open>
  The mirrors of HAL interfaces convert the Python values of a test into \<open>VariableSpecificationMessage\<close>s along the
  specification of an attribute, and the messages that come back from the device into Python values. A message has
  the fields that the two modules read or write: the flat ones in a record, the repeated ones as lists of
  messages. The run-time library of the protocol buffers is a parameter: what the assignment of a Python value to a field of
  \<open>ScalarDataValueMessage\<close> keeps or raises, and what reading an unset field gives.

  The functions of \<open>py2pb\<close> change the message that they are given, and some return it or \<open>None\<close>; here they give a
  truth value (\<^const>\<open>False\<close> for \<open>None\<close>) with the message as it is left.
\<close>

datatype var_type =
    UNKNOWN_VARIABLE_TYPE | TYPE_PREDEFINED | TYPE_SCALAR | TYPE_STRING | TYPE_ENUM | TYPE_ARRAY | TYPE_VECTOR | TYPE_STRUCT
  | TYPE_FUNCTION_POINTER | TYPE_VOID | TYPE_HIDL_CALLBACK | TYPE_SUBMODULE | TYPE_UNION | TYPE_HIDL_INTERFACE | TYPE_HANDLE
  | TYPE_MASK | TYPE_HIDL_MEMORY | TYPE_POINTER | TYPE_FMQ_SYNC | TYPE_FMQ_UNSYNC | TYPE_REF | TYPE_SAFE_UNION

text \<open>A scalar: a truth value, an integer, or a float by its text.\<close>

datatype pb_scalar = SBool bool | SInt int | SFloat string

record var_fields =
  name :: string
  vtype :: var_type
  scalar_type :: string
  scalar_value :: "(string \<times> pb_scalar) list"
  string_message :: string
  string_length :: nat
  enum_scalar_type :: string
  vector_size :: nat
  predefined_type :: string

datatype var_msg = VarMsg
  (flat: var_fields)
  (vector_value: "var_msg list")
  (struct_value: "var_msg list")
  (sub_struct: "var_msg list")
  (union_value: "var_msg list")
  (sub_union: "var_msg list")

datatype py_value =
    VNone
  | VScalar pb_scalar
  | VStr string
  | VList "py_value list"
  | VDict "(string \<times> py_value) list"
  | VMsg var_msg

record pb_runtime =
  set_scalar :: "string \<Rightarrow> py_value \<Rightarrow> py_error + pb_scalar"
  unset_scalar :: "string \<Rightarrow> py_error + pb_scalar"

subsection \<open>Messages\<close>

definition empty_fields :: var_fields where
  "empty_fields = \<lparr>name = [], vtype = UNKNOWN_VARIABLE_TYPE, scalar_type = [], scalar_value = [], string_message = [],
     string_length = 0, enum_scalar_type = [], vector_size = 0, predefined_type = []\<rparr>"

definition empty_msg :: var_msg where
  "empty_msg = VarMsg empty_fields [] [] [] [] []"

definition set_flat :: "(var_fields \<Rightarrow> var_fields) \<Rightarrow> var_msg \<Rightarrow> var_msg" where
  "set_flat f m = VarMsg (f (flat m)) (vector_value m) (struct_value m) (sub_struct m) (union_value m) (sub_union m)"

definition add_vector :: "var_msg \<Rightarrow> var_msg \<Rightarrow> var_msg" where
  "add_vector x m = VarMsg (flat m) (vector_value m @ [x]) (struct_value m) (sub_struct m) (union_value m) (sub_union m)"

definition add_struct :: "var_msg \<Rightarrow> var_msg \<Rightarrow> var_msg" where
  "add_struct x m = VarMsg (flat m) (vector_value m) (struct_value m @ [x]) (sub_struct m) (union_value m) (sub_union m)"

definition add_union :: "var_msg \<Rightarrow> var_msg \<Rightarrow> var_msg" where
  "add_union x m = VarMsg (flat m) (vector_value m) (struct_value m) (sub_struct m) (union_value m @ [x]) (sub_union m)"

text \<open>The first lines of every conversion: the name, unless it is empty, and the type.\<close>

definition set_name_type :: "var_msg \<Rightarrow> var_type \<Rightarrow> var_msg \<Rightarrow> var_msg" where
  "set_name_type pb_spec t =
     set_flat (\<lambda>f. (if name (flat pb_spec) \<noteq> [] then f\<lparr>name := name (flat pb_spec)\<rparr> else f)\<lparr>vtype := t\<rparr>)"

definition set_scalar_field :: "pb_runtime \<Rightarrow> string \<Rightarrow> py_value \<Rightarrow> var_msg \<Rightarrow> py_error + var_msg" where
  "set_scalar_field pb field v m =
     bindR (set_scalar pb field v) (\<lambda>s. Inr (set_flat (\<lambda>f. f\<lparr>scalar_value := dict_set field s (scalar_value f)\<rparr>) m))"

subsection \<open>Values to messages\<close>

definition PyValue2PbEnum :: "pb_runtime \<Rightarrow> var_msg \<Rightarrow> var_msg \<Rightarrow> py_value \<Rightarrow> py_error + var_msg" where
  "PyValue2PbEnum pb message pb_spec py_value =
     (let message = set_name_type pb_spec TYPE_ENUM message;
          scalar_type = enum_scalar_type (flat pb_spec) in
      if scalar_type \<noteq> [] then set_scalar_field pb scalar_type py_value message
      else set_scalar_field pb ''int32_t'' py_value message)"

definition PyValue2PbScalar :: "pb_runtime \<Rightarrow> var_msg \<Rightarrow> var_msg \<Rightarrow> py_value \<Rightarrow> py_error + var_msg" where
  "PyValue2PbScalar pb message pb_spec py_value =
     (let message = set_name_type pb_spec TYPE_SCALAR message;
          message = set_flat (\<lambda>f. f\<lparr>scalar_type := scalar_type (flat pb_spec)\<rparr>) message in
      set_scalar_field pb (scalar_type (flat pb_spec)) py_value message)"

definition PyString2PbString :: "var_msg \<Rightarrow> var_msg \<Rightarrow> py_value \<Rightarrow> py_error + var_msg" where
  "PyString2PbString message pb_spec py_value =
     (case py_value of
        VStr s \<Rightarrow> Inr (set_flat (\<lambda>f. f\<lparr>string_message := s, string_length := length s\<rparr>) (set_name_type pb_spec TYPE_STRING message))
      | _ \<Rightarrow> Inl TypeError)"

text \<open>What a \<open>for\<close> loop runs through, and \<open>len\<close>: a string gives its characters, a dictionary its keys.\<close>

definition py_iter :: "py_value \<Rightarrow> py_error + py_value list" where
  "py_iter v = (case v of
     VStr s \<Rightarrow> Inr (map (\<lambda>c. VStr [c]) s)
   | VList xs \<Rightarrow> Inr xs
   | VDict d \<Rightarrow> Inr (map (VStr \<circ> fst) d)
   | _ \<Rightarrow> Inl TypeError)"

definition py_keys :: "py_value \<Rightarrow> py_error + (string \<times> py_value) list" where
  "py_keys v = (case v of VDict d \<Rightarrow> Inr d | _ \<Rightarrow> Inl AttributeError)"

text \<open>\<open>FindSubStructType\<close> and \<open>FindSubUnionType\<close>, given the list in which they search.\<close>

definition FindSubType :: "var_msg list \<Rightarrow> string \<Rightarrow> var_msg option" where
  "FindSubType subs sub_name = List.find (\<lambda>sub. name (flat sub) = sub_name) subs"

lemma size_list_member: "x \<in> set xs \<Longrightarrow> size x < size_list size xs"
  by (induction xs) auto

lemma FindSubType_size: "FindSubType subs n = Some sub \<Longrightarrow> size sub < size_list size subs"
  by (auto simp: FindSubType_def find_Some_iff intro: size_list_member)

lemma bindR_cong [fundef_cong]:
  "m = m' \<Longrightarrow> (\<And>x. m' = Inr x \<Longrightarrow> f x = f' x) \<Longrightarrow> bindR m f = bindR m' f'"
  by (cases m') auto

lemma msg_sizes:
  "Suc (2 * size_list size (sub_struct m) + 2 * size_list size (struct_value m)) < 2 * size m"
  "Suc (2 * size_list size (sub_union m) + 2 * size_list size (union_value m)) < 2 * size m"
  "vector_value m = x # xs \<Longrightarrow> Suc (2 * size x) < 2 * size m"
  by (cases m; simp)+

text \<open>
  One attribute of a struct or union, after \<open>add()\<close> has made a new message for it: \<open>subs\<close> are the nested types in which
  the code looks for the type of an attribute that is itself a struct or union. The other functions follow the
  code; \<open>struct_attrs\<close>, \<open>union_attrs\<close> and \<open>vector_items\<close> are its loops.
\<close>

function (sequential)
  Convert_spec :: "pb_runtime \<Rightarrow> var_msg \<Rightarrow> py_value \<Rightarrow> py_error + var_msg option"
  and PyList2PbVector :: "pb_runtime \<Rightarrow> var_msg \<Rightarrow> var_msg \<Rightarrow> py_value \<Rightarrow> py_error + bool \<times> var_msg"
  and vector_items :: "pb_runtime \<Rightarrow> var_msg \<Rightarrow> py_value list \<Rightarrow> var_msg \<Rightarrow> py_error + var_msg"
  and PyDict2PbStruct :: "pb_runtime \<Rightarrow> var_msg \<Rightarrow> var_msg \<Rightarrow> py_value \<Rightarrow> py_error + bool \<times> var_msg"
  and struct_attrs :: "pb_runtime \<Rightarrow> var_msg list \<Rightarrow> var_msg list \<Rightarrow> (string \<times> py_value) list \<Rightarrow> string list \<Rightarrow> var_msg \<Rightarrow> py_error + bool \<times> var_msg"
  and PyDict2PbUnion :: "pb_runtime \<Rightarrow> var_msg \<Rightarrow> var_msg \<Rightarrow> py_value \<Rightarrow> py_error + bool \<times> var_msg"
  and union_attrs :: "pb_runtime \<Rightarrow> var_msg list \<Rightarrow> var_msg list \<Rightarrow> (string \<times> py_value) list \<Rightarrow> string list \<Rightarrow> var_msg \<Rightarrow> py_error + bool \<times> var_msg"
  and convert_attr :: "pb_runtime \<Rightarrow> var_msg list \<Rightarrow> var_msg \<Rightarrow> py_value \<Rightarrow> py_error + bool \<times> var_msg"
where
  "Convert_spec pb pb_spec py_value =
     (let message = set_flat (\<lambda>f. f\<lparr>name := name (flat pb_spec)\<rparr>) empty_msg in
      case py_value of
        VMsg m \<Rightarrow> Inr (Some m)
      | _ \<Rightarrow>
        (case vtype (flat pb_spec) of
           TYPE_STRUCT \<Rightarrow> bindR (PyDict2PbStruct pb message pb_spec py_value) (\<lambda>r. Inr (Some (snd r)))
         | TYPE_UNION \<Rightarrow> bindR (PyDict2PbUnion pb message pb_spec py_value) (\<lambda>r. Inr (Some (snd r)))
         | TYPE_ENUM \<Rightarrow> bindR (PyValue2PbEnum pb message pb_spec py_value) (\<lambda>m. Inr (Some m))
         | TYPE_SCALAR \<Rightarrow> bindR (PyValue2PbScalar pb message pb_spec py_value) (\<lambda>m. Inr (Some m))
         | TYPE_STRING \<Rightarrow> bindR (PyString2PbString message pb_spec py_value) (\<lambda>m. Inr (Some m))
         | TYPE_VECTOR \<Rightarrow> bindR (PyList2PbVector pb message pb_spec py_value) (\<lambda>r. Inr (Some (snd r)))
         | _ \<Rightarrow> Inr None))"
| "PyList2PbVector pb message pb_spec py_value =
     (let message = set_name_type pb_spec TYPE_VECTOR message in
      bindR (py_iter py_value) (\<lambda>items.
        if items = [] then Inr (True, message)
        else case vector_value pb_spec of
               [] \<Rightarrow> Inl IndexError
             | vector_spec # _ \<Rightarrow>
                 bindR (vector_items pb vector_spec items message) (\<lambda>message.
                   Inr (True, set_flat (\<lambda>f. f\<lparr>vector_size := length items\<rparr>) message))))"
| "vector_items pb vector_spec [] message = Inr message"
| "vector_items pb vector_spec (curr_value # items) message =
     bindR (Convert_spec pb vector_spec curr_value) (\<lambda>r.
       case r of
         None \<Rightarrow> Inl TypeError
       | Some m \<Rightarrow> vector_items pb vector_spec items (add_vector m message))"
| "PyDict2PbStruct pb message pb_spec py_value =
     (let message = set_name_type pb_spec TYPE_STRUCT message in
      bindR (py_keys py_value) (\<lambda>d.
        struct_attrs pb (sub_struct pb_spec) (struct_value pb_spec) d (map fst d) message))"
| "struct_attrs pb subs [] d provided_attrs message = Inr (provided_attrs = [], message)"
| "struct_attrs pb subs (attr # attrs) d provided_attrs message =
     (case map_of d (name (flat attr)) of
        None \<Rightarrow> Inr (False, message)
      | Some curr_value \<Rightarrow>
          if name (flat attr) \<notin> set provided_attrs then Inl KeyError
          else
            bindR (convert_attr pb subs attr curr_value) (\<lambda>(ok, attr_msg).
              let message = add_struct attr_msg message in
              if ok then struct_attrs pb subs attrs d (remove1 (name (flat attr)) provided_attrs) message
              else Inr (False, message)))"
| "PyDict2PbUnion pb message pb_spec py_value =
     bindR (py_iter py_value) (\<lambda>items.
       if length items > 1 then Inr (False, message)
       else
         let message = set_name_type pb_spec TYPE_UNION message in
         bindR (py_keys py_value) (\<lambda>d.
           union_attrs pb (sub_union pb_spec) (union_value pb_spec) d (map fst d) message))"
| "union_attrs pb subs [] d provided_attrs message = Inr (provided_attrs = [], message)"
| "union_attrs pb subs (attr # attrs) d provided_attrs message =
     (case map_of d (name (flat attr)) of
        None \<Rightarrow> union_attrs pb subs attrs d provided_attrs (add_union empty_msg message)
      | Some curr_value \<Rightarrow>
          if name (flat attr) \<notin> set provided_attrs then Inl KeyError
          else
            bindR (convert_attr pb subs attr curr_value) (\<lambda>(ok, attr_msg).
              let message = add_union attr_msg message in
              if ok then union_attrs pb subs attrs d (remove1 (name (flat attr)) provided_attrs) message
              else Inr (False, message)))"
| "convert_attr pb subs attr curr_value =
     (case vtype (flat attr) of
        TYPE_ENUM \<Rightarrow> bindR (PyValue2PbEnum pb empty_msg attr curr_value) (\<lambda>m. Inr (True, m))
      | TYPE_SCALAR \<Rightarrow> bindR (PyValue2PbScalar pb empty_msg attr curr_value) (\<lambda>m. Inr (True, m))
      | TYPE_STRING \<Rightarrow> bindR (PyString2PbString empty_msg attr curr_value) (\<lambda>m. Inr (True, m))
      | TYPE_VECTOR \<Rightarrow> bindR (PyList2PbVector pb empty_msg attr curr_value) (\<lambda>r. Inr (True, snd r))
      | TYPE_STRUCT \<Rightarrow>
          (case FindSubType subs (predefined_type (flat attr)) of
             None \<Rightarrow> Inr (False, empty_msg)
           | Some sub_attr \<Rightarrow> bindR (PyDict2PbStruct pb empty_msg sub_attr curr_value) (\<lambda>r. Inr (True, snd r)))
      | TYPE_UNION \<Rightarrow>
          (case FindSubType subs (predefined_type (flat attr)) of
             None \<Rightarrow> Inr (False, empty_msg)
           | Some sub_attr \<Rightarrow> bindR (PyDict2PbUnion pb empty_msg sub_attr curr_value) (\<lambda>r. Inr (True, snd r)))
      | _ \<Rightarrow> Inr (False, empty_msg))"
  by pat_completeness auto
termination
  by (relation "measures [\<lambda>x. case x of
      Inl (Inl (Inl (pb, spec, v))) \<Rightarrow> 2 * size spec + 1
    | Inl (Inl (Inr (pb, m, spec, v))) \<Rightarrow> 2 * size spec
    | Inl (Inr (Inl (pb, spec, vs, m))) \<Rightarrow> 2 * size spec + 1
    | Inl (Inr (Inr (pb, m, spec, v))) \<Rightarrow> 2 * size spec
    | Inr (Inl (Inl (pb, subs, attrs, d, ps, m))) \<Rightarrow> 2 * (size_list size subs + size_list size attrs) + 1
    | Inr (Inl (Inr (pb, m, spec, v))) \<Rightarrow> 2 * size spec
    | Inr (Inr (Inl (pb, subs, attrs, d, ps, m))) \<Rightarrow> 2 * (size_list size subs + size_list size attrs) + 1
    | Inr (Inr (Inr (pb, subs, attr, v))) \<Rightarrow> 2 * (size_list size subs + size attr) + 1,
    \<lambda>x. case x of Inl (Inr (Inl (pb, spec, vs, m))) \<Rightarrow> Suc (length vs) | _ \<Rightarrow> 0]")
    (auto dest!: FindSubType_size simp: msg_sizes)

lemmas py2pb_simps = Convert_spec.simps PyList2PbVector.simps vector_items.simps PyDict2PbStruct.simps struct_attrs.simps
  PyDict2PbUnion.simps union_attrs.simps convert_attr.simps

declare py2pb_simps [simp del]

definition py2pb_Convert :: "pb_runtime \<Rightarrow> var_msg option \<Rightarrow> py_value \<Rightarrow> py_error + var_msg option" where
  "py2pb_Convert pb pb_spec py_value = (case pb_spec of None \<Rightarrow> Inr None | Some spec \<Rightarrow> Convert_spec pb spec py_value)"

subsection \<open>Messages to values\<close>

definition get_scalar_field :: "pb_runtime \<Rightarrow> var_msg \<Rightarrow> py_error + py_value" where
  "get_scalar_field pb var =
     (case map_of (scalar_value (flat var)) (scalar_type (flat var)) of
        Some s \<Rightarrow> Inr (VScalar s)
      | None \<Rightarrow> bindR (unset_scalar pb (scalar_type (flat var))) (\<lambda>s. Inr (VScalar s)))"

definition PbEnum2PyValue :: "pb_runtime \<Rightarrow> var_msg \<Rightarrow> py_error + py_value" where
  "PbEnum2PyValue = get_scalar_field"

definition PbMask2PyValue :: "pb_runtime \<Rightarrow> var_msg \<Rightarrow> py_error + py_value" where
  "PbMask2PyValue = get_scalar_field"

definition PbScalar2PyValue :: "pb_runtime \<Rightarrow> var_msg \<Rightarrow> py_error + py_value" where
  "PbScalar2PyValue = get_scalar_field"

definition PbString2PyString :: "var_msg \<Rightarrow> py_value" where
  "PbString2PyString var = VStr (string_message (flat var))"

definition PbPredefined2PyValue :: "var_msg \<Rightarrow> py_value" where
  "PbPredefined2PyValue var = VStr (predefined_type (flat var))"

text \<open>
  \<open>PbStruct2PyDict\<close> compares the type of an attribute with \<open>CompSpecMsg.TYPE_Array\<close> after the other types; the module has no such
  name (it is \<open>TYPE_ARRAY\<close>), so that the comparison raises. \<open>PbArray2PyList\<close>, which would be called, is the same as
  \<open>PbVector2PyList\<close>.
\<close>

fun PbVector2PyList :: "pb_runtime \<Rightarrow> var_msg \<Rightarrow> py_error + py_value"
  and vector_values :: "pb_runtime \<Rightarrow> var_msg list \<Rightarrow> py_value list \<Rightarrow> py_error + py_value"
  and PbStruct2PyDict :: "pb_runtime \<Rightarrow> var_msg \<Rightarrow> py_error + py_value"
  and struct_items :: "pb_runtime \<Rightarrow> var_msg list \<Rightarrow> (string \<times> py_value) list \<Rightarrow> py_error + py_value"
where
  "PbVector2PyList pb (VarMsg f vs sts ss us su) = vector_values pb vs []"
| "vector_values pb [] result = Inr (VList result)"
| "vector_values pb (curr_value # values) result =
     (case vtype (flat curr_value) of
        TYPE_SCALAR \<Rightarrow> bindR (PbScalar2PyValue pb curr_value) (\<lambda>v. vector_values pb values (result @ [v]))
      | TYPE_STRUCT \<Rightarrow> bindR (PbStruct2PyDict pb curr_value) (\<lambda>v. vector_values pb values (result @ [v]))
      | _ \<Rightarrow> Inr VNone)"
| "PbStruct2PyDict pb (VarMsg f vs sts ss us su) = struct_items pb sts []"
| "struct_items pb [] result = Inr (VDict result)"
| "struct_items pb (attr # attrs) result =
     bindR (case vtype (flat attr) of
              TYPE_ENUM \<Rightarrow> PbEnum2PyValue pb attr
            | TYPE_SCALAR \<Rightarrow> PbScalar2PyValue pb attr
            | TYPE_STRING \<Rightarrow> Inr (PbString2PyString attr)
            | TYPE_VECTOR \<Rightarrow> PbVector2PyList pb attr
            | TYPE_STRUCT \<Rightarrow> PbStruct2PyDict pb attr
            | _ \<Rightarrow> Inl AttributeError) (\<lambda>v.
       struct_items pb attrs (dict_set (name (flat attr)) v result))"

definition PbArray2PyList :: "pb_runtime \<Rightarrow> var_msg \<Rightarrow> py_error + py_value" where
  "PbArray2PyList = PbVector2PyList"

definition pb2py_Convert :: "pb_runtime \<Rightarrow> var_msg \<Rightarrow> py_error + py_value" where
  "pb2py_Convert pb var =
     (case vtype (flat var) of
        TYPE_PREDEFINED \<Rightarrow> Inr (PbPredefined2PyValue var)
      | TYPE_SCALAR \<Rightarrow> PbScalar2PyValue pb var
      | TYPE_VECTOR \<Rightarrow> PbVector2PyList pb var
      | TYPE_STRUCT \<Rightarrow> PbStruct2PyDict pb var
      | TYPE_ENUM \<Rightarrow> PbEnum2PyValue pb var
      | TYPE_STRING \<Rightarrow> Inr (PbString2PyString var)
      | TYPE_MASK \<Rightarrow> PbMask2PyValue pb var
      | _ \<Rightarrow> Inr VNone)"

subsection \<open>Values that fit a specification\<close>

text \<open>
  A value fits a specification if its scalars are kept by the fields of their types, its lists are vectors of scalars or
  structs and its dictionaries have the attributes of the struct. The type of an attribute that is a struct is
  looked up among the nested types; it has to have the name of the attribute. Dictionaries are written in the order of the
  attributes.
\<close>

definition attr_spec :: "var_msg list \<Rightarrow> var_msg \<Rightarrow> var_msg option" where
  "attr_spec subs attr =
     (if vtype (flat attr) = TYPE_STRUCT then FindSubType subs (predefined_type (flat attr)) else Some attr)"

inductive fits :: "pb_runtime \<Rightarrow> var_msg \<Rightarrow> py_value \<Rightarrow> bool" for pb where
  fits_scalar: "vtype (flat spec) = TYPE_SCALAR \<Longrightarrow> set_scalar pb (scalar_type (flat spec)) (VScalar s) = Inr s \<Longrightarrow>
    fits pb spec (VScalar s)"
| fits_string: "vtype (flat spec) = TYPE_STRING \<Longrightarrow> fits pb spec (VStr s)"
| fits_vector: "vtype (flat spec) = TYPE_VECTOR \<Longrightarrow> vector_value spec = vspec # vspecs \<Longrightarrow>
    vtype (flat vspec) \<in> {TYPE_SCALAR, TYPE_STRUCT} \<Longrightarrow> (\<forall>x \<in> set xs. fits pb vspec x) \<Longrightarrow> fits pb spec (VList xs)"
| fits_struct: "vtype (flat spec) = TYPE_STRUCT \<Longrightarrow> distinct (map fst d) \<Longrightarrow>
    list_all2 (\<lambda>attr kv. fst kv = name (flat attr) \<and>
      (\<exists>sub. attr_spec (sub_struct spec) attr = Some sub \<and> name (flat sub) = name (flat attr) \<and>
        vtype (flat sub) = vtype (flat attr) \<and> fits pb sub (snd kv))) (struct_value spec) d \<Longrightarrow>
    fits pb spec (VDict d)"

lemma fits_types: "fits pb spec v \<Longrightarrow> vtype (flat spec) \<in> {TYPE_SCALAR, TYPE_STRING, TYPE_VECTOR, TYPE_STRUCT}"
  by (induction rule: fits.induct) auto

text \<open>
  Messages whose scalars have a type and whose attributes have a name, of the types that values are converted to; and values whose dictionaries have no
  empty key. If no field has the empty name, such a value gives such a message.
\<close>

fun common_msg :: "var_msg \<Rightarrow> bool" where
  "common_msg (VarMsg f vs sts ss us su) =
     (case vtype f of
        TYPE_SCALAR \<Rightarrow> scalar_type f \<noteq> []
      | TYPE_ENUM \<Rightarrow> scalar_type f \<noteq> []
      | TYPE_STRING \<Rightarrow> True
      | TYPE_VECTOR \<Rightarrow> (\<forall>v \<in> set vs. vtype (flat v) \<in> {TYPE_SCALAR, TYPE_STRUCT} \<and> common_msg v)
      | TYPE_STRUCT \<Rightarrow>
          (\<forall>a \<in> set sts. name (flat a) \<noteq> [] \<and> vtype (flat a) \<in> {TYPE_ENUM, TYPE_SCALAR, TYPE_STRING, TYPE_VECTOR, TYPE_STRUCT} \<and>
             common_msg a)
      | _ \<Rightarrow> False)"

fun named_value :: "py_value \<Rightarrow> bool" where
  "named_value (VDict d) = (\<forall>kv \<in> set d. fst kv \<noteq> [] \<and> named_value (snd kv))"
| "named_value (VList xs) = (\<forall>x \<in> set xs. named_value x)"
| "named_value v = True"

definition no_empty_field :: "pb_runtime \<Rightarrow> bool" where
  "no_empty_field pb \<longleftrightarrow> (\<forall>v. \<exists>e. set_scalar pb [] v = Inl e)"

definition reads :: "pb_runtime \<Rightarrow> var_msg \<Rightarrow> py_value \<Rightarrow> bool" where
  "reads pb m v \<longleftrightarrow> pb2py_Convert pb m = Inr v \<and> vtype (flat m) \<in> {TYPE_SCALAR, TYPE_STRING, TYPE_VECTOR, TYPE_STRUCT} \<and>
     (no_empty_field pb \<and> named_value v \<longrightarrow> common_msg m)"

lemma common_types:
  "vtype (flat m) = TYPE_SCALAR \<Longrightarrow> common_msg m \<longleftrightarrow> scalar_type (flat m) \<noteq> []"
  "vtype (flat m) = TYPE_STRING \<Longrightarrow> common_msg m"
  "vtype (flat m) = TYPE_VECTOR \<Longrightarrow>
     common_msg m \<longleftrightarrow> (\<forall>v \<in> set (vector_value m). vtype (flat v) \<in> {TYPE_SCALAR, TYPE_STRUCT} \<and> common_msg v)"
  "vtype (flat m) = TYPE_STRUCT \<Longrightarrow>
     common_msg m \<longleftrightarrow> (\<forall>a \<in> set (struct_value m). name (flat a) \<noteq> [] \<and>
       vtype (flat a) \<in> {TYPE_ENUM, TYPE_SCALAR, TYPE_STRING, TYPE_VECTOR, TYPE_STRUCT} \<and> common_msg a)"
  by (cases m; simp)+

lemma reads_common_vector:
  "list_all2 (reads pb) ms xs \<Longrightarrow> no_empty_field pb \<Longrightarrow> named_value (VList xs) \<Longrightarrow> \<forall>m \<in> set ms. common_msg m"
  by (induction rule: list_all2_induct) (auto simp: reads_def)

definition named_reads :: "pb_runtime \<Rightarrow> var_msg \<Rightarrow> string \<times> py_value \<Rightarrow> bool" where
  "named_reads pb m kv \<longleftrightarrow> name (flat m) = fst kv \<and> reads pb m (snd kv)"

lemma reads_common_struct:
  "list_all2 (named_reads pb) ms d \<Longrightarrow> no_empty_field pb \<Longrightarrow> named_value (VDict d) \<Longrightarrow>
   \<forall>m \<in> set ms. name (flat m) \<noteq> [] \<and> vtype (flat m) \<in> {TYPE_ENUM, TYPE_SCALAR, TYPE_STRING, TYPE_VECTOR, TYPE_STRUCT} \<and> common_msg m"
  by (induction rule: list_all2_induct) (auto simp: reads_def named_reads_def)

lemma dict_set_fresh: "k \<notin> fst ` set d \<Longrightarrow> dict_set k v d = d @ [(k, v)]"
  by (induction k v d rule: dict_set.induct) auto

lemma struct_items_reads:
  "list_all2 (named_reads pb) ms d \<Longrightarrow> distinct (map fst (r @ d)) \<Longrightarrow> struct_items pb ms r = Inr (VDict (r @ d))"
proof (induction arbitrary: r rule: list_all2_induct)
  case (Cons m ms kv d)
  then have "name (flat m) \<notin> fst ` set r" by (auto simp: named_reads_def)
  with Cons show ?case
    by (auto simp: named_reads_def reads_def pb2py_Convert_def dict_set_fresh)
qed simp

lemma vector_values_reads:
  "list_all2 (reads pb) ms xs \<Longrightarrow> (\<forall>m \<in> set ms. vtype (flat m) \<in> {TYPE_SCALAR, TYPE_STRUCT}) \<Longrightarrow>
   vector_values pb ms r = Inr (VList (r @ xs))"
  by (induction arbitrary: r rule: list_all2_induct) (auto simp: reads_def pb2py_Convert_def)

lemma set_flat_simps [simp]:
  "flat (set_flat f m) = f (flat m)" "vector_value (set_flat f m) = vector_value m" "struct_value (set_flat f m) = struct_value m"
  "sub_struct (set_flat f m) = sub_struct m" "union_value (set_flat f m) = union_value m" "sub_union (set_flat f m) = sub_union m"
  "set_flat f (set_flat g m) = set_flat (f \<circ> g) m"
  by (simp_all add: set_flat_def)

lemma add_simps [simp]:
  "flat (add_vector x m) = flat m" "vector_value (add_vector x m) = vector_value m @ [x]"
  "flat (add_struct x m) = flat m" "struct_value (add_struct x m) = struct_value m @ [x]"
  by (simp_all add: add_vector_def add_struct_def)

lemma empty_simps [simp]:
  "vector_value empty_msg = []" "struct_value empty_msg = []" "flat empty_msg = empty_fields" "name empty_fields = []"
  "scalar_value empty_fields = []"
  by (simp_all add: empty_msg_def empty_fields_def)

text \<open>The name that \<open>Convert\<close> sets first makes no difference.\<close>

lemma set_name_type_named:
  "set_name_type spec t (set_flat (\<lambda>f. f\<lparr>name := name (flat spec)\<rparr>) empty_msg) = set_name_type spec t empty_msg"
  by (auto simp: set_name_type_def set_flat_def empty_msg_def empty_fields_def)

lemma name_type_simps [simp]:
  "name (flat (set_name_type spec t empty_msg)) = name (flat spec)" "vtype (flat (set_name_type spec t m)) = t"
  "vector_value (set_name_type spec t m) = vector_value m" "struct_value (set_name_type spec t m) = struct_value m"
  "scalar_value (flat (set_name_type spec t m)) = scalar_value (flat m)"
  by (simp_all add: set_name_type_def)

lemma PbVector2PyList_value: "PbVector2PyList pb m = vector_values pb (vector_value m) []"
  by (cases m) simp

lemma PbStruct2PyDict_value: "PbStruct2PyDict pb m = struct_items pb (struct_value m) []"
  by (cases m) simp

text \<open>The conversion of an attribute is the conversion along its own specification.\<close>

lemma convert_named:
  "PyValue2PbScalar pb (set_flat (\<lambda>f. f\<lparr>name := name (flat spec)\<rparr>) empty_msg) spec v = PyValue2PbScalar pb empty_msg spec v"
  "PyString2PbString (set_flat (\<lambda>f. f\<lparr>name := name (flat spec)\<rparr>) empty_msg) spec v = PyString2PbString empty_msg spec v"
  "PyList2PbVector pb (set_flat (\<lambda>f. f\<lparr>name := name (flat spec)\<rparr>) empty_msg) spec v = PyList2PbVector pb empty_msg spec v"
  "PyDict2PbStruct pb (set_flat (\<lambda>f. f\<lparr>name := name (flat spec)\<rparr>) empty_msg) spec v = PyDict2PbStruct pb empty_msg spec v"
  by (simp_all only: PyValue2PbScalar_def PyString2PbString_def PyList2PbVector.simps PyDict2PbStruct.simps Let_def set_name_type_named)

lemma Convert_spec_types:
  assumes "\<And>m. v \<noteq> VMsg m"
  shows "vtype (flat spec) = TYPE_SCALAR \<Longrightarrow> Convert_spec pb spec v = bindR (PyValue2PbScalar pb empty_msg spec v) (\<lambda>m. Inr (Some m))"
    and "vtype (flat spec) = TYPE_STRING \<Longrightarrow> Convert_spec pb spec v = bindR (PyString2PbString empty_msg spec v) (\<lambda>m. Inr (Some m))"
    and "vtype (flat spec) = TYPE_VECTOR \<Longrightarrow> Convert_spec pb spec v = bindR (PyList2PbVector pb empty_msg spec v) (\<lambda>r. Inr (Some (snd r)))"
    and "vtype (flat spec) = TYPE_STRUCT \<Longrightarrow> Convert_spec pb spec v = bindR (PyDict2PbStruct pb empty_msg spec v) (\<lambda>r. Inr (Some (snd r)))"
  using assms by (cases v; simp add: Convert_spec.simps convert_named)+

lemma Inr_bindR: "Inr y = bindR m f \<longleftrightarrow> (\<exists>x. m = Inr x \<and> f x = Inr y)"
  using bindR_Inr by metis

lemma convert_attr_spec:
  assumes "attr_spec subs attr = Some sub" "vtype (flat sub) = vtype (flat attr)"
    and "Convert_spec pb sub v = Inr (Some m)" "\<And>m. v \<noteq> VMsg m"
    and "vtype (flat attr) \<in> {TYPE_SCALAR, TYPE_STRING, TYPE_VECTOR, TYPE_STRUCT}"
  shows "convert_attr pb subs attr v = Inr (True, m)"
  using assms(1,2,3,5) Convert_spec_types [OF assms(4), where spec = sub and pb = pb]
  by (auto simp: attr_spec_def convert_attr.simps Inr_bindR)

lemma fits_not_msg: "fits pb spec v \<Longrightarrow> v \<noteq> VMsg m"
  by (auto elim: fits.cases)

text \<open>What the conversion of a value that fits gives.\<close>

definition converts :: "pb_runtime \<Rightarrow> var_msg \<Rightarrow> py_value \<Rightarrow> bool" where
  "converts pb spec v \<longleftrightarrow> (\<exists>m. Convert_spec pb spec v = Inr (Some m) \<and> name (flat m) = name (flat spec) \<and>
     vtype (flat m) = vtype (flat spec) \<and> reads pb m v)"

lemma vector_items_converts:
  assumes "\<forall>x \<in> set xs. converts pb vspec x"
  shows "\<exists>ms. vector_items pb vspec xs message = Inr (VarMsg (flat message) (vector_value message @ ms) (struct_value message)
      (sub_struct message) (union_value message) (sub_union message)) \<and>
    list_all2 (reads pb) ms xs \<and> (\<forall>m \<in> set ms. vtype (flat m) = vtype (flat vspec))"
  using assms
proof (induction xs arbitrary: message)
  case Nil
  show ?case by (simp add: vector_items.simps)
next
  case (Cons x xs)
  then obtain m where "Convert_spec pb vspec x = Inr (Some m)" "vtype (flat m) = vtype (flat vspec)" "reads pb m x"
    by (auto simp: converts_def)
  moreover from Cons obtain ms where "vector_items pb vspec xs (add_vector m message) = Inr (VarMsg (flat message)
      (vector_value message @ m # ms) (struct_value message) (sub_struct message) (union_value message) (sub_union message))"
    "list_all2 (reads pb) ms xs" "\<forall>m \<in> set ms. vtype (flat m) = vtype (flat vspec)"
    using Cons.IH [of "add_vector m message"] by (auto simp: add_vector_def)
  ultimately show ?case by (intro exI [of _ "m # ms"]) (simp add: vector_items.simps)
qed

lemma struct_attrs_converts:
  assumes "list_all2 (\<lambda>attr kv. fst kv = name (flat attr) \<and> (\<exists>sub. attr_spec subs attr = Some sub \<and>
      name (flat sub) = name (flat attr) \<and> vtype (flat sub) = vtype (flat attr) \<and> fits pb sub (snd kv) \<and> converts pb sub (snd kv))) attrs kvs"
    and "distinct (map fst d)" "set kvs \<subseteq> set d" "distinct (map fst kvs)"
  shows "\<exists>ms. struct_attrs pb subs attrs d (map fst kvs) message = Inr (True, VarMsg (flat message) (vector_value message)
      (struct_value message @ ms) (sub_struct message) (union_value message) (sub_union message)) \<and> list_all2 (named_reads pb) ms kvs"
  using assms
proof (induction arbitrary: message rule: list_all2_induct)
  case Nil
  show ?case by (simp add: struct_attrs.simps)
next
  case (Cons attr attrs kv kvs)
  then obtain sub m where sub: "attr_spec subs attr = Some sub" "name (flat sub) = name (flat attr)"
      "vtype (flat sub) = vtype (flat attr)" "fits pb sub (snd kv)"
    and m: "Convert_spec pb sub (snd kv) = Inr (Some m)" "name (flat m) = name (flat sub)" "reads pb m (snd kv)"
    by (auto simp: converts_def)
  have "convert_attr pb subs attr (snd kv) = Inr (True, m)"
    using convert_attr_spec [OF sub(1,3) m(1) fits_not_msg [OF sub(4)]] fits_types [OF sub(4)] sub(3) by simp
  moreover have "map_of d (name (flat attr)) = Some (snd kv)"
    using Cons.prems Cons.hyps by (metis (no_types, lifting) list.set_intros(1) map_of_eq_Some_iff prod.collapse subset_iff)
  moreover have "named_reads pb m kv" using m sub Cons.hyps by (auto simp: named_reads_def)
  ultimately show ?case using Cons.IH [of "add_struct m message"] Cons.prems Cons.hyps
    by (fastforce simp: struct_attrs.simps add_struct_def)
qed

lemma fits_converts: "fits pb spec v \<Longrightarrow> converts pb spec v"
proof (induction rule: fits.induct)
  case (fits_scalar spec s)
  then show ?case
    by (auto simp: converts_def Convert_spec_types(1) PyValue2PbScalar_def Let_def set_scalar_field_def reads_def pb2py_Convert_def
        PbScalar2PyValue_def get_scalar_field_def no_empty_field_def common_types(1)) (metis Inl_Inr_False)
next
  case (fits_string spec s)
  then show ?case
    by (auto simp: converts_def Convert_spec_types(2) PyString2PbString_def Let_def reads_def pb2py_Convert_def PbString2PyString_def
        common_types(2))
next
  case (fits_vector spec vspec vspecs xs)
  then have "\<forall>x \<in> set xs. converts pb vspec x" by blast
  from vector_items_converts [OF this, of "set_name_type spec TYPE_VECTOR empty_msg"] obtain ms where
    ms: "vector_items pb vspec xs (set_name_type spec TYPE_VECTOR empty_msg) =
      Inr (VarMsg (flat (set_name_type spec TYPE_VECTOR empty_msg)) ms [] [] [] [])"
    "list_all2 (reads pb) ms xs" "\<forall>m \<in> set ms. vtype (flat m) = vtype (flat vspec)"
    by (auto simp: set_name_type_def set_flat_def empty_msg_def)
  moreover from ms(2,3) fits_vector(3) have "vector_values pb ms [] = Inr (VList xs)"
    by (subst vector_values_reads) auto
  ultimately show ?case using fits_vector(1-3) reads_common_vector [OF ms(2)]
    by (auto simp: converts_def Convert_spec_types(3) PyList2PbVector.simps Let_def py_iter_def reads_def pb2py_Convert_def
        PbVector2PyList_value common_types(3))
next
  case (fits_struct spec d)
  then obtain ms where ms: "struct_attrs pb (sub_struct spec) (struct_value spec) d (map fst d) (set_name_type spec TYPE_STRUCT empty_msg) =
      Inr (True, VarMsg (flat (set_name_type spec TYPE_STRUCT empty_msg)) [] ms [] [] [])" "list_all2 (named_reads pb) ms d"
    using struct_attrs_converts [where d = d and kvs = d and subs = "sub_struct spec" and attrs = "struct_value spec"
        and message = "set_name_type spec TYPE_STRUCT empty_msg" and pb = pb]
    by (auto simp: set_name_type_def set_flat_def empty_msg_def elim: list_all2_mono)
  moreover from struct_items_reads [OF ms(2), of "[]"] fits_struct(2) have "struct_items pb ms [] = Inr (VDict d)" by simp
  ultimately show ?case using fits_struct(1) reads_common_struct [OF ms(2)]
    by (auto simp: converts_def Convert_spec_types(4) PyDict2PbStruct.simps Let_def py_keys_def reads_def pb2py_Convert_def
        PbStruct2PyDict_value common_types(4))
qed

text \<open>(C29) Values survive the way through a message: a value that fits a specification is converted to a message, and the message is
  converted back to the value. This covers scalars that their field keeps, strings, vectors of scalars or structs, and structs
  of such attributes, nested to any depth.\<close>

theorem proto_round_trip:
  assumes "fits pb spec v"
  shows "\<exists>m. py2pb_Convert pb (Some spec) v = Inr (Some m) \<and> vtype (flat m) = vtype (flat spec) \<and> pb2py_Convert pb m = Inr v"
  using fits_converts [OF assms] by (auto simp: converts_def reads_def py2pb_Convert_def)

lemma fits_common:
  assumes "fits pb spec v" "no_empty_field pb" "named_value v"
  obtains m where "py2pb_Convert pb (Some spec) v = Inr (Some m)" "pb2py_Convert pb m = Inr v" "common_msg m"
  using fits_converts [OF assms(1)] assms(2,3) by (auto simp: converts_def reads_def py2pb_Convert_def)

text \<open>A run-time library for the examples: an \<open>int32_t\<close> field, and fields without a name do not exist.\<close>

definition example_runtime :: pb_runtime where
  "example_runtime = \<lparr>
     set_scalar = (\<lambda>f v. if f \<noteq> ''int32_t'' then Inl AttributeError
       else case v of VScalar (SInt i) \<Rightarrow> if - (2 ^ 31) \<le> i \<and> i < 2 ^ 31 then Inr (SInt i) else Inl ValueError | _ \<Rightarrow> Inl TypeError),
     unset_scalar = (\<lambda>f. if f = ''int32_t'' then Inr (SInt 0) else Inl AttributeError)\<rparr>"

definition example_scalar :: "string \<Rightarrow> var_msg" where
  "example_scalar n = VarMsg (empty_fields\<lparr>name := n, vtype := TYPE_SCALAR, scalar_type := ''int32_t''\<rparr>) [] [] [] [] []"

definition example_inner :: var_msg where
  "example_inner = VarMsg (empty_fields\<lparr>name := ''pos'', vtype := TYPE_STRUCT\<rparr>) [] [example_scalar ''x''] [] [] []"

definition example_spec :: var_msg where
  "example_spec = VarMsg (empty_fields\<lparr>name := ''event'', vtype := TYPE_STRUCT\<rparr>) []
     [VarMsg (empty_fields\<lparr>name := ''tag'', vtype := TYPE_STRING\<rparr>) [] [] [] [] [],
      VarMsg (empty_fields\<lparr>name := ''data'', vtype := TYPE_VECTOR\<rparr>) [example_scalar []] [] [] [] [],
      VarMsg (empty_fields\<lparr>name := ''pos'', vtype := TYPE_STRUCT, predefined_type := ''pos''\<rparr>) [] [] [] [] []]
     [example_inner] [] []"

definition example_value :: py_value where
  "example_value = VDict [(''tag'', VStr ''t''), (''data'', VList [VScalar (SInt 7), VScalar (SInt (- 1))]),
     (''pos'', VDict [(''x'', VScalar (SInt 3))])]"

lemma example_fits: "fits example_runtime example_spec example_value"
proof -
  have x: "fits example_runtime (example_scalar n) (VScalar (SInt i))" if "- (2 ^ 31) \<le> i" "i < 2 ^ 31" for n i
    using that by (intro fits_scalar) (simp_all add: example_scalar_def example_runtime_def)
  have "fits example_runtime example_inner (VDict [(''x'', VScalar (SInt 3))])"
    by (rule fits_struct) (simp_all add: example_inner_def attr_spec_def x example_scalar_def [of "''x''", THEN arg_cong [of _ _ flat], simplified])
  moreover have "fits example_runtime (VarMsg (empty_fields\<lparr>name := ''data'', vtype := TYPE_VECTOR\<rparr>) [example_scalar []] [] [] [] [])
      (VList [VScalar (SInt 7), VScalar (SInt (- 1))])"
  proof (rule fits_vector)
    show "\<forall>v \<in> set [VScalar (SInt 7), VScalar (SInt (- 1))]. fits example_runtime (example_scalar []) v" using x by simp
  qed (simp_all add: example_scalar_def)
  ultimately show ?thesis
    unfolding example_spec_def example_value_def
    by (intro fits_struct) (auto simp: attr_spec_def FindSubType_def intro: fits_string, simp_all add: example_inner_def)
qed

theorem proto_round_trip_witness:
  "\<exists>m. py2pb_Convert example_runtime (Some example_spec) example_value = Inr (Some m) \<and> pb2py_Convert example_runtime m = Inr example_value"
  using proto_round_trip [OF example_fits] by blast

text \<open>Enums are not readable: \<open>PyValue2PbEnum\<close> does not set the scalar type of the message, so that the message of an
  enum, given a value that its field accepts, can not be converted back if reading a field without a name raises.\<close>

theorem enum_not_readable:
  assumes "vtype (flat spec) = TYPE_ENUM" and "\<And>m. v \<noteq> VMsg m"
    and "set_scalar pb (if enum_scalar_type (flat spec) = [] then ''int32_t'' else enum_scalar_type (flat spec)) v = Inr s"
    and "unset_scalar pb [] = Inl AttributeError"
  shows "\<exists>m. py2pb_Convert pb (Some spec) v = Inr (Some m) \<and> pb2py_Convert pb m = Inl AttributeError"
  using assms
  by (cases v; cases "enum_scalar_type (flat spec) = []")
    (auto simp: py2pb_Convert_def Convert_spec.simps PyValue2PbEnum_def set_scalar_field_def Let_def pb2py_Convert_def
      PbEnum2PyValue_def get_scalar_field_def set_name_type_def empty_fields_def)

theorem enum_not_readable_witness:
  "\<exists>m. py2pb_Convert example_runtime (Some (VarMsg (empty_fields\<lparr>vtype := TYPE_ENUM\<rparr>) [] [] [] [] [])) (VScalar (SInt 1)) = Inr (Some m) \<and>
     pb2py_Convert example_runtime m = Inl AttributeError"
  by (rule enum_not_readable [where s = "SInt 1"]) (simp_all add: example_runtime_def empty_fields_def)

text \<open>
  An attribute that is a struct gets the name of its type, a struct is converted although attributes are missing, and an
  attribute that is an array raises on the way back.
\<close>

lemma nested_struct_renamed:
  assumes "vtype (flat attr) = TYPE_STRUCT" and "predefined_type (flat attr) \<noteq> []"
    and "convert_attr pb subs attr v = Inr (True, m)"
  shows "name (flat m) = predefined_type (flat attr)"
proof -
  have flat_kept: "struct_attrs pb subs attrs d ps message = Inr (ok, m') \<Longrightarrow> flat m' = flat message" for subs attrs d ps message ok m'
  proof (induction attrs arbitrary: ps message)
    case (Cons a attrs)
    from Cons.prems show ?case
      by (auto simp: struct_attrs.simps py_res Let_def dest: Cons.IH split: option.splits if_splits)
  qed (simp add: struct_attrs.simps)
  from assms obtain sub ok where sub: "FindSubType subs (predefined_type (flat attr)) = Some sub"
    "PyDict2PbStruct pb empty_msg sub v = Inr (ok, m)"
    by (auto simp: convert_attr.simps py_res split: option.splits)
  from sub(1) have "name (flat sub) = predefined_type (flat attr)" by (auto simp: FindSubType_def find_Some_iff)
  with sub(2) flat_kept show ?thesis by (fastforce simp: PyDict2PbStruct.simps Let_def py_res)
qed

lemma incomplete_struct_converted:
  "vtype (flat spec) = TYPE_STRUCT \<Longrightarrow> struct_value spec = attr # attrs \<Longrightarrow>
   py2pb_Convert pb (Some spec) (VDict []) = Inr (Some (set_name_type spec TYPE_STRUCT empty_msg))"
  by (simp add: py2pb_Convert_def Convert_spec_types PyDict2PbStruct.simps py_keys_def struct_attrs.simps)

lemma array_attr_raises:
  "vtype (flat attr) = TYPE_ARRAY \<Longrightarrow> PbStruct2PyDict pb (VarMsg f vs (attr # attrs) ss us su) = Inl AttributeError"
  by simp

end
