(* ===== verification/Gcs_Storage.thy ===== *)
theory Gcs_Storage
  imports Py_Actions
begin

section \<open>Cloud storage (utils/python/gcs/gcs\_api\_utils.py)\<close>

text \<open>
  \<open>GcsApiUtils\<close> works on the files of one bucket and of the host. The client of the storage service is a parameter, a record of
  the calls that the code makes on a bucket, where \<^const>\<open>None\<close> stands for the exception \<open>NotFound\<close>; so is the file system of the
  host, where \<^const>\<open>None\<close> stands for \<open>IOError\<close> or \<open>OSError\<close>. What the service promises is the predicate \<open>storage_ok\<close>: a bucket is a
  finite map from names to contents, and a directory is a prefix of names.
\<close>

record 'b storage =
  list_blobs :: "string \<Rightarrow> 'b \<Rightarrow> string list"
  blob_exists :: "string \<Rightarrow> 'b \<Rightarrow> bool"
  rename_blob :: "string \<Rightarrow> string \<Rightarrow> 'b \<Rightarrow> 'b option"
  delete_blob :: "string \<Rightarrow> 'b \<Rightarrow> 'b option"
  upload_blob :: "string \<Rightarrow> string \<Rightarrow> 'b \<Rightarrow> 'b"
  download_blob :: "string \<Rightarrow> 'b \<Rightarrow> string option"

record 'h host_os =
  path_exists :: "string \<Rightarrow> 'h \<Rightarrow> bool"
  os_walk :: "string \<Rightarrow> 'h \<Rightarrow> (string \<times> string list) list"
  read_local :: "string \<Rightarrow> 'h \<Rightarrow> string option"
  write_local :: "string \<Rightarrow> string \<Rightarrow> 'h \<Rightarrow> 'h option"
  makedirs :: "string \<Rightarrow> 'h \<Rightarrow> 'h option"

record ('b, 'h) cloud_env =
  storage :: "'b storage"
  host_os :: "'h host_os"

datatype gcs_error = NotFound | HostError

text \<open>The object and what its methods change: the bucket and the host.\<close>

record ('b, 'h) cloud =
  gcs_enabled :: bool
  bucket :: 'b
  host :: 'h

type_synonym ('b, 'h, 'z, 'a) gcs_action = "(gcs_error, ('b, 'h, 'z) cloud_scheme, 'a) raising"

text \<open>The constructor: the object is enabled if the default credentials were found.\<close>

definition GcsApiUtils :: "bool \<Rightarrow> 'b \<Rightarrow> 'h \<Rightarrow> ('b, 'h) cloud" where
  "GcsApiUtils credentials_found b h = \<lparr>gcs_enabled = credentials_found, bucket = b, host = h\<rparr>"

definition Enabled :: "('b, 'h, 'z) cloud_scheme \<Rightarrow> bool" where
  "Enabled s = gcs_enabled s"

definition set_Enabled :: "bool \<Rightarrow> ('b, 'h, 'z) cloud_scheme \<Rightarrow> ('b, 'h, 'z) cloud_scheme" where
  "set_Enabled e s = s\<lparr>gcs_enabled := e\<rparr>"

definition when_enabled :: "'a \<Rightarrow> ('b, 'h, 'z, 'a) gcs_action \<Rightarrow> ('b, 'h, 'z, 'a) gcs_action" where
  "when_enabled unavailable act = getA gcs_enabled (\<lambda>e. if e then act else returnA unavailable)"

text \<open>A call that changes the bucket or the host, and raises if it is not possible.\<close>

definition on_bucket :: "('b \<Rightarrow> 'b option) \<Rightarrow> ('b, 'h, 'z, unit) gcs_action" where
  "on_bucket f s = (case f (bucket s) of None \<Rightarrow> (Inl NotFound, s) | Some b \<Rightarrow> (Inr (), s\<lparr>bucket := b\<rparr>))"

definition on_host :: "('h \<Rightarrow> 'h option) \<Rightarrow> ('b, 'h, 'z, unit) gcs_action" where
  "on_host f s = (case f (host s) of None \<Rightarrow> (Inl HostError, s) | Some h \<Rightarrow> (Inr (), s\<lparr>host := h\<rparr>))"

subsection \<open>Listing\<close>

definition slashed :: "string \<Rightarrow> string" where
  "slashed dir_path = (if endswith dir_path ''/'' then dir_path else dir_path @ ''/'')"

definition ListFilesWithPrefix :: "('b, 'h) cloud_env \<Rightarrow> string \<Rightarrow> bool \<Rightarrow> ('b, 'h, 'z) cloud_scheme \<Rightarrow> string list" where
  "ListFilesWithPrefix env dir_path strict s =
     (if \<not> gcs_enabled s then []
      else list_blobs (storage env) (if strict then slashed dir_path else dir_path) (bucket s))"

definition CountFiles :: "('b, 'h) cloud_env \<Rightarrow> string \<Rightarrow> ('b, 'h, 'z) cloud_scheme \<Rightarrow> nat" where
  "CountFiles env dir_path s = (if \<not> gcs_enabled s then 0 else length (ListFilesWithPrefix env dir_path True s))"

definition PrefixExists :: "('b, 'h) cloud_env \<Rightarrow> string \<Rightarrow> ('b, 'h, 'z) cloud_scheme \<Rightarrow> bool" where
  "PrefixExists env dir_path s = (if \<not> gcs_enabled s then False else CountFiles env dir_path s \<noteq> 0)"

definition FileExists :: "('b, 'h) cloud_env \<Rightarrow> string \<Rightarrow> ('b, 'h, 'z) cloud_scheme \<Rightarrow> bool" where
  "FileExists env file_path s = (if \<not> gcs_enabled s then False else blob_exists (storage env) file_path (bucket s))"

subsection \<open>Moving files\<close>

definition DownloadFile :: "('b, 'h) cloud_env \<Rightarrow> string \<Rightarrow> string \<Rightarrow> ('b, 'h, 'z, unit) gcs_action" where
  "DownloadFile env src_file_path dest_file_path =
     when_enabled () (getA bucket (\<lambda>b.
       case download_blob (storage env) src_file_path b of
         None \<Rightarrow> raiseA NotFound
       | Some contents \<Rightarrow> on_host (write_local (host_os env) dest_file_path contents)))"

definition PrepareDownloadDestination :: "('b, 'h) cloud_env \<Rightarrow> string \<Rightarrow> string \<Rightarrow> ('b, 'h, 'z, string option) gcs_action" where
  "PrepareDownloadDestination env src_dir dest_dir =
     when_enabled None
       (let local_dest_folder = path_join [dest_dir, basename src_dir] in
        getA host (\<lambda>h.
          if path_exists (host_os env) local_dest_folder h then returnA (Some local_dest_folder)
          else seqA (on_host (makedirs (host_os env) local_dest_folder)) (returnA (Some local_dest_folder))))"

text \<open>One file of a directory: only \<open>NotFound\<close> is caught.\<close>

definition download_one :: "('b, 'h) cloud_env \<Rightarrow> string \<Rightarrow> string \<Rightarrow> string \<Rightarrow> ('b, 'h, 'z, unit) gcs_action" where
  "download_one env src_dir dest_dir src_file_path =
     catchA (DownloadFile env src_file_path (path_join [dest_dir, path_join [basename src_dir, basename src_file_path]]))
       (\<lambda>e. if e = NotFound then returnA () else raiseA e)"

definition DownloadDir :: "('b, 'h) cloud_env \<Rightarrow> string \<Rightarrow> string \<Rightarrow> ('b, 'h, 'z, bool) gcs_action" where
  "DownloadDir env src_dir dest_dir =
     when_enabled False (getA (PrefixExists env src_dir) (\<lambda>found.
       if found
       then seqA (PrepareDownloadDestination env src_dir dest_dir)
            (getA (ListFilesWithPrefix env src_dir True) (\<lambda>filelist.
              seqA (for_eachA filelist (download_one env src_dir dest_dir)) (returnA True)))
       else returnA False))"

definition UploadFile :: "('b, 'h) cloud_env \<Rightarrow> string \<Rightarrow> string \<Rightarrow> ('b, 'h, 'z, unit) gcs_action" where
  "UploadFile env src_file_path dest_file_path =
     when_enabled () (getA host (\<lambda>h.
       case read_local (host_os env) src_file_path h of
         None \<Rightarrow> raiseA HostError
       | Some contents \<Rightarrow> modifyA (\<lambda>s. s\<lparr>bucket := upload_blob (storage env) dest_file_path contents (bucket s)\<rparr>)))"

definition walked_files :: "(string \<times> string list) list \<Rightarrow> string list" where
  "walked_files w = concat (map (\<lambda>(dirpath, filenames). map (\<lambda>f. path_join [dirpath, f]) filenames) w)"

definition UploadDir :: "('b, 'h) cloud_env \<Rightarrow> string \<Rightarrow> string \<Rightarrow> ('b, 'h, 'z, bool) gcs_action" where
  "UploadDir env src_dir dest_dir =
     when_enabled False (getA host (\<lambda>h.
       if path_exists (host_os env) src_dir h
       then seqA (for_eachA (walked_files (os_walk (host_os env) src_dir h)) (\<lambda>src_file_path.
              UploadFile env src_file_path (path_join [dest_dir, str_replace src_file_path src_dir (basename src_dir)])))
            (returnA True)
       else returnA False))"

definition MoveFile :: "('b, 'h) cloud_env \<Rightarrow> string \<Rightarrow> string \<Rightarrow> ('b, 'h, 'z, bool) gcs_action" where
  "MoveFile env src_file_path dest_file_path =
     when_enabled False
       (catchA (seqA (on_bucket (rename_blob (storage env) src_file_path dest_file_path)) (returnA True)) (\<lambda>_. returnA False))"

definition DeleteFile :: "('b, 'h) cloud_env \<Rightarrow> string \<Rightarrow> ('b, 'h, 'z, bool) gcs_action" where
  "DeleteFile env file_path =
     when_enabled False
       (catchA (seqA (on_bucket (delete_blob (storage env) file_path)) (returnA True)) (\<lambda>_. returnA False))"

lemmas gcs_defs = when_enabled_def on_bucket_def on_host_def ListFilesWithPrefix_def CountFiles_def PrefixExists_def FileExists_def
  DownloadFile_def UploadFile_def MoveFile_def DeleteFile_def

subsection \<open>What the service promises\<close>

definition storage_ok :: "'b storage \<Rightarrow> ('b \<Rightarrow> string \<rightharpoonup> string) \<Rightarrow> bool" where
  "storage_ok S blobs \<longleftrightarrow>
     (\<forall>p b. distinct (list_blobs S p b) \<and> set (list_blobs S p b) = {n \<in> dom (blobs b). prefix p n}) \<and>
     (\<forall>n b. blob_exists S n b \<longleftrightarrow> n \<in> dom (blobs b)) \<and>
     (\<forall>src dst b. src \<noteq> dst \<longrightarrow>
        (case blobs b src of
           None \<Rightarrow> rename_blob S src dst b = None
         | Some c \<Rightarrow> \<exists>b'. rename_blob S src dst b = Some b' \<and> blobs b' = (blobs b)(src := None, dst \<mapsto> c))) \<and>
     (\<forall>n b. case blobs b n of
        None \<Rightarrow> delete_blob S n b = None
      | Some c \<Rightarrow> \<exists>b'. delete_blob S n b = Some b' \<and> blobs b' = (blobs b)(n := None)) \<and>
     (\<forall>n c b. blobs (upload_blob S n c b) = (blobs b)(n \<mapsto> c)) \<and>
     (\<forall>n b. download_blob S n b = blobs b n)"

text \<open>A bucket as an association list satisfies the promise: the storage of the examples.\<close>

definition alist_storage :: "(string \<times> string) list storage" where
  "alist_storage = \<lparr>
     list_blobs = (\<lambda>p b. filter (prefix p) (remdups (map fst b))),
     blob_exists = (\<lambda>n b. map_of b n \<noteq> None),
     rename_blob = (\<lambda>src dst b. map_option (\<lambda>c. (dst, c) # filter (\<lambda>kv. fst kv \<noteq> src) b) (map_of b src)),
     delete_blob = (\<lambda>n b. map_option (\<lambda>c. filter (\<lambda>kv. fst kv \<noteq> n) b) (map_of b n)),
     upload_blob = (\<lambda>n c b. (n, c) # b),
     download_blob = (\<lambda>n b. map_of b n)\<rparr>"

lemma map_of_filter_key: "map_of (filter (\<lambda>kv. fst kv \<noteq> k) b) = (map_of b)(k := None)"
  by (induction b) (auto simp: fun_eq_iff)

lemma alist_storage_ok: "storage_ok alist_storage map_of"
proof -
  have dom: "n \<in> fst ` set b \<longleftrightarrow> n \<in> dom (map_of b)" for n and b :: "(string \<times> string) list" by (simp add: dom_map_of_conv_image_fst)
  show ?thesis
    unfolding storage_ok_def alist_storage_def
    by (auto simp: map_of_filter_key dom fun_upd_twist split: option.splits)
qed

subsection \<open>Operations on the map\<close>

lemma finite_blobs: "storage_ok S blobs \<Longrightarrow> finite (dom (blobs b))"
proof -
  assume "storage_ok S blobs"
  then have "set (list_blobs S [] b) = {n \<in> dom (blobs b). prefix [] n}" unfolding storage_ok_def by blast
  then have "dom (blobs b) = set (list_blobs S [] b)" by simp
  then show ?thesis by simp
qed

lemma list_blobs_ok: "storage_ok S blobs \<Longrightarrow> distinct (list_blobs S p b) \<and> set (list_blobs S p b) = {n \<in> dom (blobs b). prefix p n}"
  unfolding storage_ok_def by blast

lemma rename_blob_ok:
  assumes "storage_ok S blobs" "src \<noteq> dst"
  shows "blobs b src = None \<Longrightarrow> rename_blob S src dst b = None"
    and "blobs b src = Some c \<Longrightarrow> \<exists>b'. rename_blob S src dst b = Some b' \<and> blobs b' = (blobs b)(src := None, dst \<mapsto> c)"
proof -
  have law: "case blobs b src of None \<Rightarrow> rename_blob S src dst b = None
      | Some c \<Rightarrow> \<exists>b'. rename_blob S src dst b = Some b' \<and> blobs b' = (blobs b)(src := None, dst \<mapsto> c)"
    using assms unfolding storage_ok_def by blast
  then show "blobs b src = None \<Longrightarrow> rename_blob S src dst b = None" by simp
  from law show "blobs b src = Some c \<Longrightarrow> \<exists>b'. rename_blob S src dst b = Some b' \<and> blobs b' = (blobs b)(src := None, dst \<mapsto> c)"
    by simp
qed

lemma delete_blob_ok:
  assumes "storage_ok S blobs"
  shows "blobs b n = None \<Longrightarrow> delete_blob S n b = None"
    and "blobs b n = Some c \<Longrightarrow> \<exists>b'. delete_blob S n b = Some b' \<and> blobs b' = (blobs b)(n := None)"
proof -
  have law: "case blobs b n of None \<Rightarrow> delete_blob S n b = None
      | Some c \<Rightarrow> \<exists>b'. delete_blob S n b = Some b' \<and> blobs b' = (blobs b)(n := None)"
    using assms unfolding storage_ok_def by blast
  then show "blobs b n = None \<Longrightarrow> delete_blob S n b = None" by simp
  from law show "blobs b n = Some c \<Longrightarrow> \<exists>b'. delete_blob S n b = Some b' \<and> blobs b' = (blobs b)(n := None)" by simp
qed

text \<open>\<open>contents\<close> is the map that a state holds.\<close>

definition contents :: "('b \<Rightarrow> string \<rightharpoonup> string) \<Rightarrow> ('b, 'h, 'z) cloud_scheme \<Rightarrow> string \<rightharpoonup> string" where
  "contents blobs s = blobs (bucket s)"

lemma contents_host [simp]: "contents blobs (s\<lparr>host := h\<rparr>) = contents blobs s"
  by (simp add: contents_def)

lemma ListFiles_ok:
  assumes "storage_ok (storage env) blobs" "gcs_enabled s"
  shows "distinct (ListFilesWithPrefix env d strict s)"
    and "set (ListFilesWithPrefix env d strict s) = {n \<in> dom (contents blobs s). prefix (if strict then slashed d else d) n}"
  using assms list_blobs_ok [OF assms(1)] by (simp_all add: ListFilesWithPrefix_def contents_def)

lemma PrefixExists_ok:
  assumes "storage_ok (storage env) blobs" "gcs_enabled s"
  shows "PrefixExists env d s \<longleftrightarrow> (\<exists>n \<in> dom (contents blobs s). prefix (slashed d) n)"
proof -
  have "PrefixExists env d s \<longleftrightarrow> set (ListFilesWithPrefix env d True s) \<noteq> {}"
    using assms(2) by (simp add: PrefixExists_def CountFiles_def)
  then show ?thesis using ListFiles_ok(2) [OF assms] by auto
qed

lemma FileExists_ok:
  "storage_ok (storage env) blobs \<Longrightarrow> gcs_enabled s \<Longrightarrow> FileExists env n s \<longleftrightarrow> n \<in> dom (contents blobs s)"
  by (simp add: FileExists_def storage_ok_def contents_def)

lemma MoveFile_ok:
  assumes "storage_ok (storage env) blobs" "gcs_enabled s" "src \<noteq> dst"
  shows "\<exists>b. MoveFile env src dst s = (Inr (src \<in> dom (contents blobs s)), s\<lparr>bucket := b\<rparr>) \<and>
    blobs b = (case contents blobs s src of None \<Rightarrow> contents blobs s | Some c \<Rightarrow> (contents blobs s)(src := None, dst \<mapsto> c))"
proof (cases "blobs (bucket s) src")
  case None
  then have "rename_blob (storage env) src dst (bucket s) = None" by (rule rename_blob_ok(1) [OF assms(1,3)])
  with None assms(2) show ?thesis by (intro exI [of _ "bucket s"]) (auto simp: gcs_defs action_defs contents_def)
next
  case (Some c)
  then obtain b where "rename_blob (storage env) src dst (bucket s) = Some b" "blobs b = (blobs (bucket s))(src := None, dst \<mapsto> c)"
    using rename_blob_ok(2) [OF assms(1,3)] by blast
  with Some assms(2) show ?thesis by (auto simp: gcs_defs action_defs contents_def)
qed

lemma DeleteFile_ok:
  assumes "storage_ok (storage env) blobs" "gcs_enabled s"
  shows "\<exists>b. DeleteFile env n s = (Inr (n \<in> dom (contents blobs s)), s\<lparr>bucket := b\<rparr>) \<and> blobs b = (contents blobs s)(n := None)"
proof (cases "blobs (bucket s) n")
  case None
  then have "delete_blob (storage env) n (bucket s) = None" by (rule delete_blob_ok(1) [OF assms(1)])
  with None assms(2) show ?thesis by (intro exI [of _ "bucket s"]) (auto simp: gcs_defs action_defs contents_def)
next
  case (Some c)
  then obtain b where "delete_blob (storage env) n (bucket s) = Some b" "blobs b = (blobs (bucket s))(n := None)"
    using delete_blob_ok(2) [OF assms(1)] by blast
  with Some assms(2) show ?thesis by (auto simp: gcs_defs action_defs contents_def)
qed

lemma UploadFile_ok:
  assumes "storage_ok (storage env) blobs" "gcs_enabled s" "read_local (host_os env) src (host s) = Some c"
  shows "\<exists>b. UploadFile env src dst s = (Inr (), s\<lparr>bucket := b\<rparr>) \<and> blobs b = (contents blobs s)(dst \<mapsto> c)"
  using assms by (auto simp: gcs_defs action_defs contents_def storage_ok_def)

end
