(* ===== verification/Corpus_Manager.thy ===== *)
theory Corpus_Manager
  imports Gcs_Storage
begin

section \<open>The corpus of the fuzzer (utils/python/fuzzer/corpus\_manager.py)\<close>

text \<open>
  The inputs of a fuzz test are files of a bucket, in a directory for each state of an input: seeds, the seed in use, completed, crashed.
  The manager moves them between these directories. The scheduling algorithm, a constant of the module, is an argument of the functions that
  ask for it. Random choices, unique identifiers and the time are parameters, numbered by the calls.
\<close>

subsection \<open>Features (utils/python/web/feature\_utils.py)\<close>

text \<open>\<open>ParseParameters\<close>: whether the feature is enabled, and the attributes that were set before it returned.\<close>

fun feature_required_params :: "string list \<Rightarrow> (string \<times> pyval) list \<Rightarrow> (string \<times> pyval) list \<Rightarrow> bool \<times> (string \<times> pyval) list" where
  "feature_required_params [] user_params attrs = (True, attrs)"
| "feature_required_params (n # names) user_params attrs =
     (case map_of user_params n of
        None \<Rightarrow> (False, attrs)
      | Some v \<Rightarrow> feature_required_params names user_params (dict_set n v attrs))"

fun feature_optional_params :: "string list \<Rightarrow> (string \<times> pyval) list \<Rightarrow> (string \<times> pyval) list \<Rightarrow> (string \<times> pyval) list" where
  "feature_optional_params [] user_params attrs = attrs"
| "feature_optional_params (n # names) user_params attrs =
     feature_optional_params names user_params (case map_of user_params n of None \<Rightarrow> attrs | Some v \<Rightarrow> dict_set n v attrs)"

definition ParseParameters ::
  "string option \<Rightarrow> string list \<Rightarrow> string list \<Rightarrow> (string \<times> pyval) list \<Rightarrow> bool \<times> (string \<times> pyval) list" where
  "ParseParameters toggle_param_name required_param_names optional_param_names user_params =
     (let toggled = (case toggle_param_name of
            None \<Rightarrow> True
          | Some n \<Rightarrow> n = [] \<or> (case map_of user_params n of None \<Rightarrow> False | Some v \<Rightarrow> truthy v))
      in if \<not> toggled then (False, [])
         else case feature_required_params required_param_names user_params [] of
                (False, attrs) \<Rightarrow> (False, attrs)
              | (True, attrs) \<Rightarrow> (True, feature_optional_params optional_param_names user_params attrs))"

subsection \<open>The manager\<close>

datatype scheduling = FETCH_ONE_AND_FEED | FETCH_CRASH_AND_FEED | FETCH_ALL_AND_REPEAT

definition REPEAT_TIMES :: nat where "REPEAT_TIMES = 5"

definition SCHEDULING_ALGORITHM :: scheduling where "SCHEDULING_ALGORITHM = FETCH_ALL_AND_REPEAT"

definition MEASURE_CORPUS :: bool where "MEASURE_CORPUS = True"

definition CORPUS_STATES :: "string list" where
  "CORPUS_STATES = [''corpus_seed_high'', ''corpus_seed'', ''corpus_seed_low'', ''corpus_inuse'', ''corpus_complete'', ''corpus_crash'',
     ''corpus_error'', ''corpus_trigger'']"

definition CORPUS_PRIORITIES :: "string list" where
  "CORPUS_PRIORITIES = [''corpus_seed_high'', ''corpus_seed'', ''corpus_seed_low'']"

record ('b, 'h) corpus = "('b, 'h) cloud" +
  cm_enabled :: bool
  gcs_path :: string
  device_serial :: string
  draws :: nat

record ('b, 'h) corpus_env =
  calls :: "('b, 'h) cloud_env"
  randint :: "nat \<Rightarrow> nat"
  uuid4 :: "nat \<Rightarrow> string"
  strftime :: string

type_synonym ('b, 'h, 'a) corpus_action = "(gcs_error, ('b, 'h) corpus, 'a) raising"

definition TOGGLE_PARAM :: string where "TOGGLE_PARAM = ''enable_log_uploading''"

definition REQUIRED_PARAMS :: "string list" where
  "REQUIRED_PARAMS = [''service_key_json_path'', ''fuzzing_gcs_bucket_name'']"

definition CorpusManager ::
  "(string \<times> pyval) list \<Rightarrow> string \<Rightarrow> string \<Rightarrow> string \<Rightarrow> bool \<Rightarrow> 'b \<Rightarrow> 'h \<Rightarrow> ('b, 'h) corpus" where
  "CorpusManager user_params build_alias product_type serial credentials_found b h =
     (let parsed = fst (ParseParameters (Some TOGGLE_PARAM) REQUIRED_PARAMS [] user_params);
          enabled = parsed \<and> credentials_found;
          branch = hd (split_at ''.'' build_alias)
      in \<lparr>gcs_enabled = enabled, bucket = b, host = h, cm_enabled = enabled,
          gcs_path = path_join [''corpus'', branch, product_type], device_serial = serial, draws = 0\<rparr>)"

subsection \<open>Names\<close>

text \<open>
  The temporary directory is given as the empty string where the code omits it: those types do not use it. The regular expression
  \<open>corpus_seed_[0-9][0-9]$\<close> accepts a line feed at the end.
\<close>

definition two_digits :: "string \<Rightarrow> bool" where
  "two_digits ds \<longleftrightarrow> (\<exists>a b. digit_of a \<noteq> None \<and> digit_of b \<noteq> None \<and> (ds = [a, b] \<or> ds = [a, b, CHR 0x0A]))"

lemma two_digits_code [code]:
  "two_digits ds = (case ds of
     [a, b] \<Rightarrow> digit_of a \<noteq> None \<and> digit_of b \<noteq> None
   | [a, b, c] \<Rightarrow> digit_of a \<noteq> None \<and> digit_of b \<noteq> None \<and> c = CHR 0x0A
   | _ \<Rightarrow> False)"
  by (auto simp: two_digits_def split: list.splits)

definition numbered_seed :: "string \<Rightarrow> bool" where
  "numbered_seed dir_type \<longleftrightarrow> startswith dir_type ''corpus_seed_'' \<and> two_digits (drop 12 dir_type)"

definition type_dir :: "string \<Rightarrow> string \<Rightarrow> string \<Rightarrow> string" where
  "type_dir root test_name dir_type = path_join [root, test_name, test_name @ ''_'' @ dir_type]"

definition GetDirPaths :: "string \<Rightarrow> string \<Rightarrow> string \<Rightarrow> string \<Rightarrow> string" where
  "GetDirPaths root dir_type test_name local_temp_dir =
     (if dir_type \<in> set CORPUS_STATES then type_dir root test_name dir_type
      else if numbered_seed dir_type then type_dir root test_name dir_type
      else if dir_type = ''corpus_measure'' then type_dir root test_name dir_type
      else if dir_type = ''corpus_lock'' then type_dir root test_name dir_type
      else if dir_type = ''incoming_parent'' then path_join [root, test_name, ''incoming'', basename local_temp_dir]
      else if dir_type = ''incoming_child''
      then path_join [root, test_name, ''incoming'', basename local_temp_dir, test_name @ ''_corpus_out'']
      else if dir_type = ''local_corpus_out'' then path_join [local_temp_dir, test_name @ ''_corpus_out'']
      else if dir_type = ''local_corpus_trigger'' then path_join [local_temp_dir, test_name @ ''_corpus_trigger'']
      else [])"

definition GetFilePaths :: "('b, 'h) corpus \<Rightarrow> string \<Rightarrow> string \<Rightarrow> string \<Rightarrow> string" where
  "GetFilePaths s file_type test_name seed =
     (if file_type \<in> set CORPUS_STATES then path_join [GetDirPaths (gcs_path s) file_type test_name [], basename seed]
      else if numbered_seed file_type then path_join [GetDirPaths (gcs_path s) file_type test_name [], basename seed]
      else if file_type = ''corpus_lock'' then path_join [GetDirPaths (gcs_path s) file_type test_name [], device_serial s]
      else [])"

subsection \<open>Locks\<close>

definition add_lock :: "('b, 'h) corpus_env \<Rightarrow> string \<Rightarrow> string \<Rightarrow> ('b, 'h, unit) corpus_action" where
  "add_lock env test_name local_temp_dir = getA (\<lambda>s. s) (\<lambda>s.
     if \<not> cm_enabled s then returnA ()
     else
       let local_lock_file = path_join [local_temp_dir, device_serial s] in
       seqA (on_host (\<lambda>h. write_local (host_os (calls env)) local_lock_file
               (case read_local (host_os (calls env)) local_lock_file h of None \<Rightarrow> [] | Some c \<Rightarrow> c) h))
       (UploadFile (calls env) local_lock_file (GetFilePaths s ''corpus_lock'' test_name [])))"

definition remove_lock :: "('b, 'h) corpus_env \<Rightarrow> string \<Rightarrow> ('b, 'h, unit) corpus_action" where
  "remove_lock env test_name = getA (\<lambda>s. s) (\<lambda>s.
     if \<not> cm_enabled s then returnA ()
     else seqA (DeleteFile (calls env) (GetFilePaths s ''corpus_lock'' test_name [])) (returnA ()))"

subsection \<open>Fetching seeds\<close>

text \<open>
  The loop of \<open>_FetchCorpusSeedFromPriority\<close>. A failed download is retried without counting it, so that the loop is a partial
  function. The random number is reduced to the length of the list. A disabled storage lists no files, so that there always is a
  destination.
\<close>

definition fetch_download ::
  "('b, 'h) corpus_env \<Rightarrow> string \<Rightarrow> string \<Rightarrow> string \<Rightarrow> string \<Rightarrow> ('b, 'h, bool) corpus_action" where
  "fetch_download env corpus_seed_dir local_temp_dir target_seed inuse_seed =
     bindA (PrepareDownloadDestination (calls env) corpus_seed_dir local_temp_dir) (\<lambda>dest.
       case dest of
         None \<Rightarrow> raiseA HostError
       | Some local_dest_folder \<Rightarrow>
           catchA (seqA (DownloadFile (calls env) inuse_seed (path_join [local_dest_folder, basename target_seed])) (returnA True))
             (\<lambda>_. returnA False))"

partial_function (option) fetch_loop ::
  "('b, 'h) corpus_env \<Rightarrow> string \<Rightarrow> string \<Rightarrow> string \<Rightarrow> nat \<Rightarrow> ('b, 'h) corpus \<Rightarrow>
    ((gcs_error + string option) \<times> ('b, 'h) corpus) option" where
  "fetch_loop env test_name local_temp_dir corpus_seed_dir num_try s =
     (if num_try < 10
      then let seed_list = ListFilesWithPrefix (calls env) corpus_seed_dir True s in
           if seed_list = [] then Some (Inr None, s)
           else
             let target_seed = seed_list ! (randint env (draws s) mod length seed_list);
                 s = s\<lparr>draws := Suc (draws s)\<rparr>;
                 inuse_seed = GetFilePaths s ''corpus_inuse'' test_name target_seed in
             case MoveFile (calls env) target_seed inuse_seed s of
               (Inl e, s) \<Rightarrow> Some (Inl e, s)
             | (Inr move_successful, s) \<Rightarrow>
                 if move_successful
                 then case fetch_download env corpus_seed_dir local_temp_dir target_seed inuse_seed s of
                        (Inl e, s) \<Rightarrow> Some (Inl e, s)
                      | (Inr downloaded, s) \<Rightarrow>
                          if downloaded then Some (Inr (Some inuse_seed), s)
                          else fetch_loop env test_name local_temp_dir corpus_seed_dir num_try s
                 else fetch_loop env test_name local_temp_dir corpus_seed_dir (num_try + 1) s
      else Some (Inr None, s))"

declare fetch_loop.simps [code]

definition FetchCorpusSeedFromPriority ::
  "('b, 'h) corpus_env \<Rightarrow> string \<Rightarrow> string \<Rightarrow> string \<Rightarrow> ('b, 'h) corpus \<Rightarrow>
    ((gcs_error + string option) \<times> ('b, 'h) corpus) option" where
  "FetchCorpusSeedFromPriority env test_name local_temp_dir CORPUS_PRIORITY s =
     fetch_loop env test_name local_temp_dir (GetDirPaths (gcs_path s) CORPUS_PRIORITY test_name []) 0 s"

definition FetchCorpusSeedDirectory :: "('b, 'h) corpus_env \<Rightarrow> string \<Rightarrow> string \<Rightarrow> ('b, 'h, string option) corpus_action" where
  "FetchCorpusSeedDirectory env test_name local_temp_dir = getA (\<lambda>s. s) (\<lambda>s.
     let corpus_seed_dir = GetDirPaths (gcs_path s) ''corpus_seed'' test_name [] in
     if CountFiles (calls env) corpus_seed_dir s = 0 then returnA None
     else
       bindA (PrepareDownloadDestination (calls env) corpus_seed_dir local_temp_dir) (\<lambda>dest.
         case dest of
           None \<Rightarrow> raiseA HostError
         | Some local_dest_folder \<Rightarrow>
             getA (ListFilesWithPrefix (calls env) corpus_seed_dir True) (\<lambda>files.
               seqA (for_eachA files (\<lambda>target_seed.
                   DownloadFile (calls env) target_seed (path_join [local_dest_folder, basename target_seed])))
                 (returnA (Some corpus_seed_dir)))))"

text \<open>The priorities are tried in order until a seed is found.\<close>

fun fetch_priorities ::
  "('b, 'h) corpus_env \<Rightarrow> string \<Rightarrow> string \<Rightarrow> string list \<Rightarrow> ('b, 'h) corpus \<Rightarrow>
    ((gcs_error + string option) \<times> ('b, 'h) corpus) option" where
  "fetch_priorities env test_name local_temp_dir [] s = Some (Inr None, s)"
| "fetch_priorities env test_name local_temp_dir (p # ps) s =
     (case FetchCorpusSeedFromPriority env test_name local_temp_dir p s of
        None \<Rightarrow> None
      | Some (Inr None, s) \<Rightarrow> fetch_priorities env test_name local_temp_dir ps s
      | Some r \<Rightarrow> Some r)"

definition FetchCorpusSeed ::
  "('b, 'h) corpus_env \<Rightarrow> scheduling \<Rightarrow> string \<Rightarrow> string \<Rightarrow> ('b, 'h) corpus \<Rightarrow>
    ((gcs_error + string option) \<times> ('b, 'h) corpus) option" where
  "FetchCorpusSeed env algorithm test_name local_temp_dir s =
     (if \<not> cm_enabled s then Some (Inr None, s)
      else case algorithm of
             FETCH_ONE_AND_FEED \<Rightarrow> FetchCorpusSeedFromPriority env test_name local_temp_dir ''corpus_seed'' s
           | FETCH_CRASH_AND_FEED \<Rightarrow> fetch_priorities env test_name local_temp_dir CORPUS_PRIORITIES s
           | FETCH_ALL_AND_REPEAT \<Rightarrow>
               if PrefixExists (calls env) (GetDirPaths (gcs_path s) ''corpus_lock'' test_name []) s
               then Some (Inr (Some ''locked''), s)
               else Some (seqA (add_lock env test_name local_temp_dir)
                 (seqA (FetchCorpusSeedDirectory env test_name local_temp_dir) (returnA (Some ''directory''))) s))"

subsection \<open>Classifying the output\<close>

definition CorpusIsDuplicate :: "('b, 'h) corpus_env \<Rightarrow> string \<Rightarrow> string \<Rightarrow> ('b, 'h) corpus \<Rightarrow> bool" where
  "CorpusIsDuplicate env test_name incoming_seed s =
     list_ex (\<lambda>file_type. FileExists (calls env) (GetFilePaths s file_type test_name incoming_seed) s) CORPUS_STATES"

definition InuseToDest :: "('b, 'h) corpus_env \<Rightarrow> string \<Rightarrow> string \<Rightarrow> string \<Rightarrow> ('b, 'h, bool) corpus_action" where
  "InuseToDest env test_name inuse_seed destination = getA (\<lambda>s. s) (\<lambda>s.
     if \<not> cm_enabled s then returnA False
     else if FileExists (calls env) inuse_seed s
     then if destination \<in> set CORPUS_STATES
          then MoveFile (calls env) inuse_seed (GetFilePaths s destination test_name inuse_seed)
          else returnA False
     else returnA False)"

definition trigger_report :: "('b, 'h) corpus \<Rightarrow> string \<Rightarrow> string \<Rightarrow> string" where
  "trigger_report s test_name local_temp_dir =
     path_join [GetDirPaths (gcs_path s) ''local_corpus_trigger'' test_name local_temp_dir, ''crash_report'']"

definition UploadTriggeredCorpus :: "('b, 'h) corpus_env \<Rightarrow> string \<Rightarrow> string \<Rightarrow> ('b, 'h, unit) corpus_action" where
  "UploadTriggeredCorpus env test_name local_temp_dir = getA (\<lambda>s. s) (\<lambda>s.
     let triggered_corpus = trigger_report s test_name local_temp_dir in
     if path_exists (host_os (calls env)) triggered_corpus (host s)
     then seqA (modifyA (\<lambda>s. s\<lparr>draws := Suc (draws s)\<rparr>))
       (UploadFile (calls env) triggered_corpus (GetFilePaths s ''corpus_trigger'' test_name triggered_corpus @ uuid4 env (draws s)))
     else returnA ())"

text \<open>One incoming seed: a duplicate is deleted, another one moved and counted.\<close>

definition classify_one :: "('b, 'h) corpus_env \<Rightarrow> string \<Rightarrow> string \<Rightarrow> string \<Rightarrow> nat \<Rightarrow> ('b, 'h, nat) corpus_action" where
  "classify_one env test_name destination incoming_seed num_unique_corpus = getA (\<lambda>s. s) (\<lambda>s.
     if CorpusIsDuplicate env test_name incoming_seed s
     then seqA (DeleteFile (calls env) incoming_seed) (returnA num_unique_corpus)
     else seqA (MoveFile (calls env) incoming_seed (GetFilePaths s destination test_name incoming_seed))
            (returnA (num_unique_corpus + 1)))"

fun classify_loop :: "('b, 'h) corpus_env \<Rightarrow> string \<Rightarrow> string \<Rightarrow> string list \<Rightarrow> nat \<Rightarrow> ('b, 'h, nat) corpus_action" where
  "classify_loop env test_name destination [] n = returnA n"
| "classify_loop env test_name destination (seed # seeds) n =
     bindA (classify_one env test_name destination seed n) (classify_loop env test_name destination seeds)"

definition ClassifyPriority1 :: "('b, 'h) corpus_env \<Rightarrow> string \<Rightarrow> string \<Rightarrow> ('b, 'h, nat) corpus_action" where
  "ClassifyPriority1 env test_name local_temp_dir = getA (\<lambda>s. s) (\<lambda>s.
     classify_loop env test_name ''corpus_seed''
       (ListFilesWithPrefix (calls env) (GetDirPaths (gcs_path s) ''incoming_child'' test_name local_temp_dir) True s) 0)"

definition ClassifyPriority2 :: "('b, 'h) corpus_env \<Rightarrow> string \<Rightarrow> string \<Rightarrow> ('b, 'h, nat) corpus_action" where
  "ClassifyPriority2 env test_name local_temp_dir = getA (\<lambda>s. s) (\<lambda>s.
     let high_priority = path_exists (host_os (calls env)) (trigger_report s test_name local_temp_dir) (host s) in
     bindA (classify_loop env test_name (if high_priority then ''corpus_seed_high'' else ''corpus_seed'')
       (ListFilesWithPrefix (calls env) (GetDirPaths (gcs_path s) ''incoming_child'' test_name local_temp_dir) True s) 0)
       (\<lambda>num_unique_corpus. seqA (UploadTriggeredCorpus env test_name local_temp_dir) (returnA num_unique_corpus)))"

definition MoveCorpusDirectory ::
  "('b, 'h) corpus_env \<Rightarrow> string \<Rightarrow> string \<Rightarrow> string \<Rightarrow> string \<Rightarrow> bool \<Rightarrow> ('b, 'h, nat) corpus_action" where
  "MoveCorpusDirectory env test_name local_temp_dir src_dir dest_dir strict = getA (\<lambda>s. s) (\<lambda>s.
     let files = ListFilesWithPrefix (calls env) (GetDirPaths (gcs_path s) src_dir test_name local_temp_dir) strict s in
     seqA (for_eachA files (\<lambda>src_corpus. getA (\<lambda>s. s) (\<lambda>s.
         MoveFile (calls env) src_corpus (GetFilePaths s dest_dir test_name src_corpus))))
       (returnA (length files)))"

text \<open>\<open>%02d\<close> of a number below 100, and the first number whose directory has no file, at most \<open>REPEAT_TIMES - 1\<close>.\<close>

definition two_digit :: "nat \<Rightarrow> string" where
  "two_digit i = [char_of (48 + i div 10), char_of (48 + i mod 10)]"

fun free_slot :: "('b, 'h) corpus_env \<Rightarrow> string \<Rightarrow> nat list \<Rightarrow> nat \<Rightarrow> ('b, 'h) corpus \<Rightarrow> nat" where
  "free_slot env dir [] i s = i"
| "free_slot env dir (j # js) i s =
     (if \<not> PrefixExists (calls env) (dir @ ''_'' @ two_digit j) s then j else free_slot env dir js j s)"

definition ClassifyPriority3 :: "('b, 'h) corpus_env \<Rightarrow> string \<Rightarrow> string \<Rightarrow> ('b, 'h, nat) corpus_action" where
  "ClassifyPriority3 env test_name local_temp_dir = getA (\<lambda>s. s) (\<lambda>s.
     let i = free_slot env (GetDirPaths (gcs_path s) ''corpus_seed'' test_name []) [1..<REPEAT_TIMES] 0 s in
     bindA
       (if i < REPEAT_TIMES - 1
        then seqA (MoveCorpusDirectory env test_name local_temp_dir ''corpus_seed'' (''corpus_seed_'' @ two_digit i) True)
               (MoveCorpusDirectory env test_name local_temp_dir ''incoming_child'' ''corpus_seed'' True)
        else seqA (MoveCorpusDirectory env test_name local_temp_dir ''corpus_seed'' ''corpus_complete'' False)
               (MoveCorpusDirectory env test_name local_temp_dir ''incoming_child'' ''corpus_complete'' True))
       (\<lambda>num_unique_corpus. seqA (UploadTriggeredCorpus env test_name local_temp_dir) (returnA num_unique_corpus)))"

definition ClassifyPriority :: "('b, 'h) corpus_env \<Rightarrow> scheduling \<Rightarrow> string \<Rightarrow> string \<Rightarrow> ('b, 'h, nat) corpus_action" where
  "ClassifyPriority env algorithm test_name local_temp_dir =
     (case algorithm of
        FETCH_ONE_AND_FEED \<Rightarrow> ClassifyPriority1 env test_name local_temp_dir
      | FETCH_CRASH_AND_FEED \<Rightarrow> ClassifyPriority2 env test_name local_temp_dir
      | FETCH_ALL_AND_REPEAT \<Rightarrow>
          bindA (ClassifyPriority3 env test_name local_temp_dir) (\<lambda>num_unique_corpus.
            seqA (remove_lock env test_name) (returnA num_unique_corpus)))"

definition UploadCorpusMeasure :: "('b, 'h) corpus_env \<Rightarrow> string \<Rightarrow> string \<Rightarrow> nat \<Rightarrow> ('b, 'h, unit) corpus_action" where
  "UploadCorpusMeasure env test_name local_temp_dir num_unique_corpus = getA (\<lambda>s. s) (\<lambda>s.
     let local_measure_file = path_join [local_temp_dir, test_name @ ''_'' @ strftime env @ ''.txt''] in
     seqA (on_host (write_local (host_os (calls env)) local_measure_file (str_int (int num_unique_corpus))))
       (UploadFile (calls env) local_measure_file
         (path_join [GetDirPaths (gcs_path s) ''corpus_measure'' test_name [], basename local_measure_file])))"

definition UploadCorpusOutDir :: "('b, 'h) corpus_env \<Rightarrow> scheduling \<Rightarrow> string \<Rightarrow> string \<Rightarrow> ('b, 'h, bool) corpus_action" where
  "UploadCorpusOutDir env algorithm test_name local_temp_dir = getA (\<lambda>s. s) (\<lambda>s.
     if \<not> cm_enabled s then returnA False
     else
       bindA (UploadDir (calls env) (GetDirPaths (gcs_path s) ''local_corpus_out'' test_name local_temp_dir)
          (GetDirPaths (gcs_path s) ''incoming_parent'' test_name local_temp_dir)) (\<lambda>uploaded.
         if uploaded
         then bindA (ClassifyPriority env algorithm test_name local_temp_dir) (\<lambda>num_unique_corpus.
              seqA (if MEASURE_CORPUS then UploadCorpusMeasure env test_name local_temp_dir num_unique_corpus else returnA ())
                (returnA True))
         else returnA False))"

end
