(* ===== verification/Corpus_Properties.thy ===== *)
theory Corpus_Properties
  imports Corpus_Manager
begin

section \<open>Properties of the corpus manager\<close>

text \<open>
  With a storage service that keeps its promise: fetching a seed ends, the lock keeps other managers out and is given back, and the classification
  moves every incoming input to the directory it belongs to and loses none.
\<close>

subsection \<open>Names of files\<close>

text \<open>All directories of a test share a stem; the type follows it.\<close>

definition stem :: "string \<Rightarrow> string \<Rightarrow> string" where
  "stem root t =
     (if startswith (t @ ''_'') ''/'' then []
      else if path_add t root = [] \<or> endswith (path_add t root) ''/'' then path_add t root
      else path_add t root @ ''/'') @ t @ ''_''"

definition plain_type :: "string \<Rightarrow> bool" where
  "plain_type d \<longleftrightarrow> d \<noteq> [] \<and> CHR ''/'' \<notin> set d"

lemma startswith_char: "startswith s [c] \<longleftrightarrow> s \<noteq> [] \<and> hd s = c"
  by (cases s) (auto simp: startswith_def)

lemma type_dir_stem: "type_dir root t d = stem root t @ d"
proof -
  have slash: "startswith (t @ CHR ''_'' # d) ''/'' \<longleftrightarrow> startswith (t @ ''_'') ''/''"
    by (cases t) (auto simp: startswith_char)
  show ?thesis
    by (simp add: type_dir_def path_join_def stem_def path_add_def [of "t @ CHR ''_'' # d" "path_add t root"] slash)
qed

lemma slashed_plain: "plain_type d \<Longrightarrow> slashed (x @ d) = x @ d @ ''/''"
proof -
  assume "plain_type d"
  then have "last d \<noteq> CHR ''/''" by (auto simp: plain_type_def dest: last_in_set)
  with \<open>plain_type d\<close> have "\<not> endswith (x @ d) ''/''"
    by (cases d rule: rev_cases) (auto simp: plain_type_def endswith_def)
  then show ?thesis by (simp add: slashed_def)
qed

lemma file_in_dir:
  assumes "plain_type d" "CHR ''/'' \<notin> set b"
  shows "path_join [x @ d, b] = x @ d @ ''/'' @ b"
proof -
  have "last (x @ d) \<noteq> CHR ''/''" using assms(1) by (auto simp: plain_type_def dest: last_in_set)
  with assms show ?thesis by (simp add: path_join_def path_add_plain plain_type_def)
qed

lemma states_plain: "d \<in> set CORPUS_STATES \<Longrightarrow> plain_type d"
  by (auto simp: CORPUS_STATES_def plain_type_def)

lemma type_paths:
  assumes "d \<in> set CORPUS_STATES"
  shows "GetDirPaths root d t tmp = stem root t @ d"
    and "GetFilePaths s d t n = stem (gcs_path s) t @ d @ ''/'' @ basename n"
  using assms file_in_dir [OF states_plain [OF assms] basename_no_slash]
  by (simp_all add: GetDirPaths_def GetFilePaths_def type_dir_stem)

lemma lock_paths:
  "GetDirPaths root ''corpus_lock'' t tmp = stem root t @ ''corpus_lock''"
  "CHR ''/'' \<notin> set (device_serial s) \<Longrightarrow>
   GetFilePaths s ''corpus_lock'' t n = stem (gcs_path s) t @ ''corpus_lock/'' @ device_serial s"
  using file_in_dir [of "''corpus_lock''" "device_serial s" "stem (gcs_path s) t"]
  by (simp_all add: GetDirPaths_def GetFilePaths_def CORPUS_STATES_def numbered_seed_def startswith_def type_dir_stem plain_type_def)

lemma same_component:
  "CHR ''/'' \<notin> set a \<Longrightarrow> CHR ''/'' \<notin> set b \<Longrightarrow> a @ ''/'' @ x = b @ ''/'' @ y \<longleftrightarrow> a = b \<and> x = y"
proof (induction a arbitrary: b)
  case Nil
  then show ?case by (cases b) auto
next
  case (Cons c a)
  then show ?case by (cases b) auto
qed

lemma prefix_component:
  "CHR ''/'' \<notin> set a \<Longrightarrow> CHR ''/'' \<notin> set b \<Longrightarrow> prefix (z @ a @ ''/'') (z @ b @ ''/'' @ y) \<longleftrightarrow> a = b"
  using same_component [of b a y] by (auto simp: prefix_def)

subsection \<open>Fetching one seed\<close>

definition seeds_in :: "('b \<Rightarrow> string \<rightharpoonup> string) \<Rightarrow> string \<Rightarrow> ('b, 'h, 'z) cloud_scheme \<Rightarrow> string set" where
  "seeds_in blobs dir s = {n \<in> dom (contents blobs s). prefix (slashed dir) n}"

lemma finite_seeds: "storage_ok S blobs \<Longrightarrow> finite (seeds_in blobs dir s)"
  using finite_blobs [of S blobs "bucket s"] by (simp add: seeds_in_def contents_def)

lemma ListFiles_seeds:
  "storage_ok (storage env) blobs \<Longrightarrow> gcs_enabled s \<Longrightarrow> set (ListFilesWithPrefix env dir True s) = seeds_in blobs dir s"
  by (simp add: ListFiles_ok(2) seeds_in_def)

text \<open>A download changes the host only, and raises nothing but an error of the host.\<close>

lemma fetch_download_cases:
  assumes "gcs_enabled s"
  shows "\<exists>r h. fetch_download env dir tmp n m s = (r, s\<lparr>host := h\<rparr>) \<and> (\<forall>e. r = Inl e \<longrightarrow> e = HostError)"
proof -
  have prep: "\<exists>r h. PrepareDownloadDestination (calls env) dir tmp s = (r, s\<lparr>host := h\<rparr>) \<and>
      (r = Inl HostError \<or> r = Inr (Some (path_join [tmp, basename dir])))"
    using assms
    by (auto simp: PrepareDownloadDestination_def when_enabled_def on_host_def action_defs Let_def split: option.splits
          intro: exI [of _ "host s"])
  have down: "\<exists>r h. DownloadFile (calls env) m f s' = (r, s'\<lparr>host := h\<rparr>)" if "gcs_enabled s'" for f and s' :: "('a, 'b) corpus"
    using that
    by (auto simp: DownloadFile_def when_enabled_def on_host_def action_defs split: option.splits intro: exI [of _ "host s'"])
  from prep obtain r h where p: "PrepareDownloadDestination (calls env) dir tmp s = (r, s\<lparr>host := h\<rparr>)"
    "r = Inl HostError \<or> r = Inr (Some (path_join [tmp, basename dir]))" by blast
  obtain r' h' where d: "DownloadFile (calls env) m (path_join [path_join [tmp, basename dir], basename n]) (s\<lparr>host := h\<rparr>) =
      (r', s\<lparr>host := h'\<rparr>)"
    using down [of "s\<lparr>host := h\<rparr>"] assms by fastforce
  from p(2) show ?thesis
  proof
    assume "r = Inl HostError"
    with p(1) show ?thesis by (auto simp: fetch_download_def bindA_def)
  next
    assume "r = Inr (Some (path_join [tmp, basename dir]))"
    with p(1) d show ?thesis by (cases r') (auto simp: fetch_download_def bindA_def catchA_def seqA_def returnA_def)
  qed
qed

text \<open>The result of the loop, in terms of the files that were in the directory.\<close>

definition fetched ::
  "('b \<Rightarrow> string \<rightharpoonup> string) \<Rightarrow> string \<Rightarrow> string \<Rightarrow> string \<Rightarrow> ('b, 'h) corpus \<Rightarrow> (gcs_error + string option) \<Rightarrow> ('b, 'h) corpus \<Rightarrow> bool" where
  "fetched blobs t dir inuse_dir s r s' \<longleftrightarrow>
     (case r of
        Inl e \<Rightarrow> e = HostError
      | Inr None \<Rightarrow> seeds_in blobs dir s' = {}
      | Inr (Some inuse) \<Rightarrow> \<exists>n \<in> seeds_in blobs dir s. inuse = inuse_dir @ ''/'' @ basename n \<and>
          contents blobs s' n = None \<and> contents blobs s' inuse = contents blobs s n)"

lemma fetch_loop_returns:
  assumes ok: "storage_ok (storage (calls env)) blobs" and P: "p \<in> set CORPUS_PRIORITIES"
    and "gcs_enabled s" and "stem (gcs_path s) t = z"
  shows "\<exists>r s'. fetch_loop env t tmp (z @ p) 0 s = Some (r, s') \<and> fetched blobs t (z @ p) (z @ ''corpus_inuse'') s r s'"
  using assms(3,4)
proof (induction "card (seeds_in blobs (z @ p) s)" arbitrary: s rule: less_induct)
  case less
  let ?dir = "z @ p" and ?L = "ListFilesWithPrefix (calls env) (z @ p) True s"
  from P have p: "p \<in> set CORPUS_STATES" "p \<noteq> ''corpus_inuse''" "CHR ''/'' \<notin> set p"
    by (auto simp: CORPUS_PRIORITIES_def CORPUS_STATES_def)
  note pref = slashed_plain [OF states_plain [OF p(1)]]
  have L: "set ?L = seeds_in blobs ?dir s" by (rule ListFiles_seeds [OF ok less.prems(1)])
  show ?case
  proof (cases "?L = []")
    case True
    then have "fetch_loop env t tmp ?dir 0 s = Some (Inr None, s)" by (simp add: fetch_loop.simps)
    moreover have "seeds_in blobs ?dir s = {}" using L True by simp
    ultimately show ?thesis by (auto simp: fetched_def)
  next
    case False
    define n where "n = ?L ! (randint env (draws s) mod length ?L)"
    let ?s0 = "s\<lparr>draws := Suc (draws s)\<rparr>"
    define inuse where "inuse = z @ ''corpus_inuse'' @ ''/'' @ basename n"
    from False have "n \<in> set ?L" unfolding n_def by (intro nth_mem) simp
    then have seed: "n \<in> seeds_in blobs ?dir s" using L by simp
    then obtain c where c: "contents blobs s n = Some c" and npre: "prefix (z @ p @ ''/'') n"
      by (auto simp: seeds_in_def pref)
    have in_not: "\<not> prefix (z @ p @ ''/'') inuse" using p prefix_component [of p "''corpus_inuse''" z] by (simp add: inuse_def)
    then have "n \<noteq> inuse" using npre by metis
    from MoveFile_ok [OF ok, of ?s0, OF _ this] less.prems obtain b where
      move: "MoveFile (calls env) n inuse ?s0 = (Inr True, ?s0\<lparr>bucket := b\<rparr>)" and b: "blobs b = (contents blobs s)(n := None, inuse \<mapsto> c)"
      using c by (auto simp: contents_def domI)
    have path: "GetFilePaths ?s0 ''corpus_inuse'' t n = inuse"
      using type_paths(2) [of "''corpus_inuse''" ?s0 t n] less.prems(2) by (simp add: CORPUS_STATES_def inuse_def)
    obtain r h where down: "fetch_download env ?dir tmp n inuse (?s0\<lparr>bucket := b\<rparr>) = (r, ?s0\<lparr>bucket := b, host := h\<rparr>)"
      and err: "\<forall>e. r = Inl e \<longrightarrow> e = HostError"
      using fetch_download_cases [of "?s0\<lparr>bucket := b\<rparr>" env ?dir tmp n inuse] less.prems by auto
    let ?s2 = "?s0\<lparr>bucket := b, host := h\<rparr>"
    have loop: "fetch_loop env t tmp ?dir 0 s =
        (case r of Inl e \<Rightarrow> Some (Inl e, ?s2)
         | Inr downloaded \<Rightarrow> if downloaded then Some (Inr (Some inuse), ?s2) else fetch_loop env t tmp ?dir 0 ?s2)"
      by (subst fetch_loop.simps) (simp add: False Let_def flip: n_def, simp add: path move down split: sum.split)
    have seeds2: "seeds_in blobs ?dir ?s2 = seeds_in blobs ?dir s - {n}"
      using in_not by (auto simp: seeds_in_def contents_def b pref split: if_splits)
    have kept: "contents blobs ?s2 m = contents blobs s m" if "m \<in> seeds_in blobs ?dir s" "m \<noteq> n" for m
      using that in_not by (auto simp: seeds_in_def contents_def b pref split: if_splits)
    consider (error) e where "r = Inl e" | (got) "r = Inr True" | (retry) "r = Inr False" by (cases r) auto
    then show ?thesis
    proof cases
      case error
      with loop err show ?thesis by (auto simp: fetched_def)
    next
      case got
      have "contents blobs ?s2 n = None" "contents blobs ?s2 inuse = Some c"
        using \<open>n \<noteq> inuse\<close> by (simp_all add: contents_def b)
      with got loop seed c show ?thesis by (auto simp: fetched_def inuse_def)
    next
      case retry
      have "card (seeds_in blobs ?dir ?s2) < card (seeds_in blobs ?dir s)"
        unfolding seeds2 using seed finite_seeds [OF ok] by (intro psubset_card_mono) auto
      from less.hyps [OF this] less.prems obtain r' s' where
        r': "fetch_loop env t tmp ?dir 0 ?s2 = Some (r', s')" "fetched blobs t ?dir (z @ ''corpus_inuse'') ?s2 r' s'" by auto
      have "fetched blobs t ?dir (z @ ''corpus_inuse'') s r' s'"
        using r'(2) seeds2 kept unfolding fetched_def by (auto split: sum.splits option.splits)
      with r'(1) retry loop show ?thesis by auto
    qed
  qed
qed

text \<open>(C16) 
  \<open>_FetchCorpusSeedFromPriority\<close> always returns, although a failed download is not counted as a try: each round takes a seed out of
  the directory. No seed is reported only if the directory is empty, and a seed that is reported was moved to the directory of the seeds in
  use with its content; the only exception is one of the host.
\<close>

theorem FetchCorpusSeedFromPriority_returns:
  assumes "storage_ok (storage (calls env)) blobs" and "p \<in> set CORPUS_PRIORITIES" and "gcs_enabled s"
  shows "\<exists>r s'. FetchCorpusSeedFromPriority env t tmp p s = Some (r, s') \<and>
    (case r of
       Inl e \<Rightarrow> e = HostError
     | Inr None \<Rightarrow> seeds_in blobs (GetDirPaths (gcs_path s) p t []) s' = {}
     | Inr (Some inuse) \<Rightarrow> \<exists>n \<in> seeds_in blobs (GetDirPaths (gcs_path s) p t []) s. inuse = GetFilePaths s ''corpus_inuse'' t n \<and>
         contents blobs s' n = None \<and> contents blobs s' inuse = contents blobs s n)"
proof -
  have states: "p \<in> set CORPUS_STATES" "''corpus_inuse'' \<in> set CORPUS_STATES"
    using assms(2) by (auto simp: CORPUS_PRIORITIES_def CORPUS_STATES_def)
  show ?thesis
    using fetch_loop_returns [OF assms refl, of t tmp]
    by (simp add: FetchCorpusSeedFromPriority_def type_paths(1) [OF states(1)] type_paths(2) [OF states(2)] fetched_def append_assoc
          cong: sum.case_cong option.case_cong)
qed

subsection \<open>The lock\<close>

text \<open>Downloads leave the bucket as it is, and no operation changes the manager itself.\<close>

lemma downloads_keep_bucket:
  "keeps (\<lambda>s. bucket s = b) (on_host f)"
  "keeps (\<lambda>s. bucket s = b) (DownloadFile e n f')"
  "keeps (\<lambda>s. bucket s = b) (PrepareDownloadDestination e dir tmp)"
  unfolding DownloadFile_def PrepareDownloadDestination_def when_enabled_def Let_def
  by (auto intro!: keeps_rules split: option.split) (auto simp: keeps_def on_host_def split: option.split)

lemma FetchCorpusSeedDirectory_keeps_bucket: "keeps (\<lambda>s. bucket s = b) (FetchCorpusSeedDirectory env t tmp)"
  unfolding FetchCorpusSeedDirectory_def Let_def by (intro keeps_rules downloads_keep_bucket)

definition manager :: "string \<Rightarrow> string \<Rightarrow> ('b, 'h) corpus \<Rightarrow> bool" where
  "manager path serial s \<longleftrightarrow> gcs_enabled s \<and> cm_enabled s \<and> gcs_path s = path \<and> device_serial s = serial"

lemma manager_updates [simp]:
  "manager path serial (s\<lparr>bucket := b\<rparr>) = manager path serial s"
  "manager path serial (s\<lparr>host := h\<rparr>) = manager path serial s"
  "manager path serial (s\<lparr>draws := d\<rparr>) = manager path serial s"
  by (simp_all add: manager_def)

lemma calls_keep_manager [keeps_rules]:
  "keeps (manager path serial) (on_bucket f)"
  "keeps (manager path serial) (on_host g)"
  by (auto simp: keeps_def on_bucket_def on_host_def split: option.split)

lemma UploadFile_keeps_manager [keeps_rules]: "keeps (manager path serial) (UploadFile e n m)"
  unfolding UploadFile_def when_enabled_def by (intro keeps_rules) simp

lemma storage_keeps_manager [keeps_rules]:
  "keeps (manager path serial) (UploadDir e n m)"
  "keeps (manager path serial) (MoveFile e n m)"
  "keeps (manager path serial) (DeleteFile e n)"
  unfolding UploadDir_def MoveFile_def DeleteFile_def when_enabled_def by (intro keeps_rules)+

lemma UploadTriggeredCorpus_keeps_manager [keeps_rules]: "keeps (manager path serial) (UploadTriggeredCorpus env t tmp)"
  unfolding UploadTriggeredCorpus_def Let_def by (intro keeps_rules) simp

lemma MoveCorpusDirectory_keeps_manager [keeps_rules]: "keeps (manager path serial) (MoveCorpusDirectory env t tmp a b strict)"
  unfolding MoveCorpusDirectory_def Let_def by (intro keeps_rules)

lemma ClassifyPriority3_keeps_manager: "keeps (manager path serial) (ClassifyPriority3 env t tmp)"
  unfolding ClassifyPriority3_def Let_def by (intro keeps_rules)

text \<open>The name of the lock, and that it is in the directory of the locks.\<close>

definition lock_name :: "string \<Rightarrow> string \<Rightarrow> string \<Rightarrow> string" where
  "lock_name path serial t = stem path t @ ''corpus_lock/'' @ serial"

lemma lock_in_directory: "prefix (slashed (GetDirPaths path ''corpus_lock'' t [])) (lock_name path serial t)"
  using slashed_plain [of "''corpus_lock''" "stem path t"] by (simp add: lock_paths lock_name_def plain_type_def)

lemma lock_file: "manager path serial s \<Longrightarrow> CHR ''/'' \<notin> set serial \<Longrightarrow> GetFilePaths s ''corpus_lock'' t n = lock_name path serial t"
  by (simp add: manager_def lock_paths lock_name_def)

lemma locked_out:
  assumes "storage_ok (storage (calls env)) blobs" "manager path serial s" "lock_name path owner t \<in> dom (contents blobs s)"
  shows "FetchCorpusSeed env FETCH_ALL_AND_REPEAT t tmp s = Some (Inr (Some ''locked''), s)"
proof -
  have "PrefixExists (calls env) (GetDirPaths path ''corpus_lock'' t []) s"
    using assms lock_in_directory PrefixExists_ok [OF assms(1), of s] by (auto simp: manager_def)
  with assms(2) show ?thesis by (simp add: FetchCorpusSeed_def manager_def)
qed

lemma add_lock_locks:
  assumes "storage_ok (storage (calls env)) blobs" "manager path serial s" "CHR ''/'' \<notin> set serial"
    and "add_lock env t tmp s = (Inr u, s')"
  shows "lock_name path serial t \<in> dom (contents blobs s')"
proof -
  from assms(2,4) lock_file [OF assms(2,3)] obtain s1 where host: "\<exists>h. s1 = s\<lparr>host := h\<rparr>"
    and up: "UploadFile (calls env) (path_join [tmp, device_serial s]) (lock_name path serial t) s1 = (Inr u, s')"
    by (auto simp: add_lock_def getA_def manager_def Let_def seqA_Inr on_host_def split: option.splits)
  then have "gcs_enabled s1" using assms(2) by (auto simp: manager_def)
  moreover obtain c where "read_local (host_os (calls env)) (path_join [tmp, device_serial s]) (host s1) = Some c"
    using up \<open>gcs_enabled s1\<close> by (auto simp: UploadFile_def when_enabled_def action_defs split: option.splits)
  ultimately show ?thesis
    using UploadFile_ok [OF assms(1), of s1 "path_join [tmp, device_serial s]" c "lock_name path serial t"] up
    by (auto simp: contents_def)
qed

lemma FetchCorpusSeed_locks:
  assumes "storage_ok (storage (calls env)) blobs" "manager path serial s" "CHR ''/'' \<notin> set serial"
    and "FetchCorpusSeed env FETCH_ALL_AND_REPEAT t tmp s = Some (Inr (Some ''directory''), s')"
  shows "lock_name path serial t \<in> dom (contents blobs s')"
proof -
  from assms(2,4) obtain u v s1 s2 where "add_lock env t tmp s = (Inr u, s1)" "FetchCorpusSeedDirectory env t tmp s1 = (Inr v, s2)" "s' = s2"
    by (auto simp: FetchCorpusSeed_def manager_def seqA_Inr returnA_def split: if_splits)
  moreover from this have "bucket s' = bucket s1"
    using keeps_step [OF FetchCorpusSeedDirectory_keeps_bucket refl, of env t tmp s1] by simp
  ultimately show ?thesis using add_lock_locks [OF assms(1-3)] by (simp add: contents_def)
qed

lemma remove_lock_unlocks:
  assumes "storage_ok (storage (calls env)) blobs" "manager path serial s" "CHR ''/'' \<notin> set serial"
  shows "\<exists>b. remove_lock env t s = (Inr (), s\<lparr>bucket := b\<rparr>) \<and> blobs b = (contents blobs s)(lock_name path serial t := None)"
proof -
  from assms(2) have "gcs_enabled s" by (simp add: manager_def)
  from DeleteFile_ok [OF assms(1) this] obtain b where
    "DeleteFile (calls env) (lock_name path serial t) s = (Inr (lock_name path serial t \<in> dom (contents blobs s)), s\<lparr>bucket := b\<rparr>)"
    "blobs b = (contents blobs s)(lock_name path serial t := None)" by blast
  with assms(2) show ?thesis
    by (auto simp: remove_lock_def getA_def lock_file [OF assms(2,3)] seqA_step returnA_def) (simp add: manager_def)
qed

lemma UploadCorpusMeasure_keeps_locks:
  assumes "storage_ok (storage (calls env)) blobs" "UploadCorpusMeasure env t tmp k s = (r, s')"
  shows "contents blobs s' (lock_name (gcs_path s) serial t) = contents blobs s (lock_name (gcs_path s) serial t)"
proof -
  let ?f = "path_join [tmp, t @ ''_'' @ strftime env @ ''.txt'']"
  define m where "m = stem (gcs_path s) t @ ''corpus_measure/'' @ basename ?f"
  have "GetDirPaths (gcs_path s) ''corpus_measure'' t [] = stem (gcs_path s) t @ ''corpus_measure''"
    by (simp add: GetDirPaths_def CORPUS_STATES_def numbered_seed_def startswith_def type_dir_stem)
  then have "path_join [GetDirPaths (gcs_path s) ''corpus_measure'' t [], basename ?f] = m"
    using file_in_dir [OF _ basename_no_slash, of "''corpus_measure''"] by (simp add: m_def plain_type_def)
  moreover have "m \<noteq> lock_name (gcs_path s) serial t" by (simp add: m_def lock_name_def)
  ultimately show ?thesis
    using assms by (auto simp: UploadCorpusMeasure_def Let_def on_host_def UploadFile_def when_enabled_def action_defs contents_def
        storage_ok_def split: option.splits if_splits)
qed

text \<open>(C18) 
  The lock of the scheduling algorithm in use excludes: once a manager was given the directory of a test, every manager on the same
  storage and path is told that the test is locked, whichever device it works for, and changes nothing.
\<close>

theorem lock_excludes:
  assumes "storage_ok (storage (calls env)) blobs" and "manager path serial s" and "CHR ''/'' \<notin> set serial"
    and "FetchCorpusSeed env SCHEDULING_ALGORITHM t tmp s = Some (Inr (Some ''directory''), s')"
    and "storage (calls env2) = storage (calls env)" and "manager path serial2 s2" and "bucket s2 = bucket s'"
  shows "FetchCorpusSeed env2 SCHEDULING_ALGORITHM t tmp2 s2 = Some (Inr (Some ''locked''), s2)"
proof -
  have "lock_name path serial t \<in> dom (contents blobs s2)"
    using FetchCorpusSeed_locks [OF assms(1-3)] assms(4,7) by (simp add: SCHEDULING_ALGORITHM_def contents_def)
  with assms(1,5,6) show ?thesis by (simp add: SCHEDULING_ALGORITHM_def locked_out)
qed

lemma upload_and_lock:
  assumes "storage_ok (storage (calls env)) blobs" and "manager path serial s" and "CHR ''/'' \<notin> set serial"
  shows "UploadCorpusOutDir env SCHEDULING_ALGORITHM t tmp s = (Inr True, s') \<Longrightarrow>
      contents blobs s' (GetFilePaths s ''corpus_lock'' t []) = None"
    and "\<not> path_exists (host_os (calls env)) (GetDirPaths path ''local_corpus_out'' t tmp) (host s) \<Longrightarrow>
      UploadCorpusOutDir env SCHEDULING_ALGORITHM t tmp s = (Inr False, s)"
proof -
  show "UploadCorpusOutDir env SCHEDULING_ALGORITHM t tmp s = (Inr False, s)"
    if "\<not> path_exists (host_os (calls env)) (GetDirPaths path ''local_corpus_out'' t tmp) (host s)"
    using that assms(2) by (simp add: UploadCorpusOutDir_def UploadDir_def when_enabled_def manager_def action_defs)
  assume "UploadCorpusOutDir env SCHEDULING_ALGORITHM t tmp s = (Inr True, s')"
  then obtain s1 k s2 s3 where run: "UploadDir (calls env) (GetDirPaths (gcs_path s) ''local_corpus_out'' t tmp)
      (GetDirPaths (gcs_path s) ''incoming_parent'' t tmp) s = (Inr True, s1)"
    "ClassifyPriority3 env t tmp s1 = (Inr k, s2)" "remove_lock env t s2 = (Inr (), s3)"
    "UploadCorpusMeasure env t tmp k s3 = (Inr (), s')"
    using assms(2)
    by (auto simp: UploadCorpusOutDir_def getA_def manager_def bindA_Inr seqA_Inr MEASURE_CORPUS_def SCHEDULING_ALGORITHM_def
        ClassifyPriority_def returnA_def split: if_splits)
  have s2: "manager path serial s2"
    using keeps_step [OF storage_keeps_manager(1) assms(2) run(1)] keeps_step [OF ClassifyPriority3_keeps_manager _ run(2)] by simp
  from remove_lock_unlocks [OF assms(1) this assms(3), of t] run(3) have
    "contents blobs s3 (lock_name path serial t) = None" "gcs_path s3 = path"
    using s2 by (auto simp: contents_def manager_def)
  with UploadCorpusMeasure_keeps_locks [OF assms(1) run(4), of serial] lock_file [OF assms(2,3)]
  show "contents blobs s' (GetFilePaths s ''corpus_lock'' t []) = None" by simp
qed

text \<open>(C19) 
  The lock is given back: when \<open>UploadCorpusOutDir\<close> reports success the lock file of the device is gone. When the fuzzer
  wrote no output directory, it reports failure and changes nothing, so that the lock stays: the test is then locked for its own device
  as well.
\<close>

theorem upload_gives_lock_back:
  assumes "storage_ok (storage (calls env)) blobs" and "manager path serial s" and "CHR ''/'' \<notin> set serial"
  shows "(\<forall>s'. UploadCorpusOutDir env SCHEDULING_ALGORITHM t tmp s = (Inr True, s') \<longrightarrow>
      contents blobs s' (GetFilePaths s ''corpus_lock'' t []) = None) \<and>
    (path_exists (host_os (calls env)) (GetDirPaths path ''local_corpus_out'' t tmp) (host s) \<or>
      UploadCorpusOutDir env SCHEDULING_ALGORITHM t tmp s = (Inr False, s))"
  using upload_and_lock [OF assms] by blast

subsection \<open>Classification\<close>

definition seed_of :: "('b, 'h) corpus \<Rightarrow> string \<Rightarrow> string \<Rightarrow> string \<Rightarrow> string" where
  "seed_of s t d n = stem (gcs_path s) t @ d @ ''/'' @ basename n"

text \<open>
  What a classification of the files of a list makes of the contents \<open>C\<close> of the bucket: \<open>D\<close>. The files leave the
  incoming directory, files that were elsewhere stay as they were, a new file is one of the list in the directory of its destination,
  and afterwards every name of the list is in one of the directories of the states.
\<close>

definition classified ::
  "(string \<Rightarrow> string) \<Rightarrow> (string \<Rightarrow> string set) \<Rightarrow> string set \<Rightarrow> (string \<rightharpoonup> string) \<Rightarrow> (string \<rightharpoonup> string) \<Rightarrow> bool" where
  "classified dest places L C D \<longleftrightarrow>
     (\<forall>n \<in> L. D n = None) \<and>
     (\<forall>m. m \<notin> L \<and> C m \<noteq> None \<longrightarrow> D m = C m) \<and>
     (\<forall>m. m \<notin> L \<and> C m = None \<and> D m \<noteq> None \<longrightarrow> (\<exists>n \<in> L. m = dest n \<and> D m = C n)) \<and>
     (\<forall>n \<in> L. \<exists>m \<in> places n. D m \<noteq> None)"

lemma classifiedD:
  assumes "classified dest places L C D"
  shows "n \<in> L \<Longrightarrow> D n = None"
    and "m \<notin> L \<Longrightarrow> C m = Some c \<Longrightarrow> D m = Some c"
    and "m \<notin> L \<Longrightarrow> C m = None \<Longrightarrow> D m = Some c \<Longrightarrow> \<exists>n \<in> L. m = dest n \<and> C n = Some c"
    and "n \<in> L \<Longrightarrow> \<exists>m \<in> places n. D m \<noteq> None"
proof -
  show "n \<in> L \<Longrightarrow> D n = None" "n \<in> L \<Longrightarrow> \<exists>m \<in> places n. D m \<noteq> None" "m \<notin> L \<Longrightarrow> C m = Some c \<Longrightarrow> D m = Some c"
    using assms unfolding classified_def by auto
  show "m \<notin> L \<Longrightarrow> C m = None \<Longrightarrow> D m = Some c \<Longrightarrow> \<exists>n \<in> L. m = dest n \<and> C n = Some c"
    using assms unfolding classified_def by (metis option.distinct(1))
qed

text \<open>One file first, then the others: in \<open>C1\<close> the file \<open>n\<close> is gone and at most its destination is new.\<close>

lemma classified_step:
  assumes D: "classified dest places L C1 D" and "n \<notin> L" and out: "\<forall>k \<in> insert n L. places k \<inter> insert n L = {} \<and> dest k \<in> places k"
    and "C1 n = None" and old: "\<forall>m. m \<noteq> n \<and> m \<noteq> dest n \<longrightarrow> C1 m = C m"
    and dest: "C1 (dest n) = C (dest n) \<or> (C (dest n) = None \<and> C1 (dest n) = C n)"
    and placed: "\<exists>m \<in> places n. C1 m \<noteq> None"
  shows "classified dest places (insert n L) C D"
proof -
  have not: "dest k \<notin> insert n L" if "k \<in> insert n L" for k using out that by blast
  have Dn: "D n = None" using classifiedD(3) [OF D \<open>n \<notin> L\<close> \<open>C1 n = None\<close>] not by (cases "D n") auto
  have same: "C1 k = C k" if "k \<in> L" for k using that old not [of n] \<open>n \<notin> L\<close> by (metis insertI1 insertI2)
  have kept: "D m = C m" if m: "m \<notin> insert n L" "C m \<noteq> None" for m
  proof -
    have "C1 m = C m" using m old dest by (cases "m = dest n") auto
    then show ?thesis using classifiedD(2) [OF D, of m] m by auto
  qed
  have new: "\<exists>k \<in> insert n L. m = dest k \<and> D m = C k" if m: "m \<notin> insert n L" "C m = None" "D m \<noteq> None" for m
  proof (cases "C1 m")
    case None
    from m obtain c where c: "D m = Some c" by blast
    then obtain k where "k \<in> L" "m = dest k" "C1 k = Some c" using classifiedD(3) [OF D _ None c] m(1) by auto
    with same c show ?thesis by (intro bexI [of _ k]) auto
  next
    case (Some c)
    then have "m = dest n" "C n = Some c" using m old dest by force+
    then show ?thesis using classifiedD(2) [OF D, of m] m Some by auto
  qed
  obtain m where "m \<in> places n" "C1 m \<noteq> None" using placed by blast
  moreover from this have "D m \<noteq> None" using classifiedD(2) [OF D, of m] out by auto
  ultimately show ?thesis
    using Dn kept new classifiedD(1,4) [OF D] unfolding classified_def by auto
qed


text \<open>The number of new files grows by one if the file was moved, and stays if it was a duplicate.\<close>

lemma classified_count:
  assumes D: "classified dest places L C1 D" and "finite (dom D)" and "dest n \<notin> L" "C n \<noteq> None"
    and "D n = None" "C1 n = None" "\<forall>m. m \<noteq> n \<and> m \<noteq> dest n \<longrightarrow> C1 m = C m" "dest n \<noteq> n"
  shows "C1 (dest n) = C (dest n) \<Longrightarrow> dom D - dom C1 = dom D - dom C"
    and "C (dest n) = None \<Longrightarrow> C1 (dest n) \<noteq> None \<Longrightarrow> card (dom D - dom C) = Suc (card (dom D - dom C1))"
proof -
  have eq: "x \<in> dom C1 \<longleftrightarrow> x \<in> dom C" if "x \<noteq> n" "x \<noteq> dest n" for x using that assms(7) by (auto simp: domIff)
  show "dom D - dom C1 = dom D - dom C" if "C1 (dest n) = C (dest n)"
  proof -
    have "x \<in> dom C1 \<longleftrightarrow> x \<in> dom C" if "x \<in> dom D" for x
      using that eq [of x] assms(5) \<open>C1 (dest n) = C (dest n)\<close> by (cases "x = dest n"; cases "x = n") (auto simp: domIff)
    then show ?thesis by blast
  qed
  assume new: "C (dest n) = None" "C1 (dest n) \<noteq> None"
  then have "D (dest n) \<noteq> None" using classifiedD(2) [OF D \<open>dest n \<notin> L\<close>] by auto
  moreover have "x \<in> dom C1 \<longleftrightarrow> x \<in> dom C" if "x \<in> dom D" "x \<noteq> dest n" for x
    using that eq [of x] assms(5) by (cases "x = n") (auto simp: domIff)
  ultimately have "dom D - dom C = insert (dest n) (dom D - dom C1)" using new by (auto simp: domIff)
  then show "card (dom D - dom C) = Suc (card (dom D - dom C1))" using assms(2) new by (simp add: domIff)
qed


text \<open>The loop does this, if none of the directories of the states is where the list comes from.\<close>

definition places :: "('b, 'h) corpus \<Rightarrow> string \<Rightarrow> string \<Rightarrow> string set" where
  "places s t n = (\<lambda>d. seed_of s t d n) ` set CORPUS_STATES"

lemma CorpusIsDuplicate_ok:
  assumes "storage_ok (storage (calls env)) blobs" "gcs_enabled s"
  shows "CorpusIsDuplicate env t n s \<longleftrightarrow> (\<exists>m \<in> places s t n. contents blobs s m \<noteq> None)"
  by (auto simp: CorpusIsDuplicate_def list_ex_iff FileExists_ok [OF assms] type_paths(2) places_def seed_of_def)

lemma classify_one_ok:
  assumes ok: "storage_ok (storage (calls env)) blobs" and "gcs_enabled s" and d: "d \<in> set CORPUS_STATES"
    and "contents blobs s n \<noteq> None" and "n \<notin> places s t n"
  shows "\<exists>b. classify_one env t d n k s = (Inr (if CorpusIsDuplicate env t n s then k else k + 1), s\<lparr>bucket := b\<rparr>) \<and>
    blobs b = (if CorpusIsDuplicate env t n s then (contents blobs s)(n := None)
               else (contents blobs s)(n := None, seed_of s t d n := contents blobs s n))"
proof (cases "CorpusIsDuplicate env t n s")
  case True
  with DeleteFile_ok [OF ok assms(2), of n] show ?thesis by (auto simp: classify_one_def getA_def seqA_step returnA_def)
next
  case False
  have "n \<noteq> seed_of s t d n" using assms(5) d by (auto simp: places_def)
  from MoveFile_ok [OF ok assms(2) this] assms(4) False show ?thesis
    by (auto simp: classify_one_def getA_def seqA_step returnA_def type_paths(2) [OF d] seed_of_def)
qed

lemma same_places [simp]: "places (s\<lparr>bucket := b\<rparr>) t = places s t" "seed_of (s\<lparr>bucket := b\<rparr>) t d = seed_of s t d"
  by (auto simp: places_def seed_of_def fun_eq_iff)

lemma classify_loop_ok:
  assumes ok: "storage_ok (storage (calls env)) blobs" and d: "d \<in> set CORPUS_STATES"
  shows "gcs_enabled s \<Longrightarrow> distinct L \<Longrightarrow> set L \<subseteq> dom (contents blobs s) \<Longrightarrow> \<forall>n \<in> set L. places s t n \<inter> set L = {} \<Longrightarrow>
    \<exists>b. classify_loop env t d L k s = (Inr (k + card (dom (blobs b) - dom (contents blobs s))), s\<lparr>bucket := b\<rparr>) \<and>
      classified (seed_of s t d) (places s t) (set L) (contents blobs s) (blobs b)"
proof (induction L arbitrary: s k)
  case Nil
  then show ?case by (intro exI [of _ "bucket s"]) (auto simp: returnA_def contents_def classified_def)
next
  case (Cons n L)
  let ?C = "contents blobs s" and ?dup = "CorpusIsDuplicate env t n s" and ?dest = "seed_of s t d n"
  from Cons.prems have n: "?C n \<noteq> None" "n \<notin> places s t n" "n \<notin> set L" by auto
  obtain b where one: "classify_one env t d n k s = (Inr (if ?dup then k else k + 1), s\<lparr>bucket := b\<rparr>)"
    and b: "blobs b = (if ?dup then ?C(n := None) else ?C(n := None, ?dest := ?C n))"
    using classify_one_ok [OF ok Cons.prems(1) d n(1,2)] by blast
  have dest_in: "seed_of s t d m \<in> places s t m" for m using d by (simp add: places_def)
  have dest: "?dest \<noteq> n" "?dest \<notin> set L" using dest_in [of n] Cons.prems(4) by auto
  have sub: "set L \<subseteq> dom (contents blobs (s\<lparr>bucket := b\<rparr>))" using Cons.prems n dest by (auto simp: contents_def b)
  obtain b' where rest: "classify_loop env t d L (if ?dup then k else k + 1) (s\<lparr>bucket := b\<rparr>) =
      (Inr ((if ?dup then k else k + 1) + card (dom (blobs b') - dom (blobs b))), s\<lparr>bucket := b'\<rparr>)"
    and D: "classified (seed_of s t d) (places s t) (set L) (blobs b) (blobs b')"
    using Cons.IH [of "s\<lparr>bucket := b\<rparr>" "if ?dup then k else k + 1"] Cons.prems sub by (auto simp: contents_def)
  have C1: "blobs b n = None" "\<forall>m. m \<noteq> n \<and> m \<noteq> ?dest \<longrightarrow> blobs b m = ?C m" using b dest by auto
  have free: "?C ?dest = None" if "\<not> ?dup" using that dest_in CorpusIsDuplicate_ok [OF ok Cons.prems(1)] by blast
  have placed: "\<exists>m \<in> places s t n. blobs b m \<noteq> None"
    using CorpusIsDuplicate_ok [OF ok Cons.prems(1), of t n] dest_in [of n] n dest by (cases ?dup) (auto simp: b)
  have all: "classified (seed_of s t d) (places s t) (set (n # L)) ?C (blobs b')"
    using classified_step [OF D n(3) _ C1 _ placed] Cons.prems(4) dest_in free dest by (auto simp: b)
  have gone: "blobs b' n = None" using classifiedD(1) [OF all, of n] by simp
  from b dest(1) have at_dest: "blobs b ?dest = (if ?dup then ?C ?dest else ?C n)" by auto
  note count = classified_count [OF D finite_blobs [OF ok] dest(2) n(1) gone C1 dest(1)]
  have "(if ?dup then k else k + 1) + card (dom (blobs b') - dom (blobs b)) = k + card (dom (blobs b') - dom ?C)"
    using count free n(1) at_dest by (cases ?dup) simp_all
  with one rest all show ?case by (auto simp: bindA_step)
qed


text \<open>A test whose name is one component of a path; the incoming directory is beside the directories of the states.\<close>

lemma incoming_beside:
  assumes t: "t \<noteq> []" "CHR ''/'' \<notin> set t" and n: "prefix (slashed (GetDirPaths (gcs_path s) ''incoming_child'' t tmp)) n"
  shows "n \<notin> places s t m"
proof
  let ?x = "path_add t (gcs_path s)"
  have x: "\<exists>y. ?x = y @ t" using t by (cases t) (auto simp: path_add_def startswith_def)
  moreover have "last t \<noteq> CHR ''/''" using t last_in_set [of t] by metis
  ultimately have last: "?x \<noteq> []" "last ?x \<noteq> CHR ''/''" using t(1) by auto
  have st: "stem (gcs_path s) t = ?x @ ''/'' @ t @ ''_''"
    using t last by (cases t; cases ?x rule: rev_cases) (auto simp: stem_def startswith_def endswith_def)
  have inc: "path_add ''incoming'' ?x = ?x @ ''/incoming''" using path_add_plain [OF last, of "''incoming''"] by simp
  have tmp: "path_add (basename tmp) (?x @ ''/incoming'') = ?x @ ''/incoming/'' @ basename tmp"
    using path_add_plain [of "?x @ ''/incoming''" "basename tmp"] by (simp add: basename_no_slash)
  have "\<not> startswith (t @ ''_corpus_out'') ''/''" using t by (cases t) (auto simp: startswith_def)
  then have "\<exists>y. path_join [gcs_path s, t, ''incoming'', basename tmp, t @ ''_corpus_out''] = ?x @ ''/incoming/'' @ y"
    by (auto simp: path_join_def inc tmp path_add_def [of "t @ ''_corpus_out''"])
  then obtain y where "GetDirPaths (gcs_path s) ''incoming_child'' t tmp = ?x @ ''/incoming/'' @ y"
    by (auto simp: GetDirPaths_def CORPUS_STATES_def numbered_seed_def startswith_def)
  with n obtain z where z: "n = ?x @ ''/'' @ ''incoming'' @ ''/'' @ z" by (auto simp: slashed_def prefix_def split: if_splits)
  assume "n \<in> places s t m"
  then obtain d where d: "d \<in> set CORPUS_STATES" and "n = ?x @ ''/'' @ (t @ ''_'' @ d) @ ''/'' @ basename m"
    by (auto simp: places_def seed_of_def st)
  with z have "''incoming'' @ ''/'' @ z = (t @ ''_'' @ d) @ ''/'' @ basename m" by simp
  moreover have "CHR ''/'' \<notin> set (t @ ''_'' @ d)" using t states_plain [OF d] by (simp add: plain_type_def)
  ultimately have "''incoming'' = t @ ''_'' @ d" using same_component [of "''incoming''" "t @ ''_'' @ d" z "basename m"] by simp
  then have "CHR ''_'' \<in> set ''incoming''" by simp
  then show False by simp
qed




subsection \<open>An example\<close>

text \<open>A bucket and a host whose files are association lists.\<close>

definition alist_host :: "(string \<times> string) list host_os" where
  "alist_host = \<lparr>path_exists = (\<lambda>p h. map_of h p \<noteq> None), os_walk = (\<lambda>p h. []), read_local = (\<lambda>p h. map_of h p),
     write_local = (\<lambda>p c h. Some ((p, c) # h)), makedirs = (\<lambda>p h. Some ((p, []) # h))\<rparr>"

definition example_calls :: "((string \<times> string) list, (string \<times> string) list) corpus_env" where
  "example_calls = \<lparr>calls = \<lparr>storage = alist_storage, host_os = alist_host\<rparr>, randint = id, uuid4 = (\<lambda>i. []), strftime = ''now''\<rparr>"

definition example_manager :: "(string \<times> string) list \<Rightarrow> ((string \<times> string) list, (string \<times> string) list) corpus" where
  "example_manager b = CorpusManager [(''enable_log_uploading'', PInt 1), (''service_key_json_path'', PStr ''k''), (''fuzzing_gcs_bucket_name'', PStr ''b'')]
     ''P.2'' ''w'' ''HT7'' True b []"

lemma example_ok: "storage_ok (storage (calls example_calls)) map_of"
  by (simp add: example_calls_def alist_storage_ok)

lemma example_path: "gcs_path (example_manager b) = ''corpus/P/w''"
  by code_simp

lemma example_manager_ok: "manager ''corpus/P/w'' ''HT7'' (example_manager b)"
  unfolding manager_def by code_simp

theorem FetchCorpusSeedFromPriority_returns_witness:
  "\<exists>r s'. FetchCorpusSeedFromPriority example_calls ''T'' ''/tmp'' ''corpus_seed'' (example_manager [(''corpus/P/w/T/T_corpus_seed/a'', ''x'')]) =
     Some (r, s')"
proof -
  have "''corpus_seed'' \<in> set CORPUS_PRIORITIES" by (simp add: CORPUS_PRIORITIES_def)
  moreover have "gcs_enabled (example_manager b)" for b using example_manager_ok [of b] by (simp add: manager_def)
  ultimately show ?thesis using FetchCorpusSeedFromPriority_returns [OF example_ok] by blast
qed


definition example_locked :: "((string \<times> string) list, (string \<times> string) list) corpus" where
  "example_locked = (example_manager [(''corpus/P/w/T/T_corpus_lock/HT7'', [])])\<lparr>host := [(''/tmp/HT7'', [])]\<rparr>"

lemma example_lock: "FetchCorpusSeed example_calls SCHEDULING_ALGORITHM ''T'' ''/tmp'' (example_manager []) = Some (Inr (Some ''directory''), example_locked)"
  by code_simp

theorem lock_excludes_witness:
  "FetchCorpusSeed example_calls SCHEDULING_ALGORITHM ''T'' ''/tmp/2'' (example_locked\<lparr>device_serial := ''HT8'', host := []\<rparr>) =
     Some (Inr (Some ''locked''), example_locked\<lparr>device_serial := ''HT8'', host := []\<rparr>)"
proof -
  have "CHR ''/'' \<notin> set ''HT7''" by simp
  moreover have "manager ''corpus/P/w'' ''HT8'' (example_locked\<lparr>device_serial := ''HT8'', host := []\<rparr>)"
    using example_manager_ok by (simp add: manager_def example_locked_def)
  ultimately show ?thesis using lock_excludes [OF example_ok example_manager_ok _ example_lock refl] by simp
qed

theorem upload_gives_lock_back_witness:
  "contents map_of (snd (UploadCorpusOutDir example_calls SCHEDULING_ALGORITHM ''T'' ''/tmp'' (example_locked\<lparr>host := [(''/tmp/T_corpus_out'', [])]\<rparr>)))
     (GetFilePaths (example_locked\<lparr>host := [(''/tmp/T_corpus_out'', [])]\<rparr>) ''corpus_lock'' ''T'' []) = None"
proof -
  let ?s = "example_locked\<lparr>host := [(''/tmp/T_corpus_out'', [])]\<rparr>"
  have "manager ''corpus/P/w'' ''HT7'' ?s" using example_manager_ok by (simp add: example_locked_def)
  moreover have "CHR ''/'' \<notin> set ''HT7''" by simp
  moreover have "fst (UploadCorpusOutDir example_calls SCHEDULING_ALGORITHM ''T'' ''/tmp'' ?s) = Inr True" by code_simp
  ultimately show ?thesis using upload_gives_lock_back [OF example_ok, of _ _ ?s "''T''" "''/tmp''"] by (metis prod.collapse)
qed

definition example_incoming :: "((string \<times> string) list, (string \<times> string) list) corpus" where
  "example_incoming = example_manager [(''corpus/P/w/T/incoming/x/T_corpus_out/a'', ''1''), (''corpus/P/w/T/T_corpus_crash/b'', ''0''),
     (''corpus/P/w/T/incoming/x/T_corpus_out/b'', ''2'')]"


end
