(* ===== verification/Device_Host.thy ===== *)
theory Device_Host
  imports Py_Actions
begin

section \<open>The host of a device: processes, adb and fastboot\<close>

text \<open>
  utils/python/controllers/adb.py and fastboot.py run the tools of the host, and runners/host/utils.py starts and stops the processes
  that last as long as a test run. What is outside the program - the shell of the host, its processes, clock and ports - is a world
  of type \<open>'w\<close>, and a record of calls on it is the parameter of all definitions. The output of a tool is a string: its decoding
  is not modelled.
\<close>

subsection \<open>Actions that may not return\<close>

text \<open>A loop that polls has no bound of its own. An action with such a loop gives \<^const>\<open>None\<close> if it does not return.\<close>

type_synonym ('e, 's, 'a) running = "'s \<Rightarrow> (('e + 'a) \<times> 's) option"

definition runW :: "('e, 's, 'a) raising \<Rightarrow> ('e, 's, 'a) running" where
  "runW m s = Some (m s)"

definition bindW :: "('e, 's, 'a) running \<Rightarrow> ('a \<Rightarrow> ('e, 's, 'b) running) \<Rightarrow> ('e, 's, 'b) running" where
  "bindW m f s = (case m s of None \<Rightarrow> None | Some (Inl e, s') \<Rightarrow> Some (Inl e, s') | Some (Inr v, s') \<Rightarrow> f v s')"

definition seqW :: "('e, 's, 'a) running \<Rightarrow> ('e, 's, 'b) running \<Rightarrow> ('e, 's, 'b) running" where
  "seqW m k = bindW m (\<lambda>_. k)"

definition returnW :: "'a \<Rightarrow> ('e, 's, 'a) running" where
  "returnW v = runW (returnA v)"

definition catchW :: "('e, 's, 'a) running \<Rightarrow> ('e \<Rightarrow> ('e, 's, 'a) running) \<Rightarrow> ('e, 's, 'a) running" where
  "catchW m h s = (case m s of None \<Rightarrow> None | Some (Inl e, s') \<Rightarrow> h e s' | Some (Inr v, s') \<Rightarrow> Some (Inr v, s'))"

lemmas running_defs = runW_def bindW_def seqW_def returnW_def catchW_def

lemma bindW_Inr: "bindW m f s = Some (Inr v, s') \<longleftrightarrow> (\<exists>u s1. m s = Some (Inr u, s1) \<and> f u s1 = Some (Inr v, s'))"
  by (auto simp: bindW_def split: option.splits sum.splits)

lemma seqW_Inr: "seqW m k s = Some (Inr v, s') \<longleftrightarrow> (\<exists>u s1. m s = Some (Inr u, s1) \<and> k s1 = Some (Inr v, s'))"
  by (simp add: seqW_def bindW_Inr)

lemma runW_eq [simp]: "runW m s = Some r \<longleftrightarrow> m s = r"
  by (simp add: runW_def)

subsection \<open>The world\<close>

record 'w world_calls =
  ExecuteOneShellCommand :: "string \<Rightarrow> int \<Rightarrow> 'w \<Rightarrow> (string \<times> string \<times> int) \<times> 'w"
  Popen_communicate :: "string \<Rightarrow> 'w \<Rightarrow> (string \<times> string) \<times> 'w"
  Popen :: "string \<Rightarrow> 'w \<Rightarrow> nat \<times> 'w"
  poll :: "nat \<Rightarrow> 'w \<Rightarrow> int option"
  killpg :: "nat \<Rightarrow> 'w \<Rightarrow> 'w"
  now :: "'w \<Rightarrow> int"
  sleep :: "int \<Rightarrow> 'w \<Rightarrow> 'w"
  randint_port :: "'w \<Rightarrow> int \<times> 'w"
  can_bind :: "int \<Rightarrow> 'w \<Rightarrow> bool"
  create_dir :: "string \<Rightarrow> 'w \<Rightarrow> 'w option"
  read_file :: "string \<Rightarrow> 'w \<Rightarrow> string option"
  gzip_lines :: "string \<Rightarrow> 'w \<Rightarrow> string list option"
  temp_name :: "'w \<Rightarrow> string \<times> 'w"
  remove_file :: "string \<Rightarrow> 'w \<Rightarrow> 'w"
  hal_CleanUp :: "'w \<Rightarrow> bool \<times> 'w"
  shell_Heal :: "'w \<Rightarrow> bool \<times> 'w"
  str_of :: "pyval \<Rightarrow> string"

record 'w hosted =
  world :: 'w

datatype dev_error =
    AdbFailure string string string int
  | VTSUtilsError
  | AndroidDeviceError string
  | DeviceFailure string string
  | MirrorError
  | DevPy py_error

type_synonym ('w, 'z, 'a) hosted_action = "(dev_error, ('w, 'z) hosted_scheme, 'a) raising"

definition callA :: "('w \<Rightarrow> 'a \<times> 'w) \<Rightarrow> ('w, 'z, 'a) hosted_action" where
  "callA f s = (let (v, w) = f (world s) in (Inr v, s\<lparr>world := w\<rparr>))"

definition changeA :: "('w \<Rightarrow> 'w) \<Rightarrow> ('w, 'z, unit) hosted_action" where
  "changeA f s = (Inr (), s\<lparr>world := f (world s)\<rparr>)"

definition askA :: "('w \<Rightarrow> 'b) \<Rightarrow> ('b \<Rightarrow> ('w, 'z, 'a) hosted_action) \<Rightarrow> ('w, 'z, 'a) hosted_action" where
  "askA f k s = k (f (world s)) s"

lemmas world_defs = callA_def changeA_def askA_def

subsection \<open>Standing processes\<close>

definition assert_subprocess_running :: "'w world_calls \<Rightarrow> nat \<Rightarrow> ('w, 'z, unit) hosted_action" where
  "assert_subprocess_running W proc = askA (poll W proc) (\<lambda>ret. if ret \<noteq> None then raiseA VTSUtilsError else returnA ())"

text \<open>\<open>kill_process_group\<close> logs what the signal raises, so that it is a change of the world.\<close>

definition kill_process_group :: "'w world_calls \<Rightarrow> nat \<Rightarrow> ('w, 'z, unit) hosted_action" where
  "kill_process_group W proc = changeA (killpg W proc)"

definition start_standing_subprocess :: "'w world_calls \<Rightarrow> string \<Rightarrow> int \<Rightarrow> ('w, 'z, nat) hosted_action" where
  "start_standing_subprocess W cmd check_health_delay =
     bindA (callA (Popen W cmd)) (\<lambda>proc.
       seqA (if check_health_delay > 0
             then seqA (changeA (sleep W check_health_delay)) (assert_subprocess_running W proc)
             else returnA ())
         (returnA proc))"

definition stop_standing_subprocess :: "'w world_calls \<Rightarrow> nat \<Rightarrow> ('w, 'z, unit) hosted_action" where
  "stop_standing_subprocess W proc = seqA (assert_subprocess_running W proc) (kill_process_group W proc)"

subsection \<open>adb\<close>

definition DEFAULT_ADB_TIMEOUT :: int where "DEFAULT_ADB_TIMEOUT = 300"
definition DEFAULT_ADB_LONG_TIMEOUT :: int where "DEFAULT_ADB_LONG_TIMEOUT = 600"
definition DEFAULT_ADB_SHORT_TIMEOUT :: int where "DEFAULT_ADB_SHORT_TIMEOUT = 30"

definition adb_str :: "string \<Rightarrow> string" where
  "adb_str serial = (if serial \<noteq> [] then ''adb -s '' @ serial else ''adb'')"

definition exec_cmd :: "'w world_calls \<Rightarrow> string \<Rightarrow> int \<Rightarrow> ('w, 'z, string) hosted_action" where
  "exec_cmd W cmd timeout = bindA (callA (ExecuteOneShellCommand W cmd timeout)) (\<lambda>(out, err, ret).
     if ret = 0 then returnA out else raiseA (AdbFailure cmd out err ret))"

definition exec_cmd_no_except :: "'w world_calls \<Rightarrow> string \<Rightarrow> int \<Rightarrow> ('w, 'z, string \<times> string \<times> int) hosted_action" where
  "exec_cmd_no_except W cmd timeout = callA (ExecuteOneShellCommand W cmd timeout)"

definition quote_wrap_shell_command :: "string \<Rightarrow> string" where
  "quote_wrap_shell_command cmd = [CHR 0x22] @ str_replace cmd [CHR 0x22] [CHR 0x5C, CHR 0x22] @ [CHR 0x22]"

text \<open>\<open>__getattr__\<close>: the method of a name runs the command of that name; only a shell command is quoted, and has the shorter timeout.\<close>

definition clean_name :: "string \<Rightarrow> string" where
  "clean_name name = map (\<lambda>c. if c = CHR ''_'' then CHR ''-'' else c) name"

definition adb_line :: "string \<Rightarrow> string \<Rightarrow> string list \<Rightarrow> string" where
  "adb_line serial name args =
     (let arg_str = str_join '' '' args in
      str_join '' '' [adb_str serial, clean_name name, if clean_name name = ''shell'' then quote_wrap_shell_command arg_str else arg_str])"

definition adb_timeout :: "string \<Rightarrow> int option \<Rightarrow> int" where
  "adb_timeout name given =
     (case given of
        Some t \<Rightarrow> t
      | None \<Rightarrow> if clean_name name = ''shell'' then DEFAULT_ADB_TIMEOUT else DEFAULT_ADB_LONG_TIMEOUT)"

definition adb_call :: "'w world_calls \<Rightarrow> string \<Rightarrow> string \<Rightarrow> string list \<Rightarrow> int option \<Rightarrow> ('w, 'z, string) hosted_action" where
  "adb_call W serial name args timeout = exec_cmd W (adb_line serial name args) (adb_timeout name timeout)"

definition adb_shell :: "'w world_calls \<Rightarrow> string \<Rightarrow> string \<Rightarrow> ('w, 'z, string) hosted_action" where
  "adb_shell W serial cmd = adb_call W serial ''shell'' [cmd] None"

definition tcp_forward :: "'w world_calls \<Rightarrow> string \<Rightarrow> int \<Rightarrow> int \<Rightarrow> ('w, 'z, string) hosted_action" where
  "tcp_forward W serial host_port device_port =
     adb_call W serial ''forward'' [''tcp:'' @ str_int host_port @ '' tcp:'' @ str_int device_port] None"

definition reverse_tcp_forward :: "'w world_calls \<Rightarrow> string \<Rightarrow> int \<Rightarrow> int \<Rightarrow> ('w, 'z, string) hosted_action" where
  "reverse_tcp_forward W serial device_port host_port =
     adb_call W serial ''reverse'' [''tcp:'' @ str_int device_port @ '' tcp:'' @ str_int host_port] None"

fun occupied_ports :: "string list \<Rightarrow> py_error + int list" where
  "occupied_ports [] = Inr []"
| "occupied_ports (line # lines) =
     (let tokens = split_at '' tcp:'' line in
      if length tokens \<noteq> 3 then occupied_ports lines
      else bindR (py_int (tokens ! 1)) (\<lambda>port. bindR (occupied_ports lines) (\<lambda>ports. Inr (port # ports))))"

definition list_occupied_adb_ports :: "'w world_calls \<Rightarrow> ('w, 'z, int list) hosted_action" where
  "list_occupied_adb_ports W = bindA (adb_call W [] ''forward'' [''--list''] None) (\<lambda>out.
     case occupied_ports (split_at [CHR 0x0A] (strip out)) of Inl e \<Rightarrow> raiseA (DevPy e) | Inr ports \<Rightarrow> returnA ports)"

definition is_port_available :: "'w world_calls \<Rightarrow> int \<Rightarrow> ('w, 'z, bool) hosted_action" where
  "is_port_available W port = bindA (list_occupied_adb_ports W) (\<lambda>ports.
     if port \<in> set ports then returnA False else askA (can_bind W port) returnA)"

partial_function (option) get_available_host_port ::
  "'w world_calls \<Rightarrow> ('w, 'z) hosted_scheme \<Rightarrow> ((dev_error + int) \<times> ('w, 'z) hosted_scheme) option" where
  "get_available_host_port W s =
     (let (port, w) = randint_port W (world s) in
      case is_port_available W port (s\<lparr>world := w\<rparr>) of
        (Inl e, s) \<Rightarrow> Some (Inl e, s)
      | (Inr available, s) \<Rightarrow> if available then Some (Inr port, s) else get_available_host_port W s)"

declare get_available_host_port.simps [code]

subsection \<open>fastboot\<close>

definition fastboot_str :: "string \<Rightarrow> string" where
  "fastboot_str serial = (if serial \<noteq> [] then ''fastboot -s '' @ serial else ''fastboot'')"

definition fastboot_exe_cmd :: "'w world_calls \<Rightarrow> string \<Rightarrow> ('w, 'z, string) hosted_action" where
  "fastboot_exe_cmd W cmd = bindA (callA (Popen_communicate W cmd)) (\<lambda>(out, err). returnA (if err = [] then out else err))"

definition fastboot_call :: "'w world_calls \<Rightarrow> string \<Rightarrow> string \<Rightarrow> string list \<Rightarrow> ('w, 'z, string) hosted_action" where
  "fastboot_call W serial name args =
     fastboot_exe_cmd W (str_join '' '' [fastboot_str serial, clean_name name, str_join '' '' args])"

end
