(* ===== verification/Android_Device.thy ===== *)
theory Android_Device
  imports Device_Host
begin

section \<open>Android devices (utils/python/controllers/android\_device.py)\<close>

text \<open>
  An \<open>AndroidDevice\<close> holds the handles to a device: its serial, the ports, and the processes that collect its log and run the agent.
  The record \<open>ad\<close> is the object and \<open>dev\<close> the object with the world; the functions of the module that work on several devices
  pass the objects and one world. Time is counted in seconds. Instrumentation events and log messages are left out; the mirrors of the
  agent are a flag each.
\<close>

record ad =
  serial :: string
  product_type :: string
  device_command_port :: "int option"
  device_callback_port :: int
  log_path :: string
  adb_logcat_process :: "nat option"
  adb_logcat_file_path :: "string option"
  vts_agent_process :: "nat option"
  host_command_port :: "int option"
  host_callback_port :: int
  has_hal :: bool
  has_lib :: bool
  has_shell :: bool
  has_resource :: bool
  shell_default_nohup :: bool
  shell_nohup :: bool
  fatal_error :: bool
  extra_attrs :: "(string \<times> pyval) list"

record 'w dev = "'w hosted" +
  obj :: ad

type_synonym ('w, 'a) dev_action = "(dev_error, 'w dev, 'a) raising"
type_synonym ('w, 'a) dev_running = "(dev_error, 'w dev, 'a) running"

definition updA :: "(ad \<Rightarrow> ad) \<Rightarrow> ('w, unit) dev_action" where
  "updA f = modifyA (\<lambda>s. s\<lparr>obj := f (obj s)\<rparr>)"

definition objA :: "(ad \<Rightarrow> 'b) \<Rightarrow> ('b \<Rightarrow> ('w, 'a) dev_action) \<Rightarrow> ('w, 'a) dev_action" where
  "objA f = getA (\<lambda>s. f (obj s))"

text \<open>The methods of \<open>self.adb\<close>.\<close>

definition self_shell :: "'w world_calls \<Rightarrow> string \<Rightarrow> ('w, string) dev_action" where
  "self_shell W cmd = objA serial (\<lambda>n. adb_shell W n cmd)"

definition self_adb :: "'w world_calls \<Rightarrow> string \<Rightarrow> string list \<Rightarrow> int option \<Rightarrow> ('w, string) dev_action" where
  "self_adb W name args timeout = objA serial (\<lambda>n. adb_call W n name args timeout)"

definition catch_adb :: "('w, 'a) dev_action \<Rightarrow> ('w, 'a) dev_action \<Rightarrow> ('w, 'a) dev_action" where
  "catch_adb m k = catchA m (\<lambda>e. case e of AdbFailure _ _ _ _ \<Rightarrow> k | _ \<Rightarrow> raiseA e)"

definition catch_utils :: "('w, 'a) dev_action \<Rightarrow> ('w, 'a) dev_action \<Rightarrow> ('w, 'a) dev_action" where
  "catch_utils m k = catchA m (\<lambda>e. if e = VTSUtilsError then k else raiseA e)"

subsection \<open>Lists of devices\<close>

definition parse_device_list :: "string \<Rightarrow> string \<Rightarrow> string list" where
  "parse_device_list device_list_str key =
     concat (map (\<lambda>line. let tokens = split_at [CHR 0x09] (strip line) in
         if length tokens = 2 \<and> tokens ! 1 = key then [tokens ! 0] else [])
       (split_at [CHR 0x0A] (strip device_list_str)))"

definition list_adb_devices :: "'w world_calls \<Rightarrow> ('w, 'z, string list) hosted_action" where
  "list_adb_devices W = bindA (adb_call W [] ''devices'' [] None) (\<lambda>out. returnA (parse_device_list out ''device''))"

definition list_fastboot_devices :: "'w world_calls \<Rightarrow> ('w, 'z, string list) hosted_action" where
  "list_fastboot_devices W = bindA (fastboot_call W [] ''devices'' []) (\<lambda>out. returnA (parse_device_list out ''fastboot''))"

subsection \<open>Properties of the system\<close>

definition getProp :: "'w world_calls \<Rightarrow> string option \<Rightarrow> ('w, string option) dev_action" where
  "getProp W name = (case name of
     None \<Rightarrow> returnA None
   | Some n \<Rightarrow> bindA (self_adb W ''shell'' [''getprop '' @ n] (Some DEFAULT_ADB_SHORT_TIMEOUT)) (\<lambda>out. returnA (Some (strip out))))"

definition with_prop :: "'w world_calls \<Rightarrow> string \<Rightarrow> (string \<Rightarrow> ('w, 'a) dev_action) \<Rightarrow> ('w, 'a) dev_action" where
  "with_prop W n k = bindA (getProp W (Some n)) (\<lambda>v. case v of None \<Rightarrow> raiseA (DevPy TypeError) | Some out \<Rightarrow> k out)"

definition setprop_cmd :: "string \<Rightarrow> string \<Rightarrow> string" where
  "setprop_cmd name value = ''setprop '' @ name @ '' '' @ [CHR 0x22] @ value @ [CHR 0x22]"

definition setProp :: "'w world_calls \<Rightarrow> string option \<Rightarrow> pyval \<Rightarrow> ('w, unit) dev_action" where
  "setProp W name value = (case name of
     None \<Rightarrow> returnA ()
   | Some n \<Rightarrow>
       if value = PNone then returnA ()
       else let v = str_of W value in
            if CHR 0x27 \<in> set v \<or> CHR 0x22 \<in> set v then returnA ()
            else seqA (self_shell W (setprop_cmd n v)) (returnA ()))"

definition SYSPROP_DEV_BOOTCOMPLETE :: string where "SYSPROP_DEV_BOOTCOMPLETE = ''dev.bootcomplete''"
definition SYSPROP_SYS_BOOT_COMPLETED :: string where "SYSPROP_SYS_BOOT_COMPLETED = ''sys.boot_completed''"
definition SYSPROP_VTS_NATIVE_SERVER :: string where "SYSPROP_VTS_NATIVE_SERVER = ''vts.native_server.on''"

definition isBootloaderMode :: "'w world_calls \<Rightarrow> ('w, bool) dev_action" where
  "isBootloaderMode W = bindA (list_fastboot_devices W) (\<lambda>ds. objA serial (\<lambda>n. returnA (n \<in> set ds)))"

definition hasVbmetaSlot :: "'w world_calls \<Rightarrow> ('w, bool) dev_action" where
  "hasVbmetaSlot W = bindA (isBootloaderMode W) (\<lambda>b.
     seqA (if b then returnA [] else self_adb W ''reboot_bootloader'' [] None)
       (objA serial (\<lambda>n. bindA (fastboot_call W n ''getvar'' [''has-slot:vbmeta'']) (\<lambda>out.
         returnA (str_find (strip out) ''has-slot:vbmeta: yes'' \<noteq> None)))))"

definition isAdbRoot :: "'w world_calls \<Rightarrow> ('w, bool) dev_action" where
  "isAdbRoot W = bindA (self_shell W ''id -un'') (\<lambda>out. returnA (strip out = ''root''))"

definition verityEnabled :: "'w world_calls \<Rightarrow> ('w, bool) dev_action" where
  "verityEnabled W = catch_adb (with_prop W ''partition.system.verified'' (\<lambda>v. returnA (v \<noteq> []))) (returnA False)"

definition first_api_level :: "'w world_calls \<Rightarrow> ('w, string option) dev_action" where
  "first_api_level W = getProp W (Some ''ro.product.first_api_level'')"

definition sdk_version :: "'w world_calls \<Rightarrow> ('w, string option) dev_action" where
  "sdk_version W = getProp W (Some ''ro.build.version.sdk'')"

definition vndk_version :: "'w world_calls \<Rightarrow> ('w, string option) dev_action" where
  "vndk_version W = getProp W (Some ''ro.vndk.version'')"

definition model :: "'w world_calls \<Rightarrow> ('w, string option) dev_action" where
  "model W = bindA (isBootloaderMode W) (\<lambda>b.
     if b
     then objA serial (\<lambda>n. bindA (fastboot_call W n ''getvar'' [''product'']) (\<lambda>out.
            let tokens = split_at '' '' (hd (split_at [CHR 0x0A] (strip out))) in
            returnA (if length tokens > 1 then Some (lower (tokens ! 1)) else None)))
     else with_prop W ''ro.build.product'' (\<lambda>m.
            if lower m = ''sprout'' then returnA (Some (lower m))
            else with_prop W ''ro.product.name'' (\<lambda>m. returnA (Some (lower m)))))"

text \<open>The level of the API: an integer in a property, or a failure that depends on \<open>strict\<close>.\<close>

definition fail_or_zero :: "bool \<Rightarrow> string \<Rightarrow> ('w, int) dev_action" where
  "fail_or_zero strict msg = (if strict then raiseA (DeviceFailure msg []) else returnA 0)"

definition getLaunchApiLevel :: "'w world_calls \<Rightarrow> bool \<Rightarrow> ('w, int) dev_action" where
  "getLaunchApiLevel W strict = with_prop W ''ro.product.first_api_level'' (\<lambda>level_str.
     case py_int level_str of
       Inl _ \<Rightarrow> fail_or_zero strict (''Cannot parse first_api_level: '' @ level_str)
     | Inr level \<Rightarrow>
         if level \<noteq> 0 then returnA level
         else with_prop W ''ro.build.version.sdk'' (\<lambda>level_str.
           case py_int level_str of
             Inl _ \<Rightarrow> fail_or_zero strict (''Cannot parse version.sdk: '' @ level_str)
           | Inr level \<Rightarrow> returnA level))"

text \<open>A match of \<open>(\d+)\.(\d+)\.(\d+)\<close> at the start of the string.\<close>

definition digit_char :: "char \<Rightarrow> bool" where
  "digit_char c \<longleftrightarrow> digit_of c \<noteq> None"

definition match_number :: "string \<Rightarrow> (nat \<times> string) option" where
  "match_number s =
     (case parse_digits 0 (takeWhile digit_char s) of
        None \<Rightarrow> None
      | Some n \<Rightarrow> if takeWhile digit_char s = [] then None else Some (n, dropWhile digit_char s))"

definition match_version :: "string \<Rightarrow> (nat \<times> nat \<times> nat) option" where
  "match_version s =
     (case match_number s of
        Some (a, CHR ''.'' # s) \<Rightarrow>
          (case match_number s of
             Some (b, CHR ''.'' # s) \<Rightarrow> (case match_number s of Some (c, _) \<Rightarrow> Some (a, b, c) | None \<Rightarrow> None)
           | _ \<Rightarrow> None)
      | _ \<Rightarrow> None)"

text \<open>The second argument of \<open>asserts.fail\<close> is an extra, not an argument of the format string.\<close>

definition kernel_version :: "'w world_calls \<Rightarrow> ('w, nat \<times> nat \<times> nat) dev_action" where
  "kernel_version W = bindA (self_shell W ''uname -r'') (\<lambda>out.
     case match_version (strip out) of
       None \<Rightarrow> raiseA (DeviceFailure ''Failed to detect kernel version of device. out:%s'' (strip out))
     | Some v \<Rightarrow> returnA v)"

definition vndk_lite :: "'w world_calls \<Rightarrow> ('w, bool) dev_action" where
  "vndk_lite W = bindA (getProp W (Some ''ro.vndk.lite'')) (\<lambda>v. returnA (case v of None \<Rightarrow> False | Some s \<Rightarrow> lower s = ''true''))"

definition cpu_abi :: "'w world_calls \<Rightarrow> ('w, string) dev_action" where
  "cpu_abi W = with_prop W ''ro.product.cpu.abi'' (\<lambda>out. returnA (if out = [] then ''unknown'' else lower out))"

definition getCpuAbiList :: "'w world_calls \<Rightarrow> string \<Rightarrow> ('w, string list) dev_action" where
  "getCpuAbiList W bitness = with_prop W (''ro.product.cpu.abilist'' @ bitness) (\<lambda>out.
     returnA (if out = [] then [] else split_at '','' (lower out)))"

definition is64Bit :: "'w world_calls \<Rightarrow> ('w, bool) dev_action" where
  "is64Bit W = bindA (self_shell W ''uname -m'') (\<lambda>out. returnA (str_find out ''64'' \<noteq> None))"

definition memory_of :: "string \<Rightarrow> int" where
  "memory_of out =
     (let value_unit = split_at '' '' (strip (last (split_at '':'' out))) in
      if length value_unit \<noteq> 2 then - 1
      else case py_int (value_unit ! 0) of
             Inl _ \<Rightarrow> - 1
           | Inr v \<Rightarrow>
               let unit = lower (value_unit ! 1) in
               if unit = ''kb'' then v * 1024 else if unit = ''mb'' then v * (1024 * 1024) else if unit = ''b'' then v else - 1)"

definition total_memory :: "'w world_calls \<Rightarrow> ('w, int) dev_action" where
  "total_memory W = bindA (self_shell W ''cat /proc/meminfo | grep MemTotal'') (\<lambda>out. returnA (memory_of out))"

definition libPaths :: "'w world_calls \<Rightarrow> ('w, string list) dev_action" where
  "libPaths W = bindA (is64Bit W) (\<lambda>b.
     let paths_32 = [''/system/lib'', ''/vendor/lib''] in
     returnA (if b then [''/system/lib64'', ''/vendor/lib64''] @ paths_32 else paths_32))"

definition isAdbLogcatOn :: "ad \<Rightarrow> bool" where
  "isAdbLogcatOn a = (adb_logcat_process a \<noteq> None)"

definition mac_address :: "'w world_calls \<Rightarrow> ('w, string) dev_action" where
  "mac_address W = catch_adb (bindA (self_shell W ''cat /sys/class/net/wlan0/address'') (\<lambda>r. returnA (strip r))) (returnA ''unknown'')"

definition sim_state :: "'w world_calls \<Rightarrow> ('w, string option) dev_action" where
  "sim_state W = getProp W (Some ''gsm.sim.state'')"

definition sim_operator :: "'w world_calls \<Rightarrow> ('w, string option) dev_action" where
  "sim_operator W = getProp W (Some ''gsm.operator.alpha'')"

subsection \<open>Configuration\<close>

definition kernel_config_of :: "string \<Rightarrow> string list \<Rightarrow> string" where
  "kernel_config_of line_prefix lines =
     (case find (\<lambda>line. startswith (strip line) line_prefix) lines of
        None \<Rightarrow> []
      | Some line \<Rightarrow> drop (length line_prefix) (strip line))"

definition getKernelConfig :: "'w world_calls \<Rightarrow> string \<Rightarrow> ('w, string option) dev_action" where
  "getKernelConfig W config_name = bindA (callA (temp_name W)) (\<lambda>config_path.
     finallyA
       (catchA
         (seqA (self_adb W ''pull'' [''/proc/config.gz'', config_path] None)
           (askA (gzip_lines W config_path) (\<lambda>lines.
             case lines of
               None \<Rightarrow> raiseA (DevPy IOError)
             | Some ls \<Rightarrow> returnA (Some (kernel_config_of (config_name @ ''='') ls)))))
         (\<lambda>e. case e of AdbFailure _ _ _ _ \<Rightarrow> returnA None | DevPy IOError \<Rightarrow> returnA None | _ \<Rightarrow> raiseA e))
       (changeA (remove_file W config_path)))"

definition getBinderBitness :: "'w world_calls \<Rightarrow> ('w, nat option) dev_action" where
  "getBinderBitness W = bindA (getKernelConfig W ''CONFIG_ANDROID_BINDER_IPC_32BIT'') (\<lambda>v.
     returnA (case v of None \<Rightarrow> None | Some c \<Rightarrow> if c \<noteq> [] then Some 32 else Some 64))"

text \<open>The names that an object of the class has before its configuration is loaded: its attributes, properties and methods.\<close>

definition device_attributes :: "string list" where
  "device_attributes = [''serial'', ''_product_type'', ''device_command_port'', ''device_callback_port'', ''log'', ''log_path'',
     ''adb_logcat_process'', ''adb_logcat_file_path'', ''vts_agent_process'', ''adb'', ''fastboot'', ''host_command_port'',
     ''host_callback_port'', ''hal'', ''lib'', ''shell'', ''_shell_default_nohup'', ''fatal_error'',
     ''cleanUp'', ''shell_default_nohup'', ''hasVbmetaSlot'', ''isBootloaderMode'', ''isAdbRoot'', ''verityEnabled'', ''model'',
     ''first_api_level'', ''sdk_version'', ''getLaunchApiLevel'', ''kernel_version'', ''vndk_version'', ''vndk_lite'', ''cpu_abi'',
     ''getCpuAbiList'', ''is64Bit'', ''total_memory'', ''libPaths'', ''isAdbLogcatOn'', ''mac_address'', ''sim_state'', ''sim_operator'',
     ''getKernelConfig'', ''getBinderBitness'', ''loadConfig'', ''rootAdb'', ''startAdbLogcat'', ''stopAdbLogcat'', ''takeBugReport'',
     ''waitForBootCompletion'', ''hasBooted'', ''isBootCompleted'', ''isFrameworkRunning'', ''startFramework'', ''start'',
     ''stopFramework'', ''stop'', ''waitForFrameworkStartComplete'', ''startNativeServer'', ''stopNativeServer'', ''isProcessRunning'',
     ''waitForProcessStop'', ''setProp'', ''getProp'', ''reboot'', ''startServices'', ''Heal'', ''stopServices'', ''_StartLLKD'',
     ''_StopLLKD'', ''startVtsAgent'', ''stopVtsAgent'', ''product_type'', ''getPackagePid'', ''getVintfXml'']"

definition ad_hasattr :: "ad \<Rightarrow> string \<Rightarrow> bool" where
  "ad_hasattr a k \<longleftrightarrow> k \<in> set device_attributes \<or> map_of (extra_attrs a) k \<noteq> None"

fun loadConfig :: "(string \<times> pyval) list \<Rightarrow> ('w, unit) dev_action" where
  "loadConfig [] = returnA ()"
| "loadConfig ((k, v) # config) = objA (\<lambda>a. a) (\<lambda>a.
     if ad_hasattr a k then raiseA (AndroidDeviceError (''Attempting to set existing attribute '' @ k @ '' on '' @ serial a))
     else seqA (updA (\<lambda>a. a\<lparr>extra_attrs := dict_set k v (extra_attrs a)\<rparr>)) (loadConfig config))"

definition rootAdb :: "'w world_calls \<Rightarrow> ('w, unit) dev_action" where
  "rootAdb W = bindA (isAdbRoot W) (\<lambda>b.
     if b then returnA ()
     else catch_adb (seqA (self_adb W ''root'' [] None) (seqA (self_adb W ''wait_for_device'' [] None) (returnA ()))) (returnA ()))"

subsection \<open>Logs\<close>

text \<open>\<open>utils.create_dir\<close> raises what \<open>os.makedirs\<close> raises.\<close>

definition create_dirA :: "'w world_calls \<Rightarrow> string \<Rightarrow> ('w, unit) dev_action" where
  "create_dirA W path s = (case create_dir W path (world s) of None \<Rightarrow> (Inl (DevPy IOError), s) | Some w \<Rightarrow> (Inr (), s\<lparr>world := w\<rparr>))"

definition text_or_None :: "string option \<Rightarrow> string" where
  "text_or_None v = (case v of None \<Rightarrow> ''None'' | Some t \<Rightarrow> t)"

definition startAdbLogcat :: "'w world_calls \<Rightarrow> ('w, unit) dev_action" where
  "startAdbLogcat W = objA (\<lambda>a. a) (\<lambda>a.
     if isAdbLogcatOn a
     then raiseA (AndroidDeviceError (''Android device '' @ serial a @ '' already has an adb logcat thread going on. Cannot start another one.''))
     else bindA (model W) (\<lambda>m.
       let logcat_file_path = path_join [log_path a, ''adblog_'' @ text_or_None m @ ''_'' @ serial a @ ''.txt''];
           extra_params = (case map_of (extra_attrs a) ''adb_logcat_param'' of None \<Rightarrow> ''-b all'' | Some v \<Rightarrow> str_of W v);
           cmd = ''adb -s '' @ serial a @ '' logcat -v threadtime '' @ extra_params @ '' >> '' @ logcat_file_path in
       seqA (create_dirA W (log_path a))
         (bindA (start_standing_subprocess W cmd 0) (\<lambda>proc.
           updA (\<lambda>a. a\<lparr>adb_logcat_process := Some proc, adb_logcat_file_path := Some logcat_file_path\<rparr>)))))"

definition stopAdbLogcat :: "'w world_calls \<Rightarrow> ('w, unit) dev_action" where
  "stopAdbLogcat W = objA (\<lambda>a. a) (\<lambda>a.
     case adb_logcat_process a of
       None \<Rightarrow> raiseA (AndroidDeviceError (''Android device '' @ serial a @ '' does not have an ongoing adb logcat collection.''))
     | Some proc \<Rightarrow>
         seqA (catch_utils (stop_standing_subprocess W proc) (returnA ()))
           (updA (\<lambda>a. a\<lparr>adb_logcat_process := None\<rparr>)))"

text \<open>A slice \<open>s[:n]\<close>, where a negative bound counts from the end.\<close>

definition slice_to :: "string \<Rightarrow> int \<Rightarrow> string" where
  "slice_to s n = (if n \<ge> 0 then take (nat n) s else take (length s - nat (- n)) s)"

definition takeBugReport :: "'w world_calls \<Rightarrow> string \<Rightarrow> string \<Rightarrow> ('w, unit) dev_action" where
  "takeBugReport W test_name begin_time = objA (\<lambda>a. a) (\<lambda>a.
     let br_path = path_join [log_path a, ''BugReports''];
         base_name = '','' @ begin_time @ '','' @ serial a @ ''.txt'';
         out_name = slice_to test_name (255 - int (length base_name)) @ base_name;
         full_out_path = path_join [br_path, str_replace out_name '' '' [CHR 0x5C, CHR 0x20]] in
     seqA (create_dirA W br_path) (seqA (self_adb W ''bugreport'' ['' > '' @ full_out_path] None) (returnA ())))"

subsection \<open>Boot and framework\<close>

definition isBootCompleted :: "'w world_calls \<Rightarrow> ('w, bool) dev_action" where
  "isBootCompleted W =
     catch_adb
       (bindA (getProp W (Some SYSPROP_SYS_BOOT_COMPLETED)) (\<lambda>v.
          if v = Some ''1'' then bindA (getProp W (Some SYSPROP_DEV_BOOTCOMPLETE)) (\<lambda>v. returnA (v = Some ''1''))
          else returnA False))
       (returnA False)"

definition hasBooted :: "'w world_calls \<Rightarrow> ('w, bool) dev_action" where
  "hasBooted W = isBootCompleted W"

text \<open>\<open>while not ready(): if the time is over, return False; sleep\<close>.\<close>

partial_function (option) poll_loop ::
  "'w world_calls \<Rightarrow> ('w, bool) dev_action \<Rightarrow> int \<Rightarrow> int \<Rightarrow> 'w dev \<Rightarrow> ((dev_error + bool) \<times> 'w dev) option" where
  "poll_loop W ready start timeout s =
     (case ready s of
        (Inl e, s) \<Rightarrow> Some (Inl e, s)
      | (Inr r, s) \<Rightarrow>
          if r then Some (Inr True, s)
          else if now W (world s) - start \<ge> timeout then Some (Inr False, s)
          else poll_loop W ready start timeout (s\<lparr>world := sleep W 1 (world s)\<rparr>))"

declare poll_loop.simps [code]

definition waitForBootCompletion :: "'w world_calls \<Rightarrow> int \<Rightarrow> ('w, bool) dev_running" where
  "waitForBootCompletion W timeout s =
     (let start = now W (world s) in
      bindW (runW (catch_adb (seqA (self_adb W ''wait_for_device'' [] (Some timeout)) (returnA True)) (returnA False)))
        (\<lambda>attached. if attached then poll_loop W (isBootCompleted W) start timeout else returnW False) s)"

definition isFrameworkRunning :: "'w world_calls \<Rightarrow> bool \<Rightarrow> ('w, bool) dev_action" where
  "isFrameworkRunning W check_boot_completion =
     bindA (if check_boot_completion then isBootCompleted W else returnA True) (\<lambda>completed.
       if \<not> completed then returnA False
       else objA serial (\<lambda>n.
         bindA (exec_cmd_no_except W (adb_line n ''shell'' [''ps -g system | grep system_server'']) DEFAULT_ADB_TIMEOUT) (\<lambda>(out, _, _).
           returnA (str_find out ''system_server'' \<noteq> None))))"

definition waitForFrameworkStartComplete :: "'w world_calls \<Rightarrow> int \<Rightarrow> ('w, bool) dev_running" where
  "waitForFrameworkStartComplete W timeout_secs s =
     (let start = now W (world s) in
      bindW (waitForBootCompletion W timeout_secs)
        (\<lambda>booted. if booted then poll_loop W (isFrameworkRunning W False) start timeout_secs else returnW False) s)"

definition startFramework :: "'w world_calls \<Rightarrow> bool \<Rightarrow> int \<Rightarrow> ('w, bool) dev_running" where
  "startFramework W wait_for_completion timeout =
     seqW (runW (self_shell W ''start''))
       (if wait_for_completion then waitForFrameworkStartComplete W timeout else returnW True)"

definition startNativeServer :: "'w world_calls \<Rightarrow> ('w, unit) dev_action" where
  "startNativeServer W = setProp W (Some SYSPROP_VTS_NATIVE_SERVER) (PStr ''0'')"

definition stopNativeServer :: "'w world_calls \<Rightarrow> ('w, unit) dev_action" where
  "stopNativeServer W = setProp W (Some SYSPROP_VTS_NATIVE_SERVER) (PStr ''1'')"

definition WAIT_TIMEOUT_SEC :: int where "WAIT_TIMEOUT_SEC = 120"

definition start_device :: "'w world_calls \<Rightarrow> bool \<Rightarrow> ('w, bool) dev_running" where
  "start_device W start_native_server =
     seqW (runW (if start_native_server then startNativeServer W else returnA ())) (startFramework W True WAIT_TIMEOUT_SEC)"

definition stopFramework :: "'w world_calls \<Rightarrow> ('w, unit) dev_action" where
  "stopFramework W = seqA (self_shell W ''stop'') (setProp W (Some SYSPROP_SYS_BOOT_COMPLETED) (PInt 0))"

definition stop_device :: "'w world_calls \<Rightarrow> bool \<Rightarrow> ('w, unit) dev_action" where
  "stop_device W stop_native_server = seqA (stopFramework W) (if stop_native_server then stopNativeServer W else returnA ())"

text \<open>\<open>self.adb.shell\<close> is the function that runs a shell command, and a function has no attribute \<open>Execute\<close>.\<close>

definition isProcessRunning :: "'w world_calls \<Rightarrow> string \<Rightarrow> ('w, bool) dev_action" where
  "isProcessRunning W process_name = raiseA (DevPy AttributeError)"

fun waitForProcessStop :: "'w world_calls \<Rightarrow> string list \<Rightarrow> int \<Rightarrow> ('w, bool) dev_running" where
  "waitForProcessStop W [] timeout_secs = returnW True"
| "waitForProcessStop W (p # ps) timeout_secs = bindW
     (\<lambda>s. poll_loop W (bindA (isProcessRunning W p) (\<lambda>r. returnA (\<not> r))) (now W (world s)) timeout_secs s)
     (\<lambda>stopped. if stopped then waitForProcessStop W ps timeout_secs else returnW False)"

subsection \<open>Services\<close>

definition LLKD :: string where "LLKD = ''llkd-1''"

definition StartLLKD :: "'w world_calls \<Rightarrow> ('w, unit) dev_action" where
  "StartLLKD W = objA fatal_error (\<lambda>f.
     if f then returnA () else catch_adb (seqA (self_shell W (''start '' @ LLKD)) (returnA ())) (returnA ()))"

definition StopLLKD :: "'w world_calls \<Rightarrow> ('w, unit) dev_action" where
  "StopLLKD W = objA fatal_error (\<lambda>f.
     if f then returnA () else catch_adb (seqA (self_shell W (''stop '' @ LLKD)) (returnA ())) (returnA ()))"

definition DEFAULT_AGENT_BASE_DIR :: string where "DEFAULT_AGENT_BASE_DIR = ''/data/local/tmp''"

definition chmod_cmd :: "string \<Rightarrow> string" where
  "chmod_cmd bitness = str_join '' ''
     (map (\<lambda>file_name. ''chmod 755 '' @ DEFAULT_AGENT_BASE_DIR @ ''/'' @ bitness @ ''/'' @ file_name @ bitness @ '';'')
       [''vts_hal_agent'', ''vts_hal_driver'', ''vts_shell_driver''])"

definition agent_log_path :: "ad \<Rightarrow> string \<Rightarrow> string" where
  "agent_log_path a bitness = path_join [log_path a, ''vts_agent_'' @ bitness @ ''_'' @ serial a @ ''.log'']"

definition agent_cmd :: "ad \<Rightarrow> string \<Rightarrow> string \<Rightarrow> string" where
  "agent_cmd a severity bitness =
     (let path = DEFAULT_AGENT_BASE_DIR in
      ''adb -s '' @ serial a @ '' shell '' @ [CHR 0x22] @ chmod_cmd bitness @ '' LD_LIBRARY_PATH='' @ path @ ''/'' @ bitness @ '' '' @
      path @ ''/'' @ bitness @ ''/vts_hal_agent'' @ bitness @ '' --hal_driver_path_32='' @ path @ ''/32/vts_hal_driver32 --hal_driver_path_64='' @
      path @ ''/64/vts_hal_driver64 --spec_dir='' @ path @ ''/spec --shell_driver_path_32='' @ path @
      ''/32/vts_shell_driver32 --shell_driver_path_64='' @ path @ ''/64/vts_shell_driver64 -l '' @ severity @ [CHR 0x22] @
      '' >> '' @ agent_log_path a bitness @ '' 2>&1'')"

definition cleanup_cmd :: string where
  "cleanup_cmd = [CHR 0x22] @ str_join '' ; '' [''rm -f /data/local/tmp/vts_driver_*'', ''rm -f /data/local/tmp/vts_agent_callback*'',
     ''pgrep '' @ [CHR 0x27] @ ''vts_*'' @ [CHR 0x27] @ '' | xargs kill''] @ [CHR 0x22]"

text \<open>The agent is started with the first bitness that works; reading its log may raise too.\<close>

fun agent_loop :: "'w world_calls \<Rightarrow> string \<Rightarrow> string list \<Rightarrow> ('w, unit) dev_action" where
  "agent_loop W severity [] = returnA ()"
| "agent_loop W severity (bitness # bits) = objA (\<lambda>a. a) (\<lambda>a.
     catch_utils
       (bindA (start_standing_subprocess W (agent_cmd a severity bitness) 1) (\<lambda>proc. updA (\<lambda>a. a\<lparr>vts_agent_process := Some proc\<rparr>)))
       (askA (read_file W (agent_log_path a bitness)) (\<lambda>log.
         if log = None then raiseA (DevPy IOError)
         else if bitness = ''32'' then raiseA VTSUtilsError
         else agent_loop W severity bits)))"

definition startVtsAgent :: "'w world_calls \<Rightarrow> ('w, unit) dev_action" where
  "startVtsAgent W = objA (\<lambda>a. a) (\<lambda>a.
     if vts_agent_process a \<noteq> None then raiseA (AndroidDeviceError (''HAL agent is already running on '' @ serial a @ ''.''))
     else
       seqA (StopLLKD W)
       (seqA (catch_adb (seqA (self_shell W cleanup_cmd) (returnA ())) (returnA ()))
       (let log_severity = (case map_of (extra_attrs a) ''log_severity'' of None \<Rightarrow> ''INFO'' | Some v \<Rightarrow> str_of W v) in
        bindA (is64Bit W) (\<lambda>b. agent_loop W log_severity (if b then [''64'', ''32''] else [''32''])))))"

definition stopVtsAgent :: "'w world_calls \<Rightarrow> ('w, unit) dev_action" where
  "stopVtsAgent W = objA vts_agent_process (\<lambda>p.
     case p of
       None \<Rightarrow> returnA ()
     | Some proc \<Rightarrow>
         seqA (catch_utils (stop_standing_subprocess W proc) (returnA ())) (updA (\<lambda>a. a\<lparr>vts_agent_process := None\<rparr>)))"

definition agent_enabled :: "ad \<Rightarrow> bool" where
  "agent_enabled a = (case map_of (extra_attrs a) ''enable_vts_agent'' of None \<Rightarrow> True | Some v \<Rightarrow> truthy v)"

text \<open>The host port of the commands is kept if there is one that is not 0.\<close>

definition command_port :: "'w world_calls \<Rightarrow> ('w, int) dev_running" where
  "command_port W s =
     (case host_command_port (obj s) of
        Some p \<Rightarrow> if p \<noteq> 0 then Some (Inr p, s) else get_available_host_port W s
      | None \<Rightarrow> get_available_host_port W s)"

text \<open>The ports of the agent, and the mirrors that talk to it.\<close>

definition connect_agent :: "'w world_calls \<Rightarrow> ('w, unit) dev_running" where
  "connect_agent W =
     bindW (runW (self_shell W ''cat /data/local/tmp/vts_tcp_server_port'')) (\<lambda>out.
     bindW (runW (case py_int out of Inl e \<Rightarrow> raiseA (DevPy e) | Inr p \<Rightarrow> returnA p)) (\<lambda>port.
     seqW (runW (updA (\<lambda>a. a\<lparr>device_command_port := Some port\<rparr>)))
     (bindW (command_port W) (\<lambda>host_port.
     seqW (runW (updA (\<lambda>a. a\<lparr>host_command_port := Some host_port\<rparr>)))
     (seqW (runW (objA serial (\<lambda>n. tcp_forward W n host_port port)))
     (runW (updA (\<lambda>a. a\<lparr>has_hal := True, has_lib := True, has_shell := True, shell_nohup := shell_default_nohup a,
        has_resource := True\<rparr>))))))))"

definition startServices :: "'w world_calls \<Rightarrow> ('w, unit) dev_running" where
  "startServices W =
     seqW (runW (updA (\<lambda>a. a\<lparr>extra_attrs := dict_set ''enable_vts_agent''
         (case map_of (extra_attrs a) ''enable_vts_agent'' of None \<Rightarrow> PBool True | Some v \<Rightarrow> v) (extra_attrs a)\<rparr>)))
     (seqW (runW (startAdbLogcat W))
     (bindW (runW (objA agent_enabled returnA)) (\<lambda>enabled.
        if enabled then seqW (runW (startVtsAgent W)) (connect_agent W) else returnW ())))"

definition hal_CleanUpA :: "'w world_calls \<Rightarrow> ('w, unit) dev_action" where
  "hal_CleanUpA W = bindA (callA (hal_CleanUp W)) (\<lambda>ok. if ok then returnA () else raiseA MirrorError)"

definition stopServices :: "'w world_calls \<Rightarrow> ('w, unit) dev_action" where
  "stopServices W = objA isAdbLogcatOn (\<lambda>on.
     seqA (if on then stopAdbLogcat W else returnA ())
     (objA agent_enabled (\<lambda>enabled.
      seqA (if enabled then stopVtsAgent W else returnA ())
      (objA has_hal (\<lambda>hal. if hal then hal_CleanUpA W else returnA ())))))"

definition cleanUp :: "'w world_calls \<Rightarrow> ('w, unit) dev_action" where
  "cleanUp W =
     seqA (stopServices W)
     (seqA (StartLLKD W)
     (objA host_command_port (\<lambda>p.
        if p = None \<or> p = Some 0 then returnA ()
        else seqA (self_adb W ''forward'' [''--remove tcp:'' @ str_int (the p)] (Some DEFAULT_ADB_SHORT_TIMEOUT))
               (updA (\<lambda>a. a\<lparr>host_command_port := None\<rparr>)))))"

definition reboot :: "'w world_calls \<Rightarrow> bool \<Rightarrow> ('w, unit) dev_running" where
  "reboot W restart_services =
     bindW (runW (isBootloaderMode W)) (\<lambda>b.
       if b then seqW (runW (objA serial (\<lambda>n. fastboot_call W n ''reboot'' []))) (returnW ())
       else
         bindW (runW (objA (\<lambda>a. (restart_services \<and> isAdbLogcatOn a, restart_services \<and> vts_agent_process a \<noteq> None)) returnA))
           (\<lambda>(has_adb_log, has_vts_agent).
         seqW (runW (if has_adb_log then stopAdbLogcat W else returnA ()))
         (seqW (runW (if has_vts_agent then stopVtsAgent W else returnA ()))
         (seqW (runW (self_adb W ''reboot'' [] None))
         (seqW (waitForBootCompletion W 900)
         (seqW (runW (rootAdb W))
         (seqW (runW (if has_adb_log then startAdbLogcat W else returnA ()))
         (runW (if has_vts_agent then startVtsAgent W else returnA ())))))))))"

definition Heal :: "'w world_calls \<Rightarrow> ('w, bool) dev_action" where
  "Heal W = objA has_shell (\<lambda>sh.
     bindA (if sh then callA (shell_Heal W) else returnA True) (\<lambda>res.
     bindA (catch_adb (seqA (getProp W (Some ''ro.build.version.sdk'')) (returnA True)) (returnA False)) (\<lambda>responds.
       if responds then seqA (updA (\<lambda>a. a\<lparr>fatal_error := False\<rparr>)) (returnA res)
       else bindA (list_adb_devices W) (\<lambda>ds. objA serial (\<lambda>n.
         let fatal = seqA (updA (\<lambda>a. a\<lparr>fatal_error := True\<rparr>)) (returnA False) in
         if n \<in> set ds then fatal
         else bindA (isBootloaderMode W) (\<lambda>b. if b then returnA True else fatal))))))"

text \<open>\<open>split()\<close> of the first line found; every exception goes to the next command.\<close>

definition pid_of :: "string \<Rightarrow> int option" where
  "pid_of out = (case py_index (filter ((\<noteq>) []) (split_at '' '' (map (\<lambda>c. if is_space c then CHR '' '' else c) out))) 1 of
     Inl _ \<Rightarrow> None
   | Inr t \<Rightarrow> (case py_int t of Inl _ \<Rightarrow> None | Inr pid \<Rightarrow> Some pid))"

fun package_pid :: "'w world_calls \<Rightarrow> string \<Rightarrow> string list \<Rightarrow> ('w, int option) dev_action" where
  "package_pid W package_name [] = returnA None"
| "package_pid W package_name (cmd # rest) =
     bindA (catchA (bindA (self_shell W (cmd @ '' | grep '' @ [CHR 0x22] @ ''S '' @ package_name @ [CHR 0x22])) (\<lambda>out.
         returnA (if str_find out package_name = None then None else pid_of out))) (\<lambda>_. returnA None))
       (\<lambda>pid. case pid of None \<Rightarrow> package_pid W package_name rest | Some p \<Rightarrow> returnA (Some p))"

definition getPackagePid :: "'w world_calls \<Rightarrow> string \<Rightarrow> ('w, int option) dev_action" where
  "getPackagePid W package_name = package_pid W package_name [''ps -A'', ''ps'']"

definition getVintfXml :: "'w world_calls \<Rightarrow> bool \<Rightarrow> ('w, string option) dev_action" where
  "getVintfXml W use_lshal =
     (if \<not> use_lshal then returnA None
      else catch_adb (bindA (self_shell W ([CHR 0x22] @ ''lshal --init-vintf 2> /dev/null'' @ [CHR 0x22])) (\<lambda>out. returnA (Some out)))
        (returnA None))"

subsection \<open>The constructor and the controller\<close>

definition ANDROID_PRODUCT_TYPE_UNKNOWN :: string where "ANDROID_PRODUCT_TYPE_UNKNOWN = ''unknown''"

definition new_ad :: "string \<Rightarrow> string \<Rightarrow> string \<Rightarrow> int \<Rightarrow> bool \<Rightarrow> ad" where
  "new_ad base_log_path n product callback_port nohup = \<lparr>serial = n, product_type = product, device_command_port = None,
     device_callback_port = callback_port, log_path = path_join [base_log_path, ''AndroidDevice'' @ n], adb_logcat_process = None,
     adb_logcat_file_path = None, vts_agent_process = None, host_command_port = None, host_callback_port = 0, has_hal = False,
     has_lib = False, has_shell = False, has_resource = False, shell_default_nohup = nohup, shell_nohup = False, fatal_error = False,
     extra_attrs = []\<rparr>"

definition AndroidDevice_init :: "'w world_calls \<Rightarrow> ('w, unit) dev_running" where
  "AndroidDevice_init W =
     bindW (runW (isBootloaderMode W)) (\<lambda>b.
       seqW (runW (if b then returnA () else rootAdb W))
       (bindW (get_available_host_port W) (\<lambda>port.
        seqW (runW (updA (\<lambda>a. a\<lparr>host_callback_port := port\<rparr>)))
        (runW (objA (\<lambda>a. a) (\<lambda>a.
          if device_callback_port a \<ge> 0
          then seqA (reverse_tcp_forward W (serial a) (device_callback_port a) port) (returnA ())
          else returnA ()))))))"

text \<open>A method of one of several objects: the object and the world after it.\<close>

definition on_ad :: "('w, 'a) dev_running \<Rightarrow> ad \<Rightarrow> 'w \<Rightarrow> ((dev_error + 'a) \<times> ad \<times> 'w) option" where
  "on_ad m a w = map_option (\<lambda>(r, s). (r, obj s, world s)) (m \<lparr>world = w, obj = a\<rparr>)"

definition AndroidDevice :: "'w world_calls \<Rightarrow> string \<Rightarrow> string \<Rightarrow> string \<Rightarrow> 'w \<Rightarrow> ((dev_error + ad) \<times> 'w) option" where
  "AndroidDevice W base_log_path n product w =
     map_option (\<lambda>(r, a, w). (case r of Inl e \<Rightarrow> Inl e | Inr _ \<Rightarrow> Inr a, w))
       (on_ad (AndroidDevice_init W) (new_ad base_log_path n product 5010 False) w)"

fun each_device :: "('x \<Rightarrow> 'w \<Rightarrow> ((dev_error + ad) \<times> 'w) option) \<Rightarrow> 'x list \<Rightarrow> 'w \<Rightarrow> ((dev_error + ad list) \<times> 'w) option" where
  "each_device mk [] w = Some (Inr [], w)"
| "each_device mk (x # xs) w =
     (case mk x w of
        None \<Rightarrow> None
      | Some (Inl e, w) \<Rightarrow> Some (Inl e, w)
      | Some (Inr a, w) \<Rightarrow> map_option (\<lambda>(r, w). (case r of Inl e \<Rightarrow> Inl e | Inr ads \<Rightarrow> Inr (a # ads), w)) (each_device mk xs w))"

definition get_instances :: "'w world_calls \<Rightarrow> string \<Rightarrow> string list \<Rightarrow> 'w \<Rightarrow> ((dev_error + ad list) \<times> 'w) option" where
  "get_instances W base_log_path serials = each_device (\<lambda>n. AndroidDevice W base_log_path n ANDROID_PRODUCT_TYPE_UNKNOWN) serials"

definition text_of :: "'w world_calls \<Rightarrow> pyval \<Rightarrow> string" where
  "text_of W v = (case v of PStr t \<Rightarrow> t | _ \<Rightarrow> str_of W v)"

definition device_with_config :: "'w world_calls \<Rightarrow> string \<Rightarrow> pyval \<Rightarrow> 'w \<Rightarrow> ((dev_error + ad) \<times> 'w) option" where
  "device_with_config W base_log_path c w = (case c of
     PDict d \<Rightarrow>
       (case map_of d ''serial'' of
          None \<Rightarrow> Some (Inl (AndroidDeviceError (''Required value serial is missing in AndroidDevice config '' @ str_of W c @ ''.'')), w)
        | Some n \<Rightarrow>
            let product = (case map_of d ''product_type'' of None \<Rightarrow> ANDROID_PRODUCT_TYPE_UNKNOWN | Some p \<Rightarrow> text_of W p);
                config = filter (\<lambda>kv. fst kv \<noteq> ''serial'' \<and> fst kv \<noteq> ''product_type'') d in
            case AndroidDevice W base_log_path (text_of W n) product w of
              None \<Rightarrow> None
            | Some (Inl e, w) \<Rightarrow> Some (Inl e, w)
            | Some (Inr a, w) \<Rightarrow>
                map_option (\<lambda>(r, a, w). (case r of Inl e \<Rightarrow> Inl e | Inr _ \<Rightarrow> Inr a, w)) (on_ad (runW (loadConfig config)) a w))
   | PList _ \<Rightarrow> Some (Inl (DevPy TypeError), w)
   | _ \<Rightarrow> Some (Inl (DevPy AttributeError), w))"

definition get_instances_with_configs :: "'w world_calls \<Rightarrow> string \<Rightarrow> pyval list \<Rightarrow> 'w \<Rightarrow> ((dev_error + ad list) \<times> 'w) option" where
  "get_instances_with_configs W base_log_path configs = each_device (device_with_config W base_log_path) configs"

text \<open>The questions to adb and fastboot that need no object.\<close>

definition on_world :: "('w, unit, 'a) hosted_action \<Rightarrow> 'w \<Rightarrow> (dev_error + 'a) \<times> 'w" where
  "on_world m w = (let (r, s) = m \<lparr>world = w, \<dots> = ()\<rparr> in (r, world s))"

definition get_all_instances :: "'w world_calls \<Rightarrow> string \<Rightarrow> bool \<Rightarrow> 'w \<Rightarrow> ((dev_error + ad list) \<times> 'w) option" where
  "get_all_instances W base_log_path include_fastboot w =
     (case on_world (bindA (list_adb_devices W) (\<lambda>ds.
          if include_fastboot then bindA (list_fastboot_devices W) (\<lambda>fs. returnA (ds @ fs)) else returnA ds)) w of
        (Inl e, w) \<Rightarrow> Some (Inl e, w)
      | (Inr serials, w) \<Rightarrow> get_instances W base_log_path serials w)"

fun destroy :: "'w world_calls \<Rightarrow> ad list \<Rightarrow> 'w \<Rightarrow> ad list \<times> 'w" where
  "destroy W [] w = ([], w)"
| "destroy W (a # ads) w =
     (let (_, s) = cleanUp W \<lparr>world = w, obj = a\<rparr>; (ads, w) = destroy W ads (world s) in (obj s # ads, w))"

text \<open>The devices that were started go first; after an exception the objects show what \<open>destroy\<close> left of them.\<close>

fun startServicesOnAds :: "'w world_calls \<Rightarrow> ad list \<Rightarrow> ad list \<Rightarrow> 'w \<Rightarrow> ((dev_error + unit) \<times> ad list \<times> 'w) option" where
  "startServicesOnAds W running_ads [] w = Some (Inr (), running_ads, w)"
| "startServicesOnAds W running_ads (a # ads) w =
     (case on_ad (startServices W) a w of
        None \<Rightarrow> None
      | Some (Inr _, a, w) \<Rightarrow> startServicesOnAds W (running_ads @ [a]) ads w
      | Some (Inl e, a, w) \<Rightarrow> let (ads', w) = destroy W (running_ads @ [a]) w in Some (Inl e, ads' @ ads, w))"

text \<open>The exception for a device that is not attached has a name that is not defined.\<close>

definition create :: "'w world_calls \<Rightarrow> string \<Rightarrow> pyval \<Rightarrow> bool \<Rightarrow> 'w \<Rightarrow> ((dev_error + unit) \<times> ad list \<times> 'w) option" where
  "create W base_log_path configs start_services w =
     (if \<not> truthy configs then Some (Inl (AndroidDeviceError ''Configuration is empty, abort!''), [], w)
      else
        case (if configs = PStr ''*'' then get_all_instances W base_log_path False w
              else case configs of
                     PList (PStr n # rest) \<Rightarrow> get_instances W base_log_path (map (text_of W) (PStr n # rest)) w
                   | PList cs \<Rightarrow> get_instances_with_configs W base_log_path cs w
                   | _ \<Rightarrow> Some (Inl (AndroidDeviceError ''Configuration should be a list, abort!''), w)) of
          None \<Rightarrow> None
        | Some (Inl e, w) \<Rightarrow> Some (Inl e, [], w)
        | Some (Inr ads, w) \<Rightarrow>
            (case on_world (list_adb_devices W) w of
               (Inl e, w) \<Rightarrow> Some (Inl e, ads, w)
             | (Inr connected_ads, w) \<Rightarrow>
                 let ads = map (\<lambda>a. a\<lparr>extra_attrs := dict_set ''enable_vts_agent'' (PBool start_services) (extra_attrs a)\<rparr>) ads in
                 if \<exists>a \<in> set ads. serial a \<notin> set connected_ads then Some (Inl (DevPy NameError), ads, w)
                 else if start_services then startServicesOnAds W [] ads w
                 else Some (Inr (), ads, w)))"

subsection \<open>Choosing devices\<close>

definition filter_devices :: "ad list \<Rightarrow> (ad \<Rightarrow> bool) \<Rightarrow> ad list" where
  "filter_devices ads func = filter func ads"

text \<open>What \<open>getattr\<close> finds is an argument: an attribute, or a property that asks the device.\<close>

definition device_matches :: "(ad \<Rightarrow> string \<Rightarrow> pyval option) \<Rightarrow> (string \<times> pyval) list \<Rightarrow> ad \<Rightarrow> bool" where
  "device_matches attr kwargs a = list_all (\<lambda>(k, v). attr a k = Some v) kwargs"

definition get_device :: "'w world_calls \<Rightarrow> (ad \<Rightarrow> string \<Rightarrow> pyval option) \<Rightarrow> ad list \<Rightarrow> (string \<times> pyval) list \<Rightarrow> dev_error + ad" where
  "get_device W attr ads kwargs =
     (case filter_devices ads (device_matches attr kwargs) of
        [] \<Rightarrow> Inl (AndroidDeviceError (''Could not find a target device that matches condition: '' @ str_of W (PDict kwargs) @ ''.''))
      | [a] \<Rightarrow> Inr a
      | filtered \<Rightarrow> Inl (AndroidDeviceError (''More than one device matched: '' @ str_of W (PList (map (\<lambda>a. PStr (serial a)) filtered)))))"

end
