(* ===== verification/Target_Files.thy ===== *)
theory Target_Files
  imports Base_Test Hal_Names Android_Device
begin

section \<open>Files of a device, preconditions of a test and VNDK paths\<close>

text \<open>
  utils/python/file/target\_file\_utils.py asks the shell of a device about files and reads permission bits;
  utils/python/precondition/precondition\_utils.py decides whether a test can run on a device; utils/python/vndk/vndk\_utils.py names
  the directories of the VNDK. The shell is a parameter that takes a list of commands to their results and a new world.
\<close>

subsection \<open>Files (target\_file\_utils.py)\<close>

datatype target_error = FileIOError string | FileValueError string | FilePy py_error

type_synonym 'w shell = "string list \<Rightarrow> 'w \<Rightarrow> cmd_result \<times> 'w"
type_synonym ('w, 'a) file_action = "(target_error, 'w, 'a) raising"

definition executeA :: "'w shell \<Rightarrow> string \<Rightarrow> ('w, cmd_result) file_action" where
  "executeA sh cmd w = (let (r, w') = sh [cmd] w in (Inr r, w'))"

definition first_of :: "'b list \<Rightarrow> ('w, 'b) file_action" where
  "first_of xs = (case py_index xs 0 of Inl e \<Rightarrow> raiseA (FilePy e) | Inr x \<Rightarrow> returnA x)"

definition file_Test :: "'w shell \<Rightarrow> string list \<Rightarrow> ('w, bool) file_action" where
  "file_Test sh args = bindA (executeA sh (''test '' @ str_join '' '' args)) (\<lambda>r.
     bindA (first_of (returncodes r)) (\<lambda>code. returnA (code = 0)))"

definition Exists :: "string \<Rightarrow> 'w shell \<Rightarrow> ('w, bool) file_action" where
  "Exists filepath sh = file_Test sh [''-e'', filepath]"

definition IsDirectory :: "string \<Rightarrow> 'w shell \<Rightarrow> ('w, bool) file_action" where
  "IsDirectory path sh = file_Test sh [''-d'', path]"

text \<open>The output of a command, or \<open>IOError\<close> with what it wrote to \<open>stderr\<close>.\<close>

definition output_of :: "'w shell \<Rightarrow> string \<Rightarrow> ('w, string) file_action" where
  "output_of sh cmd = bindA (executeA sh cmd) (\<lambda>r. bindA (first_of (returncodes r)) (\<lambda>code.
     if code \<noteq> 0 then bindA (first_of (stderrs r)) (\<lambda>err. raiseA (FileIOError err)) else first_of (stdouts r)))"

definition FindFiles :: "'w shell \<Rightarrow> string \<Rightarrow> string \<Rightarrow> string option \<Rightarrow> ('w, string list) file_action" where
  "FindFiles sh path name_pattern options =
     (if CHR 0x22 \<in> set name_pattern \<or> CHR 0x27 \<in> set name_pattern then raiseA (FileIOError ''File name pattern contains quotes'')
      else bindA (output_of sh (''find '' @ path @ '' -name '' @ [CHR 0x22] @ name_pattern @ [CHR 0x22] @
             (case options of None \<Rightarrow> [] | Some opts \<Rightarrow> '' '' @ opts)))
        (\<lambda>out. returnA (filter ((\<noteq>) []) (split_at [CHR 0x0A] (strip out)))))"

definition ReadFileContent :: "string \<Rightarrow> 'w shell \<Rightarrow> ('w, string) file_action" where
  "ReadFileContent filepath sh = output_of sh (''cat '' @ filepath)"

definition GetPermission :: "string \<Rightarrow> 'w shell \<Rightarrow> ('w, string) file_action" where
  "GetPermission path sh = bindA (output_of sh (''stat -c %a '' @ path)) (\<lambda>out.
     let accessBits = strip out in
     if length accessBits \<noteq> 3 then raiseA (FileIOError (path @ '': Wrong number of access bits ('' @ accessBits @ '')''))
     else returnA accessBits)"

definition PERMISSION_GROUPS :: int where "PERMISSION_GROUPS = 3"
definition READ_PERMISSION :: int where "READ_PERMISSION = 4"
definition WRITE_PERMISSION :: int where "WRITE_PERMISSION = 2"
definition EXECUTE_PERMISSION :: int where "EXECUTE_PERMISSION = 1"

fun permission_loop :: "string \<Rightarrow> int \<Rightarrow> int list \<Rightarrow> target_error + bool" where
  "permission_loop permission_bits permission [] = Inr True"
| "permission_loop permission_bits permission (i # is) =
     (case py_index permission_bits i of
        Inl e \<Rightarrow> Inl (FilePy e)
      | Inr c \<Rightarrow>
          (case py_int [c] of
             Inl e \<Rightarrow> Inl (FilePy e)
           | Inr perm \<Rightarrow>
               if perm > 7 then Inl (FileValueError (''Invalid permission bit: '' @ str_int perm))
               else if and perm permission = 0 then Inr False
               else permission_loop permission_bits permission is))"

definition HasPermission :: "string \<Rightarrow> int \<Rightarrow> int \<Rightarrow> target_error + bool" where
  "HasPermission permission_bits groupIndex permission =
     (if groupIndex \<ge> PERMISSION_GROUPS then Inl (FileValueError (''Invalid group: '' @ str_int groupIndex))
      else if int (length permission_bits) \<noteq> PERMISSION_GROUPS then Inl (FileValueError (''Invalid permission bits: '' @ permission_bits))
      else permission_loop permission_bits permission (if groupIndex < 0 then [0..PERMISSION_GROUPS - 1] else [groupIndex]))"

definition any_group :: "string \<Rightarrow> int \<Rightarrow> target_error + bool" where
  "any_group permission_bits permission =
     bindR (mapR (\<lambda>i. HasPermission permission_bits i permission) [0..PERMISSION_GROUPS - 1]) (\<lambda>granted. Inr (True \<in> set granted))"

definition IsReadable :: "string \<Rightarrow> target_error + bool" where
  "IsReadable permission_bits = any_group permission_bits READ_PERMISSION"

definition IsWritable :: "string \<Rightarrow> target_error + bool" where
  "IsWritable permission_bits = any_group permission_bits WRITE_PERMISSION"

definition IsExecutable_bits :: "string \<Rightarrow> target_error + bool" where
  "IsExecutable_bits permission_bits = any_group permission_bits EXECUTE_PERMISSION"

text \<open>\<open>a and b\<close> evaluates \<open>b\<close> only if \<open>a\<close> is true.\<close>

definition and_then :: "'e + bool \<Rightarrow> 'e + bool \<Rightarrow> 'e + bool" where
  "and_then a b = bindR a (\<lambda>v. if v then b else Inr False)"

definition negated :: "'e + bool \<Rightarrow> 'e + bool" where
  "negated a = bindR a (\<lambda>v. Inr (\<not> v))"

definition IsReadOnly :: "string \<Rightarrow> target_error + bool" where
  "IsReadOnly permission_bits = and_then (IsReadable permission_bits) (negated (IsWritable permission_bits))"

definition IsWriteOnly :: "string \<Rightarrow> target_error + bool" where
  "IsWriteOnly permission_bits = and_then (IsWritable permission_bits) (negated (IsReadable permission_bits))"

definition IsReadWrite :: "string \<Rightarrow> target_error + bool" where
  "IsReadWrite permission_bits = and_then (IsReadable permission_bits) (IsWritable permission_bits)"

text \<open>What \<open>except (ValueError, IOError)\<close> makes of an error; \<open>text_of_error\<close> is the text of a built-in exception.\<close>

definition permission_failure :: "(py_error \<Rightarrow> string) \<Rightarrow> target_error \<Rightarrow> exc + unit" where
  "permission_failure text_of_error e =
     (let caught = (\<lambda>t. fail (''Failed to assert permissions: '' @ t) PNone) in
      case e of
        FileIOError t \<Rightarrow> caught t
      | FileValueError t \<Rightarrow> caught t
      | FilePy p \<Rightarrow> if p = ValueError \<or> p = IOError then caught (text_of_error p) else Inl (Builtin p))"

definition assertPermissionsAndExistence ::
  "(py_error \<Rightarrow> string) \<Rightarrow> 'w shell \<Rightarrow> string \<Rightarrow> (string \<Rightarrow> target_error + bool) \<Rightarrow> 'w \<Rightarrow> (exc + unit) \<times> 'w" where
  "assertPermissionsAndExistence text_of_error sh path check_permission w =
     (case Exists path sh w of
        (Inl e, w) \<Rightarrow> (Inl (Builtin (case e of FilePy p \<Rightarrow> p | _ \<Rightarrow> IOError)), w)
      | (Inr found, w) \<Rightarrow>
          (case assertTrue found (path @ '': File does not exist.'') PNone of
             Inl x \<Rightarrow> (Inl x, w)
           | Inr _ \<Rightarrow>
               (case bindA (GetPermission path sh) (\<lambda>p. case check_permission p of Inl e \<Rightarrow> raiseA e | Inr b \<Rightarrow> returnA (p, b)) w of
                  (Inl e, w) \<Rightarrow> (permission_failure text_of_error e, w)
                | (Inr (p, b), w) \<Rightarrow> (assertTrue b (path @ '': File has invalid permissions ('' @ p @ '')'') PNone, w))))"

subsection \<open>Preconditions (precondition\_utils.py)\<close>

text \<open>
  The test instance with its user parameters and attributes, and the device it runs on. The terminal that a function creates when it is
  given none is the shell too. \<open>str_fn\<close> is \<open>str\<close> and \<open>json\<close> reads the reply of the testability checker.
\<close>

record 'w tested =
  dut_dev :: "'w dev"
  ti_params :: pyval
  ti_attrs :: "(string \<times> pyval) list"

datatype pre_error = PreExc exc | PreDev dev_error | PreFile target_error

type_synonym ('w, 'a) pre_action = "(pre_error, 'w tested, 'a) raising"

record 'w pre_env =
  pre_calls :: "'w world_calls"
  pre_shell :: "'w shell"
  pre_str :: "pyval \<Rightarrow> string"
  pre_json :: "string \<Rightarrow> py_error + checker_reply"

definition with_dut :: "('w, 'a) dev_action \<Rightarrow> ('w, 'a) pre_action" where
  "with_dut m s = (case m (dut_dev s) of (Inl e, d) \<Rightarrow> (Inl (PreDev e), s\<lparr>dut_dev := d\<rparr>) | (Inr v, d) \<Rightarrow> (Inr v, s\<lparr>dut_dev := d\<rparr>))"

definition with_world :: "('w, 'a) file_action \<Rightarrow> ('w, 'a) pre_action" where
  "with_world m s =
     (case m (world (dut_dev s)) of
        (Inl e, w) \<Rightarrow> (Inl (PreFile e), s\<lparr>dut_dev := (dut_dev s)\<lparr>world := w\<rparr>\<rparr>)
      | (Inr v, w) \<Rightarrow> (Inr v, s\<lparr>dut_dev := (dut_dev s)\<lparr>world := w\<rparr>\<rparr>))"

text \<open>\<open>test_instance.getUserParams(opt_param_names=names)\<close>, and \<open>str(getattr(test_instance, name, ""))\<close>.\<close>

definition read_opt_params :: "string list \<Rightarrow> ('w, unit) pre_action" where
  "read_opt_params names s =
     (let (sets, e) = getUserParams (ti_params s) [] names [];
          s = s\<lparr>ti_attrs := fold (\<lambda>(k, v). dict_set k v) sets (ti_attrs s)\<rparr> in
      case e of None \<Rightarrow> (Inr (), s) | Some x \<Rightarrow> (Inl (PreExc x), s))"

definition attr_text :: "'w pre_env \<Rightarrow> string \<Rightarrow> 'w tested \<Rightarrow> string" where
  "attr_text env name s = (case map_of (ti_attrs s) name of None \<Rightarrow> [] | Some v \<Rightarrow> pre_str env v)"

text \<open>Whether a command fails or its output lacks a text; the output is looked at only if no command failed.\<close>

definition lacks :: "'w pre_env \<Rightarrow> string \<Rightarrow> string \<Rightarrow> ('w, bool) pre_action" where
  "lacks env cmd needle = with_world (bindA (executeA (pre_shell env) cmd) (\<lambda>r.
     if list_ex (\<lambda>c. c \<noteq> 0) (returncodes r) then returnA True
     else bindA (first_of (stdouts r)) (\<lambda>out. returnA (str_find out needle = None))))"

definition hwbinder_missing :: "'w pre_env \<Rightarrow> ('w, bool) pre_action" where
  "hwbinder_missing env = getA (attr_text env ''precondition_hwbinder_service'') (\<lambda>name.
     if name = [] \<or> \<not> startswith name ''android.hardware.'' then returnA False
     else lacks env ''ps -A'' (name @ ''@''))"

definition pyval_items :: "pyval \<Rightarrow> py_error + pyval list" where
  "pyval_items v = (case v of
     PList vs \<Rightarrow> Inr vs
   | PStr t \<Rightarrow> Inr (map (\<lambda>c. PStr [c]) t)
   | PDict d \<Rightarrow> Inr (map (\<lambda>kv. PStr (fst kv)) d)
   | _ \<Rightarrow> Inl TypeError)"

fun file_missing_loop :: "'w pre_env \<Rightarrow> pyval list \<Rightarrow> ('w, bool) pre_action" where
  "file_missing_loop env [] = returnA False"
| "file_missing_loop env (p # ps) =
     (case p of
        PStr path_prefix \<Rightarrow> bindA (with_world (Exists path_prefix (pre_shell env))) (\<lambda>found.
          if found then file_missing_loop env ps else returnA True)
      | _ \<Rightarrow> raiseA (PreExc (Builtin TypeError)))"

definition builtinA :: "py_error + 'a \<Rightarrow> ('a \<Rightarrow> ('w, 'b) pre_action) \<Rightarrow> ('w, 'b) pre_action" where
  "builtinA r k = (case r of Inl e \<Rightarrow> raiseA (PreExc (Builtin e)) | Inr v \<Rightarrow> k v)"

definition file_missing :: "'w pre_env \<Rightarrow> ('w, bool) pre_action" where
  "file_missing env = getA (\<lambda>s. s) (\<lambda>s.
     let prefixes = (case map_of (ti_attrs s) ''file_path_prefix'' of None \<Rightarrow> PStr [] | Some v \<Rightarrow> v);
         bitness = attr_text env ''abi_bitness'' s;
         tag = ''_'' @ bitness @ ''bit'' in
     if \<not> truthy prefixes \<or> bitness = [] then returnA False
     else builtinA (py_contains prefixes tag) (\<lambda>found.
       if \<not> found then returnA False
       else builtinA (py_getitem prefixes tag) (\<lambda>v. builtinA (pyval_items v) (file_missing_loop env))))"

definition hal_testable :: "'w pre_env \<Rightarrow> bool \<Rightarrow> ('w, bool) pre_action" where
  "hal_testable env run_as_compliance_test s =
     (let hal = attr_text env ''precondition_lshal'' s;
          bitness = attr_text env ''abi_bitness'' s;
          w = world (dut_dev s);
          w' = snd (pre_shell env [''chmod 755 '' @ checker_binary bitness, checker_cmd hal bitness run_as_compliance_test] w);
          s' = s\<lparr>dut_dev := (dut_dev s)\<lparr>world := w'\<rparr>\<rparr> in
      if hal = [] then (Inr True, s)
      else case GetHalServiceName \<lparr>Execute = (\<lambda>cs. fst (pre_shell env cs w)), json_loads = pre_json env\<rparr> hal bitness run_as_compliance_test of
             Inl x \<Rightarrow> (Inl (PreExc x), s')
           | Inr (testable, _) \<Rightarrow> (Inr testable, s'))"

definition CanRunHidlHalTest :: "'w pre_env \<Rightarrow> bool \<Rightarrow> ('w, bool) pre_action" where
  "CanRunHidlHalTest env run_as_compliance_test =
     seqA (read_opt_params [''abi_bitness'', ''precondition_hwbinder_service'', ''precondition_file_path_prefix'', ''precondition_lshal''])
     (bindA (hwbinder_missing env) (\<lambda>missing.
        if missing then returnA False
        else bindA (file_missing env) (\<lambda>missing.
          if missing then returnA False else hal_testable env run_as_compliance_test)))"

text \<open>The framework is started if it does not run; waiting for it may not end.\<close>

definition with_dutW :: "('w, 'a) dev_running \<Rightarrow> (pre_error, 'w tested, 'a) running" where
  "with_dutW m s = map_option (\<lambda>(r, d). (case r of Inl e \<Rightarrow> Inl (PreDev e) | Inr v \<Rightarrow> Inr v, s\<lparr>dut_dev := d\<rparr>)) (m (dut_dev s))"

definition CheckFeaturePrecondition :: "'w pre_env \<Rightarrow> (pre_error, 'w tested, bool) running" where
  "CheckFeaturePrecondition env =
     seqW (runW (read_opt_params [''precondition_feature'']))
     (bindW (runW (getA (attr_text env ''precondition_feature'') returnA)) (\<lambda>feature.
        if feature = [] then returnW True
        else
          bindW (runW (with_dut (isFrameworkRunning (pre_calls env) True))) (\<lambda>running.
          bindW (if running then returnW True else with_dutW (start_device (pre_calls env) True)) (\<lambda>started.
            if \<not> started then returnW False
            else runW (bindA (lacks env ''LD_LIBRARY_PATH= pm list features'' feature) (\<lambda>missing. returnA (\<not> missing)))))))"

text \<open>\<open>int\<close> of a value: only a \<open>ValueError\<close> is caught.\<close>

definition py_int_of :: "pyval \<Rightarrow> py_error + int" where
  "py_int_of v = (case v of
     PInt i \<Rightarrow> Inr i | PBool b \<Rightarrow> Inr (if b then 1 else 0) | PStr t \<Rightarrow> py_int t | _ \<Rightarrow> Inl TypeError)"

definition MeetFirstApiLevelPrecondition :: "'w pre_env \<Rightarrow> ('w, bool) pre_action" where
  "MeetFirstApiLevelPrecondition env =
     seqA (read_opt_params [''precondition_first_api_level''])
     (getA (\<lambda>s. map_of (ti_attrs s) ''precondition_first_api_level'') (\<lambda>attr.
        case attr of
          None \<Rightarrow> returnA True
        | Some v \<Rightarrow>
            (case py_int_of v of
               Inl e \<Rightarrow> if e = ValueError then returnA True else raiseA (PreExc (Builtin e))
             | Inr precond_level \<Rightarrow>
                 bindA (with_dut (getLaunchApiLevel (pre_calls env) False)) (\<lambda>device_level.
                   if device_level = 0 then returnA True else returnA (device_level \<ge> precond_level)))))"

definition CheckSysPropPrecondition :: "'w pre_env \<Rightarrow> ('w, bool) pre_action" where
  "CheckSysPropPrecondition env = getA (\<lambda>s. s) (\<lambda>s.
     let precond_sysprop = attr_text env ''precondition_sysprop'' s in
     if map_of (ti_attrs s) ''precondition_sysprop'' = None then returnA True
     else if CHR ''='' \<notin> set precond_sysprop then returnA True
     else case split_at ''='' precond_sysprop of
            [sysprop_key, sysprop_value] \<Rightarrow>
              with_world (bindA (executeA (pre_shell env) (''getprop '' @ sysprop_key)) (\<lambda>r.
                if list_ex (\<lambda>c. c \<noteq> 0) (returncodes r) then returnA True
                else bindA (first_of (stdouts r)) (\<lambda>out. returnA (strip out = [] \<or> strip out = sysprop_value))))
          | _ \<Rightarrow> raiseA (PreExc (Builtin ValueError)))"

subsection \<open>VNDK (vndk\_utils.py)\<close>

definition IsVndkRuntimeEnforced :: "'w world_calls \<Rightarrow> ('w, bool) dev_action" where
  "IsVndkRuntimeEnforced W = bindA (getLaunchApiLevel W False) (\<lambda>api_level.
     if api_level = 0 then returnA True
     else if api_level \<le> 27 then bindA (vndk_lite W) (\<lambda>lite. returnA (\<not> lite))
     else returnA True)"

text \<open>\<open>pattern.format\<close> for a pattern whose only braces are those of the two fields.\<close>

definition FormatVndkPath :: "string \<Rightarrow> string \<Rightarrow> string \<Rightarrow> string" where
  "FormatVndkPath pattern bitness version =
     str_replace (str_replace pattern ''{LIB}'' (if bitness = ''64'' then ''lib64'' else ''lib''))
       ''{VER}'' (if version \<noteq> [] then ''-'' @ version else [])"

definition GetVndkCoreDirectory :: "string \<Rightarrow> string \<Rightarrow> string" where
  "GetVndkCoreDirectory bitness version = FormatVndkPath ''/system/{LIB}/vndk{VER}'' bitness version"

definition GetVndkSpDirectory :: "string \<Rightarrow> string \<Rightarrow> string" where
  "GetVndkSpDirectory bitness version = FormatVndkPath ''/system/{LIB}/vndk-sp{VER}'' bitness version"

definition GetVndkExtDirectories :: "string \<Rightarrow> string list" where
  "GetVndkExtDirectories bitness = [FormatVndkPath ''/odm/{LIB}/vndk'' bitness [], FormatVndkPath ''/vendor/{LIB}/vndk'' bitness []]"

definition GetVndkSpExtDirectories :: "string \<Rightarrow> string list" where
  "GetVndkSpExtDirectories bitness =
     [FormatVndkPath ''/odm/{LIB}/vndk-sp'' bitness [], FormatVndkPath ''/vendor/{LIB}/vndk-sp'' bitness []]"

subsection \<open>Permissions\<close>

text \<open>Three octal digits, and what they grant to some group.\<close>

definition octal_bits :: "string \<Rightarrow> bool" where
  "octal_bits bits \<longleftrightarrow> length bits = 3 \<and> (\<forall>c \<in> set bits. \<exists>d \<le> 7. digit_of c = Some d)"

definition grants :: "string \<Rightarrow> int \<Rightarrow> bool" where
  "grants bits permission \<longleftrightarrow> (\<exists>c \<in> set bits. \<exists>d. digit_of c = Some d \<and> and (int d) permission \<noteq> 0)"

lemma py_int_char: "py_int [c] = (case digit_of c of None \<Rightarrow> Inl ValueError | Some d \<Rightarrow> Inr (int d))"
proof -
  have space: "is_space c \<Longrightarrow> digit_of c = None" by (auto simp: is_space_def digit_of_def)
  have sign: "c = CHR ''-'' \<or> c = CHR ''+'' \<Longrightarrow> digit_of c = None" by (auto simp: digit_of_def)
  show ?thesis
    using space sign by (cases "digit_of c"; cases "is_space c") (auto simp: py_int_def parse_nat_def strip_def split: list.splits)
qed

lemma HasPermission_group:
  assumes "length bits = 3" "i < 3" "digit_of (bits ! i) = Some d" "d \<le> 7"
  shows "HasPermission bits (int i) permission = Inr (and (int d) permission \<noteq> 0)"
  using assms by (simp add: HasPermission_def PERMISSION_GROUPS_def py_int_char)

lemma HasPermission_bad:
  assumes "length bits = 3" "i < 3" "\<forall>d \<le> 7. digit_of (bits ! i) \<noteq> Some d"
  shows "\<exists>e. HasPermission bits (int i) permission = Inl e"
  using assms by (cases "digit_of (bits ! i)") (auto simp: HasPermission_def PERMISSION_GROUPS_def py_int_char not_le [symmetric])

lemma three: "length bits = 3 \<Longrightarrow> set bits = {bits ! 0, bits ! 1, bits ! 2}"
  by (auto simp: numeral_3_eq_3 numeral_2_eq_2 length_Suc_conv)

lemma groups: "[0..PERMISSION_GROUPS - 1] = [int 0, int 1, int 2]"
  by (simp add: PERMISSION_GROUPS_def upto.simps)

lemma any_group_ok:
  assumes "octal_bits bits"
  shows "any_group bits permission = Inr (grants bits permission)"
proof -
  have len: "length bits = 3" using assms by (simp add: octal_bits_def)
  have digit: "\<exists>d \<le> 7. digit_of (bits ! i) = Some d" if "i < 3" for i using assms that nth_mem [of i bits] by (auto simp: octal_bits_def)
  obtain a b c where d: "a \<le> 7" "b \<le> 7" "c \<le> 7" "digit_of (bits ! 0) = Some a" "digit_of (bits ! 1) = Some b" "digit_of (bits ! 2) = Some c"
    using digit [of 0] digit [of 1] digit [of 2] by auto
  have "HasPermission bits (int 0) permission = Inr (and (int a) permission \<noteq> 0)"
    "HasPermission bits (int 1) permission = Inr (and (int b) permission \<noteq> 0)"
    "HasPermission bits (int 2) permission = Inr (and (int c) permission \<noteq> 0)"
    by (rule HasPermission_group [OF len _ d(4) d(1)] HasPermission_group [OF len _ d(5) d(2)] HasPermission_group [OF len _ d(6) d(3)], simp)+
  moreover have "grants bits permission \<longleftrightarrow> and (int a) permission \<noteq> 0 \<or> and (int b) permission \<noteq> 0 \<or> and (int c) permission \<noteq> 0"
    using d by (auto simp: grants_def three [OF len])
  ultimately show ?thesis unfolding any_group_def groups by auto
qed

lemma any_group_bad:
  assumes "\<not> octal_bits bits"
  shows "\<exists>e. any_group bits permission = Inl e"
proof (cases "length bits = 3")
  case False
  then have "\<exists>e. HasPermission bits (int 0) permission = Inl e" by (simp add: HasPermission_def PERMISSION_GROUPS_def)
  then show ?thesis unfolding any_group_def groups by auto
next
  case True
  with assms obtain c where "c \<in> set bits" "\<forall>d \<le> 7. digit_of c \<noteq> Some d" by (auto simp: octal_bits_def)
  then obtain i where i: "i < 3" "\<forall>d \<le> 7. digit_of (bits ! i) \<noteq> Some d" using True by (metis in_set_conv_nth)
  then obtain e where "HasPermission bits (int i) permission = Inl e" using HasPermission_bad [OF True] by blast
  moreover have "i = 0 \<or> i = 1 \<or> i = 2" using i by auto
  ultimately show ?thesis
    unfolding any_group_def groups by (auto simp: bindR_def split: sum.split)
qed

text \<open>(C27) 
  Reading permission bits: for three octal digits the six predicates are what their names say of the bits that some group has; for any
  other string each of them raises an exception.
\<close>

theorem permission_predicates:
  "if octal_bits bits
   then IsReadable bits = Inr (grants bits 4) \<and> IsWritable bits = Inr (grants bits 2) \<and> IsExecutable_bits bits = Inr (grants bits 1) \<and>
     IsReadOnly bits = Inr (grants bits 4 \<and> \<not> grants bits 2) \<and> IsWriteOnly bits = Inr (grants bits 2 \<and> \<not> grants bits 4) \<and>
     IsReadWrite bits = Inr (grants bits 4 \<and> grants bits 2)
   else list_all (\<lambda>predicate. isl (predicate bits)) [IsReadable, IsWritable, IsExecutable_bits, IsReadOnly, IsWriteOnly, IsReadWrite]"
proof (cases "octal_bits bits")
  case True
  then show ?thesis
    by (simp add: IsReadable_def IsWritable_def IsExecutable_bits_def IsReadOnly_def IsWriteOnly_def IsReadWrite_def and_then_def negated_def
        any_group_ok READ_PERMISSION_def WRITE_PERMISSION_def EXECUTE_PERMISSION_def)
next
  case False
  have "\<exists>e. IsReadable bits = Inl e" "\<exists>e. IsWritable bits = Inl e" "\<exists>e. IsExecutable_bits bits = Inl e"
    unfolding IsReadable_def IsWritable_def IsExecutable_bits_def by (rule any_group_bad [OF False])+
  then show ?thesis using False by (auto simp: IsReadOnly_def IsWriteOnly_def IsReadWrite_def and_then_def)
qed

end
