(* ===== verification/Device_Properties.thy ===== *)
theory Device_Properties
  imports Android_Device
begin

section \<open>Properties of the device controller\<close>

text \<open>
  Waiting for a device ends if the clock runs; the state of the framework follows the properties of the system; a controller
  that fails to start a device leaves no process behind, and a reboot brings back the processes that were there.
\<close>

subsection \<open>The clock\<close>

definition clock_ok :: "'w world_calls \<Rightarrow> bool" where
  "clock_ok W \<longleftrightarrow> (\<forall>cmd t w. now W w \<le> now W (snd (ExecuteOneShellCommand W cmd t w))) \<and> (\<forall>k w. now W w + k \<le> now W (sleep W k w))"

text \<open>The time is not before \<open>t\<close> and the object is \<open>a\<close>: commands keep this.\<close>

definition not_before :: "'w world_calls \<Rightarrow> int \<Rightarrow> ad \<Rightarrow> 'w dev \<Rightarrow> bool" where
  "not_before W t a s \<longleftrightarrow> t \<le> now W (world s) \<and> obj s = a"

lemma keeps_objA [keeps_rules]: "(\<And>v. keeps I (k v)) \<Longrightarrow> keeps I (objA f k)"
  unfolding objA_def by (intro keeps_rules)

lemma keeps_catch_adb [keeps_rules]: "keeps I m \<Longrightarrow> keeps I k \<Longrightarrow> keeps I (catch_adb m k)"
  unfolding catch_adb_def by (intro keeps_rules) (auto intro: keeps_rules split: dev_error.split)

lemma keeps_catch_utils [keeps_rules]: "keeps I m \<Longrightarrow> keeps I k \<Longrightarrow> keeps I (catch_utils m k)"
  unfolding catch_utils_def by (intro keeps_rules)

lemma keeps_askA [keeps_rules]: "(\<And>v. keeps I (k v)) \<Longrightarrow> keeps I (askA f k)"
  by (simp add: keeps_def askA_def)

lemma keeps_exec [keeps_rules]: "keeps I (callA (ExecuteOneShellCommand W cmd t)) \<Longrightarrow> keeps I (exec_cmd W cmd t)"
  unfolding exec_cmd_def by (intro keeps_rules) auto

lemma keeps_self_adb [keeps_rules]:
  "(\<And>cmd t. keeps I (callA (ExecuteOneShellCommand W cmd t))) \<Longrightarrow> keeps I (self_adb W nm args timeout)"
  unfolding self_adb_def adb_call_def by (intro keeps_rules)

lemma keeps_self_shell [keeps_rules]:
  "(\<And>cmd t. keeps I (callA (ExecuteOneShellCommand W cmd t))) \<Longrightarrow> keeps I (self_shell W c)"
  unfolding self_shell_def adb_shell_def adb_call_def by (intro keeps_rules)

lemma keeps_getProp [keeps_rules]:
  "(\<And>cmd t. keeps I (callA (ExecuteOneShellCommand W cmd t))) \<Longrightarrow> keeps I (getProp W p)"
  unfolding getProp_def by (intro keeps_rules)

lemma command_not_before: "clock_ok W \<Longrightarrow> keeps (not_before W t a) (callA (ExecuteOneShellCommand W cmd timeout))"
  by (auto simp: keeps_def callA_def not_before_def clock_ok_def split: prod.split) (metis order_trans snd_conv)

lemma ready_not_before:
  assumes "clock_ok W"
  shows "keeps (not_before W t a) (isBootCompleted W)" and "keeps (not_before W t a) (isFrameworkRunning W False)"
proof -
  note cmd = command_not_before [OF assms]
  show boot: "keeps (not_before W t a) (isBootCompleted W)" unfolding isBootCompleted_def by (intro keeps_rules cmd)
  show "keeps (not_before W t a) (isFrameworkRunning W False)"
    unfolding isFrameworkRunning_def exec_cmd_no_except_def by (intro keeps_rules cmd boot)
qed

text \<open>Neither question raises an exception.\<close>

lemma exec_cmd_raises: "exec_cmd W cmd t s = (Inl e, s') \<Longrightarrow> \<exists>c out err ret. e = AdbFailure c out err ret"
  by (auto simp: exec_cmd_def action_defs callA_def split: prod.splits if_splits)

lemma getProp_raises: "getProp W p s = (Inl e, s') \<Longrightarrow> \<exists>c out err ret. e = AdbFailure c out err ret"
  by (auto simp: getProp_def self_adb_def objA_def adb_call_def action_defs split: option.splits prod.splits sum.splits
      dest: exec_cmd_raises)

lemma catch_adb_quiet:
  assumes "\<And>e s'. m s = (Inl e, s') \<Longrightarrow> \<exists>c out err ret. e = AdbFailure c out err ret"
  shows "\<exists>v s'. catch_adb m (returnA d) s = (Inr v, s')"
proof (cases "m s")
  case (Pair r s')
  then show ?thesis
  proof (cases r)
    case (Inl e)
    with Pair assms obtain c out err ret where "e = AdbFailure c out err ret" by blast
    with Inl Pair show ?thesis by (simp add: catch_adb_def catchA_def returnA_def)
  next
    case (Inr v)
    with Pair show ?thesis by (simp add: catch_adb_def catchA_def)
  qed
qed

lemma bindA_raises:
  "bindA m f s = (Inl e, s') \<Longrightarrow> m s = (Inl e, s') \<or> (\<exists>v s1. m s = (Inr v, s1) \<and> f v s1 = (Inl e, s'))"
  by (auto simp: bindA_def split: prod.splits sum.splits)

lemma isBootCompleted_quiet: "\<exists>b s'. isBootCompleted W s = (Inr b, s')"
  unfolding isBootCompleted_def
  by (rule catch_adb_quiet) (auto simp: returnA_def split: if_splits dest!: bindA_raises getProp_raises)

lemma isFrameworkRunning_quiet: "\<exists>b s'. isFrameworkRunning W check s = (Inr b, s')"
proof -
  obtain b s' where "(if check then isBootCompleted W else returnA True) s = (Inr b, s')"
    using isBootCompleted_quiet [of W s] by (cases check) (auto simp: returnA_def)
  then show ?thesis
    by (cases b) (auto simp: isFrameworkRunning_def bindA_step objA_def exec_cmd_no_except_def action_defs callA_def split: prod.split)
qed

subsection \<open>Waiting\<close>

text \<open>The loop returns before the time is over by more than one question; what it returns says why it ended.\<close>

lemma poll_loop_returns:
  assumes clock: "clock_ok W" and ready: "\<And>t a. keeps (not_before W t a) ready" and quiet: "\<And>s. \<exists>b s'. ready s = (Inr b, s')"
  shows "\<exists>b s'. poll_loop W ready start timeout s = Some (Inr b, s') \<and> obj s' = obj s \<and>
    (\<exists>s1. ready s1 = (Inr b, s')) \<and> (b \<or> start + timeout \<le> now W (world s'))"
proof (induction "nat (start + timeout - now W (world s))" arbitrary: s rule: less_induct)
  case less
  obtain b s1 where s1: "ready s = (Inr b, s1)" using quiet by blast
  have nb: "now W (world s) \<le> now W (world s1)" "obj s1 = obj s"
    using keeps_step [OF ready _ s1, of "now W (world s)" "obj s"] by (auto simp: not_before_def)
  show ?case
  proof (cases "b \<or> start + timeout \<le> now W (world s1)")
    case True
    with s1 nb show ?thesis by (subst poll_loop.simps) auto
  next
    case False
    let ?s2 = "s1\<lparr>world := sleep W 1 (world s1)\<rparr>"
    have step: "now W (world s1) + 1 \<le> now W (world ?s2)" using clock by (simp add: clock_ok_def)
    then have "nat (start + timeout - now W (world ?s2)) < nat (start + timeout - now W (world s))" using False nb by auto
    from less.hyps [OF this] obtain b' s' where "poll_loop W ready start timeout ?s2 = Some (Inr b', s')" "obj s' = obj ?s2"
      "\<exists>s1. ready s1 = (Inr b', s')" "b' \<or> start + timeout \<le> now W (world s')" by blast
    moreover have "poll_loop W ready start timeout s = poll_loop W ready start timeout ?s2"
      using False s1 by (subst poll_loop.simps) auto
    ultimately show ?thesis using nb by auto
  qed
qed

lemma waitForBootCompletion_returns:
  assumes "clock_ok W"
  shows "\<exists>b s'. waitForBootCompletion W timeout s = Some (Inr b, s') \<and> obj s' = obj s \<and> (b \<longrightarrow> (\<exists>s1. isBootCompleted W s1 = (Inr True, s')))"
proof -
  let ?wait = "catch_adb (seqA (self_adb W ''wait_for_device'' [] (Some timeout)) (returnA True)) (returnA False)"
  have "\<exists>v s'. ?wait s = (Inr v, s')"
    by (rule catch_adb_quiet)
      (auto simp: seqA_def returnA_def self_adb_def objA_def getA_def adb_call_def dest!: bindA_raises exec_cmd_raises)
  then obtain v s1 where s1: "?wait s = (Inr v, s1)" by blast
  have "keeps (not_before W (now W (world s)) (obj s)) ?wait" by (intro keeps_rules command_not_before assms)
  from keeps_step [OF this _ s1] have "obj s1 = obj s" by (simp add: not_before_def)
  show ?thesis
  proof (cases v)
    case True
    obtain b s' where loop: "poll_loop W (isBootCompleted W) (now W (world s)) timeout s1 = Some (Inr b, s')" "obj s' = obj s1"
      "\<exists>s1. isBootCompleted W s1 = (Inr b, s')"
      using poll_loop_returns [OF assms ready_not_before(1) [OF assms] isBootCompleted_quiet] by blast
    moreover have "waitForBootCompletion W timeout s = Some (Inr b, s')"
      using s1 True loop(1) by (simp add: waitForBootCompletion_def bindW_def runW_def)
    ultimately show ?thesis using \<open>obj s1 = obj s\<close> by (intro exI [of _ b] exI [of _ s']) auto
  next
    case False
    with s1 \<open>obj s1 = obj s\<close> show ?thesis
      by (intro exI [of _ False] exI [of _ s1]) (simp add: waitForBootCompletion_def running_defs returnA_def)
  qed
qed


subsection \<open>System properties\<close>

text \<open>
  What \<open>setprop\<close> and \<open>getprop\<close> do on a device with a given serial: a command that succeeds sets the property, or shows its value; reading
  changes no property. \<open>props\<close> gives the values without the space around them. Names have no spaces and quotes, and values that are set no quotes.
\<close>

definition prop_name :: "string \<Rightarrow> bool" where
  "prop_name name \<longleftrightarrow> CHR '' '' \<notin> set name \<and> CHR 0x22 \<notin> set name"

definition property_store :: "'w world_calls \<Rightarrow> string \<Rightarrow> ('w \<Rightarrow> string \<Rightarrow> string) \<Rightarrow> bool" where
  "property_store W n props \<longleftrightarrow>
     (\<forall>name v t w. prop_name name \<and> CHR 0x22 \<notin> set v \<longrightarrow>
        (case ExecuteOneShellCommand W (adb_line n ''shell'' [setprop_cmd name v]) t w of
           ((_, _, ret), w') \<Rightarrow> ret = 0 \<longrightarrow> props w' = (props w)(name := strip v))) \<and>
     (\<forall>name t w. prop_name name \<longrightarrow>
        (case ExecuteOneShellCommand W (adb_line n ''shell'' [''getprop '' @ name]) t w of
           ((out, _, ret), w') \<Rightarrow> (ret = 0 \<longrightarrow> strip out = props w name) \<and> props w' = props w))"

lemma property_store_set:
  "property_store W n props \<Longrightarrow> prop_name name \<Longrightarrow> CHR 0x22 \<notin> set v \<Longrightarrow>
   case ExecuteOneShellCommand W (adb_line n ''shell'' [setprop_cmd name v]) t w of
     ((_, _, ret), w') \<Rightarrow> ret = 0 \<longrightarrow> props w' = (props w)(name := strip v)"
  unfolding property_store_def by (drule conjunct1, drule spec, drule spec, drule spec, drule spec, drule mp) simp_all

lemma property_store_get:
  "property_store W n props \<Longrightarrow> prop_name name \<Longrightarrow>
   case ExecuteOneShellCommand W (adb_line n ''shell'' [''getprop '' @ name]) t w of
     ((out, _, ret), w') \<Rightarrow> (ret = 0 \<longrightarrow> strip out = props w name) \<and> props w' = props w"
  unfolding property_store_def by (drule conjunct2, drule spec, drule spec, drule spec, drule mp) simp_all

lemma setProp_sets:
  assumes "property_store W (serial (obj s)) props" "prop_name name" "setProp W (Some name) v s = (Inr u, s')" "v \<noteq> PNone"
    "CHR 0x27 \<notin> set (str_of W v)" "CHR 0x22 \<notin> set (str_of W v)"
  shows "props (world s') = (props (world s))(name := strip (str_of W v))" and "obj s' = obj s"
proof -
  from assms(3-6) obtain out err w' where
    exec: "ExecuteOneShellCommand W (adb_line (serial (obj s)) ''shell'' [setprop_cmd name (str_of W v)]) (adb_timeout ''shell'' None) (world s) =
      ((out, err, 0), w')" "s' = s\<lparr>world := w'\<rparr>"
    by (auto simp: setProp_def Let_def self_shell_def objA_def adb_shell_def adb_call_def exec_cmd_def callA_def action_defs
        split: prod.splits if_splits)
  have "case ExecuteOneShellCommand W (adb_line (serial (obj s)) ''shell'' [setprop_cmd name (str_of W v)]) (adb_timeout ''shell'' None) (world s)
      of ((_, _, ret), w') \<Rightarrow> ret = 0 \<longrightarrow> props w' = (props (world s))(name := strip (str_of W v))"
    by (rule property_store_set [OF assms(1,2,6)])
  with exec show "props (world s') = (props (world s))(name := strip (str_of W v))" "obj s' = obj s" by simp_all
qed

lemma getProp_gets:
  assumes "property_store W (serial (obj s)) props" "prop_name name" "getProp W (Some name) s = (r, s')"
  shows "props (world s') = props (world s)" and "r = Inr (Some (props (world s) name)) \<or> (\<exists>c out err ret. r = Inl (AdbFailure c out err ret))"
    and "obj s' = obj s"
proof -
  obtain out err ret w' where
    exec: "ExecuteOneShellCommand W (adb_line (serial (obj s)) ''shell'' [''getprop '' @ name]) DEFAULT_ADB_SHORT_TIMEOUT (world s) =
      ((out, err, ret), w')" by (metis prod.exhaust)
  have "case ExecuteOneShellCommand W (adb_line (serial (obj s)) ''shell'' [''getprop '' @ name]) DEFAULT_ADB_SHORT_TIMEOUT (world s)
      of ((out, _, ret), w') \<Rightarrow> (ret = 0 \<longrightarrow> strip out = props (world s) name) \<and> props w' = props (world s)"
    by (rule property_store_get [OF assms(1,2)])
  moreover from assms(3) exec have "s' = s\<lparr>world := w'\<rparr>"
    "r = (if ret = 0 then Inr (Some (strip out))
          else Inl (AdbFailure (adb_line (serial (obj s)) ''shell'' [''getprop '' @ name]) out err ret))"
    by (auto simp: getProp_def self_adb_def objA_def adb_call_def exec_cmd_def callA_def action_defs adb_timeout_def split: if_splits)
  ultimately show "props (world s') = props (world s)"
    "r = Inr (Some (props (world s) name)) \<or> (\<exists>c out err ret. r = Inl (AdbFailure c out err ret))" "obj s' = obj s"
    using exec by auto
qed

text \<open>
  Setting and reading a property: after \<open>setProp\<close> returned, \<open>getProp\<close> gives the text of the value without space around it, unless adb fails. A value with a
  quote sets nothing, and is not reported.
\<close>

theorem getProp_after_setProp:
  assumes "property_store W (serial (obj s)) props" and "prop_name name" and "v \<noteq> PNone" and "setProp W (Some name) v s = (Inr u, s')"
  shows "if CHR 0x27 \<in> set (str_of W v) \<or> CHR 0x22 \<in> set (str_of W v) then s' = s
    else \<forall>p s''. getProp W (Some name) s' = (Inr p, s'') \<longrightarrow> p = Some (strip (str_of W v))"
proof (cases "CHR 0x27 \<in> set (str_of W v) \<or> CHR 0x22 \<in> set (str_of W v)")
  case True
  with assms(3,4) show ?thesis by (auto simp: setProp_def Let_def returnA_def)
next
  case False
  with setProp_sets [OF assms(1,2,4,3)] have "props (world s') name = strip (str_of W v)" "obj s' = obj s" by auto
  with False assms(1,2) getProp_gets(2) [of W s' props name] show ?thesis by auto
qed

text \<open>(C26) 
  \<open>stopFramework\<close> resets the property that says that the boot completed: after it returned, \<open>isFrameworkRunning\<close> says no, whatever
  processes run, until something sets the property again.
\<close>

theorem stopFramework_stops:
  assumes "property_store W (serial (obj s)) props" and "str_of W (PInt 0) = ''0''" and "stopFramework W s = (Inr u, s')"
  shows "\<exists>s''. isFrameworkRunning W True s' = (Inr False, s'')"
proof -
  from assms(3) obtain v s1 where s1: "self_shell W ''stop'' s = (Inr v, s1)" "setProp W (Some SYSPROP_SYS_BOOT_COMPLETED) (PInt 0) s1 = (Inr u, s')"
    by (auto simp: stopFramework_def seqA_def bindA_def split: prod.splits sum.splits)
  from s1(1) have "obj s1 = obj s"
    by (auto simp: self_shell_def objA_def adb_shell_def adb_call_def exec_cmd_def callA_def action_defs split: prod.splits if_splits)
  have plain: "prop_name SYSPROP_SYS_BOOT_COMPLETED" by (simp add: prop_name_def SYSPROP_SYS_BOOT_COMPLETED_def)
  have "strip ''0'' = ''0''" by code_simp
  with \<open>obj s1 = obj s\<close> setProp_sets [of W s1 props, OF _ plain s1(2)] assms(1,2) have props: "props (world s') SYSPROP_SYS_BOOT_COMPLETED = ''0''" "obj s' = obj s"
    by auto
  obtain r s2 where r: "getProp W (Some SYSPROP_SYS_BOOT_COMPLETED) s' = (r, s2)" by fastforce
  with getProp_gets(2) [of W s' props, OF _ plain] props assms(1)
  have "r = Inr (Some ''0'') \<or> (\<exists>c out err ret. r = Inl (AdbFailure c out err ret))" by auto
  with r have "isBootCompleted W s' = (Inr False, s2)"
    by (auto simp: isBootCompleted_def catch_adb_def catchA_def bindA_def returnA_def)
  then show ?thesis by (simp add: isFrameworkRunning_def bindA_def returnA_def)
qed

subsection \<open>Services\<close>

text \<open>Commands do not change the object; \<open>keepsW\<close> is preservation for the actions that may not return.\<close>

definition keepsW :: "('s \<Rightarrow> bool) \<Rightarrow> ('e, 's, 'a) running \<Rightarrow> bool" where
  "keepsW I m \<longleftrightarrow> (\<forall>s r s'. I s \<longrightarrow> m s = Some (r, s') \<longrightarrow> I s')"

lemma keepsW_step: "keepsW I m \<Longrightarrow> I s \<Longrightarrow> m s = Some (r, s') \<Longrightarrow> I s'"
  unfolding keepsW_def by blast

lemma keepsW_run [keeps_rules]: "keeps I m \<Longrightarrow> keepsW I (runW m)"
  by (auto simp: keepsW_def runW_def dest: keeps_step)

lemma keepsW_bind [keeps_rules]:
  assumes m: "keepsW I m" and f: "\<And>v. keepsW I (f v)"
  shows "keepsW I (bindW m f)"
  unfolding keepsW_def
proof (intro allI impI)
  fix s r s'
  assume "I s" and run: "bindW m f s = Some (r, s')"
  then obtain q s1 where q: "m s = Some (q, s1)" by (auto simp: bindW_def split: option.splits)
  with \<open>I s\<close> m have "I s1" unfolding keepsW_def by blast
  with run q f show "I s'" unfolding keepsW_def by (cases q) (auto simp: bindW_def)
qed

lemma keepsW_seq [keeps_rules]: "keepsW I m \<Longrightarrow> keepsW I k \<Longrightarrow> keepsW I (seqW m k)"
  unfolding seqW_def by (intro keepsW_bind)

lemma keepsW_return [keeps_rules]: "keepsW I (returnW v)"
  unfolding returnW_def by (intro keeps_rules)

lemma keepsW_if [keeps_rules]: "keepsW I m \<Longrightarrow> keepsW I k \<Longrightarrow> keepsW I (if b then m else k)"
  by simp

lemma keeps_world [keeps_rules]:
  "keeps (\<lambda>s. P (obj s)) (callA f)"
  "keeps (\<lambda>s. P (obj s)) (changeA g)"
  by (auto simp: keeps_def callA_def changeA_def split: prod.split)

lemma keeps_hosted [keeps_rules]:
  "keeps (\<lambda>s. P (obj s)) (fastboot_call W n c args)"
  "keeps (\<lambda>s. P (obj s)) (adb_call W n c args t)"
  unfolding fastboot_call_def fastboot_exe_cmd_def adb_call_def by (intro keeps_rules)+

lemma keeps_lists [keeps_rules]:
  "keeps (\<lambda>s. P (obj s)) (list_adb_devices W)"
  "keeps (\<lambda>s. P (obj s)) (list_fastboot_devices W)"
  "keeps (\<lambda>s. P (obj s)) (list_occupied_adb_ports W)"
  unfolding list_adb_devices_def list_fastboot_devices_def list_occupied_adb_ports_def by (intro keeps_rules)+

lemma keeps_port [keeps_rules]: "keeps (\<lambda>s. P (obj s)) (is_port_available W port)"
  unfolding is_port_available_def by (intro keeps_rules)

lemma keepsW_host_port [keeps_rules]: "keepsW (\<lambda>s :: 'w dev. P (obj s)) (get_available_host_port W)"
proof -
  have "P (obj s) \<longrightarrow> P (obj (snd y))" if "get_available_host_port W s = Some y" for s :: "'w dev" and y
  proof (rule get_available_host_port.raw_induct [where P = "\<lambda>W s y. P (obj s) \<longrightarrow> P (obj (snd y))", OF _ that], goal_cases)
    case (1 loop W s y)
    obtain port w where rand: "randint_port W (world s) = (port, w)" by fastforce
    obtain q s1 where q: "is_port_available W port (s\<lparr>world := w\<rparr>) = (q, s1)" by fastforce
    show ?case
    proof
      assume "P (obj s)"
      then have "P (obj s1)" using keeps_step [OF keeps_port _ q, of P] by simp
      with 1(2) rand q 1(1) [of W s1 y] show "P (obj (snd y))" by (auto split: sum.splits if_splits)
    qed
  qed
  then show ?thesis by (fastforce simp: keepsW_def)
qed

lemma keeps_processes [keeps_rules]:
  "keeps (\<lambda>s. P (obj s)) (start_standing_subprocess W cmd delay)"
  "keeps (\<lambda>s. P (obj s)) (stop_standing_subprocess W proc)"
  unfolding start_standing_subprocess_def stop_standing_subprocess_def assert_subprocess_running_def kill_process_group_def
  by (intro keeps_rules)+

lemma keeps_questions [keeps_rules]:
  "keeps (\<lambda>s. P (obj s)) (isBootloaderMode W)"
  "keeps (\<lambda>s. P (obj s)) (is64Bit W)"
  "keeps (\<lambda>s. P (obj s)) (isAdbRoot W)"
  "keeps (\<lambda>s. P (obj s)) (create_dirA W path)"
  unfolding isBootloaderMode_def is64Bit_def isAdbRoot_def
  by (intro keeps_rules)+ (simp add: keeps_def create_dirA_def split: option.split)

lemma keeps_with_prop [keeps_rules]:
  "(\<And>v. keeps (\<lambda>s. P (obj s)) (k v)) \<Longrightarrow> keeps (\<lambda>s. P (obj s)) (with_prop W n k)"
  unfolding with_prop_def by (intro keeps_rules)

lemma keeps_model [keeps_rules]:
  "keeps (\<lambda>s. P (obj s)) (model W)"
  unfolding model_def Let_def by (intro keeps_rules)

lemma keeps_services [keeps_rules]:
  "keeps (\<lambda>s. P (obj s)) (StartLLKD W)"
  "keeps (\<lambda>s. P (obj s)) (StopLLKD W)"
  "keeps (\<lambda>s. P (obj s)) (hal_CleanUpA W)"
  "keeps (\<lambda>s. P (obj s)) (rootAdb W)"
  "keeps (\<lambda>s. P (obj s)) (tcp_forward W n a b)"
  unfolding StartLLKD_def StopLLKD_def hal_CleanUpA_def rootAdb_def tcp_forward_def by (intro keeps_rules)+

lemma same_object:
  assumes "\<And>P. keeps (\<lambda>s. P (obj s)) m" "m s = (r, s')"
  shows "obj s' = obj s"
  using keeps_step [OF assms(1) [of "\<lambda>a. a = obj s"] refl assms(2)] .

text \<open>The processes of a device. What an operation that starts or stops one does to the object, on every ending.\<close>

lemma stop_process_quiet: "\<exists>s'. catch_utils (stop_standing_subprocess W proc) (returnA ()) s = (Inr (), s') \<and> obj s' = obj s"
  by (auto simp: catch_utils_def stop_standing_subprocess_def assert_subprocess_running_def kill_process_group_def world_defs action_defs)

lemma stopAdbLogcat_object:
  assumes "adb_logcat_process (obj s) = Some proc"
  shows "\<exists>s'. stopAdbLogcat W s = (Inr (), s') \<and> obj s' = (obj s)\<lparr>adb_logcat_process := None\<rparr>"
  using stop_process_quiet [of W proc s] assms
  by (auto simp: stopAdbLogcat_def objA_def getA_def updA_def modifyA_def seqA_step)

lemma stopVtsAgent_object: "\<exists>s'. stopVtsAgent W s = (Inr (), s') \<and> obj s' = (obj s)\<lparr>vts_agent_process := None\<rparr>"
proof (cases "vts_agent_process (obj s)")
  case None
  then have "(obj s)\<lparr>vts_agent_process := None\<rparr> = obj s" by (cases "obj s") simp
  with None show ?thesis by (simp add: stopVtsAgent_def objA_def getA_def returnA_def)
next
  case (Some proc)
  with stop_process_quiet [of W proc s] show ?thesis
    by (auto simp: stopVtsAgent_def objA_def getA_def updA_def modifyA_def seqA_step)
qed

lemma startAdbLogcat_object:
  assumes "startAdbLogcat W s = (r, s')"
  shows "(\<exists>e. r = Inl e) \<and> obj s' = obj s \<or>
    (\<exists>proc file. r = Inr () \<and> obj s' = (obj s)\<lparr>adb_logcat_process := Some proc, adb_logcat_file_path := Some file\<rparr>)"
proof (cases "isAdbLogcatOn (obj s)")
  case True
  with assms show ?thesis by (auto simp: startAdbLogcat_def objA_def action_defs)
next
  case False
  obtain q s1 where q: "model W s = (q, s1)" by fastforce
  have s1: "obj s1 = obj s" by (rule same_object [OF keeps_model q])
  show ?thesis
  proof (cases q)
    case (Inl e)
    with False assms q s1 show ?thesis by (auto simp: startAdbLogcat_def objA_def getA_def bindA_def)
  next
    case (Inr m)
    obtain c s2 where c: "create_dirA W (log_path (obj s)) s1 = (c, s2)" by fastforce
    have s2: "obj s2 = obj s" using same_object [OF keeps_questions(4) c] s1 by simp
    show ?thesis
    proof (cases c)
      case (Inl e)
      with False assms q c \<open>q = Inr m\<close> s2 show ?thesis by (auto simp: startAdbLogcat_def objA_def action_defs Let_def)
    next
      case c_ok: (Inr u)
      have "r = Inr () \<and> (\<exists>proc file. obj s' = (obj s)\<lparr>adb_logcat_process := Some proc, adb_logcat_file_path := Some file\<rparr>)"
        using False assms q c \<open>q = Inr m\<close> c_ok s2
        by (auto simp: startAdbLogcat_def objA_def start_standing_subprocess_def updA_def world_defs action_defs Let_def split: prod.splits) blast
      then show ?thesis by blast
    qed
  qed
qed

lemma start_standing_raises: "start_standing_subprocess W cmd d s = (Inl e, s') \<Longrightarrow> e = VTSUtilsError"
  by (auto simp: start_standing_subprocess_def assert_subprocess_running_def world_defs action_defs split: prod.splits if_splits)

text \<open>If the last bitness is 32, the loop either starts the agent or raises.\<close>

lemma agent_loop_object:
  "agent_loop W sev bits s = (r, s') \<Longrightarrow>
   (\<exists>e. r = Inl e) \<and> obj s' = obj s \<or> bits = [] \<and> s' = s \<or>
   (\<exists>proc. r = Inr () \<and> obj s' = (obj s)\<lparr>vts_agent_process := Some proc\<rparr>) \<or> last bits \<noteq> ''32'' \<and> r = Inr () \<and> obj s' = obj s"
proof (induction bits arbitrary: s)
  case Nil
  then show ?case by (simp add: returnA_def)
next
  case (Cons bitness bits)
  let ?start = "start_standing_subprocess W (agent_cmd (obj s) sev bitness) 1"
  obtain q s1 where q: "?start s = (q, s1)" by fastforce
  have s1: "obj s1 = obj s" by (rule same_object [OF keeps_processes(1) q])
  show ?case
  proof (cases q)
    case (Inr proc)
    with Cons.prems q s1 show ?thesis by (auto simp: objA_def getA_def catch_utils_def catchA_def bindA_def updA_def modifyA_def)
  next
    case (Inl e)
    with q have "e = VTSUtilsError" by (simp add: start_standing_raises)
    with Inl Cons.prems q have "(if read_file W (agent_log_path (obj s) bitness) (world s1) = None then raiseA (DevPy IOError)
        else if bitness = ''32'' then raiseA VTSUtilsError else agent_loop W sev bits) s1 = (r, s')"
      by (simp add: objA_def getA_def catch_utils_def catchA_def bindA_def askA_def)
    with Cons.IH [of s1] s1 show ?thesis by (cases bits) (auto simp: raiseA_def returnA_def split: if_splits)
  qed
qed

lemma bindA_object:
  assumes "\<And>P. keeps (\<lambda>s. P (obj s)) m" "bindA m f s = (r, s')"
  obtains e where "r = Inl e" "obj s' = obj s" | v s1 where "m s = (Inr v, s1)" "obj s1 = obj s" "f v s1 = (r, s')"
proof -
  obtain q s1 where q: "m s = (q, s1)" by fastforce
  have "obj s1 = obj s" by (rule same_object [OF assms(1) q])
  with q assms(2) that show thesis by (cases q) (auto simp: bindA_def)
qed

lemma startVtsAgent_object:
  assumes "startVtsAgent W s = (r, s')"
  shows "(\<exists>e. r = Inl e) \<and> obj s' = obj s \<or> (\<exists>proc. r = Inr () \<and> obj s' = (obj s)\<lparr>vts_agent_process := Some proc\<rparr>)"
proof (cases "vts_agent_process (obj s) = None")
  case False
  with assms show ?thesis by (auto simp: startVtsAgent_def objA_def getA_def raiseA_def)
next
  case True
  define sev where "sev = (case map_of (extra_attrs (obj s)) ''log_severity'' of None \<Rightarrow> ''INFO'' | Some v \<Rightarrow> str_of W v)"
  let ?m = "bindA (StopLLKD W) (\<lambda>_. bindA (catch_adb (seqA (self_shell W cleanup_cmd) (returnA ())) (returnA ())) (\<lambda>_. is64Bit W))"
  have run: "bindA ?m (\<lambda>b. agent_loop W sev (if b then [''64'', ''32''] else [''32''])) s = (r, s')"
    using assms True by (simp add: startVtsAgent_def objA_def getA_def seqA_def bindA_assoc sev_def)
  have keep: "keeps (\<lambda>s. P (obj s)) ?m" for P by (intro keeps_rules)
  show ?thesis
  proof (rule bindA_object [OF keep run])
    show ?thesis if "r = Inl e" "obj s' = obj s" for e using that by simp
    show ?thesis if "obj s1 = obj s" and loop: "agent_loop W sev (if b then [''64'', ''32''] else [''32'']) s1 = (r, s')" for b s1
      using that(1) agent_loop_object [OF loop] by (cases b) auto
  qed
qed

text \<open>The device of a serial, with its agent enabled, stays that device while its services are started and stopped.\<close>

definition device :: "string \<Rightarrow> ad \<Rightarrow> bool" where
  "device n a \<longleftrightarrow> serial a = n \<and> agent_enabled a"

definition idle :: "ad \<Rightarrow> bool" where
  "idle a \<longleftrightarrow> adb_logcat_process a = None \<and> vts_agent_process a = None"

definition serving :: "ad \<Rightarrow> bool" where
  "serving a \<longleftrightarrow> adb_logcat_process a \<noteq> None \<and> vts_agent_process a \<noteq> None"

lemma device_updates [simp]:
  "device n (a\<lparr>adb_logcat_process := p\<rparr>) = device n a"
  "device n (a\<lparr>adb_logcat_file_path := f\<rparr>) = device n a"
  "device n (a\<lparr>vts_agent_process := p\<rparr>) = device n a"
  "device n (a\<lparr>device_command_port := d\<rparr>) = device n a"
  "device n (a\<lparr>host_command_port := d\<rparr>) = device n a"
  "device n (a\<lparr>has_hal := b\<rparr>) = device n a"
  "device n (a\<lparr>has_lib := b\<rparr>) = device n a"
  "device n (a\<lparr>has_shell := b\<rparr>) = device n a"
  "device n (a\<lparr>has_resource := b\<rparr>) = device n a"
  "device n (a\<lparr>shell_nohup := b\<rparr>) = device n a"
  by (simp_all add: device_def agent_enabled_def)

lemma keeps_updA [keeps_rules]: "(\<And>a. P a \<Longrightarrow> P (f a)) \<Longrightarrow> keeps (\<lambda>s. P (obj s)) (updA f)"
  unfolding updA_def by (intro keeps_rules) simp

lemma keeps_ends: "(\<And>s r s'. m s = (r, s') \<Longrightarrow> I s \<Longrightarrow> I s') \<Longrightarrow> keeps I m"
  by (metis keeps_def prod.collapse)

lemma start_keeps_device [keeps_rules]:
  "keeps (\<lambda>s. device n (obj s)) (startAdbLogcat W)"
  "keeps (\<lambda>s. device n (obj s)) (startVtsAgent W)"
  by (rule keeps_ends, drule startAdbLogcat_object, auto) (rule keeps_ends, drule startVtsAgent_object, auto)

lemma keepsW_command_port [keeps_rules]: "keepsW (\<lambda>s. P (obj s)) (command_port W)"
  using keepsW_host_port [of P W] by (auto simp: keepsW_def command_port_def split: option.splits if_splits)

lemma connect_keeps [keeps_rules]:
  "keepsW (\<lambda>s. device n (obj s)) (connect_agent W)"
  "keepsW (\<lambda>s. serving (obj s)) (connect_agent W)"
  unfolding connect_agent_def by (intro keeps_rules; simp add: serving_def)+

lemma startServices_keeps_device: "keepsW (\<lambda>s. device n (obj s)) (startServices W)"
  unfolding startServices_def
  by (intro keeps_rules) (simp_all add: device_def agent_enabled_def truthy_def split: option.splits)

lemma startServices_serves:
  assumes "agent_enabled (obj s)" "startServices W s = Some (Inr (), s')"
  shows "serving (obj s')"
proof -
  from assms(2) obtain s0 s1 b s2 where s1: "startAdbLogcat W s0 = (Inr (), s1)" and b: "b = agent_enabled (obj s1)"
    and rest: "(if b then seqW (runW (startVtsAgent W)) (connect_agent W) else returnW ()) s1 = Some (Inr (), s')"
    and s0: "extra_attrs (obj s0) = dict_set ''enable_vts_agent''
         (case map_of (extra_attrs (obj s)) ''enable_vts_agent'' of None \<Rightarrow> PBool True | Some v \<Rightarrow> v) (extra_attrs (obj s))"
    by (fastforce simp: startServices_def seqW_Inr bindW_Inr updA_def modifyA_def objA_def getA_def returnA_def)
  have "agent_enabled (obj s0)"
    using assms(1) s0 by (auto simp: agent_enabled_def truthy_def split: option.splits)
  with s1 have logcat: "adb_logcat_process (obj s1) \<noteq> None" and b_True: b
    using startAdbLogcat_object [OF s1] by (auto simp: b agent_enabled_def)
  with rest obtain s3 where s3: "startVtsAgent W s1 = (Inr (), s3)" and tail: "connect_agent W s3 = Some (Inr (), s')" by (auto simp: seqW_Inr)
  from startVtsAgent_object [OF s3] logcat have "serving (obj s3)" by (auto simp: serving_def)
  from keepsW_step [OF connect_keeps(2) this tail] show ?thesis .
qed

lemma stopServices_idles:
  assumes "agent_enabled (obj s)" "stopServices W s = (r, s')"
  shows "idle (obj s')" and "serial (obj s') = serial (obj s)"
proof -
  define s1 where "s1 = snd ((if isAdbLogcatOn (obj s) then stopAdbLogcat W else returnA ()) s)"
  have s1: "(if isAdbLogcatOn (obj s) then stopAdbLogcat W else returnA ()) s = (Inr (), s1)"
    "adb_logcat_process (obj s1) = None" "serial (obj s1) = serial (obj s)" "extra_attrs (obj s1) = extra_attrs (obj s)"
    using stopAdbLogcat_object [of s _ W] by (auto simp: s1_def isAdbLogcatOn_def returnA_def)
  obtain s2 where s2: "stopVtsAgent W s1 = (Inr (), s2)" "obj s2 = (obj s1)\<lparr>vts_agent_process := None\<rparr>"
    using stopVtsAgent_object by blast
  let ?hal = "objA has_hal (\<lambda>hal. if hal then hal_CleanUpA W else returnA ())"
  from assms have tail: "?hal s2 = (r, s')"
    using s1 s2(1) by (simp add: stopServices_def objA_def getA_def seqA_step agent_enabled_def split: if_splits)
  have "keeps (\<lambda>s. P (obj s)) ?hal" for P by (intro keeps_rules)
  from same_object [OF this tail] have "obj s' = obj s2" .
  with s1 s2 show "idle (obj s')" "serial (obj s') = serial (obj s)" by (simp_all add: idle_def)
qed

lemma cleanUp_idles:
  assumes "agent_enabled (obj s)" "cleanUp W s = (r, s')"
  shows "idle (obj s')" and "serial (obj s') = serial (obj s)"
proof -
  obtain q s1 where q: "stopServices W s = (q, s1)" by fastforce
  note idle = stopServices_idles [OF assms(1) q]
  let ?P = "\<lambda>a. idle a \<and> serial a = serial (obj s)"
  have upd: "?P a \<Longrightarrow> ?P (a\<lparr>host_command_port := None\<rparr>)" for a by (simp add: idle_def)
  have "keeps (\<lambda>s. ?P (obj s)) (seqA (StartLLKD W) (objA host_command_port (\<lambda>p.
        if p = None \<or> p = Some 0 then returnA ()
        else seqA (self_adb W ''forward'' [''--remove tcp:'' @ str_int (the p)] (Some DEFAULT_ADB_SHORT_TIMEOUT))
               (updA (\<lambda>a. a\<lparr>host_command_port := None\<rparr>)))))" (is "keeps _ ?tail")
    by (intro keeps_rules upd)
  then have "?P (obj (snd (?tail s1)))" using keepsD [of "\<lambda>s. ?P (obj s)" ?tail s1] idle by blast
  with assms(2) q idle show "idle (obj s')" "serial (obj s') = serial (obj s)"
    by (cases q; auto simp: cleanUp_def seqA_def bindA_def)+
qed

lemma destroy_idles:
  "\<forall>a \<in> set ads. agent_enabled a \<Longrightarrow> destroy W ads w = (ads', w') \<Longrightarrow> (\<forall>a \<in> set ads'. idle a) \<and> map serial ads' = map serial ads"
proof (induction ads arbitrary: w ads' w')
  case Nil
  then show ?case by simp
next
  case (Cons a ads)
  obtain r s where s: "cleanUp W \<lparr>world = w, obj = a\<rparr> = (r, s)" by fastforce
  obtain rest w2 where rest: "destroy W ads (world s) = (rest, w2)" by fastforce
  have "idle (obj s)" "serial (obj s) = serial a" using cleanUp_idles [OF _ s] Cons.prems(1) by simp_all
  with Cons.IH [OF _ rest] Cons.prems s rest show ?case by auto
qed

text \<open>(C14) 
  The controller starts all devices or none: when \<open>_startServicesOnAds\<close> returns, every device has a process that collects its log and one for
  its agent; when it raises, no device, started or not, has a process left. The devices are the same, in the same order.
\<close>

theorem startServicesOnAds_all_or_none:
  assumes "\<forall>a \<in> set ads. agent_enabled a \<and> idle a" and "startServicesOnAds W [] ads w = Some (r, ads', w')"
  shows "map serial ads' = map serial ads \<and> (\<forall>a \<in> set ads'. case r of Inr _ \<Rightarrow> serving a | Inl _ \<Rightarrow> idle a)"
proof -
  have "map serial ads' = map serial (running @ ads) \<and> (\<forall>a \<in> set ads'. case r of Inr _ \<Rightarrow> serving a | Inl _ \<Rightarrow> idle a)"
    if "startServicesOnAds W running ads w = Some (r, ads', w')" "\<forall>a \<in> set ads. agent_enabled a \<and> idle a"
      "\<forall>a \<in> set running. agent_enabled a \<and> serving a" for running
    using that
  proof (induction ads arbitrary: running w)
    case Nil
    then show ?case by (cases r) simp_all
  next
    case (Cons a ads)
    from Cons.prems(1) obtain q b w1 where q: "on_ad (startServices W) a w = Some (q, b, w1)"
      by (cases "on_ad (startServices W) a w") auto
    then obtain s where s: "startServices W \<lparr>world = w, obj = a\<rparr> = Some (q, s)" "b = obj s" by (auto simp: on_ad_def)
    have "device (serial a) b"
      using keepsW_step [OF startServices_keeps_device _ s(1), of "serial a"] s(2) Cons.prems(2) by (simp add: device_def)
    then have b: "agent_enabled b" "serial b = serial a" by (simp_all add: device_def)
    show ?case
    proof (cases q)
      case (Inr u)
      then have "serving b" using startServices_serves [of "\<lparr>world = w, obj = a\<rparr>" W s] s Cons.prems(2) by auto
      with Cons.IH [of "running @ [b]" w1] Cons.prems q Inr b show ?thesis by auto
    next
      case (Inl e)
      obtain gone w2 where gone: "destroy W (running @ [b]) w1 = (gone, w2)" by fastforce
      with destroy_idles [OF _ gone] Cons.prems q Inl b show ?thesis by auto
    qed
  qed
  with assms show ?thesis by force
qed

text \<open>Actions that return in every state.\<close>

definition returnsW :: "('e, 's, 'a) running \<Rightarrow> bool" where
  "returnsW m \<longleftrightarrow> (\<forall>s. \<exists>r s'. m s = Some (r, s'))"

lemma returnsW_bind:
  assumes m: "returnsW m" and f: "\<And>v. returnsW (f v)"
  shows "returnsW (bindW m f)"
  unfolding returnsW_def
proof
  fix s
  obtain q s1 where "m s = Some (q, s1)" using m unfolding returnsW_def by blast
  with f show "\<exists>r s'. bindW m f s = Some (r, s')" unfolding returnsW_def by (cases q) (auto simp: bindW_def)
qed

lemma returnsW_run: "returnsW (runW n)"
  by (simp add: returnsW_def runW_def)

lemma returnsW_intros:
  "returnsW (runW n)"
  "returnsW (returnW v)"
  "returnsW m \<Longrightarrow> returnsW k \<Longrightarrow> returnsW (seqW m k)"
  "returnsW m \<Longrightarrow> returnsW m' \<Longrightarrow> returnsW (if b then m else m')"
  "(\<And>x y. p = (x, y) \<Longrightarrow> returnsW (g x y)) \<Longrightarrow> returnsW (case p of (x, y) \<Rightarrow> g x y)"
  by (auto simp: returnW_def seqW_def returnsW_run intro!: returnsW_bind split: prod.split)

lemma reboot_returns: "clock_ok W \<Longrightarrow> returnsW (reboot W restart)"
proof -
  assume "clock_ok W"
  then have "returnsW (waitForBootCompletion W t)" for t using waitForBootCompletion_returns [of W t] unfolding returnsW_def by blast
  then show ?thesis unfolding reboot_def by (intro returnsW_intros returnsW_bind)
qed

lemma same_objectW:
  assumes "clock_ok W" "waitForBootCompletion W t s = Some (r, s')"
  shows "obj s' = obj s"
  using waitForBootCompletion_returns [OF assms(1), of t s] assms(2) by auto

lemma restart_cycle:
  fixes restart :: bool and s :: "'w dev"
  defines "log \<equiv> restart \<and> isAdbLogcatOn (obj s)" and "agent \<equiv> restart \<and> vts_agent_process (obj s) \<noteq> None"
  assumes stop: "(if log then stopAdbLogcat W else returnA ()) s1 = (Inr (), s2)" "(if agent then stopVtsAgent W else returnA ()) s2 = (Inr (), s3)"
    and restart: "(if log then startAdbLogcat W else returnA ()) s6 = (Inr (), s7)" "(if agent then startVtsAgent W else returnA ()) s7 = (Inr (), s')"
    and s1: "obj s1 = obj s" and s6: "obj s6 = obj s3"
  shows "isAdbLogcatOn (obj s') = isAdbLogcatOn (obj s) \<and> (vts_agent_process (obj s') = None) = (vts_agent_process (obj s) = None)"
proof -
  have "obj s2 = (if log then (obj s)\<lparr>adb_logcat_process := None\<rparr> else obj s)"
    using stop(1) s1 stopAdbLogcat_object [of s1 _ W] by (auto simp: log_def isAdbLogcatOn_def returnA_def split: if_splits)
  moreover have "obj s3 = (if agent then (obj s2)\<lparr>vts_agent_process := None\<rparr> else obj s2)"
    using stop(2) stopVtsAgent_object [of W s2] by (auto simp: returnA_def split: if_splits)
  moreover have "if log then isAdbLogcatOn (obj s7) \<and> vts_agent_process (obj s7) = vts_agent_process (obj s6) else obj s7 = obj s6"
    using restart(1) startAdbLogcat_object [of W s6 "Inr ()" s7] by (auto simp: log_def isAdbLogcatOn_def returnA_def split: if_splits)
  moreover have "if agent then vts_agent_process (obj s') \<noteq> None \<and> adb_logcat_process (obj s') = adb_logcat_process (obj s7) else obj s' = obj s7"
    using restart(2) startVtsAgent_object [of W s7 "Inr ()" s'] by (auto simp: returnA_def split: if_splits)
  ultimately show ?thesis using s6 by (cases restart; cases "adb_logcat_process (obj s)"; cases "vts_agent_process (obj s)") (simp_all add: log_def agent_def isAdbLogcatOn_def)
qed


subsection \<open>An example\<close>

text \<open>A device with properties, on a host with a clock. Other commands print a number.\<close>

record sim_world =
  clock :: int
  props :: "(string \<times> string) list"
  pids :: nat

definition sim_body :: "string \<Rightarrow> string" where
  "sim_body cmd = drop (length (adb_str ''D'' @ '' shell '' @ [CHR 0x22])) cmd"

definition sim_value :: "sim_world \<Rightarrow> string \<Rightarrow> string" where
  "sim_value w name = (case map_of (props w) name of None \<Rightarrow> [] | Some v \<Rightarrow> strip v)"

definition sim_exec :: "string \<Rightarrow> int \<Rightarrow> sim_world \<Rightarrow> (string \<times> string \<times> int) \<times> sim_world" where
  "sim_exec cmd t w =
     (let b = drop 8 (sim_body cmd); r = dropWhile (\<lambda>c. c \<noteq> CHR '' '') b in
      if startswith (sim_body cmd) ''setprop ''
      then (([], [], 0), w\<lparr>props := (takeWhile (\<lambda>c. c \<noteq> CHR '' '') b, take (length r - 6) (drop 3 r)) # props w\<rparr>)
      else if startswith (sim_body cmd) ''getprop '' then ((sim_value w (butlast b), [], 0), w)
      else ((''5000'', [], 0), w))"

definition sim_calls :: "sim_world world_calls" where
  "sim_calls = \<lparr>ExecuteOneShellCommand = sim_exec, Popen_communicate = (\<lambda>cmd w. (([], []), w)),
     Popen = (\<lambda>cmd w. (pids w, w\<lparr>pids := Suc (pids w)\<rparr>)), poll = (\<lambda>p w. None), killpg = (\<lambda>p w. w), now = clock,
     sleep = (\<lambda>k w. w\<lparr>clock := clock w + k\<rparr>), randint_port = (\<lambda>w. (1500, w)), can_bind = (\<lambda>p w. True), create_dir = (\<lambda>p w. Some w),
     read_file = (\<lambda>p w. Some []), gzip_lines = (\<lambda>p w. None), temp_name = (\<lambda>w. (''/tmp/t'', w)), remove_file = (\<lambda>p w. w),
     hal_CleanUp = (\<lambda>w. (True, w)), shell_Heal = (\<lambda>w. (True, w)),
     str_of = (\<lambda>v. case v of PInt i \<Rightarrow> str_int i | PStr t \<Rightarrow> t | _ \<Rightarrow> [])\<rparr>"

definition sim_device :: "sim_world dev" where
  "sim_device = \<lparr>world = \<lparr>clock = 0, props = [], pids = 1\<rparr>, obj = new_ad ''/tmp/logs/'' ''D'' ''unknown'' 5010 False\<rparr>"

lemma sim_clock: "clock_ok sim_calls"
  by (auto simp: clock_ok_def sim_calls_def sim_exec_def Let_def)

lemma str_replace_plain: "c \<notin> set s \<Longrightarrow> str_replace s [c] new = s"
  by (simp add: str_replace_def split_at_char_plain)

lemma str_replace_char: "c \<notin> set s \<Longrightarrow> str_replace (s @ c # t) [c] new = s @ new @ str_replace t [c] new"
  by (simp add: str_replace_def split_at_char_append str_join_Cons)

lemma sim_store: "property_store sim_calls ''D'' sim_value"
proof -
  have shell: "adb_line ''D'' ''shell'' [c] = adb_str ''D'' @ '' shell '' @ [CHR 0x22] @ str_replace c [CHR 0x22] [CHR 0x5C, CHR 0x22] @ [CHR 0x22]" for c
    by (simp add: adb_line_def clean_name_def quote_wrap_shell_command_def)
  have set: "sim_body (adb_line ''D'' ''shell'' [setprop_cmd name v]) =
      ''setprop '' @ name @ '' '' @ [CHR 0x5C, CHR 0x22] @ v @ [CHR 0x5C, CHR 0x22] @ [CHR 0x22]"
    if "prop_name name" "CHR 0x22 \<notin> set v" for name v
  proof -
    have "str_replace (setprop_cmd name v) [CHR 0x22] [CHR 0x5C, CHR 0x22] =
        ''setprop '' @ name @ '' '' @ [CHR 0x5C, CHR 0x22] @ v @ [CHR 0x5C, CHR 0x22]"
      using str_replace_char [of "CHR 0x22" "''setprop '' @ name @ '' ''" "v @ [CHR 0x22]" "[CHR 0x5C, CHR 0x22]"]
        str_replace_char [of "CHR 0x22" v "[]" "[CHR 0x5C, CHR 0x22]"] that
      by (simp add: setprop_cmd_def prop_name_def str_replace_plain)
    then show ?thesis unfolding shell sim_body_def by simp
  qed
  have get: "sim_body (adb_line ''D'' ''shell'' [''getprop '' @ name]) = ''getprop '' @ name @ [CHR 0x22]" if "prop_name name" for name
    using that by (simp add: shell sim_body_def prop_name_def str_replace_plain)
  have ex_set: "ExecuteOneShellCommand sim_calls (adb_line ''D'' ''shell'' [setprop_cmd name v]) t w =
      (([], [], 0), w\<lparr>props := (name, v) # props w\<rparr>)" if p: "prop_name name" "CHR 0x22 \<notin> set v" for name v t w
  proof -
    have name: "takeWhile (\<lambda>c. c \<noteq> CHR '' '') (name @ CHR '' '' # u) = name" "dropWhile (\<lambda>c. c \<noteq> CHR '' '') (name @ CHR '' '' # u) = CHR '' '' # u" for u
      using p(1) unfolding prop_name_def by (induction name) auto
    have eq: "ExecuteOneShellCommand sim_calls = sim_exec" by (simp add: sim_calls_def)
    show ?thesis unfolding eq sim_exec_def set [OF p] by (simp add: startswith_def name)
  qed
  have ex_get: "ExecuteOneShellCommand sim_calls (adb_line ''D'' ''shell'' [''getprop '' @ name]) t w = ((sim_value w name, [], 0), w)"
    if "prop_name name" for name t w
  proof -
    have eq: "ExecuteOneShellCommand sim_calls = sim_exec" by (simp add: sim_calls_def)
    show ?thesis unfolding eq sim_exec_def get [OF that] by (simp add: startswith_def butlast_append)
  qed
  show ?thesis
    unfolding property_store_def
  proof (intro conjI allI impI)
    show "case ExecuteOneShellCommand sim_calls (adb_line ''D'' ''shell'' [setprop_cmd name v]) t w of
        ((_, _, ret), w') \<Rightarrow> ret = 0 \<longrightarrow> sim_value w' = (sim_value w)(name := strip v)"
      if "prop_name name \<and> CHR 0x22 \<notin> set v" for name v t w
      using that unfolding ex_set [OF conjunct1 [OF that] conjunct2 [OF that]] by (auto simp: sim_value_def fun_eq_iff)
    show "case ExecuteOneShellCommand sim_calls (adb_line ''D'' ''shell'' [''getprop '' @ name]) t w of
        ((out, _, ret), w') \<Rightarrow> (ret = 0 \<longrightarrow> strip out = sim_value w name) \<and> sim_value w' = sim_value w"
      if "prop_name name" for name t w
      unfolding ex_get [OF that] by (auto simp: sim_value_def strip_def [of "[]"] split: option.split)
  qed
qed




lemma sim_serial: "serial (obj sim_device) = ''D''"
  by (simp add: sim_device_def new_ad_def)

theorem getProp_after_setProp_witness:
  "getProp sim_calls (Some ''a.b'') (snd (setProp sim_calls (Some ''a.b'') (PStr '' x'') sim_device)) =
     (Inr (Some ''x''), snd (setProp sim_calls (Some ''a.b'') (PStr '' x'') sim_device))"
proof -
  let ?s = "snd (setProp sim_calls (Some ''a.b'') (PStr '' x'') sim_device)"
  have "property_store sim_calls (serial (obj sim_device)) sim_value" using sim_store by (simp add: sim_serial)
  moreover have "prop_name ''a.b''" by (simp add: prop_name_def)
  moreover have "setProp sim_calls (Some ''a.b'') (PStr '' x'') sim_device = (Inr (), ?s)" by code_simp
  moreover have "fst (getProp sim_calls (Some ''a.b'') ?s) = Inr (Some ''x'')" "snd (getProp sim_calls (Some ''a.b'') ?s) = ?s" by code_simp+
  ultimately show ?thesis
    using getProp_after_setProp [of sim_calls sim_device sim_value "''a.b''" "PStr '' x''"] by (simp add: prod_eq_iff)
qed

theorem stopFramework_stops_witness:
  "\<exists>s''. isFrameworkRunning sim_calls True (snd (stopFramework sim_calls sim_device)) = (Inr False, s'')"
proof -
  have "property_store sim_calls (serial (obj sim_device)) sim_value" using sim_store by (simp add: sim_serial)
  moreover have "str_of sim_calls (PInt 0) = ''0''" by code_simp
  moreover have "stopFramework sim_calls sim_device = (Inr (), snd (stopFramework sim_calls sim_device))" by code_simp
  ultimately show ?thesis by (rule stopFramework_stops)
qed

text \<open>A device that does not answer: its services cannot be started.\<close>

definition mute_calls :: "sim_world world_calls" where
  "mute_calls = sim_calls\<lparr>ExecuteOneShellCommand := (\<lambda>cmd t w. (([], [], 1), w))\<rparr>"

theorem startServicesOnAds_all_or_none_witness:
  "case startServicesOnAds mute_calls [] [obj sim_device] (world sim_device) of
     Some (Inl _, ads, _) \<Rightarrow> map serial ads = [''D''] \<and> (\<forall>a \<in> set ads. idle a) | _ \<Rightarrow> False"
proof -
  have "\<forall>a \<in> set [obj sim_device]. agent_enabled a \<and> idle a"
    by (simp add: sim_device_def new_ad_def agent_enabled_def idle_def)
  moreover obtain e ads w where "startServicesOnAds mute_calls [] [obj sim_device] (world sim_device) = Some (Inl e, ads, w)"
  proof -
    have "case startServicesOnAds mute_calls [] [obj sim_device] (world sim_device) of Some (Inl _, _, _) \<Rightarrow> True | _ \<Rightarrow> False" by code_simp
    then show thesis using that by (auto split: option.splits sum.splits prod.splits)
  qed
  ultimately show ?thesis using startServicesOnAds_all_or_none [of "[obj sim_device]" mute_calls] by (fastforce simp: sim_serial)
qed

end
