(* ===== verification/Test_Config.thy ===== *)
theory Test_Config
  imports Base_Test
begin

section \<open>Test configurations (runners/host/config\_parser.py)\<close>

text \<open>
  A configuration file is a JSON object. It is read, completed from a base line, checked, and unpacked into one configuration
  per test bed; the tests to run are named by specifiers on the command line or in a file. The values are of type \<^typ>\<open>pyval\<close>,
  and every operation of the source on them is the Python operation, which raises on a value of another shape.

  The host is a parameter: which files exist, what \<open>open\<close> and \<open>json.load\<close> give for one, the variable \<open>PYTHONPATH\<close>,
  the home directories of the users and the working directory.
\<close>

record config_host =
  is_file :: "string \<Rightarrow> bool"
  read_json :: "string \<Rightarrow> exc + pyval"
  read_text :: "string \<Rightarrow> exc + string"
  pythonpath :: "string option"
  user_home :: "string \<Rightarrow> string option"
  working_dir :: string

subsection \<open>Keys (runners/host/keys.py)\<close>

definition KEY_LOG_PATH :: string where "KEY_LOG_PATH = ''log_path''"
definition KEY_LOG_SEVERITY :: string where "KEY_LOG_SEVERITY = ''log_severity''"
definition KEY_TESTBED :: string where "KEY_TESTBED = ''test_bed''"
definition KEY_TESTBED_NAME :: string where "KEY_TESTBED_NAME = ''name''"
definition KEY_TEST_PATHS :: string where "KEY_TEST_PATHS = ''test_paths''"

definition RESERVED_KEYS :: "string list" where
  "RESERVED_KEYS = [KEY_TESTBED, KEY_LOG_PATH, KEY_TEST_PATHS]"

lemmas config_keys = KEY_LOG_PATH_def KEY_LOG_SEVERITY_def KEY_TESTBED_def KEY_TESTBED_NAME_def
  KEY_TEST_PATHS_def

subsection \<open>Operations on Python values\<close>

definition builtinR :: "py_error + 'a \<Rightarrow> exc + 'a" where
  "builtinR r = (case r of Inl e \<Rightarrow> Inl (Builtin e) | Inr v \<Rightarrow> Inr v)"

text \<open>\<open>for x in v\<close>: the keys of a dictionary, the characters of a string.\<close>

definition py_elements :: "pyval \<Rightarrow> py_error + pyval list" where
  "py_elements v = (case v of
     PList l \<Rightarrow> Inr l
   | PDict d \<Rightarrow> Inr (map (PStr \<circ> fst) d)
   | PStr s \<Rightarrow> Inr (map (\<lambda>c. PStr [c]) s)
   | _ \<Rightarrow> Inl TypeError)"

definition py_setitem :: "pyval \<Rightarrow> string \<Rightarrow> pyval \<Rightarrow> py_error + pyval" where
  "py_setitem obj k v = (case obj of PDict d \<Rightarrow> Inr (PDict (dict_set k v d)) | _ \<Rightarrow> Inl TypeError)"

text \<open>\<open>d.update(e)\<close> of two dictionaries, and \<open>d.pop(k)\<close> for a key that is there.\<close>

fun dict_update :: "(string \<times> pyval) list \<Rightarrow> (string \<times> pyval) list \<Rightarrow> (string \<times> pyval) list" where
  "dict_update d [] = d"
| "dict_update d ((k, v) # e) = dict_update (dict_set k v d) e"

definition dict_pop :: "string \<Rightarrow> (string \<times> pyval) list \<Rightarrow> (string \<times> pyval) list" where
  "dict_pop k d = filter (\<lambda>(k', _). k' \<noteq> k) d"

lemma builtinR_Inr [py_res]: "builtinR r = Inr v \<longleftrightarrow> r = Inr v"
  by (simp add: builtinR_def split: sum.split)

lemma builtinR_Inl: "builtinR r = Inl e \<Longrightarrow> \<exists>b. e = Builtin b"
  by (auto simp: builtinR_def split: sum.splits)

lemma py_getitem_Inr: "py_getitem v k = Inr x \<longleftrightarrow> (\<exists>d. v = PDict d \<and> map_of d k = Some x)"
  by (auto simp: py_getitem_def split: pyval.splits option.splits)

lemma py_setitem_Inr: "py_setitem v k x = Inr w \<longleftrightarrow> (\<exists>d. v = PDict d \<and> w = PDict (dict_set k x d))"
  by (auto simp: py_setitem_def split: pyval.splits)

lemma map_of_dict_update:
  "distinct (map fst e) \<Longrightarrow> map_of (dict_update d e) = map_of d ++ map_of e"
proof (induction d e rule: dict_update.induct)
  case (2 d k v e)
  then have "k \<notin> dom (map_of e)" by (simp add: dom_map_of_conv_image_fst)
  with 2 show ?case by (auto simp: fun_eq_iff map_add_def split: option.splits)
qed simp

lemma distinct_dict_update: "distinct (map fst d) \<Longrightarrow> distinct (map fst (dict_update d e))"
  by (induction d e rule: dict_update.induct) (simp_all add: distinct_dict_set)

lemma map_of_dict_pop: "map_of (dict_pop k d) = (map_of d)(k := None)"
  by (induction d) (auto simp: dict_pop_def fun_eq_iff)

subsection \<open>Paths of the host\<close>

text \<open>\<open>os.path.normpath\<close>: empty components and single dots go, a double dot takes its parent with it.\<close>

fun norm_comps :: "bool \<Rightarrow> string list \<Rightarrow> string list \<Rightarrow> string list" where
  "norm_comps rooted new_comps [] = rev new_comps"
| "norm_comps rooted new_comps (cmp # comps) =
     (if cmp = [] \<or> cmp = ''.'' then norm_comps rooted new_comps comps
      else if cmp \<noteq> ''..'' \<or> (\<not> rooted \<and> new_comps = []) \<or> (new_comps \<noteq> [] \<and> hd new_comps = ''..'')
      then norm_comps rooted (cmp # new_comps) comps
      else norm_comps rooted (tl new_comps) comps)"

definition initial_slashes :: "string \<Rightarrow> string" where
  "initial_slashes path =
     (if startswith path ''//'' \<and> \<not> startswith path ''///'' then ''//''
      else if startswith path ''/'' then ''/'' else [])"

definition normpath :: "string \<Rightarrow> string" where
  "normpath path =
     (if path = [] then ''.''
      else let slashes = initial_slashes path;
               p = slashes @ str_join ''/'' (norm_comps (slashes \<noteq> []) [] (split_at ''/'' path))
           in if p = [] then ''.'' else p)"

definition abspath :: "config_host \<Rightarrow> string \<Rightarrow> string" where
  "abspath host path =
     normpath (if startswith path ''/'' then path else path_join [working_dir host, path])"

text \<open>\<open>os.path.expanduser\<close>: a user without a home directory leaves the path as it is.\<close>

definition expanduser :: "config_host \<Rightarrow> string \<Rightarrow> string" where
  "expanduser host path =
     (if \<not> startswith path ''~'' then path
      else let user = takeWhile (\<lambda>c. c \<noteq> CHR ''/'') (tl path);
               rest = dropWhile (\<lambda>c. c \<noteq> CHR ''/'') (tl path)
           in case user_home host user of
                None \<Rightarrow> path
              | Some home \<Rightarrow>
                  let p = rev (dropWhile (\<lambda>c. c = CHR ''/'') (rev home)) @ rest
                  in if p = [] then ''/'' else p)"

text \<open>\<open>utils.abs_path\<close>.\<close>

definition abs_path :: "config_host \<Rightarrow> string \<Rightarrow> string" where
  "abs_path host path = abspath host (expanduser host path)"

text \<open>The same on a value: only a string has the methods that the library calls.\<close>

definition abs_path_value :: "config_host \<Rightarrow> pyval \<Rightarrow> py_error + pyval" where
  "abs_path_value host v = (case v of PStr p \<Rightarrow> Inr (PStr (abs_path host p)) | _ \<Rightarrow> Inl AttributeError)"

lemma initial_slashes_rooted: "startswith path ''/'' \<Longrightarrow> startswith (initial_slashes path) ''/''"
  by (auto simp: initial_slashes_def startswith_def)

lemma normpath_rooted:
  assumes "startswith path ''/''"
  shows "startswith (normpath path) ''/''"
proof -
  from assms have "path \<noteq> []" by (auto simp: startswith_def)
  moreover obtain r where "initial_slashes path = CHR ''/'' # r"
    using initial_slashes_rooted [OF assms] by (cases "initial_slashes path") (auto simp: startswith_def)
  ultimately show ?thesis by (simp add: normpath_def Let_def startswith_def)
qed

lemma abspath_rooted:
  assumes "startswith (working_dir host) ''/''"
  shows "startswith (abspath host path) ''/''"
proof -
  have "startswith (path_join [working_dir host, path]) ''/''" if "\<not> startswith path ''/''"
    using assms that by (cases "working_dir host") (auto simp: path_join_def path_add_def startswith_def)
  then show ?thesis unfolding abspath_def by (auto intro: normpath_rooted)
qed

subsection \<open>Loading a file (utils.load\_config)\<close>

definition find_config :: "config_host \<Rightarrow> string \<Rightarrow> string list \<Rightarrow> string" where
  "find_config host file_full_path base_paths =
     (case find (is_file host) (map (\<lambda>b. path_join [b, file_full_path]) base_paths) of
        None \<Rightarrow> file_full_path | Some new_path \<Rightarrow> new_path)"

definition load_config :: "config_host \<Rightarrow> string \<Rightarrow> exc + pyval" where
  "load_config host file_full_path =
     (if is_file host file_full_path then read_json host file_full_path
      else case pythonpath host of
             None \<Rightarrow> Inl (Builtin KeyError)
           | Some pypath \<Rightarrow>
               read_json host (if pypath = [] then file_full_path
                               else find_config host file_full_path (split_at '':'' pypath)))"

subsection \<open>Validation\<close>

fun validate_keys :: "string list \<Rightarrow> pyval \<Rightarrow> exc + unit" where
  "validate_keys [] test_config = Inr ()"
| "validate_keys (k # ks) test_config =
     bindR (builtinR (py_contains test_config k)) (\<lambda>found.
       if found then validate_keys ks test_config
       else Inl (USERError (''Required key '' @ k @ '' missing in test config.'')))"

definition validate_test_config :: "pyval \<Rightarrow> exc + unit" where
  "validate_test_config test_config = validate_keys RESERVED_KEYS test_config"

text \<open>The characters of \<open>utils.valid_filename_chars\<close>.\<close>

definition valid_filename_char :: "char \<Rightarrow> bool" where
  "valid_filename_char c \<longleftrightarrow>
     c = CHR ''-'' \<or> c = CHR ''_'' \<or> c = CHR ''.'' \<or>
     (let n = of_char c :: nat in (97 \<le> n \<and> n \<le> 122) \<or> (65 \<le> n \<and> n \<le> 90) \<or> (48 \<le> n \<and> n \<le> 57))"

definition type_str :: "pyval \<Rightarrow> string" where
  "type_str v =
     ''<type '' @ [CHR 0x27] @
     (case v of PNone \<Rightarrow> ''NoneType'' | PBool _ \<Rightarrow> ''bool'' | PInt _ \<Rightarrow> ''int'' | PStr _ \<Rightarrow> ''unicode''
      | PList _ \<Rightarrow> ''list'' | PDict _ \<Rightarrow> ''dict'' | PObj _ \<Rightarrow> ''object'') @ [CHR 0x27] @ ''>''"

fun validate_chars :: "string \<Rightarrow> exc + unit" where
  "validate_chars [] = Inr ()"
| "validate_chars (l # ls) =
     (if \<not> valid_filename_char l
      then Inl (USERError (''Char '' @ [CHR 0x27, l, CHR 0x27] @ '' is not allowed in test bed names.''))
      else validate_chars ls)"

definition validate_testbed_name :: "pyval \<Rightarrow> exc + unit" where
  "validate_testbed_name name =
     (if \<not> truthy name
      then Inl (USERError (''Test bed names can'' @ [CHR 0x27] @ ''t be empty.''))
      else case name of
             PStr s \<Rightarrow> validate_chars s
           | _ \<Rightarrow> Inl (USERError (''Test bed names have to be string. Found: '' @ type_str name)))"

definition name_text :: "pyval \<Rightarrow> string" where
  "name_text v = (case v of PStr s \<Rightarrow> s | _ \<Rightarrow> [])"

fun validate_beds :: "pyval set \<Rightarrow> pyval list \<Rightarrow> exc + unit" where
  "validate_beds seen_names [] = Inr ()"
| "validate_beds seen_names (config # configs) =
     bindR (builtinR (py_getitem config KEY_TESTBED_NAME)) (\<lambda>name.
       bindR (validate_testbed_name name) (\<lambda>_.
         if name \<in> seen_names
         then Inl (USERError (''Duplicate testbed name '' @ name_text name @ '' found.''))
         else validate_beds (insert name seen_names) configs))"

definition validate_testbed_configs :: "pyval \<Rightarrow> exc + unit" where
  "validate_testbed_configs testbed_configs =
     bindR (builtinR (py_elements testbed_configs)) (validate_beds {})"

subsection \<open>The test beds of a file\<close>

definition DEFAULT_CONFIG_TEMPLATE :: "(string \<times> pyval) list" where
  "DEFAULT_CONFIG_TEMPLATE =
     [(''test_bed'', PDict [(''AndroidDevice'', PStr ''*'')]), (''log_path'', PStr ''/tmp/logs''),
      (''test_paths'', PList [PStr ''./'']), (''enable_web'', PBool False)]"

definition GetDefaultConfig :: "string \<Rightarrow> (string \<times> pyval) list" where
  "GetDefaultConfig cls_name =
     (case map_of DEFAULT_CONFIG_TEMPLATE KEY_TESTBED of
        Some (PDict bed) \<Rightarrow>
          dict_set KEY_TESTBED (PDict (dict_set KEY_TESTBED_NAME (PStr cls_name) bed))
            DEFAULT_CONFIG_TEMPLATE
      | _ \<Rightarrow> DEFAULT_CONFIG_TEMPLATE)"

fun filter_beds :: "string list \<Rightarrow> pyval list \<Rightarrow> exc + pyval list" where
  "filter_beds tb_filters [] = Inr []"
| "filter_beds tb_filters (tb # beds) =
     bindR (builtinR (py_getitem tb KEY_TESTBED_NAME)) (\<lambda>name.
       bindR (filter_beds tb_filters beds) (\<lambda>tbs.
         Inr (if name \<in> PStr ` set tb_filters then tb # tbs else tbs)))"

text \<open>\<open>None\<close>: the number of test beds found is not the number of names asked for.\<close>

definition select_beds :: "string list option \<Rightarrow> pyval \<Rightarrow> exc + pyval option" where
  "select_beds tb_filters configs =
     (case tb_filters of
        Some (f # fs) \<Rightarrow>
          bindR (builtinR (py_getitem configs KEY_TESTBED)) (\<lambda>v.
          bindR (builtinR (py_elements v)) (\<lambda>beds.
          bindR (filter_beds (f # fs) beds) (\<lambda>tbs.
            if length tbs \<noteq> length (f # fs) then Inr None
            else bindR (builtinR (py_setitem configs KEY_TESTBED (PList tbs))) (\<lambda>c. Inr (Some c)))))
      | _ \<Rightarrow> Inr (Some configs))"

definition with_baseline :: "(string \<times> pyval) list option \<Rightarrow> pyval \<Rightarrow> exc + pyval" where
  "with_baseline baseline_config configs =
     bindR (builtinR (py_contains configs KEY_TESTBED)) (\<lambda>found.
       case baseline_config of
         Some (b # bs) \<Rightarrow>
           if found then Inr configs
           else (case configs of PDict d \<Rightarrow> Inr (PDict (dict_update d (b # bs)))
                 | _ \<Rightarrow> Inl (Builtin AttributeError))
       | _ \<Rightarrow> Inr configs)"

text \<open>The protected block: the checked configuration, or the early return.\<close>

definition checked_configs ::
  "config_host \<Rightarrow> string \<Rightarrow> string list option \<Rightarrow> (string \<times> pyval) list option \<Rightarrow> exc + pyval option" where
  "checked_configs host test_config_path tb_filters baseline_config =
     bindR (load_config host test_config_path) (\<lambda>configs.
     bindR (with_baseline baseline_config configs) (\<lambda>configs.
     bindR (select_beds tb_filters configs) (\<lambda>selected. case selected of
       None \<Rightarrow> Inr None
     | Some configs \<Rightarrow>
         bindR (validate_test_config configs) (\<lambda>_.
         bindR (builtinR (py_getitem configs KEY_TESTBED)) (\<lambda>beds.
         bindR (validate_testbed_configs beds) (\<lambda>_.
         bindR (builtinR (py_getitem configs KEY_LOG_PATH)) (\<lambda>log_path.
         bindR (builtinR (abs_path_value host log_path)) (\<lambda>log_path.
         bindR (builtinR (py_setitem configs KEY_LOG_PATH log_path)) (\<lambda>configs.
         bindR (builtinR (py_getitem configs KEY_TEST_PATHS)) (\<lambda>tps.
           Inr (Some configs)))))))))))"

text \<open>
  One configuration per test bed: the entries of the bed are copied a level up. A bed that is not a dictionary has
  no name and was rejected above.
\<close>

fun unpack_beds :: "(string \<times> pyval) list \<Rightarrow> pyval list \<Rightarrow> exc + (string \<times> pyval) list list" where
  "unpack_beds configs [] = Inr []"
| "unpack_beds configs (bed # beds) =
     (case bed of
        PDict b \<Rightarrow>
          bindR (unpack_beds configs beds) (\<lambda>config_jsons.
            Inr (dict_update (dict_set KEY_TESTBED bed configs) b # config_jsons))
      | _ \<Rightarrow> Inl (Builtin TypeError))"

text \<open>\<open>except Exception\<close>: \<open>KeyboardInterrupt\<close> and \<open>SystemExit\<close> pass.\<close>

definition load_test_config_file ::
  "config_host \<Rightarrow> string \<Rightarrow> string list option \<Rightarrow> (string \<times> pyval) list option \<Rightarrow>
     exc + (string \<times> pyval) list list option" where
  "load_test_config_file host test_config_path tb_filters baseline_config =
     (case checked_configs host test_config_path tb_filters baseline_config of
        Inl e \<Rightarrow> if e = KeyboardInterrupt \<or> e = SystemExit then Inl e else Inr None
      | Inr None \<Rightarrow> Inr None
      | Inr (Some configs) \<Rightarrow>
          bindR (builtinR (py_getitem configs KEY_TESTBED)) (\<lambda>v.
          bindR (builtinR (py_elements v)) (\<lambda>beds.
            case configs of
              PDict d \<Rightarrow> bindR (unpack_beds (dict_pop KEY_TESTBED d) beds) (\<lambda>js. Inr (Some js))
            | _ \<Rightarrow> Inl (Builtin AttributeError))))"

subsection \<open>Test specifiers\<close>

definition validate_test_class_name :: "string \<Rightarrow> exc + unit" where
  "validate_test_class_name test_cls_name =
     (if \<not> endswith test_cls_name ''Test''
      then Inl (USERError (''Requested test class '' @ [CHR 0x27] @ test_cls_name @ [CHR 0x27] @
        '' does not follow the test class naming convention *Test.''))
      else Inr ())"

fun clean_case_names :: "string \<Rightarrow> string list \<Rightarrow> exc + string list" where
  "clean_case_names test_cls_name [] = Inr []"
| "clean_case_names test_cls_name (elem # elems) =
     (let test_case_name = strip elem in
      if \<not> startswith test_case_name ''test_''
      then Inl (USERError (''Requested test case '' @ [CHR 0x27] @ test_case_name @ [CHR 0x27] @
        '' in test class '' @ [CHR 0x27] @ test_cls_name @ [CHR 0x27] @
        '' does not follow the test case naming convention test_*.''))
      else bindR (clean_case_names test_cls_name elems) (\<lambda>clean_names. Inr (test_case_name # clean_names)))"

definition parse_one_test_specifier :: "string \<Rightarrow> exc + string \<times> string list option" where
  "parse_one_test_specifier item =
     (case split_at '':'' item of
        [test_cls_name] \<Rightarrow>
          bindR (validate_test_class_name test_cls_name) (\<lambda>_. Inr (test_cls_name, None))
      | [test_cls_name, test_case_names] \<Rightarrow>
          bindR (validate_test_class_name test_cls_name) (\<lambda>_.
          bindR (clean_case_names test_cls_name (split_at '','' test_case_names)) (\<lambda>clean_names.
            Inr (test_cls_name, Some clean_names)))
      | _ \<Rightarrow> Inl (USERError (''Syntax error in test specifier '' @ item)))"

definition parse_test_list :: "string list \<Rightarrow> exc + (string \<times> string list option) list" where
  "parse_test_list test_list = mapR parse_one_test_specifier test_list"

text \<open>
  A test file: empty lines are dropped, and a line goes on with the next one after a colon or a comma. The text is cut at its
  line feeds; what is left of a line end goes with the white space.
\<close>

definition continued :: "string list \<Rightarrow> bool" where
  "continued tf \<longleftrightarrow> tf \<noteq> [] \<and> (endswith (last tf) '':'' \<or> endswith (last tf) '','')"

fun test_file_lines :: "string list \<Rightarrow> string list \<Rightarrow> string list" where
  "test_file_lines tf [] = tf"
| "test_file_lines tf (l # ls) =
     (let line = strip l in
      if line = [] then test_file_lines tf ls
      else if continued tf then test_file_lines (butlast tf @ [last tf @ line]) ls
      else test_file_lines (tf @ [line]) ls)"

definition parse_test_file :: "config_host \<Rightarrow> string \<Rightarrow> exc + string list" where
  "parse_test_file host fpath =
     bindR (read_text host fpath) (\<lambda>text. Inr (test_file_lines [] (split_at [CHR 0x0A] text)))"

subsection \<open>What a file is unpacked to\<close>

text \<open>
  The specification: the dictionary of the file, completed from the base line if it has no test bed; the beds in the file or those of the
  wanted names; what makes a bed valid; and the configuration of one bed.
\<close>

definition config_base :: "(string \<times> pyval) list option \<Rightarrow> (string \<times> pyval) list \<Rightarrow> (string \<times> pyval) list" where
  "config_base baseline file =
     (case baseline of
        Some (b # bs) \<Rightarrow> if map_of file KEY_TESTBED \<noteq> None then file else dict_update file (b # bs)
      | _ \<Rightarrow> file)"

definition bed_name :: "pyval \<Rightarrow> pyval option" where
  "bed_name bed = (case bed of PDict b \<Rightarrow> map_of b KEY_TESTBED_NAME | _ \<Rightarrow> None)"

definition valid_bed_name :: "string \<Rightarrow> bool" where
  "valid_bed_name n \<longleftrightarrow> n \<noteq> [] \<and> list_all valid_filename_char n"

definition valid_bed :: "pyval \<Rightarrow> bool" where
  "valid_bed bed = (case bed_name bed of Some (PStr n) \<Rightarrow> valid_bed_name n | _ \<Rightarrow> False)"

definition chosen_beds :: "string list option \<Rightarrow> pyval list \<Rightarrow> pyval list" where
  "chosen_beds tb_filters l =
     (case tb_filters of
        Some (f # fs) \<Rightarrow> filter (\<lambda>b. bed_name b \<in> (Some \<circ> PStr) ` set (f # fs)) l
      | _ \<Rightarrow> l)"

definition selection_ok :: "string list option \<Rightarrow> pyval list \<Rightarrow> bool" where
  "selection_ok tb_filters l =
     (case tb_filters of
        Some (f # fs) \<Rightarrow>
          (\<forall>b \<in> set l. bed_name b \<noteq> None) \<and> length (chosen_beds tb_filters l) = length (f # fs)
      | _ \<Rightarrow> True)"

definition bed_config :: "(string \<times> pyval) list \<Rightarrow> string \<Rightarrow> (string \<times> pyval) list \<Rightarrow> (string \<times> pyval) list" where
  "bed_config base log_path bed =
     dict_update (dict_set KEY_TESTBED (PDict bed) (dict_pop KEY_TESTBED (dict_set KEY_LOG_PATH (PStr log_path) base))) bed"

lemma py_getitem_name: "py_getitem b KEY_TESTBED_NAME = Inr n \<longleftrightarrow> bed_name b = Some n"
  by (auto simp: py_getitem_Inr bed_name_def split: pyval.splits)

lemma validate_chars_iff: "validate_chars s = Inr () \<longleftrightarrow> list_all valid_filename_char s"
  by (induction s) auto

lemma validate_testbed_name_iff:
  "validate_testbed_name v = Inr () \<longleftrightarrow> (\<exists>n. v = PStr n \<and> valid_bed_name n)"
  by (cases v) (auto simp: validate_testbed_name_def truthy_def valid_bed_name_def validate_chars_iff)

lemma validate_beds_iff:
  "validate_beds seen l = Inr () \<longleftrightarrow>
     (\<forall>b \<in> set l. valid_bed b \<and> bed_name b \<notin> Some ` seen) \<and> distinct (map bed_name l)"
proof (induction l arbitrary: seen)
  case (Cons b l)
  have valid: "valid_bed b \<longleftrightarrow> (\<exists>n. bed_name b = Some (PStr n) \<and> valid_bed_name n)"
    by (auto simp: valid_bed_def split: option.splits pyval.splits)
  show ?case
  proof (cases "bed_name b")
    case None
    then show ?thesis by (auto simp: py_res py_getitem_name valid)
  next
    case (Some v)
    then have "py_getitem b KEY_TESTBED_NAME = Inr v" by (simp add: py_getitem_name)
    then have "validate_beds seen (b # l) = Inr () \<longleftrightarrow>
        validate_testbed_name v = Inr () \<and> v \<notin> seen \<and> validate_beds (insert v seen) l = Inr ()"
      by (auto simp: builtinR_def py_res)
    also have "\<dots> \<longleftrightarrow> valid_bed b \<and> v \<notin> seen \<and> validate_beds (insert v seen) l = Inr ()"
      by (auto simp: validate_testbed_name_iff valid Some)
    also have "\<dots> \<longleftrightarrow> (\<forall>b \<in> set (b # l). valid_bed b \<and> bed_name b \<notin> Some ` seen) \<and> distinct (map bed_name (b # l))"
      unfolding Cons.IH using Some by (auto intro: rev_image_eqI)
    finally show ?thesis .
  qed
qed simp

lemma validate_keys_iff:
  "validate_keys ks (PDict d) = Inr () \<longleftrightarrow> (\<forall>k \<in> set ks. map_of d k \<noteq> None)"
  by (induction ks) (auto simp: py_contains_def builtinR_def py_res)

lemma filter_beds_Inr:
  "filter_beds fs l = Inr r \<longleftrightarrow>
     (\<forall>b \<in> set l. bed_name b \<noteq> None) \<and> r = filter (\<lambda>b. bed_name b \<in> (Some \<circ> PStr) ` set fs) l"
proof (induction l arbitrary: r)
  case (Cons b l)
  then show ?case
    by (cases "bed_name b") (auto simp: py_res py_getitem_name image_image)
qed auto

lemma with_baseline_dict: "with_baseline baseline (PDict file) = Inr (PDict (config_base baseline file))"
  by (auto simp: with_baseline_def config_base_def py_contains_def builtinR_def split: option.split list.split)

definition wanted :: "string list option \<Rightarrow> bool" where
  "wanted tb_filters \<longleftrightarrow> tb_filters \<noteq> None \<and> tb_filters \<noteq> Some []"

lemma wanted_cases:
  obtains "\<not> wanted flt" "chosen_beds flt = id" "selection_ok flt = (\<lambda>_. True)"
    "select_beds flt = (\<lambda>c. Inr (Some c))"
  | f fs where "flt = Some (f # fs)" "wanted flt"
  by (cases flt rule: option.exhaust [case_product list.exhaust])
    (auto simp: wanted_def chosen_beds_def selection_ok_def select_beds_def fun_eq_iff split: list.split, metis list.exhaust)

definition selected_base :: "string list option \<Rightarrow> pyval list \<Rightarrow> (string \<times> pyval) list \<Rightarrow> (string \<times> pyval) list" where
  "selected_base tb_filters l base =
     (if wanted tb_filters then dict_set KEY_TESTBED (PList (chosen_beds tb_filters l)) base else base)"

lemma select_beds_dict:
  assumes "map_of base KEY_TESTBED = Some v" and "py_elements v = Inr l"
  shows "select_beds flt (PDict base) = Inr (Some c) \<longleftrightarrow>
    selection_ok flt l \<and> c = PDict (selected_base flt l base)"
proof (cases flt rule: wanted_cases)
  case (2 f fs)
  from assms have "py_getitem (PDict base) KEY_TESTBED = Inr v" by (simp add: py_getitem_Inr)
  with assms(2) have "select_beds flt (PDict base) = Inr (Some c) \<longleftrightarrow>
      (\<exists>tbs. filter_beds (f # fs) l = Inr tbs \<and> length tbs = length (f # fs) \<and>
        c = PDict (dict_set KEY_TESTBED (PList tbs) base))"
    by (auto simp: 2 select_beds_def builtinR_def py_setitem_def py_res split: if_splits)
  then show ?thesis
    using 2 by (auto simp: filter_beds_Inr selection_ok_def chosen_beds_def selected_base_def)
qed (auto simp: selected_base_def)

lemma select_beds_none:
  assumes "\<And>v. map_of base KEY_TESTBED = Some v \<Longrightarrow> \<exists>e. py_elements v = Inl e" and "wanted flt"
  shows "select_beds flt (PDict base) \<noteq> Inr (Some c)"
  using assms(2)
proof (cases flt rule: wanted_cases)
  case (2 f fs)
  with assms(1) show ?thesis
    by (fastforce simp: select_beds_def py_res py_getitem_Inr)
qed simp

text \<open>When the file is accepted, with what beds and what path of the logs.\<close>

definition file_accepted ::
  "string list option \<Rightarrow> (string \<times> pyval) list \<Rightarrow> pyval list \<Rightarrow> string \<Rightarrow> bool" where
  "file_accepted tb_filters base l p \<longleftrightarrow>
     (\<exists>v. map_of base KEY_TESTBED = Some v \<and> py_elements v = Inr l) \<and> selection_ok tb_filters l \<and>
     (\<forall>b \<in> set (chosen_beds tb_filters l). valid_bed b) \<and> distinct (map bed_name (chosen_beds tb_filters l)) \<and>
     map_of base KEY_LOG_PATH = Some (PStr p) \<and> map_of base KEY_TEST_PATHS \<noteq> None"

lemma selected_base_lookup:
  "k \<noteq> KEY_TESTBED \<Longrightarrow> map_of (selected_base flt l base) k = map_of base k"
  by (simp add: selected_base_def)

lemma selected_base_beds:
  assumes "map_of base KEY_TESTBED = Some v" and "py_elements v = Inr l"
  shows "\<exists>v'. map_of (selected_base flt l base) KEY_TESTBED = Some v' \<and> py_elements v' = Inr (chosen_beds flt l)"
  using assms by (cases flt rule: wanted_cases) (simp_all add: selected_base_def py_elements_def)

text \<open>The steps of the protected block after the selection all succeed, with the result \<open>c\<close>.\<close>

definition validated_to :: "config_host \<Rightarrow> pyval \<Rightarrow> pyval \<Rightarrow> bool" where
  "validated_to host d c \<longleftrightarrow>
     (\<exists>b u. validate_test_config d = Inr u \<and> py_getitem d KEY_TESTBED = Inr b \<and>
       (\<exists>u. validate_testbed_configs b = Inr u) \<and>
       (\<exists>w. py_getitem d KEY_LOG_PATH = Inr w \<and>
         (\<exists>a. abs_path_value host w = Inr a \<and> py_setitem d KEY_LOG_PATH a = Inr c \<and>
           (\<exists>t. py_getitem c KEY_TEST_PATHS = Inr t))))"

lemma validated_configs:
  assumes "map_of d KEY_TESTBED = Some v"
  shows "validated_to host (PDict d) c \<longleftrightarrow>
    (\<exists>l p. py_elements v = Inr l \<and> (\<forall>b \<in> set l. valid_bed b) \<and> distinct (map bed_name l) \<and>
      map_of d KEY_LOG_PATH = Some (PStr p) \<and> map_of d KEY_TEST_PATHS \<noteq> None \<and>
      c = PDict (dict_set KEY_LOG_PATH (PStr (abs_path host p)) d))" (is "?L \<longleftrightarrow> ?R")
proof -
  have beds: "(\<exists>u. validate_testbed_configs v = Inr u) \<longleftrightarrow>
      (\<exists>l. py_elements v = Inr l \<and> (\<forall>b \<in> set l. valid_bed b) \<and> distinct (map bed_name l))"
    by (auto simp: validate_testbed_configs_def py_res validate_beds_iff [where seen = "{}", simplified])
  have path: "abs_path_value host w = Inr a \<longleftrightarrow> (\<exists>p. w = PStr p \<and> a = PStr (abs_path host p))" for w a
    by (cases w) (auto simp: abs_path_value_def)
  have keys: "validate_test_config (PDict d) = Inr u \<longleftrightarrow>
      map_of d KEY_LOG_PATH \<noteq> None \<and> map_of d KEY_TEST_PATHS \<noteq> None" for u
    using assms unfolding validate_test_config_def by (simp add: validate_keys_iff) (simp add: RESERVED_KEYS_def)
  have other: "KEY_TEST_PATHS \<noteq> KEY_LOG_PATH" by (simp add: config_keys)
  have "?L \<longleftrightarrow> (\<exists>u. validate_testbed_configs v = Inr u) \<and> (\<exists>p. map_of d KEY_LOG_PATH = Some (PStr p) \<and>
      map_of d KEY_TEST_PATHS \<noteq> None \<and> c = PDict (dict_set KEY_LOG_PATH (PStr (abs_path host p)) d))"
    using assms other by (auto simp: validated_to_def keys py_getitem_Inr py_setitem_Inr path)
  then show ?thesis unfolding beds by blast
qed

lemma checked_configs_dict:
  assumes "load_config host path = Inr (PDict file)" and base: "base = config_base baseline file"
  shows "checked_configs host path flt baseline = Inr (Some c) \<longleftrightarrow>
    (\<exists>l p. file_accepted flt base l p \<and>
      c = PDict (dict_set KEY_LOG_PATH (PStr (abs_path host p)) (selected_base flt l base)))"
proof -
  have checked: "checked_configs host path flt baseline = Inr (Some c) \<longleftrightarrow>
      (\<exists>d. select_beds flt (PDict base) = Inr (Some d) \<and> validated_to host d c)"
    unfolding checked_configs_def assms(1) base with_baseline_dict bindR_simps validated_to_def
    by (auto simp: py_res split: option.splits)
  show ?thesis
  proof (cases "\<exists>v l. map_of base KEY_TESTBED = Some v \<and> py_elements v = Inr l")
    case True
    then obtain v l where vl: "map_of base KEY_TESTBED = Some v" "py_elements v = Inr l" by blast
    from selected_base_beds [OF vl, of flt] obtain v' where
      v': "map_of (selected_base flt l base) KEY_TESTBED = Some v'" "py_elements v' = Inr (chosen_beds flt l)"
      by blast
    have "map_of (selected_base flt l base) KEY_LOG_PATH = map_of base KEY_LOG_PATH"
      "map_of (selected_base flt l base) KEY_TEST_PATHS = map_of base KEY_TEST_PATHS"
      by (rule selected_base_lookup, simp add: config_keys)+
    then show ?thesis
      unfolding checked select_beds_dict [OF vl] file_accepted_def
      using vl v' by (auto simp: validated_configs [OF v'(1)])
  next
    case False
    then have "\<not> (\<exists>l p. file_accepted flt base l p)" by (auto simp: file_accepted_def)
    moreover have "checked_configs host path flt baseline \<noteq> Inr (Some c)"
    proof (cases "wanted flt")
      case True
      have "\<exists>e. py_elements v = Inl e" if "map_of base KEY_TESTBED = Some v" for v
        using False that by (cases "py_elements v") auto
      then show ?thesis unfolding checked using select_beds_none [OF _ True] by blast
    next
      case unwanted: False
      then have "select_beds flt (PDict base) = Inr (Some (PDict base))"
        by (cases flt rule: wanted_cases) simp_all
      then show ?thesis
        unfolding checked using False
        by (auto simp: validated_to_def py_getitem_Inr validate_testbed_configs_def py_res)
    qed
    ultimately show ?thesis by blast
  qed
qed

lemma dict_pop_set:
  "dict_pop k (dict_set k v d) = dict_pop k d"
  "k \<noteq> k' \<Longrightarrow> dict_pop k (dict_set k' v d) = dict_set k' v (dict_pop k d)"
  by (induction d) (auto simp: dict_pop_def)

lemma selected_base_pop: "dict_pop KEY_TESTBED (selected_base flt l base) = dict_pop KEY_TESTBED base"
  by (simp add: selected_base_def dict_pop_set)

lemma valid_bed_dict: "valid_bed b \<Longrightarrow> \<exists>d. b = PDict d"
  by (cases b) (auto simp: valid_bed_def bed_name_def)

lemma unpack_beds_dicts:
  "unpack_beds configs (map PDict bs) = Inr (map (\<lambda>b. dict_update (dict_set KEY_TESTBED (PDict b) configs) b) bs)"
  by (induction bs) simp_all

lemma valid_beds_dicts:
  assumes "\<forall>b \<in> set l. valid_bed b"
  shows "\<exists>bs. l = map PDict bs"
  using assms by (induction l) (auto dest!: valid_bed_dict, metis list.simps(9))

lemma bed_config_lookup:
  assumes "distinct (map fst bed)"
  shows "map_of (bed_config base p bed) k =
    (case map_of bed k of
       Some v \<Rightarrow> Some v
     | None \<Rightarrow> if k = KEY_TESTBED then Some (PDict bed)
               else if k = KEY_LOG_PATH then Some (PStr p) else map_of base k)"
  unfolding bed_config_def map_of_dict_update [OF assms]
  by (auto simp: map_add_def map_of_dict_pop split: option.split)

lemma load_test_config_file_some:
  assumes "load_config host path = Inr (PDict file)" and "base = config_base baseline file"
  shows "load_test_config_file host path flt baseline = Inr (Some js) \<longleftrightarrow>
    (\<exists>l p bs. file_accepted flt base l p \<and> chosen_beds flt l = map PDict bs \<and>
      js = map (bed_config base (abs_path host p)) bs)" (is "?L \<longleftrightarrow> ?R")
proof -
  have other: "KEY_TESTBED \<noteq> KEY_LOG_PATH" by (simp add: config_keys)
  have unpacked: "(bindR (builtinR (py_getitem c KEY_TESTBED)) (\<lambda>v. bindR (builtinR (py_elements v)) (\<lambda>beds.
        case c of PDict d \<Rightarrow> bindR (unpack_beds (dict_pop KEY_TESTBED d) beds) (\<lambda>js. Inr (Some js))
        | _ \<Rightarrow> Inl (Builtin AttributeError)))) = Inr (Some (map (bed_config base (abs_path host p)) bs))"
    if acc: "file_accepted flt base l p" and beds: "chosen_beds flt l = map PDict bs" and
      c: "c = PDict (dict_set KEY_LOG_PATH (PStr (abs_path host p)) (selected_base flt l base))" for c l p bs
  proof -
    from acc obtain v where v: "map_of base KEY_TESTBED = Some v" "py_elements v = Inr l"
      by (auto simp: file_accepted_def)
    from selected_base_beds [OF this, of flt] obtain v' where
      v': "map_of (selected_base flt l base) KEY_TESTBED = Some v'" "py_elements v' = Inr (map PDict bs)"
      using beds by auto
    then have "py_getitem c KEY_TESTBED = Inr v'" using other by (simp add: c py_getitem_def)
    with v' show ?thesis
      using other unfolding bed_config_def
      by (simp add: c builtinR_def unpack_beds_dicts dict_pop_set selected_base_pop)
  qed
  show ?thesis
  proof
    assume L: ?L
    then obtain c where c: "checked_configs host path flt baseline = Inr (Some c)"
      by (auto simp: load_test_config_file_def split: sum.splits option.splits if_splits)
    then obtain l p where acc: "file_accepted flt base l p"
      and ceq: "c = PDict (dict_set KEY_LOG_PATH (PStr (abs_path host p)) (selected_base flt l base))"
      using checked_configs_dict [OF assms] by blast
    moreover obtain bs where bs: "chosen_beds flt l = map PDict bs"
      using valid_beds_dicts acc by (auto simp: file_accepted_def)
    ultimately show ?R using L unpacked [OF acc bs ceq] c by (auto simp: load_test_config_file_def)
  next
    assume ?R
    then obtain l p bs where r: "file_accepted flt base l p" "chosen_beds flt l = map PDict bs"
      "js = map (bed_config base (abs_path host p)) bs" by blast
    let ?c = "PDict (dict_set KEY_LOG_PATH (PStr (abs_path host p)) (selected_base flt l base))"
    have "checked_configs host path flt baseline = Inr (Some ?c)"
      using checked_configs_dict [OF assms] r(1) by blast
    then show ?L
      using unpacked [OF r(1,2) refl] unfolding r(3) load_test_config_file_def by simp
  qed
qed

text \<open>What the checks raise: an error of the user or of an operation on a value of another shape.\<close>

definition raises_only :: "(exc \<Rightarrow> bool) \<Rightarrow> exc + 'a \<Rightarrow> bool" where
  "raises_only P r \<longleftrightarrow> (\<forall>e. r = Inl e \<longrightarrow> P e)"

definition config_error :: "exc \<Rightarrow> bool" where
  "config_error e \<longleftrightarrow> (\<exists>b. e = Builtin b) \<or> (\<exists>m. e = USERError m)"

named_theorems raises_rules "what a computation may raise"

lemma raises_basic [raises_rules]:
  "raises_only P (Inr v)"
  "raises_only config_error (Inl (USERError m))"
  "raises_only config_error (Inl (Builtin b))"
  "raises_only config_error (builtinR r)"
  by (auto simp: raises_only_def config_error_def dest: builtinR_Inl)

lemma raises_bindR [raises_rules]:
  "raises_only P m \<Longrightarrow> (\<And>x. raises_only P (f x)) \<Longrightarrow> raises_only P (bindR m f)"
  by (auto simp: raises_only_def py_res)

lemma raises_if [raises_rules]:
  "raises_only P a \<Longrightarrow> raises_only P b \<Longrightarrow> raises_only P (if c then a else b)"
  by simp

lemma raises_validate_keys [raises_rules]: "raises_only config_error (validate_keys ks c)"
  by (induction ks) (auto intro!: raises_rules)

lemma raises_validate_chars [raises_rules]: "raises_only config_error (validate_chars s)"
  by (induction s) (auto intro!: raises_rules)

lemma raises_validate_name [raises_rules]: "raises_only config_error (validate_testbed_name v)"
  unfolding validate_testbed_name_def by (auto intro!: raises_rules split: pyval.split)

lemma raises_validate_beds [raises_rules]: "raises_only config_error (validate_beds seen l)"
  by (induction l arbitrary: seen) (auto intro!: raises_rules)

lemma raises_filter_beds [raises_rules]: "raises_only config_error (filter_beds fs l)"
  by (induction l) (auto intro!: raises_rules)

lemma raises_select_beds [raises_rules]: "raises_only config_error (select_beds flt c)"
  unfolding select_beds_def by (auto intro!: raises_rules split: option.split list.split)

lemma raises_checked_configs:
  assumes "load_config host path = Inr (PDict file)"
  shows "raises_only config_error (checked_configs host path flt baseline)"
  unfolding checked_configs_def assms with_baseline_dict bindR_simps validate_test_config_def
    validate_testbed_configs_def
  by (auto intro!: raises_rules split: option.split)

lemma load_test_config_file_raises:
  assumes "load_config host path = Inr (PDict file)"
  shows "load_test_config_file host path flt baseline = Inr None \<or>
    (\<exists>js. load_test_config_file host path flt baseline = Inr (Some js))"
proof (cases "checked_configs host path flt baseline")
  case (Inr r)
  show ?thesis
  proof (cases r)
    case (Some c)
    with Inr have "checked_configs host path flt baseline = Inr (Some c)" by simp
    then obtain l p where acc: "file_accepted flt (config_base baseline file) l p"
      using checked_configs_dict [OF assms refl] by blast
    moreover obtain bs where "chosen_beds flt l = map PDict bs"
      using valid_beds_dicts acc by (auto simp: file_accepted_def)
    ultimately show ?thesis using load_test_config_file_some [OF assms refl] by blast
  qed (simp add: Inr load_test_config_file_def)
next
  case (Inl e)
  have "e \<noteq> KeyboardInterrupt \<and> e \<noteq> SystemExit"
    using raises_checked_configs [OF assms, of flt baseline] Inl by (auto simp: raises_only_def config_error_def)
  with Inl show ?thesis by (simp add: load_test_config_file_def)
qed

text \<open>(C12) \<open>load_test_config_file\<close> on a file that holds a JSON object: it returns None exactly if the file is not acceptable
  (a key, a path or the list of beds is missing or of another shape, a name is empty, repeated or has a character that a file
  name cannot have, or not every wanted bed is there), and otherwise one configuration per chosen bed, in order. In such
  a configuration an entry of the bed comes before the general one, \<open>test_bed\<close> is the bed, and the path of the logs is absolute
  unless the bed has its own.\<close>

theorem load_test_config_file_unpacks:
  assumes "load_config host path = Inr (PDict file)"
  shows "load_test_config_file host path flt baseline = Inr None \<and>
      (\<nexists>l p. file_accepted flt (config_base baseline file) l p) \<or>
    (\<exists>l p bs. file_accepted flt (config_base baseline file) l p \<and> chosen_beds flt l = map PDict bs \<and>
      load_test_config_file host path flt baseline =
        Inr (Some (map (bed_config (config_base baseline file) (abs_path host p)) bs)) \<and>
      (\<forall>b \<in> set bs. \<forall>k. distinct (map fst b) \<longrightarrow>
        map_of (bed_config (config_base baseline file) (abs_path host p) b) k =
        (case map_of b k of
           Some v \<Rightarrow> Some v
         | None \<Rightarrow> if k = KEY_TESTBED then Some (PDict b)
                   else if k = KEY_LOG_PATH then Some (PStr (abs_path host p))
                   else map_of (config_base baseline file) k)))"
proof (cases "\<exists>l p. file_accepted flt (config_base baseline file) l p")
  case True
  then obtain l p where acc: "file_accepted flt (config_base baseline file) l p" by blast
  moreover obtain bs where "chosen_beds flt l = map PDict bs"
    using valid_beds_dicts acc by (auto simp: file_accepted_def)
  ultimately show ?thesis
    using load_test_config_file_some [OF assms refl] bed_config_lookup by blast
next
  case False
  then have "load_test_config_file host path flt baseline \<noteq> Inr (Some js)" for js
    using load_test_config_file_some [OF assms refl] by blast
  then have "load_test_config_file host path flt baseline = Inr None"
    using load_test_config_file_raises [OF assms] by blast
  with False show ?thesis by blast
qed

definition demo_host :: config_host where
  "demo_host =
     \<lparr>is_file = (\<lambda>p. p = ''a.json''),
      read_json = (\<lambda>p. Inr (PDict [(''log_path'', PStr ''logs''), (''x'', PInt 1), (''test_paths'', PList []),
        (''test_bed'', PList [PDict [(''name'', PStr ''one'')], PDict [(''name'', PStr ''two''), (''x'', PInt 2)]])])),
      read_text = (\<lambda>p. Inr ''ATest''), pythonpath = None, user_home = (\<lambda>u. None), working_dir = ''/w''\<rparr>"

theorem load_test_config_file_unpacks_witness:
  "\<exists>js. load_test_config_file demo_host ''a.json'' (Some [''two'']) None = Inr (Some [js]) \<and> map_of js ''x'' = Some (PInt 2)"
proof -
  obtain fl where ld: "load_config demo_host ''a.json'' = Inr (PDict fl)"
    by (simp add: load_config_def demo_host_def)
  then have feq: "fl = [(''log_path'', PStr ''logs''), (''x'', PInt 1), (''test_paths'', PList []),
      (''test_bed'', PList [PDict [(''name'', PStr ''one'')], PDict [(''name'', PStr ''two''), (''x'', PInt 2)]])]"
    by (simp add: load_config_def demo_host_def)
  have "file_accepted (Some [''two'']) (config_base None fl)
      [PDict [(''name'', PStr ''one'')], PDict [(''name'', PStr ''two''), (''x'', PInt 2)]] ''logs''"
    unfolding feq by (simp add: file_accepted_def config_base_def config_keys py_elements_def selection_ok_def
        chosen_beds_def bed_name_def valid_bed_def valid_bed_name_def valid_filename_char_def)
  then show ?thesis
    using load_test_config_file_unpacks [OF ld, of "Some [''two'']" None]
    by (auto simp: file_accepted_def config_base_def feq config_keys py_elements_def chosen_beds_def bed_name_def)
qed

lemma split_at_single: "split_at [c] s = [x] \<longleftrightarrow> s = x \<and> c \<notin> set x"
  by (metis list.set_intros(1) split_at_char split_at_char_plain str_join.simps(2) str_join_split)

lemma split_at_pair: "split_at [c] s = [x, y] \<longleftrightarrow> s = x @ c # y \<and> c \<notin> set x \<and> c \<notin> set y"
proof
  assume *: "split_at [c] s = [x, y]"
  then have "s = x @ c # y" using str_join_split [of "[c]" s] by simp
  moreover have "c \<notin> set x" "c \<notin> set y" using * split_at_char [of _ c s] by simp_all
  ultimately show "s = x @ c # y \<and> c \<notin> set x \<and> c \<notin> set y" by blast
qed (simp add: split_at_char_append split_at_char_plain)

lemma split_at_char_join:
  "es \<noteq> [] \<Longrightarrow> list_all (\<lambda>e. c \<notin> set e) es \<Longrightarrow> split_at [c] (str_join [c] es) = es"
  by (induction "[c]" es rule: str_join.induct) (simp_all add: split_at_char_append split_at_char_plain)

lemma split_at_commas: "list_all (\<lambda>e. c \<notin> set e) (split_at [c] s)"
  by (auto simp: list_all_iff dest: split_at_char)

lemma colon_join: "d \<noteq> c \<Longrightarrow> d \<in> set (str_join [c] es) \<longleftrightarrow> (\<exists>e \<in> set es. d \<in> set e)"
  by (induction "[c]" es rule: str_join.induct) auto

lemma clean_case_names_Inr:
  "clean_case_names cls es = Inr ns \<longleftrightarrow> ns = map strip es \<and> list_all (\<lambda>n. startswith n ''test_'') ns"
proof (induction es arbitrary: ns)
  case (Cons e es)
  show ?case by (cases "startswith (strip e) ''test_''") (auto simp: Let_def py_res Cons.IH list_all_iff)
qed auto

text \<open>A test specifier is parsed to a class and to its tests exactly if it is the name of a class that ends with Test, alone
  or with a colon and a list of names separated by commas, which start with test\_ once the white space around them is dropped.\<close>

theorem parse_one_test_specifier_iff:
  "parse_one_test_specifier item = Inr (cls, names) \<longleftrightarrow>
     endswith cls ''Test'' \<and> CHR '':'' \<notin> set cls \<and>
     (case names of
        None \<Rightarrow> item = cls
      | Some ns \<Rightarrow> \<exists>elems. elems \<noteq> [] \<and> item = cls @ '':'' @ str_join '','' elems \<and>
          list_all (\<lambda>e. CHR '':'' \<notin> set e \<and> CHR '','' \<notin> set e) elems \<and>
          ns = map strip elems \<and> list_all (\<lambda>n. startswith n ''test_'') ns)"
proof (cases names)
  case None
  have "parse_one_test_specifier item = Inr (cls, None) \<longleftrightarrow>
      split_at '':'' item = [cls] \<and> endswith cls ''Test''"
    by (auto simp: parse_one_test_specifier_def validate_test_class_name_def py_res split: list.split)
  with None show ?thesis by (auto simp: split_at_single)
next
  case (Some ns)
  have "parse_one_test_specifier item = Inr (cls, Some ns) \<longleftrightarrow>
      (\<exists>rest. split_at '':'' item = [cls, rest] \<and> endswith cls ''Test'' \<and>
        clean_case_names cls (split_at '','' rest) = Inr ns)"
    by (auto simp: parse_one_test_specifier_def validate_test_class_name_def py_res split: list.split)
  also have "\<dots> \<longleftrightarrow> (\<exists>elems. split_at '':'' item = [cls, str_join '','' elems] \<and> endswith cls ''Test'' \<and>
        elems \<noteq> [] \<and> list_all (\<lambda>e. CHR '','' \<notin> set e) elems \<and> clean_case_names cls elems = Inr ns)"
    by (metis split_at_char_join str_join_split split_at_commas split_at_not_Nil)
  finally show ?thesis
    by (auto simp: Some split_at_pair clean_case_names_Inr colon_join list_all_iff)
qed

end
