(* ===== verification/Test_Logger.thy ===== *)
theory Test_Logger
  imports Py_Actions Test_Config
begin

section \<open>The log of a test run (runners/host/logger.py)\<close>

text \<open>
  The root logger of Python is state of the process: its handlers, and the path that the framework keeps in it. Every other
  record of a run extends \<open>process\<close>. What the host does with files is the record \<open>log_calls\<close> of calls on its own state
  \<open>'w\<close>; a call may raise. Time stamps in the format of the log lines are compared field by field.
\<close>

subsection \<open>Time stamps\<close>

definition py_unpack2 :: "string list \<Rightarrow> py_error + string \<times> string" where
  "py_unpack2 l = (case l of [a, b] \<Rightarrow> Inr (a, b) | _ \<Rightarrow> Inl ValueError)"

definition parse_logline_timestamp :: "string \<Rightarrow> py_error + string list" where
  "parse_logline_timestamp t =
     bindR (py_unpack2 (split_at '' '' t)) (\<lambda>(date, time).
     bindR (py_unpack2 (split_at ''-'' date)) (\<lambda>(month, day).
       case split_at '':'' time of
         [h, m, s] \<Rightarrow> bindR (py_unpack2 (split_at ''.'' s)) (\<lambda>(s, ms). Inr [month, day, h, m, s, ms])
       | _ \<Rightarrow> Inl ValueError))"

definition log_line_timestamp_len :: nat where "log_line_timestamp_len = 18"

text \<open>The pattern \<open>\d\d-\d\d \d\d:\d\d:\d\d.\d\d\d\<close>, one test per character; its dot is any character but a line feed.\<close>

definition is_digit :: "char \<Rightarrow> bool" where
  "is_digit c \<longleftrightarrow> (let n = of_char c :: nat in 48 \<le> n \<and> n \<le> 57)"

definition logline_timestamp_re :: "(char \<Rightarrow> bool) list" where
  "logline_timestamp_re =
     [is_digit, is_digit, (=) (CHR ''-''), is_digit, is_digit, (=) (CHR '' ''), is_digit, is_digit, (=) (CHR '':''),
      is_digit, is_digit, (=) (CHR '':''), is_digit, is_digit, (\<lambda>c. c \<noteq> CHR 0x0A), is_digit, is_digit, is_digit]"

definition isValidLogLineTimestamp :: "string \<Rightarrow> bool" where
  "isValidLogLineTimestamp timestamp \<longleftrightarrow>
     length timestamp = log_line_timestamp_len \<and> list_all2 (\<lambda>p c. p c) logline_timestamp_re timestamp"

text \<open>The order of Python's byte strings.\<close>

fun str_lt :: "string \<Rightarrow> string \<Rightarrow> bool" where
  "str_lt _ [] = False"
| "str_lt [] (_ # _) = True"
| "str_lt (a # as) (b # bs) =
     ((of_char a :: nat) < of_char b \<or> (a = b \<and> str_lt as bs))"

fun compare_fields :: "string list \<Rightarrow> string list \<Rightarrow> int" where
  "compare_fields (u1 # us1) (u2 # us2) =
     (if str_lt u1 u2 then - 1 else if str_lt u2 u1 then 1 else compare_fields us1 us2)"
| "compare_fields _ _ = 0"

definition logLineTimestampComparator :: "string \<Rightarrow> string \<Rightarrow> py_error + int" where
  "logLineTimestampComparator t1 t2 =
     bindR (parse_logline_timestamp t1) (\<lambda>dt1.
     bindR (parse_logline_timestamp t2) (\<lambda>dt2. Inr (compare_fields dt1 dt2)))"

definition normalizeLogLineTimestamp :: "string \<Rightarrow> string" where
  "normalizeLogLineTimestamp log_line_timestamp =
     str_replace (str_replace log_line_timestamp '' '' ''_'') '':'' ''-''"

subsection \<open>The root logger\<close>

datatype log_handler = StreamHandler string | FileHandler string string

record 'w process =
  handlers :: "log_handler list"
  logging_log_path :: "string option"
  proc_ticks :: nat
  proc_world :: 'w

record 'w log_calls =
  lc_host :: config_host
  lc_exists :: "string \<Rightarrow> 'w \<Rightarrow> bool"
  lc_makedirs :: "string \<Rightarrow> 'w \<Rightarrow> (exc + unit) \<times> 'w"
  lc_open_log :: "string \<Rightarrow> 'w \<Rightarrow> (exc + unit) \<times> 'w"
  lc_close_log :: "string \<Rightarrow> 'w \<Rightarrow> 'w"
  lc_symlink_supported :: bool
  lc_islink :: "string \<Rightarrow> 'w \<Rightarrow> bool"
  lc_remove :: "string \<Rightarrow> 'w \<Rightarrow> (exc + unit) \<times> 'w"
  lc_symlink :: "string \<Rightarrow> string \<Rightarrow> 'w \<Rightarrow> (exc + unit) \<times> 'w"
  lc_timestamp :: "'w \<Rightarrow> string \<times> 'w"

type_synonym ('w, 'z, 'a) proc_action = "(('w, 'z) process_scheme, 'a) action"

definition worldA :: "('w \<Rightarrow> (exc + 'a) \<times> 'w) \<Rightarrow> ('w, 'z, 'a) proc_action" where
  "worldA call s = (let (r, w) = call (proc_world s) in (r, s\<lparr>proc_world := w\<rparr>))"

definition utils_create_dir :: "'w log_calls \<Rightarrow> string \<Rightarrow> ('w, 'z, unit) proc_action" where
  "utils_create_dir C path =
     (let full_path = abs_path (lc_host C) path in
      getA proc_world (\<lambda>w.
        if \<not> lc_exists C full_path w then worldA (lc_makedirs C full_path) else returnA ()))"

text \<open>\<open>getLogFileTimestamp\<close>: the present time as text.\<close>

definition getLogFileTimestamp :: "'w log_calls \<Rightarrow> ('w, 'z, string) proc_action" where
  "getLogFileTimestamp C = worldA (\<lambda>w. let (t, w) = lc_timestamp C w in (Inr t, w))"

definition file_name :: "'w log_calls \<Rightarrow> string option \<Rightarrow> (string \<Rightarrow> ('w, 'z, 'a) proc_action) \<Rightarrow> ('w, 'z, 'a) proc_action" where
  "file_name C filename k = (case filename of None \<Rightarrow> bindA (getLogFileTimestamp C) k | Some f \<Rightarrow> k f)"

definition severity_level :: "string \<Rightarrow> string" where
  "severity_level s = (if s \<in> {''ERROR'', ''WARNING'', ''INFO'', ''DEBUG''} then s else ''INFO'')"

definition addHandler :: "log_handler \<Rightarrow> ('w, 'z, unit) proc_action" where
  "addHandler h = modifyA (\<lambda>s. s\<lparr>handlers := handlers s @ [h]\<rparr>)"

definition addLogFile :: "'w log_calls \<Rightarrow> string \<Rightarrow> string option \<Rightarrow> string \<Rightarrow> ('w, 'z, string) proc_action" where
  "addLogFile C log_path filename log_severity =
     file_name C filename (\<lambda>f.
       let path = path_join [log_path, f] in
       seqA (worldA (lc_open_log C path))
         (seqA (addHandler (FileHandler path (severity_level log_severity))) (returnA path)))"

fun remove_handlers :: "'w log_calls \<Rightarrow> log_handler list \<Rightarrow> ('w, 'z, unit) proc_action" where
  "remove_handlers C [] = returnA ()"
| "remove_handlers C (h # hs) =
     seqA (case h of FileHandler p _ \<Rightarrow> worldA (\<lambda>w. (Inr (), lc_close_log C p w)) | StreamHandler _ \<Rightarrow> returnA ())
       (seqA (modifyA (\<lambda>s. s\<lparr>handlers := remove1 h (handlers s)\<rparr>)) (remove_handlers C hs))"

definition killTestLogger :: "'w log_calls \<Rightarrow> ('w, 'z, unit) proc_action" where
  "killTestLogger C = getA handlers (remove_handlers C)"

text \<open>\<open>filename[:idx] + '_' + level + filename[idx:]\<close> with \<open>idx\<close> the last dot or the end.\<close>

definition level_file :: "string \<Rightarrow> string \<Rightarrow> string" where
  "level_file filename level =
     (let idx = (if CHR ''.'' \<in> set filename
                 then length filename - Suc (length (takeWhile (\<lambda>c. c \<noteq> CHR ''.'') (rev filename)))
                 else length filename)
      in take idx filename @ ''_'' @ level @ drop idx filename)"

definition DEFAULT_LOG_LEVELS :: "string list" where
  "DEFAULT_LOG_LEVELS = [''ERROR'', ''INFO'', ''DEBUG'']"

definition initiateTestLogger :: "'w log_calls \<Rightarrow> string \<Rightarrow> string option \<Rightarrow> string \<Rightarrow> ('w, 'z, unit) proc_action" where
  "initiateTestLogger C log_path filename log_severity =
     seqA (killTestLogger C)
       (seqA (addHandler (StreamHandler (severity_level log_severity)))
         (file_name C filename (\<lambda>f.
           seqA (if filename = None then utils_create_dir C log_path else returnA ())
             (seqA (for_eachA DEFAULT_LOG_LEVELS (\<lambda>level. addLogFile C log_path (Some (level_file f level)) level))
               (modifyA (\<lambda>s. s\<lparr>logging_log_path := Some log_path\<rparr>))))))"

definition dirname :: "string \<Rightarrow> string" where
  "dirname p =
     (let head = rev (dropWhile (\<lambda>c. c \<noteq> CHR ''/'') (rev p));
          stripped = rev (dropWhile (\<lambda>c. c = CHR ''/'') (rev head))
      in if stripped = [] then head else stripped)"

definition createLatestLogAlias :: "'w log_calls \<Rightarrow> string \<Rightarrow> ('w, 'z, unit) proc_action" where
  "createLatestLogAlias C actual_path =
     (let link_path = path_join [dirname actual_path, ''latest''] in
      getA proc_world (\<lambda>w.
        seqA (if lc_islink C link_path w then worldA (lc_remove C link_path) else returnA ())
          (worldA (lc_symlink C actual_path link_path))))"

definition setupTestLogger ::
  "'w log_calls \<Rightarrow> string \<Rightarrow> string option \<Rightarrow> string \<Rightarrow> bool \<Rightarrow> ('w, 'z, string) proc_action" where
  "setupTestLogger C log_path filename log_severity create_symlink =
     file_name C filename (\<lambda>f.
       seqA (utils_create_dir C log_path)
         (seqA (initiateTestLogger C log_path (Some f) log_severity)
           (seqA (if create_symlink \<and> lc_symlink_supported C then createLatestLogAlias C log_path else returnA ())
             (returnA (path_join [log_path, f])))))"

subsection \<open>The order of time stamps\<close>

lemma str_lt_append:
  "length u1 = length u2 \<Longrightarrow> str_lt (u1 @ v1) (u2 @ v2) \<longleftrightarrow> str_lt u1 u2 \<or> (u1 = u2 \<and> str_lt v1 v2)"
  by (induction u1 u2 rule: list_induct2) auto

lemma str_lt_total: "length u1 = length u2 \<Longrightarrow> u1 \<noteq> u2 \<Longrightarrow> str_lt u1 u2 \<or> str_lt u2 u1"
  by (induction u1 u2 rule: list_induct2) (auto simp: nat_neq_iff)

lemma str_lt_asym: "str_lt u v \<Longrightarrow> \<not> str_lt v u"
  by (induction u v rule: str_lt.induct) auto

lemma str_lt_irrefl [simp]: "\<not> str_lt u u"
  using str_lt_asym by blast

text \<open>The text of fields, each with the character that follows it.\<close>

fun joined :: "(string \<times> char) list \<Rightarrow> string \<Rightarrow> string" where
  "joined [] rest = rest"
| "joined ((u, c) # fs) rest = u @ c # joined fs rest"

definition order_of :: "string \<Rightarrow> string \<Rightarrow> int" where
  "order_of a b = (if a = b then 0 else if str_lt a b then - 1 else 1)"

lemma compare_fields_order:
  assumes "list_all2 (\<lambda>(u, c) (v, d). length u = length v \<and> c = d) fs gs" and "length x = length y"
  shows "compare_fields (map fst fs @ [x]) (map fst gs @ [y]) = order_of (joined fs x) (joined gs y)"
  using assms
proof (induction fs gs rule: list_all2_induct)
  case Nil
  then show ?case using str_lt_total [of x y] by (auto simp: order_of_def)
next
  case (Cons f fs g gs)
  obtain u c v where f: "f = (u, c)" "g = (v, c)" "length u = length v" using Cons(1) by (cases f; cases g) auto
  show ?case
  proof (cases "u = v")
    case True
    with Cons f show ?thesis by (auto simp: order_of_def str_lt_append)
  next
    case False
    with f(3) str_lt_total str_lt_asym have "str_lt u v \<longleftrightarrow> \<not> str_lt v u" by blast
    with False f show ?thesis by (simp add: order_of_def str_lt_append)
  qed
qed

lemma digits_plain: "is_digit c \<Longrightarrow> c \<noteq> CHR ''-'' \<and> c \<noteq> CHR '' '' \<and> c \<noteq> CHR '':'' \<and> c \<noteq> CHR ''.''"
  by (auto simp: is_digit_def)

lemma valid_timestamp_shape:
  assumes "isValidLogLineTimestamp t"
  obtains m1 m2 d1 d2 h1 h2 i1 i2 s1 s2 x y1 y2 y3 where
    "t = [m1, m2, CHR ''-'', d1, d2, CHR '' '', h1, h2, CHR '':'', i1, i2, CHR '':'', s1, s2, x, y1, y2, y3]"
    "list_all is_digit [m1, m2, d1, d2, h1, h2, i1, i2, s1, s2, y1, y2, y3]"
  using assms unfolding isValidLogLineTimestamp_def logline_timestamp_re_def list_all2_Cons1
  by auto

lemma split_fields:
  assumes "c \<notin> set u"
  shows "split_at [c] (u @ [c] @ v) = u # split_at [c] v"
  using split_at_char_append [OF assms] by simp

lemma parse_valid_timestamp:
  assumes "list_all is_digit [m1, m2, d1, d2, h1, h2, i1, i2, s1, s2, y1, y2, y3]"
  shows "parse_logline_timestamp
      [m1, m2, CHR ''-'', d1, d2, CHR '' '', h1, h2, CHR '':'', i1, i2, CHR '':'', s1, s2, x, y1, y2, y3] =
    (if x = CHR ''.'' then Inr [[m1, m2], [d1, d2], [h1, h2], [i1, i2], [s1, s2], [y1, y2, y3]]
     else Inl ValueError)"
proof -
  let ?time = "[h1, h2, CHR '':'', i1, i2, CHR '':'', s1, s2, x, y1, y2, y3]"
  let ?sec = "[s1, s2, x, y1, y2, y3]"
  have "list_all (\<lambda>c. c \<noteq> CHR ''-'' \<and> c \<noteq> CHR '' '' \<and> c \<noteq> CHR '':'' \<and> c \<noteq> CHR ''.'')
      [m1, m2, d1, d2, h1, h2, i1, i2, s1, s2, y1, y2, y3]"
    using assms digits_plain by (simp only: list_all_iff) blast
  then have plain: "list_all (\<lambda>c. CHR ''-'' \<noteq> c \<and> CHR '' '' \<noteq> c \<and> CHR '':'' \<noteq> c \<and> CHR ''.'' \<noteq> c)
      [m1, m2, d1, d2, h1, h2, i1, i2, s1, s2, y1, y2, y3]"
    by (simp only: list_all_iff) blast
  have outer: "split_at '' '' ([m1, m2, CHR ''-'', d1, d2] @ '' '' @ ?time) =
      [m1, m2, CHR ''-'', d1, d2] # split_at '' '' ?time"
    using plain by (intro split_fields) simp
  have date: "split_at ''-'' ([m1, m2] @ ''-'' @ [d1, d2]) = [[m1, m2], [d1, d2]]"
    using plain by (subst split_fields, simp, subst split_at_char_plain) simp_all
  have colons: "split_at '':'' ([h1, h2] @ '':'' @ [i1, i2] @ '':'' @ ?sec) = [h1, h2] # [i1, i2] # split_at '':'' ?sec"
    using plain by (subst split_fields, simp, subst split_fields) simp_all
  have single: "split_at [c] ?sec = (if x = c then [[s1, s2], [y1, y2, y3]] else [?sec])"
    if "c = CHR '':'' \<or> c = CHR ''.''" for c
  proof (cases "x = c")
    case True
    have "split_at [c] ([s1, s2] @ [c] @ [y1, y2, y3]) = [[s1, s2], [y1, y2, y3]]"
      using plain that by (subst split_fields, force, subst split_at_char_plain) auto
    with True show ?thesis by simp
  next
    case False
    then have "c \<notin> set ?sec" using plain that by auto
    with False show ?thesis by (simp add: split_at_char_plain)
  qed
  have spaces: "length (split_at '' '' ?time) = (if x = CHR '' '' then 2 else 1)"
    using plain by (auto simp: length_split_at_char)
  show ?thesis
  proof (cases "x = CHR '' ''")
    case True
    then have "py_unpack2 (split_at '' '' ([m1, m2, CHR ''-'', d1, d2] @ '' '' @ ?time)) = Inl ValueError"
      using spaces unfolding outer py_unpack2_def by (cases "split_at '' '' ?time") (auto split: list.split)
    with True show ?thesis by (simp add: parse_logline_timestamp_def)
  next
    case False
    then have "split_at '' '' ?time = [?time]" using plain by (intro split_at_char_plain) auto
    with outer date colons False single [of "CHR '':''"] single [of "CHR ''.''"] show ?thesis
      by (cases "x = CHR ''.''") (simp_all add: parse_logline_timestamp_def py_unpack2_def)
  qed
qed

text \<open>The comparator of time stamps agrees with the order of the texts: on two stamps that \<open>isValidLogLineTimestamp\<close> accepts
  and that have a dot before the milliseconds it returns 0 for equal ones, and otherwise -1 or 1 as the first text is before or
  after the second. Validity alone is not enough, since the dot of the pattern matches any character: a valid stamp without the
  dot makes the comparator raise.\<close>

theorem logLineTimestampComparator_orders:
  assumes "isValidLogLineTimestamp t1" and "isValidLogLineTimestamp t2"
  shows "logLineTimestampComparator t1 t2 =
    (if t1 ! 14 = CHR ''.'' \<and> t2 ! 14 = CHR ''.''
     then Inr (if t1 = t2 then 0 else if str_lt t1 t2 then - 1 else 1)
     else Inl ValueError)"
proof -
  obtain m1 m2 d1 d2 h1 h2 i1 i2 s1 s2 x y1 y2 y3 where
    t1: "t1 = [m1, m2, CHR ''-'', d1, d2, CHR '' '', h1, h2, CHR '':'', i1, i2, CHR '':'', s1, s2, x, y1, y2, y3]"
    and "list_all is_digit [m1, m2, d1, d2, h1, h2, i1, i2, s1, s2, y1, y2, y3]"
    using valid_timestamp_shape [OF assms(1)] .
  note p1 = parse_valid_timestamp [OF this(2), of x, folded t1]
  obtain M1 M2 D1 D2 H1 H2 I1 I2 S1 S2 X Y1 Y2 Y3 where
    t2: "t2 = [M1, M2, CHR ''-'', D1, D2, CHR '' '', H1, H2, CHR '':'', I1, I2, CHR '':'', S1, S2, X, Y1, Y2, Y3]"
    and "list_all is_digit [M1, M2, D1, D2, H1, H2, I1, I2, S1, S2, Y1, Y2, Y3]"
    using valid_timestamp_shape [OF assms(2)] .
  note p2 = parse_valid_timestamp [OF this(2), of X, folded t2]
  have nth: "t1 ! 14 = x" "t2 ! 14 = X" by (simp_all add: t1 t2)
  let ?F = "\<lambda>a b c d e. [(a, CHR ''-''), (b, CHR '' ''), (c, CHR '':''), (d, CHR '':''), (e, CHR ''.'')]"
  have "compare_fields [[m1, m2], [d1, d2], [h1, h2], [i1, i2], [s1, s2], [y1, y2, y3]]
      [[M1, M2], [D1, D2], [H1, H2], [I1, I2], [S1, S2], [Y1, Y2, Y3]] = order_of t1 t2"
    if "x = CHR ''.''" "X = CHR ''.''"
    using compare_fields_order [of "?F [m1, m2] [d1, d2] [h1, h2] [i1, i2] [s1, s2]"
        "?F [M1, M2] [D1, D2] [H1, H2] [I1, I2] [S1, S2]" "[y1, y2, y3]" "[Y1, Y2, Y3]"] that
    by (simp add: t1 t2 del: compare_fields.simps)
  then show ?thesis by (auto simp: logLineTimestampComparator_def p1 p2 nth order_of_def)
qed

theorem logLineTimestampComparator_orders_witness:
  "logLineTimestampComparator ''01-02 03:04:05.678'' ''01-02 03:04:15.000'' = Inr (- 1)"
  using logLineTimestampComparator_orders [of "''01-02 03:04:05.678''" "''01-02 03:04:15.000''"]
  by (simp add: isValidLogLineTimestamp_def logline_timestamp_re_def log_line_timestamp_len_def is_digit_def)

subsection \<open>The handlers of the root logger\<close>

fun closed_files :: "'w log_calls \<Rightarrow> log_handler list \<Rightarrow> 'w \<Rightarrow> 'w" where
  "closed_files C [] w = w"
| "closed_files C (FileHandler p _ # hs) w = closed_files C hs (lc_close_log C p w)"
| "closed_files C (StreamHandler _ # hs) w = closed_files C hs w"

lemma remove_handlers_all:
  "handlers s = hs \<Longrightarrow>
   remove_handlers C hs s = (Inr (), s\<lparr>handlers := [], proc_world := closed_files C hs (proc_world s)\<rparr>)"
proof (induction hs arbitrary: s)
  case (Cons h hs)
  then show ?case by (cases h) (simp_all add: action_defs worldA_def Cons.IH)
qed (simp add: returnA_def)

lemma killTestLogger_all:
  "killTestLogger C s = (Inr (), s\<lparr>handlers := [], proc_world := closed_files C (handlers s) (proc_world s)\<rparr>)"
  by (simp add: killTestLogger_def getA_def remove_handlers_all)

lemma worldA_result: "worldA c s = (r, s') \<Longrightarrow> s' = s\<lparr>proc_world := proc_world s'\<rparr>"
  by (auto simp: worldA_def split: prod.splits)

lemma worldA_handlers: "worldA c s = (r, s') \<Longrightarrow> handlers s' = handlers s"
  by (auto simp: worldA_def split: prod.splits)

lemma addLogFile_handlers:
  "addLogFile C lp (Some f) sev s = (Inr p, s') \<Longrightarrow>
   p = path_join [lp, f] \<and> handlers s' = handlers s @ [FileHandler p (severity_level sev)]"
  by (auto simp: addLogFile_def file_name_def Let_def seqA_Inr addHandler_def modifyA_def returnA_def
      dest!: worldA_handlers)

lemma log_files_handlers:
  "for_eachA ls (\<lambda>l. addLogFile C lp (Some (level_file f l)) l) s = (Inr u, s') \<Longrightarrow>
   handlers s' = handlers s @ map (\<lambda>l. FileHandler (path_join [lp, level_file f l]) (severity_level l)) ls"
  by (induction ls arbitrary: s) (auto simp: returnA_def seqA_Inr dest!: addLogFile_handlers)

lemma utils_create_dir_handlers: "utils_create_dir C p s = (r, s') \<Longrightarrow> handlers s' = handlers s"
  by (auto simp: utils_create_dir_def Let_def getA_def returnA_def split: if_splits dest: worldA_handlers)

lemma createLatestLogAlias_handlers: "createLatestLogAlias C p s = (Inr u, s') \<Longrightarrow> handlers s' = handlers s"
  by (auto simp: createLatestLogAlias_def Let_def getA_def seqA_Inr returnA_def split: if_splits dest!: worldA_handlers)

text \<open>Whatever handlers there were, the set up leaves the console and one file per level.\<close>

lemma setupTestLogger_handlers:
  fixes s :: "('w, 'z) process_scheme"
  assumes "setupTestLogger C lp (Some f) sev symlink s = (Inr p, s')"
  shows "handlers s' = StreamHandler (severity_level sev) #
    map (\<lambda>l. FileHandler (path_join [lp, level_file f l]) l) DEFAULT_LOG_LEVELS"
proof -
  from assms obtain s1 s2 :: "('w, 'z) process_scheme" where
    s2: "initiateTestLogger C lp (Some f) sev s1 = (Inr (), s2)" and s': "handlers s' = handlers s2"
    by (simp add: setupTestLogger_def file_name_def seqA_Inr returnA_def split: if_splits)
      (blast dest: createLatestLogAlias_handlers)+
  from s2 have "handlers s2 = StreamHandler (severity_level sev) #
      map (\<lambda>l. FileHandler (path_join [lp, level_file f l]) (severity_level l)) DEFAULT_LOG_LEVELS"
    by (auto simp: initiateTestLogger_def file_name_def seqA_Inr killTestLogger_all addHandler_def modifyA_def returnA_def
        dest!: log_files_handlers)
  moreover have "map severity_level DEFAULT_LOG_LEVELS = DEFAULT_LOG_LEVELS"
    by (simp add: DEFAULT_LOG_LEVELS_def severity_level_def)
  ultimately show ?thesis using s' by (simp add: DEFAULT_LOG_LEVELS_def)
qed

end
