(* ===== verification/Test_Runner.thy ===== *)
theory Test_Runner
  imports Test_Logger Test_Execution
begin

section \<open>The test runner (runners/host/test\_runner.py)\<close>

text \<open>
  A \<open>TestRunner\<close> turns one configuration into one test run: it keeps the controllers that a test class registers, builds the test
  object, runs it, destroys the controllers and merges the results. Its attributes are the record \<open>runner\<close>, which extends the
  state of the process. While a test class runs, the runner is the \<^const>\<open>world\<close> of the test object, so that a hook can call
  \<open>registerController\<close>.

  Parameters are the controller modules, the test classes (their hooks, attributes and \<open>cleanUp\<close>), the import of a module, the
  feature objects that the constructor of the test class builds (web, coverage, profiling, systrace, log uploading), and the host. The
  events of the instrumentation and the thread that watches the standard input are left out.
\<close>

subsection \<open>Controllers, test classes and the host\<close>

text \<open>
  A controller module: an attribute may be missing (\<^const>\<open>None\<close>) or null (\<^term>\<open>Some None\<close>); \<open>create\<close> may return something that
  is not a list (\<^const>\<open>None\<close>).
\<close>

type_synonym ('c, 'w) destructor = "'c list \<Rightarrow> 'w \<Rightarrow> (exc + unit) \<times> 'w"

record ('c, 'w) controller_module =
  cm_name :: string
  cm_list_adb_devices :: "('w \<Rightarrow> (exc + unit) \<times> 'w) option"
  cm_create :: "(pyval \<Rightarrow> pyval \<Rightarrow> 'w \<Rightarrow> (exc + 'c list option) \<times> 'w) option option"
  cm_destroy :: "('c, 'w) destructor option option"
  VTS_CONTROLLER_CONFIG_NAME :: "string option option"

record ('c, 'w) runner = "'w process" +
  test_run_info :: "(string \<times> pyval) list"
  test_configs :: "(string \<times> pyval) list"
  testbed_configs :: pyval
  testbed_name :: string
  run_id :: string
  tr_log_path :: string
  log_severity :: string
  controller_registry :: "(string \<times> 'c list) list"
  controller_destructors :: "(string \<times> ('c, 'w) destructor) list"
  run_list :: "(string \<times> string list option) list"
  tr_results :: test_result
  tr_running :: bool
  test_cls_instances :: "test_result list"

record ('c, 'w) test_class =
  tc_name :: string
  tc_env :: "('c, 'w) runner env"
  tc_attrs :: "(string \<times> (('c, 'w) runner, pyval) bt_action option) list"
  tc_cleanUp :: "(('c, 'w) runner, pyval) bt_action"

record ('c, 'w) runner_calls = "'w log_calls" +
  rc_str_exc :: "exc \<Rightarrow> string"
  rc_clk :: "nat \<Rightarrow> int"
  rc_features :: "pyval \<Rightarrow> 'w \<Rightarrow> (exc + bool \<times> bool) \<times> 'w"
  rc_walk :: "string \<Rightarrow> 'w \<Rightarrow> (string \<times> string list) list"
  rc_import :: "string \<Rightarrow> string \<Rightarrow> 'w \<Rightarrow> (exc + (string \<times> ('c, 'w) test_class option) list) \<times> 'w"
  rc_write_summary :: "string \<Rightarrow> pyval \<Rightarrow> 'w \<Rightarrow> (exc + unit) \<times> 'w"

type_synonym ('c, 'w, 'a) tr_action = "(('c, 'w) runner, 'a) action"

definition host_calls :: "('c, 'w) runner_calls \<Rightarrow> 'w log_calls" where
  "host_calls C = log_calls.truncate C"

subsection \<open>Construction\<close>

definition upper_char :: "char \<Rightarrow> char" where
  "upper_char c = (let n = of_char c :: nat in if 97 \<le> n \<and> n \<le> 122 then char_of (n - 32) else c)"

definition severity_of :: "(string \<times> pyval) list \<Rightarrow> py_error + string" where
  "severity_of configs =
     (case map_of configs KEY_LOG_SEVERITY of
        None \<Rightarrow> Inr ''INFO''
      | Some (PStr s) \<Rightarrow> Inr (map upper_char s)
      | Some _ \<Rightarrow> Inl AttributeError)"

text \<open>\<open>os.path.join\<close> wants strings.\<close>

definition py_string :: "pyval \<Rightarrow> py_error + string" where
  "py_string v = (case v of PStr s \<Rightarrow> Inr s | _ \<Rightarrow> Inl AttributeError)"

text \<open>\<open>getattr(test_configs, 'data_file_path', './')\<close>: a dictionary has no such attribute.\<close>

definition IKEY_DATA_FILE_PATH :: string where "IKEY_DATA_FILE_PATH = ''data_file_path''"
definition IKEY_TESTBED_NAME :: string where "IKEY_TESTBED_NAME = ''testbed_name''"
definition IKEY_LOG_PATH :: string where "IKEY_LOG_PATH = ''log_path''"
definition IKEY_USER_PARAM :: string where "IKEY_USER_PARAM = ''user_params''"

definition data_file_path_attr :: "(string \<times> pyval) list \<Rightarrow> pyval" where
  "data_file_path_attr configs = PStr ''./''"

definition TestRunner ::
  "('c, 'w) runner_calls \<Rightarrow> (string \<times> pyval) list \<Rightarrow> (string \<times> string list option) list \<Rightarrow>
     ('w process, ('c, 'w) runner) action" where
  "TestRunner C configs rlist =
     bindA (liftA (builtinR (py_getitem (PDict configs) KEY_TESTBED))) (\<lambda>bed_configs.
     bindA (liftA (builtinR (py_getitem bed_configs KEY_TESTBED_NAME))) (\<lambda>name.
     bindA (getLogFileTimestamp (host_calls C)) (\<lambda>start_time.
     bindA (liftA (builtinR (bindR (py_getitem (PDict configs) KEY_LOG_PATH) py_string))) (\<lambda>lpath.
     bindA (liftA (builtinR (py_string name))) (\<lambda>bed.
     bindA (liftA (builtinR (severity_of configs))) (\<lambda>severity.
       let log_path = abspath (lc_host C) (path_join [lpath, bed, start_time]) in
       seqA (setupTestLogger (host_calls C) log_path (Some ''test_run_details.txt'') severity True)
         (\<lambda>p. (Inr (process.extend p
            \<lparr>test_run_info = [(IKEY_DATA_FILE_PATH, data_file_path_attr configs)], test_configs = configs,
             testbed_configs = bed_configs, testbed_name = bed, run_id = bed @ ''@'' @ start_time,
             tr_log_path = log_path, log_severity = severity, controller_registry = [], controller_destructors = [],
             run_list = rlist, tr_results = TestResult, tr_running = False, test_cls_instances = []\<rparr>), p))))))))"

subsection \<open>Controllers\<close>

definition require_attr :: "string \<Rightarrow> string \<Rightarrow> ('a \<Rightarrow> bool) \<Rightarrow> 'a option option \<Rightarrow> exc + 'a" where
  "require_attr module attr ok v =
     (case v of
        None \<Rightarrow> Inl (OtherException (''Module '' @ module @ '' missing required controller module attribute '' @ attr @ ''.''))
      | Some w \<Rightarrow>
          (case w of
             Some a \<Rightarrow> if ok a then Inr a
               else Inl (OtherException (''Controller interface '' @ attr @ '' in '' @ module @ '' cannot be null.''))
           | None \<Rightarrow> Inl (OtherException (''Controller interface '' @ attr @ '' in '' @ module @ '' cannot be null.''))))"

definition verifyControllerModule ::
  "('c, 'w) controller_module \<Rightarrow>
     exc + (pyval \<Rightarrow> pyval \<Rightarrow> 'w \<Rightarrow> (exc + 'c list option) \<times> 'w) \<times> ('c, 'w) destructor \<times> string" where
  "verifyControllerModule m =
     bindR (require_attr (cm_name m) ''create'' (\<lambda>_. True) (cm_create m)) (\<lambda>create.
     bindR (require_attr (cm_name m) ''destroy'' (\<lambda>_. True) (cm_destroy m)) (\<lambda>destroy.
     bindR (require_attr (cm_name m) ''VTS_CONTROLLER_CONFIG_NAME'' (\<lambda>n. n \<noteq> []) (VTS_CONTROLLER_CONFIG_NAME m)) (\<lambda>name.
       Inr (create, destroy, name))))"

text \<open>A copy of the configuration in which every device has the severity of the log.\<close>

definition with_severity :: "string \<Rightarrow> pyval \<Rightarrow> pyval" where
  "with_severity severity controller_config =
     (case controller_config of
        PList l \<Rightarrow> PList (map (\<lambda>c. case c of PDict d \<Rightarrow> PDict (dict_set ''log_severity'' (PStr severity) d) | _ \<Rightarrow> c) l)
      | _ \<Rightarrow> controller_config)"

definition list_devices :: "('c, 'w) controller_module \<Rightarrow> ('c, 'w, unit) tr_action" where
  "list_devices m =
     (case cm_list_adb_devices m of None \<Rightarrow> raiseA (Builtin AttributeError) | Some f \<Rightarrow> worldA f)"

text \<open>From the configuration of the module to its objects: the block that ends with \<open>create\<close>.\<close>

definition create_objects ::
  "(pyval \<Rightarrow> pyval \<Rightarrow> 'w \<Rightarrow> (exc + 'c list option) \<times> 'w) \<Rightarrow> string \<Rightarrow> bool \<Rightarrow> ('c, 'w, 'c list option) tr_action" where
  "create_objects create module_config_name start_services =
     getA testbed_configs (\<lambda>bed.
     bindA (liftA (builtinR (py_contains bed module_config_name))) (\<lambda>configured.
       if \<not> configured
       then raiseA (OtherException (''No corresponding config found for '' @ module_config_name))
       else getA log_severity (\<lambda>severity.
         bindA (liftA (builtinR (py_getitem bed module_config_name))) (\<lambda>original_config.
         bindA (liftA (builtinR (py_contains bed ''use_vts_agent''))) (\<lambda>has_agent.
         bindA (if \<not> has_agent then returnA (PBool start_services)
                else liftA (builtinR (py_getitem bed ''use_vts_agent''))) (\<lambda>start.
           worldA (create (with_severity severity original_config) start)))))))"

definition registerController ::
  "('c, 'w) controller_module \<Rightarrow> bool \<Rightarrow> ('c, 'w, 'c list) tr_action" where
  "registerController m start_services =
     seqA (list_devices m)
       (bindA (liftA (verifyControllerModule m)) (\<lambda>(create, destroy, module_config_name).
         let module_ref_name = last (split_at ''.'' (cm_name m)) in
         getA (\<lambda>s. map_of (controller_registry s) module_ref_name \<noteq> None) (\<lambda>registered.
         if registered
         then raiseA (OtherException (''Controller module '' @ module_ref_name @
           '' has already been registered. It can not be registered again.''))
         else bindA (create_objects create module_config_name start_services) (\<lambda>objects.
           case objects of
             None \<Rightarrow> raiseA (OtherException (''Controller module '' @ module_ref_name @
               '' did not return a list of objects, abort.''))
           | Some objs \<Rightarrow>
               seqA (modifyA (\<lambda>s. s\<lparr>controller_registry := dict_set module_ref_name objs (controller_registry s)\<rparr>))
                 (seqA (modifyA (\<lambda>s. s\<lparr>controller_destructors :=
                    dict_set module_ref_name destroy (controller_destructors s)\<rparr>))
                   (returnA objs))))))"

text \<open>
  \<open>unregisterControllers\<close>: the decorator's alarm raises \<open>TimeoutError\<close> in the call that is being made, where the handler of the
  loop catches it as every other exception.
\<close>

definition destroy_one :: "string \<times> ('c, 'w) destructor \<Rightarrow> ('c, 'w, unit) tr_action" where
  "destroy_one nd =
     catchA (getA (\<lambda>s. map_of (controller_registry s) (fst nd)) (\<lambda>objs.
       case objs of None \<Rightarrow> raiseA (Builtin KeyError) | Some os \<Rightarrow> worldA (snd nd os))) (\<lambda>_. returnA ())"

definition unregisterControllers :: "('c, 'w, unit) tr_action" where
  "unregisterControllers =
     seqA (getA controller_destructors (\<lambda>ds. for_eachA ds destroy_one))
       (modifyA (\<lambda>s. s\<lparr>controller_registry := [], controller_destructors := []\<rparr>))"

definition user_param_pairs :: "(string \<times> pyval) list \<Rightarrow> (string \<times> pyval) list" where
  "user_param_pairs configs = filter (\<lambda>item. fst item \<notin> set RESERVED_KEYS) configs"

text \<open>The bound method \<open>registerController\<close> is an object of its own.\<close>

definition parseTestConfig :: "(string \<times> pyval) list \<Rightarrow> ('c, 'w, unit) tr_action" where
  "parseTestConfig configs =
     modifyA (\<lambda>s. s\<lparr>test_run_info :=
       dict_set IKEY_USER_PARAM (PDict (user_param_pairs configs))
         (dict_set IKEY_LOG_PATH (PStr (tr_log_path s))
           (dict_set ''registerController'' (PObj 0)
             (dict_set IKEY_TESTBED_NAME (PStr (testbed_name s)) (test_run_info s))))\<rparr>)"

subsection \<open>The constructor of the test class (runners/host/base\_test.py)\<close>

definition KEY_TEST_TIMEOUT :: string where "KEY_TEST_TIMEOUT = ''test_timeout''"
definition KEY_TEST_SUITE :: string where "KEY_TEST_SUITE = ''test_suite''"
definition KEY_INCLUDE_FILTER :: string where "KEY_INCLUDE_FILTER = ''include_filter''"
definition KEY_EXCLUDE_FILTER :: string where "KEY_EXCLUDE_FILTER = ''exclude_filter''"
definition KEY_EXCLUDE_OVER_INCLUDE :: string where "KEY_EXCLUDE_OVER_INCLUDE = ''exclude_over_include''"

definition DEFAULT_TEST_TIMEOUT_SECS :: int where "DEFAULT_TEST_TIMEOUT_SECS = 60 * 3"

text \<open>
  The timeout in seconds. In Python 2 every number and None are less than every string, list and dictionary, so those pass the
  comparison and cannot be divided.
\<close>

definition timeout_secs :: "pyval \<Rightarrow> py_error + int" where
  "timeout_secs timeout_milli =
     (case timeout_milli of
        PNone \<Rightarrow> Inr DEFAULT_TEST_TIMEOUT_SECS
      | PBool b \<Rightarrow> Inr (if b then 0 else DEFAULT_TEST_TIMEOUT_SECS)
      | PInt i \<Rightarrow> Inr (if i > 0 then i div 1000 else DEFAULT_TEST_TIMEOUT_SECS)
      | _ \<Rightarrow> Inl TypeError)"

definition str_of :: "(pyval \<Rightarrow> string) \<Rightarrow> pyval \<Rightarrow> string" where
  "str_of str_fn v = (case v of PStr s \<Rightarrow> s | _ \<Rightarrow> str_fn v)"

text \<open>
  The patterns of one filter: what \<open>ItemsToStr\<close> and \<open>ExpandItemDelimiters\<close> make of the parameter. None stays None, which \<open>Filter\<close> cannot use:
  it iterates over the patterns to include and extends those to exclude.
\<close>

definition filter_items :: "(pyval \<Rightarrow> string) \<Rightarrow> py_error \<Rightarrow> pyval \<Rightarrow> exc + string list" where
  "filter_items str_fn none_error v =
     (if v = PNone then Inl (Builtin none_error)
      else bindR (builtinR (py_elements v)) (\<lambda>items.
           bindR (builtinR (ExpandItemDelimiters (ItemsToStr (str_of str_fn) (Some items)) '','' False False True)) (\<lambda>l.
             case l of None \<Rightarrow> Inl (Builtin none_error) | Some xs \<Rightarrow> Inr xs)))"

definition updateTestFilter ::
  "regex_engine \<Rightarrow> (pyval \<Rightarrow> string) \<Rightarrow> pyval \<Rightarrow> string \<Rightarrow> pyval \<Rightarrow> pyval \<Rightarrow> exc + name_filter" where
  "updateTestFilter E str_fn params mod_name inc exc =
     bindR (filter_items str_fn TypeError inc) (\<lambda>inc_list.
     bindR (filter_items str_fn AttributeError exc) (\<lambda>exc_list.
     bindR (getUserParam str_fn params (OneName KEY_EXCLUDE_OVER_INCLUDE) False PNone False) (\<lambda>over.
       let (a, h) = new_list inc_list module_store; (b, h) = new_list exc_list h in
       Inr (Filter_init E h a b True (if over = PNone then None else Some (truthy over)) True True (Some mod_name) True))))"

definition bitness_attr :: "pyval \<Rightarrow> string option" where
  "bitness_attr v = (case v of PNone \<Rightarrow> None | PStr s \<Rightarrow> Some s | _ \<Rightarrow> Some [])"

text \<open>The retry count has to be a number: the class computes \<open>range(max_retry_count + 1)\<close> with it.\<close>

definition retry_attr :: "pyval \<Rightarrow> exc + int" where
  "retry_attr v =
     (case v of PInt i \<Rightarrow> Inr i | PBool b \<Rightarrow> Inr (if b then 1 else 0) | _ \<Rightarrow> Inl (Builtin TypeError))"

text \<open>
  The attributes that the constructor reads from the user parameters. A flag is only tested for its truth; a bitness that is not a string
  equals neither of the two strings it is compared with, as the empty one.
\<close>

definition user_value :: "(pyval \<Rightarrow> string) \<Rightarrow> pyval \<Rightarrow> string \<Rightarrow> pyval \<Rightarrow> exc + pyval" where
  "user_value str_fn params key dflt = getUserParam str_fn params (OneName key) False dflt False"

definition user_bool :: "(pyval \<Rightarrow> string) \<Rightarrow> pyval \<Rightarrow> string \<Rightarrow> bool \<Rightarrow> exc + bool" where
  "user_bool str_fn params key dflt =
     bindR (user_value str_fn params key (PBool dflt)) (\<lambda>v. Inr (truthy v))"

definition BaseTestClass ::
  "('c, 'w) runner_calls \<Rightarrow> ('c, 'w) test_class \<Rightarrow> (string \<times> pyval) list \<Rightarrow>
     ('c, 'w, ('c, 'w) runner base_test) tr_action" where
  "BaseTestClass C tc configs =
     (let sv = str_val (tc_env tc) in
      case map_of configs IKEY_USER_PARAM of
        None \<Rightarrow> raiseA (Builtin AttributeError)
      | Some params \<Rightarrow>
     bindA (liftA (bindR (user_value sv params KEY_TEST_TIMEOUT PNone) (builtinR \<circ> timeout_secs))) (\<lambda>timeout.
     bindA (liftA (getUserParam sv params (NamePath [KEY_TEST_SUITE, KEY_INCLUDE_FILTER]) False (PList []) False)) (\<lambda>inc.
     bindA (liftA (getUserParam sv params (NamePath [KEY_TEST_SUITE, KEY_EXCLUDE_FILTER]) False (PList []) False)) (\<lambda>exc.
     bindA (liftA (user_value sv params KEY_TESTBED_NAME (PStr (tc_name tc)))) (\<lambda>mod_name.
     bindA (liftA (updateTestFilter (engine (tc_env tc)) sv params (str_of sv mod_name) inc exc)) (\<lambda>flt.
     bindA (liftA (user_value sv params ''abi_bitness'' PNone)) (\<lambda>bitness.
     bindA (liftA (user_bool sv params ''skip_on_32bit_abi'' False)) (\<lambda>skip32.
     bindA (liftA (user_bool sv params ''skip_on_64bit_abi'' False)) (\<lambda>skip64.
     bindA (liftA (user_bool sv params ''run_32bit_on_64bit_abi'' False)) (\<lambda>run32.
     bindA (liftA (bindR (user_value sv params ''max_retry_count'' (PInt 0)) retry_attr)) (\<lambda>retries.
     bindA (worldA (rc_features C params)) (\<lambda>(web, systrace).
     bindA (liftA (user_bool sv params ''collect_tests_only'' False)) (\<lambda>collect.
     bindA (liftA (user_bool sv params ''run_as_vts_self_test'' False)) (\<lambda>self_test.
     bindA (liftA (user_bool sv params ''run_as_compliance_test'' False)) (\<lambda>compliance.
     bindA (liftA (user_bool sv params ''BUG_REPORT_ON_FAILURE'' False)) (\<lambda>bug_report.
     bindA (liftA (user_bool sv params ''LOGCAT_ON_FAILURE'' True)) (\<lambda>logcat.
       (\<lambda>s. (Inr
         \<lparr>module_nm = str_of sv mod_name, bt_results = TestResult, live = (\<lambda>i. TestResultRecord i [] None),
          current_record = None, next_oid = 0, ticks = 0, is_final_run = False, test_filter = flt,
          test_filter_retry = None, reason_to_skip_all_tests = None, user_params = params,
          abi_bitness = bitness_attr bitness, skip_on_32bit_abi = skip32, skip_on_64bit_abi = skip64,
          run_32bit_on_64bit_abi = run32, max_retry_count = retries, collect_tests_only = collect,
          run_as_vts_self_test = self_test, bug_report_on_failure = bug_report, logcat_on_failure = logcat,
          web_enabled = web, systrace_enabled = systrace, tests_attr = [], world = s\<rparr>, s)))))))))))))))))))"

subsection \<open>Running a test class\<close>

text \<open>A method of the runner, called while the runner is the world of a test object.\<close>

definition on_runner :: "('r, 'a) action \<Rightarrow> ('r, 'a) bt_action" where
  "on_runner m ob = (let (r, w) = m (world ob) in (r, ob\<lparr>world := w\<rparr>))"

text \<open>
  \<open>__exit__\<close> of the test class returns nothing, so what the body raised passes. The list of instances holds the object; its entry is
  what the results of the object are at the end.
\<close>

definition with_instance ::
  "('c, 'w) test_class \<Rightarrow> string list \<Rightarrow> ('c, 'w) runner base_test \<Rightarrow> ('c, 'w, test_result) tr_action" where
  "with_instance tc names ob s =
     (let (r, o2) = finallyA (finallyA (run (tc_env tc) (tc_attrs tc) names) (on_runner unregisterControllers))
            (exec_func (tc_cleanUp tc)) (ob\<lparr>world := s\<rparr>);
          s2 = world o2
      in (r, s2\<lparr>test_cls_instances := test_cls_instances s2 @ [bt_results o2]\<rparr>))"

definition TestRunner_runTestClass ::
  "('c, 'w) runner_calls \<Rightarrow> ('c, 'w) test_class \<Rightarrow> string list option \<Rightarrow> ('c, 'w, test_result) tr_action" where
  "TestRunner_runTestClass C tc test_cases =
     seqA (modifyA (\<lambda>s. s\<lparr>tr_running := True\<rparr>))
       (getA test_run_info (\<lambda>info. bindA (BaseTestClass C tc info)
         (with_instance tc (case test_cases of None \<Rightarrow> [] | Some ns \<Rightarrow> ns))))"

text \<open>\<open>self.results += test_cls_instance.results\<close>: the addition reports the missing tests of the instance in place.\<close>

fun merge_instances ::
  "('c, 'w) runner_calls \<Rightarrow> test_result list \<Rightarrow> test_result list \<Rightarrow> ('c, 'w, unit) tr_action" where
  "merge_instances C merged [] s = (Inr (), s)"
| "merge_instances C merged (r # rs) s =
     (let (res, r', t) = add_results (rc_str_exc C) (rc_clk C) (proc_ticks s) (tr_results s) r;
          s1 = s\<lparr>proc_ticks := t, test_cls_instances := merged @ r' # rs\<rparr>
      in case res of
           Inl e \<Rightarrow> (Inl (Builtin e), s1)
         | Inr m \<Rightarrow> merge_instances C (merged @ [r']) rs (s1\<lparr>tr_results := m\<rparr>))"

definition writeResultsJsonString :: "('c, 'w) runner_calls \<Rightarrow> ('c, 'w, unit) tr_action" where
  "writeResultsJsonString C s =
     worldA (rc_write_summary C (path_join [tr_log_path s, ''test_run_summary.json'']) (jsonString_value (tr_results s))) s"

definition TestRunner_stop :: "('c, 'w) runner_calls \<Rightarrow> ('c, 'w, unit) tr_action" where
  "TestRunner_stop C =
     getA tr_running (\<lambda>on.
       if on
       then seqA (getA test_cls_instances (merge_instances C []))
              (seqA (writeResultsJsonString C)
                (seqA (killTestLogger (host_calls C)) (modifyA (\<lambda>s. s\<lparr>tr_running := False\<rparr>))))
       else returnA ())"

subsection \<open>Finding and importing test scripts\<close>

text \<open>\<open>os.path.splitext\<close> of a file name: leading dots are no extension.\<close>

definition splitext :: "string \<Rightarrow> string \<times> string" where
  "splitext fname =
     (let ext = rev (takeWhile (\<lambda>c. c \<noteq> CHR ''.'') (rev fname));
          stem = take (length fname - Suc (length ext)) fname
      in if CHR ''.'' \<in> set fname \<and> (\<exists>c \<in> set stem. c \<noteq> CHR ''.'') then (stem, CHR ''.'' # ext) else (fname, []))"

definition is_testfile_name :: "string \<Rightarrow> string \<Rightarrow> bool" where
  "is_testfile_name name ext \<longleftrightarrow> ext = ''.py'' \<and> (endswith name ''Test'' \<or> endswith name ''_test'')"

definition dir_files :: "(string \<Rightarrow> string \<Rightarrow> bool) \<Rightarrow> string \<times> string list \<Rightarrow> (string \<times> string \<times> string) list" where
  "dir_files file_predicate d =
     map (\<lambda>fname. (fst d, splitext fname)) (filter (\<lambda>fname. case_prod file_predicate (splitext fname)) (snd d))"

definition find_files ::
  "('c, 'w) runner_calls \<Rightarrow> string list \<Rightarrow> (string \<Rightarrow> string \<Rightarrow> bool) \<Rightarrow> 'w \<Rightarrow> (string \<times> string \<times> string) list" where
  "find_files C paths file_predicate w =
     concat (map (\<lambda>path. concat (map (dir_files file_predicate) (rc_walk C (abs_path (lc_host C) path) w))) paths)"

text \<open>
  Whether a module that cannot be imported is one of the run list. The name \<open>USERError\<close> is not defined in the source, so that the
  statement that should raise it raises \<open>NameError\<close>.
\<close>

definition blocks_run :: "string \<Rightarrow> (string \<times> string list option) list \<Rightarrow> bool" where
  "blocks_run name rlist \<longleftrightarrow>
     (\<exists>(test_cls_name, _) \<in> set rlist.
        name = test_cls_name \<or> lower (filter (\<lambda>c. c \<noteq> CHR ''_'') name) = lower test_cls_name)"

definition add_members ::
  "(string \<times> ('c, 'w) test_class option) list \<Rightarrow> (string \<times> ('c, 'w) test_class) list \<Rightarrow>
     (string \<times> ('c, 'w) test_class) list" where
  "add_members members test_classes =
     fold (\<lambda>(member_name, c) tcs.
       case c of
         Some tc \<Rightarrow> if \<not> startswith member_name ''__'' \<and> endswith member_name ''Test'' then dict_set member_name tc tcs else tcs
       | None \<Rightarrow> tcs) members test_classes"

fun import_files ::
  "('c, 'w) runner_calls \<Rightarrow> (string \<times> string \<times> string) list \<Rightarrow> (string \<times> ('c, 'w) test_class) list \<Rightarrow>
     ('c, 'w, (string \<times> ('c, 'w) test_class) list) tr_action" where
  "import_files C [] test_classes = returnA test_classes"
| "import_files C ((path, name, ext) # fs) test_classes =
     (\<lambda>s. case worldA (rc_import C path name) s of
            (Inl e, s1) \<Rightarrow>
              if blocks_run name (run_list s1) then (Inl (Builtin NameError), s1) else import_files C fs test_classes s1
          | (Inr members, s1) \<Rightarrow> import_files C fs (add_members members test_classes) s1)"

definition importTestModules ::
  "('c, 'w) runner_calls \<Rightarrow> string list \<Rightarrow> ('c, 'w, (string \<times> ('c, 'w) test_class) list) tr_action" where
  "importTestModules C test_paths =
     getA proc_world (\<lambda>w. import_files C (find_files C test_paths is_testfile_name w) [])"

subsection \<open>Running the list\<close>

fun run_classes ::
  "('c, 'w) runner_calls \<Rightarrow> (string \<times> ('c, 'w) test_class) list \<Rightarrow> (string \<times> string list option) list \<Rightarrow>
     ('c, 'w, unit) tr_action" where
  "run_classes C test_classes [] = returnA ()"
| "run_classes C test_classes ((test_cls_name, test_case_names) # rest) =
     getA tr_running (\<lambda>on.
       if \<not> on then returnA ()
       else case map_of test_classes test_cls_name of
              None \<Rightarrow> raiseA (Builtin NameError)
            | Some tc \<Rightarrow> seqA (TestRunner_runTestClass C tc test_case_names) (run_classes C test_classes rest))"

text \<open>The paths of the scripts: a list of strings, on another value the library raises.\<close>

fun path_strings :: "pyval list \<Rightarrow> py_error + string list" where
  "path_strings [] = Inr []"
| "path_strings (v # vs) = bindR (py_string v) (\<lambda>p. bindR (path_strings vs) (\<lambda>ps. Inr (p # ps)))"

definition TestRunner_run :: "('c, 'w) runner_calls \<Rightarrow> ('c, 'w, unit) tr_action" where
  "TestRunner_run C =
     seqA (modifyA (\<lambda>s. s\<lparr>tr_running := True\<rparr>))
     (getA test_configs (\<lambda>configs.
       seqA (parseTestConfig configs)
       (bindA (liftA (builtinR (bindR (py_getitem (PDict configs) KEY_TEST_PATHS) (\<lambda>v. bindR (py_elements v) path_strings)))) (\<lambda>t_configs.
        bindA (importTestModules C t_configs) (\<lambda>test_classes.
          finallyA
            (catchA (getA run_list (run_classes C test_classes))
               (\<lambda>e. if is_Exception e then returnA () else raiseA e))
            unregisterControllers)))))"

subsection \<open>The functions of the module\<close>

text \<open>
  One turn of the loop over the configurations. The \<open>return\<close> in its \<open>finally\<close> block ends the loop and drops whatever the class
  raised, \<open>SystemExit\<close> and \<open>KeyboardInterrupt\<close> too.
\<close>

definition run_config ::
  "('c, 'w) runner_calls \<Rightarrow> ('c, 'w) test_class \<Rightarrow> (string \<times> pyval) list \<Rightarrow> ('w process, test_result option) action" where
  "run_config C tc config =
     bindA (TestRunner C config [(tc_name tc, None)]) (\<lambda>tr p.
       let (_, s1) = parseTestConfig config tr;
           (_, s2) = TestRunner_runTestClass C tc None s1;
           (stopped, s3) = TestRunner_stop C s2
       in (case stopped of Inl e \<Rightarrow> Inl e | Inr _ \<Rightarrow> Inr (Some (tr_results s3)), process.truncate s3))"

definition run_configs ::
  "('c, 'w) runner_calls \<Rightarrow> ('c, 'w) test_class \<Rightarrow> (string \<times> pyval) list list \<Rightarrow> ('w process, test_result option) action" where
  "run_configs C tc configs = (case configs of [] \<Rightarrow> returnA None | config # _ \<Rightarrow> run_config C tc config)"

text \<open>The base line: the default configuration with its bed in a list.\<close>

definition baseline_config :: "string \<Rightarrow> (string \<times> pyval) list" where
  "baseline_config cls =
     (let d = GetDefaultConfig cls in
      case map_of d KEY_TESTBED of None \<Rightarrow> d | Some bed \<Rightarrow> dict_set KEY_TESTBED (PList [bed]) d)"

text \<open>
  The module function \<open>runTestClass\<close>; \<open>argv\<close> is the first argument of the script. A file that is rejected gives None, over which
  the loop cannot iterate; after an unexpected exception the variable of the loop is not bound.
\<close>

definition runTestClass ::
  "('c, 'w) runner_calls \<Rightarrow> string option \<Rightarrow> ('c, 'w) test_class \<Rightarrow> ('w process, test_result option) action" where
  "runTestClass C argv tc =
     (case argv of
        None \<Rightarrow> run_configs C tc [GetDefaultConfig (tc_name tc)]
      | Some config_path \<Rightarrow>
          (case load_test_config_file (lc_host C) config_path None (Some (baseline_config (tc_name tc))) of
             Inl e \<Rightarrow> raiseA (if e = Builtin IndexError then SystemExit
                              else if is_Exception e then Builtin NameError else e)
           | Inr None \<Rightarrow> raiseA (Builtin TypeError)
           | Inr (Some configs) \<Rightarrow> run_configs C tc configs))"

text \<open>\<open>main\<close> on the test classes among the members of the script.\<close>

definition runner_main ::
  "('c, 'w) runner_calls \<Rightarrow> string option \<Rightarrow> ('c, 'w) test_class list \<Rightarrow> ('w process, test_result option) action" where
  "runner_main C argv test_classes =
     (case test_classes of [tc] \<Rightarrow> runTestClass C argv tc | _ \<Rightarrow> raiseA SystemExit)"

end
