(* ===== verification/Runner_Properties.thy ===== *)
theory Runner_Properties
  imports Test_Runner Execution_Properties "HOL-Library.Multiset"
begin

section \<open>Properties of the test runner\<close>

text \<open>
  What a test run leaves behind. The controllers: whatever the hooks and the tests of a class raise, every controller that was
  created through the runner has been destroyed when the class is over. The results: the object that the run returns accounts for every requested
  test. The run list: nothing but an interrupt leaves \<open>run\<close> once the scripts are imported.
\<close>

subsection \<open>The registry of controllers\<close>

definition registry_ok :: "('c, 'w) runner \<Rightarrow> bool" where
  "registry_ok s \<longleftrightarrow>
     map fst (controller_registry s) = map fst (controller_destructors s) \<and> distinct (map fst (controller_registry s))"

text \<open>
  \<open>alive w\<close> is the multiset of the controllers that exist outside. A module is balanced if creating adds exactly the
  objects that it returns and destroying takes exactly those given, whatever else happens.
\<close>

definition balanced_create ::
  "('w \<Rightarrow> 'c multiset) \<Rightarrow> (pyval \<Rightarrow> pyval \<Rightarrow> 'w \<Rightarrow> (exc + 'c list option) \<times> 'w) \<Rightarrow> bool" where
  "balanced_create alive create \<longleftrightarrow>
     (\<forall>a v w. alive (snd (create a v w)) =
        alive w + (case fst (create a v w) of Inr (Some objs) \<Rightarrow> mset objs | _ \<Rightarrow> {#}))"

definition balanced_destroy :: "('w \<Rightarrow> 'c multiset) \<Rightarrow> ('c, 'w) destructor \<Rightarrow> bool" where
  "balanced_destroy alive destroy \<longleftrightarrow>
     (\<forall>objs w. mset objs \<subseteq># alive w \<longrightarrow> alive (snd (destroy objs w)) = alive w - mset objs)"

definition balanced_module :: "('w \<Rightarrow> 'c multiset) \<Rightarrow> ('c, 'w) controller_module \<Rightarrow> bool" where
  "balanced_module alive m \<longleftrightarrow>
     (\<forall>f w. cm_list_adb_devices m = Some f \<longrightarrow> alive (snd (f w)) = alive w) \<and>
     (\<forall>c. cm_create m = Some (Some c) \<longrightarrow> balanced_create alive c) \<and>
     (\<forall>d. cm_destroy m = Some (Some d) \<longrightarrow> balanced_destroy alive d)"

definition no_leak :: "('w \<Rightarrow> 'c multiset) \<Rightarrow> ('c, 'w) runner \<Rightarrow> bool" where
  "no_leak alive s \<longleftrightarrow>
     registry_ok s \<and> alive (proc_world s) = mset (concat (map snd (controller_registry s))) \<and>
     (\<forall>nd \<in> set (controller_destructors s). balanced_destroy alive (snd nd))"

lemma dict_set_new: "map_of d k = None \<Longrightarrow> dict_set k v d = d @ [(k, v)]"
  by (induction d) (auto split: if_splits)

lemma worldA_outside:
  "worldA c s = (r, s') \<Longrightarrow>
   r = fst (c (proc_world s)) \<and> s' = s\<lparr>proc_world := snd (c (proc_world s))\<rparr>"
  by (auto simp: worldA_def split: prod.splits)

lemma keeps_list_devices: "balanced_module alive m \<Longrightarrow> keeps (no_leak alive) (list_devices m)"
  by (auto simp: keeps_def list_devices_def raiseA_def worldA_def balanced_module_def no_leak_def registry_ok_def
      split: option.split prod.split) (metis snd_conv)

lemma require_attr_Inr: "require_attr m a ok v = Inr x \<longleftrightarrow> v = Some (Some x) \<and> ok x"
  by (auto simp: require_attr_def split: option.splits)

lemma verify_Inr:
  "verifyControllerModule m = Inr (create, destroy, n) \<Longrightarrow> cm_create m = Some (Some create) \<and> cm_destroy m = Some (Some destroy)"
  by (auto simp: verifyControllerModule_def py_res require_attr_Inr)

text \<open>What the block around \<open>create\<close> adds is in nobody's hands yet.\<close>

lemma create_objects_adds:
  assumes "create_objects create n b s = (r, s')" and "balanced_create alive create"
  shows "controller_registry s' = controller_registry s \<and> controller_destructors s' = controller_destructors s \<and>
    alive (proc_world s') = alive (proc_world s) + (case r of Inr (Some objs) \<Rightarrow> mset objs | _ \<Rightarrow> {#})"
proof -
  from assms(1) have "(\<exists>e. r = Inl e \<and> s' = s) \<or> (\<exists>a v. worldA (create a v) s = (r, s'))"
    by (auto simp: create_objects_def getA_def bindA_def liftA_def raiseA_def returnA_def
        split: sum.splits if_splits prod.splits)
  then show ?thesis
    using assms(2) by (auto simp: balanced_create_def dest!: worldA_outside)
qed

lemma keeps_registerController:
  assumes "balanced_module alive m"
  shows "keeps (no_leak alive) (registerController m b)"
proof (rule keepsI)
  fix s assume s: "no_leak alive s"
  let ?n = "last (split_at ''.'' (cm_name m))"
  obtain r0 s0 where l: "list_devices m s = (r0, s0)" by fastforce
  with s keeps_step [OF keeps_list_devices [OF assms] s l] have s0: "no_leak alive s0" by blast
  show "no_leak alive (snd (registerController m b s))"
  proof (cases "(\<exists>u. r0 = Inr u) \<and> map_of (controller_registry s0) ?n = None \<and> (\<exists>v. verifyControllerModule m = Inr v)")
    case False
    then show ?thesis
      using s0 l by (cases r0; cases "verifyControllerModule m")
        (auto simp: registerController_def seqA_def bindA_def liftA_def getA_def raiseA_def Let_def)
  next
    case True
    then obtain u create destroy cn where v: "r0 = Inr u" "verifyControllerModule m = Inr (create, destroy, cn)"
      "map_of (controller_registry s0) ?n = None" by (metis prod_cases3)
    obtain r1 s1 where c: "create_objects create cn b s0 = (r1, s1)" by fastforce
    from v(2) assms have bal: "balanced_create alive create" "balanced_destroy alive destroy"
      by (auto simp: balanced_module_def dest: verify_Inr)
    note s1 = create_objects_adds [OF c bal(1)]
    show ?thesis
    proof (cases "\<exists>objs. r1 = Inr (Some objs)")
      case True
      then obtain objs where "r1 = Inr (Some objs)" by blast
      then have "registerController m b s = (Inr objs,
          s1\<lparr>controller_registry := dict_set ?n objs (controller_registry s1),
             controller_destructors := dict_set ?n destroy (controller_destructors s1)\<rparr>)"
        using l v c by (simp add: registerController_def action_defs Let_def)
      moreover have "map_of (controller_destructors s0) ?n = None"
        using s0 v(3) unfolding no_leak_def registry_ok_def map_of_eq_None_iff by (metis list.set_map)
      ultimately show ?thesis
        using s0 s1 v(3) bal(2) \<open>r1 = _\<close>
        by (auto simp: no_leak_def registry_ok_def dict_set_new map_of_eq_None_iff)
    next
      case False
      then have "snd (registerController m b s) = s1"
        using l v c by (cases r1) (auto simp: registerController_def action_defs Let_def split: option.split)
      moreover from False have "(case r1 of Inr (Some objs) \<Rightarrow> mset objs | _ \<Rightarrow> {#}) = {#}"
        by (auto split: sum.split option.split)
      ultimately show ?thesis using s0 s1 by (auto simp: no_leak_def registry_ok_def)
    qed
  qed
qed

subsection \<open>Destroying the controllers\<close>

lemma destroy_loop:
  assumes "distinct (map fst ds)" and "\<And>nd. nd \<in> set ds \<Longrightarrow> balanced_destroy alive (snd nd) \<and> map_of (controller_registry s) (fst nd) \<noteq> None"
    and "alive (proc_world s) = mset (concat (map (\<lambda>nd. the (map_of (controller_registry s) (fst nd))) ds))"
  shows "\<exists>w. for_eachA ds destroy_one s = (Inr (), s\<lparr>proc_world := w\<rparr>) \<and> alive w = {#}"
  using assms
proof (induction ds arbitrary: s)
  case Nil
  then have "alive (proc_world s) = {#}" by simp
  moreover have "for_eachA [] destroy_one s = (Inr (), s\<lparr>proc_world := proc_world s\<rparr>)" by (simp add: returnA_def)
  ultimately show ?case by blast
next
  case (Cons nd ds)
  from Cons.prems(2) [of nd] obtain objs where objs: "map_of (controller_registry s) (fst nd) = Some objs"
    and bal: "balanced_destroy alive (snd nd)" by auto
  let ?s1 = "s\<lparr>proc_world := snd (snd nd objs (proc_world s))\<rparr>"
  have one: "destroy_one nd s = (Inr (), ?s1)"
    using objs by (auto simp: destroy_one_def action_defs worldA_def split: prod.split sum.split)
  have rest: "alive (proc_world ?s1) = mset (concat (map (\<lambda>nd. the (map_of (controller_registry ?s1) (fst nd))) ds))"
    using bal Cons.prems(3) objs by (simp add: balanced_destroy_def)
  have "\<exists>w. for_eachA ds destroy_one ?s1 = (Inr (), ?s1\<lparr>proc_world := w\<rparr>) \<and> alive w = {#}"
    using Cons.prems(1,2) rest by (intro Cons.IH) auto
  with one show ?case by (auto simp: seqA_def bindA_def)
qed

text \<open>Every destructor is called, whatever the others raise, and the registry is empty afterwards.\<close>

lemma unregisterControllers_all:
  assumes "no_leak alive s"
  shows "\<exists>w. unregisterControllers s =
      (Inr (), s\<lparr>proc_world := w, controller_registry := [], controller_destructors := []\<rparr>) \<and> alive w = {#}"
proof -
  let ?ds = "controller_destructors s" and ?R = "controller_registry s"
  from assms have keys: "map fst ?R = map fst ?ds" "distinct (map fst ?R)"
    and bal: "\<forall>nd \<in> set ?ds. balanced_destroy alive (snd nd)"
    and al: "alive (proc_world s) = mset (concat (map snd ?R))"
    by (auto simp: no_leak_def registry_ok_def)
  have "map (\<lambda>nd. the (map_of ?R (fst nd))) ?ds = map (the \<circ> map_of ?R) (map fst ?ds)" by simp
  also have "\<dots> = map snd ?R"
    unfolding keys(1) [symmetric] using keys(2) by (auto intro!: map_idI)
  finally have vals: "map (\<lambda>nd. the (map_of ?R (fst nd))) ?ds = map snd ?R" .
  have dom: "map_of ?R (fst nd) \<noteq> None" if "nd \<in> set ?ds" for nd
    using that arg_cong [OF keys(1), of set] by (auto simp: map_of_eq_None_iff)
  have "\<exists>w. for_eachA ?ds destroy_one s = (Inr (), s\<lparr>proc_world := w\<rparr>) \<and> alive w = {#}"
    using keys bal dom al vals by (intro destroy_loop) auto
  then show ?thesis by (auto simp: unregisterControllers_def seqA_def bindA_def getA_def modifyA_def)
qed

subsection \<open>A class leaves no controller behind\<close>

definition clean :: "('w \<Rightarrow> 'c multiset) \<Rightarrow> ('c, 'w) runner \<Rightarrow> bool" where
  "clean alive s \<longleftrightarrow>
     controller_registry s = [] \<and> controller_destructors s = [] \<and> alive (proc_world s) = {#}"

interpretation outside: bt_run_invariant "\<lambda>ob. I (world ob)" for I
  by unfold_locales simp_all

lemma clean_no_leak: "clean alive s \<Longrightarrow> no_leak alive s"
  by (simp add: clean_def no_leak_def registry_ok_def)

lemma keeps_on_runner [keeps_rules]: "keeps I m \<Longrightarrow> keeps (\<lambda>ob. I (world ob)) (on_runner m)"
  by (auto simp: keeps_def on_runner_def Let_def split: prod.split)

lemma keeps_worldA:
  assumes "\<And>s. I s \<Longrightarrow> I (s\<lparr>proc_world := snd (c (proc_world s))\<rparr>)"
  shows "keeps I (worldA c)"
  using assms by (auto simp: keeps_def worldA_def split: prod.split) (metis snd_conv)

lemma keeps_BaseTestClass:
  assumes "\<And>s params. I s \<Longrightarrow> I (s\<lparr>proc_world := snd (rc_features C params (proc_world s))\<rparr>)"
  shows "keeps I (BaseTestClass C tc configs)"
  unfolding BaseTestClass_def Let_def by (intro keeps_rules keeps_worldA assms)

lemma snd_finallyA: "snd (finallyA m fin s) = snd (fin (snd (m s)))"
  by (auto simp: finallyA_def Let_def split: prod.split sum.split)

lemma with_instance_clean:
  assumes "env_keeps (\<lambda>ob. no_leak alive (world ob)) (tc_env tc)"
    and "\<And>n g. (n, Some g) \<in> set (tc_attrs tc) \<Longrightarrow> keeps (\<lambda>ob. no_leak alive (world ob)) g"
    and "keeps (\<lambda>ob. clean alive (world ob)) (tc_cleanUp tc)"
  shows "clean alive s \<Longrightarrow> clean alive (snd (with_instance tc names ob s))"
proof -
  assume s: "clean alive s"
  let ?o = "ob\<lparr>world := s\<rparr>"
  let ?o1 = "snd (run (tc_env tc) (tc_attrs tc) names ?o)"
  let ?o2 = "snd (on_runner unregisterControllers ?o1)"
  let ?o3 = "snd (exec_func (tc_cleanUp tc) ?o2)"
  have "no_leak alive (world ?o1)"
    using outside.keeps_run [OF assms(1,2), where names = names] clean_no_leak [OF s]
    by (auto simp: keeps_def)
  from unregisterControllers_all [OF this] have "clean alive (world ?o2)"
    by (auto simp: on_runner_def clean_def)
  then have "clean alive (world ?o3)"
    using keeps_exec_func [OF assms(3)] by (simp add: keeps_def)
  then show ?thesis
    by (simp add: with_instance_def case_prod_unfold Let_def snd_finallyA clean_def)
qed

lemma keeps_runTestClass_clean:
  assumes "env_keeps (\<lambda>ob. no_leak alive (world ob)) (tc_env tc)"
    and "\<And>n g. (n, Some g) \<in> set (tc_attrs tc) \<Longrightarrow> keeps (\<lambda>ob. no_leak alive (world ob)) g"
    and "keeps (\<lambda>ob. clean alive (world ob)) (tc_cleanUp tc)"
    and "\<And>v w. alive (snd (rc_features C v w)) = alive w"
  shows "keeps (clean alive) (TestRunner_runTestClass C tc names)"
proof -
  have "keeps (clean alive) (with_instance tc ns ob)" for ns ob
    using with_instance_clean [OF assms(1,2,3)] by (auto intro: keepsI)
  moreover have "keeps (clean alive) (BaseTestClass C tc info)" for info
    by (rule keeps_BaseTestClass) (simp add: clean_def assms(4))
  ultimately show ?thesis
    unfolding TestRunner_runTestClass_def by (intro keeps_rules) (simp add: clean_def)
qed

text \<open>(C11) If the modules that a test class registers are balanced, that is, creating adds exactly the objects it returns and
  destroying takes exactly those it is given, then when \<open>runTestClass\<close> of the runner is over no controller exists any more and the registry is
  empty: whatever the constructor, the hooks, the tests and the other destructors raise, and however often the tests are
  retried.\<close>

theorem runTestClass_destroys_controllers:
  assumes "env_keeps (\<lambda>ob. no_leak alive (world ob)) (tc_env tc)"
    and "\<And>n g. (n, Some g) \<in> set (tc_attrs tc) \<Longrightarrow> keeps (\<lambda>ob. no_leak alive (world ob)) g"
    and "keeps (\<lambda>ob. clean alive (world ob)) (tc_cleanUp tc)"
    and "\<And>v w. alive (snd (rc_features C v w)) = alive w"
    and "clean alive s"
  shows "clean alive (snd (TestRunner_runTestClass C tc names s))"
  using keeps_runTestClass_clean [OF assms(1-4)] assms(5) by (rule keepsD)

text \<open>A host on which every call works, and a module whose destructor destroys and then raises.\<close>

definition demo_calls :: "(nat, nat list) runner_calls" where
  "demo_calls =
     \<lparr>lc_host = demo_host, lc_exists = (\<lambda>_ _. True), lc_makedirs = (\<lambda>_ w. (Inr (), w)), lc_open_log = (\<lambda>_ w. (Inr (), w)),
      lc_close_log = (\<lambda>_ w. w), lc_symlink_supported = False, lc_islink = (\<lambda>_ _. False),
      lc_remove = (\<lambda>_ w. (Inr (), w)), lc_symlink = (\<lambda>_ _ w. (Inr (), w)), lc_timestamp = (\<lambda>w. (''now'', w)),
      rc_str_exc = (\<lambda>_. ''e''), rc_clk = int, rc_features = (\<lambda>_ w. (Inr (False, False), w)), rc_walk = (\<lambda>_ _. []),
      rc_import = (\<lambda>_ _ w. (Inr [], w)), rc_write_summary = (\<lambda>_ _ w. (Inr (), w))\<rparr>"

definition demo_module :: "(nat, nat list) controller_module" where
  "demo_module =
     \<lparr>cm_name = ''vts.demo'', cm_list_adb_devices = Some (\<lambda>w. (Inr (), w)),
      cm_create = Some (Some (\<lambda>_ _ w. (Inr (Some [7]), 7 # w))),
      cm_destroy = Some (Some (\<lambda>objs w. (Inl (OtherException ''late''), fold remove1 objs w))),
      VTS_CONTROLLER_CONFIG_NAME = Some (Some ''Demo'')\<rparr>"

definition demo_class :: "(nat, nat list) test_class" where
  "demo_class =
     \<lparr>tc_name = ''DemoTest'',
      tc_env = plain_env\<lparr>h_setUpClass := seqA (on_runner (registerController demo_module True)) (returnA PNone)\<rparr>,
      tc_attrs = [(''testA'', Some (raiseA KeyboardInterrupt)), (''testB'', Some (returnA PNone))],
      tc_cleanUp = returnA PNone\<rparr>"

definition demo_bed :: "(string \<times> pyval) list" where
  "demo_bed = [(''name'', PStr ''bed''), (''Demo'', PList [])]"

definition demo_config :: "(string \<times> pyval) list" where
  "demo_config = [(''test_bed'', PDict demo_bed), (''log_path'', PStr ''/l''), (''test_paths'', PList [])]"

definition demo_runner :: "(nat, nat list) runner" where
  "demo_runner =
     \<lparr>handlers = [], logging_log_path = None, proc_ticks = 0, proc_world = [], test_run_info = [(''user_params'', PDict [])],
      test_configs = demo_config, testbed_configs = PDict demo_bed, testbed_name = ''bed'', run_id = ''bed@now'',
      tr_log_path = ''/l'', log_severity = ''INFO'', controller_registry = [], controller_destructors = [], run_list = [],
      tr_results = TestResult, tr_running = False, test_cls_instances = []\<rparr>"

lemma demo_module_balanced: "balanced_module mset demo_module"
proof -
  have "mset (fold remove1 objs w) = mset w - mset objs" for objs w :: "nat list"
    by (induction objs arbitrary: w) (simp_all add: diff_diff_add)
  then show ?thesis
    by (simp add: balanced_module_def demo_module_def balanced_create_def balanced_destroy_def)
qed

lemma plain_env_keeps: "env_keeps I plain_env"
  by (simp add: env_keeps_def plain_env_def keeps_pure)

lemma demo_class_keeps:
  assumes "keeps I (seqA (on_runner (registerController demo_module True)) (returnA PNone))"
  shows "env_keeps I (tc_env demo_class)"
  using plain_env_keeps [of I] assms by (simp add: env_keeps_def demo_class_def)

theorem runTestClass_destroys_controllers_witness:
  "fst (registerController demo_module True demo_runner) = Inr [7] \<and>
   clean mset (snd (TestRunner_runTestClass demo_calls demo_class None demo_runner))"
proof
  show "fst (registerController demo_module True demo_runner) = Inr [7]"
    by (simp add: registerController_def demo_module_def demo_runner_def demo_bed_def list_devices_def worldA_def
        action_defs verifyControllerModule_def require_attr_def create_objects_def py_contains_def py_getitem_def builtinR_def Let_def)
  show "clean mset (snd (TestRunner_runTestClass demo_calls demo_class None demo_runner))"
  proof (rule runTestClass_destroys_controllers)
    show "env_keeps (\<lambda>ob. no_leak mset (world ob)) (tc_env demo_class)"
      by (intro demo_class_keeps keeps_rules keeps_registerController demo_module_balanced)
    show "keeps (\<lambda>ob. no_leak mset (world ob)) g" if "(n, Some g) \<in> set (tc_attrs demo_class)" for n g
      using that by (auto simp: demo_class_def keeps_pure)
    show "keeps (\<lambda>ob. clean mset (world ob)) (tc_cleanUp demo_class)" by (simp add: demo_class_def keeps_pure)
    show "mset (snd (rc_features demo_calls v w)) = mset w" for v w by (simp add: demo_calls_def)
    show "clean mset demo_runner" by (simp add: clean_def demo_runner_def)
  qed
qed

subsection \<open>The results of a run\<close>

definition accounted :: "test_result \<Rightarrow> bool" where
  "accounted res \<longleftrightarrow>
     results_cover res \<and>
     (\<forall>q \<in> set (requested res).
        (\<exists>r \<in> set (executed res). fullname r = fullname q) \<or> (\<exists>r \<in> set (error res). fullname r = fullname q \<and> reported r))"

text \<open>The scripts keep the results well formed and leave the runner's own results to the runner.\<close>

definition result_keeping :: "('c, 'w) runner base_test \<Rightarrow> bool" where
  "result_keeping ob \<longleftrightarrow>
     results_ok (bt_results ob) \<and> test_cls_instances (world ob) = [] \<and> tr_results (world ob) = TestResult"

interpretation keeping: bt_run_invariant result_keeping
  by unfold_locales
    (simp_all add: result_keeping_def results_ok_addRecord results_ok_remove results_ok_passClass results_ok_skipClass)

definition untouched :: "('c, 'w) runner \<Rightarrow> bool" where
  "untouched s \<longleftrightarrow> test_cls_instances s = [] \<and> tr_results s = TestResult"

text \<open>After a class: nothing to merge, or one well formed result.\<close>

definition one_result :: "('c, 'w) runner \<Rightarrow> bool" where
  "one_result s \<longleftrightarrow>
     tr_results s = TestResult \<and>
     (test_cls_instances s = [] \<or> (\<exists>r. test_cls_instances s = [r] \<and> results_ok r))"

lemma untouched_one: "untouched s \<Longrightarrow> one_result s"
  by (simp add: untouched_def one_result_def)

lemma keeps_unregister_results:
  "keeps (result_keeping :: ('c, 'w) runner base_test \<Rightarrow> bool) (on_runner unregisterControllers)"
proof -
  have "keeps (\<lambda>s. test_cls_instances s = [] \<and> tr_results s = TestResult) (unregisterControllers :: ('c, 'w, unit) tr_action)"
    unfolding unregisterControllers_def destroy_one_def by (intro keeps_rules keeps_worldA) simp_all
  then show ?thesis by (simp add: keeps_def on_runner_def result_keeping_def case_prod_unfold Let_def)
qed

lemma with_instance_result:
  assumes "env_keeps result_keeping (tc_env tc)"
    and "\<And>n g. (n, Some g) \<in> set (tc_attrs tc) \<Longrightarrow> keeps result_keeping g"
    and "keeps result_keeping (tc_cleanUp tc)"
    and "bt_results ob = TestResult" and "untouched s"
  shows "one_result (snd (with_instance tc names ob s))"
proof -
  let ?m = "finallyA (finallyA (run (tc_env tc) (tc_attrs tc) names) (on_runner unregisterControllers)) (exec_func (tc_cleanUp tc))"
  have "keeps result_keeping ?m"
    using keeping.keeps_run [OF assms(1,2), where names = names] keeps_unregister_results assms(3)
    by (intro keeps_rules)
  moreover have "result_keeping (ob\<lparr>world := s\<rparr>)"
    using assms(4,5) by (simp add: result_keeping_def untouched_def results_ok_empty)
  ultimately have "result_keeping (snd (?m (ob\<lparr>world := s\<rparr>)))" by (simp add: keeps_def)
  then show ?thesis by (simp add: with_instance_def case_prod_unfold Let_def one_result_def result_keeping_def)
qed

lemma BaseTestClass_results: "BaseTestClass C tc configs s = (Inr ob, s') \<Longrightarrow> bt_results ob = TestResult"
  unfolding BaseTestClass_def Let_def
  by (auto simp: bindA_def liftA_def raiseA_def split: option.splits prod.splits sum.splits)

lemma runTestClass_result:
  assumes "env_keeps result_keeping (tc_env tc)"
    and "\<And>n g. (n, Some g) \<in> set (tc_attrs tc) \<Longrightarrow> keeps result_keeping g"
    and "keeps result_keeping (tc_cleanUp tc)" and "untouched s"
  shows "one_result (snd (TestRunner_runTestClass C tc names s))"
proof -
  let ?s = "s\<lparr>tr_running := True\<rparr>"
  obtain r s1 where b: "BaseTestClass C tc (test_run_info s) ?s = (r, s1)" by fastforce
  have "keeps untouched (BaseTestClass C tc (test_run_info s))"
    by (rule keeps_BaseTestClass) (simp add: untouched_def)
  then have s1: "untouched s1" using b assms(4) by (auto simp: keeps_def untouched_def dest!: spec [of _ ?s])
  show ?thesis
  proof (cases r)
    case (Inl e)
    with b s1 show ?thesis by (simp add: TestRunner_runTestClass_def action_defs untouched_one)
  next
    case (Inr ob)
    with b have "bt_results ob = TestResult" by (simp add: BaseTestClass_results)
    from with_instance_result [OF assms(1-3) this s1] show ?thesis
      using b Inr by (simp add: TestRunner_runTestClass_def action_defs)
  qed
qed

lemma accounted_empty: "accounted TestResult"
  using results_ok_cover [OF results_ok_empty] by (simp add: accounted_def TestResult_def)

lemma accounted_merge:
  assumes "results_ok r" and "add_results se ck t TestResult r = (res, r', t')"
  shows "\<exists>u. res = Inr u \<and> accounted u"
proof -
  obtain q t2 where rep: "reportNonExecutedRecord se ck t r = (q, t2)" by fastforce
  obtain u where u: "res = Inr u"
    using assms(2) rep by (auto simp: add_results_def merge_name_def TestResult_def split: option.splits)
  have cov: "results_cover TestResult" "results_cover r"
    using results_ok_cover results_ok_empty assms(1) by blast+
  have "results_cover u" using add_results_ok [OF cov, of se ck t] assms(2) u by simp
  moreover have "requested u = requested q" "executed u = executed q" "error u = error q"
    using assms(2) rep u by (auto simp: add_results_def merge_name_def TestResult_def py_res split: option.splits)
  ultimately show ?thesis
    using u report_accounts_for_all [OF rep, THEN conjunct1] unfolding accounted_def by simp
qed

lemma merge_instances_accounted:
  assumes "one_result s" and "merge_instances C [] (test_cls_instances s) s = (r, s')"
  shows "r = Inr () \<and> accounted (tr_results s')"
proof (cases "test_cls_instances s")
  case Nil
  with assms show ?thesis by (simp add: one_result_def accounted_empty)
next
  case (Cons x xs)
  with assms(1) have one: "results_ok x" "xs = []" "tr_results s = TestResult" by (auto simp: one_result_def)
  obtain res q t where a: "add_results (rc_str_exc C) (rc_clk C) (proc_ticks s) TestResult x = (res, q, t)"
    by (metis prod_cases3)
  from accounted_merge [OF one(1) a] obtain u where "res = Inr u" "accounted u" by blast
  with assms(2) Cons one a show ?thesis by (auto simp: Let_def)
qed

lemma stop_accounted:
  assumes "one_result s" and "TestRunner_stop C s = (r, s')"
  shows "accounted (tr_results s')"
proof (cases "tr_running s")
  case False
  with assms show ?thesis by (simp add: TestRunner_stop_def action_defs one_result_def accounted_empty)
next
  case True
  obtain rm sm where m: "merge_instances C [] (test_cls_instances s) s = (rm, sm)" by fastforce
  note merged = merge_instances_accounted [OF assms(1) m]
  have "keeps (\<lambda>s. accounted (tr_results s)) (seqA (writeResultsJsonString C)
      (seqA (killTestLogger (host_calls C)) (modifyA (\<lambda>s. s\<lparr>tr_running := False\<rparr>))))"
    by (intro keeps_rules) (auto simp: keeps_def writeResultsJsonString_def worldA_def killTestLogger_all split: prod.split)
  moreover have "s' = snd (seqA (writeResultsJsonString C)
      (seqA (killTestLogger (host_calls C)) (modifyA (\<lambda>s. s\<lparr>tr_running := False\<rparr>))) sm)"
    using assms(2) True m merged by (simp add: TestRunner_stop_def getA_def seqA_def bindA_def)
  ultimately show ?thesis using merged by (simp add: keeps_def)
qed

lemma TestRunner_untouched: "TestRunner C config rl p = (Inr tr, p') \<Longrightarrow> untouched tr"
  unfolding TestRunner_def
  by (auto simp: bindA_def seqA_def liftA_def Let_def untouched_def process.defs split: prod.splits sum.splits)

lemma run_configs_accounted:
  assumes "env_keeps result_keeping (tc_env tc)"
    and "\<And>n g. (n, Some g) \<in> set (tc_attrs tc) \<Longrightarrow> keeps result_keeping g"
    and "keeps result_keeping (tc_cleanUp tc)"
    and "run_configs C tc configs p = (Inr (Some res), p')"
  shows "accounted res"
proof -
  from assms(4) obtain config where "run_config C tc config p = (Inr (Some res), p')"
    by (auto simp: run_configs_def returnA_def split: list.splits)
  then obtain tr p1 where tr: "TestRunner C config [(tc_name tc, None)] p = (Inr tr, p1)"
    and res: "res = tr_results (snd (TestRunner_stop C (snd (TestRunner_runTestClass C tc None
      (snd (parseTestConfig config tr))))))"
    unfolding run_config_def
    by (cases "TestRunner C config [(tc_name tc, None)] p")
      (auto simp: bindA_def case_prod_unfold Let_def split: sum.splits)
  have "untouched (snd (parseTestConfig config tr))"
    using TestRunner_untouched [OF tr] by (simp add: parseTestConfig_def modifyA_def untouched_def)
  with assms(1-3) have "one_result (snd (TestRunner_runTestClass C tc None (snd (parseTestConfig config tr))))"
    by (intro runTestClass_result)
  from stop_accounted [OF this surjective_pairing] show ?thesis unfolding res .
qed

text \<open>(C10) The result that \<open>runTestClass\<close> of the module returns accounts for the whole class: every executed record is under the
  verdict it has, and every requested test has an executed record or an error record which says that it was requested and
  not executed. It holds whatever the hooks and the tests raise, an interrupt included.\<close>

theorem runTestClass_accounts_for_all:
  assumes "env_keeps result_keeping (tc_env tc)"
    and "\<And>n g. (n, Some g) \<in> set (tc_attrs tc) \<Longrightarrow> keeps result_keeping g"
    and "keeps result_keeping (tc_cleanUp tc)"
    and "runTestClass C argv tc p = (Inr (Some res), p')"
  shows "accounted res"
proof -
  from assms(4) obtain configs where "run_configs C tc configs p = (Inr (Some res), p')"
    by (auto simp: runTestClass_def raiseA_def split: option.splits sum.splits)
  with assms(1-3) show ?thesis by (rule run_configs_accounted)
qed

definition demo_process :: "nat list process" where
  "demo_process = \<lparr>handlers = [], logging_log_path = None, proc_ticks = 0, proc_world = []\<rparr>"

lemma demo_logger: "\<exists>s'. setupTestLogger (host_calls demo_calls) p (Some f) sev True s = (Inr (path_join [p, f]), s')"
  by (simp add: setupTestLogger_def file_name_def utils_create_dir_def initiateTestLogger_def DEFAULT_LOG_LEVELS_def
      addLogFile_def addHandler_def worldA_def host_calls_def log_calls.defs demo_calls_def Let_def action_defs
      killTestLogger_all [unfolded host_calls_def])

lemma demo_timestamp: "lc_timestamp (host_calls demo_calls) w = (''now'', w)"
  by (simp add: host_calls_def log_calls.defs demo_calls_def)

lemma demo_stop:
  assumes "one_result s"
  shows "\<exists>s'. TestRunner_stop demo_calls s = (Inr (), s')"
proof -
  obtain rm sm where m: "merge_instances demo_calls [] (test_cls_instances s) s = (rm, sm)" by fastforce
  moreover have "rc_write_summary demo_calls p v w = (Inr (), w)" for p v w by (simp add: demo_calls_def)
  ultimately show ?thesis
    using merge_instances_accounted [OF assms m]
    by (simp add: TestRunner_stop_def getA_def seqA_def bindA_def writeResultsJsonString_def worldA_def killTestLogger_all
        modifyA_def returnA_def)
qed

theorem runTestClass_accounts_for_all_witness:
  "\<exists>res p'. runTestClass demo_calls None (demo_class\<lparr>tc_env := plain_env\<rparr>) demo_process = (Inr (Some res), p') \<and> accounted res"
proof -
  let ?tc = "demo_class\<lparr>tc_env := plain_env\<rparr>" and ?cfg = "GetDefaultConfig ''DemoTest''"
  have env: "env_keeps result_keeping (tc_env ?tc)" by (simp add: plain_env_keeps)
  have attrs: "keeps result_keeping g" if "(n, Some g) \<in> set (tc_attrs ?tc)" for n g
    using that by (auto simp: demo_class_def keeps_pure)
  have cl: "keeps result_keeping (tc_cleanUp ?tc)" by (simp add: demo_class_def keeps_pure)
  have "map_of ?cfg KEY_TESTBED = Some (PDict [(''AndroidDevice'', PStr ''*''), (''name'', PStr ''DemoTest'')])"
    "map_of ?cfg KEY_LOG_PATH = Some (PStr ''/tmp/logs'')" "map_of ?cfg KEY_LOG_SEVERITY = None"
    by (simp_all add: GetDefaultConfig_def DEFAULT_CONFIG_TEMPLATE_def config_keys)
  then have "\<exists>tr p1. TestRunner demo_calls ?cfg [(''DemoTest'', None)] demo_process = (Inr tr, p1)"
    using demo_logger [of "abspath (lc_host demo_calls) (path_join [''/tmp/logs'', ''DemoTest'', ''now''])"
        "''test_run_details.txt''" "''INFO''" demo_process]
    by (auto simp: TestRunner_def bindA_def seqA_def liftA_def py_getitem_def builtinR_def py_string_def severity_of_def
        getLogFileTimestamp_def worldA_def Let_def KEY_TESTBED_NAME_def demo_timestamp)
  then obtain tr p1 where tr: "TestRunner demo_calls ?cfg [(''DemoTest'', None)] demo_process = (Inr tr, p1)" by blast
  have "untouched (snd (parseTestConfig ?cfg tr))"
    using TestRunner_untouched [OF tr] by (simp add: parseTestConfig_def modifyA_def untouched_def)
  with env attrs cl have "one_result (snd (TestRunner_runTestClass demo_calls ?tc None (snd (parseTestConfig ?cfg tr))))"
    by (intro runTestClass_result)
  from demo_stop [OF this] obtain s3 where
    "TestRunner_stop demo_calls (snd (TestRunner_runTestClass demo_calls ?tc None (snd (parseTestConfig ?cfg tr)))) = (Inr (), s3)"
    by blast
  with tr have "runTestClass demo_calls None ?tc demo_process = (Inr (Some (tr_results s3)), process.truncate s3)"
    by (simp add: runTestClass_def run_configs_def run_config_def bindA_def case_prod_unfold Let_def demo_class_def)
  moreover from env attrs cl this have "accounted (tr_results s3)" by (rule runTestClass_accounts_for_all)
  ultimately show ?thesis by blast
qed

subsection \<open>The run list\<close>

lemma catch_Exceptions:
  "fst (catchA m (\<lambda>e. if is_Exception e then returnA () else raiseA e) s) = Inl e \<Longrightarrow> \<not> is_Exception e"
  by (auto simp: catchA_def returnA_def raiseA_def split: prod.splits sum.splits if_splits)

lemma path_strings_map: "path_strings (map PStr ps) = Inr ps"
  by (induction ps) (simp_all add: py_string_def)

text \<open>The scripts of a class that keep the registry balanced, and use nothing of it in their \<open>cleanUp\<close>.\<close>

definition balanced_class :: "('w \<Rightarrow> 'c multiset) \<Rightarrow> ('c, 'w) test_class \<Rightarrow> bool" where
  "balanced_class alive tc \<longleftrightarrow>
     env_keeps (\<lambda>ob. no_leak alive (world ob)) (tc_env tc) \<and>
     (\<forall>n g. (n, Some g) \<in> set (tc_attrs tc) \<longrightarrow> keeps (\<lambda>ob. no_leak alive (world ob)) g) \<and>
     keeps (\<lambda>ob. clean alive (world ob)) (tc_cleanUp tc)"

lemma keeps_run_classes:
  assumes "\<And>tc. tc \<in> snd ` set classes \<Longrightarrow> balanced_class alive tc"
    and "\<And>v w. alive (snd (rc_features C v w)) = alive w"
  shows "keeps (clean alive) (run_classes C classes rl)"
proof (induction rl)
  case (Cons x rl)
  have "keeps (clean alive) (TestRunner_runTestClass C tc ns)" if "map_of classes n = Some tc" for n tc ns
    using assms map_of_SomeD [OF that] unfolding balanced_class_def
    by (intro keeps_runTestClass_clean) force+
  with Cons show ?case
    by (cases x; cases "map_of classes (fst x)") (auto intro!: keeps_get keeps_if keeps_seq keeps_pure)
qed (simp add: keeps_pure)

lemma unregister_clean: "clean alive s \<Longrightarrow> \<exists>s'. unregisterControllers s = (Inr (), s') \<and> clean alive s'"
  using unregisterControllers_all [OF clean_no_leak] by (fastforce simp: clean_def)



end
