(* ===== verification/Agent_Client.thy ===== *)
theory Agent_Client
  imports Py_Actions Proto_Values
begin

section \<open>The client of the agent (runners/host/tcp\_client/vts\_tcp\_client.py)\<close>

text \<open>
  The host talks to the agent of a device over one TCP connection: a command is a protocol buffer message after its length in
  decimal digits on a line of its own, and so is the response. The object is the record \<open>tcp_client\<close>; \<open>net\<close> is the state outside.

  Parameters, in the record \<open>net_calls\<close>: the socket and its file object, where a call may raise; the generated classes of the messages, which
  serialize a command from its fields and parse a response; and \<open>text_format.Merge\<close>, whose parse error the code of the client catches, so that it gives the message
  as it is left, and the mirrors do not catch (\<open>merge_component_strict\<close>). A message that is sent is the list of the fields that were set, in the order of the code; \<open>set_field\<close> is what an assignment to a field of a kind
  of message keeps or raises, and \<open>serialize_command\<close> raises what the assignments to the fields of a command raise. A field of a response that the
  device left out has the default of its type.
\<close>

type_synonym pb_message = "(string \<times> py_value) list"

datatype tcp_exc =
    SocketTimeout
  | SocketError string
  | VtsTcpClientCreationError string
  | VtsTcpCommunicationError string
  | VtsUnsupportedTypeError
  | DecodeError
  | PyError py_error

text \<open>The responses of the drivers of message queues, memory and handles.\<close>

record fmq_response_msg =
  fmq_read_data :: "var_msg list"
  sizet_return_val :: int
  fmq_queue_id :: int
  fmq_success :: bool

record memory_response_msg =
  memory_success :: bool
  new_mem_id :: int
  mem_size :: int
  memory_read_data :: string

record handle_response_msg =
  handle_success :: bool
  new_handle_id :: int
  handle_read_data :: string
  write_data_size :: int

record agent_response =
  response_code :: int
  resp_result :: string
  file_names :: "string list"
  resp_stdout :: "string list"
  resp_stderr :: "string list"
  resp_exit_code :: "int list"
  resp_spec :: string
  fmq_response :: fmq_response_msg
  hidl_memory_response :: memory_response_msg
  hidl_handle_response :: handle_response_msg

record function_spec =
  fn_name :: string
  fn_args :: "var_msg list"
  return_type :: "var_msg option"
  return_type_hidl :: "var_msg list"
  raw_coverage_data :: "int list"

record component_spec =
  spec_imports :: "string list"
  spec_attributes :: "var_msg list"
  spec_class :: int
  spec_type :: int
  spec_version_major :: int
  spec_version_minor :: int
  spec_package :: string
  interface_apis :: "function_spec list"
  interface_attributes :: "var_msg list"

record 'w net_calls =
  create_connection :: "string \<Rightarrow> int \<Rightarrow> int \<Rightarrow> 'w \<Rightarrow> (tcp_exc + unit) \<times> 'w"
  close_connection :: "'w \<Rightarrow> 'w"
  wait_second :: "'w \<Rightarrow> 'w"
  chan_write :: "string \<Rightarrow> 'w \<Rightarrow> (tcp_exc + unit) \<times> 'w"
  chan_flush :: "'w \<Rightarrow> (tcp_exc + unit) \<times> 'w"
  chan_readline :: "'w \<Rightarrow> (tcp_exc + string) \<times> 'w"
  chan_read :: "int \<Rightarrow> 'w \<Rightarrow> (tcp_exc + string) \<times> 'w"
  serialize_command :: "int \<Rightarrow> pb_message \<Rightarrow> tcp_exc + string"
  set_field :: "string \<Rightarrow> string \<Rightarrow> py_value \<Rightarrow> tcp_exc + py_value"
  parse_response :: "string \<Rightarrow> tcp_exc + agent_response"
  scalar_runtime :: pb_runtime
  str_error :: "tcp_exc \<Rightarrow> string"
  merge_function :: "string \<Rightarrow> function_spec"
  merge_component :: "string \<Rightarrow> component_spec"
  merge_component_strict :: "string \<Rightarrow> tcp_exc + component_spec"

datatype client_error = RaisedError tcp_exc | MessageError string

record 'w tcp_client =
  connected :: bool
  has_channel :: bool
  client_mode :: string
  client_timeout :: int
  client_err :: "client_error option"
  net :: 'w

type_synonym ('w, 'a) tcp_action = "(tcp_exc, 'w tcp_client, 'a) raising"

definition netA :: "('w \<Rightarrow> (tcp_exc + 'a) \<times> 'w) \<Rightarrow> ('w, 'a) tcp_action" where
  "netA call s = (let (r, w) = call (net s) in (r, s\<lparr>net := w\<rparr>))"

text \<open>A method of \<open>self.channel\<close>: None has none.\<close>

definition channelA :: "('w \<Rightarrow> (tcp_exc + 'a) \<times> 'w) \<Rightarrow> ('w, 'a) tcp_action" where
  "channelA call = getA has_channel (\<lambda>c. if c then netA call else raiseA (PyError AttributeError))"

definition builtinT :: "py_error + 'a \<Rightarrow> tcp_exc + 'a" where
  "builtinT r = (case r of Inl e \<Rightarrow> Inl (PyError e) | Inr v \<Rightarrow> Inr v)"

subsection \<open>The object\<close>

definition NO_RESPONSE_MSG :: string where
  "NO_RESPONSE_MSG = ''Framework error: TCP client did not receive response from device.''"

definition FAIL_RESPONSE_MSG :: string where
  "FAIL_RESPONSE_MSG = ''Framework error: TCP client received unsuccessful response code.''"

definition DEFAULT_SOCKET_TIMEOUT_SECS :: int where "DEFAULT_SOCKET_TIMEOUT_SECS = 1800"
definition SOCKET_CONN_RETRY_NUMBER :: nat where "SOCKET_CONN_RETRY_NUMBER = 5"

definition SUCCESS :: int where "SUCCESS = 1"

definition VtsTcpClient :: "string \<Rightarrow> int \<Rightarrow> 'w \<Rightarrow> 'w tcp_client" where
  "VtsTcpClient mode secs w =
     \<lparr>connected = False, has_channel = False, client_mode = mode, client_timeout = secs, client_err = None, net = w\<rparr>"

definition tcp_Heal :: "'w tcp_client \<Rightarrow> bool" where
  "tcp_Heal s \<longleftrightarrow> client_err s = None"

subsection \<open>Commands\<close>

definition LIST_HALS :: int where "LIST_HALS = 1"
definition SET_HOST_INFO :: int where "SET_HOST_INFO = 2"
definition PING :: int where "PING = 3"
definition CHECK_DRIVER_SERVICE :: int where "CHECK_DRIVER_SERVICE = 101"
definition LAUNCH_DRIVER_SERVICE :: int where "LAUNCH_DRIVER_SERVICE = 102"
definition READ_SPECIFICATION :: int where "READ_SPECIFICATION = 103"
definition LIST_APIS :: int where "LIST_APIS = 201"
definition CALL_API :: int where "CALL_API = 202"
definition GET_ATTRIBUTE :: int where "GET_ATTRIBUTE = 203"
definition EXECUTE_SHELL_COMMAND :: int where "EXECUTE_SHELL_COMMAND = 301"
definition VTS_FMQ_COMMAND :: int where "VTS_FMQ_COMMAND = 401"
definition VTS_HIDL_MEMORY_COMMAND :: int where "VTS_HIDL_MEMORY_COMMAND = 402"
definition VTS_HIDL_HANDLE_COMMAND :: int where "VTS_HIDL_HANDLE_COMMAND = 403"

definition COMMAND_TYPE_NAME :: "(int \<times> string) list" where
  "COMMAND_TYPE_NAME =
     [(1, ''LIST_HALS''), (2, ''SET_HOST_INFO''), (101, ''CHECK_DRIVER_SERVICE''), (102, ''LAUNCH_DRIVER_SERVICE''),
      (103, ''VTS_AGENT_COMMAND_READ_SPECIFICATION''), (201, ''LIST_APIS''), (202, ''CALL_API''),
      (203, ''VTS_AGENT_COMMAND_GET_ATTRIBUTE''), (301, ''VTS_AGENT_COMMAND_EXECUTE_SHELL_COMMAND''),
      (401, ''VTS_FMQ_COMMAND''), (402, ''VTS_HIDL_MEMORY_COMMAND''), (403, ''VTS_HIDL_HANDLE_COMMAND'')]"

text \<open>The parameters of \<open>SendCommand\<close> in the order in which it copies them, with the field each is copied to.\<close>

definition COMMAND_FIELDS :: "(string \<times> string) list" where
  "COMMAND_FIELDS =
     [(''target_class'', ''target_class''), (''target_type'', ''target_type''),
      (''target_version_major'', ''target_version_major''), (''target_version_minor'', ''target_version_minor''),
      (''target_package'', ''target_package''), (''target_component_name'', ''target_component_name''),
      (''hw_binder_service_name'', ''hw_binder_service_name''), (''is_test_hal'', ''is_test_hal''),
      (''module_name'', ''module_name''), (''service_name'', ''service_name''), (''driver_type'', ''driver_type''),
      (''paths'', ''paths''), (''file_path'', ''file_path''), (''bits'', ''bits''), (''callback_port'', ''callback_port''),
      (''caller_uid'', ''driver_caller_uid''), (''arg'', ''arg''), (''shell_command'', ''shell_command''),
      (''fmq_request'', ''fmq_request''), (''hidl_memory_request'', ''hidl_memory_request''),
      (''hidl_handle_request'', ''hidl_handle_request'')]"

text \<open>One parameter: None sets nothing, and a single shell command is appended to the repeated field.\<close>

definition command_field :: "pb_message \<Rightarrow> string \<times> string \<Rightarrow> pb_message" where
  "command_field kwargs pf =
     (case map_of kwargs (fst pf) of
        None \<Rightarrow> []
      | Some v \<Rightarrow>
          if v = VNone then []
          else if fst pf = ''shell_command''
          then [(snd pf, case v of VList l \<Rightarrow> VList l | _ \<Rightarrow> VList [v])]
          else [(snd pf, v)])"

definition command_msg :: "pb_message \<Rightarrow> pb_message" where
  "command_msg kwargs = concat (map (command_field kwargs) COMMAND_FIELDS)"

definition SendCommand :: "'w net_calls \<Rightarrow> int \<Rightarrow> pb_message \<Rightarrow> ('w, unit) tcp_action" where
  "SendCommand N command_type kwargs =
     getA has_channel (\<lambda>c.
       if \<not> c then raiseA (VtsTcpCommunicationError ''channel is None, unable to send command.'')
       else if map_of COMMAND_TYPE_NAME command_type = None then raiseA (PyError KeyError)
       else bindA (liftA (serialize_command N command_type (command_msg kwargs))) (\<lambda>message.
         seqA (channelA (chan_write N (str_int (int (length message)) @ [CHR 0x0A])))
           (seqA (channelA (chan_write N message)) (channelA (chan_flush N)))))"

subsection \<open>Responses\<close>

definition strip_newlines :: "string \<Rightarrow> string" where
  "strip_newlines s =
     rev (dropWhile (\<lambda>c. c = CHR 0x0A) (rev (dropWhile (\<lambda>c. c = CHR 0x0A) s)))"

definition recv_once :: "'w net_calls \<Rightarrow> ('w, agent_response) tcp_action" where
  "recv_once N =
     bindA (channelA (chan_readline N)) (\<lambda>line.
       let header = strip_newlines line in
       bindA (liftA (if header = [] then Inr 0 else builtinT (py_int header))) (\<lambda>len.
         bindA (channelA (chan_read N len)) (\<lambda>data. liftA (parse_response N data))))"

text \<open>The loop over \<open>xrange(1 + retries)\<close>: only a timeout of the socket is caught.\<close>

fun recv_loop :: "'w net_calls \<Rightarrow> nat \<Rightarrow> ('w, agent_response option) tcp_action" where
  "recv_loop N 0 = returnA None"
| "recv_loop N (Suc n) =
     catchA (bindA (recv_once N) (\<lambda>r. returnA (Some r)))
       (\<lambda>e. if e = SocketTimeout then recv_loop N n else raiseA e)"

definition RecvResponse :: "'w net_calls \<Rightarrow> nat \<Rightarrow> ('w, agent_response option) tcp_action" where
  "RecvResponse N retries = recv_loop N (1 + retries)"

text \<open>An attribute of the response, which may be None.\<close>

definition with_response :: "agent_response option \<Rightarrow> (agent_response \<Rightarrow> ('w, 'a) tcp_action) \<Rightarrow> ('w, 'a) tcp_action" where
  "with_response resp k = (case resp of None \<Rightarrow> raiseA (PyError AttributeError) | Some r \<Rightarrow> k r)"

definition request :: "'w net_calls \<Rightarrow> int \<Rightarrow> pb_message \<Rightarrow> nat \<Rightarrow> ('w, agent_response option) tcp_action" where
  "request N command_type kwargs retries = seqA (SendCommand N command_type kwargs) (RecvResponse N retries)"

subsection \<open>Connecting\<close>

definition is_socket_error :: "tcp_exc \<Rightarrow> bool" where
  "is_socket_error e = (case e of SocketTimeout \<Rightarrow> True | SocketError _ \<Rightarrow> True | _ \<Rightarrow> False)"

fun connect_loop :: "'w net_calls \<Rightarrow> string \<Rightarrow> int \<Rightarrow> int \<Rightarrow> nat \<Rightarrow> ('w, unit) tcp_action" where
  "connect_loop N ip port secs 0 = returnA ()"
| "connect_loop N ip port secs (Suc n) =
     catchA (seqA (netA (create_connection N ip port secs)) (modifyA (\<lambda>s. s\<lparr>connected := True\<rparr>)))
       (\<lambda>e. if is_socket_error e
            then seqA (modifyA (\<lambda>s. s\<lparr>net := wait_second N (net s)\<rparr>))
              (if n = 0 then raiseA (VtsTcpClientCreationError (''Couldn't connect to '' @ ip @ '':'' @ str_int port))
               else connect_loop N ip port secs n)
            else raiseA e)"

text \<open>A port that is None or 0 is refused; \<open>None\<close> for \<open>timeout\<close> takes that of the object.\<close>

definition Connect :: "'w net_calls \<Rightarrow> string \<Rightarrow> int option \<Rightarrow> int option \<Rightarrow> nat \<Rightarrow> int option \<Rightarrow> ('w, bool) tcp_action" where
  "Connect N ip command_port callback_port retry secs =
     (case command_port of
        None \<Rightarrow> returnA False
      | Some port \<Rightarrow>
          if port = 0 then returnA False
          else
            getA client_timeout (\<lambda>own.
              seqA (connect_loop N ip port (case secs of None \<Rightarrow> own | Some t \<Rightarrow> t) retry)
                (getA connected (\<lambda>c.
                  if \<not> c then raiseA (PyError AttributeError)
                  else seqA (modifyA (\<lambda>s. s\<lparr>has_channel := True\<rparr>))
                    (case callback_port of
                       None \<Rightarrow> returnA True
                     | Some cb \<Rightarrow>
                         bindA (request N SET_HOST_INFO [(''callback_port'', VScalar (SInt cb))] 0) (\<lambda>resp.
                           with_response resp (\<lambda>r. returnA (response_code r = SUCCESS))))))))"

definition Disconnect :: "'w net_calls \<Rightarrow> ('w, unit) tcp_action" where
  "Disconnect N = getA connected (\<lambda>c.
     if c then modifyA (\<lambda>s. s\<lparr>has_channel := False, net := close_connection N (net s), connected := False\<rparr>)
     else returnA ())"

subsection \<open>Drivers\<close>

definition VTS_DRIVER_TYPE_HAL_CONVENTIONAL :: int where "VTS_DRIVER_TYPE_HAL_CONVENTIONAL = 1"
definition VTS_DRIVER_TYPE_HAL_LEGACY :: int where "VTS_DRIVER_TYPE_HAL_LEGACY = 2"
definition VTS_DRIVER_TYPE_HAL_HIDL :: int where "VTS_DRIVER_TYPE_HAL_HIDL = 3"
definition VTS_DRIVER_TYPE_SHELL :: int where "VTS_DRIVER_TYPE_SHELL = 21"

definition ListHals :: "'w net_calls \<Rightarrow> string list \<Rightarrow> ('w, string list option) tcp_action" where
  "ListHals N base_paths =
     bindA (request N LIST_HALS [(''paths'', VList (map VStr base_paths))] 0) (\<lambda>resp.
       with_response resp (\<lambda>r. returnA (if response_code r = SUCCESS then Some (file_names r) else None)))"

definition CheckDriverService :: "'w net_calls \<Rightarrow> string \<Rightarrow> ('w, bool) tcp_action" where
  "CheckDriverService N service_name =
     bindA (request N CHECK_DRIVER_SERVICE [(''service_name'', VStr service_name)] 0) (\<lambda>resp.
       with_response resp (\<lambda>r. returnA (response_code r = SUCCESS)))"

text \<open>The result is a number for a HAL and a truth value for the other drivers; \<open>kwargs\<close> are the arguments but the type.\<close>

datatype driver_result = DriverId int | Launched bool

definition LaunchDriverService :: "'w net_calls \<Rightarrow> int \<Rightarrow> pb_message \<Rightarrow> ('w, driver_result) tcp_action" where
  "LaunchDriverService N driver_type kwargs =
     bindA (request N LAUNCH_DRIVER_SERVICE ((''driver_type'', VScalar (SInt driver_type)) # kwargs) 0) (\<lambda>resp.
       with_response resp (\<lambda>r.
         if driver_type \<in> {VTS_DRIVER_TYPE_HAL_HIDL, VTS_DRIVER_TYPE_HAL_CONVENTIONAL, VTS_DRIVER_TYPE_HAL_LEGACY}
         then if response_code r = SUCCESS then bindA (liftA (builtinT (py_int (resp_result r)))) (\<lambda>i. returnA (DriverId i))
              else returnA (DriverId (- 1))
         else returnA (Launched (response_code r = SUCCESS))))"

definition ListApis :: "'w net_calls \<Rightarrow> ('w, string option) tcp_action" where
  "ListApis N =
     bindA (request N LIST_APIS [] 0) (\<lambda>resp.
       with_response resp (\<lambda>r. returnA (if response_code r = SUCCESS then Some (resp_spec r) else None)))"

definition Ping :: "'w net_calls \<Rightarrow> ('w, bool) tcp_action" where
  "Ping N =
     bindA (request N PING [] 0) (\<lambda>resp.
       returnA (case resp of None \<Rightarrow> False | Some r \<Rightarrow> response_code r = SUCCESS))"

subsection \<open>Values in responses\<close>

text \<open>\<open>getattr(var.scalar_value, scalar_type)\<close>\<close>

definition scalar_attr :: "pb_runtime \<Rightarrow> var_fields \<Rightarrow> string \<Rightarrow> tcp_exc + py_value" where
  "scalar_attr pb f ty = builtinT
     (case map_of (scalar_value f) ty of
        Some s \<Rightarrow> Inr (VScalar s)
      | None \<Rightarrow> bindR (unset_scalar pb ty) (\<lambda>s. Inr (VScalar s)))"

fun GetPythonDataOfVariableSpecMsg :: "pb_runtime \<Rightarrow> var_msg \<Rightarrow> tcp_exc + py_value"
  and named_data :: "pb_runtime \<Rightarrow> int \<Rightarrow> var_msg list \<Rightarrow> (string \<times> py_value) list \<Rightarrow> tcp_exc + py_value"
  and vector_data :: "pb_runtime \<Rightarrow> var_msg list \<Rightarrow> py_value list \<Rightarrow> tcp_exc + py_value"
where
  "GetPythonDataOfVariableSpecMsg pb (VarMsg f vs sts ss us su) =
     (case vtype f of
        TYPE_SCALAR \<Rightarrow> if scalar_type f \<noteq> [] then scalar_attr pb f (scalar_type f) else Inl VtsUnsupportedTypeError
      | TYPE_ENUM \<Rightarrow> scalar_attr pb f (if scalar_type f \<noteq> [] then scalar_type f else ''int32_t'')
      | TYPE_STRING \<Rightarrow> Inr (VStr (string_message f))
      | TYPE_STRUCT \<Rightarrow> named_data pb 1 sts []
      | TYPE_UNION \<Rightarrow> named_data pb 1 us []
      | TYPE_VECTOR \<Rightarrow> vector_data pb vs []
      | TYPE_ARRAY \<Rightarrow> vector_data pb vs []
      | _ \<Rightarrow>
          if vtype f \<in> {TYPE_HIDL_INTERFACE, TYPE_FMQ_SYNC, TYPE_FMQ_UNSYNC, TYPE_HIDL_MEMORY, TYPE_HANDLE}
          then Inr (VMsg (VarMsg f vs sts ss us su)) else Inl VtsUnsupportedTypeError)"
| "named_data pb index [] result = Inr (VDict result)"
| "named_data pb index (value # values) result =
     bindR (GetPythonDataOfVariableSpecMsg pb value) (\<lambda>v.
       named_data pb (index + 1) values
         (dict_set (if name (flat value) \<noteq> [] then name (flat value) else ''attribute'' @ str_int index) v result))"
| "vector_data pb [] result = Inr (VList result)"
| "vector_data pb (value # values) result =
     bindR (GetPythonDataOfVariableSpecMsg pb value) (\<lambda>v. vector_data pb values (result @ [v]))"

subsection \<open>Calls\<close>

text \<open>
  The return value of \<open>CallApi\<close>: the message of a conventional HAL, the list of values of a HIDL HAL, either with the coverage data. For a
  submodule both functions call \<open>MirrorObject(self, spec, None)\<close>, whose constructor takes one argument less: it raises.
\<close>

datatype call_result = FunctionResult function_spec | ValuesResult "py_value list" | WithCoverage call_result "int list"

definition returned_type :: "function_spec \<Rightarrow> var_type" where
  "returned_type f = (case return_type f of None \<Rightarrow> UNKNOWN_VARIABLE_TYPE | Some m \<Rightarrow> vtype (flat m))"

definition rpc_error :: "string \<Rightarrow> int \<Rightarrow> tcp_exc" where
  "rpc_error arg resp_code =
     VtsTcpCommunicationError (''RPC Error, response code for '' @ arg @ '' is '' @ str_int resp_code)"

definition CallApi :: "'w net_calls \<Rightarrow> string \<Rightarrow> py_value \<Rightarrow> ('w, call_result) tcp_action" where
  "CallApi N arg caller_uid =
     bindA (request N CALL_API [(''arg'', VStr arg), (''caller_uid'', caller_uid)] 0) (\<lambda>resp.
       with_response resp (\<lambda>r.
         if response_code r \<noteq> SUCCESS then raiseA (rpc_error arg (response_code r))
         else if resp_result r = ''error'' then raiseA (VtsTcpCommunicationError ''API call error by the VTS driver.'')
         else
           let result = merge_function N (resp_result r) in
           if returned_type result = TYPE_SUBMODULE then raiseA (PyError TypeError)
           else
             bindA (if return_type result \<noteq> None then returnA (FunctionResult result)
                    else liftA (bindR (mapR (GetPythonDataOfVariableSpecMsg (scalar_runtime N)) (return_type_hidl result))
                      (\<lambda>vs. Inr (ValuesResult vs)))) (\<lambda>result_value.
               returnA (if raw_coverage_data result \<noteq> [] then WithCoverage result_value (raw_coverage_data result)
                        else result_value))))"

datatype attribute_result = AttributeScalar py_value | AttributeFunction function_spec

definition tcp_GetAttribute :: "'w net_calls \<Rightarrow> string \<Rightarrow> ('w, attribute_result) tcp_action" where
  "tcp_GetAttribute N arg =
     bindA (request N GET_ATTRIBUTE [(''arg'', VStr arg)] 0) (\<lambda>resp.
       with_response resp (\<lambda>r.
         if response_code r \<noteq> SUCCESS then raiseA (rpc_error arg (response_code r))
         else if resp_result r = ''error'' then raiseA (VtsTcpCommunicationError ''Get attribute request failed on target.'')
         else
           let result = merge_function N (resp_result r) in
           if returned_type result = TYPE_SUBMODULE then raiseA (PyError TypeError)
           else
             case return_type result of
               Some m \<Rightarrow>
                 if vtype (flat m) = TYPE_SCALAR
                 then bindA (liftA (scalar_attr (scalar_runtime N) (flat m) (scalar_type (flat m)))) (\<lambda>v. returnA (AttributeScalar v))
                 else returnA (AttributeFunction result)
             | None \<Rightarrow> returnA (AttributeFunction result)))"

subsection \<open>Shell commands\<close>

datatype exit_codes = ExitCode int | ExitCodes "int list"

record shell_result =
  sh_stdout :: "string list"
  sh_stderr :: "string list"
  sh_exit_code :: exit_codes

definition set_error :: "client_error option \<Rightarrow> ('w, unit) tcp_action" where
  "set_error e = modifyA (\<lambda>s. s\<lparr>client_err := e\<rparr>)"

definition failed_shell :: "string \<Rightarrow> ('w, shell_result) tcp_action" where
  "failed_shell msg =
     seqA (set_error (Some (MessageError msg))) (returnA \<lparr>sh_stdout = [], sh_stderr = [msg], sh_exit_code = ExitCode (- 1)\<rparr>)"

text \<open>The private \<open>__ExecuteShellCommand\<close>.\<close>

definition execute_shell_command :: "'w net_calls \<Rightarrow> py_value \<Rightarrow> ('w, shell_result) tcp_action" where
  "execute_shell_command N command =
     bindA (request N EXECUTE_SHELL_COMMAND [(''shell_command'', command)] 2) (\<lambda>resp.
       case resp of
         None \<Rightarrow> failed_shell NO_RESPONSE_MSG
       | Some r \<Rightarrow>
           if response_code r \<noteq> SUCCESS then failed_shell FAIL_RESPONSE_MSG
           else seqA (set_error None)
             (returnA \<lparr>sh_stdout = resp_stdout r, sh_stderr = resp_stderr r, sh_exit_code = ExitCodes (resp_exit_code r)\<rparr>))"

definition py_len :: "py_value \<Rightarrow> py_error + nat" where
  "py_len v = (case v of VStr s \<Rightarrow> Inr (length s) | VList l \<Rightarrow> Inr (length l) | VDict d \<Rightarrow> Inr (length d) | _ \<Rightarrow> Inl TypeError)"

definition ExecuteShellCommand :: "'w net_calls \<Rightarrow> py_value \<Rightarrow> bool \<Rightarrow> ('w, shell_result) tcp_action" where
  "ExecuteShellCommand N command no_except =
     catchA (execute_shell_command N command)
       (\<lambda>e. seqA (set_error (Some (RaisedError e)))
         (if \<not> no_except then raiseA e
          else bindA (liftA (builtinT (py_len command))) (\<lambda>n.
            returnA \<lparr>sh_stdout = replicate n [], sh_stderr = replicate n (str_error N e), sh_exit_code = ExitCodes (replicate n (- 1))\<rparr>)))"

subsection \<open>Resources\<close>

text \<open>\<open>CheckResourceCommandResponse\<close> only writes to the log and gives back the response that it was passed.\<close>

definition CheckResourceCommandResponse :: "agent_response option \<Rightarrow> 'r option \<Rightarrow> 'r option" where
  "CheckResourceCommandResponse agent_response resource_response = resource_response"

definition SendFmqRequest :: "'w net_calls \<Rightarrow> pb_message \<Rightarrow> ('w, fmq_response_msg option) tcp_action" where
  "SendFmqRequest N message =
     bindA (request N VTS_FMQ_COMMAND [(''fmq_request'', VDict message)] 0) (\<lambda>resp.
       returnA (CheckResourceCommandResponse resp (map_option fmq_response resp)))"

definition SendHidlMemoryRequest :: "'w net_calls \<Rightarrow> pb_message \<Rightarrow> ('w, memory_response_msg option) tcp_action" where
  "SendHidlMemoryRequest N message =
     bindA (request N VTS_HIDL_MEMORY_COMMAND [(''hidl_memory_request'', VDict message)] 0) (\<lambda>resp.
       returnA (CheckResourceCommandResponse resp (map_option hidl_memory_response resp)))"

definition SendHidlHandleRequest :: "'w net_calls \<Rightarrow> pb_message \<Rightarrow> ('w, handle_response_msg option) tcp_action" where
  "SendHidlHandleRequest N message =
     bindA (request N VTS_HIDL_HANDLE_COMMAND [(''hidl_handle_request'', VDict message)] 0) (\<lambda>resp.
       returnA (CheckResourceCommandResponse resp (map_option hidl_handle_response resp)))"

subsection \<open>Specifications\<close>

definition read_one :: "'w net_calls \<Rightarrow> py_value \<Rightarrow> py_value \<Rightarrow> py_value \<Rightarrow> py_value \<Rightarrow> py_value \<Rightarrow> py_value \<Rightarrow> ('w, component_spec) tcp_action" where
  "read_one N interface_name target_class target_type major minor package =
     bindA (request N READ_SPECIFICATION
         [(''service_name'', interface_name), (''target_class'', target_class), (''target_type'', target_type),
          (''target_version_major'', major), (''target_version_minor'', minor), (''target_package'', package)] 2) (\<lambda>resp.
       with_response resp (\<lambda>r.
         if resp_result r = ''error'' then raiseA (VtsTcpCommunicationError ''API call error by the VTS driver.'')
         else returnA (merge_component N (resp_result r))))"

text \<open>
  The name of an imported interface, e.g. \<open>android.hardware.nfc@1.0::types\<close>, with its package and version; the parts are taken in the order of the code,
  which raises ValueError when it unpacks a list of another length. The class and type of the import are those of the caller: for None the code evaluates
  a name that it has not defined.
\<close>

definition split_pair :: "string \<Rightarrow> string \<Rightarrow> py_error + string \<times> string" where
  "split_pair s sep = (case split_at sep s of [a, b] \<Rightarrow> Inr (a, b) | _ \<Rightarrow> Inl ValueError)"

definition import_args :: "py_value \<Rightarrow> py_value \<Rightarrow> string \<Rightarrow> py_error + string \<times> int \<times> int \<times> string" where
  "import_args target_class target_type imported =
     bindR (split_pair imported ''@'') (\<lambda>(package, version_str).
     bindR (split_pair (hd (split_at ''::'' version_str)) ''.'') (\<lambda>(major, minor).
     bindR (py_index (split_at ''::'' imported) 1) (\<lambda>interface.
     bindR (if target_class = VNone \<or> target_type = VNone then Inl NameError else Inr ()) (\<lambda>_.
     bindR (py_int major) (\<lambda>major.
     bindR (py_int minor) (\<lambda>minor. Inr (interface, major, minor, package)))))))"

fun merge_imports :: "'w net_calls \<Rightarrow> py_value \<Rightarrow> py_value \<Rightarrow> string list \<Rightarrow> component_spec \<Rightarrow> ('w, component_spec) tcp_action" where
  "merge_imports N target_class target_type [] result = returnA result"
| "merge_imports N target_class target_type (imported # rest) result =
     (if imported = ''android.hidl.base@1.0::types'' then merge_imports N target_class target_type rest result
      else
        bindA (liftA (builtinT (import_args target_class target_type imported))) (\<lambda>(interface, major, minor, package).
        bindA (read_one N (VStr interface) target_class target_type (VScalar (SInt major)) (VScalar (SInt minor)) (VStr package))
          (\<lambda>imported_result. merge_imports N target_class target_type rest
             (result\<lparr>spec_attributes := spec_attributes result @ spec_attributes imported_result\<rparr>))))"

definition ReadSpecification ::
  "'w net_calls \<Rightarrow> py_value \<Rightarrow> py_value \<Rightarrow> py_value \<Rightarrow> py_value \<Rightarrow> py_value \<Rightarrow> py_value \<Rightarrow> bool \<Rightarrow> ('w, component_spec) tcp_action" where
  "ReadSpecification N interface_name target_class target_type major minor package recursive =
     bindA (read_one N interface_name target_class target_type major minor package) (\<lambda>result.
       if recursive then merge_imports N target_class target_type (spec_imports result) result else returnA result)"

end
