(* ===== verification/Resource_Mirrors.thy ===== *)
theory Resource_Mirrors
  imports Agent_Client
begin

section \<open>Mirrors of resources (utils/python/mirror/resource\_mirror.py, mirror\_object.py)\<close>

text \<open>
  A mirror stands for an object on the device: a fast message queue, a memory region or a handle. It keeps a client and the number that the
  device gave to the object, and each of its methods sends one request. A method is an action on the state of its client; a method that
  changes the mirror gives the new one. Requests are built by assignments to fields, which may raise (\<^const>\<open>set_field\<close>).
\<close>

definition assign :: "'w net_calls \<Rightarrow> string \<Rightarrow> pb_message \<Rightarrow> ('w, pb_message) tcp_action" where
  "assign N kind flds = liftA (mapR (\<lambda>(f, v). bindR (set_field N kind f v) (\<lambda>v. Inr (f, v))) flds)"

abbreviation pint :: "int \<Rightarrow> py_value" where "pint i \<equiv> VScalar (SInt i)"
abbreviation pbool :: "bool \<Rightarrow> py_value" where "pbool b \<equiv> VScalar (SBool b)"

text \<open>A response that is missing counts as a failure.\<close>

definition succeeded :: "('r \<Rightarrow> bool) \<Rightarrow> 'r option \<Rightarrow> bool" where
  "succeeded success resp = (case resp of None \<Rightarrow> False | Some r \<Rightarrow> success r)"

subsection \<open>Fast message queues\<close>

definition FMQ_CREATE :: int where "FMQ_CREATE = 1"
definition FMQ_READ :: int where "FMQ_READ = 2"
definition FMQ_READ_BLOCKING :: int where "FMQ_READ_BLOCKING = 3"
definition FMQ_WRITE :: int where "FMQ_WRITE = 5"
definition FMQ_WRITE_BLOCKING :: int where "FMQ_WRITE_BLOCKING = 6"
definition FMQ_AVAILABLE_WRITE :: int where "FMQ_AVAILABLE_WRITE = 8"
definition FMQ_AVAILABLE_READ :: int where "FMQ_AVAILABLE_READ = 9"
definition FMQ_GET_QUANTUM_SIZE :: int where "FMQ_GET_QUANTUM_SIZE = 10"
definition FMQ_GET_QUANTUM_COUNT :: int where "FMQ_GET_QUANTUM_COUNT = 11"
definition FMQ_IS_VALID :: int where "FMQ_IS_VALID = 12"

record fmq_mirror =
  fmq_data_type :: string
  fmq_sync :: bool
  queue_id :: int

definition ResourceFmqMirror :: "string \<Rightarrow> bool \<Rightarrow> int \<Rightarrow> fmq_mirror" where
  "ResourceFmqMirror data_type sync qid = \<lparr>fmq_data_type = data_type, fmq_sync = sync, queue_id = qid\<rparr>"

definition SUPPORTED_SCALAR_TYPES :: "string list" where
  "SUPPORTED_SCALAR_TYPES =
     [''uint8_t'', ''int8_t'', ''uint16_t'', ''int16_t'', ''uint32_t'', ''int32_t'', ''uint64_t'', ''int64_t'', ''bool_t'', ''double_t'']"

definition fmq_template :: "fmq_mirror \<Rightarrow> int \<Rightarrow> int \<Rightarrow> pb_message" where
  "fmq_template q operation qid =
     [(''operation'', pint operation), (''data_type'', VStr (fmq_data_type q)), (''sync'', pbool (fmq_sync q)), (''queue_id'', pint qid)]"

definition fmq_request :: "'w net_calls \<Rightarrow> fmq_mirror \<Rightarrow> int \<Rightarrow> int \<Rightarrow> pb_message \<Rightarrow> ('w, fmq_response_msg option) tcp_action" where
  "fmq_request N q operation qid flds =
     bindA (assign N ''FmqRequestMessage'' (fmq_template q operation qid @ flds)) (SendFmqRequest N)"

definition fmq_create :: "'w net_calls \<Rightarrow> fmq_mirror \<Rightarrow> int \<Rightarrow> int \<Rightarrow> bool \<Rightarrow> bool \<Rightarrow> ('w, fmq_mirror) tcp_action" where
  "fmq_create N q qid queue_size blocking reset_pointers =
     bindA (fmq_request N q FMQ_CREATE qid
         [(''queue_size'', pint queue_size), (''blocking'', pbool blocking), (''reset_pointers'', pbool reset_pointers)]) (\<lambda>resp.
       returnA (q\<lparr>queue_id := (case resp of Some r \<Rightarrow> if fmq_queue_id r \<noteq> - 1 then fmq_queue_id r else - 1 | None \<Rightarrow> - 1)\<rparr>))"

text \<open>
  Reading fills the list of the caller, which is a second part of the state: it is emptied first, and keeps what was appended
  before an element that cannot be converted.
\<close>

type_synonym ('w, 'a) fill_action = "(tcp_exc, 'w tcp_client \<times> py_value list, 'a) raising"

definition clientA :: "('w, 'a) tcp_action \<Rightarrow> ('w, 'a) fill_action" where
  "clientA a = (\<lambda>(s, data). let (r, s') = a s in (r, s', data))"

definition extractReadData :: "'w net_calls \<Rightarrow> fmq_response_msg \<Rightarrow> ('w, unit) fill_action" where
  "extractReadData N r = for_eachA (fmq_read_data r) (\<lambda>item.
     bindA (liftA (GetPythonDataOfVariableSpecMsg (scalar_runtime N) item)) (\<lambda>v. modifyA (\<lambda>(s, data). (s, data @ [v]))))"

definition fmq_read_with :: "'w net_calls \<Rightarrow> fmq_mirror \<Rightarrow> int \<Rightarrow> pb_message \<Rightarrow> ('w, bool) fill_action" where
  "fmq_read_with N q operation flds =
     seqA (modifyA (\<lambda>(s, data). (s, [])))
       (bindA (clientA (fmq_request N q operation (queue_id q) flds)) (\<lambda>resp.
         case resp of
           Some r \<Rightarrow> if fmq_success r then seqA (extractReadData N r) (returnA True) else returnA False
         | None \<Rightarrow> returnA False))"

definition fmq_read :: "'w net_calls \<Rightarrow> fmq_mirror \<Rightarrow> int \<Rightarrow> ('w, bool) fill_action" where
  "fmq_read N q data_size = fmq_read_with N q FMQ_READ [(''read_data_size'', pint data_size)]"

definition fmq_readBlocking :: "'w net_calls \<Rightarrow> fmq_mirror \<Rightarrow> int \<Rightarrow> int \<Rightarrow> ('w, bool) fill_action" where
  "fmq_readBlocking N q data_size time_out_nanos =
     fmq_read_with N q FMQ_READ_BLOCKING [(''read_data_size'', pint data_size), (''time_out_nanos'', pint time_out_nanos)]"

text \<open>\<open>_prepareWriteData\<close>: None if an element is neither a message nor of a supported scalar type.\<close>

definition scalar_msg :: "string \<Rightarrow> var_msg" where
  "scalar_msg ty = VarMsg (empty_fields\<lparr>vtype := TYPE_SCALAR, scalar_type := ty\<rparr>) [] [] [] [] []"

fun prepareWriteData :: "'w net_calls \<Rightarrow> string \<Rightarrow> py_value list \<Rightarrow> tcp_exc + py_value list option" where
  "prepareWriteData N ty [] = Inr (Some [])"
| "prepareWriteData N ty (curr_value # data) =
     (let rest = (\<lambda>m. bindR (prepareWriteData N ty data) (\<lambda>r. Inr (map_option (\<lambda>ms. VMsg m # ms) r))) in
      case curr_value of
        VMsg m \<Rightarrow> rest m
      | _ \<Rightarrow> if ty \<in> set SUPPORTED_SCALAR_TYPES
              then bindR (builtinT (set_scalar_field (scalar_runtime N) ty curr_value (scalar_msg ty))) rest
              else Inr None)"

definition py_upto :: "int \<Rightarrow> 'a list \<Rightarrow> 'a list" where
  "py_upto n xs = (if n < 0 then take (length xs - nat (- n)) xs else take (nat n) xs)"

definition fmq_write_with :: "'w net_calls \<Rightarrow> fmq_mirror \<Rightarrow> int \<Rightarrow> py_value list \<Rightarrow> int \<Rightarrow> pb_message \<Rightarrow> ('w, bool) tcp_action" where
  "fmq_write_with N q operation data data_size flds =
     bindA (assign N ''FmqRequestMessage'' (fmq_template q operation (queue_id q))) (\<lambda>template.
     bindA (liftA (prepareWriteData N (fmq_data_type q) (py_upto data_size data))) (\<lambda>prepared.
       case prepared of
         None \<Rightarrow> returnA False
       | Some ms \<Rightarrow>
           bindA (assign N ''FmqRequestMessage'' flds) (\<lambda>flds.
           bindA (SendFmqRequest N (template @ (''write_data'', VList ms) # flds)) (\<lambda>resp.
             returnA (succeeded fmq_success resp)))))"

definition fmq_write :: "'w net_calls \<Rightarrow> fmq_mirror \<Rightarrow> py_value list \<Rightarrow> int \<Rightarrow> ('w, bool) tcp_action" where
  "fmq_write N q data data_size = fmq_write_with N q FMQ_WRITE data data_size []"

definition fmq_writeBlocking :: "'w net_calls \<Rightarrow> fmq_mirror \<Rightarrow> py_value list \<Rightarrow> int \<Rightarrow> int \<Rightarrow> ('w, bool) tcp_action" where
  "fmq_writeBlocking N q data data_size time_out_nanos =
     fmq_write_with N q FMQ_WRITE_BLOCKING data data_size [(''time_out_nanos'', pint time_out_nanos)]"

definition processUtilMethod :: "'w net_calls \<Rightarrow> fmq_mirror \<Rightarrow> int \<Rightarrow> ('w, int option) tcp_action" where
  "processUtilMethod N q operation =
     bindA (fmq_request N q operation (queue_id q) []) (\<lambda>resp.
       returnA (case resp of Some r \<Rightarrow> if fmq_success r then Some (sizet_return_val r) else None | None \<Rightarrow> None))"

definition availableToWrite :: "'w net_calls \<Rightarrow> fmq_mirror \<Rightarrow> ('w, int option) tcp_action" where
  "availableToWrite N q = processUtilMethod N q FMQ_AVAILABLE_WRITE"

definition availableToRead :: "'w net_calls \<Rightarrow> fmq_mirror \<Rightarrow> ('w, int option) tcp_action" where
  "availableToRead N q = processUtilMethod N q FMQ_AVAILABLE_READ"

definition getQuantumSize :: "'w net_calls \<Rightarrow> fmq_mirror \<Rightarrow> ('w, int option) tcp_action" where
  "getQuantumSize N q = processUtilMethod N q FMQ_GET_QUANTUM_SIZE"

definition getQuantumCount :: "'w net_calls \<Rightarrow> fmq_mirror \<Rightarrow> ('w, int option) tcp_action" where
  "getQuantumCount N q = processUtilMethod N q FMQ_GET_QUANTUM_COUNT"

definition fmq_isValid :: "'w net_calls \<Rightarrow> fmq_mirror \<Rightarrow> ('w, bool) tcp_action" where
  "fmq_isValid N q =
     bindA (fmq_request N q FMQ_IS_VALID (queue_id q) []) (\<lambda>resp. returnA (succeeded fmq_success resp))"

subsection \<open>Memory regions\<close>

definition MEM_PROTO_ALLOCATE :: int where "MEM_PROTO_ALLOCATE = 1"
definition MEM_PROTO_START_READ :: int where "MEM_PROTO_START_READ = 2"
definition MEM_PROTO_START_READ_RANGE :: int where "MEM_PROTO_START_READ_RANGE = 3"
definition MEM_PROTO_READ_BYTES :: int where "MEM_PROTO_READ_BYTES = 4"
definition MEM_PROTO_START_UPDATE :: int where "MEM_PROTO_START_UPDATE = 5"
definition MEM_PROTO_START_UPDATE_RANGE :: int where "MEM_PROTO_START_UPDATE_RANGE = 6"
definition MEM_PROTO_UPDATE_BYTES :: int where "MEM_PROTO_UPDATE_BYTES = 7"
definition MEM_PROTO_COMMIT :: int where "MEM_PROTO_COMMIT = 8"
definition MEM_PROTO_GET_SIZE :: int where "MEM_PROTO_GET_SIZE = 9"

text \<open>The mirror of a memory region, like that of a handle, is its number.\<close>

definition memory_request :: "'w net_calls \<Rightarrow> int \<Rightarrow> int \<Rightarrow> pb_message \<Rightarrow> ('w, memory_response_msg option) tcp_action" where
  "memory_request N mem_id operation flds =
     bindA (assign N ''HidlMemoryRequestMessage'' ([(''operation'', pint operation), (''mem_id'', pint mem_id)] @ flds)) (SendHidlMemoryRequest N)"

definition allocate :: "'w net_calls \<Rightarrow> int \<Rightarrow> int \<Rightarrow> ('w, int) tcp_action" where
  "allocate N mem_id sz =
     bindA (memory_request N mem_id MEM_PROTO_ALLOCATE [(''mem_size'', pint sz)]) (\<lambda>resp.
       returnA (case resp of Some r \<Rightarrow> if new_mem_id r \<noteq> - 1 then new_mem_id r else mem_id | None \<Rightarrow> mem_id))"

definition memory_notify :: "'w net_calls \<Rightarrow> int \<Rightarrow> int \<Rightarrow> pb_message \<Rightarrow> ('w, bool) tcp_action" where
  "memory_notify N mem_id operation flds =
     bindA (memory_request N mem_id operation flds) (\<lambda>resp. returnA (succeeded memory_success resp))"

definition range_fields :: "int \<Rightarrow> int \<Rightarrow> pb_message" where
  "range_fields start len = [(''start'', pint start), (''length'', pint len)]"

definition memory_read :: "'w net_calls \<Rightarrow> int \<Rightarrow> ('w, bool) tcp_action" where
  "memory_read N mem_id = memory_notify N mem_id MEM_PROTO_START_READ []"

definition readRange :: "'w net_calls \<Rightarrow> int \<Rightarrow> int \<Rightarrow> int \<Rightarrow> ('w, bool) tcp_action" where
  "readRange N mem_id start len = memory_notify N mem_id MEM_PROTO_START_READ_RANGE (range_fields start len)"

definition memory_update :: "'w net_calls \<Rightarrow> int \<Rightarrow> ('w, bool) tcp_action" where
  "memory_update N mem_id = memory_notify N mem_id MEM_PROTO_START_UPDATE []"

definition updateRange :: "'w net_calls \<Rightarrow> int \<Rightarrow> int \<Rightarrow> int \<Rightarrow> ('w, bool) tcp_action" where
  "updateRange N mem_id start len = memory_notify N mem_id MEM_PROTO_START_UPDATE_RANGE (range_fields start len)"

definition readBytes :: "'w net_calls \<Rightarrow> int \<Rightarrow> int \<Rightarrow> int \<Rightarrow> ('w, string option) tcp_action" where
  "readBytes N mem_id len start =
     bindA (memory_request N mem_id MEM_PROTO_READ_BYTES (range_fields start len)) (\<lambda>resp.
       returnA (case resp of Some r \<Rightarrow> if memory_success r then Some (memory_read_data r) else None | None \<Rightarrow> None))"

definition updateBytes :: "'w net_calls \<Rightarrow> int \<Rightarrow> string \<Rightarrow> int \<Rightarrow> int \<Rightarrow> ('w, bool) tcp_action" where
  "updateBytes N mem_id data len start =
     memory_notify N mem_id MEM_PROTO_UPDATE_BYTES ((''write_data'', VStr data) # range_fields start len)"

definition commit :: "'w net_calls \<Rightarrow> int \<Rightarrow> ('w, bool) tcp_action" where
  "commit N mem_id = memory_notify N mem_id MEM_PROTO_COMMIT []"

definition memory_getSize :: "'w net_calls \<Rightarrow> int \<Rightarrow> ('w, int) tcp_action" where
  "memory_getSize N mem_id =
     bindA (memory_request N mem_id MEM_PROTO_GET_SIZE []) (\<lambda>resp.
       returnA (case resp of Some r \<Rightarrow> if memory_success r then mem_size r else - 1 | None \<Rightarrow> - 1))"

subsection \<open>Handles\<close>

definition HANDLE_PROTO_CREATE_FILE :: int where "HANDLE_PROTO_CREATE_FILE = 1"
definition HANDLE_PROTO_READ_FILE :: int where "HANDLE_PROTO_READ_FILE = 2"
definition HANDLE_PROTO_WRITE_FILE :: int where "HANDLE_PROTO_WRITE_FILE = 3"
definition HANDLE_PROTO_DELETE :: int where "HANDLE_PROTO_DELETE = 4"
definition FILE_TYPE :: int where "FILE_TYPE = 1"

definition handle_request :: "'w net_calls \<Rightarrow> int \<Rightarrow> int \<Rightarrow> pb_message \<Rightarrow> ('w, handle_response_msg option) tcp_action" where
  "handle_request N handle_id operation flds =
     bindA (assign N ''HidlHandleRequestMessage'' ([(''operation'', pint operation), (''handle_id'', pint handle_id)] @ flds)) (SendHidlHandleRequest N)"

definition handle_CleanUp :: "'w net_calls \<Rightarrow> int \<Rightarrow> ('w, unit) tcp_action" where
  "handle_CleanUp N handle_id = bindA (handle_request N handle_id HANDLE_PROTO_DELETE []) (\<lambda>_. returnA ())"

definition createHandleForSingleFile :: "'w net_calls \<Rightarrow> int \<Rightarrow> string \<Rightarrow> string \<Rightarrow> int list \<Rightarrow> ('w, int) tcp_action" where
  "createHandleForSingleFile N handle_id filepath mode int_data =
     bindA (assign N ''HidlHandleRequestMessage'' [(''operation'', pint HANDLE_PROTO_CREATE_FILE), (''handle_id'', pint handle_id)]) (\<lambda>template.
     bindA (assign N ''HandleDataValueMessage'' [(''num_fds'', pint 1), (''num_ints'', pint (int (length int_data)))]) (\<lambda>counts.
     bindA (assign N ''FdMessage'' [(''type'', pint FILE_TYPE), (''file_mode_str'', VStr mode), (''file_name'', VStr filepath)]) (\<lambda>fd_message.
     bindA (assign N ''HandleDataValueMessage'' [(''int_val'', VList (map pint int_data))]) (\<lambda>ints.
     bindA (SendHidlHandleRequest N (template @ [(''handle_info'', VDict (counts @ (''fd_val'', VList [VDict fd_message]) # ints))])) (\<lambda>resp.
       returnA (case resp of Some r \<Rightarrow> if new_handle_id r \<noteq> - 1 then new_handle_id r else handle_id | None \<Rightarrow> handle_id))))))"

text \<open>\<open>readFile\<close> and \<open>writeFile\<close> have a parameter \<open>index\<close> that they do not use.\<close>

definition readFile :: "'w net_calls \<Rightarrow> int \<Rightarrow> int \<Rightarrow> int \<Rightarrow> ('w, string option) tcp_action" where
  "readFile N handle_id read_data_size index =
     bindA (handle_request N handle_id HANDLE_PROTO_READ_FILE [(''read_data_size'', pint read_data_size)]) (\<lambda>resp.
       returnA (case resp of Some r \<Rightarrow> if handle_success r then Some (handle_read_data r) else None | None \<Rightarrow> None))"

definition writeFile :: "'w net_calls \<Rightarrow> int \<Rightarrow> string \<Rightarrow> int \<Rightarrow> ('w, int option) tcp_action" where
  "writeFile N handle_id data index =
     bindA (handle_request N handle_id HANDLE_PROTO_WRITE_FILE [(''write_data'', VStr data)]) (\<lambda>resp.
       returnA (case resp of Some r \<Rightarrow> if handle_success r then Some (write_data_size r) else None | None \<Rightarrow> None))"

end
