(* ===== verification/Callback_Server.thy ===== *)
theory Callback_Server
  imports Agent_Client
begin

section \<open>The callback server (runners/host/tcp\_server/callback\_server.py)\<close>

text \<open>
  A test registers Python functions under numbers, and the device calls them by sending a request to a server on the host. The dictionary
  \<open>_functions\<close> of the module, the attributes of the server object and the state outside are one record; functions are compared by identity, so that they are
  values of an arbitrary type. Parameters, in \<open>callback_calls\<close>: the server socket, the streams of a connection, the generated message classes and the
  call of a function.
\<close>

datatype callback_exc =
    CallbackServerError string
  | CallbackPy py_error
  | ServerStartError string
  | CallbackOther string

record callback_request =
  callback_id :: string
  callback_args :: "var_msg list"

record ('f, 'w) callback_calls =
  start_tcp_server :: "string \<Rightarrow> int \<Rightarrow> 'w \<Rightarrow> (callback_exc + string \<times> int) \<times> 'w"
  stop_tcp_server :: "'w \<Rightarrow> (callback_exc + unit) \<times> 'w"
  rfile_readline :: "'w \<Rightarrow> (callback_exc + string) \<times> 'w"
  rfile_read :: "int \<Rightarrow> 'w \<Rightarrow> (callback_exc + string) \<times> 'w"
  sendall :: "string \<Rightarrow> 'w \<Rightarrow> (callback_exc + unit) \<times> 'w"
  parse_request :: "string \<Rightarrow> callback_exc + callback_request"
  serialize_callback_response :: "int \<Rightarrow> callback_exc + string"
  call_function :: "'f \<Rightarrow> py_value list \<Rightarrow> 'w \<Rightarrow> (callback_exc + unit) \<times> 'w"
  callback_runtime :: pb_runtime

record ('f, 'w) callback_server =
  cb_functions :: "(string \<times> 'f) list"
  server_started :: bool
  server_ip :: string
  server_port :: int
  cb_world :: 'w

type_synonym ('f, 'w, 'a) callback_action = "(callback_exc, ('f, 'w) callback_server, 'a) raising"

definition outA :: "('w \<Rightarrow> (callback_exc + 'a) \<times> 'w) \<Rightarrow> ('f, 'w, 'a) callback_action" where
  "outA call s = (let (r, w) = call (cb_world s) in (r, s\<lparr>cb_world := w\<rparr>))"

definition builtinC :: "py_error + 'a \<Rightarrow> callback_exc + 'a" where
  "builtinC r = (case r of Inl e \<Rightarrow> Inl (CallbackPy e) | Inr v \<Rightarrow> Inr v)"

definition FAIL :: int where "FAIL = 2"

subsection \<open>Requests\<close>

text \<open>A request for a number that is registered calls the function with the converted arguments; the response is sent without its length.\<close>

definition respond :: "('f, 'w) callback_calls \<Rightarrow> callback_request \<Rightarrow> ('f, 'w, int) callback_action" where
  "respond C req = getA cb_functions (\<lambda>fs.
     case map_of fs (callback_id req) of
       Some f \<Rightarrow>
         bindA (liftA (builtinC (mapR (pb2py_Convert (callback_runtime C)) (callback_args req)))) (\<lambda>args.
           seqA (outA (call_function C f args)) (returnA SUCCESS))
     | None \<Rightarrow> returnA FAIL)"

definition handle :: "('f, 'w) callback_calls \<Rightarrow> ('f, 'w, unit) callback_action" where
  "handle C =
     bindA (outA (rfile_readline C)) (\<lambda>line.
       let header = strip line in
       case py_int header of
         Inl e \<Rightarrow> if header \<noteq> [] then raiseA (CallbackPy e) else returnA ()
       | Inr len \<Rightarrow>
           bindA (outA (rfile_read C len)) (\<lambda>received_data.
           bindA (liftA (parse_request C received_data)) (\<lambda>req.
           bindA (respond C req) (\<lambda>code.
           bindA (liftA (serialize_callback_response C code)) (\<lambda>message. outA (sendall C message))))))"

subsection \<open>The registry\<close>

definition CallbackServer :: "('f, 'w) callback_server \<Rightarrow> ('f, 'w) callback_server" where
  "CallbackServer s = s\<lparr>server_started := False, server_port := 0, server_ip := []\<rparr>"

definition GetCallbackId :: "(string \<times> 'f) list \<Rightarrow> 'f \<Rightarrow> string option" where
  "GetCallbackId fs f = map_option fst (List.find (\<lambda>kf. snd kf = f) fs)"

text \<open>\<open>int(max(_functions, key=int)) + 1\<close>, or 0 for an empty dictionary\<close>

definition next_id :: "(string \<times> 'f) list \<Rightarrow> py_error + int" where
  "next_id fs = (if fs = [] then Inr 0 else bindR (mapR (py_int \<circ> fst) fs) (\<lambda>is. Inr (Max (set is) + 1)))"

definition RegisterCallback :: "'f \<Rightarrow> ('f, 'w, string) callback_action" where
  "RegisterCallback f = getA cb_functions (\<lambda>fs.
     if (case GetCallbackId fs f of None \<Rightarrow> False | Some i \<Rightarrow> i \<noteq> []) then raiseA (CallbackServerError ''Function is already registered'')
     else bindA (liftA (builtinC (next_id fs))) (\<lambda>i.
       seqA (modifyA (\<lambda>s. s\<lparr>cb_functions := dict_set (str_int i) f fs\<rparr>)) (returnA (str_int i))))"

definition UnregisterCallback :: "string \<Rightarrow> ('f, 'w, unit) callback_action" where
  "UnregisterCallback func_id = getA cb_functions (\<lambda>fs.
     if map_of fs func_id = None
     then raiseA (CallbackServerError (''Can't remove function ID '' @ [CHR 0x27] @ func_id @ [CHR 0x27] @ '', which is not registered.''))
     else modifyA (\<lambda>s. s\<lparr>cb_functions := filter (\<lambda>kf. fst kf \<noteq> func_id) fs\<rparr>))"

subsection \<open>Starting and stopping\<close>

definition callback_hostname :: string where "callback_hostname = ''localhost''"

definition Start :: "('f, 'w) callback_calls \<Rightarrow> int \<Rightarrow> ('f, 'w, string \<times> int) callback_action" where
  "Start C port =
     catchA (bindA (outA (start_tcp_server C callback_hostname port)) (\<lambda>(ip, p).
         seqA (modifyA (\<lambda>s. s\<lparr>server_started := True, server_ip := ip, server_port := p\<rparr>)) (returnA (ip, p))))
       (\<lambda>e. case e of
          ServerStartError _ \<Rightarrow>
            raiseA (CallbackServerError (''Failed to start CallbackServer on ('' @ callback_hostname @ '':'' @ str_int port @ '').''))
        | _ \<Rightarrow> raiseA e)"

definition Stop :: "('f, 'w) callback_calls \<Rightarrow> ('f, 'w, unit) callback_action" where
  "Stop C = getA server_started (\<lambda>b. if b then outA (stop_tcp_server C) else raiseA (CallbackPy AttributeError))"

subsection \<open>Every reachable registry\<close>

text \<open>The states of a process that registers and removes functions and serves requests.\<close>

inductive registry :: "('f, 'w) callback_server \<Rightarrow> bool" where
  registry_init: "cb_functions s = [] \<Longrightarrow> registry s"
| registry_register: "registry s \<Longrightarrow> RegisterCallback f s = (r, s') \<Longrightarrow> registry s'"
| registry_unregister: "registry s \<Longrightarrow> UnregisterCallback i s = (r', s') \<Longrightarrow> registry s'"
| registry_handle: "registry s \<Longrightarrow> handle C s = (r', s') \<Longrightarrow> registry s'"

definition registry_ok :: "(string \<times> 'f) list \<Rightarrow> bool" where
  "registry_ok fs \<longleftrightarrow> distinct (map fst fs) \<and> distinct (map snd fs) \<and> (\<forall>k \<in> fst ` set fs. \<exists>i \<ge> 0. k = str_int i)"

lemma py_int_of_str_int: "py_int (str_int i) = Inr i"
proof -
  have "is_space (CHR '' '')" by (simp add: is_space_def)
  from py_int_str_int [OF this] show ?thesis by simp
qed

lemma str_int_inj: "str_int i = str_int j \<longleftrightarrow> i = j"
  using py_int_of_str_int [of i] py_int_of_str_int [of j] by (metis sum.inject(2))

lemma GetCallbackId_None: "GetCallbackId fs f = None \<longleftrightarrow> f \<notin> snd ` set fs"
  by (auto simp: GetCallbackId_def find_None_iff image_iff)

lemma GetCallbackId_Some: "GetCallbackId fs f = Some i \<Longrightarrow> (i, f) \<in> set fs"
  by (induction fs) (auto simp: GetCallbackId_def split: if_splits)

lemma GetCallbackId_append: "f \<notin> snd ` set fs \<Longrightarrow> GetCallbackId (fs @ [(i, f)]) f = Some i"
  by (induction fs) (auto simp: GetCallbackId_def)

lemma next_id_fresh:
  assumes "registry_ok fs"
  shows "\<exists>i \<ge> 0. next_id fs = Inr i \<and> str_int i \<notin> fst ` set fs"
proof (cases "fs = []")
  case False
  define g where "g kf = projr (py_int (fst kf))" for kf :: "string \<times> 'a"
  have g: "0 \<le> g kf \<and> fst kf = str_int (g kf)" if "kf \<in> set fs" for kf
    using assms that by (auto simp: registry_ok_def g_def py_int_of_str_int)
  then have "py_int (fst kf) = Inr (g kf)" if "kf \<in> set fs" for kf
    using that by (metis py_int_of_str_int)
  then have "mapR (py_int \<circ> fst) fs = Inr (map g fs)" by (intro mapR_Inr_map) simp
  then have n: "next_id fs = Inr (Max (g ` set fs) + 1)" using False by (simp add: next_id_def)
  have le: "g kf \<le> Max (g ` set fs)" if "kf \<in> set fs" for kf using that by simp
  obtain kf where kf: "kf \<in> set fs" using False by (meson last_in_set)
  have "0 \<le> Max (g ` set fs) + 1" using g [OF kf] le [OF kf] by simp
  moreover have "str_int (Max (g ` set fs) + 1) \<noteq> fst kf" if "kf \<in> set fs" for kf
    using g [OF that] le [OF that] by (metis str_int_inj zle_add1_eq_le order.irrefl)
  ultimately show ?thesis using n by (intro exI [of _ "Max (g ` set fs) + 1"]) auto
qed (simp add: next_id_def)

lemma RegisterCallback_new:
  assumes ok: "registry_ok (cb_functions s)" and new: "f \<notin> snd ` set (cb_functions s)"
  obtains i where "RegisterCallback f s = (Inr (str_int i), s\<lparr>cb_functions := cb_functions s @ [(str_int i, f)]\<rparr>)" "0 \<le> i"
    "str_int i \<notin> fst ` set (cb_functions s)"
proof -
  from next_id_fresh [OF ok] obtain i where i: "0 \<le> i" "next_id (cb_functions s) = Inr i" "str_int i \<notin> fst ` set (cb_functions s)" by auto
  from new have "GetCallbackId (cb_functions s) f = None" by (simp add: GetCallbackId_None)
  with i dict_set_fresh [OF i(3), of f] have
    "RegisterCallback f s = (Inr (str_int i), s\<lparr>cb_functions := cb_functions s @ [(str_int i, f)]\<rparr>)"
    by (simp add: RegisterCallback_def action_defs builtinC_def)
  with i that show thesis by blast
qed

lemma RegisterCallback_known:
  assumes "registry_ok (cb_functions s)" and "f \<in> snd ` set (cb_functions s)"
  shows "RegisterCallback f s = (Inl (CallbackServerError ''Function is already registered''), s)"
proof -
  from assms(2) obtain i where i: "GetCallbackId (cb_functions s) f = Some i" using GetCallbackId_None [of "cb_functions s" f] by auto
  from GetCallbackId_Some [OF i] have "i \<in> fst ` set (cb_functions s)" by force
  with assms(1) have "\<exists>n. i = str_int n" unfolding registry_ok_def by blast
  then have "i \<noteq> []" using str_int_ends(1) by auto
  with i show ?thesis by (simp add: RegisterCallback_def action_defs)
qed

lemma registry_ok_append:
  "registry_ok fs \<Longrightarrow> 0 \<le> i \<Longrightarrow> str_int i \<notin> fst ` set fs \<Longrightarrow> f \<notin> snd ` set fs \<Longrightarrow> registry_ok (fs @ [(str_int i, f)])"
  by (auto simp: registry_ok_def)

lemma registry_ok_filter: "registry_ok fs \<Longrightarrow> registry_ok (filter P fs)"
  by (auto simp: registry_ok_def distinct_map_filter image_iff)

lemma handle_functions: "keeps (\<lambda>s. cb_functions s = fs) (handle C)"
proof -
  have [keeps_rules]: "keeps (\<lambda>s. cb_functions s = fs) (outA call)" for call :: "'w \<Rightarrow> (callback_exc + 'c) \<times> 'w"
    by (rule keepsI) (auto simp: outA_def split: prod.split)
  show ?thesis unfolding handle_def respond_def Let_def by (intro keeps_rules)
qed

lemma registry_reachable_ok: "registry s \<Longrightarrow> registry_ok (cb_functions s)"
proof (induction rule: registry.induct)
  case (registry_register s f r s')
  show ?case
  proof (cases "f \<in> snd ` set (cb_functions s)")
    case True
    with RegisterCallback_known [OF registry_register.IH True] registry_register show ?thesis by simp
  next
    case False
    obtain i where "RegisterCallback f s = (Inr (str_int i), s\<lparr>cb_functions := cb_functions s @ [(str_int i, f)]\<rparr>)" "0 \<le> i"
      "str_int i \<notin> fst ` set (cb_functions s)"
      using RegisterCallback_new [OF registry_register.IH False] by blast
    with registry_register False show ?thesis by (auto intro: registry_ok_append)
  qed
next
  case (registry_unregister s i r' s')
  then show ?case by (auto simp: UnregisterCallback_def action_defs intro: registry_ok_filter split: if_splits)
next
  case (registry_handle s C r' s')
  then show ?case using keeps_step [OF handle_functions refl, of C s r' s'] by simp
qed (simp add: registry_ok_def)

text \<open>(C22) Callbacks are registered without mixing them up: in every state that registering, removing and serving can reach, a number belongs to one function and
  a function has one number. Registering a function that is not registered gives it a number that is free, and changes no other number; registering
  it again raises and changes nothing.\<close>

theorem callback_registry:
  assumes "registry s"
  shows "registry_ok (cb_functions s) \<and>
    (if f \<in> snd ` set (cb_functions s)
     then RegisterCallback f s = (Inl (CallbackServerError ''Function is already registered''), s)
     else \<exists>i s'. RegisterCallback f s = (Inr i, s') \<and> map_of (cb_functions s) i = None \<and>
       map_of (cb_functions s') = (map_of (cb_functions s))(i \<mapsto> f) \<and> GetCallbackId (cb_functions s') f = Some i)"
proof (cases "f \<in> snd ` set (cb_functions s)")
  case False
  note ok = registry_reachable_ok [OF assms]
  obtain i where i: "RegisterCallback f s = (Inr (str_int i), s\<lparr>cb_functions := cb_functions s @ [(str_int i, f)]\<rparr>)"
    "str_int i \<notin> fst ` set (cb_functions s)"
    using RegisterCallback_new [OF ok False] by blast
  from i(2) have none: "map_of (cb_functions s) (str_int i) = None" by (simp add: map_of_eq_None_iff)
  then have "map_of (cb_functions s @ [(str_int i, f)]) = (map_of (cb_functions s))(str_int i \<mapsto> f)"
    by (auto simp: fun_eq_iff map_add_def split: option.split)
  moreover have "GetCallbackId (cb_functions s @ [(str_int i, f)]) f = Some (str_int i)"
    using False by (rule GetCallbackId_append)
  ultimately show ?thesis using ok i(1) none False by simp
qed (use RegisterCallback_known [OF registry_reachable_ok [OF assms]] registry_reachable_ok [OF assms] in simp)

theorem callback_registry_witness:
  "\<exists>i s'. RegisterCallback (1 :: nat) \<lparr>cb_functions = [], server_started = False, server_ip = [], server_port = 0, cb_world = ()\<rparr> = (Inr i, s') \<and>
     GetCallbackId (cb_functions s') 1 = Some i"
proof -
  let ?s = "\<lparr>cb_functions = [], server_started = False, server_ip = [], server_port = 0, cb_world = ()\<rparr> :: (nat, unit) callback_server"
  have "registry ?s" by (rule registry_init) simp
  from callback_registry [OF this, of 1] show ?thesis by auto
qed

text \<open>A number can be given again: after the largest one was removed, the next function gets it.\<close>

lemma callback_id_reused:
  "RegisterCallback f s = (Inr i, s1) \<Longrightarrow> cb_functions s = [] \<Longrightarrow> UnregisterCallback i s1 = (Inr (), s2) \<Longrightarrow>
   fst (RegisterCallback g s2) = Inr i"
  by (auto simp: RegisterCallback_def UnregisterCallback_def GetCallbackId_def next_id_def builtinC_def action_defs split: if_splits)

end
