(* ===== verification/Native_Mirror.thy ===== *)
theory Native_Mirror
  imports Resource_Mirrors Callback_Server
begin

section \<open>Mirrors of HALs and libraries (utils/python/mirror)\<close>

text \<open>
  mirror\_object.py, native\_entity\_mirror.py, hal\_mirror.py and lib\_mirror.py. A mirror of a HAL turns every attribute that Python looks up into a call
  of the API of that name on the device. The object is the record \<open>native_mirror\<close>: its client, the driver, the specification, the last
  coverage data and the registry of the callback server.

  Parameters, in \<open>native_access\<close>: the fields of the generated messages that \<^typ>\<open>var_fields\<close> does not have, and the text of a call. \<open>MessageFuzzer\<close>,
  which changes a random field, is not modelled.
\<close>

datatype native_exc =
    NTcp tcp_exc
  | NCallback callback_exc
  | MirrorObjectError string
  | ComponentLoadingError string
  | NSystemExit int

record native_access =
  is_const :: "var_msg \<Rightarrow> bool"
  interface_id :: "var_msg \<Rightarrow> int"
  fmq_entries :: "var_msg \<Rightarrow> (int \<times> var_msg) list"
  memory_id :: "var_msg \<Rightarrow> int"
  handle_number :: "var_msg \<Rightarrow> int"
  enum_parts :: "var_msg \<Rightarrow> string list \<times> (string \<times> pb_scalar) list list"
  call_text :: "int \<Rightarrow> int \<Rightarrow> function_spec \<Rightarrow> tcp_exc + string"

record ('f, 'w) native_mirror =
  nm_client :: "'w tcp_client"
  nm_driver_id :: "int option"
  nm_spec :: "component_spec option"
  nm_caller_uid :: py_value
  nm_coverage :: "int list option"
  nm_server :: bool
  nm_functions :: "(string \<times> 'f) list"

type_synonym ('f, 'w, 'a) native_action = "(native_exc, ('f, 'w) native_mirror, 'a) raising"

definition liftN :: "('e \<Rightarrow> native_exc) \<Rightarrow> 'e + 'a \<Rightarrow> native_exc + 'a" where
  "liftN wrap r = (case r of Inl e \<Rightarrow> Inl (wrap e) | Inr v \<Rightarrow> Inr v)"

abbreviation NPy :: "py_error \<Rightarrow> native_exc" where "NPy e \<equiv> NTcp (PyError e)"

definition onClient :: "('w, 'a) tcp_action \<Rightarrow> ('f, 'w, 'a) native_action" where
  "onClient a m = (let (r, s) = a (nm_client m) in (liftN NTcp r, m\<lparr>nm_client := s\<rparr>))"

definition HalMirror :: "'w tcp_client \<Rightarrow> bool \<Rightarrow> (string \<times> 'f) list \<Rightarrow> int option \<Rightarrow> component_spec option \<Rightarrow> py_value \<Rightarrow> ('f, 'w) native_mirror" where
  "HalMirror client server fs driver_id spec uid =
     \<lparr>nm_client = client, nm_driver_id = driver_id, nm_spec = spec, nm_caller_uid = uid, nm_coverage = None, nm_server = server, nm_functions = fs\<rparr>"

subsection \<open>The driver of a mirror\<close>

definition COMPONENT_CLASS_DICT :: "(string \<times> int) list" where
  "COMPONENT_CLASS_DICT =
     [(''hal_conventional'', 1), (''hal_conventional_submodule'', 2), (''hal_legacy'', 3), (''hal_hidl'', 4),
      (''hal_hidl_wrapped_conventional'', 5), (''lib_shared'', 11)]"

definition COMPONENT_TYPE_DICT :: "(string \<times> int) list" where
  "COMPONENT_TYPE_DICT =
     [(''audio'', 1), (''camera'', 2), (''gps'', 3), (''gnss'', 3), (''light'', 4), (''wifi'', 5), (''mobile'', 6), (''bluetooth'', 7),
      (''nfc'', 8), (''vibrator'', 12), (''thermal'', 13), (''tv_input'', 14), (''tv_cec'', 15), (''sensors'', 16), (''vehicle'', 17),
      (''vr'', 18), (''graphics_allocator'', 19), (''graphics_mapper'', 20), (''radio'', 21), (''contexthub'', 22),
      (''graphics_composer'', 23), (''media_omx'', 24), (''tests_msgq'', 25), (''tests_memory'', 26), (''dumpstate'', 27), (''media_c2'', 28),
      (''bionic_libm'', 1001), (''bionic_libc'', 1002), (''vndk_libcutils'', 1101)]"

definition MirrorObject_CleanUp :: "'w net_calls \<Rightarrow> ('f, 'w, unit) native_action" where
  "MirrorObject_CleanUp N = onClient (Disconnect N)"

definition SetCallerUid :: "py_value \<Rightarrow> ('f, 'w, unit) native_action" where
  "SetCallerUid uid = modifyA (\<lambda>m. m\<lparr>nm_caller_uid := uid\<rparr>)"

definition MirrorObject_Ping :: "'w net_calls \<Rightarrow> ('f, 'w, bool) native_action" where
  "MirrorObject_Ping N = onClient (Ping N)"

text \<open>The truth values that other drivers give are the numbers 0 and 1, and never -1. For a wrong number of bits the code raises an exception of a module that it does not import.\<close>

definition driver_number :: "driver_result \<Rightarrow> int" where
  "driver_number r = (case r of DriverId i \<Rightarrow> i | Launched b \<Rightarrow> if b then 1 else 0)"

definition str_or :: "string option \<Rightarrow> string \<Rightarrow> string" where
  "str_or given other = (case given of None \<Rightarrow> other | Some s \<Rightarrow> if s = [] then other else s)"

record driver_args =
  da_type :: string
  da_major :: py_value
  da_minor :: py_value
  da_package :: py_value
  da_filename :: py_value
  da_component_name :: py_value
  da_handler :: "string option"
  da_service :: "string option"
  da_binder :: py_value
  da_bits :: int
  da_test_hal :: bool

definition LaunchMirrorDriver :: "'w net_calls \<Rightarrow> int \<Rightarrow> string \<Rightarrow> driver_args \<Rightarrow> ('f, 'w, int) native_action" where
  "LaunchMirrorDriver N driver_type target_class a =
     (if da_bits a \<notin> {32, 64} then raiseA (NPy NameError)
      else
        let handler_name = str_or (da_handler a) (da_type a);
            service_name = str_or (da_service a) (''vts_driver_'' @ handler_name) in
        case (map_of COMPONENT_CLASS_DICT (lower target_class), map_of COMPONENT_TYPE_DICT (lower (da_type a))) of
          (Some class_id, Some type_id) \<Rightarrow>
            bindA (onClient (LaunchDriverService N driver_type
                [(''service_name'', VStr service_name), (''bits'', pint (da_bits a)), (''file_path'', da_filename a),
                 (''target_class'', pint class_id), (''target_type'', pint type_id), (''target_version_major'', da_major a),
                 (''target_version_minor'', da_minor a), (''target_package'', da_package a),
                 (''target_component_name'', da_component_name a), (''hw_binder_service_name'', da_binder a),
                 (''is_test_hal'', pbool (da_test_hal a))])) (\<lambda>r.
              if driver_number r = - 1 then raiseA (ComponentLoadingError (''Failed to launch driver service '' @ da_type a))
              else returnA (driver_number r))
        | _ \<Rightarrow> raiseA (NPy KeyError))"

text \<open>What \<open>InitHalDriver\<close> and \<open>InitLibDriver\<close> have in common: the driver is kept before the APIs are asked for.\<close>

definition load_spec :: "'w net_calls \<Rightarrow> native_exc \<Rightarrow> int \<Rightarrow> ('f, 'w, unit) native_action" where
  "load_spec N no_api driver_id =
     seqA (modifyA (\<lambda>m. m\<lparr>nm_driver_id := Some driver_id\<rparr>))
       (bindA (onClient (ListApis N)) (\<lambda>found.
         case found of
           Some text \<Rightarrow>
             if text = [] then raiseA no_api
             else bindA (liftA (liftN NTcp (merge_component_strict N text))) (\<lambda>spec. modifyA (\<lambda>m. m\<lparr>nm_spec := Some spec\<rparr>))
         | None \<Rightarrow> raiseA no_api))"

text \<open>hal\_mirror.py does not import \<open>errors\<close>, so that its \<open>raise\<close> is a NameError.\<close>

definition InitHalDriver :: "'w net_calls \<Rightarrow> driver_args \<Rightarrow> ('f, 'w, unit) native_action" where
  "InitHalDriver N a =
     bindA (LaunchMirrorDriver N VTS_DRIVER_TYPE_HAL_HIDL ''hal_hidl'' (a\<lparr>da_filename := VNone, da_service := None\<rparr>))
       (load_spec N (NPy NameError))"

text \<open>The first library whose path ends with the file name, or the last one that contains the type.\<close>

definition lib_filename :: "string option \<Rightarrow> string \<Rightarrow> string list \<Rightarrow> string option" where
  "lib_filename target_filename target_type libs =
     (case target_filename of
        Some f \<Rightarrow> (case List.find (\<lambda>n. endswith n f) libs of Some n \<Rightarrow> Some n | None \<Rightarrow> Some f)
      | None \<Rightarrow> List.find (\<lambda>n. str_find n target_type \<noteq> None) (rev libs))"

definition InitLibDriver :: "'w net_calls \<Rightarrow> driver_args \<Rightarrow> string option \<Rightarrow> string list \<Rightarrow> ('f, 'w, unit) native_action" where
  "InitLibDriver N a target_filename target_basepaths =
     bindA (onClient (ListHals N target_basepaths)) (\<lambda>libs.
       if libs = None \<or> libs = Some [] then raiseA (ComponentLoadingError ''Could not find any lib under path'')
       else
         case lib_filename target_filename (da_type a) (the libs) of
           Some (c # f) \<Rightarrow>
             bindA (LaunchMirrorDriver N VTS_DRIVER_TYPE_HAL_CONVENTIONAL ''lib_shared''
                 (a\<lparr>da_filename := VStr (c # f), da_component_name := VNone, da_service := None, da_binder := VStr ''default'', da_test_hal := False\<rparr>))
               (load_spec N (ComponentLoadingError (''No API found for '' @ da_type a)))
         | _ \<Rightarrow> raiseA (ComponentLoadingError (''No file found for target type '' @ da_type a @ ''.'')))"

subsection \<open>Looking up a specification\<close>

definition needSpec :: "(component_spec \<Rightarrow> ('f, 'w, 'a) native_action) \<Rightarrow> ('f, 'w, 'a) native_action \<Rightarrow> ('f, 'w, 'a) native_action" where
  "needSpec k otherwise = getA nm_spec (\<lambda>spec. case spec of Some c \<Rightarrow> k c | None \<Rightarrow> otherwise)"

definition empty_function :: function_spec where
  "empty_function = \<lparr>fn_name = [], fn_args = [], return_type = None, return_type_hidl = [], raw_coverage_data = []\<rparr>"

text \<open>A mirror without a specification ends the process.\<close>

definition GetApi :: "string \<Rightarrow> ('f, 'w, function_spec option) native_action" where
  "GetApi api_name =
     (if api_name = ''notifySyspropsChanged'' then returnA (Some (empty_function\<lparr>fn_name := api_name\<rparr>))
      else needSpec (\<lambda>c. returnA (List.find (\<lambda>f. fn_name f = api_name) (interface_apis c))) (raiseA (NSystemExit 1)))"

definition has_name :: "string \<Rightarrow> var_msg \<Rightarrow> bool" where
  "has_name n a \<longleftrightarrow> name (flat a) = n \<or> endswith (name (flat a)) (''::'' @ n)"

definition GetAttribute :: "native_access \<Rightarrow> string \<Rightarrow> ('f, 'w, var_msg option) native_action" where
  "GetAttribute A attribute_name =
     needSpec (\<lambda>c. returnA (List.find (\<lambda>a. \<not> is_const A a \<and> has_name attribute_name a) (spec_attributes c @ interface_attributes c)))
       (raiseA (NPy AttributeError))"

definition is_const_type :: "native_access \<Rightarrow> string \<Rightarrow> var_msg \<Rightarrow> bool" where
  "is_const_type A type_name a \<longleftrightarrow>
     is_const A a \<and> name (flat a) = type_name \<or> vtype (flat a) = TYPE_ENUM \<and> endswith (name (flat a)) type_name"

definition GetConstType :: "native_access \<Rightarrow> string \<Rightarrow> ('f, 'w, var_msg option) native_action" where
  "GetConstType A type_name =
     needSpec (\<lambda>c. returnA (List.find (is_const_type A type_name) (spec_attributes c @ interface_attributes c))) (returnA None)"

definition Py2Pb :: "'w net_calls \<Rightarrow> native_access \<Rightarrow> string \<Rightarrow> py_value \<Rightarrow> ('f, 'w, var_msg option) native_action" where
  "Py2Pb N A attribute_name py_values =
     bindA (GetAttribute A attribute_name) (\<lambda>spec.
       case spec of
         None \<Rightarrow> returnA None
       | Some sp \<Rightarrow>
           bindA (liftA (liftN NPy (py2pb_Convert (scalar_runtime N) (Some sp) py_values))) (\<lambda>converted.
             if converted = None then raiseA (MirrorObjectError ''Failed to convert attribute'') else returnA converted))"

text \<open>The arguments are a tuple, and the tuple is the value that is converted.\<close>

definition MessageGenerator :: "'w net_calls \<Rightarrow> native_access \<Rightarrow> string \<Rightarrow> py_value list \<Rightarrow> ('f, 'w, var_msg option) native_action" where
  "MessageGenerator N A api_name args = (if args \<noteq> [] then Py2Pb N A api_name (VList args) else returnA None)"

datatype const_value = ConstScalar py_value | ConstString string | ConstEnum "(string \<times> py_value) list"

definition VtsEnum :: "pb_runtime \<Rightarrow> native_access \<Rightarrow> var_msg \<Rightarrow> native_exc + (string \<times> py_value) list" where
  "VtsEnum pb A a =
     (let (enumerators, scalars) = enum_parts A a in
      mapR (\<lambda>(n, s). bindR (liftN NTcp (scalar_attr pb (empty_fields\<lparr>scalar_value := s\<rparr>) (enum_scalar_type (flat a)))) (\<lambda>v. Inr (n, v)))
        (zip enumerators scalars))"

definition ConstGenerator :: "'w net_calls \<Rightarrow> native_access \<Rightarrow> string \<Rightarrow> ('f, 'w, const_value) native_action" where
  "ConstGenerator N A api_name =
     bindA (GetConstType A api_name) (\<lambda>found.
       case found of
         None \<Rightarrow> raiseA (MirrorObjectError ''const None unknown'')
       | Some a \<Rightarrow>
           (case vtype (flat a) of
              TYPE_SCALAR \<Rightarrow>
                (case scalar_attr (scalar_runtime N) (flat a) (scalar_type (flat a)) of
                   Inl (PyError AttributeError) \<Rightarrow>
                     raiseA (MirrorObjectError (''No value found for type '' @ scalar_type (flat a) @ '' in '' @ api_name @ ''.''))
                 | Inl e \<Rightarrow> raiseA (NTcp e)
                 | Inr v \<Rightarrow> returnA (ConstScalar v))
            | TYPE_STRING \<Rightarrow> returnA (ConstString (string_message (flat a)))
            | TYPE_ENUM \<Rightarrow> bindA (liftA (VtsEnum (scalar_runtime N) A a)) (\<lambda>vs. returnA (ConstEnum vs))
            | _ \<Rightarrow> raiseA (MirrorObjectError (''const '' @ api_name @ '' not found''))))"

text \<open>What looking up an attribute gives: the function that calls the API, the value of a constant, or a function that makes or changes a message.\<close>

datatype getattr_result = RemoteCallOf string | ConstOf const_value | MessageGeneratorOf string | MessageFuzzerOf string

definition native_getattr :: "'w net_calls \<Rightarrow> native_access \<Rightarrow> string \<Rightarrow> ('f, 'w, getattr_result) native_action" where
  "native_getattr N A api_name =
     bindA (GetApi api_name) (\<lambda>func_msg.
       if func_msg \<noteq> None then returnA (RemoteCallOf api_name)
       else bindA (GetConstType A api_name) (\<lambda>arg_msg.
         if arg_msg \<noteq> None then bindA (ConstGenerator N A api_name) (\<lambda>v. returnA (ConstOf v))
         else
           let fuzz = endswith api_name ''_fuzz''; api_name = (if fuzz then take (length api_name - 5) api_name else api_name) in
           bindA (GetAttribute A api_name) (\<lambda>arg_msg.
             if arg_msg = None then raiseA (MirrorObjectError (''unknown api name '' @ api_name))
             else returnA (if fuzz then MessageFuzzerOf api_name else MessageGeneratorOf api_name))))"

subsection \<open>Callbacks\<close>

definition GetCallbackFunctionID :: "'f \<Rightarrow> ('f, 'w, string) native_action" where
  "GetCallbackFunctionID f = getA (\<lambda>m. (nm_server m, nm_functions m)) (\<lambda>(server, fs).
     if \<not> server then raiseA (MirrorObjectError ''callback server is not started.'')
     else
       case GetCallbackId fs f of
         Some i \<Rightarrow> returnA i
       | None \<Rightarrow>
           let (r, s) = RegisterCallback f \<lparr>cb_functions = fs, server_started = True, server_ip = [], server_port = 0, cb_world = ()\<rparr> in
           seqA (modifyA (\<lambda>m. m\<lparr>nm_functions := cb_functions s\<rparr>)) (liftA (liftN NCallback r)))"

definition version_args :: "component_spec \<Rightarrow> py_value \<times> py_value \<times> py_value \<times> py_value \<times> py_value" where
  "version_args c = (pint (spec_class c), pint (spec_type c), pint (spec_version_major c), pint (spec_version_minor c), VStr (spec_package c))"

definition read_interface :: "'w net_calls \<Rightarrow> string \<Rightarrow> component_spec \<Rightarrow> bool \<Rightarrow> ('f, 'w, component_spec) native_action" where
  "read_interface N interface_name c recursive =
     (case version_args c of (cls, ty, major, minor, package) \<Rightarrow>
        onClient (ReadSpecification N (VStr interface_name) cls ty major minor package recursive))"

text \<open>\<open>dummy i\<close> is the function that the i-th round of the loop defines for an API without a callback.\<close>

fun callback_pointers :: "(string \<times> 'f) list \<Rightarrow> (nat \<Rightarrow> 'f) \<Rightarrow> nat \<Rightarrow> function_spec list \<Rightarrow> ('f, 'w, (string \<times> string) list) native_action" where
  "callback_pointers kwargs dummy i [] = returnA []"
| "callback_pointers kwargs dummy i (api # apis) =
     bindA (GetCallbackFunctionID (case map_of kwargs (fn_name api) of Some f \<Rightarrow> f | None \<Rightarrow> dummy i)) (\<lambda>fid.
       bindA (callback_pointers kwargs dummy (Suc i) apis) (\<lambda>ps. returnA ((fn_name api, fid) # ps)))"

definition GetHidlCallbackInterface ::
  "'w net_calls \<Rightarrow> string \<Rightarrow> (string \<times> 'f) list \<Rightarrow> (nat \<Rightarrow> 'f) \<Rightarrow> ('f, 'w, string \<times> (string \<times> string) list) native_action" where
  "GetHidlCallbackInterface N interface_name kwargs dummy =
     needSpec (\<lambda>c.
       bindA (read_interface N interface_name c False) (\<lambda>specification.
         bindA (callback_pointers kwargs dummy 0 (interface_apis specification)) (\<lambda>ps. returnA (interface_name, ps))))
       (raiseA (NPy AttributeError))"

text \<open>The new mirror of an interface; the driver 0 counts as none given.\<close>

definition GetHalMirrorForInterface :: "'w net_calls \<Rightarrow> string \<Rightarrow> int option \<Rightarrow> ('f, 'w, int option \<times> component_spec) native_action" where
  "GetHalMirrorForInterface N interface_name driver_id =
     needSpec (\<lambda>c.
       bindA (read_interface N interface_name c True) (\<lambda>found.
         getA nm_driver_id (\<lambda>own. returnA (if driver_id = None \<or> driver_id = Some 0 then own else driver_id, found))))
       (raiseA (MirrorObjectError ''specification is not loaded''))"

definition GetHidlTypeInterface :: "'w net_calls \<Rightarrow> string \<Rightarrow> ('f, 'w, int option \<times> component_spec) native_action" where
  "GetHidlTypeInterface N interface_name = GetHalMirrorForInterface N interface_name None"

subsection \<open>Calling an API\<close>

datatype remote_value =
    RNone
  | RValue py_value
  | RMirror "int option" component_spec
  | RFmq fmq_mirror
  | RMemory int
  | RHandle int
  | RFunction function_spec
  | RList "remote_value list"

fun convert_args :: "pb_runtime \<Rightarrow> var_msg list \<Rightarrow> py_value list \<Rightarrow> native_exc + var_msg list" where
  "convert_args pb (arg # args) (v # vs) =
     bindR (if v = VNone then Inr arg
            else bindR (liftN NPy (py2pb_Convert pb (Some arg) v)) (\<lambda>converted.
              case converted of Some m \<Rightarrow> Inr m | None \<Rightarrow> Inl (MirrorObjectError ''Failed to convert arg''))) (\<lambda>m.
       bindR (convert_args pb args vs) (\<lambda>ms. Inr (m # ms)))"
| "convert_args pb args _ = Inr args"

definition pointer_arg :: "pb_runtime \<Rightarrow> var_msg \<Rightarrow> py_error + var_msg" where
  "pointer_arg pb arg =
     (if vtype (flat arg) = TYPE_SCALAR \<and> scalar_type (flat arg) = ''pointer'' then set_scalar_field pb ''pointer'' (pint 0) arg else Inr arg)"

definition fmq_type :: "var_msg \<Rightarrow> string option" where
  "fmq_type e =
     (case vtype (flat e) of
        TYPE_SCALAR \<Rightarrow> Some (scalar_type (flat e))
      | TYPE_ENUM \<Rightarrow> Some (predefined_type (flat e))
      | TYPE_STRUCT \<Rightarrow> Some (predefined_type (flat e))
      | TYPE_UNION \<Rightarrow> Some (predefined_type (flat e))
      | _ \<Rightarrow> None)"

text \<open>One result. An interface with a negative number is replaced by None, and then by a mirror all the same.\<close>

definition translate_result :: "'w net_calls \<Rightarrow> native_access \<Rightarrow> py_value \<Rightarrow> ('f, 'w, remote_value) native_action" where
  "translate_result N A v =
     (case v of
        VMsg m \<Rightarrow>
          (case vtype (flat m) of
             TYPE_HIDL_INTERFACE \<Rightarrow>
               bindA (GetHalMirrorForInterface N (last (split_at ''::'' (predefined_type (flat m)))) (Some (interface_id A m)))
                 (\<lambda>(driver_id, spec). returnA (RMirror driver_id spec))
           | TYPE_HIDL_MEMORY \<Rightarrow> returnA (if memory_id A m = - 1 then RNone else RMemory (memory_id A m))
           | TYPE_HANDLE \<Rightarrow> returnA (if handle_number A m = - 1 then RNone else RHandle (handle_number A m))
           | t \<Rightarrow>
               if t = TYPE_FMQ_SYNC \<or> t = TYPE_FMQ_UNSYNC
               then case fmq_entries A m of
                      [] \<Rightarrow> raiseA (NPy IndexError)
                    | (fmq_id, e) # _ \<Rightarrow>
                        returnA (if fmq_id = - 1 then RNone
                          else case fmq_type e of
                                 None \<Rightarrow> RNone
                               | Some ty \<Rightarrow> RFmq (ResourceFmqMirror ty (t = TYPE_FMQ_SYNC) fmq_id))
               else returnA (RValue v))
      | _ \<Rightarrow> returnA (RValue v))"

fun translate_results :: "'w net_calls \<Rightarrow> native_access \<Rightarrow> py_value list \<Rightarrow> ('f, 'w, remote_value list) native_action" where
  "translate_results N A [] = returnA []"
| "translate_results N A (v # vs) =
     bindA (translate_result N A v) (\<lambda>r. bindA (translate_results N A vs) (\<lambda>rs. returnA (r # rs)))"

fun native_result :: "'w net_calls \<Rightarrow> native_access \<Rightarrow> call_result \<Rightarrow> ('f, 'w, remote_value) native_action" where
  "native_result N A (WithCoverage r coverage) =
     seqA (modifyA (\<lambda>m. m\<lparr>nm_coverage := Some coverage\<rparr>)) (native_result N A r)"
| "native_result N A (FunctionResult f) = returnA (RFunction f)"
| "native_result N A (ValuesResult vs) =
     bindA (translate_results N A vs) (\<lambda>rs. returnA (case rs of [r] \<Rightarrow> r | _ \<Rightarrow> RList rs))"

definition RemoteCall :: "'w net_calls \<Rightarrow> native_access \<Rightarrow> string \<Rightarrow> py_value list \<Rightarrow> ('f, 'w, remote_value) native_action" where
  "RemoteCall N A api_name args =
     bindA (GetApi api_name) (\<lambda>func_msg.
       case func_msg of
         None \<Rightarrow> raiseA (MirrorObjectError ''api unknown'')
       | Some f \<Rightarrow>
           bindA (liftA (if args \<noteq> [] then convert_args (scalar_runtime N) (fn_args f) args
                         else liftN NPy (mapR (pointer_arg (scalar_runtime N)) (fn_args f)))) (\<lambda>ms.
           needSpec (\<lambda>c. getA nm_driver_id (\<lambda>driver_id.
             case driver_id of
               None \<Rightarrow> raiseA (NPy TypeError)
             | Some d \<Rightarrow>
                 bindA (liftA (liftN NTcp (call_text A (spec_class c) d (f\<lparr>fn_args := ms\<rparr>)))) (\<lambda>text.
                 getA nm_caller_uid (\<lambda>uid.
                 bindA (onClient (CallApi N text uid)) (native_result N A)))))
             (raiseA (NPy AttributeError))))"

definition GetRawCodeCoverage :: "('f, 'w, int list option) native_action" where
  "GetRawCodeCoverage = getA nm_coverage returnA"

definition native_str :: "('f, 'w) native_mirror \<Rightarrow> string" where
  "native_str m =
     (case nm_spec m of
        None \<Rightarrow> []
      | Some c \<Rightarrow>
          concat (map (\<lambda>a. ''attribute '' @ name (flat a) @ [CHR 0x0A]) (spec_attributes c)) @
          concat (map (\<lambda>a. ''interface attribute '' @ name (flat a) @ [CHR 0x0A]) (interface_attributes c)) @
          concat (map (\<lambda>f. ''api '' @ fn_name f @ [CHR 0x0A]) (interface_apis c)))"

end
