(* ===== verification/Agent_Properties.thy ===== *)
theory Agent_Properties
  imports Resource_Mirrors
begin

section \<open>Properties of the agent client and the mirrors of resources\<close>

text \<open>
  What a request does to the client; the two converters of messages agree; a shell command without exceptions; the mirror of a message queue on a
  device that keeps the queue. \<open>exchange\<close> describes one round on the channel in terms of the calls of the socket, and the theorems about
  requests rest on \<open>request_exchange\<close>.
\<close>

subsection \<open>Requests\<close>

definition session :: "'w tcp_client \<Rightarrow> bool \<times> bool \<times> string \<times> int" where
  "session s = (connected s, has_channel s, client_mode s, client_timeout s)"

abbreviation keeps_session :: "('w tcp_client \<Rightarrow> 'r \<times> 'w tcp_client) \<Rightarrow> bool" where
  "keeps_session a \<equiv> (\<forall>c. keeps (\<lambda>s. session s = c) a)"

definition no_channel :: tcp_exc where
  "no_channel = VtsTcpCommunicationError ''channel is None, unable to send command.''"

lemma session_netA [keeps_rules]: "keeps (\<lambda>s. session s = c) (netA call)"
  by (rule keepsI) (auto simp: netA_def session_def split: prod.split)

lemma session_channelA [keeps_rules]: "keeps (\<lambda>s. session s = c) (channelA call)"
  unfolding channelA_def by (intro keeps_rules)

lemma session_recv_loop [keeps_rules]: "keeps (\<lambda>s. session s = c) (recv_loop N n)"
  by (induction n) (auto simp: recv_once_def Let_def intro!: keeps_rules)

lemma session_request [keeps_rules]: "keeps (\<lambda>s. session s = c) (request N t kwargs n)"
  unfolding request_def SendCommand_def RecvResponse_def by (intro keeps_rules)

lemma request_disconnected: "\<not> has_channel s \<Longrightarrow> request N t kwargs n s = (Inl no_channel, s)"
  by (simp add: request_def SendCommand_def no_channel_def action_defs)

text \<open>The interface between the mirrors of resources and the client, and what each method of a mirror inherits from it.\<close>

locale resource_requests =
  fixes send :: "pb_message \<Rightarrow> ('w, 'r option) tcp_action"
  assumes send_session: "\<And>m. keeps_session (send m)"
    and send_disconnected: "\<And>m s. \<not> has_channel s \<Longrightarrow> send m s = (Inl no_channel, s)"
begin

lemma ask_session: "keeps_session (bindA (assign N kind flds) (\<lambda>m. bindA (send m) (\<lambda>r. returnA (k r))))"
  using send_session by (auto simp: assign_def intro!: keeps_rules)

lemma ask_disconnected:
  "\<not> has_channel s \<Longrightarrow> \<exists>e. bindA (assign N kind flds) (\<lambda>m. bindA (send m) (\<lambda>r. returnA (k r))) s = (Inl e, s)"
  using send_disconnected by (auto simp: assign_def action_defs split: sum.split)

end

interpretation fmq_requests: resource_requests "SendFmqRequest N" for N
  by unfold_locales (auto simp: SendFmqRequest_def request_disconnected bindA_def intro!: keeps_rules)

interpretation memory_requests: resource_requests "SendHidlMemoryRequest N" for N
  by unfold_locales (auto simp: SendHidlMemoryRequest_def request_disconnected bindA_def intro!: keeps_rules)

interpretation handle_requests: resource_requests "SendHidlHandleRequest N" for N
  by unfold_locales (auto simp: SendHidlHandleRequest_def request_disconnected bindA_def intro!: keeps_rules)

text \<open>One round on the channel: the command goes out after its length, and a response after its length comes back.\<close>

definition line_of :: "nat \<Rightarrow> string" where
  "line_of n = str_int (int n) @ [CHR 0x0A]"

definition exchange :: "'w net_calls \<Rightarrow> int \<Rightarrow> pb_message \<Rightarrow> 'w \<Rightarrow> agent_response \<Rightarrow> 'w \<Rightarrow> bool" where
  "exchange N t cmd w r w' \<longleftrightarrow>
     (\<exists>message data w1 w2 w3 w4. serialize_command N t cmd = Inr message \<and>
        chan_write N (line_of (length message)) w = (Inr (), w1) \<and> chan_write N message w1 = (Inr (), w2) \<and>
        chan_flush N w2 = (Inr (), w3) \<and> chan_readline N w3 = (Inr (line_of (length data)), w4) \<and>
        chan_read N (int (length data)) w4 = (Inr data, w') \<and> parse_response N data = Inr r)"

lemma strip_newlines_line [simp]: "strip_newlines (line_of n) = str_int (int n)"
proof -
  have *: "c \<noteq> CHR 0x0A" if "c \<in> {hd (str_int (int n)), last (str_int (int n))}" for c
    using that str_int_ends [of "int n"] by (auto simp: is_space_def)
  obtain c cs where c: "str_int (int n) = c # cs" using str_int_ends(1) by (meson list.exhaust)
  obtain ds d where d: "str_int (int n) = ds @ [d]" using str_int_ends(1) by (meson rev_exhaust)
  have "dropWhile (\<lambda>c. c = CHR 0x0A) (line_of n) = line_of n" using * c by (auto simp: line_of_def)
  moreover have "dropWhile (\<lambda>c. c = CHR 0x0A) (rev (line_of n)) = rev (str_int (int n))"
    using * d by (simp add: line_of_def)
  ultimately show ?thesis by (simp add: strip_newlines_def)
qed

lemma request_exchange:
  assumes "exchange N t (command_msg kwargs) (net s) r w'" and c: "has_channel s" and t: "map_of COMMAND_TYPE_NAME t \<noteq> None"
  shows "request N t kwargs n s = (Inr (Some r), s\<lparr>net := w'\<rparr>)"
proof -
  from assms(1) obtain message data w1 w2 w3 w4 where m: "serialize_command N t (command_msg kwargs) = Inr message"
    and w: "chan_write N (line_of (length message)) (net s) = (Inr (), w1)" "chan_write N message w1 = (Inr (), w2)"
      "chan_flush N w2 = (Inr (), w3)"
    and r: "chan_readline N w3 = (Inr (line_of (length data)), w4)" "chan_read N (int (length data)) w4 = (Inr data, w')"
      "parse_response N data = Inr r"
    unfolding exchange_def by blast
  have send: "SendCommand N t kwargs s = (Inr (), s\<lparr>net := w3\<rparr>)"
    using c t m w by (simp add: SendCommand_def line_of_def channelA_def netA_def action_defs)
  have "recv_once N (s\<lparr>net := w3\<rparr>) = (Inr r, s\<lparr>net := w'\<rparr>)"
    using c r str_int_ends(1) py_int_str_int [of "CHR 0x0A"]
    by (simp add: recv_once_def channelA_def netA_def action_defs builtinT_def is_space_def)
  then show ?thesis using send by (simp add: request_def RecvResponse_def action_defs)
qed

subsection \<open>The two converters of messages\<close>

text \<open>
  \<open>pb2py.Convert\<close> and \<open>GetPythonDataOfVariableSpecMsg\<close> do the same work. They differ on scalars without a type, attributes without a
  name, vectors of other things than scalars and structs, and types that only one of them knows; \<^const>\<open>common_msg\<close> excludes these.
\<close>

lemma builtinT_simps [simp]: "builtinT (Inr v) = Inr v" "builtinT (Inl e) = Inl (PyError e)"
  by (simp_all add: builtinT_def)

lemma builtinT_bindR: "builtinT (bindR m f) = bindR (builtinT m) (\<lambda>x. builtinT (f x))"
  by (cases m) simp_all

lemma scalar_attr_field: "scalar_attr pb (flat m) (scalar_type (flat m)) = builtinT (get_scalar_field pb m)"
  by (simp add: scalar_attr_def get_scalar_field_def)

lemma vector_data_agrees:
  assumes "\<And>v. v \<in> set vs \<Longrightarrow> GetPythonDataOfVariableSpecMsg pb v = builtinT (pb2py_Convert pb v)"
    and "\<And>v. v \<in> set vs \<Longrightarrow> vtype (flat v) \<in> {TYPE_SCALAR, TYPE_STRUCT}"
  shows "vector_data pb vs acc = builtinT (vector_values pb vs acc)"
  using assms
proof (induction vs arbitrary: acc)
  case (Cons a vs)
  then have "vtype (flat a) = TYPE_SCALAR \<or> vtype (flat a) = TYPE_STRUCT"
    and "GetPythonDataOfVariableSpecMsg pb a = builtinT (pb2py_Convert pb a)" by simp_all
  moreover have "vector_data pb vs x = builtinT (vector_values pb vs x)" for x using Cons by simp
  ultimately show ?case by (elim disjE) (simp_all add: builtinT_bindR pb2py_Convert_def)
qed simp

lemma named_data_agrees:
  assumes "\<And>a. a \<in> set as \<Longrightarrow> GetPythonDataOfVariableSpecMsg pb a = builtinT (pb2py_Convert pb a)"
    and "\<And>a. a \<in> set as \<Longrightarrow> name (flat a) \<noteq> [] \<and> vtype (flat a) \<in> {TYPE_ENUM, TYPE_SCALAR, TYPE_STRING, TYPE_VECTOR, TYPE_STRUCT}"
  shows "named_data pb i as acc = builtinT (struct_items pb as acc)"
  using assms
proof (induction as arbitrary: acc i)
  case (Cons a as)
  then have "vtype (flat a) = TYPE_ENUM \<or> vtype (flat a) = TYPE_SCALAR \<or> vtype (flat a) = TYPE_STRING \<or> vtype (flat a) = TYPE_VECTOR \<or>
      vtype (flat a) = TYPE_STRUCT"
    and "GetPythonDataOfVariableSpecMsg pb a = builtinT (pb2py_Convert pb a)" "name (flat a) \<noteq> []" by simp_all
  moreover have "named_data pb j as x = builtinT (struct_items pb as x)" for j x using Cons by simp
  ultimately show ?case by (elim disjE) (simp_all add: builtinT_bindR pb2py_Convert_def)
qed simp

lemma converters_agree_aux: "common_msg m \<Longrightarrow> GetPythonDataOfVariableSpecMsg pb m = builtinT (pb2py_Convert pb m)"
proof (induction m rule: common_msg.induct)
  case (1 f vs sts ss us su)
  have s: "scalar_attr pb f (scalar_type f) = builtinT (get_scalar_field pb (VarMsg f vs sts ss us su))"
    using scalar_attr_field [of pb "VarMsg f vs sts ss us su"] by simp
  show ?case
  proof (cases "vtype f")
    case TYPE_VECTOR
    with 1 have "vector_data pb vs [] = builtinT (vector_values pb vs [])" by (intro vector_data_agrees) auto
    then show ?thesis using TYPE_VECTOR by (simp add: pb2py_Convert_def)
  next
    case TYPE_STRUCT
    with 1 have "named_data pb 1 sts [] = builtinT (struct_items pb sts [])" by (intro named_data_agrees) auto
    then show ?thesis using TYPE_STRUCT by (simp add: pb2py_Convert_def)
  qed (use 1 s in \<open>simp_all add: pb2py_Convert_def PbScalar2PyValue_def PbEnum2PyValue_def PbString2PyString_def\<close>)
qed

text \<open>The client of the agent and the mirrors read a message alike: on messages whose scalars have a type and whose attributes have a name, of the types that both
  know, \<open>GetPythonDataOfVariableSpecMsg\<close> gives the value of \<open>pb2py.Convert\<close>, and raises where that raises.\<close>

theorem converters_agree:
  assumes "common_msg m"
  shows "GetPythonDataOfVariableSpecMsg pb m = builtinT (pb2py_Convert pb m)"
  using assms by (rule converters_agree_aux)

theorem converters_agree_witness:
  "GetPythonDataOfVariableSpecMsg example_runtime
      (VarMsg (empty_fields\<lparr>vtype := TYPE_STRUCT\<rparr>) [] [example_scalar ''x'', example_scalar ''y''] [] [] []) =
     Inr (VDict [(''x'', VScalar (SInt 0)), (''y'', VScalar (SInt 0))])"
  by (subst converters_agree)
    (simp_all add: example_scalar_def pb2py_Convert_def PbScalar2PyValue_def get_scalar_field_def example_runtime_def empty_fields_def)

subsection \<open>Shell commands\<close>

lemma execute_shell_command_response:
  assumes "request N EXECUTE_SHELL_COMMAND [(''shell_command'', command)] 2 s = (Inr resp, s1)"
  shows "execute_shell_command N command s =
    (case resp of
       Some r \<Rightarrow> if response_code r = SUCCESS
         then (Inr \<lparr>sh_stdout = resp_stdout r, sh_stderr = resp_stderr r, sh_exit_code = ExitCodes (resp_exit_code r)\<rparr>, s1\<lparr>client_err := None\<rparr>)
         else failed_shell FAIL_RESPONSE_MSG s1
     | None \<Rightarrow> failed_shell NO_RESPONSE_MSG s1)"
  using assms by (auto simp: execute_shell_command_def set_error_def action_defs split: option.split)

text \<open>(C21) A shell command without exceptions always returns: for a command or a list of commands, \<open>ExecuteShellCommand\<close> with \<open>no_except\<close> gives a result,
  whatever the channel does. The client is healthy afterwards exactly if the agent reported success, and then the result is the output that the agent
  sent; otherwise the client keeps the error, and every exit code is -1.\<close>

theorem ExecuteShellCommand_no_except:
  assumes "py_len command = Inr n"
  shows "\<exists>res s'. ExecuteShellCommand N command True s = (Inr res, s') \<and>
    (tcp_Heal s' \<longleftrightarrow> (\<exists>r s1. request N EXECUTE_SHELL_COMMAND [(''shell_command'', command)] 2 s = (Inr (Some r), s1) \<and>
       response_code r = SUCCESS \<and>
       res = \<lparr>sh_stdout = resp_stdout r, sh_stderr = resp_stderr r, sh_exit_code = ExitCodes (resp_exit_code r)\<rparr>)) \<and>
    (\<not> tcp_Heal s' \<longrightarrow> sh_exit_code res \<in> {ExitCode (- 1), ExitCodes (replicate n (- 1))})"
proof (cases "request N EXECUTE_SHELL_COMMAND [(''shell_command'', command)] 2 s")
  case (Pair r s1)
  show ?thesis
  proof (cases r)
    case (Inl e)
    with Pair assms show ?thesis
      by (simp add: ExecuteShellCommand_def execute_shell_command_def set_error_def tcp_Heal_def action_defs)
  next
    case (Inr resp)
    with Pair have "request N EXECUTE_SHELL_COMMAND [(''shell_command'', command)] 2 s = (Inr resp, s1)" by simp
    from execute_shell_command_response [OF this] this show ?thesis
      by (cases resp) (auto simp: ExecuteShellCommand_def catchA_def failed_shell_def set_error_def tcp_Heal_def seqA_def bindA_def modifyA_def
          returnA_def)
  qed
qed

subsection \<open>Message queues\<close>

text \<open>
  The specification of a fast message queue: a bounded queue, where a write takes all of its elements or none, and a read gives the number
  of elements that it asks for or fails. A result is the truth value that the method returns with the elements that were read.
\<close>

datatype queue_op = Put "pb_scalar list" | Get nat

type_synonym queue_result = "bool \<times> py_value list"

fun queue_step :: "nat \<Rightarrow> queue_op \<Rightarrow> pb_scalar list \<Rightarrow> queue_result \<times> pb_scalar list" where
  "queue_step cap (Put vs) xs = (if length xs + length vs \<le> cap then ((True, []), xs @ vs) else ((False, []), xs))"
| "queue_step cap (Get n) xs = (if n \<le> length xs then ((True, map VScalar (take n xs)), drop n xs) else ((False, []), xs))"

fun queue_run :: "nat \<Rightarrow> queue_op list \<Rightarrow> pb_scalar list \<Rightarrow> queue_result list \<times> pb_scalar list" where
  "queue_run cap [] xs = ([], xs)"
| "queue_run cap (op # ops) xs =
     (let (r, xs) = queue_step cap op xs; (rs, xs) = queue_run cap ops xs in (r # rs, xs))"

text \<open>The same operations on a mirror; a read fills a list that the caller gives, whatever it holds.\<close>

fun mirror_step :: "'w net_calls \<Rightarrow> fmq_mirror \<Rightarrow> py_value list \<Rightarrow> queue_op \<Rightarrow> ('w, queue_result) tcp_action" where
  "mirror_step N q buf (Put vs) = bindA (fmq_write N q (map VScalar vs) (int (length vs))) (\<lambda>ok. returnA (ok, []))"
| "mirror_step N q buf (Get n) =
     (\<lambda>s. let (r, s', data) = fmq_read N q (int n) (s, buf) in (bindR r (\<lambda>ok. Inr (ok, data)), s'))"

fun mirror_run :: "'w net_calls \<Rightarrow> fmq_mirror \<Rightarrow> py_value list \<Rightarrow> queue_op list \<Rightarrow> ('w, queue_result list) tcp_action" where
  "mirror_run N q buf [] = returnA []"
| "mirror_run N q buf (op # ops) = bindA (mirror_step N q buf op) (\<lambda>r. bindA (mirror_run N q buf ops) (\<lambda>rs. returnA (r # rs)))"

text \<open>
  What the device and the message library have to do: the fields of the requests keep the values \<open>vals\<close> of the queue and sizes below \<open>bound\<close>, and
  the driver answers a write and a read for a queue of \<open>cap\<close> elements whose content is that of the state outside.
\<close>

definition element_msg :: "string \<Rightarrow> pb_scalar \<Rightarrow> var_msg" where
  "element_msg ty x = VarMsg (empty_fields\<lparr>vtype := TYPE_SCALAR, scalar_type := ty, scalar_value := [(ty, x)]\<rparr>) [] [] [] [] []"

definition fmq_command :: "fmq_mirror \<Rightarrow> int \<Rightarrow> pb_message \<Rightarrow> pb_message" where
  "fmq_command q operation flds = [(''fmq_request'', VDict (fmq_template q operation (queue_id q) @ flds))]"

definition keeps_field :: "'w net_calls \<Rightarrow> string \<times> py_value \<Rightarrow> bool" where
  "keeps_field N p \<longleftrightarrow> set_field N ''FmqRequestMessage'' (fst p) (snd p) = Inr (snd p)"

definition queue_fields_ok :: "'w net_calls \<Rightarrow> fmq_mirror \<Rightarrow> pb_scalar set \<Rightarrow> nat \<Rightarrow> bool" where
  "queue_fields_ok N q vals bound \<longleftrightarrow>
     (\<forall>operation \<in> {FMQ_READ, FMQ_WRITE}. \<forall>p \<in> set (fmq_template q operation (queue_id q)). keeps_field N p) \<and>
     (\<forall>n < bound. keeps_field N (''read_data_size'', pint (int n))) \<and>
     (\<forall>x \<in> vals. set_scalar (scalar_runtime N) (fmq_data_type q) (VScalar x) = Inr x)"

definition queue_driver :: "'w net_calls \<Rightarrow> fmq_mirror \<Rightarrow> ('w \<Rightarrow> pb_scalar list) \<Rightarrow> nat \<Rightarrow> pb_scalar set \<Rightarrow> nat \<Rightarrow> bool" where
  "queue_driver N q content cap vals bound \<longleftrightarrow>
     (\<forall>w vs. set vs \<subseteq> vals \<longrightarrow> (\<exists>r w'.
        exchange N VTS_FMQ_COMMAND (fmq_command q FMQ_WRITE [(''write_data'', VList (map (VMsg \<circ> element_msg (fmq_data_type q)) vs))]) w r w' \<and>
        fmq_success (fmq_response r) = (length (content w) + length vs \<le> cap) \<and>
        content w' = (if length (content w) + length vs \<le> cap then content w @ vs else content w))) \<and>
     (\<forall>w. \<forall>n < bound. \<exists>r w'.
        exchange N VTS_FMQ_COMMAND (fmq_command q FMQ_READ [(''read_data_size'', pint (int n))]) w r w' \<and>
        (if n \<le> length (content w)
         then fmq_success (fmq_response r) \<and> content w' = drop n (content w) \<and>
           fmq_read_data (fmq_response r) = map (element_msg (fmq_data_type q)) (take n (content w))
         else \<not> fmq_success (fmq_response r) \<and> content w' = content w))"

definition op_ok :: "pb_scalar set \<Rightarrow> nat \<Rightarrow> queue_op \<Rightarrow> bool" where
  "op_ok vals bound op = (case op of Put vs \<Rightarrow> set vs \<subseteq> vals | Get n \<Rightarrow> n < bound)"

lemma assign_kept:
  assumes "\<forall>p \<in> set ps. keeps_field N p"
  shows "assign N ''FmqRequestMessage'' ps = returnA ps"
proof -
  have "mapR (\<lambda>(f, v). bindR (set_field N ''FmqRequestMessage'' f v) (\<lambda>v. Inr (f, v))) ps = Inr ps"
    using assms by (induction ps) (auto simp: keeps_field_def)
  then show ?thesis by (simp add: assign_def fun_eq_iff action_defs)
qed

lemma prepareWriteData_scalars:
  "ty \<in> set SUPPORTED_SCALAR_TYPES \<Longrightarrow> (\<forall>x \<in> set vs. set_scalar (scalar_runtime N) ty (VScalar x) = Inr x) \<Longrightarrow>
   prepareWriteData N ty (map VScalar vs) = Inr (Some (map (VMsg \<circ> element_msg ty) vs))"
  by (induction vs) (auto simp: set_scalar_field_def element_msg_def scalar_msg_def set_flat_def empty_fields_def)

lemma element_read: "ty \<noteq> [] \<Longrightarrow> GetPythonDataOfVariableSpecMsg pb (element_msg ty x) = Inr (VScalar x)"
  by (simp add: element_msg_def scalar_attr_def)

lemma extract_loop:
  "ty \<noteq> [] \<Longrightarrow>
   for_eachA (map (element_msg ty) xs) (\<lambda>item.
     bindA (liftA (GetPythonDataOfVariableSpecMsg pb item)) (\<lambda>v. modifyA (\<lambda>(s, data). (s, data @ [v])))) (s, data) =
   (Inr (), s, data @ map VScalar xs)"
  by (induction xs arbitrary: data) (simp_all add: element_read action_defs)

lemma extract_elements:
  "ty \<noteq> [] \<Longrightarrow> fmq_read_data r = map (element_msg ty) xs \<Longrightarrow>
   extractReadData N r (s, data) = (Inr (), s, data @ map VScalar xs)"
  by (simp add: extractReadData_def extract_loop)

lemma SendFmqRequest_exchange:
  assumes "exchange N VTS_FMQ_COMMAND [(''fmq_request'', VDict m)] (net s) r w'" "has_channel s"
  shows "SendFmqRequest N m s = (Inr (Some (fmq_response r)), s\<lparr>net := w'\<rparr>)"
proof -
  have c: "command_msg [(''fmq_request'', VDict m)] = [(''fmq_request'', VDict m)]"
    by (simp add: command_msg_def COMMAND_FIELDS_def command_field_def)
  have t: "map_of COMMAND_TYPE_NAME VTS_FMQ_COMMAND \<noteq> None" by (simp add: COMMAND_TYPE_NAME_def VTS_FMQ_COMMAND_def)
  have "exchange N VTS_FMQ_COMMAND (command_msg [(''fmq_request'', VDict m)]) (net s) r w'" using assms(1) c by simp
  from request_exchange [OF this assms(2) t]
  have "request N VTS_FMQ_COMMAND [(''fmq_request'', VDict m)] 0 s = (Inr (Some r), s\<lparr>net := w'\<rparr>)" .
  then show ?thesis by (simp add: SendFmqRequest_def bindA_def returnA_def CheckResourceCommandResponse_def)
qed

lemma supported_nonempty: "ty \<in> set SUPPORTED_SCALAR_TYPES \<Longrightarrow> ty \<noteq> []"
  by (auto simp: SUPPORTED_SCALAR_TYPES_def)

lemma mirror_put:
  assumes d: "queue_driver N q content cap vals bound" "queue_fields_ok N q vals bound"
    and ty: "fmq_data_type q \<in> set SUPPORTED_SCALAR_TYPES" and c: "has_channel s" and vs: "set vs \<subseteq> vals"
  shows "\<exists>w'. mirror_step N q buf (Put vs) s = (Inr (fst (queue_step cap (Put vs) (content (net s)))), s\<lparr>net := w'\<rparr>) \<and>
    content w' = snd (queue_step cap (Put vs) (content (net s)))"
proof -
  let ?ms = "map (VMsg \<circ> element_msg (fmq_data_type q)) vs"
  from d(1) vs obtain r w' where r: "exchange N VTS_FMQ_COMMAND (fmq_command q FMQ_WRITE [(''write_data'', VList ?ms)]) (net s) r w'"
    "fmq_success (fmq_response r) = (length (content (net s)) + length vs \<le> cap)"
    "content w' = (if length (content (net s)) + length vs \<le> cap then content (net s) @ vs else content (net s))"
    unfolding queue_driver_def by blast
  have t: "assign N ''FmqRequestMessage'' (fmq_template q FMQ_WRITE (queue_id q)) = returnA (fmq_template q FMQ_WRITE (queue_id q))"
    and e: "assign N ''FmqRequestMessage'' [] = returnA []"
    using d(2) by (auto intro!: assign_kept simp: queue_fields_ok_def)
  have p: "prepareWriteData N (fmq_data_type q) (py_upto (int (length vs)) (map VScalar vs)) = Inr (Some ?ms)"
  proof -
    have "\<forall>x \<in> set vs. set_scalar (scalar_runtime N) (fmq_data_type q) (VScalar x) = Inr x"
      using d(2) vs by (auto simp: queue_fields_ok_def)
    from prepareWriteData_scalars [OF ty this] show ?thesis by (simp add: py_upto_def)
  qed
  from SendFmqRequest_exchange [OF r(1) [unfolded fmq_command_def] c] r(2,3) t e p show ?thesis
    by (intro exI [of _ w'], simp add: fmq_write_def fmq_write_with_def succeeded_def) (simp add: action_defs)
qed

lemma mirror_get:
  assumes d: "queue_driver N q content cap vals bound" "queue_fields_ok N q vals bound"
    and ty: "fmq_data_type q \<in> set SUPPORTED_SCALAR_TYPES" and c: "has_channel s" and n: "n < bound"
  shows "\<exists>w'. mirror_step N q buf (Get n) s = (Inr (fst (queue_step cap (Get n) (content (net s)))), s\<lparr>net := w'\<rparr>) \<and>
    content w' = snd (queue_step cap (Get n) (content (net s)))"
proof -
  from d(1) n obtain r w' where r: "exchange N VTS_FMQ_COMMAND (fmq_command q FMQ_READ [(''read_data_size'', pint (int n))]) (net s) r w'"
    and ok: "if n \<le> length (content (net s))
      then fmq_success (fmq_response r) \<and> content w' = drop n (content (net s)) \<and>
        fmq_read_data (fmq_response r) = map (element_msg (fmq_data_type q)) (take n (content (net s)))
      else \<not> fmq_success (fmq_response r) \<and> content w' = content (net s)"
    unfolding queue_driver_def by blast
  have "assign N ''FmqRequestMessage'' (fmq_template q FMQ_READ (queue_id q) @ [(''read_data_size'', pint (int n))]) =
      returnA (fmq_template q FMQ_READ (queue_id q) @ [(''read_data_size'', pint (int n))])"
    using d(2) n by (auto intro!: assign_kept simp: queue_fields_ok_def)
  with SendFmqRequest_exchange [OF r [unfolded fmq_command_def] c]
  have req: "fmq_request N q FMQ_READ (queue_id q) [(''read_data_size'', pint (int n))] s = (Inr (Some (fmq_response r)), s\<lparr>net := w'\<rparr>)"
    by (simp add: fmq_request_def)
  have "fmq_read N q (int n) (s, buf) =
      (if fmq_success (fmq_response r) then seqA (extractReadData N (fmq_response r)) (returnA True) (s\<lparr>net := w'\<rparr>, [])
       else (Inr False, s\<lparr>net := w'\<rparr>, []))"
    by (simp add: fmq_read_def fmq_read_with_def clientA_def action_defs req)
  with ok extract_elements [OF supported_nonempty [OF ty], of "fmq_response r" "take n (content (net s))" N] show ?thesis
    by (auto simp: seqA_def bindA_def returnA_def split: if_splits)
qed

lemma mirror_step_refines:
  assumes "queue_driver N q content cap vals bound" "queue_fields_ok N q vals bound" "fmq_data_type q \<in> set SUPPORTED_SCALAR_TYPES"
    and "has_channel s" "op_ok vals bound op"
  shows "\<exists>w'. mirror_step N q buf op s = (Inr (fst (queue_step cap op (content (net s)))), s\<lparr>net := w'\<rparr>) \<and>
    content w' = snd (queue_step cap op (content (net s)))"
  using mirror_put [OF assms(1-4)] mirror_get [OF assms(1-4)] assms(5) by (cases op) (simp_all only: op_ok_def queue_op.case)

text \<open>(C20) The mirror of a fast message queue is a bounded queue: on a device that keeps the queue, every sequence of writes and reads through the mirror, the client
  and the channel gives the results of the specification, and leaves the content that it leaves. In particular elements come out in the
  order in which they went in, unchanged, and a write that does not fit changes nothing.\<close>

theorem fmq_refines_queue:
  assumes "queue_driver N q content cap vals bound" "queue_fields_ok N q vals bound" "fmq_data_type q \<in> set SUPPORTED_SCALAR_TYPES"
    and "has_channel s" "\<forall>op \<in> set ops. op_ok vals bound op"
  shows "\<exists>w'. mirror_run N q buf ops s = (Inr (fst (queue_run cap ops (content (net s)))), s\<lparr>net := w'\<rparr>) \<and>
    content w' = snd (queue_run cap ops (content (net s)))"
  using assms(4,5)
proof (induction ops arbitrary: s)
  case Nil
  have "s = s\<lparr>net := net s\<rparr>" by simp
  then show ?case by (intro exI [of _ "net s"]) (simp add: returnA_def)
next
  case (Cons op ops)
  then obtain w where w: "mirror_step N q buf op s = (Inr (fst (queue_step cap op (content (net s)))), s\<lparr>net := w\<rparr>)"
    "content w = snd (queue_step cap op (content (net s)))"
    using mirror_step_refines [OF assms(1-3), of s op buf] by auto
  from Cons.IH [of "s\<lparr>net := w\<rparr>"] Cons.prems w show ?case
    by (auto simp: bindA_def returnA_def split: prod.split)
qed

text \<open>
  A device for the examples, with one queue of bytes, of four elements. The channel keeps the last message that was written; \<open>flush\<close> makes the device
  answer it. A message is a letter for the operation followed by the elements, or by the number of elements to read.
\<close>

record byte_device =
  dev_queue :: string
  dev_out :: string
  dev_in :: string

definition byte_content :: "byte_device \<Rightarrow> pb_scalar list" where
  "byte_content w = map (\<lambda>c. SInt (of_char c)) (dev_queue w)"

definition byte_of :: "py_value \<Rightarrow> char" where
  "byte_of v = (case v of VMsg m \<Rightarrow> (case map_of (scalar_value (flat m)) ''uint8_t'' of Some (SInt i) \<Rightarrow> char_of (nat i) | _ \<Rightarrow> CHR 0x00)
     | _ \<Rightarrow> CHR 0x00)"

definition byte_serialize :: "int \<Rightarrow> pb_message \<Rightarrow> tcp_exc + string" where
  "byte_serialize t cmd =
     (case map_of cmd ''fmq_request'' of
        Some (VDict flds) \<Rightarrow>
          (case (map_of flds ''write_data'', map_of flds ''read_data_size'') of
             (Some (VList ms), _) \<Rightarrow> Inr (CHR ''W'' # map byte_of ms)
           | (None, Some (VScalar (SInt n))) \<Rightarrow> Inr [CHR ''R'', char_of (nat n)]
           | _ \<Rightarrow> Inl DecodeError)
      | _ \<Rightarrow> Inr ''X'')"

definition byte_answer :: "string \<Rightarrow> string \<Rightarrow> string \<times> string" where
  "byte_answer message xs =
     (case message of
        op # cs \<Rightarrow>
          if op = CHR ''W'' then (if length xs + length cs \<le> 4 then (''S'', xs @ cs) else (''F'', xs))
          else if op = CHR ''R'' then (let n = of_char (hd cs) in if n \<le> length xs then (CHR ''S'' # take n xs, drop n xs) else (''F'', xs))
          else (''F'', xs)
      | [] \<Rightarrow> (''F'', xs))"

definition byte_parse :: "string \<Rightarrow> tcp_exc + agent_response" where
  "byte_parse data =
     (case data of
        [] \<Rightarrow> Inl DecodeError
      | c # cs \<Rightarrow> Inr \<lparr>response_code = (if c = CHR ''S'' then SUCCESS else 2), resp_result = [], file_names = [], resp_stdout = [], resp_stderr = [],
          resp_exit_code = [], resp_spec = [],
          fmq_response = \<lparr>fmq_read_data = map (\<lambda>c. element_msg ''uint8_t'' (SInt (of_char c))) cs, sizet_return_val = 0, fmq_queue_id = 0,
            fmq_success = (c = CHR ''S'')\<rparr>,
          hidl_memory_response = \<lparr>memory_success = False, new_mem_id = 0, mem_size = 0, memory_read_data = []\<rparr>,
          hidl_handle_response = \<lparr>handle_success = False, new_handle_id = 0, handle_read_data = [], write_data_size = 0\<rparr>\<rparr>)"

definition empty_component :: component_spec where
  "empty_component = \<lparr>spec_imports = [], spec_attributes = [], spec_class = 0, spec_type = 0, spec_version_major = - 1,
     spec_version_minor = - 1, spec_package = [], interface_apis = [], interface_attributes = []\<rparr>"

definition byte_net :: "byte_device net_calls" where
  "byte_net = \<lparr>
     create_connection = (\<lambda>_ _ _ w. (Inr (), w)), close_connection = (\<lambda>w. w), wait_second = (\<lambda>w. w),
     chan_write = (\<lambda>m w. (Inr (), w\<lparr>dev_out := m\<rparr>)),
     chan_flush = (\<lambda>w. let (resp, xs) = byte_answer (dev_out w) (dev_queue w) in
       (Inr (), w\<lparr>dev_queue := xs, dev_in := line_of (length resp) @ resp\<rparr>)),
     chan_readline = (\<lambda>w. (Inr (takeWhile (\<lambda>c. c \<noteq> CHR 0x0A) (dev_in w) @ [CHR 0x0A]),
       w\<lparr>dev_in := tl (dropWhile (\<lambda>c. c \<noteq> CHR 0x0A) (dev_in w))\<rparr>)),
     chan_read = (\<lambda>n w. (Inr (take (nat n) (dev_in w)), w\<lparr>dev_in := drop (nat n) (dev_in w)\<rparr>)),
     serialize_command = byte_serialize,
     set_field = (\<lambda>_ _ v. Inr v), parse_response = byte_parse,
     scalar_runtime = \<lparr>set_scalar = (\<lambda>_ v. case v of VScalar x \<Rightarrow> Inr x | _ \<Rightarrow> Inl TypeError), unset_scalar = (\<lambda>_. Inl AttributeError)\<rparr>,
     str_error = (\<lambda>_. ''error''),
     merge_function = (\<lambda>_. \<lparr>fn_name = [], fn_args = [], return_type = None, return_type_hidl = [], raw_coverage_data = []\<rparr>),
     merge_component = (\<lambda>_. empty_component), merge_component_strict = (\<lambda>_. Inr empty_component)\<rparr>"

definition byte_queue :: fmq_mirror where
  "byte_queue = ResourceFmqMirror ''uint8_t'' True 0"

lemma digits_no_newline: "CHR 0x0A \<notin> set (digits_of n)"
proof (induction n rule: digits_of.induct)
  case (1 n)
  have "digit_of (CHR 0x0A) = None" by (simp add: digit_of_def)
  then have d: "CHR 0x0A \<noteq> char_of (48 + d)" if "d < 10" for d :: nat
    using digit_of_char [OF that] by (metis option.distinct(1))
  show ?case using 1 d [of n] d [of "n mod 10"] by (subst digits_of.simps) simp
qed

lemma byte_exchange:
  assumes "serialize_command byte_net t cmd = Inr message" "byte_answer message (dev_queue w) = (data, xs)" "byte_parse data = Inr r"
  shows "exchange byte_net t cmd w r (w\<lparr>dev_out := message, dev_queue := xs, dev_in := []\<rparr>)"
proof -
  have "CHR 0x0A \<notin> set (str_int (int (length data)))" using digits_no_newline by (simp add: str_int_def)
  then have "takeWhile (\<lambda>c. c \<noteq> CHR 0x0A) (str_int (int (length data)) @ CHR 0x0A # data) = str_int (int (length data))"
    "dropWhile (\<lambda>c. c \<noteq> CHR 0x0A) (str_int (int (length data)) @ CHR 0x0A # data) = CHR 0x0A # data"
    by (auto simp: takeWhile_append2 dropWhile_append2 takeWhile_append dropWhile_append)
  with assms show ?thesis
    unfolding exchange_def by (auto simp: byte_net_def line_of_def)
qed

lemma byte_fields: "queue_fields_ok byte_net byte_queue vals bound"
  by (auto simp: queue_fields_ok_def keeps_field_def byte_net_def)

lemma map_byte_of: "map byte_of (map (VMsg \<circ> element_msg ''uint8_t'') (map (\<lambda>c. SInt (of_char c)) cs)) = cs"
  by (induction cs) (simp_all add: byte_of_def element_msg_def)

lemma byte_values:
  assumes "set vs \<subseteq> range (\<lambda>c. SInt (of_char c))"
  obtains cs where "vs = map (\<lambda>c. SInt (of_char c)) cs"
  using assms by (metis ex_map_conv image_subset_iff rangeE subset_iff)

lemma byte_driver: "queue_driver byte_net byte_queue byte_content 4 (range (\<lambda>c. SInt (of_char c))) 256"
  unfolding queue_driver_def
proof (intro conjI allI impI)
  fix w :: byte_device and vs :: "pb_scalar list"
  assume "set vs \<subseteq> range (\<lambda>c. SInt (of_char c))"
  then obtain cs where cs: "vs = map (\<lambda>c. SInt (of_char c)) cs" by (rule byte_values)
  let ?cmd = "fmq_command byte_queue FMQ_WRITE [(''write_data'', VList (map (VMsg \<circ> element_msg (fmq_data_type byte_queue)) vs))]"
  have m: "serialize_command byte_net VTS_FMQ_COMMAND ?cmd = Inr (CHR ''W'' # cs)"
    using map_byte_of [of cs]
    by (simp add: byte_net_def byte_serialize_def fmq_command_def fmq_template_def byte_queue_def ResourceFmqMirror_def cs del: map_map)
  obtain data xs where a: "byte_answer (CHR ''W'' # cs) (dev_queue w) = (data, xs)" by (cases "byte_answer (CHR ''W'' # cs) (dev_queue w)")
  then obtain r where r: "byte_parse data = Inr r" by (auto simp: byte_answer_def byte_parse_def split: if_splits)
  show "\<exists>r w'. exchange byte_net VTS_FMQ_COMMAND ?cmd w r w' \<and>
      fmq_success (fmq_response r) = (length (byte_content w) + length vs \<le> 4) \<and>
      byte_content w' = (if length (byte_content w) + length vs \<le> 4 then byte_content w @ vs else byte_content w)"
    using byte_exchange [OF m a r] a r
    by (intro exI conjI) (auto simp: byte_answer_def byte_parse_def byte_content_def cs split: if_splits)
next
  fix w :: byte_device and n :: nat
  assume n: "n < 256"
  let ?cmd = "fmq_command byte_queue FMQ_READ [(''read_data_size'', pint (int n))]"
  have m: "serialize_command byte_net VTS_FMQ_COMMAND ?cmd = Inr [CHR ''R'', char_of n]"
    by (simp add: byte_net_def byte_serialize_def fmq_command_def fmq_template_def)
  obtain data xs where a: "byte_answer [CHR ''R'', char_of n] (dev_queue w) = (data, xs)"
    by (cases "byte_answer [CHR ''R'', char_of n] (dev_queue w)")
  then obtain r where r: "byte_parse data = Inr r" by (auto simp: byte_answer_def byte_parse_def Let_def split: if_splits)
  have "of_char (char_of n) = n" using n by simp
  then show "\<exists>r w'. exchange byte_net VTS_FMQ_COMMAND ?cmd w r w' \<and>
      (if n \<le> length (byte_content w)
       then fmq_success (fmq_response r) \<and> byte_content w' = drop n (byte_content w) \<and>
         fmq_read_data (fmq_response r) = map (element_msg (fmq_data_type byte_queue)) (take n (byte_content w))
       else \<not> fmq_success (fmq_response r) \<and> byte_content w' = byte_content w)"
    using byte_exchange [OF m a r] a r
    by (intro exI conjI) (auto simp: byte_answer_def byte_parse_def byte_content_def Let_def byte_queue_def ResourceFmqMirror_def
        take_map drop_map split: if_splits)
qed

definition byte_client :: "byte_device tcp_client" where
  "byte_client = (VtsTcpClient ''adb_forwarding'' DEFAULT_SOCKET_TIMEOUT_SECS \<lparr>dev_queue = [], dev_out = [], dev_in = []\<rparr>)
     \<lparr>connected := True, has_channel := True\<rparr>"

theorem fmq_refines_queue_witness:
  "fst (mirror_run byte_net byte_queue [VNone] [Put [SInt 7, SInt 9], Put [SInt 1, SInt 2, SInt 3], Get 1, Get 2] byte_client) =
     Inr [(True, []), (False, []), (True, [VScalar (SInt 7)]), (False, [])]"
proof -
  have "SInt i \<in> range (\<lambda>c. SInt (of_char c))" if "0 \<le> i" "i < 256" for i
    using that by (intro image_eqI [of _ _ "char_of i"]) simp_all
  then have ok: "\<forall>op \<in> set [Put [SInt 7, SInt 9], Put [SInt 1, SInt 2, SInt 3], Get 1, Get 2]. op_ok (range (\<lambda>c. SInt (of_char c))) 256 op"
    by (simp add: op_ok_def)
  have "fmq_data_type byte_queue \<in> set SUPPORTED_SCALAR_TYPES" "has_channel byte_client" "byte_content (net byte_client) = []"
    by (simp_all add: byte_queue_def ResourceFmqMirror_def SUPPORTED_SCALAR_TYPES_def byte_client_def byte_content_def VtsTcpClient_def)
  with fmq_refines_queue [OF byte_driver byte_fields _ _ ok, of byte_client "[VNone]"] show ?thesis by auto
qed

theorem ExecuteShellCommand_no_except_witness:
  "\<exists>res s'. ExecuteShellCommand byte_net (VList [VStr ''ls'', VStr ''id'']) True byte_client = (Inr res, s') \<and>
     (\<not> tcp_Heal s' \<longrightarrow> sh_exit_code res \<in> {ExitCode (- 1), ExitCodes [- 1, - 1]})"
  using ExecuteShellCommand_no_except [of "VList [VStr ''ls'', VStr ''id'']" 2 byte_net byte_client]
  by (auto simp: py_len_def numeral_2_eq_2)

subsection \<open>What the code does otherwise than it says\<close>

text \<open>The table of names has no entry for \<open>PING\<close>, so that \<open>Ping\<close> raises before it sends anything.\<close>

lemma Ping_raises: "has_channel s \<Longrightarrow> Ping N s = (Inl (PyError KeyError), s)"
  by (simp add: Ping_def request_def SendCommand_def COMMAND_TYPE_NAME_def PING_def action_defs)

text \<open>A call that returns a submodule raises instead of giving a mirror of it.\<close>

lemma submodule_raises:
  assumes "request N CALL_API [(''arg'', VStr arg), (''caller_uid'', uid)] 0 s = (Inr (Some r), s')"
    and "response_code r = SUCCESS" "resp_result r \<noteq> ''error''" "returned_type (merge_function N (resp_result r)) = TYPE_SUBMODULE"
  shows "CallApi N arg uid s = (Inl (PyError TypeError), s')"
  using assms by (simp add: CallApi_def with_response_def bindA_def raiseA_def Let_def)

text \<open>
  The response code is not looked at: when the agent reports a failure and leaves out the response of the driver, the number of the new queue is the
  default 0 of the field, and the mirror takes it for that of a queue.
\<close>

lemma failed_queue_created:
  assumes "exchange N VTS_FMQ_COMMAND [(''fmq_request'', VDict (fmq_template q FMQ_CREATE qid @
        [(''queue_size'', pint n), (''blocking'', pbool b), (''reset_pointers'', pbool p)]))] (net s) r w'"
    and "has_channel s" "response_code r \<noteq> SUCCESS" "fmq_queue_id (fmq_response r) = 0"
    and "\<forall>x \<in> set (fmq_template q FMQ_CREATE qid @ [(''queue_size'', pint n), (''blocking'', pbool b), (''reset_pointers'', pbool p)]). keeps_field N x"
  shows "fmq_create N q qid n b p s = (Inr (q\<lparr>queue_id := 0\<rparr>), s\<lparr>net := w'\<rparr>)"
  using SendFmqRequest_exchange [OF assms(1,2)] assms(4) assign_kept [OF assms(5)]
  by (simp add: fmq_create_def fmq_request_def) (simp add: action_defs)

text \<open>On a client without a channel no method of a mirror reaches the device: it raises, and leaves the client and the state outside as they are.\<close>

lemma mirrors_disconnected:
  assumes "\<not> has_channel s"
  shows "\<exists>e. availableToRead N q s = (Inl e, s)" "\<exists>e. fmq_isValid N q s = (Inl e, s)" "\<exists>e. fmq_create N q qid n b p s = (Inl e, s)"
    "\<exists>e. readBytes N mem len start s = (Inl e, s)" "\<exists>e. updateBytes N mem data len start s = (Inl e, s)"
    "\<exists>e. readFile N hdl len index s = (Inl e, s)" "\<exists>e. writeFile N hdl data index s = (Inl e, s)"
  using fmq_requests.ask_disconnected [OF assms] memory_requests.ask_disconnected [OF assms] handle_requests.ask_disconnected [OF assms]
  by (simp_all add: availableToRead_def processUtilMethod_def fmq_isValid_def fmq_create_def fmq_request_def readBytes_def updateBytes_def
      memory_notify_def memory_request_def readFile_def writeFile_def handle_request_def bindA_assoc)

end
