(* ===== verification/Native_Properties.thy ===== *)
theory Native_Properties
  imports Native_Mirror Agent_Properties
begin

section \<open>Properties of the mirrors of HALs\<close>

text \<open>
  A value that a test passes to an API of a HAL goes through the converters, the client and the channel, and back; and what looking up an attribute gives.
\<close>

definition api_call :: "string \<Rightarrow> py_value \<Rightarrow> pb_message" where
  "api_call tx uid = [(''arg'', VStr tx), (''caller_uid'', uid)]"

text \<open>A device that answers a call with the message of its argument.\<close>

definition echoes :: "'w net_calls \<Rightarrow> native_access \<Rightarrow> component_spec \<Rightarrow> int \<Rightarrow> function_spec \<Rightarrow> py_value \<Rightarrow> var_msg \<Rightarrow> bool" where
  "echoes N A c d f uid m \<longleftrightarrow>
     (\<exists>tx. call_text A (spec_class c) d (f\<lparr>fn_args := [m]\<rparr>) = Inr tx \<and>
        (\<forall>w. \<exists>r w'. exchange N CALL_API (command_msg (api_call tx uid)) w r w' \<and> response_code r = SUCCESS \<and>
           resp_result r \<noteq> ''error'' \<and> merge_function N (resp_result r) = empty_function\<lparr>return_type_hidl := [m]\<rparr>))"

lemma CallApi_values:
  assumes "exchange N CALL_API (command_msg (api_call tx uid)) (net s) r w'" "has_channel s"
    and "response_code r = SUCCESS" "resp_result r \<noteq> ''error''" "merge_function N (resp_result r) = empty_function\<lparr>return_type_hidl := ms\<rparr>"
    and "mapR (GetPythonDataOfVariableSpecMsg (scalar_runtime N)) ms = Inr vs"
  shows "CallApi N tx uid s = (Inr (ValuesResult vs), s\<lparr>net := w'\<rparr>)"
proof -
  have "map_of COMMAND_TYPE_NAME CALL_API \<noteq> None" by (simp add: COMMAND_TYPE_NAME_def CALL_API_def)
  from request_exchange [OF assms(1,2) this] assms(3-6) show ?thesis
    by (simp add: CallApi_def api_call_def with_response_def empty_function_def) (simp add: Let_def returned_type_def action_defs)
qed

lemma fits_value: "fits pb spec v \<Longrightarrow> v \<noteq> VNone \<and> (\<forall>m. v \<noteq> VMsg m)"
  by (auto elim: fits.cases)

lemma translate_plain: "(\<forall>m. v \<noteq> VMsg m) \<Longrightarrow> translate_result N A v = returnA (RValue v)"
  by (cases v) (simp_all add: translate_result_def)

text \<open>(C23) A value comes back from a HAL as it was sent: if a value fits the specification of the argument of an API and the device answers the call with
  the message of the argument, the call through the mirror returns the value. On the way it is converted to a message, sent as a command, received as a response
  and converted back by the other converter.\<close>

theorem remote_call_echo:
  assumes spec: "nm_spec s = Some c" "List.find (\<lambda>f. fn_name f = api_name) (interface_apis c) = Some f" "fn_args f = [arg]"
    and api: "api_name \<noteq> ''notifySyspropsChanged''" and d: "nm_driver_id s = Some d"
    and v: "fits (scalar_runtime N) arg v" "no_empty_field (scalar_runtime N)" "named_value v"
    and echo: "\<And>m. py2pb_Convert (scalar_runtime N) (Some arg) v = Inr (Some m) \<Longrightarrow> echoes N A c d f (nm_caller_uid s) m"
    and ch: "has_channel (nm_client s)"
  shows "\<exists>w'. RemoteCall N A api_name [v] s = (Inr (RValue v), s\<lparr>nm_client := (nm_client s)\<lparr>net := w'\<rparr>\<rparr>)"
proof -
  from v obtain m where m: "py2pb_Convert (scalar_runtime N) (Some arg) v = Inr (Some m)" "pb2py_Convert (scalar_runtime N) m = Inr v" "common_msg m"
    by (rule fits_common)
  from echo [OF m(1)] obtain tx where tx: "call_text A (spec_class c) d (f\<lparr>fn_args := [m]\<rparr>) = Inr tx"
    and ex: "\<exists>r w'. exchange N CALL_API (command_msg (api_call tx (nm_caller_uid s))) (net (nm_client s)) r w' \<and> response_code r = SUCCESS \<and>
      resp_result r \<noteq> ''error'' \<and> merge_function N (resp_result r) = empty_function\<lparr>return_type_hidl := [m]\<rparr>"
    unfolding echoes_def by blast
  from ex obtain r w' where r: "exchange N CALL_API (command_msg (api_call tx (nm_caller_uid s))) (net (nm_client s)) r w'"
    "response_code r = SUCCESS" "resp_result r \<noteq> ''error''" "merge_function N (resp_result r) = empty_function\<lparr>return_type_hidl := [m]\<rparr>" by blast
  have "mapR (GetPythonDataOfVariableSpecMsg (scalar_runtime N)) [m] = Inr [v]"
    using converters_agree_aux [OF m(3)] m(2) by simp
  from CallApi_values [OF r(1) ch r(2-4) this]
  have call: "CallApi N tx (nm_caller_uid s) (nm_client s) = (Inr (ValuesResult [v]), (nm_client s)\<lparr>net := w'\<rparr>)" .
  have "GetApi api_name s = (Inr (Some f), s)" using spec(1,2) api by (simp add: GetApi_def needSpec_def action_defs)
  moreover have "convert_args (scalar_runtime N) (fn_args f) [v] = Inr [m]"
    using m(1) fits_value [OF v(1)] spec(3) by (simp add: liftN_def)
  ultimately show ?thesis
    using call spec(1) d tx fits_value [OF v(1)]
    by (auto simp: RemoteCall_def needSpec_def onClient_def liftN_def translate_plain action_defs)
qed

definition echo_message :: var_msg where
  "echo_message = VarMsg (empty_fields\<lparr>name := ''x'', vtype := TYPE_SCALAR, scalar_type := ''int32_t'', scalar_value := [(''int32_t'', SInt 7)]\<rparr>) [] [] [] [] []"

definition echo_response :: agent_response where
  "echo_response = \<lparr>response_code = SUCCESS, resp_result = [], file_names = [], resp_stdout = [], resp_stderr = [], resp_exit_code = [], resp_spec = [],
     fmq_response = \<lparr>fmq_read_data = [], sizet_return_val = 0, fmq_queue_id = 0, fmq_success = False\<rparr>,
     hidl_memory_response = \<lparr>memory_success = False, new_mem_id = 0, mem_size = 0, memory_read_data = []\<rparr>,
     hidl_handle_response = \<lparr>handle_success = False, new_handle_id = 0, handle_read_data = [], write_data_size = 0\<rparr>\<rparr>"

definition echo_net :: "byte_device net_calls" where
  "echo_net = byte_net\<lparr>scalar_runtime := example_runtime, parse_response := (\<lambda>_. Inr echo_response),
     merge_function := (\<lambda>_. empty_function\<lparr>return_type_hidl := [echo_message]\<rparr>)\<rparr>"

definition echo_access :: native_access where
  "echo_access = \<lparr>is_const = (\<lambda>_. False), interface_id = (\<lambda>_. - 1), fmq_entries = (\<lambda>_. []), memory_id = (\<lambda>_. - 1), handle_number = (\<lambda>_. - 1),
     enum_parts = (\<lambda>_. ([], [])), call_text = (\<lambda>_ _ _. Inr ''call'')\<rparr>"

definition echo_api :: function_spec where
  "echo_api = empty_function\<lparr>fn_name := ''echo'', fn_args := [example_scalar ''x'']\<rparr>"

definition echo_mirror :: "(nat, byte_device) native_mirror" where
  "echo_mirror = HalMirror byte_client False [] (Some 1) (Some (empty_component\<lparr>interface_apis := [echo_api]\<rparr>)) VNone"

lemma echo_exchange: "\<exists>w'. exchange echo_net CALL_API (command_msg (api_call ''call'' VNone)) w echo_response w'"
proof -
  have "serialize_command byte_net CALL_API (command_msg (api_call ''call'' VNone)) = Inr ''X''"
    by (simp add: byte_net_def byte_serialize_def api_call_def command_msg_def COMMAND_FIELDS_def command_field_def)
  moreover have "byte_answer ''X'' (dev_queue w) = (''F'', dev_queue w)" by (simp add: byte_answer_def)
  moreover obtain r where "byte_parse ''F'' = Inr r" by (simp add: byte_parse_def)
  ultimately have "exchange byte_net CALL_API (command_msg (api_call ''call'' VNone)) w r (w\<lparr>dev_out := ''X'', dev_queue := dev_queue w, dev_in := []\<rparr>)"
    by (rule byte_exchange)
  then show ?thesis unfolding exchange_def echo_net_def by simp blast
qed

theorem remote_call_echo_witness:
  "fst (RemoteCall echo_net echo_access ''echo'' [VScalar (SInt 7)] echo_mirror) = Inr (RValue (VScalar (SInt 7)))"
proof -
  have rt: "scalar_runtime echo_net = example_runtime" by (simp add: echo_net_def)
  have fit: "fits example_runtime (example_scalar ''x'') (VScalar (SInt 7))"
    by (rule fits_scalar) (simp_all add: example_scalar_def example_runtime_def)
  have no: "no_empty_field example_runtime" by (simp add: no_empty_field_def example_runtime_def)
  have m: "py2pb_Convert example_runtime (Some (example_scalar ''x'')) (VScalar (SInt 7)) = Inr (Some echo_message)"
    by (simp add: py2pb_Convert_def Convert_spec.simps PyValue2PbScalar_def set_scalar_field_def Let_def example_scalar_def example_runtime_def
        echo_message_def set_name_type_def set_flat_def empty_msg_def empty_fields_def)
  have "echoes echo_net echo_access (empty_component\<lparr>interface_apis := [echo_api]\<rparr>) 1 echo_api VNone echo_message"
    unfolding echoes_def using echo_exchange
    by (auto simp: echo_access_def echo_response_def echo_net_def intro!: exI [of _ echo_response])
  then show ?thesis
    using remote_call_echo [of echo_mirror "empty_component\<lparr>interface_apis := [echo_api]\<rparr>" "''echo''" echo_api "example_scalar ''x''" 1 echo_net
        "VScalar (SInt 7)" echo_access] fit no m
    by (auto simp: rt echo_mirror_def HalMirror_def echo_api_def byte_client_def)
qed

subsection \<open>What the code does otherwise than it says\<close>

text \<open>\<open>MessageGenerator\<close> converts the tuple of its arguments: for a struct it raises whatever it is given.\<close>

lemma MessageGenerator_struct_raises:
  assumes "GetAttribute A n s = (Inr (Some spec), s)" "vtype (flat spec) = TYPE_STRUCT" "args \<noteq> []"
  shows "MessageGenerator N A n args s = (Inl (NPy AttributeError), s)"
proof -
  have "py2pb_Convert (scalar_runtime N) (Some spec) (VList args) = Inl AttributeError"
    using assms(2) by (simp add: py2pb_Convert_def Convert_spec_types(4) PyDict2PbStruct.simps py_keys_def)
  with assms show ?thesis by (simp add: MessageGenerator_def Py2Pb_def liftN_def action_defs)
qed

text \<open>An interface that the device marks as invalid is a mirror of the driver -1, and not None.\<close>

lemma invalid_interface_mirrored:
  assumes "vtype (flat m) = TYPE_HIDL_INTERFACE" "interface_id A m = - 1" "nm_spec s = Some c"
    and "read_interface N (last (split_at ''::'' (predefined_type (flat m)))) c True s = (Inr spec, s')"
  shows "translate_result N A (VMsg m) s = (Inr (RMirror (Some (- 1)) spec), s')"
  using assms by (simp add: translate_result_def GetHalMirrorForInterface_def needSpec_def action_defs)

text \<open>Any attribute of a mirror whose specification was not loaded ends the process.\<close>

lemma unloaded_mirror_exits:
  "nm_spec s = None \<Longrightarrow> n \<noteq> ''notifySyspropsChanged'' \<Longrightarrow> native_getattr N A n s = (Inl (NSystemExit 1), s)"
  by (simp add: native_getattr_def GetApi_def needSpec_def action_defs)

text \<open>A constant is found by the end of a name: any enum whose name ends with the one that is asked for will do.\<close>

lemma const_by_suffix:
  "nm_spec s = Some c \<Longrightarrow> spec_attributes c = a # as \<Longrightarrow> vtype (flat a) = TYPE_ENUM \<Longrightarrow> name (flat a) = p @ n \<Longrightarrow>
   GetConstType A n s = (Inr (Some a), s)"
  by (simp add: GetConstType_def needSpec_def is_const_type_def endswith_def action_defs)

end
