(* ===== verification/Mirror_Tracker.thy ===== *)
theory Mirror_Tracker
  imports Native_Mirror Device_Host
begin

section \<open>The tracker of mirrors (utils/python/mirror/mirror\_tracker.py, shell\_mirror.py)\<close>

text \<open>
  A device object has trackers, which create mirrors, keep them under names and release them. Clients are shared between mirrors (a caller may pass the client of
  another mirror), so that they are a list and a mirror has the position of its client. The world outside is that of \<open>Device_Host\<close>, whose adb the tracker
  uses; \<open>conn i\<close> are the socket calls of the client \<open>i\<close>. The world that is part of a client or of the callback server is the one of the tracker
  while it runs.

  An attribute that a mirror of a HAL or a library does not have is an API of its specification; here only the methods of the other mirrors are looked up on them, and
  the lookup raises.
\<close>

datatype track_exc =
    TTcp tcp_exc
  | TNative native_exc
  | TDev dev_error
  | TServer callback_exc
  | TLoading string
  | TUser string
  | TPy py_error

datatype mirror =
    HalM (mirror_client: nat) "int option" "component_spec option"
  | LibM (mirror_client: nat) "int option" "component_spec option"
  | ShellM (mirror_client: nat) bool
  | FmqM (mirror_client: nat) fmq_mirror
  | MemoryM (mirror_client: nat) int
  | HandleM (mirror_client: nat) int

record ('f, 'w) tracker_env =
  tw :: "'w world_calls"
  conn :: "nat \<Rightarrow> 'w net_calls"
  cb_calls :: "('f, 'w) callback_calls"
  target_ip :: string
  mkdtemp :: "'w \<Rightarrow> string \<times> 'w"
  rmtree :: "string \<Rightarrow> 'w \<Rightarrow> 'w"

record ('f, 'w) tracker = "'w hosted" +
  host_command_port :: "int option"
  host_callback_port :: "int option"
  tr_adb :: "string option"
  registered_mirrors :: "(string \<times> mirror) list"
  has_server :: bool
  cb_state :: "('f, 'w) callback_server"
  tr_clients :: "'w tcp_client list"
  shell_default_nohup :: bool

type_synonym ('f, 'w, 'a) track_action = "(track_exc, ('f, 'w) tracker, 'a) raising"

definition wrapE :: "('e \<Rightarrow> track_exc) \<Rightarrow> 'e + 'a \<Rightarrow> track_exc + 'a" where
  "wrapE wrap r = (case r of Inl e \<Rightarrow> Inl (wrap e) | Inr v \<Rightarrow> Inr v)"

definition onTcp :: "nat \<Rightarrow> ('w, 'a) tcp_action \<Rightarrow> ('f, 'w, 'a) track_action" where
  "onTcp i a t =
     (let (r, s) = a ((tr_clients t ! i)\<lparr>net := world t\<rparr>) in
      (wrapE TTcp r, t\<lparr>world := net s, tr_clients := (tr_clients t)[i := s]\<rparr>))"

definition onServer :: "('f, 'w, 'a) callback_action \<Rightarrow> ('f, 'w, 'a) track_action" where
  "onServer a t =
     (let (r, s) = a ((cb_state t)\<lparr>cb_world := world t\<rparr>) in (wrapE TServer r, t\<lparr>world := cb_world s, cb_state := s\<rparr>))"

definition onNative :: "nat \<Rightarrow> ('f, 'w, 'a) native_action \<Rightarrow> ('f, 'w, 'a \<times> ('f, 'w) native_mirror) track_action" where
  "onNative i a t =
     (let (r, m) = a (HalMirror ((tr_clients t ! i)\<lparr>net := world t\<rparr>) (has_server t) (cb_functions (cb_state t)) None None VNone) in
      (wrapE TNative (bindR r (\<lambda>v. Inr (v, m))),
       t\<lparr>world := net (nm_client m), tr_clients := (tr_clients t)[i := nm_client m], cb_state := (cb_state t)\<lparr>cb_functions := nm_functions m\<rparr>\<rparr>))"

definition onDev :: "(dev_error, ('f, 'w) tracker, 'a) raising \<Rightarrow> ('f, 'w, 'a) track_action" where
  "onDev a t = (let (r, t') = a t in (wrapE TDev r, t'))"

subsection \<open>Clients\<close>

definition open_client :: "('f, 'w) tracker_env \<Rightarrow> bool \<Rightarrow> ('f, 'w, nat) track_action" where
  "open_client E with_callback =
     getA (\<lambda>t. (length (tr_clients t), host_command_port t, host_callback_port t)) (\<lambda>(i, command_port, callback_port).
       seqA (modifyA (\<lambda>t. t\<lparr>tr_clients := tr_clients t @ [VtsTcpClient ''adb_forwarding'' DEFAULT_SOCKET_TIMEOUT_SECS (world t)]\<rparr>))
         (seqA (onTcp i (Connect (conn E i) (target_ip E) command_port (if with_callback then callback_port else None) SOCKET_CONN_RETRY_NUMBER None))
           (returnA i)))"

text \<open>The client that the caller gave, or a new one.\<close>

definition client_or_new :: "('f, 'w) tracker_env \<Rightarrow> nat option \<Rightarrow> ('f, 'w, nat) track_action" where
  "client_or_new E client = (case client of Some i \<Rightarrow> returnA i | None \<Rightarrow> open_client E True)"

definition register_mirror :: "string \<Rightarrow> mirror \<Rightarrow> ('f, 'w, unit) track_action" where
  "register_mirror mname m = modifyA (\<lambda>t. t\<lparr>registered_mirrors := dict_set mname m (registered_mirrors t)\<rparr>)"

subsection \<open>The object\<close>

definition startCallbackServer :: "('f, 'w) tracker_env \<Rightarrow> ('f, 'w, unit) track_action" where
  "startCallbackServer E =
     seqA (modifyA (\<lambda>t. t\<lparr>has_server := True, cb_state := CallbackServer (cb_state t)\<rparr>))
       (getA host_callback_port (\<lambda>port.
         case port of
           None \<Rightarrow> raiseA (TPy TypeError)
         | Some p \<Rightarrow>
             bindA (onServer (Start (cb_calls E) p)) (\<lambda>(_, q).
               if q \<noteq> p then raiseA (TLoading (''Failed to start a callback TcpServer at port '' @ str_int p)) else returnA ())))"

definition MirrorTracker ::
  "('f, 'w) tracker_env \<Rightarrow> int option \<Rightarrow> int option \<Rightarrow> bool \<Rightarrow> string option \<Rightarrow> (string \<times> 'f) list \<Rightarrow> 'w \<Rightarrow> (track_exc + unit) \<times> ('f, 'w) tracker" where
  "MirrorTracker E command_port callback_port start_callback_server adb fs w =
     (let t = \<lparr>world = w, host_command_port = command_port, host_callback_port = callback_port, tr_adb = adb, registered_mirrors = [],
        has_server = False, cb_state = \<lparr>cb_functions = fs, server_started = False, server_ip = [], server_port = 0, cb_world = w\<rparr>,
        tr_clients = [], shell_default_nohup = False\<rparr> in
      if start_callback_server then startCallbackServer E t else (Inr (), t))"

text \<open>\<open>CleanUp\<close> of a mirror: a handle is deleted on the device, the others disconnect their client.\<close>

definition mirror_CleanUp :: "('f, 'w) tracker_env \<Rightarrow> mirror \<Rightarrow> ('f, 'w, unit) track_action" where
  "mirror_CleanUp E m =
     onTcp (mirror_client m) (case m of
        HandleM i h \<Rightarrow> handle_CleanUp (conn E i) h
      | _ \<Rightarrow> Disconnect (conn E (mirror_client m)))"

definition tracker_CleanUp :: "('f, 'w) tracker_env \<Rightarrow> ('f, 'w, unit) track_action" where
  "tracker_CleanUp E =
     getA registered_mirrors (\<lambda>ms.
       seqA (for_eachA ms (\<lambda>nm. mirror_CleanUp E (snd nm)))
         (seqA (modifyA (\<lambda>t. t\<lparr>registered_mirrors := []\<rparr>))
           (getA has_server (\<lambda>b.
             if b then seqA (onServer (Stop (cb_calls E))) (modifyA (\<lambda>t. t\<lparr>has_server := False\<rparr>)) else returnA ()))))"

definition RemoveMirror :: "('f, 'w) tracker_env \<Rightarrow> string \<Rightarrow> ('f, 'w, unit) track_action" where
  "RemoveMirror E mirror_name =
     getA registered_mirrors (\<lambda>ms.
       case map_of ms mirror_name of
         None \<Rightarrow> raiseA (TPy KeyError)
       | Some m \<Rightarrow> seqA (mirror_CleanUp E m)
           (modifyA (\<lambda>t. t\<lparr>registered_mirrors := filter (\<lambda>nm. fst nm \<noteq> mirror_name) (registered_mirrors t)\<rparr>)))"

definition no_method :: "mirror \<Rightarrow> track_exc" where
  "no_method m =
     (case m of
        HalM _ _ spec \<Rightarrow> TNative (if spec = None then NSystemExit 1 else MirrorObjectError ''unknown api name'')
      | LibM _ _ spec \<Rightarrow> TNative (if spec = None then NSystemExit 1 else MirrorObjectError ''unknown api name'')
      | _ \<Rightarrow> TPy AttributeError)"

text \<open>Every mirror is asked, and only those of a shell can answer.\<close>

definition mirror_Heal :: "mirror \<Rightarrow> ('f, 'w, bool) track_action" where
  "mirror_Heal m =
     (case m of ShellM i enabled \<Rightarrow> getA (\<lambda>t. tcp_Heal (tr_clients t ! i)) returnA | _ \<Rightarrow> raiseA (no_method m))"

fun heal_all :: "mirror list \<Rightarrow> ('f, 'w, bool) track_action" where
  "heal_all [] = returnA True"
| "heal_all (m # ms) = bindA (mirror_Heal m) (\<lambda>b. bindA (heal_all ms) (\<lambda>c. returnA (b \<and> c)))"

definition tracker_Heal :: "('f, 'w, bool) track_action" where
  "tracker_Heal = getA registered_mirrors (\<lambda>ms. heal_all (map snd ms))"

subsection \<open>Resources\<close>

datatype queue_ref = NewQueue | QueueNamed string | QueueOf fmq_mirror | QueueOther

definition name_taken :: "string option \<Rightarrow> (string \<times> mirror) list \<Rightarrow> bool" where
  "name_taken given ms = (case given of None \<Rightarrow> False | Some n \<Rightarrow> map_of ms n \<noteq> None)"

text \<open>
  The type, the kind and the number of an existing queue: \<open>Inr None\<close> where the method logs an error and returns None.
\<close>

definition queue_source :: "queue_ref \<Rightarrow> string \<Rightarrow> bool \<Rightarrow> (string \<times> mirror) list \<Rightarrow> track_exc + (string \<times> bool \<times> int) option" where
  "queue_source existing data_type sync ms =
     (case existing of
        NewQueue \<Rightarrow> Inr (Some (data_type, sync, - 1))
      | QueueNamed n \<Rightarrow>
          (case map_of ms n of
             None \<Rightarrow> Inr None
           | Some (FmqM _ q) \<Rightarrow> Inr (Some (fmq_data_type q, fmq_sync q, queue_id q))
           | Some m \<Rightarrow> Inl (no_method m))
      | QueueOf q \<Rightarrow> Inr (Some (fmq_data_type q, fmq_sync q, queue_id q))
      | QueueOther \<Rightarrow> Inr None)"

definition InitFmq ::
  "('f, 'w) tracker_env \<Rightarrow> queue_ref \<Rightarrow> string option \<Rightarrow> string \<Rightarrow> bool \<Rightarrow> int \<Rightarrow> bool \<Rightarrow> bool \<Rightarrow> nat option \<Rightarrow> ('f, 'w, mirror option) track_action" where
  "InitFmq E existing new_queue_name data_type sync queue_size blocking reset_pointers client =
     getA registered_mirrors (\<lambda>ms.
       if name_taken new_queue_name ms then returnA None
       else
         bindA (client_or_new E client) (\<lambda>i.
         bindA (liftA (queue_source existing data_type sync ms)) (\<lambda>src.
           case src of
             None \<Rightarrow> returnA None
           | Some (ty, sy, existing_id) \<Rightarrow>
               bindA (onTcp i (fmq_create (conn E i) (ResourceFmqMirror ty sy (- 1)) existing_id queue_size blocking reset_pointers)) (\<lambda>q.
                 if queue_id q = - 1 then returnA None
                 else seqA (register_mirror (case new_queue_name of Some n \<Rightarrow> n | None \<Rightarrow> ''queue_id_'' @ str_int (queue_id q)) (FmqM i q))
                   (returnA (Some (FmqM i q)))))))"

definition InitHidlMemory :: "('f, 'w) tracker_env \<Rightarrow> int \<Rightarrow> nat option \<Rightarrow> string option \<Rightarrow> ('f, 'w, mirror option) track_action" where
  "InitHidlMemory E size_bytes client mem_name =
     getA registered_mirrors (\<lambda>ms.
       if name_taken mem_name ms then returnA None
       else
         bindA (client_or_new E client) (\<lambda>i.
         bindA (onTcp i (allocate (conn E i) (- 1) size_bytes)) (\<lambda>mem_id.
           if mem_id = - 1 then returnA None
           else seqA (register_mirror (case mem_name of Some n \<Rightarrow> n | None \<Rightarrow> ''mem_id_'' @ str_int mem_id) (MemoryM i mem_id))
             (returnA (Some (MemoryM i mem_id))))))"

definition InitHidlHandleForSingleFile ::
  "('f, 'w) tracker_env \<Rightarrow> string \<Rightarrow> string \<Rightarrow> int list \<Rightarrow> nat option \<Rightarrow> string option \<Rightarrow> ('f, 'w, mirror option) track_action" where
  "InitHidlHandleForSingleFile E filepath mode ints client handle_name =
     getA registered_mirrors (\<lambda>ms.
       if name_taken handle_name ms then returnA None
       else
         bindA (client_or_new E client) (\<lambda>i.
         bindA (onTcp i (createHandleForSingleFile (conn E i) (- 1) filepath mode ints)) (\<lambda>h.
           if h = - 1 then returnA None
           else seqA (register_mirror (case handle_name of Some n \<Rightarrow> n | None \<Rightarrow> ''handle_id_'' @ str_int h) (HandleM i h))
             (returnA (Some (HandleM i h))))))"

subsection \<open>HALs and libraries\<close>

text \<open>\<open>target_version\<close> is the text of the number. The first test looks at the minor version twice.\<close>

definition GetTargetVersion :: "string option \<Rightarrow> int option \<Rightarrow> int option \<Rightarrow> track_exc + int option \<times> int option" where
  "GetTargetVersion target_version major minor =
     (if minor \<noteq> None then Inr (major, minor)
      else
        case target_version of
          Some v \<Rightarrow> wrapE TPy (bindR (split_pair v ''.'') (\<lambda>(a, b). bindR (py_int a) (\<lambda>a. bindR (py_int b) (\<lambda>b. Inr (Some a, Some b)))))
        | None \<Rightarrow> Inl (TUser ''User has to provide a target version.''))"

definition opt_int :: "int option \<Rightarrow> py_value" where
  "opt_int i = (case i of None \<Rightarrow> VNone | Some n \<Rightarrow> pint n)"

definition InitHidlHal ::
  "('f, 'w) tracker_env \<Rightarrow> string option \<Rightarrow> int option \<Rightarrow> int option \<Rightarrow> driver_args \<Rightarrow> ('f, 'w, unit) track_action" where
  "InitHidlHal E target_version major minor a =
     bindA (liftA (GetTargetVersion target_version major minor)) (\<lambda>(major, minor).
     bindA (open_client E True) (\<lambda>i.
     bindA (onNative i (InitHalDriver (conn E i)
         (a\<lparr>da_major := opt_int major, da_minor := opt_int minor, da_handler := Some (str_or (da_handler a) (da_type a))\<rparr>))) (\<lambda>(_, m).
       register_mirror (da_type a) (HalM i (nm_driver_id m) (nm_spec m)))))"

definition InitSharedLib ::
  "('f, 'w) tracker_env \<Rightarrow> string option \<Rightarrow> int option \<Rightarrow> int option \<Rightarrow> driver_args \<Rightarrow> string option \<Rightarrow> string list \<Rightarrow> ('f, 'w, unit) track_action" where
  "InitSharedLib E target_version major minor a target_filename target_basepaths =
     bindA (liftA (GetTargetVersion target_version major minor)) (\<lambda>(major, minor).
     let handler_name = str_or (da_handler a) (da_type a) in
     bindA (open_client E False) (\<lambda>i.
     bindA (onNative i (InitLibDriver (conn E i)
         (a\<lparr>da_major := opt_int major, da_minor := opt_int minor, da_handler := Some handler_name\<rparr>) target_filename target_basepaths)) (\<lambda>(_, m).
       register_mirror handler_name (LibM i (nm_driver_id m) (nm_spec m)))))"

subsection \<open>Shells\<close>

definition DEFAULT_SHELL_NAME :: string where "DEFAULT_SHELL_NAME = ''_default''"
definition MAX_ADB_SHELL_LENGTH :: nat where "MAX_ADB_SHELL_LENGTH = 950"
definition NON_NOHUP_ADB_THRESHOLD :: nat where "NON_NOHUP_ADB_THRESHOLD = 3"

text \<open>For an empty name or a wrong number of bits the code uses a module that it does not import.\<close>

definition InvokeTerminal :: "('f, 'w) tracker_env \<Rightarrow> string \<Rightarrow> int \<Rightarrow> ('f, 'w, unit) track_action" where
  "InvokeTerminal E instance_name bits =
     (if instance_name = [] \<or> bits \<notin> {32, 64} then raiseA (TPy NameError)
      else getA registered_mirrors (\<lambda>ms.
        if map_of ms instance_name \<noteq> None then returnA ()
        else
          bindA (open_client E False) (\<lambda>i.
          bindA (onTcp i (LaunchDriverService (conn E i) VTS_DRIVER_TYPE_SHELL
              [(''service_name'', VStr (''shell_'' @ instance_name)), (''bits'', pint bits)])) (\<lambda>launched.
            if driver_number launched = 0 then raiseA (TLoading (''Failed to launch shell driver service '' @ instance_name))
            else register_mirror instance_name (ShellM i True)))))"

definition disable_shell :: "mirror \<Rightarrow> mirror" where
  "disable_shell m = (case m of ShellM i enabled \<Rightarrow> ShellM i False | _ \<Rightarrow> m)"

definition DisableShell :: "('f, 'w, unit) track_action" where
  "DisableShell = modifyA (\<lambda>t. t\<lparr>registered_mirrors := map (\<lambda>(n, m). (n, disable_shell m)) (registered_mirrors t)\<rparr>)"

definition adbA :: "(string \<Rightarrow> (dev_error, ('f, 'w) tracker, 'a) raising) \<Rightarrow> ('f, 'w, 'a) track_action" where
  "adbA call = getA tr_adb (\<lambda>serial. case serial of None \<Rightarrow> raiseA (TPy AttributeError) | Some s \<Rightarrow> onDev (call s))"

definition TMP_FILE_PREFIX :: string where "TMP_FILE_PREFIX = ''/data/local/tmp/nohup''"

text \<open>An output that is the name of a temporary file of the device is replaced by the contents of the file.\<close>

definition pull_output :: "('f, 'w) tracker_env \<Rightarrow> string \<Rightarrow> string \<Rightarrow> nat \<Rightarrow> string \<Rightarrow> ('f, 'w, string) track_action" where
  "pull_output E tmp_dir result_type index val =
     (if startswith val TMP_FILE_PREFIX
      then
        let tmp_file = path_join [tmp_dir, result_type @ str_int (int index)] in
        seqA (adbA (\<lambda>serial. adb_call (tw E) serial ''pull'' [val, tmp_file] None))
          (getA (\<lambda>t. read_file (tw E) tmp_file (world t)) (\<lambda>contents.
            case contents of
              None \<Rightarrow> raiseA (TPy IOError)
            | Some c \<Rightarrow> seqA (adbA (\<lambda>serial. adb_shell (tw E) serial (''rm -f '' @ val))) (returnA c)))
      else returnA val)"

fun pull_outputs :: "('f, 'w) tracker_env \<Rightarrow> string \<Rightarrow> string \<Rightarrow> nat \<Rightarrow> string list \<Rightarrow> ('f, 'w, string list) track_action" where
  "pull_outputs E tmp_dir result_type index [] = returnA []"
| "pull_outputs E tmp_dir result_type index (val # vals) =
     bindA (pull_output E tmp_dir result_type index val) (\<lambda>c.
       bindA (pull_outputs E tmp_dir result_type (Suc index) vals) (\<lambda>cs. returnA (c # cs)))"

definition shell_Execute :: "('f, 'w) tracker_env \<Rightarrow> nat \<Rightarrow> bool \<Rightarrow> string list \<Rightarrow> bool \<Rightarrow> ('f, 'w, shell_result) track_action" where
  "shell_Execute E i enabled command no_except =
     (if \<not> enabled
      then returnA \<lparr>sh_stdout = replicate (length command) [], sh_stderr = replicate (length command) ''VTS remote shell has been disabled.'',
        sh_exit_code = ExitCodes (replicate (length command) (- 2))\<rparr>
      else
        bindA (onTcp i (ExecuteShellCommand (conn E i) (VList (map VStr command)) no_except)) (\<lambda>result.
        bindA (\<lambda>t. let (d, w) = mkdtemp E (world t) in (Inr d, t\<lparr>world := w\<rparr>)) (\<lambda>tmp_dir.
        bindA (pull_outputs E tmp_dir ''stdout'' 0 (sh_stdout result)) (\<lambda>out.
        bindA (pull_outputs E tmp_dir ''stderr'' 0 (sh_stderr result)) (\<lambda>err.
          seqA (modifyA (\<lambda>t. t\<lparr>world := rmtree E tmp_dir (world t)\<rparr>)) (returnA (result\<lparr>sh_stdout := out, sh_stderr := err\<rparr>)))))))"

definition with_default_shell :: "('f, 'w) tracker_env \<Rightarrow> (nat \<Rightarrow> bool \<Rightarrow> ('f, 'w, 'a) track_action) \<Rightarrow> ('f, 'w, 'a) track_action" where
  "with_default_shell E k =
     seqA (getA registered_mirrors (\<lambda>ms. if map_of ms DEFAULT_SHELL_NAME = None then InvokeTerminal E DEFAULT_SHELL_NAME 32 else returnA ()))
       (getA registered_mirrors (\<lambda>ms.
         case map_of ms DEFAULT_SHELL_NAME of
           Some (ShellM i enabled) \<Rightarrow> k i enabled
         | Some m \<Rightarrow> raiseA (no_method m)
         | None \<Rightarrow> raiseA (TPy AttributeError)))"

definition ExecuteShellCmdViaVtsDriver :: "('f, 'w) tracker_env \<Rightarrow> string list \<Rightarrow> bool \<Rightarrow> ('f, 'w, shell_result) track_action" where
  "ExecuteShellCmdViaVtsDriver E commands no_except =
     with_default_shell E (\<lambda>i enabled. shell_Execute E i enabled commands no_except)"

fun adb_results :: "('f, 'w) tracker_env \<Rightarrow> string list \<Rightarrow> ('f, 'w, (string \<times> string \<times> int) list) track_action" where
  "adb_results E [] = returnA []"
| "adb_results E (cmd # cmds) =
     bindA (adbA (\<lambda>serial. exec_cmd_no_except (tw E) (adb_line serial ''shell'' [cmd]) (adb_timeout ''shell'' None))) (\<lambda>r.
       bindA (adb_results E cmds) (\<lambda>rs. returnA (r # rs)))"

definition ExecuteShellCmdViaAdbShell :: "('f, 'w) tracker_env \<Rightarrow> string list \<Rightarrow> ('f, 'w, shell_result) track_action" where
  "ExecuteShellCmdViaAdbShell E commands =
     bindA (adb_results E commands) (\<lambda>rs. returnA
       \<lparr>sh_stdout = map fst rs, sh_stderr = map (fst \<circ> snd) rs, sh_exit_code = ExitCodes (map (snd \<circ> snd) rs)\<rparr>)"

text \<open>A single command is a list of one.\<close>

definition tracker_Execute :: "('f, 'w) tracker_env \<Rightarrow> string + string list \<Rightarrow> bool \<Rightarrow> bool option \<Rightarrow> ('f, 'w, shell_result) track_action" where
  "tracker_Execute E commands no_except nohup =
     getA shell_default_nohup (\<lambda>default_nohup.
       let cmds = (case commands of Inl c \<Rightarrow> [c] | Inr cs \<Rightarrow> cs);
           nohup = (case nohup of None \<Rightarrow> default_nohup | Some b \<Rightarrow> b) in
       if \<not> nohup \<and> length cmds \<le> NON_NOHUP_ADB_THRESHOLD \<and> filter (\<lambda>cmd. length cmd > MAX_ADB_SHELL_LENGTH) cmds = []
       then ExecuteShellCmdViaAdbShell E cmds
       else ExecuteShellCmdViaVtsDriver E cmds no_except)"

definition SetConnTimeout :: "('f, 'w) tracker_env \<Rightarrow> int \<Rightarrow> ('f, 'w, unit) track_action" where
  "SetConnTimeout E secs =
     with_default_shell E (\<lambda>i enabled. modifyA (\<lambda>t. t\<lparr>tr_clients := (tr_clients t)[i := (tr_clients t ! i)\<lparr>client_timeout := secs\<rparr>]\<rparr>))"

definition GetTcpClient :: "('f, 'w) tracker \<Rightarrow> string \<Rightarrow> nat option" where
  "GetTcpClient t mirror_name = map_option mirror_client (map_of (registered_mirrors t) mirror_name)"

definition tracker_getattr :: "('f, 'w) tracker \<Rightarrow> string \<Rightarrow> mirror option" where
  "tracker_getattr t attr = map_of (registered_mirrors t) attr"

end
