(* ===== verification/Tracker_Properties.thy ===== *)
theory Tracker_Properties
  imports Mirror_Tracker Agent_Properties
begin

section \<open>Properties of the tracker of mirrors\<close>

text \<open>
  The mirrors that are registered have a client and a name of their own, in every state that a test can reach, and releasing them disconnects their clients.
  \<open>keeps\<close> follows the code of each operation once, for the invariant with a number of clients that exist.
\<close>

definition tracker_ok :: "nat \<Rightarrow> ('f, 'w) tracker \<Rightarrow> bool" where
  "tracker_ok n t \<longleftrightarrow> distinct (map fst (registered_mirrors t)) \<and>
     (\<forall>m \<in> snd ` set (registered_mirrors t). mirror_client m < length (tr_clients t)) \<and> n \<le> length (tr_clients t) \<and>
     (has_server t \<longrightarrow> server_started (cb_state t))"

named_theorems tracker_keeps "operations that keep the invariant of the tracker"

lemma keeps_onTcp [tracker_keeps]: "keeps (tracker_ok n) (onTcp i a)"
  by (rule keepsI) (simp add: onTcp_def tracker_ok_def Let_def split_beta)

lemma keeps_Stop [tracker_keeps]: "keeps (tracker_ok n) (onServer (Stop C))"
  by (rule keepsI) (auto simp: onServer_def Stop_def outA_def tracker_ok_def Let_def split_beta action_defs)

lemma keeps_onNative [tracker_keeps]: "keeps (tracker_ok n) (onNative i a)"
  by (rule keepsI) (simp add: onNative_def tracker_ok_def Let_def split_beta)

lemma keeps_adbA [tracker_keeps]: "(\<And>s. keeps (tracker_ok n) (call s)) \<Longrightarrow> keeps (tracker_ok n) (adbA call)"
  unfolding keeps_def adbA_def onDev_def by (auto simp: getA_def raiseA_def split: option.split prod.split) (metis snd_conv)

lemma keeps_callA [tracker_keeps]: "keeps (tracker_ok n) (callA f)"
  by (rule keepsI) (simp add: callA_def tracker_ok_def Let_def split_beta)

lemma keeps_adb [tracker_keeps]:
  "keeps (tracker_ok n) (adb_call W serial cmd args secs)" "keeps (tracker_ok n) (adb_shell W serial cmd)"
  "keeps (tracker_ok n) (exec_cmd_no_except W line limit)"
  unfolding adb_shell_def adb_call_def exec_cmd_def exec_cmd_no_except_def by (intro keeps_rules tracker_keeps)+

lemma keeps_register_mirror [tracker_keeps]: "mirror_client m < n \<Longrightarrow> keeps (tracker_ok n) (register_mirror mname m)"
  by (rule keepsI) (auto simp: register_mirror_def modifyA_def tracker_ok_def distinct_dict_set dest!: subsetD [OF set_dict_set])

text \<open>The rules for a new client: what follows it may use it.\<close>

lemma keeps_open_client:
  fixes f :: "nat \<Rightarrow> ('f, 'w, 'a) track_action"
  assumes "\<And>i. keeps (tracker_ok (Suc i)) (f i)"
  shows "keeps (tracker_ok n) (bindA (open_client E b) f)"
proof (rule keepsI)
  fix t :: "('f, 'w) tracker"
  assume t: "tracker_ok n t"
  let ?i = "length (tr_clients t)"
  let ?t1 = "t\<lparr>tr_clients := tr_clients t @ [VtsTcpClient ''adb_forwarding'' DEFAULT_SOCKET_TIMEOUT_SECS (world t)]\<rparr>"
  have t1: "tracker_ok (Suc ?i) ?t1" using t by (auto simp: tracker_ok_def intro: less_SucI)
  obtain r t2 where r: "onTcp ?i (Connect (conn E ?i) (target_ip E) (host_command_port t) (if b then host_callback_port t else None)
      SOCKET_CONN_RETRY_NUMBER None) ?t1 = (r, t2)" by fastforce
  from keeps_step [OF keeps_onTcp t1 r] have t2: "tracker_ok (Suc ?i) t2" .
  have weaken: "tracker_ok (Suc ?i) t' \<Longrightarrow> tracker_ok n t'" for t' :: "('f, 'w) tracker"
    using t by (auto simp: tracker_ok_def)
  show "tracker_ok n (snd (bindA (open_client E b) f t))"
    using r weaken [OF t2] weaken [OF keepsD [OF assms t2]] by (auto simp: open_client_def action_defs split: sum.split)
qed

lemma keeps_client_or_new:
  assumes "\<And>i m. i < m \<Longrightarrow> keeps (tracker_ok m) (f i)" and "\<And>i. client = Some i \<Longrightarrow> i < n"
  shows "keeps (tracker_ok n) (bindA (client_or_new E client) f)"
  using assms keeps_open_client [of f n E True] by (cases client) (auto simp: client_or_new_def)

lemma keeps_InitFmq:
  assumes "\<And>i. client = Some i \<Longrightarrow> i < n"
  shows "keeps (tracker_ok n) (InitFmq E existing qname ty sync sz blocking reset client)"
  unfolding InitFmq_def using assms
  by (intro keeps_rules keeps_client_or_new tracker_keeps) (auto intro!: keeps_rules tracker_keeps split: option.split prod.split)

lemma keeps_InitHidlMemory:
  assumes "\<And>i. client = Some i \<Longrightarrow> i < n"
  shows "keeps (tracker_ok n) (InitHidlMemory E sz client mname)"
  unfolding InitHidlMemory_def using assms
  by (intro keeps_rules keeps_client_or_new tracker_keeps) (auto intro!: keeps_rules tracker_keeps)

lemma keeps_InitHidlHandle:
  assumes "\<And>i. client = Some i \<Longrightarrow> i < n"
  shows "keeps (tracker_ok n) (InitHidlHandleForSingleFile E path mode ints client hname)"
  unfolding InitHidlHandleForSingleFile_def using assms
  by (intro keeps_rules keeps_client_or_new tracker_keeps) (auto intro!: keeps_rules tracker_keeps)

lemma keeps_InitHidlHal: "keeps (tracker_ok n) (InitHidlHal E version major minor a)"
  unfolding InitHidlHal_def by (intro keeps_rules keeps_open_client tracker_keeps) simp

lemma keeps_InitSharedLib: "keeps (tracker_ok n) (InitSharedLib E version major minor a fname paths)"
  unfolding InitSharedLib_def Let_def by (intro keeps_rules keeps_open_client tracker_keeps) simp

lemma keeps_InvokeTerminal [tracker_keeps]: "keeps (tracker_ok n) (InvokeTerminal E iname bits)"
  unfolding InvokeTerminal_def by (intro keeps_rules keeps_open_client tracker_keeps) simp

lemma keeps_mirror_CleanUp [tracker_keeps]: "keeps (tracker_ok n) (mirror_CleanUp E m)"
  unfolding mirror_CleanUp_def by (rule keeps_onTcp)

lemma keeps_tracker_CleanUp: "keeps (tracker_ok n) (tracker_CleanUp E)"
  unfolding tracker_CleanUp_def by (intro keeps_rules tracker_keeps) (auto simp: tracker_ok_def)

lemma keeps_RemoveMirror: "keeps (tracker_ok n) (RemoveMirror E mname)"
  unfolding RemoveMirror_def by (intro keeps_rules tracker_keeps) (auto simp: tracker_ok_def distinct_map_filter)

lemma keeps_DisableShell: "keeps (tracker_ok n) DisableShell"
proof -
  have client: "mirror_client (disable_shell m) = mirror_client m" for m by (cases m) (simp_all add: disable_shell_def)
  have names: "map fst (map (\<lambda>(x, m). (x, disable_shell m)) ms) = map fst ms" for ms :: "(string \<times> mirror) list" by (induction ms) auto
  have "tracker_ok n (t\<lparr>registered_mirrors := map (\<lambda>(x, m). (x, disable_shell m)) (registered_mirrors t)\<rparr>)" if "tracker_ok n t" for t :: "('f, 'w) tracker"
    using that by (fastforce simp: tracker_ok_def names client simp del: map_map)
  then show ?thesis unfolding DisableShell_def by (intro keeps_rules)
qed

lemma keeps_with_default_shell:
  "(\<And>i enabled. keeps (tracker_ok n) (k i enabled)) \<Longrightarrow> keeps (tracker_ok n) (with_default_shell E k)"
  unfolding with_default_shell_def
  by (intro keeps_rules tracker_keeps) (auto intro!: keeps_rules split: mirror.split)

lemma keeps_pull_outputs [tracker_keeps]: "keeps (tracker_ok n) (pull_outputs E d ty i vals)"
  by (induction vals arbitrary: i) (auto simp: pull_output_def Let_def intro!: keeps_rules tracker_keeps)

lemma keeps_tracker_world [tracker_keeps]: "keeps (tracker_ok n) (\<lambda>t. let (d, w) = f (world t) in (Inr d, t\<lparr>world := w\<rparr>))"
  by (rule keepsI) (simp add: tracker_ok_def split_beta)

lemma keeps_adb_results [tracker_keeps]: "keeps (tracker_ok n) (adb_results E cmds)"
  by (induction cmds) (auto intro!: keeps_rules tracker_keeps)

lemma keeps_shell_Execute: "keeps (tracker_ok n) (shell_Execute E i enabled cmds no_except)"
  unfolding shell_Execute_def by (intro keeps_rules tracker_keeps) (simp add: tracker_ok_def)

lemma keeps_tracker_Execute: "keeps (tracker_ok n) (tracker_Execute E commands no_except nohup)"
  unfolding tracker_Execute_def ExecuteShellCmdViaAdbShell_def ExecuteShellCmdViaVtsDriver_def Let_def
  by (intro keeps_rules tracker_keeps keeps_with_default_shell keeps_shell_Execute)

lemma keeps_SetConnTimeout: "keeps (tracker_ok n) (SetConnTimeout E secs)"
  unfolding SetConnTimeout_def by (intro keeps_with_default_shell keeps_rules) (simp add: tracker_ok_def)

subsection \<open>Reachable trackers\<close>

text \<open>The states of a tracker that was constructed, however its operations end; a client that a caller gives to an operation is one that exists.\<close>

inductive tracked :: "('f, 'w) tracker_env \<Rightarrow> ('f, 'w) tracker \<Rightarrow> bool" for E where
  tracked_new: "MirrorTracker E cport cbport start adb fs w = (Inr (), t) \<Longrightarrow> tracked E t"
| tracked_fmq: "tracked E t \<Longrightarrow> (\<And>i. client = Some i \<Longrightarrow> i < length (tr_clients t)) \<Longrightarrow>
    InitFmq E existing qname ty sync sz blocking reset client t = (r, t') \<Longrightarrow> tracked E t'"
| tracked_memory: "tracked E t \<Longrightarrow> (\<And>i. client = Some i \<Longrightarrow> i < length (tr_clients t)) \<Longrightarrow>
    InitHidlMemory E sz client mname t = (r, t') \<Longrightarrow> tracked E t'"
| tracked_handle: "tracked E t \<Longrightarrow> (\<And>i. client = Some i \<Longrightarrow> i < length (tr_clients t)) \<Longrightarrow>
    InitHidlHandleForSingleFile E path mode ints client hname t = (r, t') \<Longrightarrow> tracked E t'"
| tracked_hal: "tracked E t \<Longrightarrow> InitHidlHal E version major minor a t = (u, t') \<Longrightarrow> tracked E t'"
| tracked_lib: "tracked E t \<Longrightarrow> InitSharedLib E version major minor a fname paths t = (u, t') \<Longrightarrow> tracked E t'"
| tracked_shell: "tracked E t \<Longrightarrow> InvokeTerminal E iname bits t = (u, t') \<Longrightarrow> tracked E t'"
| tracked_remove: "tracked E t \<Longrightarrow> RemoveMirror E rname t = (u, t') \<Longrightarrow> tracked E t'"
| tracked_disable: "tracked E t \<Longrightarrow> DisableShell t = (u, t') \<Longrightarrow> tracked E t'"
| tracked_execute: "tracked E t \<Longrightarrow> tracker_Execute E commands no_except nohup t = (x, t') \<Longrightarrow> tracked E t'"
| tracked_timeout: "tracked E t \<Longrightarrow> SetConnTimeout E secs t = (u, t') \<Longrightarrow> tracked E t'"
| tracked_cleanup: "tracked E t \<Longrightarrow> tracker_CleanUp E t = (u, t') \<Longrightarrow> tracked E t'"

lemma Start_started: "Start C p s = (Inr x, s') \<Longrightarrow> server_started s'"
  by (auto simp: Start_def action_defs split: prod.splits sum.splits callback_exc.splits)

lemma new_tracker_ok:
  assumes "MirrorTracker E cport cbport start adb fs w = (Inr (), t)"
  shows "tracker_ok 0 t \<and> registered_mirrors t = []"
proof (cases start)
  case True
  from assms True obtain p where p: "cbport = Some p" by (cases cbport) (auto simp: MirrorTracker_def startCallbackServer_def action_defs Let_def)
  let ?t0 = "\<lparr>world = w, host_command_port = cport, host_callback_port = cbport, tr_adb = adb, registered_mirrors = [],
        has_server = True, cb_state = CallbackServer \<lparr>cb_functions = fs, server_started = False, server_ip = [], server_port = 0, cb_world = w\<rparr>,
        tr_clients = [], shell_default_nohup = False\<rparr>"
  obtain ip q where start: "onServer (Start (cb_calls E) p) ?t0 = (Inr (ip, q), t)"
    using assms True p
    by (auto simp: MirrorTracker_def startCallbackServer_def action_defs Let_def split: prod.splits sum.splits if_splits)
  then show ?thesis
    by (auto simp: onServer_def tracker_ok_def wrapE_def Let_def dest: Start_started split: prod.splits sum.splits)
qed (use assms in \<open>auto simp: MirrorTracker_def tracker_ok_def\<close>)

lemma tracker_ok_length: "tracker_ok n t \<Longrightarrow> tracker_ok (length (tr_clients t)) t" "tracker_ok n t \<Longrightarrow> tracker_ok 0 t"
  by (simp_all add: tracker_ok_def)

lemma tracked_ok: "tracked E t \<Longrightarrow> tracker_ok 0 t"
proof (induction rule: tracked.induct)
  case (tracked_fmq t client existing qname ty sync sz blocking reset r t')
  then show ?case using keeps_step [OF keeps_InitFmq tracker_ok_length(1)] tracker_ok_length(2) by metis
next
  case (tracked_memory t client sz mname r t')
  then show ?case using keeps_step [OF keeps_InitHidlMemory tracker_ok_length(1)] tracker_ok_length(2) by metis
next
  case (tracked_handle t client path mode ints hname r t')
  then show ?case using keeps_step [OF keeps_InitHidlHandle tracker_ok_length(1)] tracker_ok_length(2) by metis
qed (auto dest: new_tracker_ok keeps_step [OF keeps_InitHidlHal] keeps_step [OF keeps_InitSharedLib] keeps_step [OF keeps_InvokeTerminal]
    keeps_step [OF keeps_RemoveMirror] keeps_step [OF keeps_DisableShell] keeps_step [OF keeps_tracker_Execute] keeps_step [OF keeps_SetConnTimeout]
    keeps_step [OF keeps_tracker_CleanUp])

subsection \<open>Releasing\<close>

definition is_handle :: "mirror \<Rightarrow> bool" where
  "is_handle m = (case m of HandleM _ _ \<Rightarrow> True | _ \<Rightarrow> False)"

lemma Disconnect_ends: "\<exists>s'. Disconnect N s = (Inr (), s') \<and> \<not> connected s'"
  by (auto simp: Disconnect_def action_defs)

lemma mirror_CleanUp_ends:
  assumes "\<not> is_handle m"
  shows "\<exists>w c. mirror_CleanUp E m t = (Inr (), t\<lparr>world := w, tr_clients := (tr_clients t)[mirror_client m := c]\<rparr>) \<and> \<not> connected c"
proof -
  let ?i = "mirror_client m"
  from Disconnect_ends [of "conn E ?i" "(tr_clients t ! ?i)\<lparr>net := world t\<rparr>"] obtain c
    where "Disconnect (conn E ?i) ((tr_clients t ! ?i)\<lparr>net := world t\<rparr>) = (Inr (), c)" "\<not> connected c" by blast
  then show ?thesis using assms by (cases m) (auto simp: mirror_CleanUp_def onTcp_def wrapE_def is_handle_def)
qed

lemma CleanUp_loop:
  assumes "\<forall>nm \<in> set ms. \<not> is_handle (snd nm) \<and> mirror_client (snd nm) < length (tr_clients t)"
  shows "\<exists>w cs. for_eachA ms (\<lambda>nm. mirror_CleanUp E (snd nm)) t = (Inr (), t\<lparr>world := w, tr_clients := cs\<rparr>) \<and>
    length cs = length (tr_clients t) \<and> (\<forall>i < length cs. connected (cs ! i) \<longrightarrow> connected (tr_clients t ! i)) \<and>
    (\<forall>nm \<in> set ms. \<not> connected (cs ! mirror_client (snd nm)))"
  using assms
proof (induction ms arbitrary: t)
  case Nil
  show ?case
    by (rule exI [of _ "world t"], rule exI [of _ "tr_clients t"]) (simp add: returnA_def)
next
  case (Cons nm ms)
  let ?i = "mirror_client (snd nm)"
  from Cons.prems have i: "?i < length (tr_clients t)" by simp
  from mirror_CleanUp_ends [of "snd nm" E t] Cons.prems obtain w c
    where c: "mirror_CleanUp E (snd nm) t = (Inr (), t\<lparr>world := w, tr_clients := (tr_clients t)[?i := c]\<rparr>)" "\<not> connected c" by auto
  let ?t = "t\<lparr>world := w, tr_clients := (tr_clients t)[?i := c]\<rparr>"
  from Cons.IH [of ?t] Cons.prems obtain w' cs where IH:
    "for_eachA ms (\<lambda>nm. mirror_CleanUp E (snd nm)) ?t = (Inr (), ?t\<lparr>world := w', tr_clients := cs\<rparr>)" "length cs = length (tr_clients t)"
    "\<forall>j < length cs. connected (cs ! j) \<longrightarrow> connected ((tr_clients t)[?i := c] ! j)"
    "\<forall>nm \<in> set ms. \<not> connected (cs ! mirror_client (snd nm))" by auto
  have "\<not> connected (cs ! ?i)" using IH(2,3) i c(2) by auto
  moreover have "connected (tr_clients t ! j)" if "j < length cs" "connected (cs ! j)" for j
    using IH(2,3) c(2) that by (cases "j = ?i") auto
  ultimately show ?case using IH c(1)
    by (intro exI [of _ w'] exI [of _ cs]) (simp add: seqA_step)
qed

text \<open>(C24) Nothing stays connected: from every tracker that a test can reach, if no handle is registered and the callback server can be stopped, \<open>CleanUp\<close> ends without an
  exception; no mirror and no server is left, and the client of every mirror that was registered is disconnected, however many mirrors shared it.\<close>

theorem tracker_CleanUp_releases:
  assumes "tracked E t" and "\<forall>m \<in> snd ` set (registered_mirrors t). \<not> is_handle m"
    and "\<And>w. \<exists>w'. stop_tcp_server (cb_calls E) w = (Inr (), w')"
  shows "\<exists>t'. tracker_CleanUp E t = (Inr (), t') \<and> registered_mirrors t' = [] \<and> \<not> has_server t' \<and>
    (\<forall>m \<in> snd ` set (registered_mirrors t). \<not> connected (tr_clients t' ! mirror_client m))"
proof -
  have ok: "tracker_ok 0 t" by (rule tracked_ok [OF assms(1)])
  with assms(2) have "\<forall>nm \<in> set (registered_mirrors t). \<not> is_handle (snd nm) \<and> mirror_client (snd nm) < length (tr_clients t)"
    by (auto simp: tracker_ok_def)
  from CleanUp_loop [OF this, of E] obtain w cs where loop:
    "for_eachA (registered_mirrors t) (\<lambda>nm. mirror_CleanUp E (snd nm)) t = (Inr (), t\<lparr>world := w, tr_clients := cs\<rparr>)"
    "\<forall>nm \<in> set (registered_mirrors t). \<not> connected (cs ! mirror_client (snd nm))" by blast
  obtain w' where w': "stop_tcp_server (cb_calls E) w = (Inr (), w')" using assms(3) by blast
  have "has_server t \<longrightarrow> server_started (cb_state t)" using ok by (simp add: tracker_ok_def)
  with loop w' show ?thesis
    by (cases "has_server t") (auto simp: tracker_CleanUp_def onServer_def Stop_def outA_def wrapE_def action_defs)
qed

text \<open>A tracker for the examples: the device of \<open>byte_net\<close>, and a host on which nothing runs.\<close>

definition idle_host :: "'w world_calls" where
  "idle_host = \<lparr>ExecuteOneShellCommand = (\<lambda>_ _ w. (([], [], 0), w)), Popen_communicate = (\<lambda>_ w. (([], []), w)), Popen = (\<lambda>_ w. (0, w)),
     poll = (\<lambda>_ _. Some 0), killpg = (\<lambda>_ w. w), now = (\<lambda>_. 0), sleep = (\<lambda>_ w. w), randint_port = (\<lambda>w. (0, w)), can_bind = (\<lambda>_ _. False),
     create_dir = (\<lambda>_ _. None), read_file = (\<lambda>_ _. None), gzip_lines = (\<lambda>_ _. None), temp_name = (\<lambda>w. ([], w)), remove_file = (\<lambda>_ w. w),
     hal_CleanUp = (\<lambda>w. (True, w)), shell_Heal = (\<lambda>w. (True, w)), str_of = (\<lambda>_. [])\<rparr>"

definition idle_server :: "(unit, 'w) callback_calls" where
  "idle_server = \<lparr>start_tcp_server = (\<lambda>ip p w. (Inr (ip, p), w)), stop_tcp_server = (\<lambda>w. (Inr (), w)), rfile_readline = (\<lambda>w. (Inr [], w)),
     rfile_read = (\<lambda>_ w. (Inr [], w)), sendall = (\<lambda>_ w. (Inr (), w)), parse_request = (\<lambda>_. Inl (CallbackPy ValueError)),
     serialize_callback_response = (\<lambda>_. Inr []), call_function = (\<lambda>_ _ w. (Inr (), w)), callback_runtime = example_runtime\<rparr>"

definition demo_tracker_env :: "(unit, byte_device) tracker_env" where
  "demo_tracker_env = \<lparr>tw = idle_host, conn = (\<lambda>_. byte_net), cb_calls = idle_server, target_ip = ''localhost'', mkdtemp = (\<lambda>w. (''/tmp'', w)),
     rmtree = (\<lambda>_ w. w)\<rparr>"

definition demo_tracker :: "(unit, byte_device) tracker" where
  "demo_tracker = snd (MirrorTracker demo_tracker_env (Some 5000) None False None [] \<lparr>dev_queue = [], dev_out = [], dev_in = []\<rparr>)"

definition demo_memory_tracker :: "(unit, byte_device) tracker" where
  "demo_memory_tracker = snd (InitHidlMemory demo_tracker_env 16 None None demo_tracker)"

lemma demo_memory: "registered_mirrors demo_memory_tracker = [(''mem_id_0'', MemoryM 0 0)]"
  by code_simp

lemma demo_tracked: "tracked demo_tracker_env demo_memory_tracker"
proof -
  have "MirrorTracker demo_tracker_env (Some 5000) None False None [] \<lparr>dev_queue = [], dev_out = [], dev_in = []\<rparr> = (Inr (), demo_tracker)"
    by (simp add: demo_tracker_def MirrorTracker_def Let_def)
  then have new: "tracked demo_tracker_env demo_tracker" by (rule tracked_new)
  obtain r where "InitHidlMemory demo_tracker_env 16 None None demo_tracker = (r, demo_memory_tracker)"
    unfolding demo_memory_tracker_def by (metis prod.collapse)
  from tracked_memory [OF new _ this] show ?thesis by simp
qed

theorem tracker_CleanUp_releases_witness:
  "\<exists>t'. tracker_CleanUp demo_tracker_env demo_memory_tracker = (Inr (), t') \<and> registered_mirrors t' = [] \<and> \<not> connected (tr_clients t' ! 0)"
  using tracker_CleanUp_releases [OF demo_tracked]
  by (force simp: demo_memory is_handle_def demo_tracker_env_def idle_server_def)

subsection \<open>Shell commands\<close>

lemma adb_results_length: "tr_adb t = Some serial \<Longrightarrow>
   \<exists>rs t'. adb_results E cmds t = (Inr rs, t') \<and> length rs = length cmds \<and> tr_adb t' = Some serial"
proof (induction cmds arbitrary: t)
  case (Cons cmd cmds)
  obtain r w where r: "ExecuteOneShellCommand (tw E) (adb_line serial ''shell'' [cmd]) (adb_timeout ''shell'' None) (world t) = (r, w)" by fastforce
  from Cons.IH [of "t\<lparr>world := w\<rparr>"] Cons.prems obtain rs t' where
    "adb_results E cmds (t\<lparr>world := w\<rparr>) = (Inr rs, t')" "length rs = length cmds" "tr_adb t' = Some serial" by auto
  with r Cons.prems show ?case by (simp add: adbA_def onDev_def exec_cmd_no_except_def callA_def wrapE_def action_defs)
qed (simp add: returnA_def)

text \<open>A few short commands go through adb and give one result each: without \<open>nohup\<close>, at most three commands of at most 950 characters never raise, whatever the device
  does, and standard output, standard error and exit codes have one entry per command; neither a mirror nor a client is created.\<close>

theorem tracker_Execute_short:
  assumes "tr_adb t = Some serial" and "nohup = Some False \<or> nohup = None \<and> \<not> shell_default_nohup t"
    and "length cmds \<le> 3" "\<forall>cmd \<in> set cmds. length cmd \<le> 950"
  shows "\<exists>r codes t'. tracker_Execute E (Inr cmds) no_except nohup t = (Inr r, t') \<and> length (sh_stdout r) = length cmds \<and>
    length (sh_stderr r) = length cmds \<and> sh_exit_code r = ExitCodes codes \<and> length codes = length cmds"
proof -
  obtain rs t' where rs: "adb_results E cmds t = (Inr rs, t')" "length rs = length cmds" using adb_results_length [OF assms(1)] by blast
  have "filter (\<lambda>cmd. length cmd > MAX_ADB_SHELL_LENGTH) cmds = []"
    using assms(4) by (auto simp: filter_empty_conv MAX_ADB_SHELL_LENGTH_def)
  with rs assms(2,3) show ?thesis
    by (auto simp: tracker_Execute_def ExecuteShellCmdViaAdbShell_def NON_NOHUP_ADB_THRESHOLD_def action_defs Let_def)
qed

theorem tracker_Execute_short_witness:
  "\<exists>r t'. tracker_Execute demo_tracker_env (Inr [''ls'', ''id'']) False (Some False) (demo_tracker\<lparr>tr_adb := Some ''X''\<rparr>) = (Inr r, t') \<and>
     length (sh_stdout r) = 2"
  using tracker_Execute_short [of "demo_tracker\<lparr>tr_adb := Some ''X''\<rparr>" "''X''" "Some False" "[''ls'', ''id'']" demo_tracker_env False] by auto

subsection \<open>What the code does otherwise than it says\<close>

text \<open>\<open>Heal\<close> of a tracker raises if a mirror of a resource is registered: only shells have that method.\<close>

lemma Heal_raises:
  "registered_mirrors t = (n, m) # ms \<Longrightarrow> (case m of ShellM _ _ \<Rightarrow> False | _ \<Rightarrow> True) \<Longrightarrow> tracker_Heal t = (Inl (no_method m), t)"
  by (cases m) (simp_all add: tracker_Heal_def mirror_Heal_def action_defs)

text \<open>A handle whose client was disconnected before, for instance by the mirror that shares it, makes \<open>CleanUp\<close> raise; the mirrors stay registered and the server runs on.\<close>

lemma handle_stops_CleanUp:
  assumes "registered_mirrors t = (n, HandleM i h) # ms" and "\<not> has_channel (tr_clients t ! i)"
  shows "\<exists>e t'. tracker_CleanUp E t = (Inl e, t') \<and> registered_mirrors t' = registered_mirrors t \<and> has_server t' = has_server t"
proof -
  let ?s = "(tr_clients t ! i)\<lparr>net := world t\<rparr>"
  have "\<not> has_channel ?s" using assms(2) by simp
  then have "\<exists>e. handle_CleanUp (conn E i) h ?s = (Inl e, ?s)"
    unfolding handle_CleanUp_def handle_request_def bindA_assoc by (rule handle_requests.ask_disconnected)
  then obtain e where "handle_CleanUp (conn E i) h ?s = (Inl e, ?s)" by blast
  then have "mirror_CleanUp E (HandleM i h) t = (Inl (TTcp e), t\<lparr>world := world t, tr_clients := (tr_clients t)[i := ?s]\<rparr>)"
    by (simp add: mirror_CleanUp_def onTcp_def wrapE_def)
  with assms(1) show ?thesis by (simp add: tracker_CleanUp_def action_defs)
qed

text \<open>A major version is not required when the minor one is given.\<close>

lemma version_without_major: "GetTargetVersion v None (Some n) = Inr (None, Some n)"
  by (simp add: GetTargetVersion_def)

end
