(* ===== verification/Spec2Isabelle.thy ===== *)
theory Spec2Isabelle
  imports Execution_Properties Coverage_Report Sancov Vtable_Dumper Archives Instrumentation Vts_Spec Hal_Names Cpu_Scaling
    Proto_Values Corpus_Properties Target_Files Device_Properties Runner_Properties Native_Properties
    Tracker_Properties
begin

text \<open>
  \<^bold>\<open>The Vendor Test Suite: its host side\<close>

  The Vendor Test Suite runs tests against an Android device from a host. The host side is written in Python 2. This
  development models the parts of it that decide something: which tests run and what is recorded of them, what coverage
  files mean, what a binary contains, how values, names and commands travel between a test and the device, how devices are started and
  stopped, and how the corpus of the fuzzer is kept. Code that only moves data (the web dashboard) is left out, and so
  are the agents and drivers, which are in C++ and Java.

  \<^bold>\<open>Language.\<close> \<open>Py_Prelude\<close> and \<open>Py_Bytes\<close> model what the code uses of Python: exceptions as the left summand of a
  sum, byte strings, indexing, splitting, number parsing and little endian integers. \<open>Py_Actions\<close> adds methods that change
  an object and may raise, with \<open>try\<close>, \<open>finally\<close> and rules for preserved predicates.

  \<^bold>\<open>Running tests\<close> (runners/host). \<open>Signals_Asserts\<close>: signals.py and asserts.py. \<open>Records\<close>: the record of a test and the result of a
  class (records.py), with the locale \<open>verdict_log\<close> interpreted on \<open>addRecord\<close>. \<open>List_Utils\<close> and \<open>Test_Filter\<close>:
  list\_utils.py and filter\_utils.py, the lists that filter objects share being an explicit store; the locale
  \<open>name_selection\<close>, which a retry relies on, is interpreted on the filters. \<open>Base_Test\<close> and \<open>Test_Execution\<close>: the test class
  (base\_test.py), from the parameters through \<open>execOneTest\<close> and generated tests to \<open>run\<close> with its retries. The hooks of a test
  class, the device and the reports are an environment of arbitrary actions, so that the theorems hold for every
  script. \<open>Execution_Invariants\<close> follows the code once for an arbitrary invariant: the locales \<open>bt_invariant\<close> and \<open>bt_run_invariant\<close>
  ask that the elementary updates keep it and conclude that a run does; \<open>Execution_Verdicts\<close> interprets them on the
  partition of results, the final run flag and the retry limit, and computes the verdict of one test on every
  branch; \<open>Execution_Properties\<close> states the properties. \<open>Test_Config\<close>: config\_parser.py, from a file to one configuration per test
  bed, and the test specifiers. \<open>Test_Logger\<close>: the handlers of the root logger and the order of time stamps (logger.py). \<open>Test_Runner\<close>: the
  constructor of the test class and test\_runner.py; while a class runs, the runner is the world of the test object, so that hooks
  reach \<open>registerController\<close>. \<open>Runner_Properties\<close>: no controller is left behind, the result of a run accounts for every requested
  test, and \<open>run\<close> contains what the classes raise; it interprets \<open>bt_run_invariant\<close> on the world and on the results.

  \<^bold>\<open>Coverage\<close> (utils/python/coverage). \<open>Gcov_Stream\<close>, \<open>Gcov_Graph\<close>, \<open>Gcov_Files\<close>: the reader of coverage streams, the control
  flow graphs with the resolution of counts, and the parsers of .gcno and .gcda files; \<open>Gcov_Properties\<close>: files that
  were written are read back, the graphs are consistent for every input, and resolved counts are those of the execution.
  \<open>Coverage_Report\<close> and \<open>Sancov\<close>: the line vectors, and the .sancov files.

  \<^bold>\<open>Binaries\<close> (utils/python/library, utils/python/archive). \<open>Elf_Structs\<close>: constants and structures, as layouts that give the
  position of each field, in 32 and 64 bits. \<open>Elf_Parser\<close> and \<open>Elf_Relocations\<close>: elf\_parser.py; a generator is
  the list of what it yields with the exception that ends it. \<open>Elf_Properties\<close> and \<open>Elf_Images\<close>: encodings are read back,
  reads stay in bounds, and on a file whose bytes represent an abstract view of its sections and symbols the
  listing refines the listing of the view. \<open>Vtable_Dumper\<close>: the virtual tables, on top of the reader. \<open>Archives\<close>: the two
  readers of Unix archives, the second of which runs the ELF reader on the members.

  \<^bold>\<open>Services of the framework.\<close> \<open>Instrumentation\<close> (utils/python/instrumentation): the life cycle of events as a step relation with
  an invariant of its reachable states, and the text report. \<open>Vts_Spec\<close> (common/vts\_spec\_utils.py): HAL names, specification files
  and the closure of the imports. \<open>Hal_Names\<close> (common/cmd\_result.py, hal/hal\_service\_name\_utils.py): command results and the
  combinations of service instances. \<open>Cpu_Scaling\<close> (cpu/cpu\_frequency\_scaling.py): the controller of CPU governors, using the
  command results. \<open>Proto_Values\<close> (mirror/py2pb.py, mirror/pb2py.py): Python values to interface messages and back.

  \<^bold>\<open>Devices\<close> (utils/python/controllers, file, precondition, vndk). \<open>Device_Host\<close>: adb.py, fastboot.py and the standing processes of
  runners/host/utils.py over a world outside the program; it adds actions that may not return. \<open>Android_Device\<close>: android\_device.py, the object
  with its properties, the framework, the log and agent processes, and the functions that create, start and destroy several devices.
  \<open>Device_Properties\<close>: waiting and rebooting end if the clock runs, the services of all devices are started or none is left, a reboot
  brings them back, and the state of the framework follows the system properties. \<open>Target_Files\<close>: files and permission bits, the
  preconditions of a test (using \<open>Base_Test\<close>, \<open>Hal_Names\<close> and the device) and the VNDK directories.

  \<^bold>\<open>Agent\<close> (runners/host/tcp\_client, tcp\_server, utils/python/mirror). \<open>Agent_Client\<close>: vts\_tcp\_client.py, the commands and responses on the channel
  to the agent, over a record of socket calls. \<open>Resource_Mirrors\<close>: resource\_mirror.py, the message queues, memory regions and handles of the device. \<open>Agent_Properties\<close>: a
  request is one exchange on the channel, the mirror of a queue implements a bounded queue, and shell commands are contained; the locale \<open>resource_requests\<close> between
  mirrors and client is interpreted on its three kinds of requests. \<open>Callback_Server\<close>: callback\_server.py, with the reachable registries as an inductive predicate.
  \<open>Native_Mirror\<close>: the mirrors of HALs and libraries, which turn attributes into remote calls; \<open>Native_Properties\<close>: a value that a HAL echoes comes back unchanged.
  \<open>Mirror_Tracker\<close>: mirror\_tracker.py and shell\_mirror.py, with the clients as a store that mirrors share; \<open>Tracker_Properties\<close>: an invariant of the
  reachable trackers, and releasing disconnects every client.

  \<^bold>\<open>Corpus of the fuzzer\<close> (utils/python/gcs, utils/python/fuzzer/corpus\_manager.py, utils/python/web/feature\_utils.py). \<open>Gcs_Storage\<close>: files of a
  bucket; the client of the service is a record of calls, and \<open>storage_ok\<close> is its promise to be a finite map from names to contents.
  \<open>Corpus_Manager\<close>: the directories of the states of an input, fetching, locking and classification. \<open>Corpus_Properties\<close>: fetching ends, a lock
  keeps the others out and is given back, and the classification loses no input.

  \<^bold>\<open>Loops.\<close> No definition uses fuel. Loops that end are total functions: the parsers because every round consumes input, the
  resolution of counts because an arc is resolved or the pass ends, the binary search by its interval, the conversion of
  values by the size of the specification, retries by their limit. Six loops may not end and are partial functions with the value
  \<^const>\<open>None\<close> for that: the two over archives, which a negative size sends back, the search for imports, the loop that fetches a seed, the
  loop that polls a device and the search for a free port. For all but the last it is proved when they return: on well-formed
  archives, when finitely many HALs are reachable, when the bucket is a finite map, and when the clock runs.

  \<^bold>\<open>Parameters.\<close> The regular expression engine, files (a partial function from paths to contents), clocks, the shell of a
  device and of the host, the storage service, JSON and protocol buffer libraries, and the order in which Python runs through a set are arguments; what a theorem needs of them
  is a hypothesis of it, and its witness instantiates it.

  \<^bold>\<open>What the code does otherwise than it says.\<close> Some theorems pin down behaviour that differs from the documentation: counts
  that are not resolved although they could be, a filter's shared default lists, an interrupt that is discarded, an archive
  with an odd member that is rejected, frequencies compared as strings, instance names that are not registered, enums that can not be
  read back, and others next to the components.

  \<^bold>\<open>Not modelled.\<close> Report I/O around the test class, and the feature objects that its constructor builds; the fuzzer of
  messages in the mirrors; running host commands; the genetic part of the fuzzer, profiling, systrace and
  the web features; the test cases themselves.
\<close>

end
